(* ===== verification/Prelude.thy ===== *)
theory Prelude
  imports Main "HOL-Library.Sublist" "HOL-Library.AList" "HOL-Library.Word"
    "HOL-Library.Char_ord" "HOL-Library.List_Lexorder"
begin

text \<open>
  Shared vocabulary of the development: the parts of Go's standard library the program uses
  (\<open>strings\<close>, \<open>strconv\<close>, maps as association lists), and the generic lemmas the component
  theories rest on. Strings are byte lists, as in Go; white space is the ASCII white space.
\<close>

named_theorems go_string \<open>equations of the string functions\<close>
named_theorems go_map \<open>laws of association lists used as Go maps\<close>

section \<open>Go strings\<close>

text \<open>\<open>strings.Cut\<close>: \<open>None\<close> when the separator does not occur.\<close>

fun cut :: "string \<Rightarrow> string \<Rightarrow> (string \<times> string) option" where
  "cut sep [] = (if sep = [] then Some ([], []) else None)"
| "cut sep (c # cs) =
     (if prefix sep (c # cs) then Some ([], drop (length sep) (c # cs))
      else map_option (\<lambda>(a, b). (c # a, b)) (cut sep cs))"

text \<open>\<open>strings.LastIndex\<close> followed by slicing: the text before and after the last occurrence.\<close>

fun cut_last :: "string \<Rightarrow> string \<Rightarrow> (string \<times> string) option" where
  "cut_last sep [] = (if sep = [] then Some ([], []) else None)"
| "cut_last sep (c # cs) =
     (case cut_last sep cs of
        Some (a, b) \<Rightarrow> Some (c # a, b)
      | None \<Rightarrow> (if prefix sep (c # cs) then Some ([], drop (length sep) (c # cs)) else None))"

definition contains :: "string \<Rightarrow> string \<Rightarrow> bool" where
  "contains s sub = (cut sub s \<noteq> None)"

text \<open>\<open>strings.SplitSeq\<close> with a one-byte separator; splitting the empty string gives \<open>[[]]\<close>.\<close>

fun split_on :: "char \<Rightarrow> string \<Rightarrow> string list" where
  "split_on sep [] = [[]]"
| "split_on sep (c # cs) =
     (if c = sep then [] # split_on sep cs
      else (case split_on sep cs of [] \<Rightarrow> [[c]] | p # ps \<Rightarrow> (c # p) # ps))"

fun join_with :: "string \<Rightarrow> string list \<Rightarrow> string" where
  "join_with sep [] = []"
| "join_with sep [p] = p"
| "join_with sep (p # q # ps) = p @ sep @ join_with sep (q # ps)"

definition newline :: char where "newline = CHR 0x0A"
definition tab :: char where "tab = CHR 0x09"
definition space :: char where "space = CHR 0x20"

definition is_space :: "char \<Rightarrow> bool" where
  "is_space c = (c \<in> {CHR 0x20, CHR 0x09, CHR 0x0A, CHR 0x0B, CHR 0x0C, CHR 0x0D})"

definition trim_space :: "string \<Rightarrow> string" where
  "trim_space s = rev (dropWhile is_space (rev (dropWhile is_space s)))"

text \<open>\<open>strings.Fields\<close>: the maximal runs of non-space bytes.\<close>

function str_fields :: "string \<Rightarrow> string list" where
  "str_fields s =
     (let t = dropWhile is_space s in
      if t = [] then []
      else takeWhile (\<lambda>c. \<not> is_space c) t # str_fields (dropWhile (\<lambda>c. \<not> is_space c) t))"
  by pat_completeness auto

lemma length_dropWhile_less: "xs \<noteq> [] \<Longrightarrow> P (hd xs) \<Longrightarrow> length (dropWhile P xs) < length xs"
  by (cases xs) (auto simp: length_dropWhile_le less_Suc_eq_le)

termination str_fields
proof (relation "measure length", simp, goal_cases)
  case (1 s t)
  have "\<not> is_space (hd t)" using 1 by (metis hd_dropWhile)
  then have "length (dropWhile (\<lambda>c. \<not> is_space c) t) < length t"
    using 1 by (intro length_dropWhile_less) auto
  also have "length t \<le> length s" using 1 by (simp add: length_dropWhile_le)
  finally show ?case by simp
qed

declare str_fields.simps [simp del]

definition trim_prefix :: "string \<Rightarrow> string \<Rightarrow> string" where
  "trim_prefix s p = (if prefix p s then drop (length p) s else s)"

definition trim_suffix :: "string \<Rightarrow> string \<Rightarrow> string" where
  "trim_suffix s p = (if suffix p s then take (length s - length p) s else s)"

subsection \<open>Laws\<close>

lemma cut_single_None [go_string]: "cut [c] s = None \<longleftrightarrow> c \<notin> set s"
  by (induction s) auto

lemma cut_single_append [go_string]: "c \<notin> set a \<Longrightarrow> cut [c] (a @ c # b) = Some (a, b)"
  by (induction a) auto

lemma cut_SomeD: "cut sep s = Some (a, b) \<Longrightarrow> s = a @ sep @ b"
  by (induction sep s arbitrary: a b rule: cut.induct)
     (auto split: if_splits simp: prefix_def)

lemma cut_single_SomeD: "cut [c] s = Some (a, b) \<Longrightarrow> s = a @ c # b \<and> c \<notin> set a"
  by (induction s arbitrary: a b) (auto split: if_splits)

lemma contains_single [go_string]: "contains s [c] \<longleftrightarrow> c \<in> set s"
  by (auto simp: contains_def cut_single_None)

lemma split_on_not_Nil [simp]: "split_on c s \<noteq> []"
  by (induction s) (auto split: list.splits)

lemma split_on_no_sep [go_string]: "c \<notin> set s \<Longrightarrow> split_on c s = [s]"
  by (induction s) auto

lemma split_on_append [go_string]: "c \<notin> set a \<Longrightarrow> split_on c (a @ c # b) = a # split_on c b"
  by (induction a) auto

lemma join_split [go_string]: "join_with [c] (split_on c s) = s"
proof (induction s)
  case (Cons d s)
  obtain p ps where "split_on c s = p # ps" by (cases "split_on c s") auto
  with Cons show ?case by (cases ps) auto
qed simp

lemma split_join [go_string]:
  "ps \<noteq> [] \<Longrightarrow> \<forall>p \<in> set ps. c \<notin> set p \<Longrightarrow> split_on c (join_with [c] ps) = ps"
  by (induction "[c]" ps rule: join_with.induct) (auto simp: go_string)

lemma set_split_on: "p \<in> set (split_on c s) \<Longrightarrow> set p \<subseteq> set s \<and> c \<notin> set p"
proof (induction s arbitrary: p)
  case (Cons d s)
  obtain q qs where q: "split_on c s = q # qs" by (cases "split_on c s") auto
  have all: "\<forall>p \<in> set (q # qs). set p \<subseteq> set s \<and> c \<notin> set p" using Cons.IH q by auto
  show ?case using Cons.prems all unfolding split_on.simps q
    by (auto split: if_splits dest: bspec)
qed simp

lemma trim_space_id [go_string]:
  "s = [] \<or> (\<not> is_space (hd s) \<and> \<not> is_space (last s)) \<Longrightarrow> trim_space s = s"
proof (cases "s = []")
  case False
  moreover assume "s = [] \<or> (\<not> is_space (hd s) \<and> \<not> is_space (last s))"
  ultimately have "dropWhile is_space s = s" and "dropWhile is_space (rev s) = rev s"
    by (auto simp: dropWhile_eq_self_iff hd_rev)
  then show ?thesis by (simp add: trim_space_def)
qed (simp add: trim_space_def)

lemma fields_word [go_string]:
  assumes "w \<noteq> []" "\<forall>c \<in> set w. \<not> is_space c" "r = [] \<or> is_space (hd r)"
  shows "str_fields (w @ r) = w # str_fields r"
proof -
  have d: "dropWhile is_space (w @ r) = w @ r"
    using assms by (cases w) auto
  have t: "takeWhile (\<lambda>c. \<not> is_space c) (w @ r) = w"
    using assms by (cases r) (auto simp: takeWhile_append)
  have e: "dropWhile (\<lambda>c. \<not> is_space c) (w @ r) = r"
    using assms by (cases r) (auto simp: dropWhile_append)
  show ?thesis using assms(1) by (subst str_fields.simps) (simp add: Let_def d t e)
qed

lemma fields_space [go_string]: "is_space c \<Longrightarrow> str_fields (c # s) = str_fields s"
  by (subst (1 2) str_fields.simps) (simp add: Let_def)

lemma fields_Nil [simp]: "str_fields [] = []"
  by (simp add: str_fields.simps)

lemma fields_no_space: "w \<in> set (str_fields s) \<Longrightarrow> w \<noteq> [] \<and> (\<forall>c \<in> set w. \<not> is_space c)"
proof (induction s rule: str_fields.induct)
  case (1 s)
  let ?t = "dropWhile is_space s"
  have ne: "?t \<noteq> []"
  proof
    assume "?t = []"
    then have "str_fields s = []" by (subst str_fields.simps) (simp add: Let_def del: dropWhile_eq_Nil_conv)
    with "1.prems" show False by simp
  qed
  with "1.prems" have "w = takeWhile (\<lambda>c. \<not> is_space c) ?t \<or>
      w \<in> set (str_fields (dropWhile (\<lambda>c. \<not> is_space c) ?t))"
    by (simp add: str_fields.simps[of s] Let_def del: dropWhile_eq_Nil_conv)
  moreover have "takeWhile (\<lambda>c. \<not> is_space c) ?t \<noteq> []"
    using ne hd_dropWhile[OF ne] by (cases ?t) auto
  ultimately show ?case using "1.IH"[OF refl ne] set_takeWhileD by fast
qed

section \<open>strconv\<close>

datatype num_error = ErrSyntax | ErrRange

text \<open>The digit loop of \<open>strconv.ParseUint\<close> for an explicit base of at most ten:
  a non-digit is a syntax error, a value past the maximum a range error, and the loop stops at
  the first of the two.\<close>

definition digit_val :: "char \<Rightarrow> nat option" where
  "digit_val c = (if CHR ''0'' \<le> c \<and> c \<le> CHR ''9'' then Some (of_char c - 48) else None)"

fun parse_digits :: "nat \<Rightarrow> nat \<Rightarrow> nat \<Rightarrow> string \<Rightarrow> num_error + nat" where
  "parse_digits base maxv n [] = Inr n"
| "parse_digits base maxv n (c # cs) =
     (case digit_val c of
        None \<Rightarrow> Inl ErrSyntax
      | Some d \<Rightarrow>
          if base \<le> d then Inl ErrSyntax
          else if maxv < n * base + d then Inl ErrRange
          else parse_digits base maxv (n * base + d) cs)"

definition parse_uint :: "nat \<Rightarrow> nat \<Rightarrow> string \<Rightarrow> num_error + nat" where
  "parse_uint base bits s =
     (if s = [] then Inl ErrSyntax else parse_digits base (2 ^ bits - 1) 0 s)"

text \<open>The value \<open>ParseUint\<close> returns beside its error: zero on a syntax error, the maximum on a
  range error. Callers that drop the error see this value.\<close>

definition parse_uint_val :: "nat \<Rightarrow> nat \<Rightarrow> string \<Rightarrow> nat" where
  "parse_uint_val base bits s =
     (case parse_uint base bits s of
        Inr n \<Rightarrow> n | Inl ErrSyntax \<Rightarrow> 0 | Inl ErrRange \<Rightarrow> 2 ^ bits - 1)"

text \<open>\<open>strconv.Atoi\<close> for a 64-bit \<open>int\<close>: an optional sign, then decimal digits.\<close>

definition atoi :: "string \<Rightarrow> num_error + int" where
  "atoi s =
     (let (neg, body) = (case s of
            c # cs \<Rightarrow> if c = CHR ''-'' then (True, cs) else if c = CHR ''+'' then (False, cs) else (False, s)
          | [] \<Rightarrow> (False, s))
      in case parse_uint 10 64 body of
           Inl e \<Rightarrow> Inl e
         | Inr n \<Rightarrow>
             if neg then (if 2 ^ 63 < n then Inl ErrRange else Inr (- int n))
             else (if 2 ^ 63 \<le> n then Inl ErrRange else Inr (int n)))"

text \<open>The value \<open>Atoi\<close> returns beside its error.\<close>

definition atoi_val :: "string \<Rightarrow> int" where
  "atoi_val s =
     (case atoi s of
        Inr n \<Rightarrow> n
      | Inl ErrSyntax \<Rightarrow> 0
      | Inl ErrRange \<Rightarrow> (if prefix ''-'' s then - (2 ^ 63) else 2 ^ 63 - 1))"

text \<open>\<open>%d\<close> and \<open>%o\<close> of a non-negative number.\<close>

definition digit_char :: "nat \<Rightarrow> char" where
  "digit_char d = char_of (48 + d)"

function show_base :: "nat \<Rightarrow> nat \<Rightarrow> string" where
  "show_base b n =
     (if b < 2 \<or> n < b then [digit_char n] else show_base b (n div b) @ [digit_char (n mod b)])"
  by pat_completeness auto
termination by (relation "measure (\<lambda>(b, n). n)") auto

declare show_base.simps [simp del]

definition show_int :: "int \<Rightarrow> string" where
  "show_int i = (if i < 0 then CHR ''-'' # show_base 10 (nat (- i)) else show_base 10 (nat i))"

subsection \<open>Laws\<close>

lemma digit_val_char: "d < 10 \<Longrightarrow> digit_val (digit_char d) = Some d"
proof -
  assume "d < 10"
  then have "d \<in> {0, 1, 2, 3, 4, 5, 6, 7, 8, 9}" by auto
  then show ?thesis by (auto simp: digit_val_def digit_char_def less_eq_char_def)
qed

lemma parse_digits_append:
  "parse_digits b m n (xs @ ys) =
     (case parse_digits b m n xs of Inl e \<Rightarrow> Inl e | Inr k \<Rightarrow> parse_digits b m k ys)"
  by (induction b m n xs rule: parse_digits.induct) (auto split: option.splits)

lemma parse_digits_mono: "parse_digits b m n xs = Inr k \<Longrightarrow> n \<le> m \<Longrightarrow> k \<le> m"
  by (induction b m n xs rule: parse_digits.induct) (auto split: option.splits if_splits)

lemma parse_uint_bound: "parse_uint b bits s = Inr n \<Longrightarrow> n < 2 ^ bits"
proof -
  assume "parse_uint b bits s = Inr n"
  then have "n \<le> 2 ^ bits - 1"
    by (auto simp: parse_uint_def split: if_splits dest: parse_digits_mono)
  moreover have "0 < (2::nat) ^ bits" by simp
  ultimately show ?thesis by linarith
qed

lemma show_base_digits: "2 \<le> b \<Longrightarrow> b \<le> 10 \<Longrightarrow> c \<in> set (show_base b n) \<Longrightarrow> \<exists>d < 10. c = digit_char d"
proof (induction b n rule: show_base.induct)
  case (1 b n)
  show ?case
  proof (cases "n < b")
    case True
    then have "n < 10" using "1.prems" by simp
    moreover have "c = digit_char n" using True "1.prems" by (simp add: show_base.simps[of b n])
    ultimately show ?thesis by blast
  next
    case False
    have "n mod b < 10" using "1.prems" by (intro less_le_trans[of _ b 10]) auto
    with False 1 show ?thesis by (auto simp: show_base.simps[of b n])
  qed
qed

lemma show_base_not_Nil [simp]: "show_base b n \<noteq> []"
  by (subst show_base.simps) simp

lemma parse_show_digits:
  "2 \<le> b \<Longrightarrow> b \<le> 10 \<Longrightarrow> n \<le> m \<Longrightarrow> parse_digits b m 0 (show_base b n) = Inr n"
proof (induction b n rule: show_base.induct)
  case (1 b n)
  show ?case
  proof (cases "n < b")
    case True
    with "1.prems" show ?thesis by (subst show_base.simps) (simp add: digit_val_char)
  next
    case False
    have le: "n div b \<le> m" using "1.prems" by (meson div_le_dividend le_trans)
    have md: "n mod b < 10" "n mod b < b" using "1.prems" by (auto intro: less_le_trans[of _ b 10])
    have "parse_digits b m 0 (show_base b (n div b)) = Inr (n div b)"
      using 1 False le by simp
    moreover have "\<not> b \<le> n mod b" using md(2) by linarith
    ultimately show ?thesis using False "1.prems"
      by (subst show_base.simps) (simp add: parse_digits_append digit_val_char[OF md(1)])
  qed
qed

text \<open>Printing and parsing an unsigned number round-trips within the width.\<close>

lemma parse_uint_show: "2 \<le> b \<Longrightarrow> b \<le> 10 \<Longrightarrow> n < 2 ^ bits \<Longrightarrow> parse_uint b bits (show_base b n) = Inr n"
  by (simp add: parse_uint_def parse_show_digits less_eq_Suc_le[symmetric] Suc_le_eq)

lemma show_base_head: "2 \<le> b \<Longrightarrow> b \<le> 10 \<Longrightarrow> \<exists>d < 10. \<exists>cs. show_base b n = digit_char d # cs"
  using show_base_digits[of b "hd (show_base b n)" n]
  by (cases "show_base b n") auto

lemma digit_char_not_sign: "d < 10 \<Longrightarrow> digit_char d \<noteq> CHR ''-'' \<and> digit_char d \<noteq> CHR ''+''"
  using digit_val_char[of d] by (auto simp: digit_val_def less_eq_char_def)

lemma atoi_show: "- (2 ^ 63) \<le> i \<Longrightarrow> i < 2 ^ 63 \<Longrightarrow> atoi (show_int i) = Inr i"
proof -
  assume b: "- (2 ^ 63) \<le> i" "i < 2 ^ 63"
  obtain d cs where s: "show_base 10 (nat i) = digit_char d # cs" "d < 10"
    using show_base_head[of 10 "nat i"] by auto
  have "parse_uint 10 64 (show_base 10 (nat \<bar>i\<bar>)) = Inr (nat \<bar>i\<bar>)"
    using b by (intro parse_uint_show) auto
  then show ?thesis
    using b s digit_char_not_sign[OF s(2)] by (auto simp: atoi_def show_int_def Let_def)
qed

section \<open>Go maps\<close>

text \<open>A Go map is an association list with distinct keys; the order of the list is the order a
  \<open>range\<close> loop meets the entries in. A missing key reads as the zero value.\<close>

type_synonym labels = "(string \<times> string) list"

definition mget :: "('k \<times> string) list \<Rightarrow> 'k \<Rightarrow> string" where
  "mget m k = (case map_of m k of Some v \<Rightarrow> v | None \<Rightarrow> [])"

definition keys_distinct :: "('k \<times> 'v) list \<Rightarrow> bool" where
  "keys_distinct m = distinct (map fst m)"

text \<open>\<open>maps.Equal\<close>\<close>

definition maps_equal :: "('k \<times> 'v) list \<Rightarrow> ('k \<times> 'v) list \<Rightarrow> bool" where
  "maps_equal a b =
     (length a = length b \<and> list_all (\<lambda>(k, v). map_of b k = Some v) a)"

lemma keys_distinct_update [go_map, intro]: "keys_distinct m \<Longrightarrow> keys_distinct (AList.update k v m)"
  by (simp add: keys_distinct_def distinct_update)

lemma map_of_update [go_map]: "map_of (AList.update k v m) = (map_of m)(k \<mapsto> v)"
  by (simp add: update_conv')

lemma mget_update [go_map]: "mget (AList.update k v m) k' = (if k' = k then v else mget m k')"
  by (simp add: mget_def map_of_update)

lemma length_update_le: "length (AList.update k v m) \<le> Suc (length m)"
  by (induction m) auto

lemma set_update_subset: "set (AList.update k v m) \<subseteq> insert (k, v) (set m)"
  by (induction m) auto

lemma maps_equal_iff:
  assumes "keys_distinct a" "keys_distinct b"
  shows "maps_equal a b \<longleftrightarrow> map_of a = map_of b"
proof
  assume e: "maps_equal a b"
  then have sub: "set a \<subseteq> set b" by (auto simp: maps_equal_def list_all_iff dest: map_of_SomeD)
  have "card (set a) = card (set b)"
    using assms e by (simp add: keys_distinct_def distinct_map distinct_card maps_equal_def)
  with sub have "set a = set b" by (simp add: card_subset_eq)
  with assms show "map_of a = map_of b"
    by (auto simp: keys_distinct_def intro!: map_of_eqI)
next
  assume e: "map_of a = map_of b"
  then have "set a = set b" using assms
    by (metis keys_distinct_def map_of_SomeD map_of_is_SomeI subset_antisym subsetI surj_pair)
  then have "length a = length b"
    using assms by (metis distinct_card distinct_map keys_distinct_def)
  moreover have "map_of b k = Some v" if "(k, v) \<in> set a" for k v
    using that e assms(1) by (metis keys_distinct_def map_of_is_SomeI)
  ultimately show "maps_equal a b" by (auto simp: maps_equal_def list_all_iff simp del: map_of_eq_Some_iff)
qed

lemma maps_equal_refl [simp]: "keys_distinct a \<Longrightarrow> maps_equal a a"
  by (simp add: maps_equal_iff)

end
