(* ===== verification/Config.thy ===== *)
theory Config
  imports Prelude
begin

text \<open>
  Validation: the name and label rules of \<open>config/config.go\<close>, the identifier, mode and
  compression rules of \<open>utils/validation.go\<close>, and the label protection of
  \<open>agent/storage/utils.go\<close>. The error values of the agent are declared here; message texts
  are not modelled, except the fixed prefix of a wrapped error.
\<close>

section \<open>Errors\<close>

datatype err_code =
  ErrBadRequest | ErrUnauthorized | ErrInvalid | ErrNotFound
  | ErrAlreadyExists | ErrBusy | ErrMetadata | ErrInternal

datatype error =
    ValidationError
  | StorageError err_code
  | WrappedError string
  | TaskNotFound

section \<open>Names and labels\<close>

definition MaxLabels :: nat where "MaxLabels = 32"
definition MaxUserLabels :: nat where "MaxUserLabels = 8"
definition LabelCreatedBy :: string where "LabelCreatedBy = ''created-by''"
definition IdentityCLI :: string where "IdentityCLI = ''cli''"
definition IdentityK8sController :: string where "IdentityK8sController = ''k8s''"
definition LabelCloneSourceType :: string where "LabelCloneSourceType = ''clone.source.type''"
definition LabelCloneSourceName :: string where "LabelCloneSourceName = ''clone.source.name''"
definition DataDir :: string where "DataDir = ''data''"
definition MetadataFile :: string where "MetadataFile = ''metadata.json''"
definition SnapshotsDir :: string where "SnapshotsDir = ''snapshots''"
definition TasksDir :: string where "TasksDir = ''tasks''"

definition SoftReservedLabelKeys :: "string list" where
  "SoftReservedLabelKeys = [LabelCreatedBy, LabelCloneSourceType, LabelCloneSourceName]"

definition is_lower :: "char \<Rightarrow> bool" where "is_lower c = (CHR ''a'' \<le> c \<and> c \<le> CHR ''z'')"
definition is_upper :: "char \<Rightarrow> bool" where "is_upper c = (CHR ''A'' \<le> c \<and> c \<le> CHR ''Z'')"
definition is_digit :: "char \<Rightarrow> bool" where "is_digit c = (CHR ''0'' \<le> c \<and> c \<le> CHR ''9'')"

definition name_char :: "char \<Rightarrow> bool" where
  "name_char c = (is_lower c \<or> is_upper c \<or> is_digit c \<or> c = CHR ''_'' \<or> c = CHR ''-'')"

definition key_char :: "char \<Rightarrow> bool" where
  "key_char c = (is_lower c \<or> is_digit c \<or> c = CHR ''.'' \<or> c = CHR ''_'' \<or> c = CHR ''-'')"

definition val_char :: "char \<Rightarrow> bool" where
  "val_char c = (is_lower c \<or> is_upper c \<or> is_digit c \<or> c = CHR ''.'' \<or> c = CHR ''_'' \<or> c = CHR ''-'')"

definition ValidName :: "string \<Rightarrow> bool" where
  "ValidName s = (1 \<le> length s \<and> length s \<le> 128 \<and> list_all name_char s)"

definition ValidLabelKey :: "string \<Rightarrow> bool" where
  "ValidLabelKey s = (case s of
       [] \<Rightarrow> False
     | c # cs \<Rightarrow> (is_lower c \<or> is_digit c) \<and> length cs \<le> 62 \<and> list_all key_char cs)"

definition ValidLabelVal :: "string \<Rightarrow> bool" where
  "ValidLabelVal s = (length s \<le> 128 \<and> list_all val_char s)"

text \<open>\<open>None\<close> is Go's nil error.\<close>

definition ValidateName :: "string \<Rightarrow> error option" where
  "ValidateName name = (if \<not> ValidName name then Some ValidationError else None)"

fun validate_entries :: "labels \<Rightarrow> error option" where
  "validate_entries [] = None"
| "validate_entries ((k, v) # rest) =
     (if \<not> ValidLabelKey k then Some ValidationError
      else if \<not> ValidLabelVal v then Some ValidationError
      else validate_entries rest)"

definition ValidateLabels :: "labels \<Rightarrow> error option" where
  "ValidateLabels ls = (if MaxLabels < length ls then Some ValidationError else validate_entries ls)"

section \<open>Identifiers, modes and compression\<close>

definition MaxID :: int where "MaxID = 65534"

definition ValidateUID :: "int \<Rightarrow> bool" where
  "ValidateUID uid = (\<not> (uid < 0 \<or> uid > MaxID))"

definition ValidateGID :: "int \<Rightarrow> bool" where
  "ValidateGID gid = (\<not> (gid < 0 \<or> gid > MaxID))"

text \<open>\<open>None\<close> stands for the returned error; \<open>4095\<close> is \<open>0o7777\<close>.\<close>

definition ValidateMode :: "string \<Rightarrow> nat option" where
  "ValidateMode s = (case parse_uint 8 32 s of
       Inl _ \<Rightarrow> None
     | Inr mode \<Rightarrow> if mode > 4095 then None else Some mode)"

definition compressionMaxLevel :: "string \<rightharpoonup> int" where
  "compressionMaxLevel = map_of [(''zstd'', 15), (''zlib'', 9), (''lzo'', 0)]"

definition IsValidCompression :: "string \<Rightarrow> bool" where
  "IsValidCompression s =
     (if s = [] \<or> s = ''none'' then True
      else
        let (algo, level) = (case cut '':'' s of None \<Rightarrow> (s, None) | Some (a, l) \<Rightarrow> (a, Some l)) in
        case compressionMaxLevel algo of
          None \<Rightarrow> False
        | Some maxLevel \<Rightarrow>
            (case level of
               None \<Rightarrow> True
             | Some levelStr \<Rightarrow>
                 if maxLevel = 0 then False
                 else (case atoi levelStr of
                         Inl _ \<Rightarrow> False
                       | Inr l \<Rightarrow> \<not> (l < 1 \<or> l > maxLevel))))"

section \<open>Immutable labels\<close>

fun requireImmutableLabels :: "string list \<Rightarrow> labels \<Rightarrow> error option" where
  "requireImmutableLabels [] ls = None"
| "requireImmutableLabels (k # ks) ls =
     (if mget ls k = [] then Some (StorageError ErrInvalid) else requireImmutableLabels ks ls)"

text \<open>The loop of \<open>protectImmutableLabels\<close> over the key set, in the order given; the caller's
  map \<open>updated\<close> is changed in place, so it is returned.\<close>

fun protect_loop :: "string list \<Rightarrow> labels \<Rightarrow> labels \<Rightarrow> error + labels" where
  "protect_loop [] cur updated = Inr updated"
| "protect_loop (k # ks) cur updated =
     (case map_of updated k of
        Some v \<Rightarrow>
          if v \<noteq> mget cur k then
            (if k = LabelCreatedBy \<and> mget cur k = [] then protect_loop ks cur updated
             else Inl (StorageError ErrInvalid))
          else if mget cur k \<noteq> [] then protect_loop ks cur (AList.update k (mget cur k) updated)
          else protect_loop ks cur updated
      | None \<Rightarrow>
          if mget cur k \<noteq> [] then protect_loop ks cur (AList.update k (mget cur k) updated)
          else protect_loop ks cur updated)"

definition protectImmutableLabels :: "string list \<Rightarrow> labels \<Rightarrow> labels \<Rightarrow> error + labels" where
  "protectImmutableLabels keys cur updated =
     protect_loop (remdups (keys @ SoftReservedLabelKeys)) cur updated"

definition defaultImmutableLabelKeys :: "string list" where
  "defaultImmutableLabelKeys = [LabelCreatedBy]"

fun add_keys :: "string list \<Rightarrow> string list \<Rightarrow> string list" where
  "add_keys keys [] = keys"
| "add_keys keys (k # ks) =
     (let t = trim_space k in
      if t \<noteq> [] \<and> t \<notin> set keys then add_keys (keys @ [t]) ks else add_keys keys ks)"

definition ImmutableLabelKeys :: "string \<Rightarrow> string list" where
  "ImmutableLabelKeys extra =
     add_keys (remdups defaultImmutableLabelKeys) (split_on CHR '','' extra)"

section \<open>Laws\<close>

lemmas char_class_defs = is_lower_def is_upper_def is_digit_def less_eq_char_def

lemma name_char_special [simp]: "\<not> name_char CHR ''/''" "\<not> name_char CHR ''.''" "\<not> name_char CHR ''|''"
  by (simp_all add: name_char_def char_class_defs)

lemma name_char_not_slash: "name_char c \<Longrightarrow> c \<noteq> CHR ''/'' \<and> c \<noteq> CHR ''.''"
  by (rule conjI; rule notI) simp_all

lemma ValidName_no_slash:
  "ValidName s \<Longrightarrow> s \<noteq> [] \<and> CHR ''/'' \<notin> set s \<and> CHR ''.'' \<notin> set s"
  using name_char_special by (auto simp: ValidName_def list_all_iff)

lemma ValidateName_None [simp]: "ValidateName s = None \<longleftrightarrow> ValidName s"
  by (simp add: ValidateName_def)

lemma ValidateName_Some: "ValidateName s = Some e \<longleftrightarrow> \<not> ValidName s \<and> e = ValidationError"
  by (auto simp: ValidateName_def)

lemma validate_entries_None:
  "validate_entries ls = None \<longleftrightarrow> (\<forall>(k, v) \<in> set ls. ValidLabelKey k \<and> ValidLabelVal v)"
  by (induction ls rule: validate_entries.induct) auto

lemma ValidateLabels_None:
  "ValidateLabels ls = None \<longleftrightarrow>
     length ls \<le> 32 \<and> (\<forall>(k, v) \<in> set ls. ValidLabelKey k \<and> ValidLabelVal v)"
  by (auto simp: ValidateLabels_def MaxLabels_def validate_entries_None)

lemma requireImmutableLabels_None:
  "requireImmutableLabels ks ls = None \<longleftrightarrow> (\<forall>k \<in> set ks. mget ls k \<noteq> [])"
  by (induction ks) auto

lemma ValidateMode_bound: "ValidateMode s = Some m \<Longrightarrow> m \<le> 4095"
  by (auto simp: ValidateMode_def split: sum.splits if_splits)

lemma ValidateMode_show: "m \<le> 4095 \<Longrightarrow> ValidateMode (show_base 8 m) = Some m"
  by (simp add: ValidateMode_def parse_uint_show)

text \<open>What the protection loop does, key by key: it fails exactly when the request changes a
  protected key (the first value of \<open>created-by\<close> apart), and otherwise restores every
  protected key that has a value. The result does not depend on the order of the keys.\<close>

definition label_conflict :: "labels \<Rightarrow> labels \<Rightarrow> string \<Rightarrow> bool" where
  "label_conflict cur updated k =
     (\<exists>v. map_of updated k = Some v \<and> v \<noteq> mget cur k \<and> \<not> (k = LabelCreatedBy \<and> mget cur k = []))"

lemma label_conflict_update:
  "k' \<noteq> k \<Longrightarrow> label_conflict cur (AList.update k v updated) k' = label_conflict cur updated k'"
  by (simp add: label_conflict_def map_of_update)

lemma protect_loop_cases:
  "protect_loop (k # ks) cur updated =
     (if label_conflict cur updated k then Inl (StorageError ErrInvalid)
      else if mget cur k \<noteq> [] then protect_loop ks cur (AList.update k (mget cur k) updated)
      else protect_loop ks cur updated)"
  by (auto simp: label_conflict_def split: option.splits)

lemma protect_loop_Inl:
  "distinct ks \<Longrightarrow> protect_loop ks cur updated = Inl e \<Longrightarrow>
     e = StorageError ErrInvalid \<and> (\<exists>k \<in> set ks. label_conflict cur updated k)"
proof (induction ks arbitrary: updated)
  case (Cons k ks)
  then show ?case
    by (auto simp: protect_loop_cases label_conflict_update simp del: protect_loop.simps
        split: if_splits) (metis label_conflict_update)+
qed simp

lemma protect_loop_Inr:
  "distinct ks \<Longrightarrow> protect_loop ks cur updated = Inr u \<Longrightarrow>
     (\<forall>k \<in> set ks. \<not> label_conflict cur updated k) \<and>
     map_of u = (\<lambda>k. if k \<in> set ks \<and> mget cur k \<noteq> [] then Some (mget cur k) else map_of updated k)"
proof (induction ks arbitrary: updated)
  case (Cons k ks)
  from Cons.prems have nc: "\<not> label_conflict cur updated k"
    by (auto simp: protect_loop_cases simp del: protect_loop.simps split: if_splits)
  let ?u = "if mget cur k \<noteq> [] then AList.update k (mget cur k) updated else updated"
  have "protect_loop ks cur ?u = Inr u"
    using Cons.prems nc by (simp add: protect_loop_cases del: protect_loop.simps split: if_splits)
  with Cons have IH: "\<forall>k' \<in> set ks. \<not> label_conflict cur ?u k'"
    "map_of u = (\<lambda>k'. if k' \<in> set ks \<and> mget cur k' \<noteq> [] then Some (mget cur k') else map_of ?u k')"
    by auto
  have "\<forall>k' \<in> set ks. \<not> label_conflict cur updated k'"
    using IH(1) Cons.prems(1) by (auto split: if_splits) (metis label_conflict_update)
  then show ?case using nc IH(2) Cons.prems(1) by (auto simp: fun_eq_iff map_of_update)
qed simp

lemma protect_loop_keys_distinct:
  "keys_distinct updated \<Longrightarrow> protect_loop ks cur updated = Inr u \<Longrightarrow> keys_distinct u"
  by (induction ks arbitrary: updated)
     (auto simp: protect_loop_cases keys_distinct_update simp del: protect_loop.simps(2) split: if_splits)

end
