(* ===== verification/Sizes.thy ===== *)
theory Sizes
  imports Config
begin

text \<open>
  Fixed-width arithmetic: the size parser of \<open>utils/format.go\<close> and the conversion between Unix
  mode bits and Go's \<open>os.FileMode\<close> of \<open>agent/storage/utils.go\<close>, on 64-bit and 32-bit words.
\<close>

unbundle bit_operations_syntax

type_synonym u64 = "64 word"
type_synonym file_mode = "32 word"

section \<open>Sizes\<close>

definition size_suffixes2 :: "(string \<times> u64) list" where
  "size_suffixes2 =
     [(''Ei'', push_bit 60 1), (''Pi'', push_bit 50 1), (''Ti'', push_bit 40 1),
      (''Gi'', push_bit 30 1), (''Mi'', push_bit 20 1), (''Ki'', push_bit 10 1)]"

definition size_suffixes1 :: "(string \<times> u64) list" where
  "size_suffixes1 = [(''G'', 1000000000), (''M'', 1000000), (''K'', 1000)]"

definition ParseSize :: "string \<Rightarrow> error + u64" where
  "ParseSize s =
     (let plain = (case parse_uint 10 64 s of
                     Inl _ \<Rightarrow> Inl (WrappedError ''parse'') | Inr n \<Rightarrow> Inr (of_nat n));
          scaled = (\<lambda>num multiplier. case parse_uint 10 64 num of
                      Inl _ \<Rightarrow> Inl (WrappedError ''invalid size'')
                    | Inr k \<Rightarrow>
                        let n = (of_nat k :: u64); result = n * multiplier in
                        if n \<noteq> 0 \<and> result div n \<noteq> multiplier then Inl (WrappedError ''invalid size'')
                        else Inr result)
      in if length s < 2 then plain
         else (case map_of size_suffixes2 (drop (length s - 2) s) of
                 Some multiplier \<Rightarrow> scaled (take (length s - 2) s) multiplier
               | None \<Rightarrow>
                   (case map_of size_suffixes1 (drop (length s - 1) s) of
                      Some multiplier \<Rightarrow> scaled (take (length s - 1) s) multiplier
                    | None \<Rightarrow> plain)))"

text \<open>The reference: the numeric part and the multiplier, as unbounded numbers.\<close>

definition size_spec :: "string \<Rightarrow> (string \<times> nat)" where
  "size_spec s =
     (if length s < 2 then (s, 1)
      else case map_of size_suffixes2 (drop (length s - 2) s) of
             Some m \<Rightarrow> (take (length s - 2) s, unat m)
           | None \<Rightarrow>
               (case map_of size_suffixes1 (drop (length s - 1) s) of
                  Some m \<Rightarrow> (take (length s - 1) s, unat m)
                | None \<Rightarrow> (s, 1)))"

text \<open>The overflow test of the code is exact: dividing the wrapped product by the factor gives the
  multiplier back if and only if the product did not wrap.\<close>

lemma mult_div_exact:
  fixes n m :: u64
  assumes "n \<noteq> 0"
  shows "n * m div n = m \<longleftrightarrow> unat n * unat m < 2 ^ 64"
proof
  assume "unat n * unat m < 2 ^ 64"
  then have "unat (n * m) = unat n * unat m"
    by (simp add: unat_word_ariths)
  moreover have "unat n \<noteq> 0" using assms by (simp add: unat_eq_0)
  ultimately have "unat (n * m div n) = unat m" by (simp add: unat_div_distrib)
  then show "n * m div n = m" by (simp only: word_unat_eq_iff)
next
  assume e: "n * m div n = m"
  have "unat m * unat n \<le> unat (n * m)"
    by (metis e unat_div_distrib div_times_less_eq_dividend)
  also have "unat (n * m) < 2 ^ 64" using unsigned_less[of "n * m"] by simp
  finally show "unat n * unat m < 2 ^ 64" by (simp add: mult.commute)
qed

lemma scaled_exact:
  fixes m :: u64
  assumes "k < 2 ^ 64"
  shows "((of_nat k :: u64) \<noteq> 0 \<and> of_nat k * m div of_nat k \<noteq> m) \<longleftrightarrow> \<not> k * unat m < 2 ^ 64"
proof -
  have u: "unat (of_nat k :: u64) = k" using assms by (simp add: unat_of_nat)
  show ?thesis
  proof (cases "k = 0")
    case False
    then have "(of_nat k :: u64) \<noteq> 0" using assms u by (metis unat_0)
    then show ?thesis using mult_div_exact[of "of_nat k" m] u by simp
  qed simp
qed


section \<open>File modes\<close>

definition ModeSetuid :: file_mode where "ModeSetuid = push_bit 23 1"
definition ModeSetgid :: file_mode where "ModeSetgid = push_bit 22 1"
definition ModeSticky :: file_mode where "ModeSticky = push_bit 20 1"

text \<open>\<open>511\<close>, \<open>2048\<close>, \<open>1024\<close> and \<open>512\<close> are \<open>0o777\<close>, \<open>0o4000\<close>, \<open>0o2000\<close> and \<open>0o1000\<close>.\<close>

definition fileMode :: "u64 \<Rightarrow> file_mode" where
  "fileMode u =
     (let m = ucast (u AND 511);
          m = (if u AND 2048 \<noteq> 0 then m OR ModeSetuid else m);
          m = (if u AND 1024 \<noteq> 0 then m OR ModeSetgid else m);
          m = (if u AND 512 \<noteq> 0 then m OR ModeSticky else m)
      in m)"

definition unixMode :: "file_mode \<Rightarrow> u64" where
  "unixMode m =
     (let mode = ucast (m AND 511);
          mode = (if m AND ModeSetuid \<noteq> 0 then mode OR 2048 else mode);
          mode = (if m AND ModeSetgid \<noteq> 0 then mode OR 1024 else mode);
          mode = (if m AND ModeSticky \<noteq> 0 then mode OR 512 else mode)
      in mode)"

lemma bit_special [simp]:
  "bit (2048 :: u64) n \<longleftrightarrow> n = 11" "bit (1024 :: u64) n \<longleftrightarrow> n = 10" "bit (512 :: u64) n \<longleftrightarrow> n = 9"
  "bit ModeSetuid n \<longleftrightarrow> n = 23" "bit ModeSetgid n \<longleftrightarrow> n = 22" "bit ModeSticky n \<longleftrightarrow> n = 20"
  "bit (511 :: u64) n \<longleftrightarrow> n < 9" "bit (511 :: file_mode) n \<longleftrightarrow> n < 9" "bit (4095 :: u64) n \<longleftrightarrow> n < 12"
proof -
  have e: "(2048 :: u64) = 2 ^ 11" "(1024 :: u64) = 2 ^ 10" "(512 :: u64) = 2 ^ 9"
    "ModeSetuid = 2 ^ 23" "ModeSetgid = 2 ^ 22" "ModeSticky = 2 ^ 20"
    "(511 :: u64) = mask 9" "(511 :: file_mode) = mask 9" "(4095 :: u64) = mask 12"
    by (simp_all add: ModeSetuid_def ModeSetgid_def ModeSticky_def mask_eq_exp_minus_1)
  show "bit (2048 :: u64) n \<longleftrightarrow> n = 11" unfolding e bit_exp_iff by auto
  show "bit (1024 :: u64) n \<longleftrightarrow> n = 10" unfolding e bit_exp_iff by auto
  show "bit (512 :: u64) n \<longleftrightarrow> n = 9" unfolding e bit_exp_iff by auto
  show "bit ModeSetuid n \<longleftrightarrow> n = 23" unfolding e bit_exp_iff by auto
  show "bit ModeSetgid n \<longleftrightarrow> n = 22" unfolding e bit_exp_iff by auto
  show "bit ModeSticky n \<longleftrightarrow> n = 20" unfolding e bit_exp_iff by auto
  show "bit (511 :: u64) n \<longleftrightarrow> n < 9" unfolding e bit_mask_iff by auto
  show "bit (511 :: file_mode) n \<longleftrightarrow> n < 9" unfolding e bit_mask_iff by auto
  show "bit (4095 :: u64) n \<longleftrightarrow> n < 12" unfolding e bit_mask_iff by auto
qed

lemma and_single_bit:
  assumes "\<And>n. bit (b :: 'a::len word) n \<longleftrightarrow> n = k"
  shows "w AND b \<noteq> 0 \<longleftrightarrow> bit w k"
  using assms bit_imp_le_length[of w k] by (auto simp: bit_eq_iff[of "w AND b" 0] bit_and_iff)

lemmas mode_bit_tests =
  and_single_bit[OF bit_special(1)] and_single_bit[OF bit_special(2)] and_single_bit[OF bit_special(3)]
  and_single_bit[OF bit_special(4)] and_single_bit[OF bit_special(5)] and_single_bit[OF bit_special(6)]

lemma bit_fileMode:
  "bit (fileMode u) n \<longleftrightarrow>
     (n < 9 \<and> bit u n) \<or> (n = 23 \<and> bit u 11) \<or> (n = 22 \<and> bit u 10) \<or> (n = 20 \<and> bit u 9)"
  unfolding fileMode_def Let_def mode_bit_tests
  by (auto simp: bit_or_iff bit_and_iff bit_unsigned_iff simp del: bit_numeral_word_iff)

lemma bit_unixMode:
  "bit (unixMode m) n \<longleftrightarrow>
     (n < 9 \<and> bit m n) \<or> (n = 11 \<and> bit m 23) \<or> (n = 10 \<and> bit m 22) \<or> (n = 9 \<and> bit m 20)"
  unfolding unixMode_def Let_def mode_bit_tests
  by (auto simp: bit_or_iff bit_and_iff bit_unsigned_iff simp del: bit_numeral_word_iff)

lemma unixMode_fileMode: "unixMode (fileMode u) = u AND 4095"
proof (rule bit_eqI)
  fix n :: nat
  have "n < 12 \<longleftrightarrow> n < 9 \<or> n = 9 \<or> n = 10 \<or> n = 11" by arith
  then show "bit (unixMode (fileMode u)) n \<longleftrightarrow> bit (u AND 4095) n"
    by (auto simp: bit_unixMode bit_fileMode bit_and_iff simp del: bit_numeral_word_iff)
qed

lemma unat_unixMode_le: "unat (unixMode m) \<le> 4095"
proof -
  have "unixMode m = take_bit 12 (unixMode m)"
    by (rule bit_eqI) (auto simp: bit_unixMode bit_simps)
  then have "unat (unixMode m) = take_bit 12 (unat (unixMode m))"
    by (metis unsigned_take_bit_eq)
  also have "\<dots> < 2 ^ 12" by (rule take_bit_nat_less_exp)
  finally show ?thesis by simp
qed

section \<open>Properties\<close>

text \<open>C9: \<open>ParseSize\<close> computes the size without overflow. It returns a value exactly when the
  numeric part parses and its product with the suffix multiplier fits in 64 bits, and the value
  is that product; the wrap-around test \<open>result/n != multiplier\<close> accepts nothing else.\<close>

theorem ParseSize_exact:
  "ParseSize s = Inr r \<longleftrightarrow>
     (case size_spec s of (num, m) \<Rightarrow>
        \<exists>k. parse_uint 10 64 num = Inr k \<and> k * m < 2 ^ 64 \<and> r = of_nat (k * m))"
proof -
  have plain: "(case parse_uint 10 64 s of Inl _ \<Rightarrow> Inl (WrappedError ''parse'')
      | Inr n \<Rightarrow> Inr (of_nat n)) = Inr r \<longleftrightarrow>
      (\<exists>k. parse_uint 10 64 s = Inr k \<and> k * 1 < 2 ^ 64 \<and> r = of_nat (k * 1))" for s
    using parse_uint_bound[of 10 64 s] by (auto split: sum.splits)
  have scaled: "(case parse_uint 10 64 num of
        Inl _ \<Rightarrow> Inl (WrappedError ''invalid size'')
      | Inr k \<Rightarrow> (if (of_nat k :: u64) \<noteq> 0 \<and> of_nat k * m div of_nat k \<noteq> m
          then Inl (WrappedError ''invalid size'') else Inr (of_nat k * m))) = Inr r \<longleftrightarrow>
      (\<exists>k. parse_uint 10 64 num = Inr k \<and> k * unat m < 2 ^ 64 \<and> r = of_nat (k * unat m))" for num m
    using parse_uint_bound[of 10 64 num] by (auto simp: scaled_exact split: sum.splits)
  show ?thesis
    unfolding ParseSize_def size_spec_def Let_def scaled plain
    using plain scaled by (auto split: option.splits)
qed

text \<open>\<open>fileMode\<close> keeps every permission and special bit: converting a validated Unix mode to
  \<open>os.FileMode\<close> and reading it back with \<open>unixMode\<close> is the identity.\<close>

lemma fileMode_roundtrip:
  "ValidateMode s = Some m \<Longrightarrow> unixMode (fileMode (of_nat m)) = of_nat m"
proof -
  assume "ValidateMode s = Some m"
  then have m: "m \<le> 4095" by (rule ValidateMode_bound)
  have "(of_nat m :: u64) AND 4095 = take_bit 12 (of_nat m)"
    by (rule bit_eqI) (auto simp: bit_and_iff bit_take_bit_iff simp del: bit_numeral_word_iff)
  also have "\<dots> = of_nat (take_bit 12 m)" by (simp add: take_bit_of_nat)
  also have "take_bit 12 m = m" using m by (simp add: take_bit_nat_eq_self)
  finally show ?thesis by (simp add: unixMode_fileMode)
qed

lemma fileMode_roundtrip_witness:
  "ValidateMode ''2770'' = Some 1528 \<and> unixMode (fileMode (of_nat 1528)) = of_nat 1528"
proof -
  have "ValidateMode ''2770'' = Some 1528"
    by (simp add: ValidateMode_def parse_uint_def digit_val_def less_eq_char_def)
  then show ?thesis using fileMode_roundtrip[of "''2770''" 1528] by blast
qed

end
