(* ===== verification/Filesystem.thy ===== *)
theory Filesystem
  imports Sizes
begin

text \<open>
  What the program uses of Go's \<open>path/filepath\<close> and \<open>os\<close> packages: path cleaning and joining, and
  a file tree with the calls \<open>MkdirAll\<close>, \<open>RemoveAll\<close>, \<open>ReadFile\<close>, \<open>WriteFile\<close>, \<open>Rename\<close>,
  \<open>Chmod\<close>, \<open>Chown\<close> and \<open>Stat\<close>. Every call may fail: the world carries a fault table, which the
  theorems leave arbitrary. Files hold JSON documents (the text form of a document is not
  modelled) or text that is no document.
\<close>

section \<open>Paths\<close>

fun clean_step :: "bool \<Rightarrow> string list \<Rightarrow> string \<Rightarrow> string list" where
  "clean_step rooted stack c =
     (if c = [] \<or> c = ''.'' then stack
      else if c = ''..'' then
        (case stack of
           [] \<Rightarrow> if rooted then [] else [c]
         | d # ds \<Rightarrow> if d = ''..'' then c # stack else ds)
      else c # stack)"

declare clean_step.simps [simp del]

definition is_rooted :: "string \<Rightarrow> bool" where
  "is_rooted p = prefix ''/'' p"

text \<open>The components of a cleaned path, and the text of a list of components.\<close>

definition path_comps :: "string \<Rightarrow> string list" where
  "path_comps p = rev (foldl (clean_step (is_rooted p)) [] (split_on CHR ''/'' p))"

definition render :: "bool \<Rightarrow> string list \<Rightarrow> string" where
  "render rooted cs =
     (if rooted then CHR ''/'' # join_with ''/'' cs else if cs = [] then ''.'' else join_with ''/'' cs)"

definition filepath_clean :: "string \<Rightarrow> string" where
  "filepath_clean p = (if p = [] then ''.'' else render (is_rooted p) (path_comps p))"

definition filepath_join :: "string list \<Rightarrow> string" where
  "filepath_join parts =
     (let ps = dropWhile (\<lambda>p. p = []) parts in
      if ps = [] then [] else filepath_clean (join_with ''/'' ps))"

text \<open>\<open>p\<close> is \<open>d\<close> or lies below it.\<close>

definition under :: "string \<Rightarrow> string \<Rightarrow> bool" where
  "under d p = (p = d \<or> prefix (d @ ''/'') p)"

definition good_comp :: "string \<Rightarrow> bool" where
  "good_comp c = (c \<noteq> [] \<and> CHR ''/'' \<notin> set c)"

definition plain_comp :: "string \<Rightarrow> bool" where
  "plain_comp c = (good_comp c \<and> c \<noteq> ''.'' \<and> c \<noteq> ''..'')"

lemma plain_good [simp]: "plain_comp c \<Longrightarrow> good_comp c"
  by (simp add: plain_comp_def)

lemma ValidName_plain [simp, intro]: "ValidName s \<Longrightarrow> plain_comp s"
  using ValidName_no_slash[of s] by (auto simp: plain_comp_def good_comp_def)

lemma join_with_append:
  "xs \<noteq> [] \<Longrightarrow> ys \<noteq> [] \<Longrightarrow> join_with s (xs @ ys) = join_with s xs @ s @ join_with s ys"
  by (induction s xs rule: join_with.induct) (auto simp: neq_Nil_conv)

lemma split_join_comps:
  "cs \<noteq> [] \<Longrightarrow> \<forall>c \<in> set cs. good_comp c \<Longrightarrow> split_on CHR ''/'' (join_with ''/'' cs) = cs"
  by (rule split_join) (auto simp: good_comp_def)

lemma split_on_append_sep:
  "split_on c (a @ c # b) = split_on c a @ split_on c b"
proof (induction a)
  case (Cons d a)
  obtain q qs where "split_on c a = q # qs" by (cases "split_on c a") auto
  with Cons show ?case by simp
qed simp

lemma clean_plain: "\<forall>c \<in> set cs. plain_comp c \<Longrightarrow> foldl (clean_step r) st cs = rev cs @ st"
  by (induction cs arbitrary: st) (auto simp: plain_comp_def good_comp_def clean_step.simps)

lemma is_rooted_append: "b \<noteq> [] \<Longrightarrow> is_rooted (b @ x) = is_rooted b"
  by (cases b) (auto simp: is_rooted_def)

text \<open>Joining plain components to any base path appends them to the base's cleaned components.\<close>

lemma filepath_join_comps:
  assumes "base \<noteq> []" "cs \<noteq> []" "\<forall>c \<in> set cs. plain_comp c"
  shows "filepath_join (base # cs) = render (is_rooted base) (path_comps base @ cs)"
proof -
  have "join_with ''/'' (base # cs) = base @ CHR ''/'' # join_with ''/'' cs"
    using assms(2) by (cases cs) auto
  moreover have "split_on CHR ''/'' (base @ CHR ''/'' # join_with ''/'' cs)
      = split_on CHR ''/'' base @ cs"
    using assms by (simp add: split_on_append_sep split_join_comps)
  ultimately show ?thesis
    using assms by (simp add: filepath_join_def filepath_clean_def path_comps_def
        is_rooted_append clean_plain)
qed

lemma clean_step_good:
  "\<forall>c \<in> set st. good_comp c \<Longrightarrow> CHR ''/'' \<notin> set c \<Longrightarrow> \<forall>d \<in> set (clean_step r st c). good_comp d"
  by (auto simp: good_comp_def clean_step.simps split: list.splits if_splits)

lemma foldl_clean_good:
  "\<forall>c \<in> set st. good_comp c \<Longrightarrow> \<forall>c \<in> set cs. CHR ''/'' \<notin> set c \<Longrightarrow>
     \<forall>d \<in> set (foldl (clean_step r) st cs). good_comp d"
proof (induction cs arbitrary: st)
  case (Cons c cs)
  then have "\<forall>d \<in> set (clean_step r st c). good_comp d" by (intro clean_step_good) auto
  with Cons show ?case by simp
qed simp

lemma path_comps_good: "\<forall>c \<in> set (path_comps p). good_comp c"
proof -
  have "\<forall>c \<in> set (split_on CHR ''/'' p). CHR ''/'' \<notin> set c" using set_split_on by blast
  then show ?thesis using foldl_clean_good[of "[]"] by (simp add: path_comps_def)
qed

lemma render_inject:
  assumes "\<forall>c \<in> set xs. good_comp c" "\<forall>c \<in> set ys. good_comp c" "xs \<noteq> []" "ys \<noteq> []"
  shows "render r xs = render r ys \<longleftrightarrow> xs = ys"
proof -
  have "join_with ''/'' xs = join_with ''/'' ys \<Longrightarrow> xs = ys"
    using assms split_join_comps by metis
  then show ?thesis using assms by (auto simp: render_def)
qed

lemma prefix_split:
  assumes "xs \<noteq> []" "\<forall>c \<in> set xs. good_comp c" "\<forall>c \<in> set ys. good_comp c" "ys \<noteq> []"
    and "prefix (join_with ''/'' xs @ ''/'') (join_with ''/'' ys)"
  shows "prefix xs ys"
proof -
  from assms(5) obtain z where "join_with ''/'' ys = join_with ''/'' xs @ CHR ''/'' # z"
    by (auto simp: prefix_def)
  then have "split_on CHR ''/'' (join_with ''/'' ys) =
      split_on CHR ''/'' (join_with ''/'' xs) @ split_on CHR ''/'' z"
    by (simp add: split_on_append_sep)
  then show ?thesis using assms by (simp add: split_join_comps prefix_def)
qed

text \<open>Below-ness of rendered paths is the prefix order on their components.\<close>

lemma under_render:
  assumes "xs \<noteq> []" "\<forall>c \<in> set xs. good_comp c" "\<forall>c \<in> set ys. good_comp c" "ys \<noteq> []"
  shows "under (render r xs) (render r ys) \<longleftrightarrow> prefix xs ys"
proof
  assume "under (render r xs) (render r ys)"
  then show "prefix xs ys"
  proof (cases "render r ys = render r xs")
    case True
    then show ?thesis using render_inject[OF assms(3,2,4,1)] by simp
  next
    case False
    then have "prefix (join_with ''/'' xs @ ''/'') (join_with ''/'' ys)"
      using \<open>under (render r xs) (render r ys)\<close> assms by (auto simp: under_def render_def split: if_splits)
    then show ?thesis using assms prefix_split by blast
  qed
next
  assume "prefix xs ys"
  then obtain zs where ys: "ys = xs @ zs" by (auto simp: prefix_def)
  show "under (render r xs) (render r ys)"
    using assms(1,4) ys by (cases "zs = []") (auto simp: under_def render_def join_with_append)
qed

text \<open>A cleaned path is a run of \<open>..\<close> (none when rooted) and then plain components, and
  cleaning it again changes nothing.\<close>

definition clean_shape :: "bool \<Rightarrow> string list \<Rightarrow> bool" where
  "clean_shape r cs = (\<exists>k ps. cs = replicate k ''..'' @ ps \<and> (\<forall>c \<in> set ps. plain_comp c) \<and> (r \<longrightarrow> k = 0))"

lemma clean_shape_append:
  "clean_shape r cs \<Longrightarrow> \<forall>c \<in> set ds. plain_comp c \<Longrightarrow> clean_shape r (cs @ ds)"
proof -
  assume "clean_shape r cs" and ds: "\<forall>c \<in> set ds. plain_comp c"
  then obtain k ps where "cs = replicate k ''..'' @ ps" "\<forall>c \<in> set ps. plain_comp c" "r \<longrightarrow> k = 0"
    unfolding clean_shape_def by blast
  then have "cs @ ds = replicate k ''..'' @ (ps @ ds) \<and> (\<forall>c \<in> set (ps @ ds). plain_comp c) \<and> (r \<longrightarrow> k = 0)"
    using ds by auto
  then show ?thesis unfolding clean_shape_def by blast
qed

lemma plain_not_dotdot: "plain_comp c \<Longrightarrow> c \<noteq> ''..''"
  by (simp add: plain_comp_def)

lemma clean_step_shape:
  assumes "clean_shape r (rev st)" "CHR ''/'' \<notin> set c"
  shows "clean_shape r (rev (clean_step r st c))"
proof -
  from assms(1) obtain k ps where e: "rev st = replicate k ''..'' @ ps" "\<forall>c \<in> set ps. plain_comp c" "r \<longrightarrow> k = 0"
    unfolding clean_shape_def by blast
  show ?thesis
  proof (cases "c = [] \<or> c = ''.''")
    case True
    then show ?thesis using assms(1) by (auto simp: clean_step.simps)
  next
    case nd: False
    show ?thesis
    proof (cases "c = ''..''")
      case True
      show ?thesis
      proof (cases ps rule: rev_cases)
        case Nil
        then have st: "st = replicate k ''..''" using e(1) by (metis append_Nil2 rev_replicate rev_rev_ident)
        have "clean_step r st c = (if r then [] else replicate (Suc k) ''..'')"
          using True e(3) st by (cases k) (auto simp: clean_step.simps)
        then show ?thesis unfolding clean_shape_def
          by (auto intro!: exI[of _ "if r then 0 else Suc k"] exI[of _ "[]"] simp: replicate_append_same)
      next
        case (snoc qs d)
        have "st = rev (replicate k ''..'' @ ps)" using e(1) by (metis rev_rev_ident)
        then have st: "st = d # rev (replicate k ''..'' @ qs)" using snoc by simp
        then have "rev (clean_step r st c) = replicate k ''..'' @ qs"
          using True e(2) snoc plain_not_dotdot by (auto simp: clean_step.simps)
        then show ?thesis unfolding clean_shape_def using e snoc by auto
      qed
    next
      case False
      then have "plain_comp c" using nd assms(2) by (simp add: plain_comp_def good_comp_def)
      moreover have "rev (clean_step r st c) = rev st @ [c]" using nd False by (simp add: clean_step.simps)
      ultimately show ?thesis using clean_shape_append[OF assms(1), of "[c]"] by simp
    qed
  qed
qed

lemma foldl_clean_shape:
  "clean_shape r (rev st) \<Longrightarrow> \<forall>c \<in> set cs. CHR ''/'' \<notin> set c \<Longrightarrow>
     clean_shape r (rev (foldl (clean_step r) st cs))"
proof (induction cs arbitrary: st)
  case (Cons c cs)
  then have "clean_shape r (rev (clean_step r st c))" by (intro clean_step_shape) auto
  with Cons show ?case by simp
qed simp

lemma path_comps_shape: "clean_shape (is_rooted p) (path_comps p)"
proof -
  have "\<forall>c \<in> set (split_on CHR ''/'' p). CHR ''/'' \<notin> set c" using set_split_on by blast
  moreover have "clean_shape (is_rooted p) (rev [])" unfolding clean_shape_def by auto
  ultimately show ?thesis unfolding path_comps_def by (rule foldl_clean_shape[rotated])
qed

lemma foldl_clean_id:
  assumes "clean_shape r cs"
  shows "foldl (clean_step r) [] cs = rev cs"
proof -
  from assms obtain k ps where e: "cs = replicate k ''..'' @ ps" "\<forall>c \<in> set ps. plain_comp c" "r \<longrightarrow> k = 0"
    unfolding clean_shape_def by blast
  have "foldl (clean_step r) (replicate j ''..'') (replicate k ''..'') = replicate (k + j) ''..''" for j
    using e(3)
  proof (induction k arbitrary: j)
    case (Suc k)
    then have "clean_step r (replicate j ''..'') ''..'' = replicate (Suc j) ''..''"
      by (cases j) (auto simp: clean_step.simps)
    then show ?case using Suc.IH[of "Suc j"] Suc.prems by simp
  qed simp
  from this[of 0] show ?thesis using e(1,2) by (simp add: clean_plain)
qed

lemma clean_shape_good: "clean_shape r cs \<Longrightarrow> \<forall>c \<in> set cs. good_comp c"
  by (auto simp: clean_shape_def) (auto simp: good_comp_def)

lemma join_with_hd: "cs \<noteq> [] \<Longrightarrow> hd cs \<noteq> [] \<Longrightarrow> hd (join_with s cs) = hd (hd cs) \<and> join_with s cs \<noteq> []"
  by (induction s cs rule: join_with.induct) auto

lemma is_rooted_render: "\<forall>c \<in> set cs. good_comp c \<Longrightarrow> is_rooted (render r cs) = r"
proof (cases "r \<or> cs = []")
  case False
  assume "\<forall>c \<in> set cs. good_comp c"
  with False have "hd cs \<noteq> []" "hd (hd cs) \<noteq> CHR ''/''"
    by (auto simp: good_comp_def) (metis hd_in_set)
  then show ?thesis using False join_with_hd[of cs "''/''"]
    by (cases "join_with ''/'' cs") (auto simp: is_rooted_def render_def)
qed (auto simp: is_rooted_def render_def)

lemma path_comps_render:
  assumes "clean_shape r cs" "cs \<noteq> []"
  shows "path_comps (render r cs) = cs"
proof -
  have g: "\<forall>c \<in> set cs. good_comp c" using assms(1) by (rule clean_shape_good)
  have s: "split_on CHR ''/'' (join_with ''/'' cs) = cs" using assms(2) g by (rule split_join_comps)
  show ?thesis
    using is_rooted_render[OF g, of r] foldl_clean_id[OF assms(1)] s assms(2)
    by (auto simp: path_comps_def render_def clean_step.simps[of _ _ "[]"])
qed

text \<open>Joining onto a rendered path.\<close>

lemma filepath_join_render:
  assumes "clean_shape r cs" "cs \<noteq> []" "ds \<noteq> []" "\<forall>d \<in> set ds. plain_comp d"
  shows "filepath_join (render r cs # ds) = render r (cs @ ds)"
proof -
  have "render r cs \<noteq> []"
    using join_with_hd[of cs "''/''"] clean_shape_good[OF assms(1)] assms(2)
    by (cases cs) (auto simp: render_def good_comp_def)
  then show ?thesis
    using filepath_join_comps[OF _ assms(3,4), of "render r cs"] path_comps_render[OF assms(1,2)]
      is_rooted_render[OF clean_shape_good[OF assms(1)]] by simp
qed

section \<open>The file tree\<close>

datatype json =
    JNull | JBool bool | JNum int | JStr string | JTime int
  | JArr "json list" | JObj "(string \<times> json) list"

datatype content = Doc json | Garbage

datatype errno = ENOENT | EPERM | EISDIR | ENOTDIR | EIO

definition os_IsNotExist :: "errno \<Rightarrow> bool" where "os_IsNotExist e = (e = ENOENT)"

record attr =
  at_mode :: file_mode
  at_uid :: int
  at_gid :: int

text \<open>A file carries its content and its immutable flag.\<close>

datatype node = DirNode attr | FileNode content bool

datatype oscall =
    OMkdirAll string | ORemoveAll string | OReadFile string | OWriteFile string
  | ORename string string | ORemove string | OChmod string | OChown string
  | OStat string | OSetFlags string | OReadDir string

record world =
  nodes :: "(string \<times> node) list"
  faults :: "oscall \<Rightarrow> errno option"
  now :: int
  etab :: "(string \<times> string) list" \<comment> \<open>the NFS export table of the kernel: path and client\<close>

definition node_at :: "world \<Rightarrow> string \<Rightarrow> node option" where
  "node_at w p = map_of (nodes w) p"

definition set_node :: "string \<Rightarrow> node \<Rightarrow> world \<Rightarrow> world" where
  "set_node p n w = w\<lparr>nodes := AList.update p n (nodes w)\<rparr>"

definition drop_node :: "string \<Rightarrow> world \<Rightarrow> world" where
  "drop_node p w = w\<lparr>nodes := AList.delete p (nodes w)\<rparr>"

definition os_stat :: "string \<Rightarrow> world \<Rightarrow> errno + node" where
  "os_stat p w = (case faults w (OStat p) of
       Some e \<Rightarrow> Inl e
     | None \<Rightarrow> (case node_at w p of None \<Rightarrow> Inl ENOENT | Some n \<Rightarrow> Inr n))"

text \<open>The ancestors of a path, itself included: the path itself and its prefixes that end before a slash.\<close>

definition ancestors :: "string \<Rightarrow> string list" where
  "ancestors p = filter (\<lambda>q. q \<noteq> [] \<and> under q p) (prefixes p)"

definition new_dir :: "file_mode \<Rightarrow> node" where
  "new_dir m = DirNode \<lparr>at_mode = m, at_uid = 0, at_gid = 0\<rparr>"

fun mkdirs :: "file_mode \<Rightarrow> string list \<Rightarrow> world \<Rightarrow> world" where
  "mkdirs m [] w = w"
| "mkdirs m (p # ps) w =
     mkdirs m ps (case node_at w p of None \<Rightarrow> set_node p (new_dir m) w | Some _ \<Rightarrow> w)"

definition is_file :: "node option \<Rightarrow> bool" where
  "is_file n = (case n of Some (FileNode _ _) \<Rightarrow> True | _ \<Rightarrow> False)"

definition os_mkdir_all :: "string \<Rightarrow> file_mode \<Rightarrow> world \<Rightarrow> errno option \<times> world" where
  "os_mkdir_all p m w = (case faults w (OMkdirAll p) of
       Some e \<Rightarrow> (Some e, w)
     | None \<Rightarrow> if list_ex (\<lambda>q. is_file (node_at w q)) (ancestors p) then (Some ENOTDIR, w)
               else (None, mkdirs m (ancestors p) w))"

definition immutable_at :: "world \<Rightarrow> string \<Rightarrow> bool" where
  "immutable_at w p = (case node_at w p of Some (FileNode _ True) \<Rightarrow> True | _ \<Rightarrow> False)"

text \<open>\<open>os.RemoveAll\<close> removes what it can: immutable files and the directories that hold one stay,
  and then the call reports an error.\<close>

definition os_remove_all :: "string \<Rightarrow> world \<Rightarrow> errno option \<times> world" where
  "os_remove_all p w = (case faults w (ORemoveAll p) of
       Some e \<Rightarrow> (Some e, w)
     | None \<Rightarrow>
         let stuck = filter (\<lambda>q. under p q \<and> immutable_at w q) (map fst (nodes w));
             w' = w\<lparr>nodes := filter (\<lambda>(q, n). \<not> under p q \<or> list_ex (under q) stuck) (nodes w)\<rparr>
         in (if stuck = [] then None else Some EPERM, w'))"

definition os_read_file :: "string \<Rightarrow> world \<Rightarrow> errno + content" where
  "os_read_file p w = (case faults w (OReadFile p) of
       Some e \<Rightarrow> Inl e
     | None \<Rightarrow> (case node_at w p of
                  None \<Rightarrow> Inl ENOENT
                | Some (DirNode _) \<Rightarrow> Inl EISDIR
                | Some (FileNode c _) \<Rightarrow> Inr c))"

text \<open>The directory a file is created in must exist; a path with no slash is in the working directory.\<close>

definition parent_ok :: "string \<Rightarrow> world \<Rightarrow> bool" where
  "parent_ok p w = (case cut_last ''/'' p of
       None \<Rightarrow> True
     | Some (d, _) \<Rightarrow> d = [] \<or> (case node_at w d of Some (DirNode _) \<Rightarrow> True | _ \<Rightarrow> False))"

definition os_write_file :: "string \<Rightarrow> content \<Rightarrow> world \<Rightarrow> errno option \<times> world" where
  "os_write_file p c w = (case faults w (OWriteFile p) of
       Some e \<Rightarrow> (Some e, w)
     | None \<Rightarrow>
         if \<not> parent_ok p w then (Some ENOENT, w)
         else (case node_at w p of
                 Some (DirNode _) \<Rightarrow> (Some EISDIR, w)
               | Some (FileNode _ True) \<Rightarrow> (Some EPERM, w)
               | _ \<Rightarrow> (None, set_node p (FileNode c False) w)))"

definition os_rename :: "string \<Rightarrow> string \<Rightarrow> world \<Rightarrow> errno option \<times> world" where
  "os_rename p q w = (case faults w (ORename p q) of
       Some e \<Rightarrow> (Some e, w)
     | None \<Rightarrow>
         (case node_at w p of
            None \<Rightarrow> (Some ENOENT, w)
          | Some n \<Rightarrow>
              if immutable_at w p \<or> immutable_at w q then (Some EPERM, w)
              else (case node_at w q of
                      Some (DirNode _) \<Rightarrow> (Some EISDIR, w)
                    | _ \<Rightarrow> (None, set_node q n (drop_node p w)))))"

definition os_remove :: "string \<Rightarrow> world \<Rightarrow> errno option \<times> world" where
  "os_remove p w = (case faults w (ORemove p) of
       Some e \<Rightarrow> (Some e, w)
     | None \<Rightarrow> (case node_at w p of
                  None \<Rightarrow> (Some ENOENT, w)
                | Some _ \<Rightarrow> if immutable_at w p then (Some EPERM, w) else (None, drop_node p w)))"

definition os_chmod :: "string \<Rightarrow> file_mode \<Rightarrow> world \<Rightarrow> errno option \<times> world" where
  "os_chmod p m w = (case faults w (OChmod p) of
       Some e \<Rightarrow> (Some e, w)
     | None \<Rightarrow> (case node_at w p of
                  None \<Rightarrow> (Some ENOENT, w)
                | Some (DirNode a) \<Rightarrow> (None, set_node p (DirNode (a\<lparr>at_mode := m\<rparr>)) w)
                | Some (FileNode _ _) \<Rightarrow> (None, w)))"

definition os_chown :: "string \<Rightarrow> int \<Rightarrow> int \<Rightarrow> world \<Rightarrow> errno option \<times> world" where
  "os_chown p u g w = (case faults w (OChown p) of
       Some e \<Rightarrow> (Some e, w)
     | None \<Rightarrow> (case node_at w p of
                  None \<Rightarrow> (Some ENOENT, w)
                | Some (DirNode a) \<Rightarrow> (None, set_node p (DirNode (a\<lparr>at_uid := u, at_gid := g\<rparr>)) w)
                | Some (FileNode _ _) \<Rightarrow> (None, w)))"

subsection \<open>Frame laws\<close>

named_theorems os_frame \<open>what an operating-system call leaves alone\<close>

lemma node_at_set_node [simp]: "node_at (set_node p n w) q = (if q = p then Some n else node_at w q)"
  by (simp add: node_at_def set_node_def map_of_update)

lemma node_at_drop_node [simp]: "node_at (drop_node p w) q = (if q = p then None else node_at w q)"
  by (simp add: node_at_def drop_node_def delete_conv')

lemma set_node_frame [simp]: "faults (set_node p n w) = faults w" "now (set_node p n w) = now w"
  "etab (set_node p n w) = etab w"
  by (simp_all add: set_node_def)

lemma drop_node_frame [simp]: "faults (drop_node p w) = faults w" "now (drop_node p w) = now w"
  "etab (drop_node p w) = etab w"
  by (simp_all add: drop_node_def)

lemma mkdirs_frame [simp]: "faults (mkdirs m ps w) = faults w" "now (mkdirs m ps w) = now w"
  "etab (mkdirs m ps w) = etab w"
  by (induction ps arbitrary: w) (auto split: option.splits)

lemma mkdirs_keeps: "node_at w q = Some n \<Longrightarrow> node_at (mkdirs m ps w) q = Some n"
proof (induction ps arbitrary: w)
  case (Cons p ps)
  have "node_at (case node_at w p of None \<Rightarrow> set_node p (new_dir m) w | Some _ \<Rightarrow> w) q = Some n"
    using Cons.prems by (cases "p = q") (auto split: option.splits)
  then show ?case using Cons.IH by simp
qed simp

lemma mkdirs_dirs_only:
  "node_at (mkdirs m ps w) q = Some (FileNode c b) \<longleftrightarrow> node_at w q = Some (FileNode c b)"
  by (induction ps arbitrary: w) (auto simp: new_dir_def split: option.splits)

lemma os_mkdir_all_file [os_frame]:
  "node_at (snd (os_mkdir_all p m w)) q = Some (FileNode c b) \<longleftrightarrow> node_at w q = Some (FileNode c b)"
  by (simp add: os_mkdir_all_def mkdirs_dirs_only split: option.splits)

lemma os_chmod_file [os_frame]:
  "node_at (snd (os_chmod p m w)) q = Some (FileNode c b) \<longleftrightarrow> node_at w q = Some (FileNode c b)"
  by (auto simp: os_chmod_def split: option.splits node.splits)

lemma os_chown_file [os_frame]:
  "node_at (snd (os_chown p u g w)) q = Some (FileNode c b) \<longleftrightarrow> node_at w q = Some (FileNode c b)"
  by (auto simp: os_chown_def split: option.splits node.splits)

lemma map_of_filter_keys:
  "map_of (filter (\<lambda>(q, n). P q) xs) k = (if P k then map_of xs k else None)"
  by (induction xs) auto

lemma os_remove_all_outside [os_frame]:
  "\<not> under p q \<Longrightarrow> node_at (snd (os_remove_all p w)) q = node_at w q"
  by (auto simp: os_remove_all_def node_at_def Let_def map_of_filter_keys split: option.splits)

lemma node_at_not_key: "node_at w q = Some n \<Longrightarrow> q \<in> set (map fst (nodes w))"
  by (auto simp: node_at_def dest!: map_of_SomeD) force

lemma os_remove_all_gone:
  assumes "fst (os_remove_all p w) = None" "under p q"
  shows "node_at (snd (os_remove_all p w)) q = None"
  using assms
  by (auto simp: os_remove_all_def node_at_def Let_def map_of_filter_keys split: option.splits if_splits)

lemma os_frame_faults [simp]:
  "faults (snd (os_mkdir_all p m w)) = faults w" "faults (snd (os_remove_all p w)) = faults w"
  "faults (snd (os_write_file p c w)) = faults w" "faults (snd (os_rename p p' w)) = faults w"
  "faults (snd (os_remove p w)) = faults w" "faults (snd (os_chmod p md w)) = faults w"
  "faults (snd (os_chown p u g w)) = faults w"
  by (simp_all add: os_mkdir_all_def os_remove_all_def os_write_file_def os_rename_def os_remove_def
      os_chmod_def os_chown_def Let_def split: option.splits node.splits bool.splits)

lemma os_frame_now [simp]:
  "now (snd (os_mkdir_all p m w)) = now w" "now (snd (os_remove_all p w)) = now w"
  "now (snd (os_write_file p c w)) = now w" "now (snd (os_rename p p' w)) = now w"
  "now (snd (os_remove p w)) = now w" "now (snd (os_chmod p md w)) = now w"
  "now (snd (os_chown p u g w)) = now w"
  by (simp_all add: os_mkdir_all_def os_remove_all_def os_write_file_def os_rename_def os_remove_def
      os_chmod_def os_chown_def Let_def split: option.splits node.splits bool.splits)

lemma os_frame_etab [simp]:
  "etab (snd (os_mkdir_all p m w)) = etab w" "etab (snd (os_remove_all p w)) = etab w"
  "etab (snd (os_write_file p c w)) = etab w" "etab (snd (os_rename p p' w)) = etab w"
  "etab (snd (os_remove p w)) = etab w" "etab (snd (os_chmod p md w)) = etab w"
  "etab (snd (os_chown p u g w)) = etab w"
  by (simp_all add: os_mkdir_all_def os_remove_all_def os_write_file_def os_rename_def os_remove_def
      os_chmod_def os_chown_def Let_def split: option.splits node.splits bool.splits)

lemma os_write_file_other [os_frame]:
  "q \<noteq> p \<Longrightarrow> node_at (snd (os_write_file p c w)) q = node_at w q"
  by (simp add: os_write_file_def split: option.splits node.splits bool.splits)

lemma os_rename_other [os_frame]:
  "q \<noteq> p \<Longrightarrow> q \<noteq> p' \<Longrightarrow> node_at (snd (os_rename p p' w)) q = node_at w q"
  by (simp add: os_rename_def split: option.splits node.splits bool.splits)

lemma os_remove_other [os_frame]:
  "q \<noteq> p \<Longrightarrow> node_at (snd (os_remove p w)) q = node_at w q"
  by (simp add: os_remove_def split: option.splits)

end
