(* ===== verification/MetaStore.thy ===== *)
theory MetaStore
  imports Filesystem
begin

text \<open>
  The metadata store of \<open>agent/storage/meta/store.go\<close>: a cache of metadata values backed by one
  JSON file per entry. The store is generic in its value type, so its operations take the JSON
  codec of that type. The contract of the store (what a read returns after a write, and that the
  cache never says anything the disk does not) is stated in the locale \<open>metadata_store\<close>.
  The per-path locks are in theory \<open>PathLock\<close>; the operations here are their critical sections.
\<close>

section \<open>State\<close>

record 'a codec =
  marshal :: "'a \<Rightarrow> json"
  unmarshal :: "int \<Rightarrow> json \<Rightarrow> 'a option" \<comment> \<open>the first argument is the current time\<close>

record 'a store =
  cache :: "(string \<times> 'a) list"
  basePath :: string
  pathSegments :: "string list"

datatype meta_err = OsErr errno | JsonErr

definition meta_IsNotExist :: "meta_err \<Rightarrow> bool" where
  "meta_IsNotExist e = (e = OsErr ENOENT)"

definition NewStore :: "string \<Rightarrow> string list \<Rightarrow> 'a store" where
  "NewStore base segments = \<lparr>cache = [], basePath = base, pathSegments = segments\<rparr>"

definition key :: "string \<Rightarrow> string \<Rightarrow> string" where
  "key tenant name = tenant @ ''/'' @ name"

definition Dir :: "'a store \<Rightarrow> string \<Rightarrow> string \<Rightarrow> string" where
  "Dir s tenant name = filepath_join ([basePath s, tenant] @ pathSegments s @ [name])"

definition MetaPath :: "'a store \<Rightarrow> string \<Rightarrow> string \<Rightarrow> string" where
  "MetaPath s tenant name = filepath_join [Dir s tenant name, MetadataFile]"

definition DataPath :: "'a store \<Rightarrow> string \<Rightarrow> string \<Rightarrow> string" where
  "DataPath s tenant name = filepath_join [Dir s tenant name, DataDir]"

section \<open>Files\<close>

text \<open>Setting and clearing the immutable flag is best effort: every failure is ignored.\<close>

definition toggleImmutable :: "string \<Rightarrow> bool \<Rightarrow> world \<Rightarrow> world" where
  "toggleImmutable path flag w = (case faults w (OSetFlags path) of
       Some _ \<Rightarrow> w
     | None \<Rightarrow> (case node_at w path of
                  Some (FileNode c _) \<Rightarrow> set_node path (FileNode c flag) w
                | _ \<Rightarrow> w))"

definition readJSON :: "'a codec \<Rightarrow> string \<Rightarrow> world \<Rightarrow> meta_err + 'a" where
  "readJSON cd path w = (case os_read_file path w of
       Inl e \<Rightarrow> Inl (OsErr e)
     | Inr Garbage \<Rightarrow> Inl JsonErr
     | Inr (Doc j) \<Rightarrow> (case unmarshal cd (now w) j of None \<Rightarrow> Inl JsonErr | Some v \<Rightarrow> Inr v))"

definition writeJSONAtomic :: "'a codec \<Rightarrow> string \<Rightarrow> 'a \<Rightarrow> world \<Rightarrow> errno option \<times> world" where
  "writeJSONAtomic cd path v w =
     (let tmp = path @ ''.tmp'' in
      case os_write_file tmp (Doc (marshal cd v)) w of
        (Some e, w1) \<Rightarrow> (Some e, w1)
      | (None, w1) \<Rightarrow>
          (case os_rename tmp path (toggleImmutable path False w1) of
             (Some e, w2) \<Rightarrow> (Some e, snd (os_remove tmp w2))
           | (None, w2) \<Rightarrow> (None, toggleImmutable path True w2)))"

section \<open>Operations\<close>

definition cache_put :: "string \<Rightarrow> string \<Rightarrow> 'a \<Rightarrow> 'a store \<Rightarrow> 'a store" where
  "cache_put tenant name v s = s\<lparr>cache := AList.update (key tenant name) v (cache s)\<rparr>"

definition Seed :: "string \<Rightarrow> string \<Rightarrow> 'a \<Rightarrow> 'a store \<Rightarrow> 'a store" where
  "Seed tenant name v s = cache_put tenant name v s"

definition Get :: "'a codec \<Rightarrow> string \<Rightarrow> string \<Rightarrow> world \<Rightarrow> 'a store \<Rightarrow> (meta_err + 'a) \<times> 'a store" where
  "Get cd tenant name w s = (case map_of (cache s) (key tenant name) of
       Some v \<Rightarrow> (Inr v, s)
     | None \<Rightarrow> (case readJSON cd (MetaPath s tenant name) w of
                  Inl e \<Rightarrow> (Inl e, s)
                | Inr v \<Rightarrow> (Inr v, cache_put tenant name v s)))"

definition Store :: "'a codec \<Rightarrow> string \<Rightarrow> string \<Rightarrow> 'a \<Rightarrow> world \<times> 'a store \<Rightarrow> errno option \<times> world \<times> 'a store" where
  "Store cd tenant name v st = (case st of (w, s) \<Rightarrow>
     (case writeJSONAtomic cd (MetaPath s tenant name) v w of
        (Some e, w') \<Rightarrow> (Some e, w', s)
      | (None, w') \<Rightarrow> (None, w', cache_put tenant name v s)))"

text \<open>\<open>Update\<close> hands its callback a shallow copy of the cached struct. A callback that writes
  through a slice of the copy also changes the cached struct; \<open>alias\<close> is that change, the identity
  for a callback that only assigns fields. The cached value matters when the write then fails.\<close>

definition Update :: "'a codec \<Rightarrow> string \<Rightarrow> string \<Rightarrow> ('a \<Rightarrow> 'a) \<Rightarrow> ('a \<Rightarrow> 'a) \<Rightarrow>
    world \<times> 'a store \<Rightarrow> (meta_err + 'a) \<times> world \<times> 'a store" where
  "Update cd tenant name fn alias st = (case st of (w, s) \<Rightarrow>
     (case Get cd tenant name w s of
        (Inl e, s1) \<Rightarrow> (Inl e, w, s1)
      | (Inr v, s1) \<Rightarrow>
          (case writeJSONAtomic cd (MetaPath s tenant name) (fn v) w of
             (Some e, w') \<Rightarrow> (Inl (OsErr e), w', cache_put tenant name (alias v) s1)
           | (None, w') \<Rightarrow> (Inr (fn v), w', cache_put tenant name (fn v) s1))))"

definition Delete :: "string \<Rightarrow> string \<Rightarrow> world \<times> 'a store \<Rightarrow> world \<times> 'a store" where
  "Delete tenant name st = (case st of (w, s) \<Rightarrow>
     (toggleImmutable (MetaPath s tenant name) False w,
      s\<lparr>cache := AList.delete (key tenant name) (cache s)\<rparr>))"

text \<open>The entries a \<open>Range\<close> loop visits: the key is cut at its first slash.\<close>

definition range_entry :: "string \<times> 'a \<Rightarrow> string \<times> string \<times> 'a" where
  "range_entry kv = (case kv of (k, v) \<Rightarrow>
     (case cut ''/'' k of None \<Rightarrow> (k, [], v) | Some (t, n) \<Rightarrow> (t, n, v)))"

definition Range :: "'a store \<Rightarrow> (string \<times> string \<times> 'a) list" where
  "Range s = map range_entry (cache s)"

definition LoadFromDisk :: "'a codec \<Rightarrow> string \<Rightarrow> string \<Rightarrow> world \<times> 'a store \<Rightarrow> (meta_err + 'a) \<times> world \<times> 'a store" where
  "LoadFromDisk cd tenant name st = (case st of (w, s) \<Rightarrow>
     (case readJSON cd (MetaPath s tenant name) w of
        Inl e \<Rightarrow> (Inl e, w, s)
      | Inr v \<Rightarrow> (Inr v, toggleImmutable (MetaPath s tenant name) True w, cache_put tenant name v s)))"

definition Exists :: "string \<Rightarrow> string \<Rightarrow> 'a store \<Rightarrow> bool" where
  "Exists tenant name s = (map_of (cache s) (key tenant name) \<noteq> None)"

section \<open>Keys and paths\<close>

lemma cut_key: "ValidName t \<Longrightarrow> cut ''/'' (key t n) = Some (t, n)"
  using ValidName_no_slash[of t] by (simp add: key_def cut_single_append)

lemma key_inject: "ValidName t \<Longrightarrow> ValidName t' \<Longrightarrow> key t n = key t' n' \<longleftrightarrow> t = t' \<and> n = n'"
  using cut_key[of t n] cut_key[of t' n'] by (metis option.inject prod.inject)

lemma range_entry_key: "ValidName t \<Longrightarrow> range_entry (key t n, v) = (t, n, v)"
  by (simp add: range_entry_def cut_key)

definition store_wf :: "'a store \<Rightarrow> bool" where
  "store_wf s = (basePath s \<noteq> [] \<and> list_all plain_comp (pathSegments s))"

definition entry_comps :: "'a store \<Rightarrow> string \<Rightarrow> string \<Rightarrow> string list" where
  "entry_comps s t n = path_comps (basePath s) @ t # pathSegments s @ [n]"

lemma entry_comps_shape:
  "store_wf s \<Longrightarrow> ValidName t \<Longrightarrow> ValidName n \<Longrightarrow>
     clean_shape (is_rooted (basePath s)) (entry_comps s t n) \<and> entry_comps s t n \<noteq> []"
  unfolding entry_comps_def store_wf_def
  by (auto intro!: clean_shape_append path_comps_shape simp: list_all_iff)

lemma Dir_render:
  "store_wf s \<Longrightarrow> ValidName t \<Longrightarrow> ValidName n \<Longrightarrow>
     Dir s t n = render (is_rooted (basePath s)) (entry_comps s t n)"
  unfolding Dir_def store_wf_def entry_comps_def
  by (subst append_Cons, subst filepath_join_comps) (auto simp: list_all_iff)

lemma plain_files [simp]: "plain_comp MetadataFile" "plain_comp DataDir" "plain_comp SnapshotsDir"
  "plain_comp (MetadataFile @ ''.tmp'')"
  by (simp_all add: plain_comp_def good_comp_def MetadataFile_def DataDir_def SnapshotsDir_def)

lemma MetaPath_render:
  "store_wf s \<Longrightarrow> ValidName t \<Longrightarrow> ValidName n \<Longrightarrow>
     MetaPath s t n = render (is_rooted (basePath s)) (entry_comps s t n @ [MetadataFile])"
  using entry_comps_shape[of s t n]
  by (simp add: MetaPath_def Dir_render filepath_join_render)

lemma DataPath_render:
  "store_wf s \<Longrightarrow> ValidName t \<Longrightarrow> ValidName n \<Longrightarrow>
     DataPath s t n = render (is_rooted (basePath s)) (entry_comps s t n @ [DataDir])"
  using entry_comps_shape[of s t n]
  by (simp add: DataPath_def Dir_render filepath_join_render)

lemma render_snoc_append: "cs \<noteq> [] \<Longrightarrow> render r (cs @ [x]) @ y = render r (cs @ [x @ y])"
  by (auto simp: render_def join_with_append)

lemma tmp_render:
  "store_wf s \<Longrightarrow> ValidName t \<Longrightarrow> ValidName n \<Longrightarrow>
     MetaPath s t n @ ''.tmp'' = render (is_rooted (basePath s)) (entry_comps s t n @ [MetadataFile @ ''.tmp''])"
  using entry_comps_shape[of s t n] by (simp add: MetaPath_render render_snoc_append)

lemma entry_comps_good:
  assumes "store_wf s" "ValidName t" "ValidName n" "plain_comp c"
  shows "\<forall>d \<in> set (entry_comps s t n @ [c]). good_comp d"
  using clean_shape_good[of "is_rooted (basePath s)" "entry_comps s t n"]
    entry_comps_shape[OF assms(1-3)] assms(4) by auto

lemma entry_comps_inject: "entry_comps s t n = entry_comps s t' n' \<longleftrightarrow> t = t' \<and> n = n'"
  by (simp add: entry_comps_def)

text \<open>Different entries of a store use different files, and no temporary file is an entry's file.\<close>

lemma MetaPath_inject:
  assumes "store_wf s" "ValidName t" "ValidName n" "ValidName t'" "ValidName n'"
  shows "MetaPath s t n = MetaPath s t' n' \<longleftrightarrow> t = t' \<and> n = n'"
  unfolding MetaPath_render[OF assms(1-3)] MetaPath_render[OF assms(1,4,5)]
  by (subst render_inject[OF entry_comps_good entry_comps_good])
     (use assms in \<open>auto simp: entry_comps_inject\<close>)

lemma MetaPath_tmp:
  assumes "store_wf s" "ValidName t" "ValidName n" "ValidName t'" "ValidName n'"
  shows "MetaPath s t n \<noteq> MetaPath s t' n' @ ''.tmp''"
  unfolding tmp_render[OF assms(1,4,5)] MetaPath_render[OF assms(1-3)]
  by (subst render_inject[OF entry_comps_good entry_comps_good]) (use assms in auto)

section \<open>What a write does\<close>

lemma toggleImmutable_frame [simp]:
  "faults (toggleImmutable p b w) = faults w" "now (toggleImmutable p b w) = now w"
  "etab (toggleImmutable p b w) = etab w"
  by (simp_all add: toggleImmutable_def split: option.splits node.splits)

lemma toggleImmutable_other [simp]: "q \<noteq> p \<Longrightarrow> node_at (toggleImmutable p b w) q = node_at w q"
  by (simp add: toggleImmutable_def split: option.splits node.splits)

text \<open>The content of a file, whatever its immutable flag.\<close>

definition file_content :: "world \<Rightarrow> string \<Rightarrow> content option" where
  "file_content w p = (case node_at w p of Some (FileNode c _) \<Rightarrow> Some c | _ \<Rightarrow> None)"

lemma file_content_toggle [simp]: "file_content (toggleImmutable p b w) q = file_content w q"
  by (auto simp: file_content_def toggleImmutable_def split: option.splits node.splits)

lemma file_content_set_node [simp]:
  "file_content (set_node p n w) q = (if q = p then (case n of FileNode c _ \<Rightarrow> Some c | _ \<Rightarrow> None) else file_content w q)"
  by (auto simp: file_content_def split: node.splits)

lemma file_content_drop_node [simp]:
  "file_content (drop_node p w) q = (if q = p then None else file_content w q)"
  by (simp add: file_content_def)

lemma file_content_write_other:
  "q \<noteq> p \<Longrightarrow> file_content (snd (os_write_file p c w)) q = file_content w q"
  by (simp add: file_content_def os_frame)

lemma os_write_file_ok:
  "os_write_file p c w = (None, w') \<Longrightarrow> w' = set_node p (FileNode c False) w"
  by (auto simp: os_write_file_def split: option.splits if_splits node.splits bool.splits)

lemma os_rename_ok:
  "os_rename p q w = (None, w') \<Longrightarrow> \<exists>n. node_at w p = Some n \<and> w' = set_node q n (drop_node p w)"
  by (auto simp: os_rename_def split: option.splits if_splits node.splits)

lemma os_rename_err: "os_rename p q w = (Some e, w') \<Longrightarrow> w' = w"
  by (auto simp: os_rename_def split: option.splits if_splits node.splits)

lemma file_content_remove_other:
  "q \<noteq> p \<Longrightarrow> file_content (snd (os_remove p w)) q = file_content w q"
  by (simp add: file_content_def os_frame)

lemma os_write_file_err: "os_write_file p c w = (Some e, w') \<Longrightarrow> w' = w"
  by (auto simp: os_write_file_def split: option.splits if_splits node.splits bool.splits)

text \<open>A write that succeeds replaces the file; a write that fails leaves its content as it was.
  Either way only the file itself and its temporary file can change.\<close>

lemma writeJSONAtomic_ok:
  assumes "writeJSONAtomic cd p v w = (None, w')"
  shows "file_content w' p = Some (Doc (marshal cd v))"
    and "q \<noteq> p \<Longrightarrow> q \<noteq> p @ ''.tmp'' \<Longrightarrow> node_at w' q = node_at w q"
proof -
  let ?tmp = "p @ ''.tmp''"
  from assms obtain w1 where w1: "os_write_file ?tmp (Doc (marshal cd v)) w = (None, w1)"
    by (auto simp: writeJSONAtomic_def Let_def split: prod.splits option.splits)
  from assms w1 obtain w2 where w2: "os_rename ?tmp p (toggleImmutable p False w1) = (None, w2)"
      and w': "w' = toggleImmutable p True w2"
    by (auto simp: writeJSONAtomic_def Let_def split: prod.splits option.splits)
  have w1e: "w1 = set_node ?tmp (FileNode (Doc (marshal cd v)) False) w" using os_write_file_ok[OF w1] .
  obtain n where n: "node_at (toggleImmutable p False w1) ?tmp = Some n"
      and w2e: "w2 = set_node p n (drop_node ?tmp (toggleImmutable p False w1))"
    using os_rename_ok[OF w2] by blast
  have ne: "?tmp \<noteq> p" by simp
  with n w1e have "n = FileNode (Doc (marshal cd v)) False" by simp
  then show "file_content w' p = Some (Doc (marshal cd v))" using w' w2e by simp
  show "node_at w' q = node_at w q" if "q \<noteq> p" "q \<noteq> ?tmp"
    using that w' w2e w1e by simp
qed

lemma writeJSONAtomic_err:
  assumes "writeJSONAtomic cd p v w = (Some e, w')"
  shows "file_content w' p = file_content w p"
    and "q \<noteq> p \<Longrightarrow> q \<noteq> p @ ''.tmp'' \<Longrightarrow> node_at w' q = node_at w q"
proof -
  let ?tmp = "p @ ''.tmp''"
  have ne: "?tmp \<noteq> p" by simp
  have "file_content w' p = file_content w p \<and> (q \<noteq> p \<longrightarrow> q \<noteq> ?tmp \<longrightarrow> node_at w' q = node_at w q)"
  proof (cases "os_write_file ?tmp (Doc (marshal cd v)) w")
    case (Pair r w1)
    show ?thesis
    proof (cases r)
      case (Some x)
      then show ?thesis using assms Pair os_write_file_err[of ?tmp _ w x w1]
        by (auto simp: writeJSONAtomic_def)
    next
      case None
      have w1e: "w1 = set_node ?tmp (FileNode (Doc (marshal cd v)) False) w"
        using os_write_file_ok Pair None by simp
      from assms Pair None obtain w2 x where w2: "os_rename ?tmp p (toggleImmutable p False w1) = (Some x, w2)"
          and w': "w' = snd (os_remove ?tmp w2)"
        by (auto simp: writeJSONAtomic_def Let_def split: prod.splits option.splits)
      have "w2 = toggleImmutable p False w1" using os_rename_err[OF w2] .
      then show ?thesis using w' w1e ne
        by (auto simp: file_content_remove_other os_remove_other)
    qed
  qed
  then show "file_content w' p = file_content w p"
    and "q \<noteq> p \<Longrightarrow> q \<noteq> ?tmp \<Longrightarrow> node_at w' q = node_at w q" by auto
qed

lemma writeJSONAtomic_frame [simp]:
  "faults (snd (writeJSONAtomic cd p v w)) = faults w" "now (snd (writeJSONAtomic cd p v w)) = now w"
  "etab (snd (writeJSONAtomic cd p v w)) = etab w"
  unfolding writeJSONAtomic_def Let_def
  by (auto split: prod.splits option.splits)
     (metis os_frame_faults os_frame_now os_frame_etab toggleImmutable_frame snd_conv)+

lemma writeJSONAtomic_other:
  "q \<noteq> p \<Longrightarrow> q \<noteq> p @ ''.tmp'' \<Longrightarrow> node_at (snd (writeJSONAtomic cd p v w)) q = node_at w q"
  by (cases "writeJSONAtomic cd p v w"; cases "fst (writeJSONAtomic cd p v w)")
     (auto dest: writeJSONAtomic_ok(2) writeJSONAtomic_err(2))

section \<open>The contract of the store\<close>

text \<open>A cached value is backed by the disk when its file holds a document that decodes to it.
  \<open>store_inv\<close> says every cached value is: the cache can be dropped and read again.\<close>

definition backed :: "'a codec \<Rightarrow> world \<Rightarrow> string \<Rightarrow> 'a \<Rightarrow> bool" where
  "backed cd w p v = (\<exists>j t. file_content w p = Some (Doc j) \<and> unmarshal cd t j = Some v)"

definition store_inv :: "'a codec \<Rightarrow> ('a \<Rightarrow> bool) \<Rightarrow> world \<Rightarrow> 'a store \<Rightarrow> bool" where
  "store_inv cd ok w s \<longleftrightarrow> store_wf s \<and>
     (\<forall>k v. map_of (cache s) k = Some v \<longrightarrow>
        (\<exists>t n. ValidName t \<and> ValidName n \<and> k = key t n \<and> ok v \<and> backed cd w (MetaPath s t n) v))"

lemma MetaPath_cache [simp]: "MetaPath (s\<lparr>cache := c\<rparr>) t n = MetaPath s t n"
  and DataPath_cache [simp]: "DataPath (s\<lparr>cache := c\<rparr>) t n = DataPath s t n"
  and Dir_cache [simp]: "Dir (s\<lparr>cache := c\<rparr>) t n = Dir s t n"
  and store_wf_cache [simp]: "store_wf (s\<lparr>cache := c\<rparr>) = store_wf s"
  by (simp_all add: MetaPath_def DataPath_def Dir_def store_wf_def)

lemma cache_put_lookup [simp]:
  "map_of (cache (cache_put t n v s)) k = (if k = key t n then Some v else map_of (cache s) k)"
  by (simp add: cache_put_def map_of_update)

lemma cache_put_paths [simp]:
  "MetaPath (cache_put t n v s) = MetaPath s" "DataPath (cache_put t n v s) = DataPath s"
  "Dir (cache_put t n v s) = Dir s" "store_wf (cache_put t n v s) = store_wf s"
  by (simp_all add: cache_put_def fun_eq_iff)

lemma store_invD:
  assumes "store_inv cd ok w s" "map_of (cache s) (key t n) = Some v" "ValidName t"
  shows "ok v \<and> ValidName n \<and> backed cd w (MetaPath s t n) v"
proof -
  from assms obtain t' n' where e: "ValidName t'" "ValidName n'" "key t n = key t' n'" "ok v"
      "backed cd w (MetaPath s t' n') v"
    unfolding store_inv_def by blast
  with key_inject[OF assms(3) e(1)] show ?thesis by auto
qed

lemma store_inv_NewStore: "base \<noteq> [] \<Longrightarrow> list_all plain_comp segs \<Longrightarrow> store_inv cd ok w (NewStore base segs)"
  by (simp add: store_inv_def NewStore_def store_wf_def)

lemma store_inv_put:
  assumes "store_inv cd ok w s" "ValidName t" "ValidName n" "ok v" "backed cd w (MetaPath s t n) v"
  shows "store_inv cd ok w (cache_put t n v s)"
  using assms unfolding store_inv_def by (auto split: if_splits)

text \<open>A change of the world that keeps the entries' files keeps the invariant.\<close>

lemma store_inv_world:
  assumes "store_inv cd ok w s"
    and "\<And>t n v. ValidName t \<Longrightarrow> ValidName n \<Longrightarrow> map_of (cache s) (key t n) = Some v \<Longrightarrow>
           file_content w' (MetaPath s t n) = file_content w (MetaPath s t n)"
  shows "store_inv cd ok w' s"
  unfolding store_inv_def
proof (intro conjI allI impI)
  show "store_wf s" using assms(1) by (simp add: store_inv_def)
  fix k v assume l: "map_of (cache s) k = Some v"
  with assms(1) obtain t n where e: "ValidName t" "ValidName n" "k = key t n" "ok v"
      "backed cd w (MetaPath s t n) v"
    unfolding store_inv_def by blast
  then have "backed cd w' (MetaPath s t n) v" using assms(2)[OF e(1,2)] l by (simp add: backed_def)
  then show "\<exists>t n. ValidName t \<and> ValidName n \<and> k = key t n \<and> ok v \<and> backed cd w' (MetaPath s t n) v"
    using e by blast
qed

lemma file_content_cong: "node_at w p = node_at w' p \<Longrightarrow> file_content w p = file_content w' p"
  by (simp add: file_content_def)

lemma readJSON_backed: "readJSON cd p w = Inr v \<Longrightarrow> backed cd w p v"
  by (auto simp: readJSON_def os_read_file_def backed_def file_content_def
      split: sum.splits option.splits node.splits content.splits)

lemma readJSON_cong:
  assumes "file_content w' p = Some c" "faults w' (OReadFile p) = None"
  shows "readJSON cd p w' = (case c of Garbage \<Rightarrow> Inl JsonErr
      | Doc j \<Rightarrow> (case unmarshal cd (now w') j of None \<Rightarrow> Inl JsonErr | Some v \<Rightarrow> Inr v))"
  using assms
  by (auto simp: readJSON_def os_read_file_def file_content_def split: option.splits node.splits content.splits)

locale metadata_store =
  fixes cd :: "'a codec" and ok :: "'a \<Rightarrow> bool"
  assumes encode_decode: "ok v \<Longrightarrow> unmarshal cd t (marshal cd v) = Some v"
    and decode_ok: "unmarshal cd t j = Some v \<Longrightarrow> ok v"
begin

lemma Get_inv:
  assumes "store_inv cd ok w s" "ValidName t" "ValidName n"
  shows "store_inv cd ok w (snd (Get cd t n w s))"
    and "fst (Get cd t n w s) = Inr v \<Longrightarrow>
           ok v \<and> map_of (cache (snd (Get cd t n w s))) (key t n) = Some v"
    and "MetaPath (snd (Get cd t n w s)) = MetaPath s"
    and "k \<noteq> key t n \<Longrightarrow> map_of (cache (snd (Get cd t n w s))) k = map_of (cache s) k"
proof -
  have rd: "ok u \<and> backed cd w (MetaPath s t n) u" if "readJSON cd (MetaPath s t n) w = Inr u" for u
    using readJSON_backed[OF that] decode_ok by (auto simp: backed_def)
  show "store_inv cd ok w (snd (Get cd t n w s))"
    using assms rd by (auto simp: Get_def intro!: store_inv_put split: option.splits sum.splits)
  show "ok v \<and> map_of (cache (snd (Get cd t n w s))) (key t n) = Some v" if "fst (Get cd t n w s) = Inr v"
    using that assms rd store_invD[OF assms(1) _ assms(2)]
    by (auto simp: Get_def split: option.splits sum.splits)
qed (auto simp: Get_def split: option.splits sum.splits)

lemma write_keeps_inv:
  assumes "store_inv cd ok w s" "ValidName t" "ValidName n"
    and "\<And>v. map_of (cache s) (key t n) = Some v \<Longrightarrow>
           file_content w' (MetaPath s t n) = file_content w (MetaPath s t n)"
    and "\<And>q. q \<noteq> MetaPath s t n \<Longrightarrow> q \<noteq> MetaPath s t n @ ''.tmp'' \<Longrightarrow> node_at w' q = node_at w q"
  shows "store_inv cd ok w' s"
proof (rule store_inv_world[OF assms(1)])
  fix t' n' v assume e: "ValidName t'" "ValidName n'" "map_of (cache s) (key t' n') = Some v"
  have wf: "store_wf s" using assms(1) by (simp add: store_inv_def)
  show "file_content w' (MetaPath s t' n') = file_content w (MetaPath s t' n')"
  proof (cases "t' = t \<and> n' = n")
    case True
    then show ?thesis using assms(4) e(3) by simp
  next
    case False
    then have "MetaPath s t' n' \<noteq> MetaPath s t n"
      using MetaPath_inject[OF wf e(1,2) assms(2,3)] by simp
    then show ?thesis using assms(5) MetaPath_tmp[OF wf e(1,2) assms(2,3)]
      by (intro file_content_cong) simp
  qed
qed

text \<open>After a write the entry reads back and every other entry is as before; the invariant holds
  whether or not the write succeeded.\<close>

lemma written_inv:
  assumes "store_inv cd ok w s" "ValidName t" "ValidName n" "ok v"
    and wr: "writeJSONAtomic cd (MetaPath s t n) v w = (None, w')"
  shows "store_inv cd ok w' (cache_put t n v s)"
proof -
  note fc = writeJSONAtomic_ok[OF wr]
  let ?s = "s\<lparr>cache := AList.delete (key t n) (cache s)\<rparr>"
  have "store_inv cd ok w ?s"
    using assms(1) by (auto simp: store_inv_def delete_conv')
  then have "store_inv cd ok w' ?s"
    by (rule write_keeps_inv[OF _ assms(2,3)]) (use fc(2) in \<open>auto simp: delete_conv'\<close>)
  then have "store_inv cd ok w' (cache_put t n v ?s)"
    using assms(2-4) fc(1) encode_decode[OF assms(4)] by (intro store_inv_put) (auto simp: backed_def)
  then show ?thesis
    unfolding store_inv_def by (auto simp: delete_conv' split: if_splits)
qed

lemma failed_write_inv:
  assumes "store_inv cd ok w s" "ValidName t" "ValidName n"
    and wr: "writeJSONAtomic cd (MetaPath s t n) v w = (Some e, w')"
  shows "store_inv cd ok w' s"
  by (rule write_keeps_inv[OF assms(1-3)]) (use writeJSONAtomic_err[OF wr] in auto)

lemma Store_inv:
  assumes "store_inv cd ok w s" "ValidName t" "ValidName n" "ok v"
    and "Store cd t n v (w, s) = (r, w', s')"
  shows "store_inv cd ok w' s'"
    and "r = None \<Longrightarrow> map_of (cache s') (key t n) = Some v"
    and "r \<noteq> None \<Longrightarrow> s' = s"
    and "k \<noteq> key t n \<Longrightarrow> map_of (cache s') k = map_of (cache s) k"
  using assms(5) written_inv[OF assms(1-4)] failed_write_inv[OF assms(1-3)]
  by (auto simp: Store_def split: prod.splits option.splits)

lemma Update_inv:
  assumes "store_inv cd ok w s" "ValidName t" "ValidName n"
    and "\<And>v. ok v \<Longrightarrow> ok (fn v)" and "\<And>v. alias v = v"
    and up: "Update cd t n fn alias (w, s) = (r, w', s')"
  shows "store_inv cd ok w' s'"
proof -
  obtain g s1 where g: "Get cd t n w s = (g, s1)" by fastforce
  note gi = Get_inv[OF assms(1-3), unfolded g fst_conv snd_conv]
  show ?thesis
  proof (cases g)
    case (Inl e)
    then show ?thesis using up g gi(1) by (simp add: Update_def)
  next
    case (Inr v)
    have vok: "ok v" and hit: "map_of (cache s1) (key t n) = Some v"
      using gi(2) Inr by auto
    obtain r1 w1 where wr: "writeJSONAtomic cd (MetaPath s t n) (fn v) w = (r1, w1)" by fastforce
    have wr1: "writeJSONAtomic cd (MetaPath s1 t n) (fn v) w = (r1, w1)" using wr gi(3) by simp
    show ?thesis
    proof (cases r1)
      case None
      then have "w' = w1" "s' = cache_put t n (fn v) s1" using up g Inr wr by (simp_all add: Update_def)
      then show ?thesis using written_inv[OF gi(1) assms(2,3) assms(4)[OF vok]] wr1 None by simp
    next
      case (Some e)
      then have e: "w' = w1" "s' = cache_put t n v s1" using up g Inr wr assms(5) by (simp_all add: Update_def)
      have "store_inv cd ok w1 s1" using failed_write_inv[OF gi(1) assms(2,3)] wr1 Some by simp
      then show ?thesis using e hit unfolding store_inv_def by (auto split: if_splits)
    qed
  qed
qed

lemma Delete_inv:
  assumes "store_inv cd ok w s" "Delete t n (w, s) = (w', s')"
  shows "store_inv cd ok w' s'"
proof -
  have "store_inv cd ok w' s"
    by (rule store_inv_world[OF assms(1)]) (use assms(2) in \<open>auto simp: Delete_def\<close>)
  moreover have "s' = s\<lparr>cache := AList.delete (key t n) (cache s)\<rparr>" using assms(2) by (auto simp: Delete_def)
  ultimately show ?thesis by (simp add: store_inv_def delete_conv')
qed

lemma LoadFromDisk_inv:
  assumes "store_inv cd ok w s" "ValidName t" "ValidName n"
    and "LoadFromDisk cd t n (w, s) = (r, w', s')"
  shows "store_inv cd ok w' s'"
proof (cases "readJSON cd (MetaPath s t n) w")
  case (Inr v)
  then have e: "w' = toggleImmutable (MetaPath s t n) True w" "s' = cache_put t n v s"
    using assms(4) by (auto simp: LoadFromDisk_def)
  have "store_inv cd ok w (cache_put t n v s)"
    using readJSON_backed[OF Inr] decode_ok assms(1-3) by (intro store_inv_put) (auto simp: backed_def)
  then show ?thesis unfolding e by (rule store_inv_world) simp
next
  case (Inl e)
  then have "w' = w" "s' = s" using assms(4) by (auto simp: LoadFromDisk_def)
  then show ?thesis using assms(1) by simp
qed

text \<open>Durability: what a successful \<open>Store\<close> wrote is what a fresh store loads.\<close>

lemma Store_LoadFromDisk:
  assumes "ok v" "Store cd t n v (w, s) = (None, w', s')"
    and "faults w' (OReadFile (MetaPath s t n)) = None"
  shows "fst (LoadFromDisk cd t n (w', NewStore (basePath s) (pathSegments s))) = Inr v"
proof -
  have p: "MetaPath (NewStore (basePath s) (pathSegments s)) t n = MetaPath s t n"
    by (simp add: MetaPath_def Dir_def NewStore_def)
  have "file_content w' (MetaPath s t n) = Some (Doc (marshal cd v))"
    using assms(2) by (auto simp: Store_def dest: writeJSONAtomic_ok(1) split: prod.splits option.splits)
  then have "readJSON cd (MetaPath s t n) w' = Inr v"
    using encode_decode[OF assms(1)] by (simp add: readJSON_cong[OF _ assms(3)])
  then show ?thesis by (simp add: LoadFromDisk_def p)
qed

end

end
