(* ===== verification/Types.thy ===== *)
theory Types
  imports MetaStore "HOL-Library.Monad_Syntax"
begin

text \<open>
  The metadata of \<open>agent/storage/model.go\<close>: volumes, snapshots and NFS export references, their
  JSON form, and the helper functions on export lists. The two metadata stores of the agent are
  instances of \<open>metadata_store\<close>: the interpretations at the end discharge its laws for the
  volume and the snapshot codec.
\<close>

section \<open>Metadata\<close>

record ExportMetadata =
  ex_IP :: string
  ex_Labels :: labels
  ex_CreatedAt :: int

record VolumeMetadata =
  vm_Name :: string
  vm_Path :: string
  vm_SizeBytes :: u64
  vm_NoCOW :: bool
  vm_Compression :: string
  vm_QuotaBytes :: u64
  vm_UsedBytes :: u64
  vm_UID :: int
  vm_GID :: int
  vm_Mode :: string
  vm_Labels :: labels
  vm_Exports :: "ExportMetadata list"
  vm_CreatedAt :: int
  vm_UpdatedAt :: int
  vm_LastAttachAt :: "int option"

record SnapshotMetadata =
  sm_Name :: string
  sm_Volume :: string
  sm_Path :: string
  sm_SizeBytes :: u64
  sm_UsedBytes :: u64
  sm_ExclusiveBytes :: u64
  sm_QuotaBytes :: u64
  sm_NoCOW :: bool
  sm_Compression :: string
  sm_UID :: int
  sm_GID :: int
  sm_Mode :: string
  sm_Labels :: labels
  sm_CreatedAt :: int
  sm_UpdatedAt :: int

section \<open>Requests\<close>

record VolumeCreateRequest =
  vcr_Name :: string
  vcr_SizeBytes :: u64
  vcr_NoCOW :: bool
  vcr_Compression :: string
  vcr_QuotaBytes :: u64
  vcr_UID :: int
  vcr_GID :: int
  vcr_Mode :: string
  vcr_Labels :: labels

record VolumeUpdateRequest =
  vur_SizeBytes :: "u64 option"
  vur_NoCOW :: "bool option"
  vur_Compression :: "string option"
  vur_UID :: "int option"
  vur_GID :: "int option"
  vur_Mode :: "string option"
  vur_Labels :: "labels option"

record SnapshotCreateRequest =
  scr_Volume :: string
  scr_Name :: string
  scr_Labels :: labels

record CloneCreateRequest =
  ccr_Snapshot :: string
  ccr_Name :: string
  ccr_Labels :: labels

record VolumeCloneRequest =
  vlr_Source :: string
  vlr_Name :: string
  vlr_Labels :: labels

record ExportEntry =
  ee_Name :: string
  ee_Client :: string
  ee_Labels :: labels
  ee_CreatedAt :: int

section \<open>Export lists\<close>

definition uniqueExportIPs :: "ExportMetadata list \<Rightarrow> string list" where
  "uniqueExportIPs clients = sort (remdups (map ex_IP clients))"

definition CountUniqueExportIPs :: "ExportMetadata list \<Rightarrow> nat" where
  "CountUniqueExportIPs clients = length (remdups (map ex_IP clients))"

definition hasExport :: "ExportMetadata list \<Rightarrow> string \<Rightarrow> labels \<Rightarrow> bool" where
  "hasExport clients ip ls = list_ex (\<lambda>c. ex_IP c = ip \<and> maps_equal (ex_Labels c) ls) clients"

definition exportsForIP :: "ExportMetadata list \<Rightarrow> string \<Rightarrow> nat" where
  "exportsForIP clients ip = length (filter (\<lambda>c. ex_IP c = ip) clients)"

definition labelsContain :: "labels \<Rightarrow> labels \<Rightarrow> bool" where
  "labelsContain stored match = list_all (\<lambda>(k, v). mget stored k = v) match"

lemma uniqueExportIPs_set [simp]: "set (uniqueExportIPs cs) = ex_IP ` set cs"
  by (simp add: uniqueExportIPs_def)

lemma uniqueExportIPs_sorted: "sorted (uniqueExportIPs cs) \<and> distinct (uniqueExportIPs cs)"
  by (simp add: uniqueExportIPs_def)

lemma exportsForIP_0: "exportsForIP cs ip = 0 \<longleftrightarrow> ip \<notin> ex_IP ` set cs"
  by (auto simp: exportsForIP_def filter_empty_conv)

section \<open>JSON\<close>

text \<open>A missing member and \<open>null\<close> both leave the zero value; the last of two equal members counts.\<close>

definition jfield :: "(string \<times> json) list \<Rightarrow> string \<Rightarrow> json" where
  "jfield m k = (case map_of (rev m) k of None \<Rightarrow> JNull | Some j \<Rightarrow> j)"

fun dec_str :: "json \<Rightarrow> string option" where
  "dec_str JNull = Some []" | "dec_str (JStr s) = Some s" | "dec_str _ = None"

fun dec_bool :: "json \<Rightarrow> bool option" where
  "dec_bool JNull = Some False" | "dec_bool (JBool b) = Some b" | "dec_bool _ = None"

fun dec_u64 :: "json \<Rightarrow> u64 option" where
  "dec_u64 JNull = Some 0"
| "dec_u64 (JNum i) = (if 0 \<le> i \<and> i < 2 ^ 64 then Some (word_of_int i) else None)"
| "dec_u64 _ = None"

definition int64 :: "int \<Rightarrow> bool" where
  "int64 i = (- (2 ^ 63) \<le> i \<and> i < 2 ^ 63)"

fun dec_int :: "json \<Rightarrow> int option" where
  "dec_int JNull = Some 0"
| "dec_int (JNum i) = (if int64 i then Some i else None)"
| "dec_int _ = None"

fun dec_time :: "json \<Rightarrow> int option" where
  "dec_time JNull = Some 0" | "dec_time (JTime t) = Some t" | "dec_time _ = None"

fun dec_time_ptr :: "json \<Rightarrow> int option option" where
  "dec_time_ptr JNull = Some None" | "dec_time_ptr (JTime t) = Some (Some t)" | "dec_time_ptr _ = None"

fun dec_members :: "labels \<Rightarrow> (string \<times> json) list \<Rightarrow> labels option" where
  "dec_members acc [] = Some acc"
| "dec_members acc ((k, j) # rest) =
     (case dec_str j of None \<Rightarrow> None | Some v \<Rightarrow> dec_members (AList.update k v acc) rest)"

fun dec_labels :: "json \<Rightarrow> labels option" where
  "dec_labels JNull = Some []" | "dec_labels (JObj m) = dec_members [] m" | "dec_labels _ = None"

definition enc_labels :: "labels \<Rightarrow> json" where
  "enc_labels ls = JObj (map (\<lambda>(k, v). (k, JStr v)) ls)"

definition enc_u64 :: "u64 \<Rightarrow> json" where
  "enc_u64 x = JNum (uint x)"

text \<open>\<open>omitempty\<close>\<close>

definition omit :: "bool \<Rightarrow> string \<Rightarrow> json \<Rightarrow> (string \<times> json) list" where
  "omit blank k j = (if blank then [] else [(k, j)])"

definition enc_export :: "ExportMetadata \<Rightarrow> json" where
  "enc_export e = JObj ([(''ip'', JStr (ex_IP e))] @ omit (ex_Labels e = []) ''labels'' (enc_labels (ex_Labels e))
     @ [(''created_at'', JTime (ex_CreatedAt e))])"

fun dec_export :: "json \<Rightarrow> ExportMetadata option" where
  "dec_export JNull = Some \<lparr>ex_IP = [], ex_Labels = [], ex_CreatedAt = 0\<rparr>"
| "dec_export (JObj m) = do {
     ip \<leftarrow> dec_str (jfield m ''ip'');
     ls \<leftarrow> dec_labels (jfield m ''labels'');
     c \<leftarrow> dec_time (jfield m ''created_at'');
     Some \<lparr>ex_IP = ip, ex_Labels = ls, ex_CreatedAt = c\<rparr> }"
| "dec_export _ = None"

fun dec_list :: "(json \<Rightarrow> 'a option) \<Rightarrow> json list \<Rightarrow> 'a list option" where
  "dec_list f [] = Some []"
| "dec_list f (j # js) = do { x \<leftarrow> f j; xs \<leftarrow> dec_list f js; Some (x # xs) }"

fun dec_array :: "(json \<Rightarrow> 'a option) \<Rightarrow> json \<Rightarrow> 'a list option" where
  "dec_array f JNull = Some []" | "dec_array f (JArr js) = dec_list f js" | "dec_array f _ = None"

text \<open>\<open>VolumeMetadata.UnmarshalJSON\<close>: the member \<open>clients\<close> is a list of export references, or in
  files of older versions a list of addresses, which become references labelled as migrated.\<close>

definition migrated_export :: "int \<Rightarrow> string \<Rightarrow> ExportMetadata" where
  "migrated_export t ip = \<lparr>ex_IP = ip, ex_Labels = [(LabelCreatedBy, ''migrated'')], ex_CreatedAt = t\<rparr>"

definition dec_clients :: "int \<Rightarrow> json \<Rightarrow> ExportMetadata list option" where
  "dec_clients t j = (case dec_array dec_export j of
       Some refs \<Rightarrow> Some refs
     | None \<Rightarrow> map_option (map (migrated_export t)) (dec_array dec_str j))"

definition zero_volume :: VolumeMetadata where
  "zero_volume = \<lparr>vm_Name = [], vm_Path = [], vm_SizeBytes = 0, vm_NoCOW = False, vm_Compression = [],
     vm_QuotaBytes = 0, vm_UsedBytes = 0, vm_UID = 0, vm_GID = 0, vm_Mode = [], vm_Labels = [],
     vm_Exports = [], vm_CreatedAt = 0, vm_UpdatedAt = 0, vm_LastAttachAt = None\<rparr>"

fun UnmarshalVolume :: "int \<Rightarrow> json \<Rightarrow> VolumeMetadata option" where
  "UnmarshalVolume t JNull = Some zero_volume"
| "UnmarshalVolume t (JObj m) = do {
     name \<leftarrow> dec_str (jfield m ''name'');
     path \<leftarrow> dec_str (jfield m ''path'');
     size \<leftarrow> dec_u64 (jfield m ''size_bytes'');
     nocow \<leftarrow> dec_bool (jfield m ''nocow'');
     compression \<leftarrow> dec_str (jfield m ''compression'');
     quota \<leftarrow> dec_u64 (jfield m ''quota_bytes'');
     used \<leftarrow> dec_u64 (jfield m ''used_bytes'');
     uid \<leftarrow> dec_int (jfield m ''uid'');
     gid \<leftarrow> dec_int (jfield m ''gid'');
     mode \<leftarrow> dec_str (jfield m ''mode'');
     ls \<leftarrow> dec_labels (jfield m ''labels'');
     created \<leftarrow> dec_time (jfield m ''created_at'');
     updated \<leftarrow> dec_time (jfield m ''updated_at'');
     attach \<leftarrow> dec_time_ptr (jfield m ''last_attach_at'');
     exports \<leftarrow> dec_clients t (jfield m ''clients'');
     Some \<lparr>vm_Name = name, vm_Path = path, vm_SizeBytes = size, vm_NoCOW = nocow,
       vm_Compression = compression, vm_QuotaBytes = quota, vm_UsedBytes = used, vm_UID = uid,
       vm_GID = gid, vm_Mode = mode, vm_Labels = ls, vm_Exports = exports, vm_CreatedAt = created,
       vm_UpdatedAt = updated, vm_LastAttachAt = attach\<rparr> }"
| "UnmarshalVolume t _ = None"

definition MarshalVolume :: "VolumeMetadata \<Rightarrow> json" where
  "MarshalVolume v = JObj (
     [(''name'', JStr (vm_Name v)), (''path'', JStr (vm_Path v)), (''size_bytes'', enc_u64 (vm_SizeBytes v)),
      (''nocow'', JBool (vm_NoCOW v)), (''compression'', JStr (vm_Compression v)),
      (''quota_bytes'', enc_u64 (vm_QuotaBytes v)), (''used_bytes'', enc_u64 (vm_UsedBytes v)),
      (''uid'', JNum (vm_UID v)), (''gid'', JNum (vm_GID v)), (''mode'', JStr (vm_Mode v))]
     @ omit (vm_Labels v = []) ''labels'' (enc_labels (vm_Labels v))
     @ omit (vm_Exports v = []) ''clients'' (JArr (map enc_export (vm_Exports v)))
     @ [(''created_at'', JTime (vm_CreatedAt v)), (''updated_at'', JTime (vm_UpdatedAt v))]
     @ (case vm_LastAttachAt v of None \<Rightarrow> [] | Some t \<Rightarrow> [(''last_attach_at'', JTime t)]))"

definition volume_codec :: "VolumeMetadata codec" where
  "volume_codec = \<lparr>marshal = MarshalVolume, unmarshal = UnmarshalVolume\<rparr>"

definition zero_snapshot :: SnapshotMetadata where
  "zero_snapshot = \<lparr>sm_Name = [], sm_Volume = [], sm_Path = [], sm_SizeBytes = 0, sm_UsedBytes = 0,
     sm_ExclusiveBytes = 0, sm_QuotaBytes = 0, sm_NoCOW = False, sm_Compression = [], sm_UID = 0,
     sm_GID = 0, sm_Mode = [], sm_Labels = [], sm_CreatedAt = 0, sm_UpdatedAt = 0\<rparr>"

fun UnmarshalSnapshot :: "json \<Rightarrow> SnapshotMetadata option" where
  "UnmarshalSnapshot JNull = Some zero_snapshot"
| "UnmarshalSnapshot (JObj m) = do {
     name \<leftarrow> dec_str (jfield m ''name'');
     vol \<leftarrow> dec_str (jfield m ''volume'');
     path \<leftarrow> dec_str (jfield m ''path'');
     size \<leftarrow> dec_u64 (jfield m ''size_bytes'');
     used \<leftarrow> dec_u64 (jfield m ''used_bytes'');
     excl \<leftarrow> dec_u64 (jfield m ''exclusive_bytes'');
     quota \<leftarrow> dec_u64 (jfield m ''quota_bytes'');
     nocow \<leftarrow> dec_bool (jfield m ''nocow'');
     compression \<leftarrow> dec_str (jfield m ''compression'');
     uid \<leftarrow> dec_int (jfield m ''uid'');
     gid \<leftarrow> dec_int (jfield m ''gid'');
     mode \<leftarrow> dec_str (jfield m ''mode'');
     ls \<leftarrow> dec_labels (jfield m ''labels'');
     created \<leftarrow> dec_time (jfield m ''created_at'');
     updated \<leftarrow> dec_time (jfield m ''updated_at'');
     Some \<lparr>sm_Name = name, sm_Volume = vol, sm_Path = path, sm_SizeBytes = size, sm_UsedBytes = used,
       sm_ExclusiveBytes = excl, sm_QuotaBytes = quota, sm_NoCOW = nocow, sm_Compression = compression,
       sm_UID = uid, sm_GID = gid, sm_Mode = mode, sm_Labels = ls, sm_CreatedAt = created,
       sm_UpdatedAt = updated\<rparr> }"
| "UnmarshalSnapshot _ = None"

definition MarshalSnapshot :: "SnapshotMetadata \<Rightarrow> json" where
  "MarshalSnapshot v = JObj (
     [(''name'', JStr (sm_Name v)), (''volume'', JStr (sm_Volume v)), (''path'', JStr (sm_Path v)),
      (''size_bytes'', enc_u64 (sm_SizeBytes v)), (''used_bytes'', enc_u64 (sm_UsedBytes v)),
      (''exclusive_bytes'', enc_u64 (sm_ExclusiveBytes v))]
     @ omit (sm_QuotaBytes v = 0) ''quota_bytes'' (enc_u64 (sm_QuotaBytes v))
     @ omit (\<not> sm_NoCOW v) ''nocow'' (JBool (sm_NoCOW v))
     @ omit (sm_Compression v = []) ''compression'' (JStr (sm_Compression v))
     @ omit (sm_UID v = 0) ''uid'' (JNum (sm_UID v))
     @ omit (sm_GID v = 0) ''gid'' (JNum (sm_GID v))
     @ omit (sm_Mode v = []) ''mode'' (JStr (sm_Mode v))
     @ omit (sm_Labels v = []) ''labels'' (enc_labels (sm_Labels v))
     @ [(''created_at'', JTime (sm_CreatedAt v)), (''updated_at'', JTime (sm_UpdatedAt v))])"

definition snapshot_codec :: "SnapshotMetadata codec" where
  "snapshot_codec = \<lparr>marshal = MarshalSnapshot, unmarshal = (\<lambda>_. UnmarshalSnapshot)\<rparr>"

subsection \<open>Well-formed values\<close>

text \<open>What the Go types guarantee: \<open>int\<close> fields fit 64 bits, maps have distinct keys.\<close>

definition export_ok :: "ExportMetadata \<Rightarrow> bool" where
  "export_ok e = keys_distinct (ex_Labels e)"

definition volume_ok :: "VolumeMetadata \<Rightarrow> bool" where
  "volume_ok v = (int64 (vm_UID v) \<and> int64 (vm_GID v) \<and> keys_distinct (vm_Labels v) \<and> list_all export_ok (vm_Exports v))"

definition snapshot_ok :: "SnapshotMetadata \<Rightarrow> bool" where
  "snapshot_ok v = (int64 (sm_UID v) \<and> int64 (sm_GID v) \<and> keys_distinct (sm_Labels v))"

subsection \<open>Decoding inverts encoding\<close>

lemma dec_enc_u64 [simp]: "dec_u64 (enc_u64 x) = Some x"
  using uint_lt2p[of x] by (simp add: enc_u64_def)

lemma dec_members_enc:
  "keys_distinct (acc @ ls) \<Longrightarrow> dec_members acc (map (\<lambda>(k, v). (k, JStr v)) ls) = Some (acc @ ls)"
proof (induction ls arbitrary: acc)
  case (Cons kv ls)
  obtain k v where kv: "kv = (k, v)" by fastforce
  have "k \<notin> fst ` set acc" using Cons.prems kv by (auto simp: keys_distinct_def)
  then have "AList.update k v acc = acc @ [(k, v)]" by (induction acc) auto
  with Cons kv show ?case by simp
qed simp

lemma dec_enc_labels [simp]: "keys_distinct ls \<Longrightarrow> dec_labels (enc_labels ls) = Some ls"
  by (simp add: enc_labels_def dec_members_enc)

lemma dec_members_distinct: "dec_members acc m = Some ls \<Longrightarrow> keys_distinct acc \<Longrightarrow> keys_distinct ls"
  by (induction acc m rule: dec_members.induct) (auto split: option.splits)

lemma dec_labels_distinct: "dec_labels j = Some ls \<Longrightarrow> keys_distinct ls"
  by (cases j) (auto dest: dec_members_distinct simp: keys_distinct_def)

lemma dec_enc_export [simp]: "export_ok e \<Longrightarrow> dec_export (enc_export e) = Some e"
  by (cases e) (simp add: export_ok_def enc_export_def omit_def jfield_def)

lemma dec_list_map: "\<forall>x \<in> set xs. f (g x) = Some x \<Longrightarrow> dec_list f (map g xs) = Some xs"
  by (induction xs) auto

lemma dec_list_all: "dec_list f js = Some xs \<Longrightarrow> (\<And>j x. f j = Some x \<Longrightarrow> P x) \<Longrightarrow> list_all P xs"
  by (induction f js arbitrary: xs rule: dec_list.induct) (auto split: bind_splits)

lemma dec_array_all: "dec_array f j = Some xs \<Longrightarrow> (\<And>j x. f j = Some x \<Longrightarrow> P x) \<Longrightarrow> list_all P xs"
  by (cases j) (auto intro: dec_list_all)

lemma dec_export_ok: "dec_export j = Some e \<Longrightarrow> export_ok e"
  by (cases j) (auto simp: export_ok_def keys_distinct_def[of "[]"] dest: dec_labels_distinct split: bind_splits)

lemma dec_clients_enc [simp]:
  "list_all export_ok es \<Longrightarrow> dec_clients t (JArr (map enc_export es)) = Some es"
  by (simp add: dec_clients_def dec_list_map list_all_iff)

lemma dec_clients_null [simp]: "dec_clients t JNull = Some []"
  by (simp add: dec_clients_def)

lemma dec_clients_ok: "dec_clients t j = Some es \<Longrightarrow> list_all export_ok es"
  by (auto simp: dec_clients_def list_all_iff migrated_export_def export_ok_def keys_distinct_def
      dest: dec_array_all[where P = export_ok, OF _ dec_export_ok] split: option.splits)

lemma dec_int_range: "dec_int j = Some i \<Longrightarrow> int64 i"
  by (cases j) (auto simp: int64_def split: if_splits)

text \<open>Reading a member of a document built from parts: the reader looks at each part in turn, and an
  omitted member reads as the zero value it was omitted for.\<close>

definition omitted :: "bool \<Rightarrow> json \<Rightarrow> json" where
  "omitted blank j = (if blank then JNull else j)"

lemma jfield_Nil [simp]: "jfield [] k = JNull"
  by (simp add: jfield_def)

lemma map_of_rev_notin: "k \<notin> fst ` set m \<Longrightarrow> map_of (rev m) k = None"
  by (force simp: map_of_eq_None_iff)

lemma jfield_append:
  "jfield (a @ b) k = (if k \<in> fst ` set b then jfield b k else jfield a k)"
proof (cases "k \<in> fst ` set b")
  case True
  then obtain x where "map_of (rev b) k = Some x"
    by (metis map_of_eq_None_iff not_None_eq set_rev)
  then show ?thesis using True by (simp add: jfield_def map_add_def)
qed (simp add: jfield_def map_add_def map_of_rev_notin)

lemma jfield_omit: "jfield (omit blank k' j) k = (if k = k' then omitted blank j else JNull)"
  by (simp add: omit_def omitted_def jfield_def)

lemma keys_omit: "fst ` set (omit blank k j) = (if blank then {} else {k})"
  by (simp add: omit_def)

lemma dec_omitted [simp]:
  "dec_u64 (omitted (x = 0) (enc_u64 x)) = Some x"
  "dec_bool (omitted (\<not> b) (JBool b)) = Some b"
  "dec_str (omitted (s = []) (JStr s)) = Some s"
  "int64 i \<Longrightarrow> dec_int (omitted (i = 0) (JNum i)) = Some i"
  "keys_distinct ls \<Longrightarrow> dec_labels (omitted (ls = []) (enc_labels ls)) = Some ls"
  "list_all export_ok es \<Longrightarrow> dec_clients t (omitted (es = []) (JArr (map enc_export es))) = Some es"
  by (simp_all add: omitted_def)

text \<open>A document as a list of members that may be omitted.\<close>

definition members :: "(string \<times> bool \<times> json) list \<Rightarrow> (string \<times> json) list" where
  "members ms = concat (map (\<lambda>(k, blank, j). omit blank k j) ms)"

lemma members_keys: "fst ` set (members ms) \<subseteq> fst ` set ms"
  by (auto simp: members_def omit_def split: if_splits) (metis fst_conv image_eqI)

lemma jfield_members:
  "distinct (map fst ms) \<Longrightarrow> jfield (members ms) k =
     (case map_of ms k of None \<Rightarrow> JNull | Some (blank, j) \<Rightarrow> omitted blank j)"
proof (induction ms)
  case (Cons x ms)
  obtain k' blank j where x: "x = (k', blank, j)" by (cases x) auto
  have split: "members (x # ms) = omit blank k' j @ members ms" by (simp add: members_def x)
  have nk: "k' \<notin> fst ` set (members ms)" using Cons.prems x members_keys[of ms] by auto
  show ?case
  proof (cases "k \<in> fst ` set (members ms)")
    case True
    then have "k \<noteq> k'" using nk by auto
    then show ?thesis using True Cons x unfolding split by (simp add: jfield_append)
  next
    case False
    then have "jfield (members ms) k = JNull"
      by (simp add: jfield_def map_of_rev_notin)
    then show ?thesis using False Cons x nk unfolding split by (auto simp: jfield_append jfield_omit)
  qed
qed (simp add: members_def)

lemma volume_roundtrip: "volume_ok v \<Longrightarrow> UnmarshalVolume t (MarshalVolume v) = Some v"
proof -
  assume ok: "volume_ok v"
  let ?ms = "[(''name'', False, JStr (vm_Name v)), (''path'', False, JStr (vm_Path v)),
      (''size_bytes'', False, enc_u64 (vm_SizeBytes v)), (''nocow'', False, JBool (vm_NoCOW v)),
      (''compression'', False, JStr (vm_Compression v)), (''quota_bytes'', False, enc_u64 (vm_QuotaBytes v)),
      (''used_bytes'', False, enc_u64 (vm_UsedBytes v)), (''uid'', False, JNum (vm_UID v)),
      (''gid'', False, JNum (vm_GID v)), (''mode'', False, JStr (vm_Mode v)),
      (''labels'', vm_Labels v = [], enc_labels (vm_Labels v)),
      (''clients'', vm_Exports v = [], JArr (map enc_export (vm_Exports v))),
      (''created_at'', False, JTime (vm_CreatedAt v)), (''updated_at'', False, JTime (vm_UpdatedAt v)),
      (''last_attach_at'', vm_LastAttachAt v = None, JTime (the (vm_LastAttachAt v)))]"
  have m: "MarshalVolume v = JObj (members ?ms)"
    by (cases "vm_LastAttachAt v") (simp_all add: MarshalVolume_def members_def omit_def)
  have d: "distinct (map fst ?ms)" by simp
  have at: "dec_time_ptr (omitted (a = None) (JTime (the a))) = Some a" for a
    by (cases a) (simp_all add: omitted_def)
  show ?thesis using ok unfolding m UnmarshalVolume.simps jfield_members[OF d]
    by (simp add: volume_ok_def at) (simp add: omitted_def)
qed

lemma UnmarshalVolume_ok: "UnmarshalVolume t j = Some v \<Longrightarrow> volume_ok v"
  by (cases j) (auto simp: volume_ok_def zero_volume_def int64_def[of 0] keys_distinct_def[of "[]"]
      dest: dec_labels_distinct dec_int_range dec_clients_ok split: bind_splits)

lemma snapshot_roundtrip: "snapshot_ok v \<Longrightarrow> UnmarshalSnapshot (MarshalSnapshot v) = Some v"
proof -
  assume ok: "snapshot_ok v"
  let ?ms = "[(''name'', False, JStr (sm_Name v)), (''volume'', False, JStr (sm_Volume v)),
      (''path'', False, JStr (sm_Path v)), (''size_bytes'', False, enc_u64 (sm_SizeBytes v)),
      (''used_bytes'', False, enc_u64 (sm_UsedBytes v)), (''exclusive_bytes'', False, enc_u64 (sm_ExclusiveBytes v)),
      (''quota_bytes'', sm_QuotaBytes v = 0, enc_u64 (sm_QuotaBytes v)), (''nocow'', \<not> sm_NoCOW v, JBool (sm_NoCOW v)),
      (''compression'', sm_Compression v = [], JStr (sm_Compression v)), (''uid'', sm_UID v = 0, JNum (sm_UID v)),
      (''gid'', sm_GID v = 0, JNum (sm_GID v)), (''mode'', sm_Mode v = [], JStr (sm_Mode v)),
      (''labels'', sm_Labels v = [], enc_labels (sm_Labels v)),
      (''created_at'', False, JTime (sm_CreatedAt v)), (''updated_at'', False, JTime (sm_UpdatedAt v))]"
  have m: "MarshalSnapshot v = JObj (members ?ms)"
    by (simp add: MarshalSnapshot_def members_def) (simp add: omit_def)
  have d: "distinct (map fst ?ms)" by simp
  show ?thesis using ok unfolding m UnmarshalSnapshot.simps jfield_members[OF d]
    by (simp add: snapshot_ok_def) (simp add: omitted_def)
qed

lemma UnmarshalSnapshot_ok: "UnmarshalSnapshot j = Some v \<Longrightarrow> snapshot_ok v"
  by (cases j) (auto simp: snapshot_ok_def zero_snapshot_def int64_def[of 0] keys_distinct_def[of "[]"]
      dest: dec_labels_distinct dec_int_range split: bind_splits)

interpretation vols: metadata_store volume_codec volume_ok
  by unfold_locales (auto simp: volume_codec_def volume_roundtrip dest: UnmarshalVolume_ok)

interpretation snaps: metadata_store snapshot_codec snapshot_ok
  by unfold_locales (auto simp: snapshot_codec_def snapshot_roundtrip dest: UnmarshalSnapshot_ok)

end
