(* ===== verification/Btrfs.thy ===== *)
theory Btrfs
  imports Filesystem
begin

text \<open>
  The command layer: \<open>utils.Runner\<close>, which runs an external program, and the \<open>Manager\<close> of
  \<open>agent/storage/btrfs/btrfs.go\<close> on top of it. The programs (\<open>btrfs\<close>, \<open>chattr\<close>, \<open>exportfs\<close>)
  are not part of the repository: the runner is a parameter, any function of the arguments and
  the world.
\<close>

section \<open>Runner\<close>

text \<open>A run returns the combined output and, when it failed, the error text.\<close>

type_synonym runner = "string \<Rightarrow> string list \<Rightarrow> world \<Rightarrow> (string \<times> string option) \<times> world"

record manager =
  bin :: string
  cmd :: runner

definition run :: "manager \<Rightarrow> string list \<Rightarrow> world \<Rightarrow> string option \<times> world" where
  "run m args w = (case cmd m (bin m) args w of ((out, err), w') \<Rightarrow> (err, w'))"

section \<open>Commands\<close>

definition SubvolumeCreate :: "manager \<Rightarrow> string \<Rightarrow> world \<Rightarrow> string option \<times> world" where
  "SubvolumeCreate m path = run m [''subvolume'', ''create'', path]"

definition SubvolumeDelete :: "manager \<Rightarrow> string \<Rightarrow> world \<Rightarrow> string option \<times> world" where
  "SubvolumeDelete m path = run m [''subvolume'', ''delete'', path]"

definition SubvolumeSnapshot :: "manager \<Rightarrow> string \<Rightarrow> string \<Rightarrow> bool \<Rightarrow> world \<Rightarrow> string option \<times> world" where
  "SubvolumeSnapshot m src dst readonly =
     (if readonly then run m [''subvolume'', ''snapshot'', ''-r'', src, dst]
      else run m [''subvolume'', ''snapshot'', src, dst])"

definition QuotaCheck :: "manager \<Rightarrow> string \<Rightarrow> world \<Rightarrow> string option \<times> world" where
  "QuotaCheck m path = run m [''qgroup'', ''show'', path]"

definition QgroupLimit :: "manager \<Rightarrow> string \<Rightarrow> u64 \<Rightarrow> world \<Rightarrow> string option \<times> world" where
  "QgroupLimit m path bytes = run m [''qgroup'', ''limit'', show_base 10 (unat bytes), path]"

definition SetNoCOW :: "manager \<Rightarrow> string \<Rightarrow> world \<Rightarrow> string option \<times> world" where
  "SetNoCOW m path w = (case cmd m ''chattr'' [''+C'', path] w of ((out, err), w') \<Rightarrow> (err, w'))"

definition SetCompression :: "manager \<Rightarrow> string \<Rightarrow> string \<Rightarrow> world \<Rightarrow> string option \<times> world" where
  "SetCompression m path algo w =
     (if \<not> IsValidCompression algo then (Some ''invalid compression algorithm'', w)
      else run m [''property'', ''set'', path, ''compression'', algo] w)"

definition IsAvailable :: "manager \<Rightarrow> world \<Rightarrow> bool \<times> world" where
  "IsAvailable m w = (case run m [''--version''] w of (err, w') \<Rightarrow> (err = None, w'))"

definition SubvolumeExists :: "manager \<Rightarrow> string \<Rightarrow> world \<Rightarrow> bool \<times> world" where
  "SubvolumeExists m path w = (case run m [''subvolume'', ''show'', path] w of (err, w') \<Rightarrow> (err = None, w'))"

definition ScrubStart :: "manager \<Rightarrow> string \<Rightarrow> world \<Rightarrow> string option \<times> world" where
  "ScrubStart m path = run m [''scrub'', ''start'', ''-B'', path]"

text \<open>The create paths tell "already exists" from other failures by the error text.\<close>

definition isSubvolumeAlreadyExistsError :: "string option \<Rightarrow> bool" where
  "isSubvolumeAlreadyExistsError err = (case err of
       None \<Rightarrow> False | Some e \<Rightarrow> contains e ''target path already exists'')"

section \<open>Documented behaviour of the external commands\<close>

text \<open>
  The subvolume, property and quota commands act on the subvolume named in their arguments: they
  change no node outside of it (for a snapshot, outside of its destination), and never the
  agent's clock, the NFS export table or the outcome of other system calls.
\<close>

definition acts_on :: "string \<Rightarrow> (world \<Rightarrow> string option \<times> world) \<Rightarrow> bool" where
  "acts_on path op \<longleftrightarrow> (\<forall>w. faults (snd (op w)) = faults w \<and> now (snd (op w)) = now w \<and>
     etab (snd (op w)) = etab w \<and>
     (\<forall>q. \<not> under path q \<longrightarrow> node_at (snd (op w)) q = node_at w q))"

definition btrfs_local :: "manager \<Rightarrow> bool" where
  "btrfs_local m \<longleftrightarrow> (\<forall>path src ro bytes algo.
     acts_on path (SubvolumeCreate m path) \<and> acts_on path (SubvolumeDelete m path) \<and>
     acts_on path (SubvolumeSnapshot m src path ro) \<and> acts_on path (QgroupLimit m path bytes) \<and>
     acts_on path (SetNoCOW m path) \<and> acts_on path (SetCompression m path algo))"

lemma btrfs_localD:
  assumes "btrfs_local m"
  shows "acts_on path (SubvolumeCreate m path)" "acts_on path (SubvolumeDelete m path)"
    "acts_on path (SubvolumeSnapshot m src path ro)" "acts_on path (QgroupLimit m path bytes)"
    "acts_on path (SetNoCOW m path)" "acts_on path (SetCompression m path algo)"
  using assms by (auto simp: btrfs_local_def)

text \<open>A runner with this behaviour on the file tree: creating a subvolume makes a directory,
  deleting one removes its tree, a snapshot copies nothing but the directory node, the file system
  has one device, the other commands succeed without touching the tree. It shows that the assumption above can hold.\<close>

definition tree_create :: "string \<Rightarrow> world \<Rightarrow> (string \<times> string option) \<times> world" where
  "tree_create path w =
     (if node_at w path \<noteq> None then (([], Some ''ERROR: target path already exists''), w)
      else (([], None), set_node path (new_dir 493) w))"

definition tree_runner :: runner where
  "tree_runner b args w = (case args of
       [x, y, path] \<Rightarrow>
         if x = ''subvolume'' \<and> y = ''create'' then tree_create path w
         else if x = ''subvolume'' \<and> y = ''delete'' then
           (([], None), w\<lparr>nodes := filter (\<lambda>(q, n). \<not> under path q) (nodes w)\<rparr>)
         else (([], None), w)
     | [x, y, src, path] \<Rightarrow>
         if x = ''subvolume'' \<and> y = ''snapshot'' then tree_create path w
         else if x = ''filesystem'' then ((''devid 1 size 8192 used 4096 path /dev/sda'', None), w) else (([], None), w)
     | [x, y, z, src, path] \<Rightarrow> if x = ''subvolume'' \<and> y = ''snapshot'' then tree_create path w else (([], None), w)
     | _ \<Rightarrow> (([], None), w))"

definition tree_manager :: manager where
  "tree_manager = \<lparr>bin = ''btrfs'', cmd = tree_runner\<rparr>"

lemma tree_create_local: "acts_on path (\<lambda>w. case tree_create path w of ((out, err), w') \<Rightarrow> (err, w'))"
  by (auto simp: acts_on_def tree_create_def under_def)

lemma under_refl [simp]: "under p p"
  by (simp add: under_def)

lemma tree_manager_local: "btrfs_local tree_manager"
proof -
  have id: "acts_on path (\<lambda>w. (r, w))" for path r by (simp add: acts_on_def)
  have "acts_on path (SubvolumeDelete tree_manager path)" for path
    by (auto simp: acts_on_def SubvolumeDelete_def run_def tree_manager_def tree_runner_def
        node_at_def map_of_filter_keys)
  then show ?thesis
    using tree_create_local id
    unfolding btrfs_local_def
    by (auto simp: SubvolumeCreate_def SubvolumeSnapshot_def QgroupLimit_def SetNoCOW_def
        SetCompression_def run_def tree_manager_def tree_runner_def acts_on_def)
qed

end
