(* ===== verification/Provision.thy ===== *)
theory Provision
  imports Types Btrfs
begin

text \<open>
  The part that the create handlers of the agent share: \<open>CreateVolume\<close> and \<open>CloneVolume\<close> in
  \<open>agent/storage/volume.go\<close>, \<open>CreateSnapshot\<close> in \<open>snapshot.go\<close> and \<open>CreateClone\<close> in \<open>clone.go\<close> all
  take the entry lock, look the name up, make the directory, make the subvolume, run the steps
  that set it up, and write the metadata, with a clean-up on every failure after the subvolume
  exists. They differ in the arguments of \<open>provision\<close>. The lemmas say what a creation leaves
  behind in each outcome and that it touches nothing outside the entry's directory.
\<close>

section \<open>Definitions\<close>

text \<open>Steps that stop at the first failure; the message is the context the code wraps the error with.\<close>

type_synonym step = "string \<times> (world \<Rightarrow> bool \<times> world)"

definition failed :: "(world \<Rightarrow> 'e option \<times> world) \<Rightarrow> world \<Rightarrow> bool \<times> world" where
  "failed op w = (case op w of (e, w') \<Rightarrow> (e \<noteq> None, w'))"

fun run_steps :: "step list \<Rightarrow> world \<Rightarrow> string option \<times> world" where
  "run_steps [] w = (None, w)"
| "run_steps ((msg, op) # steps) w = (case op w of
     (True, w') \<Rightarrow> (Some msg, w')
   | (False, w') \<Rightarrow> run_steps steps w')"

definition cleanup :: "manager \<Rightarrow> string \<Rightarrow> string \<Rightarrow> world \<Rightarrow> world" where
  "cleanup m data dir w = snd (os_remove_all dir (snd (SubvolumeDelete m data w)))"

text \<open>
  \<open>create\<close> makes the subvolume, \<open>undo\<close> tells whether a failed \<open>create\<close> is followed by the full
  clean-up or by the removal of the directory alone, \<open>attrs\<close> are the best-effort changes of mode
  and owner, and \<open>mk\<close> builds the metadata at the current time.
\<close>

definition provision :: "'a codec \<Rightarrow> manager \<Rightarrow> file_mode \<Rightarrow> (world \<Rightarrow> string option \<times> world) \<Rightarrow> bool \<Rightarrow>
    step list \<Rightarrow> (world \<Rightarrow> world) \<Rightarrow> (int \<Rightarrow> 'a) \<Rightarrow> string \<Rightarrow> string \<Rightarrow> world \<times> 'a store \<Rightarrow>
    ('a option \<times> error option) \<times> world \<times> 'a store" where
  "provision cd m dirMode create undo steps attrs mk tenant name st = (case st of (w, s) \<Rightarrow>
     let dir = Dir s tenant name; data = DataPath s tenant name in
     (case os_mkdir_all dir dirMode w of
        (Some e, w1) \<Rightarrow> ((None, Some (StorageError ErrInternal)), w1, s)
      | (None, w1) \<Rightarrow>
          (case create w1 of
             (Some e, w2) \<Rightarrow>
               if isSubvolumeAlreadyExistsError (Some e)
               then ((None, Some (StorageError ErrAlreadyExists)), w2, s)
               else ((None, Some (StorageError ErrInternal)),
                     if undo then cleanup m data dir w2 else snd (os_remove_all dir w2), s)
           | (None, w2) \<Rightarrow>
               (case run_steps steps w2 of
                  (Some msg, w3) \<Rightarrow> ((None, Some (WrappedError msg)), cleanup m data dir w3, s)
                | (None, w3) \<Rightarrow>
                    let w4 = attrs w3; v = mk (now w4) in
                    (case Store cd tenant name v (w4, s) of
                       (Some e, w5, s5) \<Rightarrow>
                         ((None, Some (WrappedError ''failed to write metadata: '')), cleanup m data dir w5, s5)
                     | (None, w5, s5) \<Rightarrow> ((Some v, None), w5, s5))))))"

text \<open>The lock of the entry and the look-up under it. \<open>locked\<close> is the outcome of \<open>Lock\<close>: \<open>False\<close>
  when the caller's context ended while it waited.\<close>

definition create_entry :: "'a codec \<Rightarrow> bool \<Rightarrow> manager \<Rightarrow> file_mode \<Rightarrow> (world \<Rightarrow> string option \<times> world) \<Rightarrow> bool \<Rightarrow>
    step list \<Rightarrow> (world \<Rightarrow> world) \<Rightarrow> (int \<Rightarrow> 'a) \<Rightarrow> string \<Rightarrow> string \<Rightarrow> world \<times> 'a store \<Rightarrow>
    ('a option \<times> error option) \<times> world \<times> 'a store" where
  "create_entry cd locked m dirMode create undo steps attrs mk tenant name st =
     (if \<not> locked then ((None, Some (StorageError ErrBusy)), st)
      else case st of (w, s) \<Rightarrow>
        (case Get cd tenant name w s of
           (Inr existing, s1) \<Rightarrow> ((Some existing, Some (StorageError ErrAlreadyExists)), w, s1)
         | (Inl e, s1) \<Rightarrow> provision cd m dirMode create undo steps attrs mk tenant name (w, s1)))"

section \<open>What stays inside a directory\<close>

text \<open>\<open>within d w w'\<close>: going from \<open>w\<close> to \<open>w'\<close>, nothing that exists outside the directory \<open>d\<close>
  changes, no file appears outside of it, system calls fail as before, and the NFS export table
  is the same. New directories may
  appear outside: the missing ancestors of \<open>d\<close>.\<close>

definition within :: "string \<Rightarrow> world \<Rightarrow> world \<Rightarrow> bool" where
  "within d w w' \<longleftrightarrow> faults w' = faults w \<and> now w' = now w \<and> etab w' = etab w \<and>
     (\<forall>q. \<not> under d q \<longrightarrow> node_at w' q = node_at w q \<or>
        node_at w q = None \<and> (\<exists>a. node_at w' q = Some (DirNode a)))"

lemma within_refl [simp]: "within d w w"
  by (simp add: within_def)

lemma within_trans: "within d w w1 \<Longrightarrow> within d w1 w2 \<Longrightarrow> within d w w2"
  unfolding within_def by (metis node.distinct(1) option.inject option.distinct(1))

lemma within_file_content: "within d w w' \<Longrightarrow> \<not> under d q \<Longrightarrow> file_content w' q = file_content w q"
  unfolding within_def file_content_def by (auto split: option.splits node.splits)

lemma under_trans: "under a b \<Longrightarrow> under b c \<Longrightarrow> under a c"
  unfolding under_def
  by (metis append_prefixD prefix_order.trans)

lemma within_mono: "within d w w' \<Longrightarrow> under d0 d \<Longrightarrow> within d0 w w'"
  unfolding within_def using under_trans by blast

lemma within_frame: "within d w w' \<Longrightarrow> faults w' = faults w \<and> now w' = now w \<and> etab w' = etab w"
  by (simp add: within_def)

lemma acts_on_within: "acts_on d op \<Longrightarrow> within d w (snd (op w))"
  by (simp add: acts_on_def within_def)

lemma withinI:
  "faults w' = faults w \<Longrightarrow> now w' = now w \<Longrightarrow> etab w' = etab w \<Longrightarrow> (\<And>q. \<not> under d q \<Longrightarrow> node_at w' q = node_at w q) \<Longrightarrow> within d w w'"
  by (simp add: within_def)

lemma mkdirs_new:
  "node_at v q = None \<Longrightarrow> node_at (mkdirs m ps v) q = Some n \<Longrightarrow> \<exists>a. n = DirNode a"
  by (cases n) (simp_all add: mkdirs_dirs_only)

lemma within_mkdir: "within d w (snd (os_mkdir_all p m w))"
proof -
  have "node_at (mkdirs m ps w) q = node_at w q \<or>
      node_at w q = None \<and> (\<exists>a. node_at (mkdirs m ps w) q = Some (DirNode a))" for ps q
    by (cases "node_at w q"; cases "node_at (mkdirs m ps w) q")
       (simp_all add: mkdirs_keeps, metis mkdirs_new)
  then show ?thesis by (simp add: within_def os_mkdir_all_def split: option.splits)
qed

lemma within_remove_all: "under d p \<Longrightarrow> within d w (snd (os_remove_all p w))"
  by (intro withinI os_remove_all_outside) (auto dest: under_trans)

lemma within_chmod: "under d p \<Longrightarrow> within d w (snd (os_chmod p md w))"
  by (auto simp: within_def os_chmod_def split: option.splits node.splits)

lemma within_chown: "under d p \<Longrightarrow> within d w (snd (os_chown p u g w))"
  by (auto simp: within_def os_chown_def split: option.splits node.splits)

lemma within_toggle: "under d p \<Longrightarrow> within d w (toggleImmutable p b w)"
  by (intro withinI toggleImmutable_other) auto

lemma within_write: "under d p \<Longrightarrow> under d (p @ ''.tmp'') \<Longrightarrow> within d w (snd (writeJSONAtomic cd p v w))"
  by (rule withinI; simp?; rule writeJSONAtomic_other) blast+

section \<open>Paths of an entry\<close>

lemma entry_paths_under:
  assumes "store_wf s" "ValidName t" "ValidName n"
  shows "under (Dir s t n) (MetaPath s t n)" "under (Dir s t n) (MetaPath s t n @ ''.tmp'')"
    "under (Dir s t n) (DataPath s t n)"
proof -
  note shape = entry_comps_shape[OF assms]
  have good: "\<forall>c \<in> set (entry_comps s t n). good_comp c" using shape clean_shape_good by blast
  have "under (Dir s t n) (render (is_rooted (basePath s)) (entry_comps s t n @ [c]))" if "plain_comp c" for c
    unfolding Dir_render[OF assms] using shape good entry_comps_good[OF assms that]
    by (subst under_render) auto
  then show "under (Dir s t n) (MetaPath s t n @ ''.tmp'')" "under (Dir s t n) (MetaPath s t n)"
      "under (Dir s t n) (DataPath s t n)"
    using tmp_render[OF assms] MetaPath_render[OF assms] DataPath_render[OF assms] by simp_all
qed

lemma MetaPath_not_in_DataPath:
  assumes "store_wf s" "ValidName t" "ValidName n" "ValidName t'" "ValidName n'"
  shows "\<not> under (DataPath s t n) (MetaPath s t' n')"
  unfolding DataPath_render[OF assms(1-3)] MetaPath_render[OF assms(1,4,5)]
  using entry_comps_good[OF assms(1-3), of DataDir] entry_comps_good[OF assms(1,4,5), of MetadataFile]
  by (subst under_render) (simp_all add: entry_comps_def, simp add: MetadataFile_def DataDir_def prefix_def)

lemma MetaPath_in_Dir:
  assumes "store_wf s" "ValidName t" "ValidName n" "ValidName t'" "ValidName n'"
  shows "under (Dir s t n) (MetaPath s t' n') \<longleftrightarrow> t' = t \<and> n' = n"
proof -
  have "\<forall>c \<in> set (entry_comps s t n). good_comp c" "entry_comps s t n \<noteq> []"
    using entry_comps_shape[OF assms(1-3)] clean_shape_good by blast+
  then show ?thesis
    unfolding Dir_render[OF assms(1-3)] MetaPath_render[OF assms(1,4,5)]
    using entry_comps_good[OF assms(1,4,5), of MetadataFile]
    by (subst under_render) (auto simp: entry_comps_def)
qed

section \<open>Steps and outcomes\<close>

definition steps_within :: "string \<Rightarrow> step list \<Rightarrow> bool" where
  "steps_within d steps \<longleftrightarrow> (\<forall>(msg, op) \<in> set steps. \<forall>w. within d w (snd (op w)))"

lemma run_steps_within: "steps_within d steps \<Longrightarrow> within d w (snd (run_steps steps w))"
proof (induction steps w rule: run_steps.induct)
  case (2 msg op steps w)
  obtain b w1 where op: "op w = (b, w1)" by fastforce
  have "within d w w1" using 2(2) op by (auto simp: steps_within_def dest: spec[of _ w])
  moreover have "within d w1 (snd (run_steps steps w1))" if "\<not> b"
    using 2(1)[of b w1] 2(2) op that by (auto simp: steps_within_def)
  ultimately show ?case using op by (cases b) (auto intro: within_trans)
qed simp

lemma cleanup_within:
  "btrfs_local m \<Longrightarrow> under dir data \<Longrightarrow> within dir w (cleanup m data dir w)"
  unfolding cleanup_def
  by (rule within_trans[OF within_mono[OF acts_on_within] within_remove_all]) (auto dest: btrfs_localD)

lemma provision_cases [consumes 1, case_names mkdir present create steps store ok]:
  assumes "provision cd m dm create undo steps attrs mk t n (w, s) = (r, w', s')"
  obtains e where "os_mkdir_all (Dir s t n) dm w = (Some e, w')" "r = (None, Some (StorageError ErrInternal))" "s' = s"
  | w1 e where "os_mkdir_all (Dir s t n) dm w = (None, w1)" "create w1 = (Some e, w')"
      "isSubvolumeAlreadyExistsError (Some e)" "r = (None, Some (StorageError ErrAlreadyExists))" "s' = s"
  | w1 w2 e where "os_mkdir_all (Dir s t n) dm w = (None, w1)" "create w1 = (Some e, w2)"
      "\<not> isSubvolumeAlreadyExistsError (Some e)" "r = (None, Some (StorageError ErrInternal))" "s' = s"
      "w' = (if undo then cleanup m (DataPath s t n) (Dir s t n) w2 else snd (os_remove_all (Dir s t n) w2))"
  | w1 w2 w3 msg where "os_mkdir_all (Dir s t n) dm w = (None, w1)" "create w1 = (None, w2)"
      "run_steps steps w2 = (Some msg, w3)" "r = (None, Some (WrappedError msg))" "s' = s"
      "w' = cleanup m (DataPath s t n) (Dir s t n) w3"
  | w1 w2 w3 w5 e where "os_mkdir_all (Dir s t n) dm w = (None, w1)" "create w1 = (None, w2)"
      "run_steps steps w2 = (None, w3)" "Store cd t n (mk (now (attrs w3))) (attrs w3, s) = (Some e, w5, s')"
      "r = (None, Some (WrappedError ''failed to write metadata: ''))"
      "w' = cleanup m (DataPath s t n) (Dir s t n) w5"
  | w1 w2 w3 where "os_mkdir_all (Dir s t n) dm w = (None, w1)" "create w1 = (None, w2)"
      "run_steps steps w2 = (None, w3)" "Store cd t n (mk (now (attrs w3))) (attrs w3, s) = (None, w', s')"
      "r = (Some (mk (now (attrs w3))), None)"
  using assms unfolding provision_def Let_def prod.case
  by (simp split: prod.splits option.splits if_split_asm, metis+)

text \<open>What \<open>os.RemoveAll\<close> leaves is only what an immutable file holds in place.\<close>

lemma os_remove_all_left:
  assumes "faults w (ORemoveAll p) = None" "w' = snd (os_remove_all p w)"
    and "\<And>q. under p q \<Longrightarrow> \<not> immutable_at w' q" and "under p q"
  shows "node_at w' q = None"
proof -
  let ?stuck = "filter (\<lambda>q. under p q \<and> immutable_at w q) (map fst (nodes w))"
  have w': "nodes w' = filter (\<lambda>(q, n). \<not> under p q \<or> list_ex (under q) ?stuck) (nodes w)"
    using assms(1,2) by (simp add: os_remove_all_def Let_def)
  have "x \<notin> set ?stuck" for x
  proof
    assume x: "x \<in> set ?stuck"
    then have "list_ex (under x) ?stuck" unfolding list_ex_iff by (meson under_refl)
    then have "node_at w' x = node_at w x" by (simp add: node_at_def w' map_of_filter_keys)
    with x show False using assms(3)[of x] by (simp add: immutable_at_def)
  qed
  then have "?stuck = []" by (metis list.set_intros(1) neq_Nil_conv)
  then show ?thesis using assms(4) by (simp add: node_at_def w' map_of_filter_keys)
qed

lemma immutable_left:
  assumes "\<not> under p q" shows "immutable_at (snd (os_remove_all p w)) q = immutable_at w q"
  using os_remove_all_outside[OF assms] by (simp add: immutable_at_def)

text \<open>No operation changes where a store keeps its entries.\<close>

definition same_paths :: "'a store \<Rightarrow> 'a store \<Rightarrow> bool" where
  "same_paths s s' \<longleftrightarrow> basePath s' = basePath s \<and> pathSegments s' = pathSegments s"

lemma same_paths_refl [simp]: "same_paths s s"
  by (simp add: same_paths_def)

lemma same_paths_put [simp]: "same_paths s0 (cache_put t n v s) = same_paths s0 s"
  by (simp add: same_paths_def cache_put_def)

lemma same_paths_Get: "Get cd t n w s = (r, s') \<Longrightarrow> same_paths s s'"
  by (auto simp: Get_def split: option.splits sum.splits)

lemma same_paths_Store: "Store cd t n v (w, s) = (r, w', s') \<Longrightarrow> same_paths s s'"
  by (auto simp: Store_def split: option.splits prod.splits)

lemma same_paths_Update: "Update cd t n fn al (w, s) = (r, w', s') \<Longrightarrow> same_paths s s'"
  by (auto simp: Update_def dest: same_paths_Get split: option.splits prod.splits sum.splits)

lemma same_paths_Delete: "Delete t n (w, s) = (w', s') \<Longrightarrow> same_paths s s'"
  by (auto simp: Delete_def same_paths_def)

lemma same_paths_provision:
  "provision cd m dm create undo steps attrs mk t n (w, s) = (r, w', s') \<Longrightarrow> same_paths s s'"
  by (cases rule: provision_cases) (auto dest: same_paths_Store)

lemma same_paths_create_entry:
  "create_entry cd locked m dm create undo steps attrs mk t n (w, s) = (r, w', s') \<Longrightarrow> same_paths s s'"
  unfolding create_entry_def
  by (auto split: if_splits prod.splits sum.splits dest: same_paths_Get)
     (metis same_paths_Get same_paths_provision same_paths_def)

text \<open>An operation on an entry changes the cache at that entry's key only.\<close>

definition only_key :: "string \<Rightarrow> 'a store \<Rightarrow> 'a store \<Rightarrow> bool" where
  "only_key k s s' \<longleftrightarrow> (\<forall>k'. k' \<noteq> k \<longrightarrow> map_of (cache s') k' = map_of (cache s) k')"

lemma only_key_refl [simp]: "only_key k s s"
  by (simp add: only_key_def)

lemma only_key_trans: "only_key k s s1 \<Longrightarrow> only_key k s1 s2 \<Longrightarrow> only_key k s s2"
  by (simp add: only_key_def)

lemma only_key_put [simp]: "only_key (key t n) s (cache_put t n v s)"
  by (simp add: only_key_def)

lemma only_key_Get: "Get cd t n w s = (r, s') \<Longrightarrow> only_key (key t n) s s'"
  by (auto simp: Get_def split: option.splits sum.splits)

lemma only_key_Store: "Store cd t n v (w, s) = (r, w', s') \<Longrightarrow> only_key (key t n) s s'"
  by (auto simp: Store_def split: option.splits prod.splits)

lemma only_key_Update: "Update cd t n fn al (w, s) = (r, w', s') \<Longrightarrow> only_key (key t n) s s'"
  by (auto simp: Update_def dest: only_key_Get intro: only_key_trans only_key_put
      split: option.splits prod.splits sum.splits)

lemma only_key_Delete: "Delete t n (w, s) = (w', s') \<Longrightarrow> only_key (key t n) s s'"
  by (auto simp: Delete_def only_key_def delete_conv')

lemma only_key_provision:
  "provision cd m dm create undo steps attrs mk t n (w, s) = (r, w', s') \<Longrightarrow> only_key (key t n) s s'"
  by (cases rule: provision_cases) (auto dest: only_key_Store)

lemma only_key_create_entry:
  "create_entry cd locked m dm create undo steps attrs mk t n (w, s) = (r, w', s') \<Longrightarrow> only_key (key t n) s s'"
  unfolding create_entry_def
  by (auto split: if_splits prod.splits sum.splits dest: only_key_Get)
     (metis only_key_Get only_key_provision only_key_trans)

lemma Dir_same: "same_paths s s' \<Longrightarrow> Dir s' = Dir s \<and> MetaPath s' = MetaPath s \<and> DataPath s' = DataPath s"
  by (auto simp: same_paths_def Dir_def MetaPath_def DataPath_def fun_eq_iff)

context metadata_store
begin

lemma Store_within:
  assumes "store_wf s" "ValidName t" "ValidName n" "Store cd t n v (w, s) = (r, w', s')"
  shows "within (Dir s t n) w w'"
proof -
  have "w' = snd (writeJSONAtomic cd (MetaPath s t n) v w)"
    using assms(4) by (auto simp: Store_def split: prod.splits option.splits)
  then show ?thesis using entry_paths_under[OF assms(1-3)] within_write by simp
qed

lemma Update_within:
  assumes "store_wf s" "ValidName t" "ValidName n" "Update cd t n fn alias (w, s) = (r, w', s')"
  shows "within (Dir s t n) w w'"
proof -
  have "w' = w \<or> (\<exists>v. w' = snd (writeJSONAtomic cd (MetaPath s t n) v w))"
    using assms(4) by (auto simp: Update_def split: prod.splits option.splits sum.splits) (metis snd_conv)+
  then show ?thesis using entry_paths_under[OF assms(1-3)] within_write by auto
qed

lemma store_inv_within:
  assumes "store_inv cd ok w s" "ValidName t" "ValidName n"
    and "within (Dir s t n) w w'" "map_of (cache s) (key t n) = None"
  shows "store_inv cd ok w' s"
proof (rule store_inv_world[OF assms(1)])
  fix t' n' v assume e: "ValidName t'" "ValidName n'" "map_of (cache s) (key t' n') = Some v"
  have wf: "store_wf s" using assms(1) by (simp add: store_inv_def)
  have "\<not> under (Dir s t n) (MetaPath s t' n')"
    using MetaPath_in_Dir[OF wf assms(2,3) e(1,2)] assms(5) e(3) by auto
  then show "file_content w' (MetaPath s t' n') = file_content w (MetaPath s t' n')"
    using assms(4) within_file_content by blast
qed

lemma store_inv_data:
  assumes "store_inv cd ok w s" "ValidName t" "ValidName n" "within (DataPath s t n) w w'"
  shows "store_inv cd ok w' s"
  by (rule store_inv_world[OF assms(1)], rule within_file_content[OF assms(4)])
     (use assms in \<open>auto simp: store_inv_def dest: MetaPath_not_in_DataPath\<close>)

lemma provision_within:
  assumes wf: "store_wf s" "ValidName t" "ValidName n" and m: "btrfs_local m"
    and ops: "\<And>w. within (Dir s t n) w (snd (create w))" "steps_within (Dir s t n) steps"
      "\<And>w. within (Dir s t n) w (attrs w)"
    and prov: "provision cd m dm create undo steps attrs mk t n (w, s) = (r, w', s')"
  shows "within (Dir s t n) w w'"
proof -
  note cl = cleanup_within[OF m entry_paths_under(3)[OF wf]]
  note mk = within_mkdir[of "Dir s t n" w "Dir s t n" dm]
  note st = run_steps_within[OF ops(2)]
  from prov show ?thesis
  proof (cases rule: provision_cases)
    case (mkdir e) then show ?thesis using mk by simp
  next
    case (present w1 e) then show ?thesis using mk ops(1)[of w1] by (auto intro: within_trans)
  next
    case (create w1 w2 e)
    then have "within (Dir s t n) w w2" using mk ops(1)[of w1] by (auto intro: within_trans)
    moreover have "within (Dir s t n) w2 w'" using create cl[of w2] within_remove_all[of "Dir s t n" "Dir s t n"] by simp
    ultimately show ?thesis by (rule within_trans)
  next
    case (steps w1 w2 w3 msg)
    then show ?thesis using mk ops(1)[of w1] st[of w2] cl[of w3]
      by simp (meson within_trans)
  next
    case (store w1 w2 w3 w5 e)
    then show ?thesis using mk ops(1)[of w1] st[of w2] ops(3)[of w3] Store_within[OF wf store(4)] cl[of w5]
      by simp (meson within_trans)
  next
    case (ok w1 w2 w3)
    then show ?thesis using mk ops(1)[of w1] st[of w2] ops(3)[of w3] Store_within[OF wf ok(4)]
      by simp (meson within_trans)
  qed
qed

lemma provision_fails:
  assumes "provision cd m dm create undo steps attrs mk t n (w, s) = ((None, x), w', s')"
  shows "s' = s \<and> x \<noteq> None"
  using assms
  by (cases rule: provision_cases) (auto simp: Store_def split: prod.splits option.splits)

lemma provision_succeeds:
  assumes ops: "\<And>w. within (Dir s t n) w (snd (create w))" "steps_within (Dir s t n) steps"
      "\<And>w. within (Dir s t n) w (attrs w)"
    and "provision cd m dm create undo steps attrs mk t n (w, s) = ((Some v, x), w', s')"
  shows "x = None \<and> v = mk (now w) \<and> s' = cache_put t n v s \<and>
    file_content w' (MetaPath s t n) = Some (Doc (marshal cd v))"
  using assms(4)
proof (cases rule: provision_cases)
  case (ok w1 w2 w3)
  have "within (Dir s t n) w (attrs w3)"
    using within_mkdir[of "Dir s t n" w "Dir s t n" dm] ops(1)[of w1] run_steps_within[OF ops(2), of w2]
      ops(3)[of w3] ok(1-3) by simp (meson within_trans)
  then have "now (attrs w3) = now w" by (simp add: within_def)
  then show ?thesis using ok(4,5)
    by (auto simp: Store_def dest: writeJSONAtomic_ok(1) split: prod.splits option.splits)
qed auto

text \<open>The mode and owner set before the metadata is written are still there afterwards.\<close>

lemma provision_attrs:
  assumes wf: "store_wf s" "ValidName t" "ValidName n"
    and ops: "\<And>w. within (Dir s t n) w (snd (create w))" "steps_within (Dir s t n) steps"
    and prov: "provision cd m dm create undo steps attrs mk t n (w, s) = ((Some v, x), w', s')"
  shows "\<exists>w3. faults w3 = faults w \<and> node_at w' (DataPath s t n) = node_at (attrs w3) (DataPath s t n)"
  using prov
proof (cases rule: provision_cases)
  case (ok w1 w2 w3)
  have "within (Dir s t n) w w3"
    using within_mkdir[of "Dir s t n" w "Dir s t n" dm] ops(1)[of w1] run_steps_within[OF ops(2), of w2] ok(1-3)
    by simp (meson within_trans)
  then have f: "faults w3 = faults w" by (simp add: within_def)
  have "DataPath s t n \<noteq> MetaPath s t n" using MetaPath_not_in_DataPath[OF wf wf(2,3)] by (metis under_refl)
  moreover have "DataPath s t n \<noteq> MetaPath s t n @ ''.tmp''"
    unfolding DataPath_render[OF wf] tmp_render[OF wf]
    using entry_comps_good[OF wf, of DataDir] entry_comps_good[OF wf, of "MetadataFile @ ''.tmp''"]
    by (subst render_inject) (simp_all, simp add: DataDir_def MetadataFile_def)
  ultimately have "node_at w' (DataPath s t n) = node_at (attrs w3) (DataPath s t n)"
    using writeJSONAtomic_other[of "DataPath s t n" "MetaPath s t n" cd "mk (now (attrs w3))" "attrs w3"] ok(4)
    by (auto simp: Store_def split: prod.splits option.splits)
  then show ?thesis using f by blast
qed auto

text \<open>A creation keeps the cache and the disk in step.\<close>

lemma provision_inv:
  assumes inv: "store_inv cd ok w s" "ValidName t" "ValidName n" and m: "btrfs_local m"
    and ops: "\<And>w. within (Dir s t n) w (snd (create w))" "steps_within (Dir s t n) steps"
      "\<And>w. within (Dir s t n) w (attrs w)"
    and new: "map_of (cache s) (key t n) = None" and vok: "ok (mk (now w))"
    and prov: "provision cd m dm create undo steps attrs mk t n (w, s) = (r, w', s')"
  shows "store_inv cd ok w' s'"
proof -
  have wf: "store_wf s" using inv(1) by (simp add: store_inv_def)
  have s: "store_inv cd ok w' s"
    using store_inv_within[OF inv provision_within[OF wf inv(2,3) m ops prov] new] .
  show ?thesis
  proof (cases "fst r")
    case None
    then have "provision cd m dm create undo steps attrs mk t n (w, s) = ((None, snd r), w', s')"
      using prov by (metis prod.collapse)
    then show ?thesis using provision_fails s by blast
  next
    case (Some v)
    then have "provision cd m dm create undo steps attrs mk t n (w, s) = ((Some v, snd r), w', s')"
      using prov by (metis prod.collapse)
    note ok = provision_succeeds[OF ops this]
    then have "backed cd w' (MetaPath s t n) v" using encode_decode vok by (auto simp: backed_def)
    then show ?thesis using store_inv_put[OF s inv(2,3)] ok vok by simp
  qed
qed

text \<open>A creation that fails after the directory was made leaves nothing in it, unless an immutable
  file or a failing removal keeps it there. The one exception is a target that already existed.\<close>

lemma provision_leaves_nothing:
  assumes m: "btrfs_local m" and wf: "store_wf s" "ValidName t" "ValidName n"
    and ops: "\<And>w. within (Dir s t n) w (snd (create w))" "steps_within (Dir s t n) steps"
      "\<And>w. within (Dir s t n) w (attrs w)"
    and prov: "provision cd m dm create undo steps attrs mk t n (w, s) = ((None, Some e), w', s')"
    and made: "fst (os_mkdir_all (Dir s t n) dm w) = None" "e \<noteq> StorageError ErrAlreadyExists"
    and left: "faults w (ORemoveAll (Dir s t n)) = None" "\<And>q. under (Dir s t n) q \<Longrightarrow> \<not> immutable_at w' q"
    and q: "under (Dir s t n) q"
  shows "node_at w' q = None"
proof -
  have "\<exists>v. w' = snd (os_remove_all (Dir s t n) v)"
    using prov made by (cases rule: provision_cases) (auto simp: cleanup_def)
  then obtain v where v: "w' = snd (os_remove_all (Dir s t n) v)" by blast
  have "faults v = faults w"
    using provision_within[OF wf m ops prov] v by (simp add: within_def)
  then show ?thesis using os_remove_all_left[OF _ v] left q by simp
qed

text \<open>The same for a creation with its lock and look-up.\<close>

lemma Get_miss:
  "Get cd t n w s = (Inl e, s1) \<Longrightarrow> s1 = s \<and> map_of (cache s) (key t n) = None"
  by (auto simp: Get_def split: option.splits sum.splits)

lemma create_entry_cases [consumes 1, case_names busy existing fresh]:
  assumes "create_entry cd locked m dm create undo steps attrs mk t n (w, s) = (r, w', s')"
  obtains "\<not> locked" "r = (None, Some (StorageError ErrBusy))" "w' = w" "s' = s"
  | v where "locked" "Get cd t n w s = (Inr v, s')" "r = (Some v, Some (StorageError ErrAlreadyExists))" "w' = w"
  | e where "locked" "Get cd t n w s = (Inl e, s)" "map_of (cache s) (key t n) = None"
      "provision cd m dm create undo steps attrs mk t n (w, s) = (r, w', s')"
  using assms unfolding create_entry_def
  by (auto split: if_splits prod.splits sum.splits dest: Get_miss)

lemma create_entry_inv:
  assumes inv: "store_inv cd ok w s" "ValidName t" "ValidName n" and m: "btrfs_local m"
    and ops: "\<And>w. within (Dir s t n) w (snd (create w))" "steps_within (Dir s t n) steps"
      "\<And>w. within (Dir s t n) w (attrs w)"
    and vok: "ok (mk (now w))"
    and ce: "create_entry cd locked m dm create undo steps attrs mk t n (w, s) = (r, w', s')"
  shows "store_inv cd ok w' s'" "within (Dir s t n) w w'"
proof -
  have wf: "store_wf s" using inv(1) by (simp add: store_inv_def)
  have "store_inv cd ok w' s' \<and> within (Dir s t n) w w'"
    using ce
  proof (cases rule: create_entry_cases)
    case busy then show ?thesis using inv(1) by simp
  next
    case (existing v) then show ?thesis using Get_inv(1)[OF inv] by simp
  next
    case (fresh e)
    show ?thesis
      using provision_inv[OF inv m ops fresh(3) vok fresh(4)] provision_within[OF wf inv(2,3) m ops fresh(4)] by blast
  qed
  then show "store_inv cd ok w' s'" "within (Dir s t n) w w'" by auto
qed

end

end
