(* ===== verification/Nfs.thy ===== *)
theory Nfs
  imports Btrfs
begin

text \<open>
  The NFS exporter of \<open>agent/storage/nfs\<close>: the \<open>Exporter\<close> interface and its implementation on
  the \<open>exportfs\<close> command, with the parser of \<open>exportfs -v\<close> and the file-system identifier
  computed from a CRC-32 of the path.
\<close>

unbundle bit_operations_syntax

section \<open>Interface\<close>

record ExportInfo =
  ei_Path :: string
  ei_Client :: string

record exporter =
  Export :: "string \<Rightarrow> string \<Rightarrow> world \<Rightarrow> string option \<times> world"
  Unexport :: "string \<Rightarrow> string \<Rightarrow> world \<Rightarrow> string option \<times> world"
  ListExports :: "world \<Rightarrow> (string + ExportInfo list) \<times> world"

section \<open>The kernel exporter\<close>

record kernelExporter =
  ke_bin :: string
  ke_cmd :: runner
  ke_opts :: string

definition errNotFound :: string where "errNotFound = ''Could not find''"

definition fsidMask :: "32 word" where "fsidMask = 0x7FFFFFFF"

text \<open>\<open>hash/crc32.ChecksumIEEE\<close>\<close>

definition crc_bit :: "32 word \<Rightarrow> 32 word" where
  "crc_bit c = (if bit c 0 then drop_bit 1 c XOR 0xEDB88320 else drop_bit 1 c)"

definition crc_byte :: "32 word \<Rightarrow> char \<Rightarrow> 32 word" where
  "crc_byte c b = (crc_bit ^^ 8) (c XOR of_nat (of_char b))"

definition ChecksumIEEE :: "string \<Rightarrow> 32 word" where
  "ChecksumIEEE s = NOT (foldl crc_byte 0xFFFFFFFF s)"

definition export_fsid :: "string \<Rightarrow> 32 word" where
  "export_fsid path =
     (let fsid = ChecksumIEEE path AND fsidMask in if fsid = 0 then 1 else fsid)"

definition exportfsClient :: "string \<Rightarrow> string" where
  "exportfsClient client = (if contains client '':'' then ''['' @ client @ '']'' else client)"

definition unwrapBrackets :: "string \<Rightarrow> string" where
  "unwrapBrackets client = (case cut '']'' client of
       Some (addr, _) \<Rightarrow> if prefix ''['' addr then trim_prefix addr ''['' else client
     | None \<Rightarrow> client)"

definition ke_exec :: "kernelExporter \<Rightarrow> string list \<Rightarrow> world \<Rightarrow> (string \<times> string option) \<times> world" where
  "ke_exec e args w = ke_cmd e (ke_bin e) args w"

definition ke_run :: "kernelExporter \<Rightarrow> string list \<Rightarrow> world \<Rightarrow> string option \<times> world" where
  "ke_run e args w = (case ke_exec e args w of ((out, err), w') \<Rightarrow> (err, w'))"

definition tryUnexport :: "kernelExporter \<Rightarrow> string list \<Rightarrow> world \<Rightarrow> string option \<times> world" where
  "tryUnexport e args w = (case ke_exec e args w of ((out, err), w') \<Rightarrow>
     (if err \<noteq> None \<and> contains out errNotFound then None else err, w'))"

definition export_target :: "string \<Rightarrow> string \<Rightarrow> string" where
  "export_target client path = exportfsClient client @ '':'' @ path"

definition KernelExport :: "kernelExporter \<Rightarrow> string \<Rightarrow> string \<Rightarrow> world \<Rightarrow> string option \<times> world" where
  "KernelExport e path client =
     (let opts = ke_opts e @ '',fsid='' @ show_base 10 (unat (export_fsid path))
      in ke_run e [''-o'', opts, export_target client path])"

subsection \<open>Parsing exportfs -v\<close>

definition export_client :: "string \<Rightarrow> string" where
  "export_client f = unwrapBrackets (case cut ''('' f of None \<Rightarrow> f | Some (raw, _) \<Rightarrow> raw)"

text \<open>One line: the entry it adds, and the path that waits for a client on the next line.\<close>

definition parse_line :: "string \<Rightarrow> string \<Rightarrow> ExportInfo list \<times> string" where
  "parse_line currentPath line =
     (let fs = str_fields line; indented = prefix [tab] line \<or> prefix [space] line in
      case fs of
        [] \<Rightarrow> ([], currentPath)
      | f0 # rest \<Rightarrow>
          (if \<not> indented then
             (case rest of
                f1 # _ \<Rightarrow> ([\<lparr>ei_Path = f0, ei_Client = export_client f1\<rparr>], [])
              | [] \<Rightarrow> ([], f0))
           else if currentPath \<noteq> [] then ([\<lparr>ei_Path = currentPath, ei_Client = export_client f0\<rparr>], [])
           else ([], currentPath)))"

fun parse_lines :: "string \<Rightarrow> string list \<Rightarrow> ExportInfo list" where
  "parse_lines currentPath [] = []"
| "parse_lines currentPath (line # rest) =
     (case parse_line currentPath line of (new, cp) \<Rightarrow> new @ parse_lines cp rest)"

definition parseExports :: "string \<Rightarrow> ExportInfo list" where
  "parseExports output = parse_lines [] (split_on newline output)"

subsection \<open>Listing and unexporting\<close>

definition KernelListExports :: "kernelExporter \<Rightarrow> world \<Rightarrow> (string + ExportInfo list) \<times> world" where
  "KernelListExports e w = (case ke_exec e [''-v''] w of ((out, err), w') \<Rightarrow>
     (case err of Some x \<Rightarrow> (Inl x, w') | None \<Rightarrow> (Inr (parseExports out), w')))"

definition exportedClients :: "kernelExporter \<Rightarrow> string \<Rightarrow> world \<Rightarrow> (string + string list) \<times> world" where
  "exportedClients e path w = (case KernelListExports e w of
       (Inl x, w') \<Rightarrow> (Inl x, w')
     | (Inr exports, w') \<Rightarrow> (Inr (map ei_Client (filter (\<lambda>ex. ei_Path ex = path) exports)), w'))"

text \<open>All clients are tried; the last error is returned.\<close>

fun unexport_all :: "kernelExporter \<Rightarrow> string \<Rightarrow> string list \<Rightarrow> string option \<Rightarrow> world \<Rightarrow> string option \<times> world" where
  "unexport_all e path [] lastErr w = (lastErr, w)"
| "unexport_all e path (c # cs) lastErr w =
     (case tryUnexport e [''-u'', export_target c path] w of
        (Some err, w') \<Rightarrow> unexport_all e path cs (Some err) w'
      | (None, w') \<Rightarrow> unexport_all e path cs lastErr w')"

definition KernelUnexport :: "kernelExporter \<Rightarrow> string \<Rightarrow> string \<Rightarrow> world \<Rightarrow> string option \<times> world" where
  "KernelUnexport e path client w =
     (if client \<noteq> [] then tryUnexport e [''-u'', export_target client path] w
      else (case exportedClients e path w of
              (Inl x, w') \<Rightarrow> (Some x, w')
            | (Inr clients, w') \<Rightarrow> if clients = [] then (None, w') else unexport_all e path clients None w'))"

definition NewKernelExporter :: "kernelExporter \<Rightarrow> exporter" where
  "NewKernelExporter e = \<lparr>Export = KernelExport e, Unexport = KernelUnexport e, ListExports = KernelListExports e\<rparr>"

section \<open>Laws\<close>

lemma unwrap_exportfsClient:
  assumes "CHR '']'' \<notin> set c"
  shows "unwrapBrackets (exportfsClient c) = c"
proof (cases "CHR '':'' \<in> set c")
  case True
  have "cut '']'' ((CHR ''['' # c) @ CHR '']'' # []) = Some (CHR ''['' # c, [])"
    by (rule cut_single_append) (use assms in auto)
  then show ?thesis using True
    by (simp add: exportfsClient_def unwrapBrackets_def contains_single trim_prefix_def)
next
  case False
  have "cut '']'' c = None" using assms by (simp only: cut_single_None not_False_eq_True)
  then show ?thesis using False by (simp add: exportfsClient_def unwrapBrackets_def contains_single)
qed

text \<open>The two ways \<open>exportfs -v\<close> prints an entry: path and client on one line, or a long path on a
  line of its own and the client indented below it.\<close>

datatype export_layout = OneLine | TwoLines

definition print_entry :: "export_layout \<times> string \<times> ExportInfo \<Rightarrow> string list" where
  "print_entry le = (case le of (l, opts, e) \<Rightarrow>
     (let client = exportfsClient (ei_Client e) @ ''('' @ opts @ '')'' in
      case l of
        OneLine \<Rightarrow> [ei_Path e @ [tab] @ client]
      | TwoLines \<Rightarrow> [ei_Path e, tab # tab # client]))"

definition print_exports :: "(export_layout \<times> string \<times> ExportInfo) list \<Rightarrow> string" where
  "print_exports es = join_with [newline] (concat (map print_entry es) @ [[]])"

definition no_space :: "string \<Rightarrow> bool" where
  "no_space s = list_all (\<lambda>c. \<not> is_space c) s"

definition printable :: "export_layout \<times> string \<times> ExportInfo \<Rightarrow> bool" where
  "printable le = (case le of (l, opts, e) \<Rightarrow>
     ei_Path e \<noteq> [] \<and> no_space (ei_Path e) \<and> ei_Client e \<noteq> [] \<and> no_space (ei_Client e) \<and> no_space opts \<and>
     CHR ''('' \<notin> set (ei_Client e) \<and> CHR '']'' \<notin> set (ei_Client e))"

lemma is_space_chars [simp]: "is_space tab" "is_space space" "is_space newline"
  "\<not> is_space CHR ''(''" "\<not> is_space CHR '')''" "\<not> is_space CHR ''[''" "\<not> is_space CHR '']''"
  by (simp_all add: is_space_def tab_def space_def newline_def)

lemma no_space_exportfsClient: "no_space c \<Longrightarrow> no_space (exportfsClient c)"
  by (simp add: no_space_def exportfsClient_def)

lemma export_client_print:
  assumes "CHR ''('' \<notin> set c" "CHR '']'' \<notin> set c"
  shows "export_client (exportfsClient c @ CHR ''('' # x) = c"
proof -
  have "CHR ''('' \<notin> set (exportfsClient c)" using assms by (auto simp: exportfsClient_def)
  then show ?thesis using assms by (simp add: export_client_def cut_single_append unwrap_exportfsClient)
qed

lemma fields_single: "w \<noteq> [] \<Longrightarrow> no_space w \<Longrightarrow> str_fields w = [w]"
  using fields_word[of w "[]"] by (simp add: no_space_def list_all_iff)

lemma fields_two: "w \<noteq> [] \<Longrightarrow> no_space w \<Longrightarrow> is_space c \<Longrightarrow> str_fields (w @ c # r) = w # str_fields r"
  using fields_word[of w "c # r"] by (simp add: no_space_def list_all_iff fields_space)

lemma hd_not_space: "w \<noteq> [] \<Longrightarrow> no_space w \<Longrightarrow> \<not> prefix [tab] (w @ r) \<and> \<not> prefix [space] (w @ r)"
  by (cases w) (auto simp: no_space_def)

lemma parse_print_entry:
  assumes "printable (l, opts, e)"
  shows "parse_lines [] (print_entry (l, opts, e) @ rest) = e # parse_lines [] rest"
proof -
  let ?c = "exportfsClient (ei_Client e) @ CHR ''('' # opts @ '')''"
  have p: "ei_Path e \<noteq> []" "no_space (ei_Path e)" and c: "no_space ?c" "?c \<noteq> []"
    and ec: "export_client ?c = ei_Client e"
    using assms no_space_exportfsClient export_client_print
    by (auto simp: printable_def no_space_def)
  note h = hd_not_space[OF p]
  show ?thesis
  proof (cases l)
    case OneLine
    have "str_fields (ei_Path e @ tab # ?c) = [ei_Path e, ?c]"
      using fields_two[OF p] fields_single[OF c(2,1)] by simp
    then show ?thesis using OneLine h[of "tab # ?c"] ec
      by (simp add: print_entry_def parse_line_def)
  next
    case TwoLines
    have "str_fields (tab # tab # ?c) = [?c]"
      using fields_single[OF c(2,1)] by (simp add: fields_space)
    then show ?thesis using TwoLines h[of "[]"] ec p fields_single[OF p]
      by (simp add: print_entry_def parse_line_def)
  qed
qed

lemma parse_print_entries:
  "\<forall>le \<in> set es. printable le \<Longrightarrow>
     parse_lines [] (concat (map print_entry es) @ [[]]) = map (\<lambda>(l, opts, e). e) es"
proof (induction es)
  case Nil
  then show ?case by (simp add: parse_line_def)
next
  case (Cons le es)
  obtain l opts e where le: "le = (l, opts, e)" by (cases le) auto
  then show ?case using Cons parse_print_entry[of l opts e "concat (map print_entry es) @ [[]]"] by simp
qed

lemma print_entry_no_newline:
  assumes "printable le" "x \<in> set (print_entry le)"
  shows "newline \<notin> set x"
proof -
  obtain l opts e where le: "le = (l, opts, e)" by (cases le) auto
  have nn: "no_space s \<Longrightarrow> newline \<notin> set s" for s by (auto simp: no_space_def list_all_iff)
  have chars: "newline \<noteq> tab" "newline \<noteq> CHR ''(''" "newline \<noteq> CHR '')''" by (simp_all add: newline_def tab_def)
  have "no_space (ei_Path e)" "no_space (exportfsClient (ei_Client e))" "no_space opts"
    using assms(1) le no_space_exportfsClient by (auto simp: printable_def)
  from this[THEN nn] show ?thesis
    using assms(2) le chars by (cases l) (auto simp: print_entry_def Let_def)
qed

lemma parse_printed:
  assumes p: "\<forall>le \<in> set es. printable le"
  shows "parseExports (print_exports es) = map (\<lambda>(l, opts, e). e) es"
proof -
  have "split_on newline (print_exports es) = concat (map print_entry es) @ [[]]"
    unfolding print_exports_def
    by (rule split_join) (use p print_entry_no_newline in \<open>auto\<close>)
  then show ?thesis using parse_print_entries[OF p] by (simp add: parseExports_def)
qed

section \<open>Properties\<close>

text \<open>C10: \<open>parseExports\<close> reads back what \<open>exportfs -v\<close> prints: for every list of entries, with each
  entry printed on one line or with its path on a line of its own, and IPv6 clients in brackets,
  the parser returns exactly those path and client pairs, in order.\<close>

theorem parseExports_print:
  "\<forall>le \<in> set es. printable le \<Longrightarrow> parseExports (print_exports es) = map (\<lambda>(l, opts, e). e) es"
  by (rule parse_printed)

theorem parseExports_print_witness:
  "parseExports (print_exports
     [(OneLine, ''rw,fsid=7'', \<lparr>ei_Path = ''/d/t/v'', ei_Client = ''10.0.0.1''\<rparr>),
      (TwoLines, ''rw'', \<lparr>ei_Path = ''/d/t/w'', ei_Client = ''fd00::1''\<rparr>)])
   = [\<lparr>ei_Path = ''/d/t/v'', ei_Client = ''10.0.0.1''\<rparr>, \<lparr>ei_Path = ''/d/t/w'', ei_Client = ''fd00::1''\<rparr>]"
proof -
  let ?es = "[(OneLine, ''rw,fsid=7'', \<lparr>ei_Path = ''/d/t/v'', ei_Client = ''10.0.0.1''\<rparr>),
      (TwoLines, ''rw'', \<lparr>ei_Path = ''/d/t/w'', ei_Client = ''fd00::1''\<rparr>)]"
  have "\<forall>le \<in> set ?es. printable le"
    by (simp add: printable_def no_space_def is_space_def)
  from parseExports_print[OF this] show ?thesis by simp
qed

text \<open>The file-system identifier of an export is a positive 31-bit number.\<close>

lemma export_fsid_range: "0 < export_fsid path \<and> unat (export_fsid path) < 2 ^ 31"
proof -
  have "unat (ChecksumIEEE path AND fsidMask) < 2 ^ 31"
  proof -
    have "ChecksumIEEE path AND fsidMask \<le> fsidMask" by (rule word_and_le1)
    then have "unat (ChecksumIEEE path AND fsidMask) \<le> unat fsidMask" by (simp only: word_le_nat_alt)
    then show ?thesis by (simp add: fsidMask_def)
  qed
  then show ?thesis by (simp add: export_fsid_def Let_def word_gt_0)
qed

end
