(* ===== verification/Volumes.thy ===== *)
theory Volumes
  imports Provision Nfs
begin

text \<open>
  The volume operations of \<open>agent/storage/volume.go\<close> and the parts of \<open>agent/storage/storage.go\<close>
  they rest on: the \<open>Storage\<close> struct, the tenant directory and the cache that is loaded at start.
  An operation takes the state (the world and the storage) and returns its results and the new
  state. Where an operation takes the entry lock, its first argument is the outcome of the lock.
\<close>

section \<open>The storage\<close>

record storage =
  st_basePath :: string
  st_mountPoint :: string
  st_quotaEnabled :: bool
  st_btrfs :: manager
  st_exporter :: exporter
  st_tenants :: "string list"
  st_defaultDirMode :: file_mode
  st_defaultDataMode :: string
  st_immutableLabelKeys :: "string list"
  st_volumes :: "VolumeMetadata store"
  st_snapshots :: "SnapshotMetadata store"

type_synonym state = "world \<times> storage"

text \<open>A sequence of checks that returns the first error.\<close>

definition check :: "error option \<Rightarrow> error + 'a \<Rightarrow> error + 'a" where
  "check c r = (case c of Some e \<Rightarrow> Inl e | None \<Rightarrow> r)"

definition fail_if :: "bool \<Rightarrow> err_code \<Rightarrow> error option" where
  "fail_if b c = (if b then Some (StorageError c) else None)"

lemma check_Inr [simp]: "check c r = Inr x \<longleftrightarrow> c = None \<and> r = Inr x"
  by (simp add: check_def split: option.splits)

lemma check_None [simp]: "check None r = r"
  by (simp add: check_def)

lemma check_ValidName [simp]: "ValidName n \<Longrightarrow> check (ValidateName n) r = r"
  by (simp add: check_def ValidateName_def)

lemma fail_if_None [simp]: "fail_if b c = None \<longleftrightarrow> \<not> b"
  by (simp add: fail_if_def)

definition tenantPath :: "storage \<Rightarrow> string \<Rightarrow> world \<Rightarrow> error + string" where
  "tenantPath s tenant w = check (ValidateName tenant)
     (let bp = filepath_join [st_basePath s, tenant] in
      case os_stat bp w of
        Inl e \<Rightarrow> if os_IsNotExist e then Inl (StorageError ErrNotFound) else Inr bp
      | Inr _ \<Rightarrow> Inr bp)"

definition tenant_err :: "storage \<Rightarrow> string \<Rightarrow> world \<Rightarrow> error option" where
  "tenant_err s tenant w = (case tenantPath s tenant w of Inl e \<Rightarrow> Some e | Inr _ \<Rightarrow> None)"

lemma tenant_err_None: "tenant_err s t w = None \<Longrightarrow> ValidName t"
  by (auto simp: tenant_err_def tenantPath_def check_def split: sum.splits option.splits)

definition read_err :: "meta_err \<Rightarrow> error" where
  "read_err e = (if meta_IsNotExist e then StorageError ErrNotFound else StorageError ErrMetadata)"

definition compressed :: "string \<Rightarrow> bool" where
  "compressed c = (c \<noteq> [] \<and> c \<noteq> ''none'')"

text \<open>A store operation applied to the volumes (or the snapshots) of the state.\<close>

definition on_volumes :: "('r \<times> world \<times> VolumeMetadata store) \<Rightarrow> storage \<Rightarrow> 'r \<times> state" where
  "on_volumes x s = (case x of (r, w, v) \<Rightarrow> (r, w, s\<lparr>st_volumes := v\<rparr>))"

definition on_snapshots :: "('r \<times> world \<times> SnapshotMetadata store) \<Rightarrow> storage \<Rightarrow> 'r \<times> state" where
  "on_snapshots x s = (case x of (r, w, v) \<Rightarrow> (r, w, s\<lparr>st_snapshots := v\<rparr>))"

section \<open>Creating a volume\<close>

text \<open>The validated request: quota and mode have their defaults filled in.\<close>

definition create_validate :: "storage \<Rightarrow> string \<Rightarrow> VolumeCreateRequest \<Rightarrow> world \<Rightarrow> error + (VolumeCreateRequest \<times> nat)" where
  "create_validate s tenant req w =
     check (tenant_err s tenant w)
    (check (ValidateName (vcr_Name req))
    (check (fail_if (vcr_SizeBytes req = 0) ErrInvalid)
    (check (fail_if (vcr_NoCOW req \<and> compressed (vcr_Compression req)) ErrInvalid)
    (check (fail_if (\<not> IsValidCompression (vcr_Compression req)) ErrInvalid)
    (let quota = (if vcr_QuotaBytes req = 0 then vcr_SizeBytes req else vcr_QuotaBytes req) in
     check (ValidateLabels (vcr_Labels req))
    (check (requireImmutableLabels (st_immutableLabelKeys s) (vcr_Labels req))
    (check (fail_if (\<not> ValidateUID (vcr_UID req)) ErrInvalid)
    (check (fail_if (\<not> ValidateGID (vcr_GID req)) ErrInvalid)
    (let md = (if vcr_Mode req = [] then st_defaultDataMode s else vcr_Mode req) in
     case ValidateMode md of
       None \<Rightarrow> Inl (StorageError ErrInvalid)
     | Some mode \<Rightarrow> Inr (req\<lparr>vcr_QuotaBytes := quota, vcr_Mode := md\<rparr>, mode))))))))))"

definition create_steps :: "storage \<Rightarrow> VolumeCreateRequest \<Rightarrow> string \<Rightarrow> step list" where
  "create_steps s req data =
     (if vcr_NoCOW req then [(''chattr +C failed: '', failed (SetNoCOW (st_btrfs s) data))] else []) @
     (if compressed (vcr_Compression req)
      then [(''set compression failed: '', failed (SetCompression (st_btrfs s) data (vcr_Compression req)))] else []) @
     (if st_quotaEnabled s
      then [(''qgroup limit failed: '', failed (QgroupLimit (st_btrfs s) data (vcr_QuotaBytes req)))] else [])"

definition create_attrs :: "VolumeCreateRequest \<Rightarrow> nat \<Rightarrow> string \<Rightarrow> world \<Rightarrow> world" where
  "create_attrs req mode data w =
     snd (os_chown data (vcr_UID req) (vcr_GID req) (snd (os_chmod data (fileMode (of_nat mode)) w)))"

definition create_meta :: "VolumeCreateRequest \<Rightarrow> string \<Rightarrow> int \<Rightarrow> VolumeMetadata" where
  "create_meta req dir t = \<lparr>vm_Name = vcr_Name req, vm_Path = dir, vm_SizeBytes = vcr_SizeBytes req,
     vm_NoCOW = vcr_NoCOW req, vm_Compression = vcr_Compression req, vm_QuotaBytes = vcr_QuotaBytes req,
     vm_UsedBytes = 0, vm_UID = vcr_UID req, vm_GID = vcr_GID req, vm_Mode = vcr_Mode req,
     vm_Labels = vcr_Labels req, vm_Exports = [], vm_CreatedAt = t, vm_UpdatedAt = t, vm_LastAttachAt = None\<rparr>"

definition CreateVolume :: "bool \<Rightarrow> string \<Rightarrow> VolumeCreateRequest \<Rightarrow> state \<Rightarrow>
    (VolumeMetadata option \<times> error option) \<times> state" where
  "CreateVolume locked tenant req0 st = (case st of (w, s) \<Rightarrow>
     (case create_validate s tenant req0 w of
        Inl e \<Rightarrow> ((None, Some e), st)
      | Inr (req, mode) \<Rightarrow>
          let dir = Dir (st_volumes s) tenant (vcr_Name req); data = DataPath (st_volumes s) tenant (vcr_Name req) in
          on_volumes (create_entry volume_codec locked (st_btrfs s) (st_defaultDirMode s)
            (SubvolumeCreate (st_btrfs s) data) False (create_steps s req data)
            (create_attrs req mode data) (create_meta req dir) tenant (vcr_Name req) (w, st_volumes s)) s))"

section \<open>Reading volumes\<close>

definition ListVolumes :: "string \<Rightarrow> state \<Rightarrow> error + VolumeMetadata list" where
  "ListVolumes tenant st = (case st of (w, s) \<Rightarrow>
     check (tenant_err s tenant w)
       (Inr (map (\<lambda>(t, n, v). v) (filter (\<lambda>(t, n, v). t = tenant) (Range (st_volumes s))))))"

definition GetVolume :: "string \<Rightarrow> string \<Rightarrow> state \<Rightarrow> (error + VolumeMetadata) \<times> state" where
  "GetVolume tenant name st = (case st of (w, s) \<Rightarrow>
     (case check (tenant_err s tenant w) (check (ValidateName name) (Inr ())) of
        Inl e \<Rightarrow> (Inl e, st)
      | Inr _ \<Rightarrow>
          (case Get volume_codec tenant name w (st_volumes s) of
             (Inl e, vs) \<Rightarrow> (Inl (read_err e), w, s\<lparr>st_volumes := vs\<rparr>)
           | (Inr meta, vs) \<Rightarrow> (Inr meta, w, s\<lparr>st_volumes := vs\<rparr>))))"

section \<open>Updating a volume\<close>

text \<open>The validated request: the labels with the protected ones put back, and the parsed mode.\<close>

definition update_validate :: "storage \<Rightarrow> VolumeMetadata \<Rightarrow> VolumeUpdateRequest \<Rightarrow> error + (VolumeUpdateRequest \<times> nat)" where
  "update_validate s cur req =
     (case (case vur_Labels req of
              None \<Rightarrow> Inr None
            | Some ls \<Rightarrow> check (ValidateLabels ls)
                (case protectImmutableLabels (st_immutableLabelKeys s) (vm_Labels cur) ls of
                   Inl e \<Rightarrow> Inl e | Inr u \<Rightarrow> Inr (Some u))) of
        Inl e \<Rightarrow> Inl e
      | Inr labels \<Rightarrow>
          check (fail_if (case vur_SizeBytes req of Some b \<Rightarrow> b < vm_SizeBytes cur | None \<Rightarrow> False) ErrInvalid)
         (check (fail_if (case vur_Compression req of Some c \<Rightarrow> \<not> IsValidCompression c | None \<Rightarrow> False) ErrInvalid)
         (check (fail_if (case vur_Compression req of Some c \<Rightarrow> vm_NoCOW cur \<and> compressed c | None \<Rightarrow> False) ErrInvalid)
         (check (fail_if (case vur_UID req of Some u \<Rightarrow> \<not> ValidateUID u | None \<Rightarrow> False) ErrInvalid)
         (check (fail_if (case vur_GID req of Some g \<Rightarrow> \<not> ValidateGID g | None \<Rightarrow> False) ErrInvalid)
         (case vur_Mode req of
            None \<Rightarrow> Inr (req\<lparr>vur_Labels := labels\<rparr>, 0)
          | Some md \<Rightarrow> (case ValidateMode md of
              None \<Rightarrow> Inl (StorageError ErrInvalid)
            | Some mode \<Rightarrow> Inr (req\<lparr>vur_Labels := labels\<rparr>, mode))))))))"

definition update_steps :: "storage \<Rightarrow> VolumeMetadata \<Rightarrow> VolumeUpdateRequest \<Rightarrow> nat \<Rightarrow> string \<Rightarrow> step list" where
  "update_steps s cur req mode data =
     (case vur_SizeBytes req of
        Some b \<Rightarrow> if st_quotaEnabled s then [(''qgroup limit failed: '', failed (QgroupLimit (st_btrfs s) data b))] else []
      | None \<Rightarrow> []) @
     (if vur_NoCOW req = Some True \<and> \<not> vm_NoCOW cur
      then [(''chattr +C failed: '', failed (SetNoCOW (st_btrfs s) data))] else []) @
     (case vur_Compression req of
        Some c \<Rightarrow> if compressed c then [(''set compression failed: '', failed (SetCompression (st_btrfs s) data c))] else []
      | None \<Rightarrow> []) @
     (if vur_UID req \<noteq> None \<or> vur_GID req \<noteq> None
      then [(''chown failed: '', failed (os_chown data
              (case vur_UID req of Some u \<Rightarrow> u | None \<Rightarrow> vm_UID cur)
              (case vur_GID req of Some g \<Rightarrow> g | None \<Rightarrow> vm_GID cur)))] else []) @
     (if vur_Mode req \<noteq> None
      then [(''chmod failed: '', failed (os_chmod data (fileMode (of_nat mode))))] else [])"

text \<open>A request to turn no-copy-on-write off again is ignored.\<close>

definition update_nocow :: "VolumeMetadata \<Rightarrow> VolumeUpdateRequest \<Rightarrow> VolumeUpdateRequest" where
  "update_nocow cur req = (if vur_NoCOW req = Some False \<and> vm_NoCOW cur then req\<lparr>vur_NoCOW := None\<rparr> else req)"

definition update_meta :: "VolumeUpdateRequest \<Rightarrow> int \<Rightarrow> VolumeMetadata \<Rightarrow> VolumeMetadata" where
  "update_meta req t m =
     (let m = (case vur_SizeBytes req of Some b \<Rightarrow> m\<lparr>vm_SizeBytes := b, vm_QuotaBytes := b\<rparr> | None \<Rightarrow> m);
          m = (case vur_NoCOW req of Some b \<Rightarrow> m\<lparr>vm_NoCOW := b\<rparr> | None \<Rightarrow> m);
          m = (case vur_Compression req of Some c \<Rightarrow> m\<lparr>vm_Compression := c\<rparr> | None \<Rightarrow> m);
          m = (case vur_UID req of Some u \<Rightarrow> m\<lparr>vm_UID := u\<rparr> | None \<Rightarrow> m);
          m = (case vur_GID req of Some g \<Rightarrow> m\<lparr>vm_GID := g\<rparr> | None \<Rightarrow> m);
          m = (case vur_Mode req of Some md \<Rightarrow> m\<lparr>vm_Mode := md\<rparr> | None \<Rightarrow> m);
          m = (case vur_Labels req of Some ls \<Rightarrow> m\<lparr>vm_Labels := ls\<rparr> | None \<Rightarrow> m)
      in m\<lparr>vm_UpdatedAt := t\<rparr>)"

definition UpdateVolume :: "string \<Rightarrow> string \<Rightarrow> VolumeUpdateRequest \<Rightarrow> state \<Rightarrow> (error + VolumeMetadata) \<times> state" where
  "UpdateVolume tenant name req0 st =
     (case GetVolume tenant name st of
        (Inl e, st1) \<Rightarrow> (Inl e, st1)
      | (Inr cur, w, s) \<Rightarrow>
          (case update_validate s cur req0 of
             Inl e \<Rightarrow> (Inl e, w, s)
           | Inr (req, mode) \<Rightarrow>
               (case run_steps (update_steps s cur req mode (DataPath (st_volumes s) tenant name)) w of
                  (Some msg, w1) \<Rightarrow> (Inl (WrappedError msg), w1, s)
                | (None, w1) \<Rightarrow>
                    (case Update volume_codec tenant name (update_meta (update_nocow cur req) (now w1)) id (w1, st_volumes s) of
                       (Inl e, w2, vs) \<Rightarrow> (Inl (WrappedError ''failed to update metadata: ''), w2, s\<lparr>st_volumes := vs\<rparr>)
                     | (Inr m, w2, vs) \<Rightarrow> (Inr m, w2, s\<lparr>st_volumes := vs\<rparr>)))))"

section \<open>Cloning a volume\<close>

definition clone_labels :: "string \<Rightarrow> string \<Rightarrow> labels \<Rightarrow> labels" where
  "clone_labels ty source ls =
     AList.update LabelCloneSourceName source (AList.update LabelCloneSourceType ty ls)"

definition clone_meta :: "VolumeMetadata \<Rightarrow> string \<Rightarrow> string \<Rightarrow> labels \<Rightarrow> int \<Rightarrow> VolumeMetadata" where
  "clone_meta src name dir ls t = \<lparr>vm_Name = name, vm_Path = dir, vm_SizeBytes = vm_SizeBytes src,
     vm_NoCOW = vm_NoCOW src, vm_Compression = vm_Compression src, vm_QuotaBytes = vm_QuotaBytes src,
     vm_UsedBytes = 0, vm_UID = vm_UID src, vm_GID = vm_GID src, vm_Mode = vm_Mode src,
     vm_Labels = ls, vm_Exports = [], vm_CreatedAt = t, vm_UpdatedAt = t, vm_LastAttachAt = None\<rparr>"

definition CloneVolume :: "bool \<Rightarrow> string \<Rightarrow> VolumeCloneRequest \<Rightarrow> state \<Rightarrow>
    (VolumeMetadata option \<times> error option) \<times> state" where
  "CloneVolume locked tenant req st = (case st of (w, s) \<Rightarrow>
     let labels = clone_labels ''volume'' (vlr_Source req) (vlr_Labels req) in
     (case check (tenant_err s tenant w) (check (ValidateName (vlr_Name req)) (check (ValidateLabels labels)
             (check (requireImmutableLabels (st_immutableLabelKeys s) labels) (Inr ())))) of
        Inl e \<Rightarrow> ((None, Some e), st)
      | Inr _ \<Rightarrow>
          (case GetVolume tenant (vlr_Source req) st of
             (Inl e, st1) \<Rightarrow> ((None, Some e), st1)
           | (Inr src, w, s) \<Rightarrow>
               let dir = Dir (st_volumes s) tenant (vlr_Name req);
                   srcData = DataPath (st_volumes s) tenant (vlr_Source req);
                   cloneData = DataPath (st_volumes s) tenant (vlr_Name req) in
               on_volumes (create_entry volume_codec locked (st_btrfs s) (st_defaultDirMode s)
                 (SubvolumeSnapshot (st_btrfs s) srcData cloneData False) True
                 (if st_quotaEnabled s
                  then [(''qgroup limit failed: '', failed (QgroupLimit (st_btrfs s) cloneData (vm_QuotaBytes src)))] else [])
                 id (clone_meta src (vlr_Name req) dir labels) tenant (vlr_Name req) (w, st_volumes s)) s)))"

section \<open>Deleting a volume\<close>

definition DeleteVolume :: "string \<Rightarrow> string \<Rightarrow> state \<Rightarrow> error option \<times> state" where
  "DeleteVolume tenant name st = (case st of (w, s) \<Rightarrow>
     (case check (tenant_err s tenant w) (check (ValidateName name) (Inr ())) of
        Inl e \<Rightarrow> (Some e, st)
      | Inr _ \<Rightarrow>
          (case Get volume_codec tenant name w (st_volumes s) of
             (Inl e, vs) \<Rightarrow>
               (Some (if meta_IsNotExist e then StorageError ErrNotFound
                      else WrappedError ''failed to read volume metadata: ''), w, s\<lparr>st_volumes := vs\<rparr>)
           | (Inr meta, vs) \<Rightarrow>
               if vm_Exports meta \<noteq> [] then (Some (StorageError ErrBusy), w, s\<lparr>st_volumes := vs\<rparr>)
               else
                 (case SubvolumeDelete (st_btrfs s) (DataPath vs tenant name) w of
                    (Some e, w1) \<Rightarrow> (Some (WrappedError ''btrfs subvolume delete failed: ''), w1, s\<lparr>st_volumes := vs\<rparr>)
                  | (None, w1) \<Rightarrow>
                      (case Delete tenant name (w1, vs) of (w2, vs2) \<Rightarrow>
                        (case os_remove_all (Dir vs2 tenant name) w2 of
                           (Some e, w3) \<Rightarrow> (Some (WrappedError ''failed to remove volume directory: ''), w3, s\<lparr>st_volumes := vs2\<rparr>)
                         | (None, w3) \<Rightarrow> (None, w3, s\<lparr>st_volumes := vs2\<rparr>)))))))"

section \<open>The invariant of the agent's state\<close>

text \<open>Both caches are backed by the disk, and the two stores share the base path: volumes live in
  \<open>base/tenant/name\<close>, snapshots in \<open>base/tenant/snapshots/name\<close>.\<close>

definition sys_inv :: "world \<Rightarrow> storage \<Rightarrow> bool" where
  "sys_inv w s \<longleftrightarrow>
     store_inv volume_codec volume_ok w (st_volumes s) \<and> store_inv snapshot_codec snapshot_ok w (st_snapshots s) \<and>
     basePath (st_volumes s) = st_basePath s \<and> pathSegments (st_volumes s) = [] \<and>
     basePath (st_snapshots s) = st_basePath s \<and> pathSegments (st_snapshots s) = [SnapshotsDir]"

lemma sys_invD:
  assumes "sys_inv w s"
  shows "store_inv volume_codec volume_ok w (st_volumes s)" "store_inv snapshot_codec snapshot_ok w (st_snapshots s)"
    "store_wf (st_volumes s)" "store_wf (st_snapshots s)"
    "basePath (st_volumes s) = st_basePath s" "pathSegments (st_volumes s) = []"
    "basePath (st_snapshots s) = st_basePath s" "pathSegments (st_snapshots s) = [SnapshotsDir]"
  using assms by (simp_all add: sys_inv_def store_inv_def)

text \<open>A volume's directory holds no snapshot metadata, unless the volume is called \<open>snapshots\<close>, and a
  snapshot's directory holds no volume metadata.\<close>

lemma entry_comps_good_list:
  "store_wf s \<Longrightarrow> ValidName t \<Longrightarrow> ValidName n \<Longrightarrow> (\<forall>c \<in> set (entry_comps s t n). good_comp c) \<and> entry_comps s t n \<noteq> []"
  using entry_comps_shape clean_shape_good by blast

lemma snapshot_meta_outside_volume:
  assumes "sys_inv w s" "ValidName t" "ValidName n" "ValidName t'" "ValidName n'" "n \<noteq> SnapshotsDir"
  shows "\<not> under (Dir (st_volumes s) t n) (MetaPath (st_snapshots s) t' n')"
proof -
  note d = sys_invD[OF assms(1)]
  have "\<not> prefix (entry_comps (st_volumes s) t n) (entry_comps (st_snapshots s) t' n' @ [MetadataFile])"
    using assms(6) by (simp add: entry_comps_def d)
  then show ?thesis
    using entry_comps_good[OF d(4) assms(4,5), of MetadataFile] entry_comps_good_list[OF d(3) assms(2,3)]
    unfolding Dir_render[OF d(3) assms(2,3)] MetaPath_render[OF d(4) assms(4,5)] d(5,7)
    by (subst under_render) auto
qed

lemma volume_meta_outside_snapshot:
  assumes "sys_inv w s" "ValidName t" "ValidName n" "ValidName t'" "ValidName n'"
  shows "\<not> under (Dir (st_snapshots s) t n) (MetaPath (st_volumes s) t' n')"
proof -
  note d = sys_invD[OF assms(1)]
  have "n \<noteq> MetadataFile" using ValidName_no_slash[OF assms(3)] by (auto simp: MetadataFile_def)
  then have "\<not> prefix (entry_comps (st_snapshots s) t n) (entry_comps (st_volumes s) t' n' @ [MetadataFile])"
    by (simp add: entry_comps_def d)
  then show ?thesis
    using entry_comps_good[OF d(3) assms(4,5), of MetadataFile] entry_comps_good_list[OF d(4) assms(2,3)]
    unfolding Dir_render[OF d(4) assms(2,3)] MetaPath_render[OF d(3) assms(4,5)] d(5,7)
    by (subst under_render) auto
qed

lemma sys_inv_volumes:
  assumes inv: "sys_inv w s" "ValidName t" "ValidName n" "n \<noteq> SnapshotsDir"
    and w': "within (Dir (st_volumes s) t n) w w'"
    and vs: "store_inv volume_codec volume_ok w' vs" "same_paths (st_volumes s) vs"
  shows "sys_inv w' (s\<lparr>st_volumes := vs\<rparr>)"
proof -
  note d = sys_invD[OF inv(1)]
  have "store_inv snapshot_codec snapshot_ok w' (st_snapshots s)"
    by (rule store_inv_world[OF d(2)], rule within_file_content[OF w'])
       (use snapshot_meta_outside_volume[OF inv(1-3) _ _ inv(4)] in blast)
  then show ?thesis using d vs by (simp add: sys_inv_def same_paths_def)
qed

lemma sys_inv_snapshots:
  assumes inv: "sys_inv w s" "ValidName t" "ValidName n"
    and w': "within (Dir (st_snapshots s) t n) w w'"
    and ss: "store_inv snapshot_codec snapshot_ok w' ss" "same_paths (st_snapshots s) ss"
  shows "sys_inv w' (s\<lparr>st_snapshots := ss\<rparr>)"
proof -
  note d = sys_invD[OF inv(1)]
  have "store_inv volume_codec volume_ok w' (st_volumes s)"
    by (rule store_inv_world[OF d(1)], rule within_file_content[OF w'])
       (use volume_meta_outside_snapshot[OF inv] in blast)
  then show ?thesis using d ss by (simp add: sys_inv_def same_paths_def)
qed

text \<open>Reads keep the invariant, whatever the name.\<close>

lemma sys_inv_Get:
  assumes "sys_inv w s" "ValidName t" "ValidName n" "Get volume_codec t n w (st_volumes s) = (r, vs)"
  shows "sys_inv w (s\<lparr>st_volumes := vs\<rparr>)"
    and "r = Inr v \<Longrightarrow> volume_ok v \<and> map_of (cache vs) (key t n) = Some v"
  using vols.Get_inv(1,2)[OF sys_invD(1)[OF assms(1)] assms(2,3)] assms(4) same_paths_Get[OF assms(4)] sys_invD[OF assms(1)]
  by (auto simp: sys_inv_def same_paths_def)

lemma sys_inv_Get_snapshot:
  assumes "sys_inv w s" "ValidName t" "ValidName n" "Get snapshot_codec t n w (st_snapshots s) = (r, ss)"
  shows "sys_inv w (s\<lparr>st_snapshots := ss\<rparr>)"
    and "r = Inr v \<Longrightarrow> snapshot_ok v \<and> map_of (cache ss) (key t n) = Some v"
  using snaps.Get_inv(1,2)[OF sys_invD(2)[OF assms(1)] assms(2,3)] assms(4) same_paths_Get[OF assms(4)] sys_invD[OF assms(1)]
  by (auto simp: sys_inv_def same_paths_def)

lemma GetVolume_inv:
  assumes "sys_inv w s" "GetVolume t n (w, s) = (r, w', s')"
  shows "sys_inv w' s'" "w' = w" "\<exists>vs. s' = s\<lparr>st_volumes := vs\<rparr> \<and> same_paths (st_volumes s) vs"
    "r = Inr v \<Longrightarrow> ValidName t \<and> ValidName n \<and> volume_ok v \<and> map_of (cache (st_volumes s')) (key t n) = Some v"
proof -
  have "sys_inv w' s' \<and> w' = w \<and> (\<exists>vs. s' = s\<lparr>st_volumes := vs\<rparr> \<and> same_paths (st_volumes s) vs) \<and>
     (r = Inr v \<longrightarrow> ValidName t \<and> ValidName n \<and> volume_ok v \<and> map_of (cache (st_volumes s')) (key t n) = Some v)"
  proof (cases "tenant_err s t w = None \<and> ValidName n")
    case True
    obtain g vs where g: "Get volume_codec t n w (st_volumes s) = (g, vs)" by fastforce
    have t: "ValidName t" using True tenant_err_None by blast
    note i = sys_inv_Get[OF assms(1) t _ g] same_paths_Get[OF g]
    show ?thesis using assms(2) True g i t
      by (cases g) (auto simp: GetVolume_def cong: sum.case_cong)
  next
    case False
    then have "w' = w \<and> s' = s \<and> (\<exists>e. r = Inl e)"
      using assms(2) by (auto simp: GetVolume_def check_def split: option.splits)
    moreover have "s = s\<lparr>st_volumes := st_volumes s\<rparr> \<and> same_paths (st_volumes s) (st_volumes s)" by simp
    ultimately show ?thesis using assms(1) by (metis sum.distinct(1))
  qed
  then show "sys_inv w' s'" "w' = w" "\<exists>vs. s' = s\<lparr>st_volumes := vs\<rparr> \<and> same_paths (st_volumes s) vs"
    "r = Inr v \<Longrightarrow> ValidName t \<and> ValidName n \<and> volume_ok v \<and> map_of (cache (st_volumes s')) (key t n) = Some v"
    by auto
qed

section \<open>Every volume operation keeps the invariant\<close>

lemma failed_within: "(\<And>w. within d w (snd (op w))) \<Longrightarrow> within d w (snd (failed op w))"
  unfolding failed_def by (metis (mono_tags, lifting) case_prod_unfold snd_conv)

lemma create_validate_Inr:
  assumes "create_validate s t req0 w = Inr (req, mode)"
  shows "ValidName t" "ValidName (vcr_Name req)" "vcr_Name req = vcr_Name req0" "vcr_SizeBytes req = vcr_SizeBytes req0"
    "vcr_SizeBytes req0 \<noteq> 0" "vcr_QuotaBytes req \<noteq> 0" "vcr_Labels req = vcr_Labels req0"
    "int64 (vcr_UID req)" "int64 (vcr_GID req)" "mode \<le> 4095" "ValidateMode (vcr_Mode req) = Some mode"
    "\<not> (vcr_NoCOW req \<and> compressed (vcr_Compression req))" "IsValidCompression (vcr_Compression req)"
  using assms
  by (auto simp: create_validate_def Let_def ValidateUID_def ValidateGID_def MaxID_def int64_def
      dest: tenant_err_None ValidateMode_bound split: option.splits if_splits)

text \<open>The operations on an entry's subvolume stay in the entry's directory.\<close>

lemma entry_ops_within:
  assumes "store_wf s" "ValidName t" "ValidName n" "btrfs_local m"
  shows "within (Dir s t n) w (snd (SubvolumeCreate m (DataPath s t n) w))"
    "within (Dir s t n) w (snd (SubvolumeSnapshot m src (DataPath s t n) ro w))"
    "within (Dir s t n) w (snd (SetNoCOW m (DataPath s t n) w))"
    "within (Dir s t n) w (snd (SetCompression m (DataPath s t n) c w))"
    "within (Dir s t n) w (snd (QgroupLimit m (DataPath s t n) b w))"
    "within (Dir s t n) w (snd (SubvolumeDelete m (DataPath s t n) w))"
  by (rule within_mono[OF acts_on_within[OF btrfs_localD(1)[OF assms(4)]] entry_paths_under(3)[OF assms(1-3)]]
      within_mono[OF acts_on_within[OF btrfs_localD(2)[OF assms(4)]] entry_paths_under(3)[OF assms(1-3)]]
      within_mono[OF acts_on_within[OF btrfs_localD(3)[OF assms(4)]] entry_paths_under(3)[OF assms(1-3)]]
      within_mono[OF acts_on_within[OF btrfs_localD(4)[OF assms(4)]] entry_paths_under(3)[OF assms(1-3)]]
      within_mono[OF acts_on_within[OF btrfs_localD(5)[OF assms(4)]] entry_paths_under(3)[OF assms(1-3)]]
      within_mono[OF acts_on_within[OF btrfs_localD(6)[OF assms(4)]] entry_paths_under(3)[OF assms(1-3)]])+

lemma create_steps_within:
  assumes "store_wf vs" "ValidName t" "ValidName n" "btrfs_local (st_btrfs s)"
  shows "steps_within (Dir vs t n) (create_steps s req (DataPath vs t n))"
  using entry_ops_within[OF assms] by (auto simp: steps_within_def create_steps_def intro: failed_within)

lemma create_attrs_within:
  assumes "store_wf vs" "ValidName t" "ValidName n"
  shows "within (Dir vs t n) w (create_attrs req mode (DataPath vs t n) w)"
  unfolding create_attrs_def
  by (rule within_trans[OF within_chmod within_chown]) (use entry_paths_under(3)[OF assms] in auto)

lemma clone_steps_within:
  assumes "store_wf vs" "ValidName t" "ValidName n" "btrfs_local m"
  shows "steps_within (Dir vs t n) (if b then [(msg, failed (QgroupLimit m (DataPath vs t n) q))] else [])"
  using entry_ops_within(5)[OF assms] by (auto simp: steps_within_def intro: failed_within)

lemma create_meta_ok:
  "int64 (vcr_UID req) \<Longrightarrow> int64 (vcr_GID req) \<Longrightarrow> keys_distinct (vcr_Labels req) \<Longrightarrow> volume_ok (create_meta req d t)"
  by (simp add: create_meta_def volume_ok_def)

lemma clone_meta_ok: "volume_ok src \<Longrightarrow> keys_distinct ls \<Longrightarrow> volume_ok (clone_meta src n d ls t)"
  by (simp add: clone_meta_def volume_ok_def)

lemma clone_labels_distinct: "keys_distinct ls \<Longrightarrow> keys_distinct (clone_labels ty src ls)"
  by (simp add: clone_labels_def keys_distinct_update)

text \<open>A creation of a volume entry, whatever the handler.\<close>

lemma create_volume_entry:
  assumes inv: "sys_inv w s" "ValidName t" "ValidName n" and m: "btrfs_local m"
    and ops: "\<And>w. within (Dir (st_volumes s) t n) w (snd (create w))" "steps_within (Dir (st_volumes s) t n) steps"
      "\<And>w. within (Dir (st_volumes s) t n) w (attrs w)"
    and vok: "volume_ok (mk (now w))"
    and ce: "on_volumes (create_entry volume_codec locked m dm create undo steps attrs mk t n (w, st_volumes s)) s = (r, w', s')"
  shows "within (Dir (st_volumes s) t n) w w'" "n \<noteq> SnapshotsDir \<Longrightarrow> sys_inv w' s'"
    "\<exists>vs. s' = s\<lparr>st_volumes := vs\<rparr> \<and> same_paths (st_volumes s) vs"
proof -
  obtain vs where ce': "create_entry volume_codec locked m dm create undo steps attrs mk t n (w, st_volumes s) = (r, w', vs)"
      and s': "s' = s\<lparr>st_volumes := vs\<rparr>"
    using ce by (auto simp: on_volumes_def split: prod.splits)
  note i = vols.create_entry_inv[OF sys_invD(1)[OF inv(1)] inv(2,3) m ops vok ce']
  note sp = same_paths_create_entry[OF ce']
  show "within (Dir (st_volumes s) t n) w w'" using i(2) .
  show "sys_inv w' s'" if "n \<noteq> SnapshotsDir" using sys_inv_volumes[OF inv that i(2,1) sp] s' by simp
  show "\<exists>vs. s' = s\<lparr>st_volumes := vs\<rparr> \<and> same_paths (st_volumes s) vs" using s' sp by blast
qed

text \<open>The requests the handlers receive: a label map has each key once.\<close>

lemma CreateVolume_entry:
  assumes "create_validate s t req0 w = Inr (req, mode)" "sys_inv w s" "btrfs_local (st_btrfs s)" "keys_distinct (vcr_Labels req0)"
  assumes "CreateVolume locked t req0 (w, s) = (r, w', s')"
  shows "within (Dir (st_volumes s) t (vcr_Name req0)) w w'" "vcr_Name req0 \<noteq> SnapshotsDir \<Longrightarrow> sys_inv w' s'"
    "\<exists>vs. s' = s\<lparr>st_volumes := vs\<rparr> \<and> same_paths (st_volumes s) vs"
proof -
  note v = create_validate_Inr[OF assms(1)] and d = sys_invD(3)[OF assms(2)]
  let ?n = "vcr_Name req"
  have ce: "on_volumes (create_entry volume_codec locked (st_btrfs s) (st_defaultDirMode s)
      (SubvolumeCreate (st_btrfs s) (DataPath (st_volumes s) t ?n)) False (create_steps s req (DataPath (st_volumes s) t ?n))
      (create_attrs req mode (DataPath (st_volumes s) t ?n)) (create_meta req (Dir (st_volumes s) t ?n)) t ?n (w, st_volumes s)) s
      = (r, w', s')"
    using assms(5) assms(1) by (simp add: CreateVolume_def Let_def)
  note e = create_volume_entry[OF assms(2) v(1,2) assms(3) entry_ops_within(1)[OF d v(1,2) assms(3)]
      create_steps_within[OF d v(1,2) assms(3)] create_attrs_within[OF d v(1,2)] create_meta_ok ce]
  show "within (Dir (st_volumes s) t (vcr_Name req0)) w w'" "vcr_Name req0 \<noteq> SnapshotsDir \<Longrightarrow> sys_inv w' s'"
    "\<exists>vs. s' = s\<lparr>st_volumes := vs\<rparr> \<and> same_paths (st_volumes s) vs"
    using e v assms(4) by auto
qed

lemma CreateVolume_inv:
  assumes "sys_inv w s" "btrfs_local (st_btrfs s)" "keys_distinct (vcr_Labels req)" "vcr_Name req \<noteq> SnapshotsDir"
    and "CreateVolume locked t req (w, s) = (r, w', s')"
  shows "sys_inv w' s'"
proof (cases "create_validate s t req w")
  case (Inl e)
  then show ?thesis using assms(1,5) by (auto simp: CreateVolume_def)
next
  case (Inr rm)
  then show ?thesis using CreateVolume_entry(2)[of s t req w "fst rm" "snd rm", OF _ assms(1-3,5)] assms(4) by simp
qed

lemma update_validate_Inr:
  assumes "update_validate s cur req0 = Inr (req, mode)"
  shows "vur_SizeBytes req = vur_SizeBytes req0 \<and> (\<forall>b. vur_SizeBytes req0 = Some b \<longrightarrow> vm_SizeBytes cur \<le> b)"
    "vur_NoCOW req = vur_NoCOW req0" "vur_Compression req = vur_Compression req0"
    "vur_UID req = vur_UID req0 \<and> (\<forall>u. vur_UID req0 = Some u \<longrightarrow> ValidateUID u)"
    "vur_GID req = vur_GID req0 \<and> (\<forall>g. vur_GID req0 = Some g \<longrightarrow> ValidateGID g)"
    "vur_Mode req = vur_Mode req0 \<and> (\<forall>m. vur_Mode req0 = Some m \<longrightarrow> ValidateMode m = Some mode)"
    "case vur_Labels req0 of None \<Rightarrow> vur_Labels req = None
     | Some ls \<Rightarrow> ValidateLabels ls = None \<and>
         (\<exists>u. vur_Labels req = Some u \<and> protectImmutableLabels (st_immutableLabelKeys s) (vm_Labels cur) ls = Inr u)"
    "\<forall>c. vur_Compression req0 = Some c \<longrightarrow> IsValidCompression c \<and> \<not> (vm_NoCOW cur \<and> compressed c)"
proof -
  obtain labels where l: "(case vur_Labels req0 of None \<Rightarrow> Inr None
      | Some ls \<Rightarrow> check (ValidateLabels ls)
          (case protectImmutableLabels (st_immutableLabelKeys s) (vm_Labels cur) ls of
             Inl e \<Rightarrow> Inl e | Inr u \<Rightarrow> Inr (Some u))) = Inr labels"
      and c: "\<not> (case vur_SizeBytes req0 of Some b \<Rightarrow> b < vm_SizeBytes cur | None \<Rightarrow> False)"
        "\<not> (case vur_Compression req0 of Some c \<Rightarrow> \<not> IsValidCompression c | None \<Rightarrow> False)"
        "\<not> (case vur_Compression req0 of Some c \<Rightarrow> vm_NoCOW cur \<and> compressed c | None \<Rightarrow> False)"
        "\<not> (case vur_UID req0 of Some u \<Rightarrow> \<not> ValidateUID u | None \<Rightarrow> False)"
        "\<not> (case vur_GID req0 of Some g \<Rightarrow> \<not> ValidateGID g | None \<Rightarrow> False)"
      and md: "(case vur_Mode req0 of None \<Rightarrow> Inr (req0\<lparr>vur_Labels := labels\<rparr>, 0)
          | Some md \<Rightarrow> (case ValidateMode md of None \<Rightarrow> Inl (StorageError ErrInvalid)
            | Some mode \<Rightarrow> Inr (req0\<lparr>vur_Labels := labels\<rparr>, mode))) = Inr (req, mode)"
    using assms unfolding update_validate_def
    by (simp split: sum.split_asm)
  have r: "req = req0\<lparr>vur_Labels := labels\<rparr>" "\<forall>m. vur_Mode req0 = Some m \<longrightarrow> ValidateMode m = Some mode"
    using md by (simp_all split: option.split_asm)
  show "case vur_Labels req0 of None \<Rightarrow> vur_Labels req = None
     | Some ls \<Rightarrow> ValidateLabels ls = None \<and>
         (\<exists>u. vur_Labels req = Some u \<and> protectImmutableLabels (st_immutableLabelKeys s) (vm_Labels cur) ls = Inr u)"
    using l by (simp add: r(1) split: option.split_asm sum.split_asm)
  show "vur_SizeBytes req = vur_SizeBytes req0 \<and> (\<forall>b. vur_SizeBytes req0 = Some b \<longrightarrow> vm_SizeBytes cur \<le> b)"
    using c(1) by (auto simp: r(1))
  show "vur_UID req = vur_UID req0 \<and> (\<forall>u. vur_UID req0 = Some u \<longrightarrow> ValidateUID u)"
    "vur_GID req = vur_GID req0 \<and> (\<forall>g. vur_GID req0 = Some g \<longrightarrow> ValidateGID g)"
    "vur_Mode req = vur_Mode req0 \<and> (\<forall>m. vur_Mode req0 = Some m \<longrightarrow> ValidateMode m = Some mode)"
    "\<forall>c. vur_Compression req0 = Some c \<longrightarrow> IsValidCompression c \<and> \<not> (vm_NoCOW cur \<and> compressed c)"
    using c(2-5) r(2) by (auto simp: r(1))
  show "vur_NoCOW req = vur_NoCOW req0" "vur_Compression req = vur_Compression req0" by (simp_all add: r(1))
qed

lemma update_meta_fields [simp]:
  "vm_SizeBytes (update_meta req t m) = (case vur_SizeBytes req of Some b \<Rightarrow> b | None \<Rightarrow> vm_SizeBytes m)"
  "vm_QuotaBytes (update_meta req t m) = (case vur_SizeBytes req of Some b \<Rightarrow> b | None \<Rightarrow> vm_QuotaBytes m)"
  "vm_NoCOW (update_meta req t m) = (case vur_NoCOW req of Some b \<Rightarrow> b | None \<Rightarrow> vm_NoCOW m)"
  "vm_Compression (update_meta req t m) = (case vur_Compression req of Some c \<Rightarrow> c | None \<Rightarrow> vm_Compression m)"
  "vm_UID (update_meta req t m) = (case vur_UID req of Some u \<Rightarrow> u | None \<Rightarrow> vm_UID m)"
  "vm_GID (update_meta req t m) = (case vur_GID req of Some g \<Rightarrow> g | None \<Rightarrow> vm_GID m)"
  "vm_Mode (update_meta req t m) = (case vur_Mode req of Some g \<Rightarrow> g | None \<Rightarrow> vm_Mode m)"
  "vm_Labels (update_meta req t m) = (case vur_Labels req of Some ls \<Rightarrow> ls | None \<Rightarrow> vm_Labels m)"
  "vm_Exports (update_meta req t m) = vm_Exports m" "vm_Name (update_meta req t m) = vm_Name m"
  "vm_Path (update_meta req t m) = vm_Path m" "vm_CreatedAt (update_meta req t m) = vm_CreatedAt m"
  "vm_UpdatedAt (update_meta req t m) = t"
  by (simp_all add: update_meta_def Let_def split: option.splits)

lemma protectImmutableLabels_distinct:
  "keys_distinct ls \<Longrightarrow> protectImmutableLabels ks cur ls = Inr u \<Longrightarrow> keys_distinct u"
  unfolding protectImmutableLabels_def by (rule protect_loop_keys_distinct)

lemma update_meta_ok:
  assumes "update_validate s cur req0 = Inr (req, mode)" "\<forall>ls. vur_Labels req0 = Some ls \<longrightarrow> keys_distinct ls" "volume_ok m"
  shows "volume_ok (update_meta (update_nocow cur req) t m)"
proof -
  note v = update_validate_Inr[OF assms(1)]
  have "keys_distinct u" if "vur_Labels req = Some u" for u
    using v(7) that assms(2) protectImmutableLabels_distinct by (auto split: option.splits)
  then show ?thesis using v(4,5) assms(3)
    by (auto simp: volume_ok_def update_nocow_def int64_def ValidateUID_def ValidateGID_def MaxID_def split: option.splits)
qed

lemma update_steps_within:
  assumes "btrfs_local (st_btrfs s)"
  shows "steps_within data (update_steps s cur req mode data)"
proof -
  have "within data w (snd (QgroupLimit (st_btrfs s) data b w))" "within data w (snd (SetNoCOW (st_btrfs s) data w))"
    "within data w (snd (SetCompression (st_btrfs s) data c w))" "within data w (snd (os_chown data u g w))"
    "within data w (snd (os_chmod data md w))" for w b c u g md
    by (auto intro: acts_on_within btrfs_localD[OF assms] within_chown within_chmod)
  then show ?thesis
    by (auto simp: steps_within_def update_steps_def intro!: failed_within split: option.splits)
qed

lemma UpdateVolume_inv:
  assumes inv: "sys_inv w s" and m: "btrfs_local (st_btrfs s)" and n: "n \<noteq> SnapshotsDir"
    and ls: "\<forall>ls. vur_Labels req \<noteq> Some ls \<or> keys_distinct ls"
    and up: "UpdateVolume t n req (w, s) = (r, w', s')"
  shows "sys_inv w' s'" "ValidName t \<Longrightarrow> ValidName n \<Longrightarrow> within (Dir (st_volumes s) t n) w w'"
proof -
  obtain g w1 s1 where g: "GetVolume t n (w, s) = (g, w1, s1)" using prod_cases3 by blast
  note gi = GetVolume_inv[OF inv g]
  obtain vs where s1: "s1 = s\<lparr>st_volumes := vs\<rparr>" "same_paths (st_volumes s) vs" using gi(3) by blast
  have "sys_inv w' s' \<and> (ValidName t \<longrightarrow> ValidName n \<longrightarrow> within (Dir (st_volumes s) t n) w w')"
  proof (cases "\<exists>cur q mode. g = Inr cur \<and> update_validate s1 cur req = Inr (q, mode)")
    case False
    then have "w' = w1 \<and> s' = s1" using up g
      by (cases g) (auto simp: UpdateVolume_def split: sum.splits)
    then show ?thesis using gi by simp
  next
    case True
    then obtain cur q mode where cur: "g = Inr cur" and uv: "update_validate s1 cur req = Inr (q, mode)" by blast
    have tn: "ValidName t" "ValidName n" using gi(4) cur by auto
    let ?data = "DataPath (st_volumes s1) t n"
    obtain x w2 where st: "run_steps (update_steps s1 cur q mode ?data) w1 = (x, w2)" by fastforce
    have "steps_within ?data (update_steps s1 cur q mode ?data)" using update_steps_within m s1(1) by simp
    then have wd: "within ?data w1 w2" using run_steps_within st by (metis snd_conv)
    note d1 = sys_invD[OF gi(1)]
    have wdir: "within (Dir (st_volumes s1) t n) w1 w2"
      using within_mono[OF wd entry_paths_under(3)[OF d1(3) tn]] .
    have i2: "store_inv volume_codec volume_ok w2 (st_volumes s1)"
      using vols.store_inv_data[OF d1(1) tn wd] .
    have inv2: "sys_inv w2 s1" using sys_inv_volumes[OF gi(1) tn n wdir i2] by simp
    have D: "Dir (st_volumes s1) t n = Dir (st_volumes s) t n" using s1 Dir_same[OF s1(2)] by simp
    show ?thesis
    proof (cases x)
      case (Some msg)
      then have "w' = w2 \<and> s' = s1" using up g cur uv st by (simp add: UpdateVolume_def)
      then show ?thesis using inv2 wdir gi(2) D by simp
    next
      case None
      obtain r3 w3 vs3 where u3: "Update volume_codec t n (update_meta (update_nocow cur q) (now w2)) id (w2, st_volumes s1) = (r3, w3, vs3)"
        using prod_cases3 by blast
      have e: "w' = w3 \<and> s' = s1\<lparr>st_volumes := vs3\<rparr>"
        using up g cur uv st None u3 by (auto simp: UpdateVolume_def split: sum.splits)
      have ok: "volume_ok (update_meta (update_nocow cur q) (now w2) v)" if "volume_ok v" for v
        using update_meta_ok[OF uv _ that] ls by blast
      have i3: "store_inv volume_codec volume_ok w3 vs3"
        using vols.Update_inv[OF i2 tn ok _ u3] by simp
      have w3: "within (Dir (st_volumes s1) t n) w2 w3" using vols.Update_within[OF d1(3) tn u3] .
      show ?thesis using e sys_inv_volumes[OF inv2 tn n w3 i3 same_paths_Update[OF u3]] within_trans[OF wdir w3] gi(2) D by simp
    qed
  qed
  then show "sys_inv w' s'" "ValidName t \<Longrightarrow> ValidName n \<Longrightarrow> within (Dir (st_volumes s) t n) w w'" by auto
qed

lemma CloneVolume_inv:
  assumes inv: "sys_inv w s" and m: "btrfs_local (st_btrfs s)" and ls: "keys_distinct (vlr_Labels req)"
    and n: "vlr_Name req \<noteq> SnapshotsDir"
    and cl: "CloneVolume locked t req (w, s) = (r, w', s')"
  shows "sys_inv w' s'" "ValidName t \<Longrightarrow> ValidName (vlr_Name req) \<Longrightarrow> within (Dir (st_volumes s) t (vlr_Name req)) w w'"
proof -
  let ?n = "vlr_Name req" and ?ls = "clone_labels ''volume'' (vlr_Source req) (vlr_Labels req)"
  obtain g w1 s1 where g: "GetVolume t (vlr_Source req) (w, s) = (g, w1, s1)" using prod_cases3 by blast
  note gi = GetVolume_inv[OF inv g]
  obtain vs where s1: "s1 = s\<lparr>st_volumes := vs\<rparr>" "same_paths (st_volumes s) vs" using gi(3) by blast
  have "sys_inv w' s' \<and> (ValidName t \<longrightarrow> ValidName ?n \<longrightarrow> within (Dir (st_volumes s) t ?n) w w')"
  proof (cases "check (tenant_err s t w) (check (ValidateName ?n) (check (ValidateLabels ?ls)
             (check (requireImmutableLabels (st_immutableLabelKeys s) ?ls) (Inr ()))))")
    case (Inl e)
    then show ?thesis using cl inv by (auto simp: CloneVolume_def Let_def)
  next
    case (Inr u)
    then have tn: "ValidName t" "ValidName ?n" using tenant_err_None by auto
    show ?thesis
    proof (cases g)
      case (Inl e)
      then have "w' = w1 \<and> s' = s1" using cl g Inr by (auto simp: CloneVolume_def Let_def)
      then show ?thesis using gi by simp
    next
      case (Inr src)
      have ok: "volume_ok (clone_meta src ?n d ?ls T)" for d T
        using gi(4) Inr ls by (simp add: clone_meta_ok clone_labels_distinct)
      note d1 = sys_invD(3)[OF gi(1)]
      have m1: "btrfs_local (st_btrfs s1)" using m s1 by simp
      have ce: "on_volumes (create_entry volume_codec locked (st_btrfs s1) (st_defaultDirMode s1)
          (SubvolumeSnapshot (st_btrfs s1) (DataPath (st_volumes s1) t (vlr_Source req)) (DataPath (st_volumes s1) t ?n) False) True
          (if st_quotaEnabled s1 then [(''qgroup limit failed: '', failed (QgroupLimit (st_btrfs s1) (DataPath (st_volumes s1) t ?n) (vm_QuotaBytes src)))] else [])
          id (clone_meta src ?n (Dir (st_volumes s1) t ?n) ?ls) t ?n (w1, st_volumes s1)) s1 = (r, w', s')"
        using cl g Inr \<open>check _ _ = Inr u\<close> by (simp add: CloneVolume_def Let_def)
      note e = create_volume_entry[OF gi(1) tn m1 entry_ops_within(2)[OF d1 tn m1] clone_steps_within[OF d1 tn m1] _ ok ce]
      have D: "Dir (st_volumes s1) t ?n = Dir (st_volumes s) t ?n" using s1 Dir_same[OF s1(2)] by simp
      show ?thesis using e(1,2) n gi(2) D by simp
    qed
  qed
  then show "sys_inv w' s'" "ValidName t \<Longrightarrow> ValidName (vlr_Name req) \<Longrightarrow> within (Dir (st_volumes s) t (vlr_Name req)) w w'" by auto
qed

lemma DeleteVolume_inv:
  assumes inv: "sys_inv w s" and m: "btrfs_local (st_btrfs s)" and n: "n \<noteq> SnapshotsDir"
    and de: "DeleteVolume t n (w, s) = (r, w', s')"
  shows "sys_inv w' s'" "ValidName t \<Longrightarrow> ValidName n \<Longrightarrow> within (Dir (st_volumes s) t n) w w'"
proof -
  have "sys_inv w' s' \<and> (ValidName t \<longrightarrow> ValidName n \<longrightarrow> within (Dir (st_volumes s) t n) w w')"
  proof (cases "check (tenant_err s t w) (check (ValidateName n) (Inr ()))")
    case (Inl e)
    then show ?thesis using de inv by (auto simp: DeleteVolume_def)
  next
    case (Inr u)
    then have tn: "ValidName t" "ValidName n" using tenant_err_None by auto
    obtain g vs where g: "Get volume_codec t n w (st_volumes s) = (g, vs)" by fastforce
    let ?s1 = "s\<lparr>st_volumes := vs\<rparr>"
    note gi = sys_inv_Get[OF inv tn g]
    have D: "Dir vs = Dir (st_volumes s) \<and> DataPath vs = DataPath (st_volumes s)" using Dir_same[OF same_paths_Get[OF g]] by simp
    show ?thesis
    proof (cases "\<exists>meta. g = Inr meta \<and> vm_Exports meta = []")
      case False
      then have "w' = w \<and> s' = ?s1" using de g Inr
        by (cases g) (auto simp: DeleteVolume_def)
      then show ?thesis using gi by simp
    next
      case True
      obtain x w1 where sd: "SubvolumeDelete (st_btrfs s) (DataPath vs t n) w = (x, w1)" by fastforce
      have wf: "store_wf vs" using sys_invD(3)[OF gi(1)] by simp
      have wd: "within (DataPath vs t n) w w1" using acts_on_within[OF btrfs_localD(2)[OF m]] sd by (metis snd_conv)
      have wdir: "within (Dir vs t n) w w1" using within_mono[OF wd entry_paths_under(3)[OF wf tn]] .
      have i1: "store_inv volume_codec volume_ok w1 vs"
        using vols.store_inv_data[OF _ tn wd] sys_invD(1)[OF gi(1)] by simp
      obtain w2 vs2 where dl: "Delete t n (w1, vs) = (w2, vs2)" by fastforce
      obtain y w3 where ra: "os_remove_all (Dir vs2 t n) w2 = (y, w3)" by fastforce
      have D2: "Dir vs2 = Dir vs" using Dir_same[OF same_paths_Delete[OF dl]] by simp
      have w12: "within (Dir vs t n) w1 w2"
        using dl entry_paths_under(1)[OF wf tn] within_toggle by (auto simp: Delete_def)
      have w23: "within (Dir vs t n) w2 w3" using within_remove_all[of "Dir vs t n" "Dir vs t n" w2] ra D2 by simp
      have i2: "store_inv volume_codec volume_ok w2 vs2" using vols.Delete_inv[OF i1 dl] .
      have none: "map_of (cache vs2) (key t n) = None" using dl by (auto simp: Delete_def delete_conv')
      have i3: "store_inv volume_codec volume_ok w3 vs2"
        by (rule vols.store_inv_within[OF i2 tn _ none]) (use w23 D2 in simp)
      have sp: "same_paths (st_volumes ?s1) vs2" using same_paths_Delete[OF dl] by simp
      show ?thesis
      proof (cases x)
        case (Some e)
        then have "w' = w1 \<and> s' = ?s1" using de g Inr True sd by (auto simp: DeleteVolume_def)
        then show ?thesis using sys_inv_volumes[OF gi(1) tn n _ _ same_paths_refl, of w1] wdir i1 D by simp
      next
        case None
        then have "w' = w3 \<and> s' = s\<lparr>st_volumes := vs2\<rparr>"
          using de g Inr True sd dl ra by (auto simp: DeleteVolume_def split: option.splits)
        then show ?thesis
          using sys_inv_volumes[OF gi(1) tn n _ i3 sp] wdir w12 w23 D by (simp, meson within_trans)
      qed
    qed
  qed
  then show "sys_inv w' s'" "ValidName t \<Longrightarrow> ValidName n \<Longrightarrow> within (Dir (st_volumes s) t n) w w'" by auto
qed

end
