(* ===== verification/ExportTable.thy ===== *)
theory ExportTable
  imports Nfs
begin

text \<open>
  The contract of the \<open>Exporter\<close> interface of \<open>agent/storage/nfs/exporter.go\<close> in terms of the
  kernel's export table, and the proof that the kernel exporter of \<open>nfs/kernel.go\<close> keeps it over
  any \<open>exportfs\<close> program that behaves as documented. \<open>exportfs_program\<close> is what the agent relies
  on of that program; \<open>nfs_exporter\<close> is what the rest of the agent relies on of the exporter.
\<close>

section \<open>Interfaces\<close>

text \<open>Entries that \<open>exportfs -v\<close> prints unambiguously.\<close>

definition plain_entry :: "string \<times> string \<Rightarrow> bool" where
  "plain_entry pc = (case pc of (p, c) \<Rightarrow> p \<noteq> [] \<and> no_space p \<and> c \<noteq> [] \<and> no_space c \<and>
     CHR ''('' \<notin> set c \<and> CHR '')'' \<notin> set c \<and> CHR ''['' \<notin> set c \<and> CHR '']'' \<notin> set c)"

definition table_ok :: "world \<Rightarrow> bool" where
  "table_ok w = (\<forall>pc \<in> set (etab w). plain_entry pc)"

text \<open>Only the export table changes.\<close>

definition same_files :: "world \<Rightarrow> world \<Rightarrow> bool" where
  "same_files w w' = (nodes w' = nodes w \<and> faults w' = faults w \<and> now w' = now w)"

lemma same_files_refl [simp]: "same_files w w"
  by (simp add: same_files_def)

lemma same_files_trans: "same_files w w1 \<Longrightarrow> same_files w1 w2 \<Longrightarrow> same_files w w2"
  by (simp add: same_files_def)

definition info_entry :: "ExportInfo \<Rightarrow> string \<times> string" where
  "info_entry i = (ei_Path i, ei_Client i)"

text \<open>The documented behaviour of \<open>exportfs\<close>: \<open>-o opts client:path\<close> adds an entry, \<open>-u client:path\<close>
  removes one or reports that it could not find it, \<open>-v\<close> prints the table.\<close>

locale exportfs_program =
  fixes prog :: string and exec :: runner
  assumes files: "same_files w (snd (exec prog args w))"
    and add: "plain_entry (p, c) \<Longrightarrow> exec prog [''-o'', opts, export_target c p] w = ((out, err), w') \<Longrightarrow>
      set (etab w') = (if err = None then insert (p, c) (set (etab w)) else set (etab w))"
    and del: "plain_entry (p, c) \<Longrightarrow> exec prog [''-u'', export_target c p] w = ((out, err), w') \<Longrightarrow>
      set (etab w') = (if err = None then set (etab w) - {(p, c)} else set (etab w)) \<and>
      (err \<noteq> None \<and> contains out errNotFound \<longrightarrow> (p, c) \<notin> set (etab w))"
    and list: "table_ok w \<Longrightarrow> exec prog [''-v''] w = ((out, None), w') \<Longrightarrow>
      (\<exists>es. (\<forall>le \<in> set es. printable le) \<and> out = print_exports es \<and>
        set (map (\<lambda>(l, opts, e). info_entry e) es) = set (etab w))"
    and list_keeps: "set (etab (snd (exec prog [''-v''] w))) = set (etab w)"

text \<open>What the agent relies on: a successful call has its effect on the table and a failed one has
  none, except that a failed removal of all clients of a path may have removed some of them.\<close>

locale nfs_exporter =
  fixes ex :: exporter
  assumes Export_table: "plain_entry (p, c) \<Longrightarrow> Export ex p c w = (err, w') \<Longrightarrow>
      set (etab w') = (if err = None then insert (p, c) (set (etab w)) else set (etab w)) \<and> same_files w w'"
    and Unexport_table: "plain_entry (p, c) \<Longrightarrow> Unexport ex p c w = (err, w') \<Longrightarrow>
      set (etab w') = (if err = None then set (etab w) - {(p, c)} else set (etab w)) \<and> same_files w w'"
    and Unexport_path: "table_ok w \<Longrightarrow> Unexport ex p [] w = (err, w') \<Longrightarrow>
      (if err = None then set (etab w') = {pc \<in> set (etab w). fst pc \<noteq> p}
       else {pc \<in> set (etab w). fst pc \<noteq> p} \<subseteq> set (etab w') \<and> set (etab w') \<subseteq> set (etab w)) \<and> same_files w w'"
    and ListExports_table: "table_ok w \<Longrightarrow> ListExports ex w = (Inr es, w') \<Longrightarrow>
      info_entry ` set es = set (etab w)"
    and ListExports_keeps: "ListExports ex w = (r, w') \<Longrightarrow> set (etab w') = set (etab w) \<and> same_files w w'"

section \<open>The kernel exporter keeps the contract\<close>

definition kernel_of :: "string \<Rightarrow> runner \<Rightarrow> string \<Rightarrow> kernelExporter" where
  "kernel_of p x opts = \<lparr>ke_bin = p, ke_cmd = x, ke_opts = opts\<rparr>"

locale kernel_exporter = exportfs_program +
  fixes opts :: string
begin

lemma exec_ke: "ke_exec (kernel_of prog exec opts) args w = exec prog args w"
  by (simp add: ke_exec_def kernel_of_def)

lemma tryUnexport_table:
  assumes "plain_entry (p, c)" "tryUnexport (kernel_of prog exec opts) [''-u'', export_target c p] w = (err, w')"
  shows "set (etab w') = (if err = None then set (etab w) - {(p, c)} else set (etab w))" "same_files w w'"
proof -
  obtain out e where x: "exec prog [''-u'', export_target c p] w = ((out, e), w')"
      and err: "err = (if e \<noteq> None \<and> contains out errNotFound then None else e)"
    using assms(2) by (auto simp: tryUnexport_def exec_ke split: prod.splits)
  note d = del[OF assms(1) x]
  show "set (etab w') = (if err = None then set (etab w) - {(p, c)} else set (etab w))"
    using d err by auto
  show "same_files w w'" using files[of w "[''-u'', export_target c p]"] x by simp
qed

lemma KernelExport_table:
  assumes "plain_entry (p, c)" "KernelExport (kernel_of prog exec opts) p c w = (err, w')"
  shows "set (etab w') = (if err = None then insert (p, c) (set (etab w)) else set (etab w)) \<and> same_files w w'"
proof -
  obtain out o' where x: "exec prog [''-o'', o', export_target c p] w = ((out, err), w')"
    using assms(2) by (auto simp: KernelExport_def Let_def ke_run_def exec_ke split: prod.splits)
  show ?thesis using add[OF assms(1) x] files[of w "[''-o'', o', export_target c p]"] x by simp
qed

lemma KernelListExports_table:
  assumes "KernelListExports (kernel_of prog exec opts) w = (r, w')"
  shows "set (etab w') = set (etab w) \<and> same_files w w'"
    and "table_ok w \<Longrightarrow> r = Inr es \<Longrightarrow> info_entry ` set es = set (etab w)"
proof -
  obtain out e where x: "exec prog [''-v''] w = ((out, e), w')"
      and r: "r = (case e of Some y \<Rightarrow> Inl y | None \<Rightarrow> Inr (parseExports out))"
    using assms by (auto simp: KernelListExports_def exec_ke split: prod.splits option.splits)
  show "set (etab w') = set (etab w) \<and> same_files w w'"
    using files[of w "[''-v'']"] list_keeps[of w] x by simp
  assume ok: "table_ok w" and es: "r = Inr es"
  then have e: "e = None" "es = parseExports out" using r by (auto split: option.splits)
  obtain fs where fs: "\<forall>le \<in> set fs. printable le" "out = print_exports fs"
      "set (map (\<lambda>(l, opts, e). info_entry e) fs) = set (etab w)"
    using list[OF ok, of out w'] x e by auto
  have "es = map (\<lambda>(l, opts, e). e) fs" using parse_printed[OF fs(1)] e fs(2) by simp
  then have "info_entry ` set es = set (map (\<lambda>(l, opts, e). info_entry e) fs)" by (auto simp: image_iff) force+
  then show "info_entry ` set es = set (etab w)" using fs(3) by simp
qed

lemma unexport_all_table:
  assumes "\<forall>c \<in> set cs. plain_entry (p, c)" "unexport_all (kernel_of prog exec opts) p cs prev w = (err, w')"
  shows "{pc \<in> set (etab w). fst pc \<noteq> p} \<subseteq> set (etab w') \<and> set (etab w') \<subseteq> set (etab w) \<and> same_files w w' \<and>
    (prev \<noteq> None \<longrightarrow> err \<noteq> None) \<and> (err = None \<longrightarrow> set (etab w') \<inter> {p} \<times> set cs = {})"
  using assms
proof (induction cs arbitrary: prev w)
  case (Cons c cs)
  obtain x w1 where t: "tryUnexport (kernel_of prog exec opts) [''-u'', export_target c p] w = (x, w1)" by fastforce
  have c: "plain_entry (p, c)" using Cons.prems(1) by simp
  note tt = tryUnexport_table[OF c t]
  have u: "unexport_all (kernel_of prog exec opts) p cs (if x = None then prev else x) w1 = (err, w')"
    using Cons.prems(2) t by (cases x) auto
  note ih = Cons.IH[OF _ u]
  show ?case using ih tt Cons.prems(1) by (cases "x = None") (auto dest: same_files_trans split: if_splits)
qed simp

lemma KernelUnexport_path:
  assumes "table_ok w" "KernelUnexport (kernel_of prog exec opts) p [] w = (err, w')"
  shows "(if err = None then set (etab w') = {pc \<in> set (etab w). fst pc \<noteq> p}
       else {pc \<in> set (etab w). fst pc \<noteq> p} \<subseteq> set (etab w') \<and> set (etab w') \<subseteq> set (etab w)) \<and> same_files w w'"
proof -
  obtain r w1 where l: "KernelListExports (kernel_of prog exec opts) w = (r, w1)" by fastforce
  note lt = KernelListExports_table[OF l]
  show ?thesis
  proof (cases r)
    case (Inl e)
    then show ?thesis using assms(2) l lt(1) by (auto simp: KernelUnexport_def exportedClients_def)
  next
    case (Inr es)
    let ?cs = "map ei_Client (filter (\<lambda>ex. ei_Path ex = p) es)"
    have t: "info_entry ` set es = set (etab w)" using lt(2)[OF assms(1) Inr] .
    have cs: "(p, c) \<in> set (etab w) \<longleftrightarrow> c \<in> set ?cs" for c
      unfolding t[symmetric] by (auto simp: info_entry_def image_iff)
    have pl: "\<forall>c \<in> set ?cs. plain_entry (p, c)"
      using assms(1) cs unfolding table_ok_def by blast
    have u: "(if ?cs = [] then (None, w1) else unexport_all (kernel_of prog exec opts) p ?cs None w1) = (err, w')"
      using assms(2) l Inr by (simp add: KernelUnexport_def exportedClients_def)
    show ?thesis
    proof (cases "?cs = []")
      case True
      then have "(p, c) \<notin> set (etab w)" for c using cs by (metis empty_iff list.set(1))
      then have "{pc \<in> set (etab w). fst pc \<noteq> p} = set (etab w)" by auto
      moreover have "err = None \<and> w' = w1" using u True by simp
      ultimately show ?thesis using lt(1) by simp
    next
      case False
      then have u': "unexport_all (kernel_of prog exec opts) p ?cs None w1 = (err, w')" using u by simp
      note ua = unexport_all_table[OF pl u']
      have "pc \<in> {p} \<times> set ?cs" if m: "pc \<in> set (etab w)" and f: "fst pc = p" for pc
      proof -
        obtain c where "pc = (p, c)" using f by (metis prod.collapse)
        then show ?thesis using m cs[of c] by simp
      qed
      then have "err = None \<Longrightarrow> set (etab w') = {pc \<in> set (etab w). fst pc \<noteq> p}"
        using ua lt(1) by blast
      then show ?thesis using ua lt(1) same_files_trans by auto
    qed
  qed
qed

lemma KernelUnexport_entry:
  assumes "plain_entry (p, c)" "KernelUnexport (kernel_of prog exec opts) p c w = (err, w')"
  shows "set (etab w') = (if err = None then set (etab w) - {(p, c)} else set (etab w)) \<and> same_files w w'"
proof -
  have "c \<noteq> []" using assms(1) by (simp add: plain_entry_def)
  then show ?thesis using tryUnexport_table[OF assms(1)] assms(2) by (simp add: KernelUnexport_def)
qed

end

sublocale kernel_exporter \<subseteq> kernel: nfs_exporter "NewKernelExporter (kernel_of prog exec opts)"
  by (unfold_locales, unfold NewKernelExporter_def exporter.select_convs)
     (rule KernelExport_table KernelUnexport_entry KernelUnexport_path KernelListExports_table; assumption?; simp?)+

section \<open>An \<open>exportfs\<close> with this behaviour\<close>

text \<open>A program over the table that behaves as documented; it shows that the assumptions on
  \<open>exportfs\<close> can hold, and gives the witnesses an exporter to run.\<close>

definition split_target :: "string \<Rightarrow> string \<times> string" where
  "split_target s =
     (if prefix ''['' s then (case cut '']'' s of None \<Rightarrow> ([], s) | Some (c, p) \<Rightarrow> (drop 1 p, drop 1 c))
      else (case cut '':'' s of None \<Rightarrow> ([], s) | Some (c, p) \<Rightarrow> (p, c)))"

definition print_table :: "(string \<times> string) list \<Rightarrow> string" where
  "print_table es = print_exports (map (\<lambda>(p, c). (OneLine, ''rw'', \<lparr>ei_Path = p, ei_Client = c\<rparr>)) es)"

definition exportfs_tool :: runner where
  "exportfs_tool b args w = (case args of
       [f, opts, target] \<Rightarrow>
         if f = ''-o'' then (([], None), w\<lparr>etab := List.insert (split_target target) (etab w)\<rparr>) else (([], None), w)
     | [f, target] \<Rightarrow>
         if f \<noteq> ''-u'' then (([], None), w)
         else if split_target target \<in> set (etab w)
         then (([], None), w\<lparr>etab := removeAll (split_target target) (etab w)\<rparr>)
         else ((''exportfs: Could not find'', Some ''exit status 1''), w)
     | _ \<Rightarrow> ((print_table (etab w), None), w))"

lemma split_target_export:
  assumes "plain_entry (p, c)"
  shows "split_target (export_target c p) = (p, c)"
proof (cases "CHR '':'' \<in> set c")
  case True
  have "cut '']'' ((CHR ''['' # c) @ CHR '']'' # CHR '':'' # p) = Some (CHR ''['' # c, CHR '':'' # p)"
    by (rule cut_single_append) (use assms in \<open>auto simp: plain_entry_def\<close>)
  then show ?thesis using True by (simp add: split_target_def export_target_def exportfsClient_def contains_single)
next
  case False
  have "\<not> prefix ''['' (c @ CHR '':'' # p)" using assms by (cases c) (auto simp: plain_entry_def)
  moreover have "cut '':'' (c @ CHR '':'' # p) = Some (c, p)" by (rule cut_single_append) (use False in auto)
  ultimately show ?thesis using False
    by (simp add: split_target_def export_target_def exportfsClient_def contains_single)
qed

lemma plain_printable: "plain_entry (p, c) \<Longrightarrow> printable (OneLine, ''rw'', \<lparr>ei_Path = p, ei_Client = c\<rparr>)"
  by (simp add: plain_entry_def printable_def no_space_def is_space_def)

interpretation exportfs: kernel_exporter "''exportfs''" exportfs_tool "''rw''"
proof
  show "same_files w (snd (exportfs_tool ''exportfs'' args w))" for args w
    by (auto simp: exportfs_tool_def same_files_def split: list.splits)
  show "set (etab w') = (if err = None then insert (p, c) (set (etab w)) else set (etab w))"
    if "plain_entry (p, c)" "exportfs_tool ''exportfs'' [''-o'', opts, export_target c p] w = ((out, err), w')"
    for p c opts w out err w'
    using that by (auto simp: exportfs_tool_def split_target_export)
  show "set (etab w') = (if err = None then set (etab w) - {(p, c)} else set (etab w)) \<and>
      (err \<noteq> None \<and> contains out errNotFound \<longrightarrow> (p, c) \<notin> set (etab w))"
    if "plain_entry (p, c)" "exportfs_tool ''exportfs'' [''-u'', export_target c p] w = ((out, err), w')"
    for p c w out err w'
    using that by (auto simp: exportfs_tool_def split_target_export split: if_splits)
  show "\<exists>es. (\<forall>le \<in> set es. printable le) \<and> out = print_exports es \<and>
        set (map (\<lambda>(l, opts, e). info_entry e) es) = set (etab w)"
    if "table_ok w" "exportfs_tool ''exportfs'' [''-v''] w = ((out, None), w')" for w out w'
    using that
    by (intro exI[of _ "map (\<lambda>(p, c). (OneLine, ''rw'', \<lparr>ei_Path = p, ei_Client = c\<rparr>)) (etab w)"])
       (auto simp: exportfs_tool_def print_table_def table_ok_def plain_printable info_entry_def
         image_image case_prod_beta)
  show "set (etab (snd (exportfs_tool ''exportfs'' [''-v''] w))) = set (etab w)" for w
    by (simp add: exportfs_tool_def)
qed

end
