(* ===== verification/Exports.thy ===== *)
theory Exports
  imports Volumes ExportTable
begin

text \<open>
  The export operations of \<open>agent/storage/export.go\<close>, the client address check of
  \<open>agent/storage/utils.go\<close> and the reconciler of \<open>agent/storage/reconciler.go\<close>. Exports are
  reference counted per client address: a volume's metadata lists references, each an address and
  a label set, and the address is exported while it has at least one reference.
\<close>

section \<open>Client addresses\<close>

text \<open>\<open>net.ParseIP\<close> of the Go standard library, as a test: dotted decimal IPv4 without leading zeros,
  or IPv6 with at most one ellipsis, an optional trailing IPv4 part and no zone.\<close>

definition v4_octet :: "string \<Rightarrow> bool" where
  "v4_octet p = (p \<noteq> [] \<and> list_all is_digit p \<and> (length p = 1 \<or> hd p \<noteq> CHR ''0'') \<and>
     length p \<le> 3 \<and> parse_uint_val 10 64 p \<le> 255)"

definition parseIPv4 :: "string \<Rightarrow> bool" where
  "parseIPv4 s = (let ps = split_on CHR ''.'' s in length ps = 4 \<and> list_all v4_octet ps)"

definition is_hex :: "char \<Rightarrow> bool" where
  "is_hex c = (is_digit c \<or> CHR ''a'' \<le> c \<and> c \<le> CHR ''f'' \<or> CHR ''A'' \<le> c \<and> c \<le> CHR ''F'')"

text \<open>The end of the address: fewer than eight groups need an ellipsis, eight must not have one.\<close>

definition v6_end :: "nat \<Rightarrow> bool \<Rightarrow> bool" where
  "v6_end room ellipsis = (if room > 0 then ellipsis else \<not> ellipsis)"

fun v6_groups :: "nat \<Rightarrow> bool \<Rightarrow> string \<Rightarrow> bool" where
  "v6_groups 0 ellipsis s = (s = [] \<and> v6_end 0 ellipsis)"
| "v6_groups (Suc room) ellipsis s =
     (let h = takeWhile is_hex s; rest = dropWhile is_hex s in
      if h = [] \<or> length h > 4 then False
      else (case rest of
              [] \<Rightarrow> v6_end room ellipsis
            | c # s1 \<Rightarrow>
                if c = CHR ''.'' then room \<ge> 1 \<and> (ellipsis \<or> room = 1) \<and> parseIPv4 s \<and> v6_end (room - 1) ellipsis
                else if c \<noteq> CHR '':'' then False
                else (case s1 of
                        [] \<Rightarrow> False
                      | c1 # s2 \<Rightarrow>
                          if c1 = CHR '':'' then
                            \<not> ellipsis \<and> (if s2 = [] then v6_end room True else v6_groups room True s2)
                          else v6_groups room ellipsis s1)))"

definition parseIPv6 :: "string \<Rightarrow> bool" where
  "parseIPv6 s = (CHR ''%'' \<notin> set s \<and>
     (if prefix ''::'' s then (drop 2 s = [] \<or> v6_groups 8 True (drop 2 s)) else v6_groups 8 False s))"

definition ParseIP :: "string \<Rightarrow> bool" where
  "ParseIP s = (case dropWhile (\<lambda>c. c \<noteq> CHR ''.'' \<and> c \<noteq> CHR '':'' \<and> c \<noteq> CHR ''%'') s of
       [] \<Rightarrow> False
     | c # _ \<Rightarrow> if c = CHR ''.'' then parseIPv4 s else if c = CHR '':'' then parseIPv6 s else False)"

definition validateClientIP :: "string \<Rightarrow> error option" where
  "validateClientIP client = fail_if (\<not> ParseIP client) ErrInvalid"

section \<open>Operations\<close>

text \<open>The callbacks of the two metadata updates. \<open>add_export\<close> also tells whether this is the first
  reference of the address, \<open>remove_exports\<close> whether it removed the last one.\<close>

definition add_export :: "string \<Rightarrow> labels \<Rightarrow> int \<Rightarrow> VolumeMetadata \<Rightarrow> VolumeMetadata" where
  "add_export client ls t m =
     (let m = m\<lparr>vm_LastAttachAt := Some t, vm_UpdatedAt := t\<rparr> in
      if hasExport (vm_Exports m) client ls then m
      else m\<lparr>vm_Exports := vm_Exports m @ [\<lparr>ex_IP = client, ex_Labels = ls, ex_CreatedAt = t\<rparr>]\<rparr>)"

definition first_ref :: "string \<Rightarrow> labels \<Rightarrow> VolumeMetadata \<Rightarrow> bool" where
  "first_ref client ls m = (\<not> hasExport (vm_Exports m) client ls \<and> exportsForIP (vm_Exports m) client = 0)"

definition keeps_export :: "string \<Rightarrow> labels option \<Rightarrow> ExportMetadata \<Rightarrow> bool" where
  "keeps_export client ls c = (ex_IP c \<noteq> client \<or> (case ls of None \<Rightarrow> False | Some l \<Rightarrow> \<not> labelsContain (ex_Labels c) l))"

definition remove_exports :: "string \<Rightarrow> labels option \<Rightarrow> int \<Rightarrow> VolumeMetadata \<Rightarrow> VolumeMetadata" where
  "remove_exports client ls t m =
     m\<lparr>vm_Exports := filter (keeps_export client ls) (vm_Exports m), vm_UpdatedAt := t\<rparr>"

definition last_ref :: "string \<Rightarrow> labels option \<Rightarrow> VolumeMetadata \<Rightarrow> bool" where
  "last_ref client ls m =
     (\<not> list_all (keeps_export client ls) (vm_Exports m) \<and>
      exportsForIP (filter (keeps_export client ls) (vm_Exports m)) client = 0)"

text \<open>The filter of \<open>DeleteVolumeExport\<close> writes into the array the cached struct also uses.\<close>

definition filter_in_place :: "string \<Rightarrow> labels option \<Rightarrow> VolumeMetadata \<Rightarrow> VolumeMetadata" where
  "filter_in_place client ls m =
     (let filtered = filter (keeps_export client ls) (vm_Exports m) in
      m\<lparr>vm_Exports := filtered @ drop (length filtered) (vm_Exports m)\<rparr>)"

definition CreateVolumeExport :: "string \<Rightarrow> string \<Rightarrow> string \<Rightarrow> labels \<Rightarrow> state \<Rightarrow> error option \<times> state" where
  "CreateVolumeExport tenant name client ls st = (case st of (w, s) \<Rightarrow>
     (case check (tenant_err s tenant w) (check (ValidateName name) (check (validateClientIP client)
             (check (ValidateLabels ls) (check (requireImmutableLabels (st_immutableLabelKeys s) ls) (Inr ()))))) of
        Inl e \<Rightarrow> (Some e, st)
      | Inr _ \<Rightarrow>
          let firstRef = (case Get volume_codec tenant name w (st_volumes s) of
                            (Inr m, _) \<Rightarrow> first_ref client ls m | _ \<Rightarrow> False) in
          (case Update volume_codec tenant name (add_export client ls (now w)) id (w, st_volumes s) of
             (Inl e, w1, vs) \<Rightarrow>
               (Some (if meta_IsNotExist e then StorageError ErrNotFound
                      else WrappedError ''failed to persist client in metadata: ''), w1, s\<lparr>st_volumes := vs\<rparr>)
           | (Inr m, w1, vs) \<Rightarrow>
               if firstRef then
                 (case Export (st_exporter s) (Dir (st_volumes s) tenant name) client w1 of
                    (Some e, w2) \<Rightarrow> (Some (StorageError ErrInternal), w2, s\<lparr>st_volumes := vs\<rparr>)
                  | (None, w2) \<Rightarrow> (None, w2, s\<lparr>st_volumes := vs\<rparr>))
               else (None, w1, s\<lparr>st_volumes := vs\<rparr>))))"

definition DeleteVolumeExport :: "string \<Rightarrow> string \<Rightarrow> string \<Rightarrow> labels option \<Rightarrow> state \<Rightarrow> error option \<times> state" where
  "DeleteVolumeExport tenant name client ls st = (case st of (w, s) \<Rightarrow>
     (case check (tenant_err s tenant w) (check (ValidateName name) (check (validateClientIP client)
             (check (ValidateLabels (case ls of None \<Rightarrow> [] | Some l \<Rightarrow> l)) (Inr ())))) of
        Inl e \<Rightarrow> (Some e, st)
      | Inr _ \<Rightarrow>
          let lastRef = (case Get volume_codec tenant name w (st_volumes s) of
                           (Inr m, _) \<Rightarrow> last_ref client ls m | _ \<Rightarrow> False) in
          (case Update volume_codec tenant name (remove_exports client ls (now w)) (filter_in_place client ls) (w, st_volumes s) of
             (Inl e, w1, vs) \<Rightarrow>
               (Some (if meta_IsNotExist e then StorageError ErrNotFound
                      else WrappedError ''failed to update client list in metadata: ''), w1, s\<lparr>st_volumes := vs\<rparr>)
           | (Inr m, w1, vs) \<Rightarrow>
               if lastRef then
                 (case Unexport (st_exporter s) (Dir (st_volumes s) tenant name) client w1 of
                    (Some e, w2) \<Rightarrow> (Some (StorageError ErrInternal), w2, s\<lparr>st_volumes := vs\<rparr>)
                  | (None, w2) \<Rightarrow> (None, w2, s\<lparr>st_volumes := vs\<rparr>))
               else (None, w1, s\<lparr>st_volumes := vs\<rparr>))))"

definition export_entries :: "string \<Rightarrow> VolumeMetadata \<Rightarrow> ExportEntry list" where
  "export_entries name m =
     map (\<lambda>c. \<lparr>ee_Name = name, ee_Client = ex_IP c, ee_Labels = ex_Labels c, ee_CreatedAt = ex_CreatedAt c\<rparr>) (vm_Exports m)"

definition ListVolumeExports :: "string \<Rightarrow> state \<Rightarrow> error + ExportEntry list" where
  "ListVolumeExports tenant st = (case st of (w, s) \<Rightarrow>
     check (tenant_err s tenant w)
       (Inr (concat (map (\<lambda>(t, n, m). if t = tenant then export_entries n m else []) (Range (st_volumes s))))))"

section \<open>The reconciler\<close>

text \<open>Exports whose path is gone are removed; exports that the metadata asks for and the kernel does
  not have are added. Failures are logged and the loops go on.\<close>

fun remove_orphans :: "exporter \<Rightarrow> string list \<Rightarrow> world \<Rightarrow> world" where
  "remove_orphans ex [] w = w"
| "remove_orphans ex (p # ps) w =
     (case os_stat p w of
        Inr _ \<Rightarrow> remove_orphans ex ps w
      | Inl _ \<Rightarrow> remove_orphans ex ps (snd (Unexport ex p [] w)))"

fun restore_exports :: "exporter \<Rightarrow> (string \<times> string) list \<Rightarrow> world \<Rightarrow> world" where
  "restore_exports ex [] w = w"
| "restore_exports ex ((p, ip) # rest) w = restore_exports ex rest (snd (Export ex p ip w))"

definition missing_exports :: "string \<Rightarrow> VolumeMetadata store \<Rightarrow> ExportInfo list \<Rightarrow> (string \<times> string) list" where
  "missing_exports tenant vs actual =
     concat (map (\<lambda>(t, name, m).
       if t \<noteq> tenant then []
       else map (Pair (Dir vs tenant name))
              (filter (\<lambda>ip. \<not> list_ex (\<lambda>e. ei_Path e = Dir vs tenant name \<and> ei_Client e = ip) actual)
                 (uniqueExportIPs (vm_Exports m)))) (Range vs))"

definition reconcileExports :: "string \<Rightarrow> state \<Rightarrow> state" where
  "reconcileExports tenant st = (case st of (w, s) \<Rightarrow>
     let tenantDir = filepath_join [st_basePath s, tenant] in
     (case ListExports (st_exporter s) w of
        (Inl e, w1) \<Rightarrow> (w1, s)
      | (Inr exports, w1) \<Rightarrow>
          let actual = filter (\<lambda>e. prefix (tenantDir @ ''/'') (ei_Path e)) exports;
              w2 = remove_orphans (st_exporter s) (remdups (map ei_Path actual)) w1
          in (restore_exports (st_exporter s) (missing_exports tenant (st_volumes s) actual) w2, s)))"

section \<open>Laws of addresses\<close>

lemma split_on_chars: "c \<in> set s \<Longrightarrow> c = sep \<or> (\<exists>p \<in> set (split_on sep s). c \<in> set p)"
  by (induction s arbitrary: rule: split_on.induct) (auto split: list.splits)

definition ip_char :: "char \<Rightarrow> bool" where
  "ip_char c = (is_hex c \<or> c = CHR '':'' \<or> c = CHR ''.'')"

lemma parseIPv4_chars: "parseIPv4 s \<Longrightarrow> \<forall>c \<in> set s. ip_char c"
  using split_on_chars[of _ s "CHR ''.''"]
  by (fastforce simp: parseIPv4_def Let_def v4_octet_def list_all_iff ip_char_def is_hex_def)

lemma takeWhile_dropWhile_chars:
  "\<forall>c \<in> set (dropWhile P s). Q c \<Longrightarrow> (\<And>c. P c \<Longrightarrow> Q c) \<Longrightarrow> \<forall>c \<in> set s. Q c"
  by (induction s) (auto split: if_splits)

lemma v6_groups_chars: "v6_groups room ell s \<Longrightarrow> \<forall>c \<in> set s. ip_char c"
proof (induction room ell s rule: v6_groups.induct)
  case (2 room ell s)
  have "\<forall>c \<in> set (dropWhile is_hex s). ip_char c" if "\<not> parseIPv4 s"
  proof (cases "dropWhile is_hex s")
    case (Cons c s1)
    have c: "c = CHR '':''" and s1: "s1 \<noteq> []"
      using 2(3) Cons that by (auto simp: Let_def split: if_splits list.splits)
    obtain c1 s2 where s1e: "s1 = c1 # s2" using s1 by (cases s1) auto
    have "\<forall>d \<in> set s1. ip_char d"
    proof (cases "c1 = CHR '':''")
      case True
      then have "s2 = [] \<or> v6_groups room True s2" using 2(3) Cons c s1e by (auto simp: Let_def split: if_splits)
      moreover have "s2 \<noteq> [] \<Longrightarrow> v6_groups room True s2 \<Longrightarrow> \<forall>d \<in> set s2. ip_char d"
        using 2(1)[OF refl refl _ Cons _ _ s1e True] 2(3) Cons c by (auto simp: Let_def split: if_splits)
      ultimately have "\<forall>d \<in> set s2. ip_char d" by (cases "s2 = []") auto
      then show ?thesis using s1e True by (simp add: ip_char_def)
    next
      case False
      then have "v6_groups room ell s1" using 2(3) Cons c s1e by (auto simp: Let_def split: if_splits)
      then show ?thesis using 2(2)[OF refl refl _ Cons _ _ s1e False] 2(3) Cons c by (auto simp: Let_def split: if_splits)
    qed
    then show ?thesis using Cons c by (auto simp: ip_char_def)
  next
    case Nil
    then show ?thesis by (simp only: list.set ball_empty)
  qed
  then show ?case
    using parseIPv4_chars takeWhile_dropWhile_chars[of is_hex s ip_char] by (auto simp: ip_char_def)
qed simp

lemma ParseIP_chars: "ParseIP s \<Longrightarrow> s \<noteq> [] \<and> (\<forall>c \<in> set s. ip_char c)"
proof -
  assume p: "ParseIP s"
  then have "s \<noteq> []" by (auto simp: ParseIP_def)
  have "parseIPv4 s \<or> parseIPv6 s" using p by (auto simp: ParseIP_def split: list.splits if_splits)
  then show ?thesis
  proof
    assume "parseIPv6 s"
    show ?thesis
    proof (cases "prefix ''::'' s")
      case True
      then obtain r where r: "s = CHR '':'' # CHR '':'' # r" by (auto simp: prefix_def)
      then have "\<forall>c \<in> set r. ip_char c"
        using \<open>parseIPv6 s\<close> True v6_groups_chars by (auto simp: parseIPv6_def)
      then show ?thesis using r by (simp add: ip_char_def)
    next
      case False
      then have "v6_groups 8 False s" using \<open>parseIPv6 s\<close> by (simp add: parseIPv6_def)
      then show ?thesis using v6_groups_chars \<open>s \<noteq> []\<close> by blast
    qed
  qed (use parseIPv4_chars \<open>s \<noteq> []\<close> in auto)
qed

lemma ip_char_plain: "ip_char c \<Longrightarrow> \<not> is_space c \<and> c \<notin> set ''()[]/,*''"
  by (auto simp: ip_char_def is_hex_def is_digit_def is_space_def less_eq_char_def)

lemma ParseIP_plain:
  assumes "ParseIP c" "p \<noteq> []" "no_space p"
  shows "plain_entry (p, c)"
proof -
  have "\<not> is_space x \<and> x \<notin> set ''()[]/,*''" if "x \<in> set c" for x
    using ParseIP_chars[OF assms(1)] ip_char_plain that by blast
  then show ?thesis
    using ParseIP_chars[OF assms(1)] assms(2,3) by (auto simp: plain_entry_def no_space_def list_all_iff)
qed

section \<open>Laws of the reconciler\<close>

definition gone :: "world \<Rightarrow> string \<Rightarrow> bool" where
  "gone w p = (case os_stat p w of Inl _ \<Rightarrow> True | Inr _ \<Rightarrow> False)"

lemma os_stat_same: "same_files w w' \<Longrightarrow> os_stat p w' = os_stat p w"
  by (simp add: same_files_def os_stat_def node_at_def cong: option.case_cong)

lemma gone_same: "same_files w w' \<Longrightarrow> gone w' p = gone w p"
  by (simp add: gone_def os_stat_same)

lemma table_ok_sub: "table_ok w \<Longrightarrow> set (etab w') \<subseteq> set (etab w) \<Longrightarrow> table_ok w'"
  by (auto simp: table_ok_def)

text \<open>The exporter's commands succeed: what the reconciler needs to reach its goal.\<close>

definition exporter_up :: "exporter \<Rightarrow> bool" where
  "exporter_up ex \<longleftrightarrow> (\<forall>p c w. fst (Export ex p c w) = None) \<and> (\<forall>p c w. fst (Unexport ex p c w) = None) \<and>
     (\<forall>w. \<exists>es w'. ListExports ex w = (Inr es, w'))"

context nfs_exporter
begin

lemma remove_orphans_table:
  assumes "table_ok w" "exporter_up ex"
  shows "set (etab (remove_orphans ex ps w)) = {pc \<in> set (etab w). \<not> (fst pc \<in> set ps \<and> gone w (fst pc))}"
    "same_files w (remove_orphans ex ps w)"
proof -
  have "set (etab (remove_orphans ex ps w)) = {pc \<in> set (etab w). \<not> (fst pc \<in> set ps \<and> gone w (fst pc))} \<and>
    same_files w (remove_orphans ex ps w)"
    using assms(1)
  proof (induction ps arbitrary: w)
    case (Cons p ps)
    obtain err w1 where u: "Unexport ex p [] w = (err, w1)" by fastforce
    have "err = None" using assms(2) u unfolding exporter_up_def by (metis fst_conv)
    then have w1: "set (etab w1) = {pc \<in> set (etab w). fst pc \<noteq> p}" "same_files w w1"
      using Unexport_path[OF Cons.prems u] by simp_all
    have ok1: "table_ok w1" using table_ok_sub[OF Cons.prems] w1(1) by auto
    show ?case
    proof (cases "os_stat p w")
      case (Inl e)
      have "set (etab (remove_orphans ex ps w1)) = {pc \<in> set (etab w1). \<not> (fst pc \<in> set ps \<and> gone w (fst pc))}"
          "same_files w (remove_orphans ex ps w1)"
        using Cons.IH[OF ok1] gone_same[OF w1(2)] same_files_trans[OF w1(2)] by auto
      moreover have "gone w p" using Inl by (simp add: gone_def)
      ultimately show ?thesis using Inl u w1(1) by auto
    next
      case (Inr x)
      then have "\<not> gone w p" by (simp add: gone_def)
      then show ?thesis using Cons.IH[OF Cons.prems] Inr by auto
    qed
  qed simp
  then show "set (etab (remove_orphans ex ps w)) = {pc \<in> set (etab w). \<not> (fst pc \<in> set ps \<and> gone w (fst pc))}"
    "same_files w (remove_orphans ex ps w)" by auto
qed

lemma restore_exports_table:
  assumes "\<forall>pc \<in> set pcs. plain_entry pc" "exporter_up ex"
  shows "set (etab (restore_exports ex pcs w)) = set (etab w) \<union> set pcs \<and> same_files w (restore_exports ex pcs w)"
  using assms(1)
proof (induction pcs arbitrary: w)
  case (Cons pc pcs)
  obtain p c where pc: "pc = (p, c)" by fastforce
  obtain err w1 where e: "Export ex p c w = (err, w1)" by fastforce
  have "err = None" using assms(2) e unfolding exporter_up_def by (metis fst_conv)
  then have w1: "set (etab w1) = insert pc (set (etab w))" "same_files w w1"
    using Export_table[OF _ e] Cons.prems pc by auto
  show ?case using Cons.IH[of w1] Cons.prems pc e w1 same_files_trans by auto
qed simp

end

lemma Range_mem:
  assumes "store_inv cd ok w s"
  shows "(t, n, m) \<in> set (Range s) \<Longrightarrow> ValidName t \<and> ValidName n"
proof -
  assume "(t, n, m) \<in> set (Range s)"
  then obtain k v where kv: "(k, v) \<in> set (cache s)" "range_entry (k, v) = (t, n, m)" by (auto simp: Range_def)
  then obtain v' where "map_of (cache s) k = Some v'" using weak_map_of_SomeI by metis
  with assms obtain t' n' where "ValidName t'" "ValidName n'" "k = key t' n'"
    unfolding store_inv_def by blast
  then show ?thesis using kv(2) range_entry_key[of t' n' v] by simp
qed

text \<open>A volume's directory lies below its tenant's.\<close>

lemma Dir_below_tenant:
  assumes "sys_inv w s" "ValidName t" "ValidName n"
  shows "prefix (filepath_join [st_basePath s, t] @ ''/'') (Dir (st_volumes s) t n)"
proof -
  note d = sys_invD[OF assms(1)]
  have b: "st_basePath s \<noteq> []" using d(3,5) by (simp add: store_wf_def)
  have t: "filepath_join [st_basePath s, t] = render (is_rooted (st_basePath s)) (path_comps (st_basePath s) @ [t])"
    using b assms(2) by (subst filepath_join_comps) auto
  have n: "Dir (st_volumes s) t n = render (is_rooted (st_basePath s)) ((path_comps (st_basePath s) @ [t]) @ [n])"
    using Dir_render[OF d(3) assms(2,3)] by (simp add: entry_comps_def d)
  have g: "\<forall>c \<in> set ((path_comps (st_basePath s) @ [t]) @ [n]). good_comp c"
    using entry_comps_good_list[OF d(3) assms(2,3)] by (simp add: entry_comps_def d)
  have g1: "\<forall>c \<in> set (path_comps (st_basePath s) @ [t]). good_comp c" using g by simp
  have "under (filepath_join [st_basePath s, t]) (Dir (st_volumes s) t n)"
    unfolding t n by (subst under_render) (use g g1 in auto)
  moreover have "Dir (st_volumes s) t n \<noteq> filepath_join [st_basePath s, t]"
    unfolding t n by (subst render_inject) (use g g1 in auto)
  ultimately show ?thesis by (simp add: under_def)
qed

lemma actual_has:
  "list_ex (\<lambda>e. ei_Path e = p \<and> ei_Client e = ip) actual \<longleftrightarrow> (p, ip) \<in> info_entry ` set actual"
  by (auto simp: list_ex_iff info_entry_def image_iff)

lemma mem_missing_exports:
  "(p, ip) \<in> set (missing_exports t vs actual) \<longleftrightarrow>
     (\<exists>n m. (t, n, m) \<in> set (Range vs) \<and> p = Dir vs t n \<and> ip \<in> ex_IP ` set (vm_Exports m) \<and>
        (p, ip) \<notin> info_entry ` set actual)" (is "?l \<longleftrightarrow> ?r")
proof
  assume ?l
  then obtain x where x: "x \<in> set (Range vs)" "(p, ip) \<in> set (case x of (t', name, m) \<Rightarrow>
       if t' \<noteq> t then []
       else map (Pair (Dir vs t name))
              (filter (\<lambda>ip. \<not> list_ex (\<lambda>e. ei_Path e = Dir vs t name \<and> ei_Client e = ip) actual)
                 (uniqueExportIPs (vm_Exports m))))"
    unfolding missing_exports_def set_concat set_map by blast
  obtain t' n m where "x = (t', n, m)" by (cases x)
  with x show ?r unfolding actual_has by (auto split: if_splits)
next
  assume ?r
  then obtain n m where nm: "(t, n, m) \<in> set (Range vs)" "p = Dir vs t n" "ip \<in> set (uniqueExportIPs (vm_Exports m))"
      "(p, ip) \<notin> info_entry ` set actual" by auto
  show ?l unfolding missing_exports_def set_concat set_map actual_has
    by (rule UnionI, rule imageI, rule imageI, rule nm(1)) (use nm in simp)
qed

section \<open>References and exports\<close>

text \<open>The addresses a volume has references for, and the state in which the kernel exports each
  volume to exactly those.\<close>

definition refs :: "storage \<Rightarrow> string \<Rightarrow> string \<Rightarrow> string set" where
  "refs s t n = (case map_of (cache (st_volumes s)) (key t n) of None \<Rightarrow> {} | Some m \<Rightarrow> ex_IP ` set (vm_Exports m))"

definition in_sync :: "world \<Rightarrow> storage \<Rightarrow> bool" where
  "in_sync w s \<longleftrightarrow> (\<forall>t n ip. ValidName t \<longrightarrow> ValidName n \<longrightarrow>
     ((Dir (st_volumes s) t n, ip) \<in> set (etab w) \<longleftrightarrow> ip \<in> refs s t n))"

lemma Dir_inject:
  assumes "store_wf s" "ValidName t" "ValidName n" "ValidName t'" "ValidName n'"
  shows "Dir s t n = Dir s t' n' \<longleftrightarrow> t = t' \<and> n = n'"
  using entry_comps_good_list[OF assms(1-3)] entry_comps_good_list[OF assms(1,4,5)]
  unfolding Dir_render[OF assms(1-3)] Dir_render[OF assms(1,4,5)]
  by (subst render_inject) (auto simp: entry_comps_inject)

lemma refs_put:
  assumes "same_paths (st_volumes s) vs" "vs = cache_put t n m (st_volumes s)" "ValidName t" "ValidName t'"
  shows "refs (s\<lparr>st_volumes := vs\<rparr>) t' n' = (if t' = t \<and> n' = n then ex_IP ` set (vm_Exports m) else refs s t' n')"
  using key_inject[OF assms(4,3)] assms(2) by (simp add: refs_def)

text \<open>A change of one volume's references together with its row of the table keeps the two in step.\<close>

lemma in_sync_step:
  assumes "sys_inv w s" "in_sync w s" "ValidName t" "ValidName n"
    and vs: "vs = cache_put t n m (st_volumes s)"
    and row: "\<And>ip. (Dir (st_volumes s) t n, ip) \<in> set (etab w') \<longleftrightarrow> ip \<in> ex_IP ` set (vm_Exports m)"
    and rest: "\<And>p ip. p \<noteq> Dir (st_volumes s) t n \<Longrightarrow> (p, ip) \<in> set (etab w') \<longleftrightarrow> (p, ip) \<in> set (etab w)"
  shows "in_sync w' (s\<lparr>st_volumes := vs\<rparr>)"
  unfolding in_sync_def
proof (intro allI impI)
  fix t' n' ip assume v: "ValidName t'" "ValidName n'"
  have sp: "same_paths (st_volumes s) vs" using vs by simp
  have D: "Dir (st_volumes (s\<lparr>st_volumes := vs\<rparr>)) = Dir (st_volumes s)" using Dir_same[OF sp] by simp
  note r = refs_put[OF sp vs assms(3) v(1), of n']
  show "(Dir (st_volumes (s\<lparr>st_volumes := vs\<rparr>)) t' n', ip) \<in> set (etab w') \<longleftrightarrow> ip \<in> refs (s\<lparr>st_volumes := vs\<rparr>) t' n'"
  proof (cases "t' = t \<and> n' = n")
    case True
    then show ?thesis using row r D by simp
  next
    case False
    then have "Dir (st_volumes s) t' n' \<noteq> Dir (st_volumes s) t n"
      using Dir_inject[OF sys_invD(3)[OF assms(1)] v assms(3,4)] by simp
    moreover have "refs (s\<lparr>st_volumes := vs\<rparr>) t' n' = refs s t' n'" using r False by (simp only: if_False)
    ultimately show ?thesis using rest D assms(2) v by (simp add: in_sync_def)
  qed
qed

lemma add_export_refs: "ex_IP ` set (vm_Exports (add_export c ls T m)) = insert c (ex_IP ` set (vm_Exports m))"
  by (auto simp: add_export_def Let_def hasExport_def list_ex_iff)

lemma first_ref_iff: "first_ref c ls m \<longleftrightarrow> c \<notin> ex_IP ` set (vm_Exports m)"
  by (auto simp: first_ref_def exportsForIP_0 hasExport_def list_ex_iff)

lemma remove_exports_refs:
  "ex_IP ` set (vm_Exports (remove_exports c ls T m)) =
     (if last_ref c ls m then ex_IP ` set (vm_Exports m) - {c} else ex_IP ` set (vm_Exports m))"
proof (rule set_eqI)
  fix ip
  let ?es = "vm_Exports m" and ?fs = "filter (keeps_export c ls) (vm_Exports m)"
  have f: "vm_Exports (remove_exports c ls T m) = ?fs" by (simp add: remove_exports_def)
  have other: "ip \<in> ex_IP ` set ?fs \<longleftrightarrow> ip \<in> ex_IP ` set ?es" if "ip \<noteq> c"
    using that by (auto simp: keeps_export_def image_iff)
  have all: "?fs = ?es" if "list_all (keeps_export c ls) ?es" using that by (simp add: list_all_iff)
  have lr: "last_ref c ls m \<longleftrightarrow> \<not> list_all (keeps_export c ls) ?es \<and> c \<notin> ex_IP ` set ?fs"
    unfolding last_ref_def exportsForIP_0 ..
  show "ip \<in> ex_IP ` set (vm_Exports (remove_exports c ls T m)) \<longleftrightarrow>
     ip \<in> (if last_ref c ls m then ex_IP ` set ?es - {c} else ex_IP ` set ?es)"
    unfolding f
  proof (cases "ip = c")
    case True
    have "ex_IP ` set ?fs \<subseteq> ex_IP ` set ?es" by auto
    then show "ip \<in> ex_IP ` set ?fs \<longleftrightarrow> ip \<in> (if last_ref c ls m then ex_IP ` set ?es - {c} else ex_IP ` set ?es)"
      using True lr all by (cases "list_all (keeps_export c ls) ?es") (simp_all only: if_True if_False simp_thms, auto)
  next
    case False
    then show "ip \<in> ex_IP ` set ?fs \<longleftrightarrow> ip \<in> (if last_ref c ls m then ex_IP ` set ?es - {c} else ex_IP ` set ?es)"
      using other by simp
  qed
qed

lemma Update_cached:
  assumes "map_of (cache s) (key t n) = Some v" "Update cd t n fn alias (w, s) = (Inr x, w', s')"
  shows "x = fn v \<and> s' = cache_put t n (fn v) s \<and> etab w' = etab w"
proof -
  have g: "Get cd t n w s = (Inr v, s)" using assms(1) by (simp add: Get_def)
  obtain e w1 where wr: "writeJSONAtomic cd (MetaPath s t n) (fn v) w = (e, w1)" by fastforce
  have "etab w1 = etab w" using writeJSONAtomic_frame(3)[of cd "MetaPath s t n" "fn v" w] wr by simp
  then show ?thesis using assms(2) g wr by (auto simp: Update_def split: option.splits)
qed

end
