(* ===== verification/Snapshots.thy ===== *)
theory Snapshots
  imports Volumes
begin

text \<open>
  The snapshot operations of \<open>agent/storage/snapshot.go\<close> and the creation of a volume from a
  snapshot in \<open>agent/storage/clone.go\<close>, with the lemmas that each keeps the invariant of the
  agent's state and stays inside its own directory.
\<close>

section \<open>Operations\<close>

definition snapshot_meta :: "VolumeMetadata \<Rightarrow> SnapshotCreateRequest \<Rightarrow> string \<Rightarrow> int \<Rightarrow> SnapshotMetadata" where
  "snapshot_meta vol req dir t = \<lparr>sm_Name = scr_Name req, sm_Volume = scr_Volume req, sm_Path = dir,
     sm_SizeBytes = vm_SizeBytes vol, sm_UsedBytes = 0, sm_ExclusiveBytes = 0, sm_QuotaBytes = vm_QuotaBytes vol,
     sm_NoCOW = vm_NoCOW vol, sm_Compression = vm_Compression vol, sm_UID = vm_UID vol, sm_GID = vm_GID vol,
     sm_Mode = vm_Mode vol, sm_Labels = scr_Labels req, sm_CreatedAt = t, sm_UpdatedAt = t\<rparr>"

definition CreateSnapshot :: "bool \<Rightarrow> string \<Rightarrow> SnapshotCreateRequest \<Rightarrow> state \<Rightarrow>
    (SnapshotMetadata option \<times> error option) \<times> state" where
  "CreateSnapshot locked tenant req st = (case st of (w, s) \<Rightarrow>
     (case check (tenant_err s tenant w) (check (ValidateName (scr_Name req)) (check (ValidateName (scr_Volume req))
             (check (ValidateLabels (scr_Labels req))
             (check (requireImmutableLabels (st_immutableLabelKeys s) (scr_Labels req)) (Inr ()))))) of
        Inl e \<Rightarrow> ((None, Some e), st)
      | Inr _ \<Rightarrow>
          (case Get volume_codec tenant (scr_Volume req) w (st_volumes s) of
             (Inl e, vs) \<Rightarrow> ((None, Some (StorageError ErrNotFound)), w, s\<lparr>st_volumes := vs\<rparr>)
           | (Inr vol, vs) \<Rightarrow>
               let dir = Dir (st_snapshots s) tenant (scr_Name req);
                   srcData = DataPath vs tenant (scr_Volume req);
                   dstData = DataPath (st_snapshots s) tenant (scr_Name req) in
               on_snapshots (create_entry snapshot_codec locked (st_btrfs s) (st_defaultDirMode s)
                 (SubvolumeSnapshot (st_btrfs s) srcData dstData True) False [] id
                 (snapshot_meta vol req dir) tenant (scr_Name req) (w, st_snapshots s)) (s\<lparr>st_volumes := vs\<rparr>))))"

definition ListSnapshots :: "string \<Rightarrow> string \<Rightarrow> state \<Rightarrow> error + SnapshotMetadata list" where
  "ListSnapshots tenant volume st = (case st of (w, s) \<Rightarrow>
     check (tenant_err s tenant w)
       (Inr (map (\<lambda>(t, n, v). v) (filter (\<lambda>(t, n, v). t = tenant \<and> (volume = [] \<or> sm_Volume v = volume))
          (Range (st_snapshots s))))))"

definition GetSnapshot :: "string \<Rightarrow> string \<Rightarrow> state \<Rightarrow> (error + SnapshotMetadata) \<times> state" where
  "GetSnapshot tenant name st = (case st of (w, s) \<Rightarrow>
     (case check (tenant_err s tenant w) (check (ValidateName name) (Inr ())) of
        Inl e \<Rightarrow> (Inl e, st)
      | Inr _ \<Rightarrow>
          (case Get snapshot_codec tenant name w (st_snapshots s) of
             (Inl e, ss) \<Rightarrow> (Inl (read_err e), w, s\<lparr>st_snapshots := ss\<rparr>)
           | (Inr m, ss) \<Rightarrow> (Inr m, w, s\<lparr>st_snapshots := ss\<rparr>))))"

definition DeleteSnapshot :: "string \<Rightarrow> string \<Rightarrow> state \<Rightarrow> error option \<times> state" where
  "DeleteSnapshot tenant name st = (case st of (w, s) \<Rightarrow>
     (case check (tenant_err s tenant w) (check (ValidateName name)
             (check (fail_if (\<not> Exists tenant name (st_snapshots s)) ErrNotFound) (Inr ()))) of
        Inl e \<Rightarrow> (Some e, st)
      | Inr _ \<Rightarrow>
          (case SubvolumeDelete (st_btrfs s) (DataPath (st_snapshots s) tenant name) w of
             (Some e, w1) \<Rightarrow> (Some (WrappedError ''btrfs subvolume delete failed: ''), w1, s)
           | (None, w1) \<Rightarrow>
               (case Delete tenant name (w1, st_snapshots s) of (w2, ss2) \<Rightarrow>
                 (case os_remove_all (Dir ss2 tenant name) w2 of
                    (Some e, w3) \<Rightarrow> (Some (WrappedError ''failed to remove snapshot directory: ''), w3, s\<lparr>st_snapshots := ss2\<rparr>)
                  | (None, w3) \<Rightarrow> (None, w3, s\<lparr>st_snapshots := ss2\<rparr>))))))"

text \<open>The properties of a clone come from the source volume when it still exists, and otherwise from
  what the snapshot recorded of it.\<close>

definition snapshot_source :: "SnapshotMetadata \<Rightarrow> VolumeMetadata" where
  "snapshot_source snap = zero_volume\<lparr>vm_SizeBytes := sm_SizeBytes snap, vm_QuotaBytes := sm_QuotaBytes snap,
     vm_NoCOW := sm_NoCOW snap, vm_Compression := sm_Compression snap, vm_UID := sm_UID snap,
     vm_GID := sm_GID snap, vm_Mode := sm_Mode snap\<rparr>"

definition CreateClone :: "bool \<Rightarrow> string \<Rightarrow> CloneCreateRequest \<Rightarrow> state \<Rightarrow>
    (VolumeMetadata option \<times> error option) \<times> state" where
  "CreateClone locked tenant req st = (case st of (w, s) \<Rightarrow>
     let labels = clone_labels ''snapshot'' (ccr_Snapshot req) (ccr_Labels req) in
     (case check (tenant_err s tenant w) (check (ValidateName (ccr_Name req)) (check (ValidateName (ccr_Snapshot req))
             (check (ValidateLabels labels)
             (check (requireImmutableLabels (st_immutableLabelKeys s) labels) (Inr ()))))) of
        Inl e \<Rightarrow> ((None, Some e), st)
      | Inr _ \<Rightarrow>
          (case Get snapshot_codec tenant (ccr_Snapshot req) w (st_snapshots s) of
             (Inl e, ss) \<Rightarrow> ((None, Some (StorageError ErrNotFound)), w, s\<lparr>st_snapshots := ss\<rparr>)
           | (Inr snap, ss) \<Rightarrow>
               (case Get volume_codec tenant (sm_Volume snap) w (st_volumes s) of (r, vs) \<Rightarrow>
                 let srcVol = (case r of Inl e \<Rightarrow> snapshot_source snap | Inr v \<Rightarrow> v);
                     dir = Dir vs tenant (ccr_Name req);
                     srcData = DataPath ss tenant (ccr_Snapshot req);
                     dstData = DataPath vs tenant (ccr_Name req) in
                 on_volumes (create_entry volume_codec locked (st_btrfs s) (st_defaultDirMode s)
                   (SubvolumeSnapshot (st_btrfs s) srcData dstData False) False
                   (if st_quotaEnabled s \<and> vm_QuotaBytes srcVol > 0
                    then [(''qgroup limit failed: '', failed (QgroupLimit (st_btrfs s) dstData (vm_QuotaBytes srcVol)))] else [])
                   id (clone_meta srcVol (ccr_Name req) dir labels) tenant (ccr_Name req) (w, vs))
                   (s\<lparr>st_snapshots := ss, st_volumes := vs\<rparr>)))))"

section \<open>Every snapshot operation keeps the invariant\<close>

lemma snapshot_meta_ok: "volume_ok v \<Longrightarrow> keys_distinct (scr_Labels req) \<Longrightarrow> snapshot_ok (snapshot_meta v req d t)"
  by (simp add: snapshot_meta_def snapshot_ok_def volume_ok_def)

lemma snapshot_source_ok: "snapshot_ok snap \<Longrightarrow> volume_ok (snapshot_source snap)"
  by (simp add: snapshot_source_def snapshot_ok_def volume_ok_def zero_volume_def keys_distinct_def)

lemma steps_within_Nil [simp]: "steps_within d []"
  by (simp add: steps_within_def)

lemma CreateSnapshot_inv:
  assumes inv: "sys_inv w s" and m: "btrfs_local (st_btrfs s)" and ls: "keys_distinct (scr_Labels req)"
    and cs: "CreateSnapshot locked t req (w, s) = (r, w', s')"
  shows "sys_inv w' s'"
    "ValidName t \<Longrightarrow> ValidName (scr_Name req) \<Longrightarrow> within (Dir (st_snapshots s) t (scr_Name req)) w w'"
proof -
  let ?n = "scr_Name req"
  have "sys_inv w' s' \<and> (ValidName t \<longrightarrow> ValidName ?n \<longrightarrow> within (Dir (st_snapshots s) t ?n) w w')"
  proof (cases "check (tenant_err s t w) (check (ValidateName ?n) (check (ValidateName (scr_Volume req))
             (check (ValidateLabels (scr_Labels req))
             (check (requireImmutableLabels (st_immutableLabelKeys s) (scr_Labels req)) (Inr ())))))")
    case (Inl e)
    then show ?thesis using cs inv by (auto simp: CreateSnapshot_def)
  next
    case (Inr u)
    then have tn: "ValidName t" "ValidName ?n" "ValidName (scr_Volume req)" using tenant_err_None by auto
    obtain g vs where g: "Get volume_codec t (scr_Volume req) w (st_volumes s) = (g, vs)" by fastforce
    note gi = sys_inv_Get[OF inv tn(1,3) g]
    let ?s1 = "s\<lparr>st_volumes := vs\<rparr>"
    show ?thesis
    proof (cases g)
      case (Inl e)
      then have "w' = w \<and> s' = ?s1" using cs g Inr by (auto simp: CreateSnapshot_def)
      then show ?thesis using gi(1) by simp
    next
      case (Inr vol)
      have ok: "snapshot_ok (snapshot_meta vol req d T)" for d T
        using gi(2)[OF Inr] ls by (simp add: snapshot_meta_ok)
      note d = sys_invD[OF gi(1)]
      have wf: "store_wf (st_snapshots s)" using d(4) by simp
      obtain ss where ce: "create_entry snapshot_codec locked (st_btrfs s) (st_defaultDirMode s)
                 (SubvolumeSnapshot (st_btrfs s) (DataPath vs t (scr_Volume req)) (DataPath (st_snapshots s) t ?n) True) False [] id
                 (snapshot_meta vol req (Dir (st_snapshots s) t ?n)) t ?n (w, st_snapshots s) = (r, w', ss)"
          and s': "s' = ?s1\<lparr>st_snapshots := ss\<rparr>"
        using cs g Inr \<open>check _ _ = Inr u\<close>
        by (auto simp: CreateSnapshot_def Let_def on_snapshots_def split: prod.splits)
      note e = snaps.create_entry_inv[OF _ tn(1,2) m entry_ops_within(2)[OF wf tn(1,2) m] steps_within_Nil _ ok ce]
      have i: "store_inv snapshot_codec snapshot_ok w' ss" "within (Dir (st_snapshots s) t ?n) w w'"
        using e d(2) by simp_all
      show ?thesis
        using sys_inv_snapshots[OF gi(1) tn(1,2) _ i(1)] i same_paths_create_entry[OF ce] s' by simp
    qed
  qed
  then show "sys_inv w' s'"
    "ValidName t \<Longrightarrow> ValidName (scr_Name req) \<Longrightarrow> within (Dir (st_snapshots s) t (scr_Name req)) w w'" by auto
qed

lemma GetSnapshot_inv:
  assumes "sys_inv w s" "GetSnapshot t n (w, s) = (r, w', s')"
  shows "sys_inv w' s'" "w' = w"
proof -
  have "sys_inv w' s' \<and> w' = w"
  proof (cases "tenant_err s t w = None \<and> ValidName n")
    case True
    obtain g ss where g: "Get snapshot_codec t n w (st_snapshots s) = (g, ss)" by fastforce
    have t: "ValidName t" using True tenant_err_None by blast
    show ?thesis using assms(2) True g sys_inv_Get_snapshot(1)[OF assms(1) t _ g]
      by (cases g) (auto simp: GetSnapshot_def)
  next
    case False
    then show ?thesis using assms by (auto simp: GetSnapshot_def check_def split: option.splits)
  qed
  then show "sys_inv w' s'" "w' = w" by auto
qed

lemma DeleteSnapshot_inv:
  assumes inv: "sys_inv w s" and m: "btrfs_local (st_btrfs s)"
    and de: "DeleteSnapshot t n (w, s) = (r, w', s')"
  shows "sys_inv w' s'" "ValidName t \<Longrightarrow> ValidName n \<Longrightarrow> within (Dir (st_snapshots s) t n) w w'"
proof -
  let ?ss = "st_snapshots s"
  have "sys_inv w' s' \<and> (ValidName t \<longrightarrow> ValidName n \<longrightarrow> within (Dir ?ss t n) w w')"
  proof (cases "check (tenant_err s t w) (check (ValidateName n) (check (fail_if (\<not> Exists t n ?ss) ErrNotFound) (Inr ())))")
    case (Inl e)
    then show ?thesis using de inv by (auto simp: DeleteSnapshot_def)
  next
    case (Inr u)
    then have tn: "ValidName t" "ValidName n" using tenant_err_None by auto
    note d = sys_invD[OF inv]
    obtain x w1 where sd: "SubvolumeDelete (st_btrfs s) (DataPath ?ss t n) w = (x, w1)" by fastforce
    have wd: "within (DataPath ?ss t n) w w1" using acts_on_within[OF btrfs_localD(2)[OF m]] sd by (metis snd_conv)
    have wdir: "within (Dir ?ss t n) w w1" using within_mono[OF wd entry_paths_under(3)[OF d(4) tn]] .
    have i1: "store_inv snapshot_codec snapshot_ok w1 ?ss" using snaps.store_inv_data[OF d(2) tn wd] .
    obtain w2 ss2 where dl: "Delete t n (w1, ?ss) = (w2, ss2)" by fastforce
    obtain y w3 where ra: "os_remove_all (Dir ss2 t n) w2 = (y, w3)" by fastforce
    have D2: "Dir ss2 = Dir ?ss" using Dir_same[OF same_paths_Delete[OF dl]] by simp
    have w12: "within (Dir ?ss t n) w1 w2"
      using dl entry_paths_under(1)[OF d(4) tn] within_toggle by (auto simp: Delete_def)
    have w23: "within (Dir ?ss t n) w2 w3" using within_remove_all[of "Dir ?ss t n" "Dir ?ss t n" w2] ra D2 by simp
    have none: "map_of (cache ss2) (key t n) = None" using dl by (auto simp: Delete_def delete_conv')
    have i3: "store_inv snapshot_codec snapshot_ok w3 ss2"
      by (rule snaps.store_inv_within[OF snaps.Delete_inv[OF i1 dl] tn _ none]) (use w23 D2 in simp)
    show ?thesis
    proof (cases x)
      case (Some e)
      then have "w' = w1 \<and> s' = s" using de Inr sd by (auto simp: DeleteSnapshot_def)
      then show ?thesis using sys_inv_snapshots[OF inv tn wdir i1 same_paths_refl] wdir by simp
    next
      case None
      then have e: "w' = w3 \<and> s' = s\<lparr>st_snapshots := ss2\<rparr>"
        using de Inr sd dl ra by (auto simp: DeleteSnapshot_def split: option.splits)
      have "within (Dir ?ss t n) w w3" using wdir w12 w23 by (meson within_trans)
      then show ?thesis using e sys_inv_snapshots[OF inv tn _ i3 same_paths_Delete[OF dl]] by simp
    qed
  qed
  then show "sys_inv w' s'" "ValidName t \<Longrightarrow> ValidName n \<Longrightarrow> within (Dir (st_snapshots s) t n) w w'" by auto
qed

text \<open>\<open>CreateClone\<close> reads the volume the snapshot names. Snapshots are created for validated volume
  names only; for a metadata file edited by hand the hypothesis below may fail.\<close>

lemma CreateClone_inv:
  assumes inv: "sys_inv w s" and m: "btrfs_local (st_btrfs s)" and ls: "keys_distinct (ccr_Labels req)"
    and n: "ccr_Name req \<noteq> SnapshotsDir"
    and src: "\<And>snap. fst (Get snapshot_codec t (ccr_Snapshot req) w (st_snapshots s)) = Inr snap \<Longrightarrow> ValidName (sm_Volume snap)"
    and cl: "CreateClone locked t req (w, s) = (r, w', s')"
  shows "sys_inv w' s'" "ValidName t \<Longrightarrow> ValidName (ccr_Name req) \<Longrightarrow> within (Dir (st_volumes s) t (ccr_Name req)) w w'"
proof -
  let ?n = "ccr_Name req" and ?ls = "clone_labels ''snapshot'' (ccr_Snapshot req) (ccr_Labels req)"
  have "sys_inv w' s' \<and> (ValidName t \<longrightarrow> ValidName ?n \<longrightarrow> within (Dir (st_volumes s) t ?n) w w')"
  proof (cases "check (tenant_err s t w) (check (ValidateName ?n) (check (ValidateName (ccr_Snapshot req))
             (check (ValidateLabels ?ls) (check (requireImmutableLabels (st_immutableLabelKeys s) ?ls) (Inr ())))))")
    case (Inl e)
    then show ?thesis using cl inv by (auto simp: CreateClone_def Let_def)
  next
    case (Inr u)
    then have tn: "ValidName t" "ValidName ?n" "ValidName (ccr_Snapshot req)" using tenant_err_None by auto
    obtain g ss where g: "Get snapshot_codec t (ccr_Snapshot req) w (st_snapshots s) = (g, ss)" by fastforce
    let ?s1 = "s\<lparr>st_snapshots := ss\<rparr>"
    note gi = sys_inv_Get_snapshot[OF inv tn(1,3) g]
    show ?thesis
    proof (cases g)
      case (Inl e)
      then have "w' = w \<and> s' = ?s1" using cl g Inr by (auto simp: CreateClone_def Let_def)
      then show ?thesis using gi(1) by simp
    next
      case (Inr snap)
      have sv: "ValidName (sm_Volume snap)" using src g Inr by simp
      obtain h vs where h: "Get volume_codec t (sm_Volume snap) w (st_volumes s) = (h, vs)" by fastforce
      let ?s2 = "?s1\<lparr>st_volumes := vs\<rparr>" and ?src = "case h of Inl e \<Rightarrow> snapshot_source snap | Inr v \<Rightarrow> v"
      note hi = sys_inv_Get[OF gi(1) tn(1) sv, of h vs]
      have i2: "sys_inv w ?s2" using hi(1) h by simp
      have sok: "volume_ok ?src"
        using hi(2) h gi(2)[OF Inr] snapshot_source_ok by (cases h) auto
      then have ok: "volume_ok (clone_meta ?src ?n d ?ls T)" for d T
        using ls by (simp add: clone_meta_ok clone_labels_distinct)
      have m2: "btrfs_local (st_btrfs ?s2)" using m by simp
      have wf: "store_wf vs" using sys_invD(3)[OF i2] by simp
      have ce: "on_volumes (create_entry volume_codec locked (st_btrfs s) (st_defaultDirMode s)
          (SubvolumeSnapshot (st_btrfs s) (DataPath ss t (ccr_Snapshot req)) (DataPath vs t ?n) False) False
          (if st_quotaEnabled s \<and> vm_QuotaBytes ?src > 0
           then [(''qgroup limit failed: '', failed (QgroupLimit (st_btrfs s) (DataPath vs t ?n) (vm_QuotaBytes ?src)))] else [])
          id (clone_meta ?src ?n (Dir vs t ?n) ?ls) t ?n (w, st_volumes ?s2)) ?s2 = (r, w', s')"
        using cl g h Inr \<open>check _ _ = Inr u\<close> by (simp add: CreateClone_def Let_def)
      have o: "\<And>w. within (Dir (st_volumes ?s2) t ?n) w (snd (SubvolumeSnapshot (st_btrfs s) (DataPath ss t (ccr_Snapshot req)) (DataPath vs t ?n) False w))"
        using entry_ops_within(2)[OF wf tn(1,2) m] by simp
      have st: "steps_within (Dir (st_volumes ?s2) t ?n) (if st_quotaEnabled s \<and> vm_QuotaBytes ?src > 0
           then [(''qgroup limit failed: '', failed (QgroupLimit (st_btrfs s) (DataPath vs t ?n) (vm_QuotaBytes ?src)))] else [])"
        using clone_steps_within[OF wf tn(1,2) m] by simp
      note e = create_volume_entry[OF i2 tn(1,2) m o st _ ok ce]
      have D: "Dir vs = Dir (st_volumes s)" using Dir_same[OF same_paths_Get[OF h]] by simp
      show ?thesis using e(1,2) n D by simp
    qed
  qed
  then show "sys_inv w' s'" "ValidName t \<Longrightarrow> ValidName (ccr_Name req) \<Longrightarrow> within (Dir (st_volumes s) t (ccr_Name req)) w w'" by auto
qed

end
