(* ===== verification/Demo.thy ===== *)
theory Demo
  imports Exports Snapshots "HOL-Library.Code_Target_Nat"
begin

text \<open>
  A small running agent for the witnesses: one tenant \<open>t\<close> under \<open>/d\<close>, btrfs commands that act on
  the modelled file tree (\<open>tree_manager\<close>), and the kernel exporter over an \<open>exportfs\<close> that behaves
  as documented (\<open>exportfs_tool\<close>). The lemmas evaluate the operations on it.
\<close>

definition demo_world :: world where
  "demo_world = \<lparr>nodes = [(''/d'', new_dir 493), (''/d/t'', new_dir 493), (''/d/t/snapshots'', new_dir 493)],
     faults = (\<lambda>_. None), now = 7, etab = []\<rparr>"

definition demo_exporter :: exporter where
  "demo_exporter = NewKernelExporter (kernel_of ''exportfs'' exportfs_tool ''rw'')"

definition demo_storage :: storage where
  "demo_storage = \<lparr>st_basePath = ''/d'', st_mountPoint = ''/d'', st_quotaEnabled = True, st_btrfs = tree_manager,
     st_exporter = demo_exporter, st_tenants = [''t''], st_defaultDirMode = 493, st_defaultDataMode = ''2770'',
     st_immutableLabelKeys = [''created-by''], st_volumes = NewStore ''/d'' [],
     st_snapshots = NewStore ''/d'' [SnapshotsDir]\<rparr>"

definition demo_labels :: labels where
  "demo_labels = [(''created-by'', ''cli'')]"

definition demo_create :: VolumeCreateRequest where
  "demo_create = \<lparr>vcr_Name = ''v'', vcr_SizeBytes = 4096, vcr_NoCOW = False, vcr_Compression = ''zstd'',
     vcr_QuotaBytes = 0, vcr_UID = 1000, vcr_GID = 1000, vcr_Mode = [], vcr_Labels = demo_labels\<rparr>"

definition demo_meta :: VolumeMetadata where
  "demo_meta = \<lparr>vm_Name = ''v'', vm_Path = ''/d/t/v'', vm_SizeBytes = 4096, vm_NoCOW = False, vm_Compression = ''zstd'',
     vm_QuotaBytes = 4096, vm_UsedBytes = 0, vm_UID = 1000, vm_GID = 1000, vm_Mode = ''2770'', vm_Labels = demo_labels,
     vm_Exports = [], vm_CreatedAt = 7, vm_UpdatedAt = 7, vm_LastAttachAt = None\<rparr>"

text \<open>The state after the volume \<open>v\<close> was created.\<close>

definition demo_nodes :: "(string \<times> node) list" where
  "demo_nodes = [(''/d'', new_dir 493), (''/d/t'', new_dir 493), (''/d/t/snapshots'', new_dir 493), (''/d/t/v'', new_dir 493),
     (''/d/t/v/data'', DirNode \<lparr>at_mode = fileMode 1528, at_uid = 1000, at_gid = 1000\<rparr>),
     (''/d/t/v/metadata.json'', FileNode (Doc (MarshalVolume demo_meta)) True)]"

definition demo_state :: state where
  "demo_state = (demo_world\<lparr>nodes := demo_nodes\<rparr>,
     demo_storage\<lparr>st_volumes := \<lparr>cache = [(''t/v'', demo_meta)], basePath = ''/d'', pathSegments = []\<rparr>\<rparr>)"

lemma demo_inv: "sys_inv demo_world demo_storage"
  by (simp add: sys_inv_def demo_storage_def store_inv_NewStore) (simp add: NewStore_def)

lemma demo_local: "btrfs_local (st_btrfs demo_storage)"
  by (simp add: demo_storage_def tree_manager_local)

lemma demo_names [simp]: "ValidName ''t''" "ValidName ''v''" "ValidName ''w''" "ValidName ''s''"
  by (simp_all add: ValidName_def name_char_def char_class_defs)

lemma demo_created: "CreateVolume True ''t'' demo_create (demo_world, demo_storage) = ((Some demo_meta, None), demo_state)"
proof -
  let ?r = "CreateVolume True ''t'' demo_create (demo_world, demo_storage)"
  obtain r w s where r: "?r = (r, w, s)" using prod_cases3 by blast
  have res: "fst ?r = (Some demo_meta, None) \<and> nodes (fst (snd ?r)) = demo_nodes \<and>
      cache (st_volumes (snd (snd ?r))) = [(''t/v'', demo_meta)]" by code_simp
  have "(case create_validate demo_storage ''t'' demo_create demo_world of Inl _ \<Rightarrow> False | Inr _ \<Rightarrow> True)" by code_simp
  then obtain q m where v: "create_validate demo_storage ''t'' demo_create demo_world = Inr (q, m)" by (auto split: sum.splits)
  have k: "keys_distinct (vcr_Labels demo_create)" by (simp add: demo_create_def demo_labels_def keys_distinct_def)
  note e = CreateVolume_entry[OF v demo_inv demo_local k r]
  obtain vs where vs: "s = demo_storage\<lparr>st_volumes := vs\<rparr>" "same_paths (st_volumes demo_storage) vs" using e(3) by blast
  have "vs = \<lparr>cache = [(''t/v'', demo_meta)], basePath = ''/d'', pathSegments = []\<rparr>"
    using vs res r by (cases vs) (simp add: same_paths_def demo_storage_def NewStore_def)
  moreover have "w = demo_world\<lparr>nodes := demo_nodes\<rparr>"
    using res r within_frame[OF e(1)] by (cases w) (simp add: demo_world_def)
  ultimately show ?thesis using r res vs by (simp add: demo_state_def)
qed

lemma demo_state_inv: "sys_inv (fst demo_state) (snd demo_state)"
  using CreateVolume_inv[OF demo_inv demo_local, of demo_create True "''t''" _ "fst demo_state" "snd demo_state"] demo_created
  by (simp add: demo_create_def demo_labels_def keys_distinct_def SnapshotsDir_def)

lemma demo_state_local: "btrfs_local (st_btrfs (snd demo_state))"
  by (simp add: demo_state_def demo_storage_def tree_manager_local)

lemma demo_exporter_laws: "nfs_exporter demo_exporter"
  unfolding demo_exporter_def by (rule exportfs.kernel.nfs_exporter_axioms)

lemma tool_tryUnexport: "fst (tryUnexport (kernel_of b exportfs_tool opts) [''-u'', x] w) = None"
  by (simp add: tryUnexport_def ke_exec_def kernel_of_def exportfs_tool_def errNotFound_def contains_def)

lemma tool_unexport_all: "fst (unexport_all (kernel_of b exportfs_tool opts) p cs None w) = None"
proof (induction cs arbitrary: w)
  case (Cons c cs)
  obtain e w1 where "tryUnexport (kernel_of b exportfs_tool opts) [''-u'', export_target c p] w = (e, w1)" by fastforce
  then show ?case using Cons tool_tryUnexport[of b opts "export_target c p" w] by simp
qed simp

lemma demo_exporter_up: "exporter_up demo_exporter"
proof -
  let ?k = "kernel_of ''exportfs'' exportfs_tool ''rw''"
  have l: "\<exists>es. KernelListExports ?k w = (Inr es, w)" for w
    by (simp add: KernelListExports_def ke_exec_def kernel_of_def exportfs_tool_def)
  have "fst (KernelUnexport ?k p c w) = None" for p c w
  proof -
    obtain es where "KernelListExports ?k w = (Inr es, w)" using l by blast
    then show ?thesis using tool_tryUnexport tool_unexport_all
      by (simp add: KernelUnexport_def exportedClients_def)
  qed
  moreover have "fst (KernelExport ?k p c w) = None" for p c w
    by (simp add: KernelExport_def Let_def ke_run_def ke_exec_def kernel_of_def exportfs_tool_def)
  ultimately show ?thesis using l by (auto simp: exporter_up_def demo_exporter_def NewKernelExporter_def) (metis l)
qed

end
