(* ===== verification/VolumeProps.thy ===== *)
theory VolumeProps
  imports Demo
begin

text \<open>
  The correctness of the volume operations: what a successful creation establishes, what a failed
  one leaves behind, and the guards of update and deletion. Every property is evaluated on the
  running agent of theory \<open>Demo\<close>.
\<close>

section \<open>Creation\<close>

lemma CreateVolume_provision:
  assumes "CreateVolume locked t req0 (w, s) = (r, w', s')" "create_validate s t req0 w = Inr (req, mode)" "locked"
    and "map_of (cache (st_volumes s)) (key t (vcr_Name req)) = None" "Get volume_codec t (vcr_Name req) w (st_volumes s) = (Inl e, vs0)"
  shows "\<exists>vs. s' = s\<lparr>st_volumes := vs\<rparr> \<and>
    provision volume_codec (st_btrfs s) (st_defaultDirMode s)
      (SubvolumeCreate (st_btrfs s) (DataPath (st_volumes s) t (vcr_Name req))) False
      (create_steps s req (DataPath (st_volumes s) t (vcr_Name req)))
      (create_attrs req mode (DataPath (st_volumes s) t (vcr_Name req)))
      (create_meta req (Dir (st_volumes s) t (vcr_Name req))) t (vcr_Name req) (w, st_volumes s) = (r, w', vs)"
  using assms vols.Get_miss[OF assms(5)]
  by (auto simp: CreateVolume_def Let_def on_volumes_def create_entry_def split: prod.splits)

lemma CreateVolume_new:
  assumes "CreateVolume locked t req0 (w, s) = ((x, y), w', s')" "create_validate s t req0 w = Inr (req, mode)"
    and "y \<noteq> Some (StorageError ErrAlreadyExists)" "y \<noteq> Some (StorageError ErrBusy)"
  shows "locked \<and> map_of (cache (st_volumes s)) (key t (vcr_Name req)) = None \<and>
    (\<exists>e. Get volume_codec t (vcr_Name req) w (st_volumes s) = (Inl e, st_volumes s))"
proof -
  obtain vs where "create_entry volume_codec locked (st_btrfs s) (st_defaultDirMode s)
      (SubvolumeCreate (st_btrfs s) (DataPath (st_volumes s) t (vcr_Name req))) False
      (create_steps s req (DataPath (st_volumes s) t (vcr_Name req)))
      (create_attrs req mode (DataPath (st_volumes s) t (vcr_Name req)))
      (create_meta req (Dir (st_volumes s) t (vcr_Name req))) t (vcr_Name req) (w, st_volumes s) = ((x, y), w', vs)"
    using assms(1,2) by (auto simp: CreateVolume_def Let_def on_volumes_def split: prod.splits)
  then show ?thesis using assms(3,4) by (cases rule: vols.create_entry_cases) auto
qed

lemma create_attrs_node:
  assumes "faults v (OChmod d) = None" "faults v (OChown d) = None"
    and "node_at (create_attrs req mode d v) d = Some (DirNode a)"
  shows "at_mode a = fileMode (of_nat mode) \<and> at_uid a = vcr_UID req \<and> at_gid a = vcr_GID req"
  using assms
  by (auto simp: create_attrs_def os_chmod_def os_chown_def split: option.splits node.splits if_splits)

lemma create_validate_fields:
  assumes "create_validate s t req0 w = Inr (req, mode)"
  shows "vcr_QuotaBytes req = (if vcr_QuotaBytes req0 = 0 then vcr_SizeBytes req0 else vcr_QuotaBytes req0)"
    "vcr_Mode req = (if vcr_Mode req0 = [] then st_defaultDataMode s else vcr_Mode req0)"
    "vcr_UID req = vcr_UID req0" "vcr_GID req = vcr_GID req0" "vcr_NoCOW req = vcr_NoCOW req0"
    "vcr_Compression req = vcr_Compression req0"
  using assms by (auto simp: create_validate_def Let_def split: option.splits)

lemma CreateVolume_facts:
  assumes inv: "sys_inv w s" and m: "btrfs_local (st_btrfs s)"
    and cv: "CreateVolume locked t req (w, s) = ((Some meta, None), w', s')"
  defines "n \<equiv> vcr_Name req" and "vs \<equiv> st_volumes s"
  shows "map_of (cache vs) (key t n) = None"
    and "vm_Name meta = n \<and> vm_Path meta = Dir vs t n \<and> vm_SizeBytes meta = vcr_SizeBytes req \<and>
      vm_QuotaBytes meta = (if vcr_QuotaBytes req = 0 then vcr_SizeBytes req else vcr_QuotaBytes req) \<and>
      vm_Labels meta = vcr_Labels req \<and> vm_UID meta = vcr_UID req \<and> vm_GID meta = vcr_GID req \<and>
      vm_Exports meta = [] \<and> vm_CreatedAt meta = now w"
    and "s' = s\<lparr>st_volumes := cache_put t n meta vs\<rparr>"
    and "file_content w' (MetaPath vs t n) = Some (Doc (MarshalVolume meta))"
    and "faults w (OChmod (DataPath vs t n)) = None \<Longrightarrow> faults w (OChown (DataPath vs t n)) = None \<Longrightarrow>
      node_at w' (DataPath vs t n) = Some (DirNode a) \<Longrightarrow>
      (\<exists>mode. ValidateMode (vm_Mode meta) = Some mode \<and> at_mode a = fileMode (of_nat mode)) \<and>
      at_uid a = vcr_UID req \<and> at_gid a = vcr_GID req"
proof -
  obtain q mode where cvr: "create_validate s t req w = Inr (q, mode)"
    using cv by (cases "create_validate s t req w") (auto simp: CreateVolume_def)
  note v = create_validate_Inr[OF cvr] and f = create_validate_fields[OF cvr]
  have qn: "vcr_Name q = n" using v(3) by (simp add: n_def)
  have new: "locked \<and> map_of (cache vs) (key t n) = None \<and> (\<exists>e. Get volume_codec t n w vs = (Inl e, vs))"
    using CreateVolume_new[OF cv cvr] qn by (simp add: vs_def)
  then obtain e where e: "Get volume_codec t n w vs = (Inl e, vs)" by blast
  have "map_of (cache (st_volumes s)) (key t (vcr_Name q)) = None" using new qn by (simp add: vs_def)
  then obtain vs' where s': "s' = s\<lparr>st_volumes := vs'\<rparr>" and
    p: "provision volume_codec (st_btrfs s) (st_defaultDirMode s)
      (SubvolumeCreate (st_btrfs s) (DataPath vs t n)) False (create_steps s q (DataPath vs t n))
      (create_attrs q mode (DataPath vs t n)) (create_meta q (Dir vs t n)) t n (w, vs) = ((Some meta, None), w', vs')"
    using CreateVolume_provision[OF cv cvr, of e vs] new e qn by (auto simp: vs_def)
  have wf: "store_wf vs" "ValidName t" "ValidName n" using sys_invD(3)[OF inv] v(1,2) qn by (auto simp: vs_def)
  note o1 = entry_ops_within(1)[OF wf m] and o2 = create_steps_within[OF wf m] and o3 = create_attrs_within[OF wf]
  note ok = vols.provision_succeeds[OF o1 o2 o3 p]
  show "map_of (cache vs) (key t n) = None" using new by blast
  show "vm_Name meta = n \<and> vm_Path meta = Dir vs t n \<and> vm_SizeBytes meta = vcr_SizeBytes req \<and>
      vm_QuotaBytes meta = (if vcr_QuotaBytes req = 0 then vcr_SizeBytes req else vcr_QuotaBytes req) \<and>
      vm_Labels meta = vcr_Labels req \<and> vm_UID meta = vcr_UID req \<and> vm_GID meta = vcr_GID req \<and>
      vm_Exports meta = [] \<and> vm_CreatedAt meta = now w"
    using ok f v(3,4,7) by (simp add: create_meta_def n_def)
  show "s' = s\<lparr>st_volumes := cache_put t n meta vs\<rparr>" using ok s' by simp
  show "file_content w' (MetaPath vs t n) = Some (Doc (MarshalVolume meta))"
    using ok by (simp add: volume_codec_def)
  assume "faults w (OChmod (DataPath vs t n)) = None" "faults w (OChown (DataPath vs t n)) = None"
    "node_at w' (DataPath vs t n) = Some (DirNode a)"
  then have "at_mode a = fileMode (of_nat mode) \<and> at_uid a = vcr_UID req \<and> at_gid a = vcr_GID req"
    using vols.provision_attrs[OF wf o1 o2 p] create_attrs_node[where d = "DataPath vs t n"] f(3,4) by metis
  moreover have "ValidateMode (vm_Mode meta) = Some mode" using ok v(11) by (simp add: create_meta_def)
  ultimately show "(\<exists>mode. ValidateMode (vm_Mode meta) = Some mode \<and> at_mode a = fileMode (of_nat mode)) \<and>
      at_uid a = vcr_UID req \<and> at_gid a = vcr_GID req" by blast
qed

text \<open>C1: a successful \<open>CreateVolume\<close> creates what was asked for, once. The name was free; the returned
  metadata has the requested name, size, labels, owner and the quota (the size when none was given);
  the volume is in the cache under the tenant and the name, and its metadata file holds exactly the
  returned metadata; and the data directory has the requested mode, setuid, setgid and sticky bits
  included, and the requested owner, when the system calls for them do not fail.\<close>

theorem CreateVolume_success:
  assumes "sys_inv w s" "btrfs_local (st_btrfs s)" "CreateVolume locked t req (w, s) = ((Some meta, None), w', s')"
  shows "let n = vcr_Name req; vs = st_volumes s in
    map_of (cache vs) (key t n) = None \<and>
    vm_Name meta = n \<and> vm_Path meta = Dir vs t n \<and> vm_SizeBytes meta = vcr_SizeBytes req \<and>
    vm_QuotaBytes meta = (if vcr_QuotaBytes req = 0 then vcr_SizeBytes req else vcr_QuotaBytes req) \<and>
    vm_Labels meta = vcr_Labels req \<and> vm_UID meta = vcr_UID req \<and> vm_GID meta = vcr_GID req \<and>
    vm_Exports meta = [] \<and> vm_CreatedAt meta = now w \<and>
    s' = s\<lparr>st_volumes := cache_put t n meta vs\<rparr> \<and>
    file_content w' (MetaPath vs t n) = Some (Doc (MarshalVolume meta)) \<and>
    (\<forall>a. faults w (OChmod (DataPath vs t n)) = None \<and> faults w (OChown (DataPath vs t n)) = None \<and>
       node_at w' (DataPath vs t n) = Some (DirNode a) \<longrightarrow>
       (\<exists>mode. ValidateMode (vm_Mode meta) = Some mode \<and> at_mode a = fileMode (of_nat mode)) \<and>
       at_uid a = vcr_UID req \<and> at_gid a = vcr_GID req)"
  using CreateVolume_facts[OF assms] unfolding Let_def by blast

theorem CreateVolume_success_witness:
  "map_of (cache (st_volumes demo_storage)) (key ''t'' ''v'') = None \<and>
   vm_Name demo_meta = ''v'' \<and> vm_QuotaBytes demo_meta = 4096 \<and>
   snd demo_state = demo_storage\<lparr>st_volumes := cache_put ''t'' ''v'' demo_meta (st_volumes demo_storage)\<rparr> \<and>
   file_content (fst demo_state) (MetaPath (st_volumes demo_storage) ''t'' ''v'') = Some (Doc (MarshalVolume demo_meta)) \<and>
   (\<exists>a. node_at (fst demo_state) ''/d/t/v/data'' = Some (DirNode a) \<and> at_mode a = fileMode 1528 \<and> at_uid a = 1000)"
proof -
  have c: "CreateVolume True ''t'' demo_create (demo_world, demo_storage) = ((Some demo_meta, None), fst demo_state, snd demo_state)"
    using demo_created by simp
  note ok = CreateVolume_success[OF demo_inv demo_local c, unfolded Let_def]
  have n: "vcr_Name demo_create = ''v''" "vcr_QuotaBytes demo_create = 0" "vcr_SizeBytes demo_create = 4096" "vcr_UID demo_create = 1000"
    by (simp_all add: demo_create_def)
  have d: "DataPath (st_volumes demo_storage) ''t'' ''v'' = ''/d/t/v/data''" by code_simp
  have "(case node_at (fst demo_state) ''/d/t/v/data'' of Some (DirNode a) \<Rightarrow> True | _ \<Rightarrow> False)" by code_simp
  then obtain a where a: "node_at (fst demo_state) ''/d/t/v/data'' = Some (DirNode a)"
    by (auto split: option.splits node.splits)
  have md: "ValidateMode (vm_Mode demo_meta) = Some 1528" by code_simp
  have "faults demo_world = (\<lambda>_. None)" by (simp add: demo_world_def)
  then have "at_mode a = fileMode 1528 \<and> at_uid a = 1000" using ok a md n d by simp
  then show ?thesis using ok n a by simp
qed

text \<open>C2: a failed \<open>CreateVolume\<close> has no effect on the agent: the caches are as they were, nothing
  outside the volume's directory changed, and when the failure came after the directory was made
  (and was not that the volume already exists on disk) the directory is gone again with everything
  in it, unless an immutable file or a failing removal keeps it in place.\<close>

theorem CreateVolume_failure:
  assumes inv: "sys_inv w s" and m: "btrfs_local (st_btrfs s)" and kd: "keys_distinct (vcr_Labels req)"
    and cv: "CreateVolume locked t req (w, s) = ((None, Some e), w', s')"
  shows "s' = s \<and> within (Dir (st_volumes s) t (vcr_Name req)) w w' \<and>
    (create_validate s t req w \<noteq> Inl e \<and> e \<notin> {StorageError ErrAlreadyExists, StorageError ErrBusy} \<and>
     fst (os_mkdir_all (Dir (st_volumes s) t (vcr_Name req)) (st_defaultDirMode s) w) = None \<and>
     faults w (ORemoveAll (Dir (st_volumes s) t (vcr_Name req))) = None \<and>
     (\<forall>q. under (Dir (st_volumes s) t (vcr_Name req)) q \<longrightarrow> \<not> immutable_at w' q) \<longrightarrow>
     (\<forall>q. under (Dir (st_volumes s) t (vcr_Name req)) q \<longrightarrow> node_at w' q = None))"
proof (cases "create_validate s t req w")
  case (Inl e)
  then show ?thesis using cv by (auto simp: CreateVolume_def)
next
  case (Inr qm)
  obtain q mode where qm: "qm = (q, mode)" by fastforce
  let ?n = "vcr_Name req" and ?vs = "st_volumes s"
  have cvr: "create_validate s t req w = Inr (q, mode)" using Inr qm by simp
  note v = create_validate_Inr[OF cvr]
  have wf: "store_wf ?vs" "ValidName t" "ValidName ?n" using sys_invD(3)[OF inv] v(1-3) by auto
  have win: "within (Dir ?vs t ?n) w w'" using CreateVolume_entry(1)[OF cvr inv m kd cv] .
  obtain vs where s': "s' = s\<lparr>st_volumes := vs\<rparr>" and ce: "create_entry volume_codec locked (st_btrfs s) (st_defaultDirMode s)
      (SubvolumeCreate (st_btrfs s) (DataPath ?vs t ?n)) False (create_steps s q (DataPath ?vs t ?n))
      (create_attrs q mode (DataPath ?vs t ?n)) (create_meta q (Dir ?vs t ?n)) t ?n (w, ?vs) = ((None, Some e), w', vs)"
    using cv cvr v(3) by (auto simp: CreateVolume_def Let_def on_volumes_def split: prod.splits)
  from ce show ?thesis
  proof (cases rule: vols.create_entry_cases)
    case busy
    then show ?thesis using s' by simp
  next
    case (fresh e')
    note o1 = entry_ops_within(1)[OF wf m] and o2 = create_steps_within[OF wf m] and o3 = create_attrs_within[OF wf]
    have "s' = s" using vols.provision_fails[OF fresh(4)] s' by simp
    then show ?thesis
      using win vols.provision_leaves_nothing[OF m wf o1 o2 o3 fresh(4)] by blast
  qed simp
qed

text \<open>The agent of \<open>Demo\<close> with a failing metadata write: the creation is undone.\<close>

definition demo_broken :: world where
  "demo_broken = demo_world\<lparr>faults := (\<lambda>c. if c = OWriteFile ''/d/t/v/metadata.json.tmp'' then Some EIO else None)\<rparr>"

theorem CreateVolume_failure_witness:
  "\<exists>w'. CreateVolume True ''t'' demo_create (demo_broken, demo_storage) =
      ((None, Some (WrappedError ''failed to write metadata: '')), w', demo_storage) \<and>
    within ''/d/t/v'' demo_broken w' \<and> node_at w' ''/d/t/v/data'' = None"
proof -
  let ?r = "CreateVolume True ''t'' demo_create (demo_broken, demo_storage)"
  have inv: "sys_inv demo_broken demo_storage" using demo_inv by (simp add: sys_inv_def store_inv_def demo_storage_def NewStore_def)
  have r: "fst ?r = (None, Some (WrappedError ''failed to write metadata: ''))" by code_simp
  obtain w' s' where e: "?r = ((None, Some (WrappedError ''failed to write metadata: '')), w', s')"
    using r by (metis prod.collapse)
  have d: "Dir (st_volumes demo_storage) ''t'' (vcr_Name demo_create) = ''/d/t/v''" by code_simp
  have k: "keys_distinct (vcr_Labels demo_create)" by (simp add: demo_create_def demo_labels_def keys_distinct_def)
  note f = CreateVolume_failure[OF inv demo_local k e, unfolded d]
  have v: "(case create_validate demo_storage ''t'' demo_create demo_broken of Inl _ \<Rightarrow> False | Inr _ \<Rightarrow> True)" by code_simp
  have mk: "fst (os_mkdir_all ''/d/t/v'' (st_defaultDirMode demo_storage) demo_broken) = None" by code_simp
  have imm: "list_all (\<lambda>q. \<not> immutable_at (fst (snd ?r)) q) (map fst (nodes (fst (snd ?r))))" by code_simp
  have "\<not> immutable_at w' q" for q
  proof (cases "node_at w' q")
    case (Some x)
    then have "q \<in> set (map fst (nodes w'))" by (rule node_at_not_key)
    then show ?thesis using imm e unfolding list_all_iff by auto
  qed (simp add: immutable_at_def)
  then have "\<forall>q. under ''/d/t/v'' q \<longrightarrow> node_at w' q = None"
    using f v mk by (auto simp: demo_broken_def split: sum.splits)
  moreover have "under ''/d/t/v'' ''/d/t/v/data''" by (simp add: under_def prefix_def)
  ultimately show ?thesis using f e by blast
qed

lemma CreateVolume_taken:
  assumes "create_validate s t req w = Inr qm" "map_of (cache (st_volumes s)) (key t (vcr_Name req)) = Some m"
  shows "CreateVolume True t req (w, s) = ((Some m, Some (StorageError ErrAlreadyExists)), w, s)"
proof -
  obtain q mode where q: "qm = (q, mode)" by fastforce
  have "vcr_Name q = vcr_Name req" using create_validate_Inr(3)[of s t req w q mode] assms(1) q by simp
  then show ?thesis using assms q by (simp add: CreateVolume_def create_entry_def Get_def on_volumes_def Let_def)
qed

text \<open>Creating a volume whose name is taken returns the existing volume with an
  \<open>ALREADY_EXISTS\<close> error and changes nothing, so a caller that retries a creation finds out.\<close>

lemma CreateVolume_existing:
  assumes "create_validate s t req w = Inr qm" "map_of (cache (st_volumes s)) (key t (vcr_Name req)) = Some m"
  shows "CreateVolume True t req (w, s) = ((Some m, Some (StorageError ErrAlreadyExists)), w, s)"
  using CreateVolume_taken[OF assms] .

lemma CreateVolume_existing_witness:
  "CreateVolume True ''t'' demo_create demo_state = ((Some demo_meta, Some (StorageError ErrAlreadyExists)), demo_state)"
proof -
  have "(case create_validate (snd demo_state) ''t'' demo_create (fst demo_state) of Inl _ \<Rightarrow> False | Inr _ \<Rightarrow> True)" by code_simp
  then obtain qm where q: "create_validate (snd demo_state) ''t'' demo_create (fst demo_state) = Inr qm" by (auto split: sum.splits)
  have "map_of (cache (st_volumes (snd demo_state))) (key ''t'' (vcr_Name demo_create)) = Some demo_meta" by code_simp
  then show ?thesis using CreateVolume_existing[OF q] by simp
qed

section \<open>Update\<close>

lemma GetVolume_cached:
  assumes "map_of (cache (st_volumes s)) (key t n) = Some v" "tenant_err s t w = None" "ValidName n"
  shows "GetVolume t n (w, s) = (Inr v, w, s)"
  using assms by (simp add: GetVolume_def Get_def)

lemma GetVolume_rejected:
  assumes "\<not> (tenant_err s t w = None \<and> ValidName n)"
  shows "\<exists>e. GetVolume t n (w, s) = (Inl e, w, s)"
proof -
  have "\<exists>e. check (tenant_err s t w) (check (ValidateName n) (Inr ())) = Inl e"
    using assms by (cases "check (tenant_err s t w) (check (ValidateName n) (Inr ()))") auto
  then show ?thesis by (auto simp: GetVolume_def)
qed

lemma UpdateVolume_ok:
  assumes up: "UpdateVolume t n req (w, s) = (Inr m, w', s')" and c: "map_of (cache (st_volumes s)) (key t n) = Some cur"
  shows "\<exists>q mode T. update_validate s cur req = Inr (q, mode) \<and> m = update_meta (update_nocow cur q) T cur \<and>
    s' = s\<lparr>st_volumes := cache_put t n m (st_volumes s)\<rparr>"
proof -
  have tn: "tenant_err s t w = None \<and> ValidName n"
  proof (rule ccontr)
    assume "\<not> (tenant_err s t w = None \<and> ValidName n)"
    then obtain e where "GetVolume t n (w, s) = (Inl e, w, s)" using GetVolume_rejected by blast
    then show False using up by (simp add: UpdateVolume_def)
  qed
  have g: "GetVolume t n (w, s) = (Inr cur, w, s)" using GetVolume_cached[OF c] tn by simp
  obtain q mode where uv: "update_validate s cur req = Inr (q, mode)"
    using up g by (cases "update_validate s cur req") (auto simp: UpdateVolume_def)
  obtain x w1 where st: "run_steps (update_steps s cur q mode (DataPath (st_volumes s) t n)) w = (x, w1)" by fastforce
  have "x = None" using up g uv st by (cases x) (auto simp: UpdateVolume_def)
  then obtain vs where u: "Update volume_codec t n (update_meta (update_nocow cur q) (now w1)) id (w1, st_volumes s) = (Inr m, w', vs)"
      "s' = s\<lparr>st_volumes := vs\<rparr>"
    using up g uv st by (auto simp: UpdateVolume_def split: sum.splits prod.splits)
  then have "update_validate s cur req = Inr (q, mode) \<and> m = update_meta (update_nocow cur q) (now w1) cur \<and>
      s' = s\<lparr>st_volumes := cache_put t n m (st_volumes s)\<rparr>"
    using Update_cached[OF c u(1)] uv by simp
  then show ?thesis by blast
qed

lemma protected_labels_kept:
  assumes "protectImmutableLabels ks cur ls = Inr u" "k \<in> set ks \<union> set SoftReservedLabelKeys" "mget cur k \<noteq> []"
  shows "mget u k = mget cur k"
proof -
  have "map_of u k = Some (mget cur k)"
    using protect_loop_Inr[of "remdups (ks @ SoftReservedLabelKeys)" cur ls u] assms
    by (simp add: protectImmutableLabels_def)
  then show ?thesis by (simp add: mget_def)
qed

text \<open>C6: an update of a volume is safe: the size never shrinks and a new size is also the new quota,
  no-copy-on-write is never turned off, every protected label (the configured immutable keys, the
  creator and the clone source) that has a value keeps it, and name, path, creation time and export
  references stay as they are. The cache holds the returned metadata.\<close>

theorem UpdateVolume_safe:
  assumes "UpdateVolume t n req (w, s) = (Inr m, w', s')" "map_of (cache (st_volumes s)) (key t n) = Some cur"
  shows "vm_SizeBytes cur \<le> vm_SizeBytes m \<and>
    (\<forall>b. vur_SizeBytes req = Some b \<longrightarrow> vm_SizeBytes m = b \<and> vm_QuotaBytes m = b) \<and>
    (vm_NoCOW cur \<longrightarrow> vm_NoCOW m) \<and>
    (\<forall>k \<in> set (st_immutableLabelKeys s) \<union> set SoftReservedLabelKeys.
       mget (vm_Labels cur) k \<noteq> [] \<longrightarrow> mget (vm_Labels m) k = mget (vm_Labels cur) k) \<and>
    vm_Name m = vm_Name cur \<and> vm_Path m = vm_Path cur \<and> vm_CreatedAt m = vm_CreatedAt cur \<and>
    vm_Exports m = vm_Exports cur \<and>
    s' = s\<lparr>st_volumes := cache_put t n m (st_volumes s)\<rparr>"
proof -
  obtain q mode T where q: "update_validate s cur req = Inr (q, mode)" "m = update_meta (update_nocow cur q) T cur"
      "s' = s\<lparr>st_volumes := cache_put t n m (st_volumes s)\<rparr>"
    using UpdateVolume_ok[OF assms] by blast
  note v = update_validate_Inr[OF q(1)]
  have nc: "vur_SizeBytes (update_nocow cur q) = vur_SizeBytes req" "vur_Labels (update_nocow cur q) = vur_Labels q"
    using v(1) by (simp_all add: update_nocow_def)
  have lab: "mget (vm_Labels m) k = mget (vm_Labels cur) k"
    if "k \<in> set (st_immutableLabelKeys s) \<union> set SoftReservedLabelKeys" "mget (vm_Labels cur) k \<noteq> []" for k
    using v(7) protected_labels_kept[OF _ that] q(2) nc by (cases "vur_Labels req") auto
  have "vm_NoCOW cur \<longrightarrow> vm_NoCOW m" using q(2) by (auto simp: update_nocow_def split: option.splits)
  then show ?thesis using v(1) q(2,3) nc lab by (simp split: option.splits)
qed

definition demo_update :: VolumeUpdateRequest where
  "demo_update = \<lparr>vur_SizeBytes = Some 8192, vur_NoCOW = None, vur_Compression = None, vur_UID = None, vur_GID = Some 5,
     vur_Mode = None, vur_Labels = Some [(''app'', ''db'')]\<rparr>"

theorem UpdateVolume_safe_witness:
  "case UpdateVolume ''t'' ''v'' demo_update demo_state of
     (Inl e, st) \<Rightarrow> False
   | (Inr m, st) \<Rightarrow> vm_SizeBytes m = 8192 \<and> vm_QuotaBytes m = 8192 \<and> mget (vm_Labels m) ''created-by'' = ''cli''"
proof -
  have c: "map_of (cache (st_volumes (snd demo_state))) (key ''t'' ''v'') = Some demo_meta" by code_simp
  have "(case UpdateVolume ''t'' ''v'' demo_update demo_state of (Inl e, _) \<Rightarrow> False | _ \<Rightarrow> True)" by code_simp
  then obtain m st where u: "UpdateVolume ''t'' ''v'' demo_update demo_state = (Inr m, st)" by (auto split: prod.splits sum.splits)
  obtain w' s' where st: "st = (w', s')" by fastforce
  have "st_immutableLabelKeys (snd demo_state) = [''created-by'']" by code_simp
  moreover have "mget (vm_Labels demo_meta) ''created-by'' = ''cli''" by code_simp
  ultimately show ?thesis
    using UpdateVolume_safe[of "''t''" "''v''" demo_update "fst demo_state" "snd demo_state" m w' s' demo_meta] u c st
    by (simp add: demo_update_def)
qed

text \<open>A request to shrink a volume is refused before anything is changed.\<close>

lemma UpdateVolume_no_shrink:
  assumes "map_of (cache (st_volumes s)) (key t n) = Some cur" "vur_SizeBytes req = Some b" "b < vm_SizeBytes cur"
  shows "\<exists>e. UpdateVolume t n req (w, s) = (Inl e, w, s)"
proof (cases "tenant_err s t w = None \<and> ValidName n")
  case True
  then have g: "GetVolume t n (w, s) = (Inr cur, w, s)" using GetVolume_cached[OF assms(1)] by simp
  have "\<exists>e. update_validate s cur req = Inl e"
    using update_validate_Inr(1)[of s cur req] assms(2,3) by (cases "update_validate s cur req") fastforce+
  then show ?thesis using g by (auto simp: UpdateVolume_def)
next
  case False
  then obtain e where "GetVolume t n (w, s) = (Inl e, w, s)" using GetVolume_rejected by blast
  then show ?thesis by (simp add: UpdateVolume_def)
qed

end
