(* ===== verification/AgentProps.thy ===== *)
theory AgentProps
  imports VolumeProps
begin

text \<open>
  Properties of the agent as a whole: deletion, snapshots and clones, the isolation of tenants, the
  invariant of every reachable state, and the agreement of export references with the kernel's
  export table.
\<close>

section \<open>Deletion\<close>

text \<open>A volume that still has export references is not deleted: the call reports \<open>BUSY\<close> and
  changes nothing.\<close>

lemma DeleteVolume_exported:
  assumes "map_of (cache (st_volumes s)) (key t n) = Some m" "vm_Exports m \<noteq> []"
    and "tenant_err s t w = None" "ValidName n"
  shows "DeleteVolume t n (w, s) = (Some (StorageError ErrBusy), w, s)"
  using assms by (simp add: DeleteVolume_def Get_def)

definition demo_export :: ExportMetadata where
  "demo_export = \<lparr>ex_IP = ''10.0.0.1'', ex_Labels = demo_labels, ex_CreatedAt = 7\<rparr>"

definition demo_busy :: storage where
  "demo_busy = (snd demo_state)\<lparr>st_volumes := \<lparr>cache = [(''t/v'', demo_meta\<lparr>vm_Exports := [demo_export]\<rparr>)],
     basePath = ''/d'', pathSegments = []\<rparr>\<rparr>"

lemma DeleteVolume_exported_witness:
  "DeleteVolume ''t'' ''v'' (fst demo_state, demo_busy) = (Some (StorageError ErrBusy), fst demo_state, demo_busy)"
proof -
  have "map_of (cache (st_volumes demo_busy)) (key ''t'' ''v'') = Some (demo_meta\<lparr>vm_Exports := [demo_export]\<rparr>)"
    by (simp add: demo_busy_def key_def)
  moreover have "tenant_err demo_busy ''t'' (fst demo_state) = None" by code_simp
  ultimately show ?thesis using DeleteVolume_exported[of demo_busy "''t''" "''v''"] by simp
qed

lemma DeleteVolume_ok:
  assumes "DeleteVolume t n (w, s) = (None, w', s')"
  shows "ValidName t \<and> ValidName n \<and> tenant_err s t w = None \<and> (\<exists>m. fst (Get volume_codec t n w (st_volumes s)) = Inr m \<and> vm_Exports m = []) \<and>
    map_of (cache (st_volumes s')) (key t n) = None \<and> s' = s\<lparr>st_volumes := st_volumes s'\<rparr> \<and>
    same_paths (st_volumes s) (st_volumes s') \<and> only_key (key t n) (st_volumes s) (st_volumes s') \<and>
    (\<forall>q. under (Dir (st_volumes s) t n) q \<longrightarrow> node_at w' q = None)"
proof (cases "check (tenant_err s t w) (check (ValidateName n) (Inr ()))")
  case (Inl e)
  then show ?thesis using assms by (auto simp: DeleteVolume_def)
next
  case (Inr u)
  then have tn: "tenant_err s t w = None" "ValidName n" by auto
  obtain g vs where g: "Get volume_codec t n w (st_volumes s) = (g, vs)" by fastforce
  obtain m where m: "g = Inr m" "vm_Exports m = []"
    using assms g Inr by (cases g) (auto simp: DeleteVolume_def split: if_splits)
  obtain x w1 where sd: "SubvolumeDelete (st_btrfs s) (DataPath vs t n) w = (x, w1)" by fastforce
  have x: "x = None" using assms g Inr m sd by (cases x) (auto simp: DeleteVolume_def)
  obtain w2 vs2 where dl: "Delete t n (w1, vs) = (w2, vs2)" by fastforce
  obtain y w3 where ra: "os_remove_all (Dir vs2 t n) w2 = (y, w3)" by fastforce
  have e: "y = None \<and> w' = w3 \<and> s' = s\<lparr>st_volumes := vs2\<rparr>"
    using assms g Inr m sd x dl ra by (auto simp: DeleteVolume_def split: option.splits)
  have D: "Dir vs2 = Dir (st_volumes s)"
    using Dir_same[OF same_paths_Get[OF g]] Dir_same[OF same_paths_Delete[OF dl]] by simp
  have "\<forall>q. under (Dir (st_volumes s) t n) q \<longrightarrow> node_at w' q = None"
    using os_remove_all_gone[of "Dir vs2 t n" w2] ra e D by simp
  moreover have "map_of (cache vs2) (key t n) = None" using dl by (auto simp: Delete_def delete_conv')
  moreover have "same_paths (st_volumes s) vs2"
    using same_paths_Get[OF g] same_paths_Delete[OF dl] by (simp add: same_paths_def)
  moreover have "only_key (key t n) (st_volumes s) vs2"
    using only_key_trans[OF only_key_Get[OF g] only_key_Delete[OF dl]] .
  ultimately show ?thesis using e tn tenant_err_None g m by auto
qed

lemma DeleteVolume_gone:
  assumes "sys_inv w s" "btrfs_local (st_btrfs s)" "n \<noteq> SnapshotsDir"
    and de: "DeleteVolume t n (w, s) = (None, w', s')"
    and nf: "faults w (OReadFile (MetaPath (st_volumes s) t n)) = None"
  shows "Get volume_codec t n w' (st_volumes s') = (Inl (OsErr ENOENT), st_volumes s')" "within (Dir (st_volumes s) t n) w w'"
proof -
  note d = DeleteVolume_ok[OF de]
  then have tn: "ValidName t" "ValidName n" by auto
  show win: "within (Dir (st_volumes s) t n) w w'" using DeleteVolume_inv(2)[OF assms(1-4) tn] .
  have D: "MetaPath (st_volumes s') t n = MetaPath (st_volumes s) t n" using d Dir_same by metis
  have "node_at w' (MetaPath (st_volumes s) t n) = None"
    using d entry_paths_under(1)[OF sys_invD(3)[OF assms(1)] tn] by blast
  moreover have "faults w' (OReadFile (MetaPath (st_volumes s) t n)) = None" using nf win by (simp add: within_def)
  ultimately have "readJSON volume_codec (MetaPath (st_volumes s') t n) w' = Inl (OsErr ENOENT)"
    by (simp add: D readJSON_def os_read_file_def)
  then show "Get volume_codec t n w' (st_volumes s') = (Inl (OsErr ENOENT), st_volumes s')" using d by (simp add: Get_def)
qed



end
