(* ===== verification/ExportProps.thy ===== *)
theory ExportProps
  imports Demo
begin

text \<open>
  The correctness of NFS exports: client addresses are safe to hand to \<open>exportfs\<close>, the references
  in the metadata and the kernel's export table stay in step, and the reconciler restores what the
  metadata asks for. The exporter is any one that keeps the contract \<open>nfs_exporter\<close>.
\<close>

section \<open>Addresses\<close>

text \<open>An address that \<open>validateClientIP\<close> accepts consists of hexadecimal digits, colons and dots
  only, so it is no wildcard, host name or network and cannot carry options or a path into the
  \<open>exportfs\<close> command, and what \<open>exportfs -v\<close> prints for it is read back as the same address.\<close>

lemma validateClientIP_safe:
  assumes "validateClientIP c = None"
  shows "c \<noteq> [] \<and> (\<forall>x \<in> set c. ip_char x) \<and> set c \<inter> set ''/*()[], '' = {} \<and> unwrapBrackets (exportfsClient c) = c"
proof -
  have p: "c \<noteq> [] \<and> (\<forall>x \<in> set c. ip_char x)" using assms ParseIP_chars by (auto simp: validateClientIP_def)
  have s: "\<not> ip_char x" if "x \<in> set ''/*()[], ''" for x
    using that by (auto simp: ip_char_def is_hex_def is_digit_def less_eq_char_def)
  then have "set c \<inter> set ''/*()[], '' = {}" using p by blast
  moreover have "CHR '']'' \<notin> set c" using p s[of "CHR '']''"] by auto
  ultimately show ?thesis using p unwrap_exportfsClient by blast
qed

lemma validateClientIP_safe_witness:
  "validateClientIP ''fd00::1'' = None \<and> unwrapBrackets (exportfsClient ''fd00::1'') = ''fd00::1'' \<and>
   validateClientIP ''10.0.0.0/8'' \<noteq> None \<and> validateClientIP ''*'' \<noteq> None \<and> validateClientIP ''10.0.0.01'' \<noteq> None"
proof -
  have v: "validateClientIP ''fd00::1'' = None" by code_simp
  have "validateClientIP ''10.0.0.0/8'' \<noteq> None \<and> validateClientIP ''*'' \<noteq> None \<and> validateClientIP ''10.0.0.01'' \<noteq> None" by code_simp
  then show ?thesis using validateClientIP_safe[OF v] v by blast
qed

section \<open>References and exports\<close>

lemma CreateVolumeExport_cases:
  assumes "CreateVolumeExport t n c ls (w, s) = (None, w', s')" "map_of (cache (st_volumes s)) (key t n) = Some m"
  shows "ValidName t \<and> ValidName n \<and> ParseIP c \<and> s' = s\<lparr>st_volumes := cache_put t n (add_export c ls (now w) m) (st_volumes s)\<rparr> \<and>
    (\<exists>w1. etab w1 = etab w \<and> (if first_ref c ls m then Export (st_exporter s) (Dir (st_volumes s) t n) c w1 = (None, w') else w' = w1))"
proof -
  have ck: "tenant_err s t w = None \<and> ValidName n \<and> ParseIP c"
    using assms(1) by (cases "check (tenant_err s t w) (check (ValidateName n) (check (validateClientIP c)
        (check (ValidateLabels ls) (check (requireImmutableLabels (st_immutableLabelKeys s) ls) (Inr ())))))")
      (auto simp: CreateVolumeExport_def validateClientIP_def)
  have ok: "check (tenant_err s t w) (check (ValidateName n) (check (validateClientIP c)
        (check (ValidateLabels ls) (check (requireImmutableLabels (st_immutableLabelKeys s) ls) (Inr ()))))) = Inr ()"
    using assms(1) by (cases "check (tenant_err s t w) (check (ValidateName n) (check (validateClientIP c)
        (check (ValidateLabels ls) (check (requireImmutableLabels (st_immutableLabelKeys s) ls) (Inr ())))))")
      (auto simp: CreateVolumeExport_def)
  have g: "Get volume_codec t n w (st_volumes s) = (Inr m, st_volumes s)" using assms(2) by (simp add: Get_def)
  obtain r w1 vs where u: "Update volume_codec t n (add_export c ls (now w)) id (w, st_volumes s) = (r, w1, vs)"
    using prod_cases3 by blast
  obtain x where r: "r = Inr x" using assms(1) ok u by (cases r) (auto simp: CreateVolumeExport_def)
  have uc: "vs = cache_put t n (add_export c ls (now w) m) (st_volumes s)" "etab w1 = etab w"
    using Update_cached[OF assms(2)] u r by auto
  show ?thesis
    using assms(1) ok u r g uc ck tenant_err_None
    by (cases "first_ref c ls m") (auto simp: CreateVolumeExport_def split: prod.splits option.splits)
qed

lemma CreateVolumeExport_sync:
  assumes ex: "nfs_exporter (st_exporter s)" and inv: "sys_inv w s" and sync: "in_sync w s"
    and m: "map_of (cache (st_volumes s)) (key t n) = Some m" and sp: "no_space (Dir (st_volumes s) t n)"
    and cv: "CreateVolumeExport t n c ls (w, s) = (None, w', s')"
  shows "in_sync w' s' \<and> refs s' t n = insert c (refs s t n) \<and> (Dir (st_volumes s) t n, c) \<in> set (etab w')"
proof -
  let ?d = "Dir (st_volumes s) t n" and ?m = "add_export c ls (now w) m"
  obtain w1 where k: "ValidName t" "ValidName n" "ParseIP c" and s': "s' = s\<lparr>st_volumes := cache_put t n ?m (st_volumes s)\<rparr>"
      and w1: "etab w1 = etab w" "if first_ref c ls m then Export (st_exporter s) ?d c w1 = (None, w') else w' = w1"
    using CreateVolumeExport_cases[OF cv m] by blast
  have d: "?d \<noteq> []" using Dir_below_tenant[OF inv k(1,2)] by (auto simp: prefix_def)
  have pl: "plain_entry (?d, c)" using ParseIP_plain[OF k(3) d sp] .
  have rf: "refs s t n = ex_IP ` set (vm_Exports m)" using m by (simp add: refs_def)
  have tab: "set (etab w') = (if first_ref c ls m then insert (?d, c) (set (etab w)) else set (etab w))"
    using w1 nfs_exporter.Export_table[OF ex pl] by (auto split: if_splits)
  have row: "(?d, ip) \<in> set (etab w) \<longleftrightarrow> ip \<in> refs s t n" for ip using sync k(1,2) by (simp add: in_sync_def)
  have newrow: "(?d, ip) \<in> set (etab w') \<longleftrightarrow> ip \<in> ex_IP ` set (vm_Exports ?m)" for ip
    unfolding add_export_refs using tab row[of ip] rf first_ref_iff[of c ls m] by (auto simp: rf)
  have "in_sync w' s'" unfolding s'
    by (rule in_sync_step[OF inv sync k(1,2) refl newrow]) (use tab in auto)
  moreover have "refs s' t n = insert c (refs s t n)" using s' rf by (simp add: refs_def add_export_refs)
  moreover have "(?d, c) \<in> set (etab w')" using newrow[of c] add_export_refs by simp
  ultimately show ?thesis by blast
qed

text \<open>C4: adding an export keeps metadata and kernel in step. If every volume is exported to exactly
  the addresses it has references for, then after a successful \<open>CreateVolumeExport\<close> this still holds,
  the client is exported, and the volume's addresses are the old ones and the client.\<close>

theorem CreateVolumeExport_in_sync:
  assumes ex: "nfs_exporter (st_exporter s)" and inv: "sys_inv w s" and sync: "in_sync w s"
    and m: "map_of (cache (st_volumes s)) (key t n) = Some m" and sp: "no_space (Dir (st_volumes s) t n)"
    and cv: "CreateVolumeExport t n c ls (w, s) = (None, w', s')"
  shows "in_sync w' s' \<and> refs s' t n = insert c (refs s t n) \<and> (Dir (st_volumes s) t n, c) \<in> set (etab w')"
  by (rule CreateVolumeExport_sync[OF assms])

text \<open>The demo agent exports its volume to a client.\<close>

lemma demo_sync: "in_sync (fst demo_state) (snd demo_state)"
  by (auto simp: in_sync_def demo_state_def demo_world_def refs_def key_def demo_meta_def)

lemma demo_dir: "Dir (st_volumes (snd demo_state)) ''t'' ''v'' = ''/d/t/v''"
  by code_simp

lemma demo_cached: "map_of (cache (st_volumes (snd demo_state))) (key ''t'' ''v'') = Some demo_meta"
  by (simp add: demo_state_def key_def)

lemma CreateVolumeExport_succeeds:
  assumes "check (tenant_err s t w) (check (ValidateName n) (check (validateClientIP c)
      (check (ValidateLabels ls) (check (requireImmutableLabels (st_immutableLabelKeys s) ls) (Inr ()))))) = Inr ()"
    and "Update volume_codec t n (add_export c ls (now w)) id (w, st_volumes s) = (Inr m, w1, vs)" "exporter_up (st_exporter s)"
  shows "\<exists>w' s'. CreateVolumeExport t n c ls (w, s) = (None, w', s')"
proof -
  obtain w2 where "Export (st_exporter s) (Dir (st_volumes s) t n) c w1 = (None, w2)"
    using assms(3) unfolding exporter_up_def by (metis prod.collapse)
  then show ?thesis using assms(1,2) by (simp add: CreateVolumeExport_def Let_def)
qed

lemma demo_export_succeeds:
  "\<exists>w' s'. CreateVolumeExport ''t'' ''v'' ''10.0.0.1'' demo_labels (fst demo_state, snd demo_state) = (None, w', s')"
proof -
  let ?w = "fst demo_state" and ?s = "snd demo_state"
  have ck: "check (tenant_err ?s ''t'' ?w) (check (ValidateName ''v'') (check (validateClientIP ''10.0.0.1'')
      (check (ValidateLabels demo_labels) (check (requireImmutableLabels (st_immutableLabelKeys ?s) demo_labels) (Inr ()))))) = Inr ()"
    by code_simp
  have "(case Update volume_codec ''t'' ''v'' (add_export ''10.0.0.1'' demo_labels (now ?w)) id (?w, st_volumes ?s) of
      (Inl e, _) \<Rightarrow> False | _ \<Rightarrow> True)" by code_simp
  then obtain m w1 vs where u: "Update volume_codec ''t'' ''v'' (add_export ''10.0.0.1'' demo_labels (now ?w)) id (?w, st_volumes ?s) = (Inr m, w1, vs)"
    by (auto split: prod.splits sum.splits)
  have "exporter_up (st_exporter ?s)" using demo_exporter_up by (simp add: demo_state_def demo_storage_def)
  then show ?thesis by (rule CreateVolumeExport_succeeds[OF ck u])
qed

theorem CreateVolumeExport_in_sync_witness:
  "\<exists>w' s'. CreateVolumeExport ''t'' ''v'' ''10.0.0.1'' demo_labels (fst demo_state, snd demo_state) = (None, w', s') \<and>
     in_sync w' s' \<and> (''/d/t/v'', ''10.0.0.1'') \<in> set (etab w')"
proof -
  obtain w' s' where e: "CreateVolumeExport ''t'' ''v'' ''10.0.0.1'' demo_labels (fst demo_state, snd demo_state) = (None, w', s')"
    using demo_export_succeeds by blast
  have ex: "nfs_exporter (st_exporter (snd demo_state))"
    using demo_exporter_laws by (simp add: demo_state_def demo_storage_def)
  have sp: "no_space (Dir (st_volumes (snd demo_state)) ''t'' ''v'')" unfolding demo_dir by (simp add: no_space_def is_space_def)
  show ?thesis
    using CreateVolumeExport_in_sync[OF ex demo_state_inv demo_sync demo_cached sp e] e unfolding demo_dir by blast
qed

lemma DeleteVolumeExport_cases:
  assumes "DeleteVolumeExport t n c ls (w, s) = (None, w', s')" "map_of (cache (st_volumes s)) (key t n) = Some m"
  shows "ValidName t \<and> ValidName n \<and> ParseIP c \<and> s' = s\<lparr>st_volumes := cache_put t n (remove_exports c ls (now w) m) (st_volumes s)\<rparr> \<and>
    (\<exists>w1. etab w1 = etab w \<and> (if last_ref c ls m then Unexport (st_exporter s) (Dir (st_volumes s) t n) c w1 = (None, w') else w' = w1))"
proof -
  let ?ck = "check (tenant_err s t w) (check (ValidateName n) (check (validateClientIP c)
        (check (ValidateLabels (case ls of None \<Rightarrow> [] | Some l \<Rightarrow> l)) (Inr ()))))"
  have ok: "?ck = Inr ()" using assms(1) by (cases ?ck) (auto simp: DeleteVolumeExport_def)
  have ck: "tenant_err s t w = None \<and> ValidName n \<and> ParseIP c" using ok by (simp add: validateClientIP_def)
  have g: "Get volume_codec t n w (st_volumes s) = (Inr m, st_volumes s)" using assms(2) by (simp add: Get_def)
  obtain r w1 vs where u: "Update volume_codec t n (remove_exports c ls (now w)) (filter_in_place c ls) (w, st_volumes s) = (r, w1, vs)"
    using prod_cases3 by blast
  obtain x where r: "r = Inr x" using assms(1) ok u by (cases r) (auto simp: DeleteVolumeExport_def)
  have uc: "vs = cache_put t n (remove_exports c ls (now w) m) (st_volumes s)" "etab w1 = etab w"
    using Update_cached[OF assms(2)] u r by auto
  show ?thesis
    using assms(1) ok u r g uc ck tenant_err_None
    by (cases "last_ref c ls m") (auto simp: DeleteVolumeExport_def split: prod.splits option.splits)
qed

lemma DeleteVolumeExport_sync:
  assumes ex: "nfs_exporter (st_exporter s)" and inv: "sys_inv w s" and sync: "in_sync w s"
    and m: "map_of (cache (st_volumes s)) (key t n) = Some m" and sp: "no_space (Dir (st_volumes s) t n)"
    and cv: "DeleteVolumeExport t n c ls (w, s) = (None, w', s')"
  shows "in_sync w' s' \<and> refs s t n - {c} \<subseteq> refs s' t n \<and> refs s' t n \<subseteq> refs s t n \<and> (ls = None \<longrightarrow> c \<notin> refs s' t n)"
proof -
  let ?d = "Dir (st_volumes s) t n" and ?m = "remove_exports c ls (now w) m"
  obtain w1 where k: "ValidName t" "ValidName n" "ParseIP c" and s': "s' = s\<lparr>st_volumes := cache_put t n ?m (st_volumes s)\<rparr>"
      and w1: "etab w1 = etab w" "if last_ref c ls m then Unexport (st_exporter s) ?d c w1 = (None, w') else w' = w1"
    using DeleteVolumeExport_cases[OF cv m] by blast
  have d: "?d \<noteq> []" using Dir_below_tenant[OF inv k(1,2)] by (auto simp: prefix_def)
  have pl: "plain_entry (?d, c)" using ParseIP_plain[OF k(3) d sp] .
  have rf: "refs s t n = ex_IP ` set (vm_Exports m)" using m by (simp add: refs_def)
  have rf': "refs s' t n = ex_IP ` set (vm_Exports ?m)" using s' by (simp add: refs_def)
  have tab: "set (etab w') = (if last_ref c ls m then set (etab w) - {(?d, c)} else set (etab w))"
    using w1 nfs_exporter.Unexport_table[OF ex pl] by (auto split: if_splits)
  have row: "(?d, ip) \<in> set (etab w) \<longleftrightarrow> ip \<in> refs s t n" for ip using sync k(1,2) by (simp add: in_sync_def)
  have newrow: "(?d, ip) \<in> set (etab w') \<longleftrightarrow> ip \<in> ex_IP ` set (vm_Exports ?m)" for ip
    unfolding remove_exports_refs tab using row[of ip] rf by (auto simp: rf)
  have "in_sync w' s'" unfolding s'
    by (rule in_sync_step[OF inv sync k(1,2) refl newrow]) (use tab in auto)
  moreover have "refs s t n - {c} \<subseteq> refs s' t n \<and> refs s' t n \<subseteq> refs s t n"
    unfolding rf rf' remove_exports_refs by auto
  moreover have "ls = None \<longrightarrow> c \<notin> refs s' t n" unfolding rf' by (auto simp: remove_exports_def keeps_export_def)
  ultimately show ?thesis by blast
qed

text \<open>C5: removing an export keeps metadata and kernel in step: after a successful
  \<open>DeleteVolumeExport\<close> every volume is still exported to exactly the addresses it has references
  for, no address but the client lost its export, and a removal without labels removes the client.\<close>

theorem DeleteVolumeExport_in_sync:
  assumes ex: "nfs_exporter (st_exporter s)" and inv: "sys_inv w s" and sync: "in_sync w s"
    and m: "map_of (cache (st_volumes s)) (key t n) = Some m" and sp: "no_space (Dir (st_volumes s) t n)"
    and cv: "DeleteVolumeExport t n c ls (w, s) = (None, w', s')"
  shows "in_sync w' s' \<and> refs s t n - {c} \<subseteq> refs s' t n \<and> refs s' t n \<subseteq> refs s t n \<and> (ls = None \<longrightarrow> c \<notin> refs s' t n)"
  by (rule DeleteVolumeExport_sync[OF assms])

text \<open>The demo agent with the volume exported to two clients, the second one a node of a cluster.\<close>

definition demo_node_labels :: labels where
  "demo_node_labels = [(''kubernetes.node.name'', ''node2''), (''kubernetes.pv.name'', ''v''), (''kubernetes.pv.storageclassname'', ''fast''),
     (''created-by'', ''k8s'')]"

definition demo_meta2 :: VolumeMetadata where
  "demo_meta2 = demo_meta\<lparr>vm_Exports := [\<lparr>ex_IP = ''10.0.0.1'', ex_Labels = demo_labels, ex_CreatedAt = 7\<rparr>,
     \<lparr>ex_IP = ''10.0.0.2'', ex_Labels = demo_node_labels, ex_CreatedAt = 7\<rparr>]\<rparr>"

definition demo_state2 :: state where
  "demo_state2 = (demo_world\<lparr>nodes := [(''/d'', new_dir 493), (''/d/t'', new_dir 493), (''/d/t/v'', new_dir 493),
       (''/d/t/v/metadata.json'', FileNode (Doc (MarshalVolume demo_meta2)) True)],
       etab := [(''/d/t/v'', ''10.0.0.1''), (''/d/t/v'', ''10.0.0.2'')]\<rparr>,
     demo_storage\<lparr>st_volumes := \<lparr>cache = [(''t/v'', demo_meta2)], basePath = ''/d'', pathSegments = []\<rparr>\<rparr>)"

lemma demo2_cached: "map_of (cache (st_volumes (snd demo_state2))) (key ''t'' ''v'') = Some demo_meta2"
  by (simp add: demo_state2_def key_def)

lemma demo2_dir: "Dir (st_volumes (snd demo_state2)) ''t'' ''v'' = ''/d/t/v''"
  by code_simp

lemma demo2_meta_ok: "volume_ok demo_meta2"
  by (simp add: demo_meta2_def demo_meta_def demo_labels_def demo_node_labels_def volume_ok_def export_ok_def int64_def keys_distinct_def)

lemma demo2_key: "k = ''t/v'' \<longleftrightarrow> k = key ''t'' ''v''"
  by (simp add: key_def)

lemma demo2_backed: "backed volume_codec (fst demo_state2) (MetaPath (st_volumes (snd demo_state2)) ''t'' ''v'') demo_meta2"
proof -
  have p: "MetaPath (st_volumes (snd demo_state2)) ''t'' ''v'' = ''/d/t/v/metadata.json''" by code_simp
  have "file_content (fst demo_state2) ''/d/t/v/metadata.json'' = Some (Doc (MarshalVolume demo_meta2))"
    by (simp add: file_content_def node_at_def demo_state2_def)
  then show ?thesis unfolding backed_def p
    using vols.encode_decode[OF demo2_meta_ok, of 0] by (auto simp: volume_codec_def)
qed

lemma demo2_inv: "sys_inv (fst demo_state2) (snd demo_state2)"
proof -
  have "store_inv volume_codec volume_ok (fst demo_state2) (st_volumes (snd demo_state2))"
    unfolding store_inv_def
    using demo2_backed demo2_meta_ok demo2_cached
    by (auto simp: store_wf_def demo_state2_def demo2_key[symmetric] split: if_splits)
       (metis demo2_key demo_names(1,2))
  moreover have "store_inv snapshot_codec snapshot_ok (fst demo_state2) (st_snapshots (snd demo_state2))"
    by (simp add: demo_state2_def demo_storage_def store_inv_NewStore)
  ultimately show ?thesis by (simp add: sys_inv_def demo_state2_def demo_storage_def NewStore_def)
qed

lemma demo2_sync: "in_sync (fst demo_state2) (snd demo_state2)"
  unfolding in_sync_def
proof (intro allI impI)
  fix t n ip assume v: "ValidName t" "ValidName n"
  let ?s = "snd demo_state2"
  have d: "Dir (st_volumes ?s) t n = ''/d/t/v'' \<longleftrightarrow> t = ''t'' \<and> n = ''v''"
    using Dir_inject[OF sys_invD(3)[OF demo2_inv] v, of "''t''" "''v''"] demo2_dir by simp
  have k: "key t n = ''t/v'' \<longleftrightarrow> t = ''t'' \<and> n = ''v''"
    using key_inject[OF v(1), of "''t''" n "''v''"] by (simp add: key_def)
  have e: "set (etab (fst demo_state2)) = {(''/d/t/v'', ''10.0.0.1''), (''/d/t/v'', ''10.0.0.2'')}"
    by (simp add: demo_state2_def)
  have c: "cache (st_volumes ?s) = [(''t/v'', demo_meta2)]" by (simp add: demo_state2_def)
  show "(Dir (st_volumes ?s) t n, ip) \<in> set (etab (fst demo_state2)) \<longleftrightarrow> ip \<in> refs ?s t n"
    unfolding e refs_def c using d k by (auto simp: demo_meta2_def)
qed

theorem DeleteVolumeExport_in_sync_witness:
  "\<exists>w' s'. DeleteVolumeExport ''t'' ''v'' ''10.0.0.1'' None (fst demo_state2, snd demo_state2) = (None, w', s') \<and>
     in_sync w' s' \<and> ''10.0.0.1'' \<notin> refs s' ''t'' ''v'' \<and> ''10.0.0.2'' \<in> refs s' ''t'' ''v''"
proof -
  have "fst (DeleteVolumeExport ''t'' ''v'' ''10.0.0.1'' None demo_state2) = None" by code_simp
  then obtain w' s' where e: "DeleteVolumeExport ''t'' ''v'' ''10.0.0.1'' None (fst demo_state2, snd demo_state2) = (None, w', s')"
    by (metis prod.collapse)
  have ex: "nfs_exporter (st_exporter (snd demo_state2))"
    using demo_exporter_laws by (simp add: demo_state2_def demo_storage_def)
  have sp: "no_space (Dir (st_volumes (snd demo_state2)) ''t'' ''v'')" unfolding demo2_dir by (simp add: no_space_def is_space_def)
  have "''10.0.0.2'' \<in> refs (snd demo_state2) ''t'' ''v''" by (simp add: refs_def demo2_cached demo_meta2_def)
  then show ?thesis
    using DeleteVolumeExport_in_sync[OF ex demo2_inv demo2_sync demo2_cached sp e] e by blast
qed

end
