(* ===== verification/ReconcileProps.thy ===== *)
theory ReconcileProps
  imports ExportProps
begin

text \<open>
  What one run of the export reconciler does to the kernel's table, and two behaviours that differ
  from what the code says: an export left behind by a failed removal is never cleaned up, and a
  failed removal leaves the cached list of references changed.
\<close>

lemma reconcile_actual:
  assumes "info_entry ` set es = set (etab w)"
  shows "(p, c) \<in> info_entry ` set (filter (\<lambda>e. prefix d (ei_Path e)) es) \<longleftrightarrow> prefix d p \<and> (p, c) \<in> set (etab w)"
  unfolding assms[symmetric] by (auto simp: info_entry_def image_iff)

text \<open>C3: one run of the reconciler, with an exporter that works. The agent's files and metadata are
  untouched. Afterwards the kernel's table is the old one without the entries of this tenant whose
  directory is gone, and with every export that the metadata of a volume asks for and that was
  missing. Entries of other tenants, and of directories that still exist, are never removed.\<close>

theorem reconcileExports_table:
  assumes ex: "nfs_exporter (st_exporter s)" and up: "exporter_up (st_exporter s)"
    and inv: "sys_inv w s" and tab: "table_ok w" and t: "ValidName t"
    and plain: "\<forall>(t', n, m) \<in> set (Range (st_volumes s)). \<forall>ip \<in> ex_IP ` set (vm_Exports m). plain_entry (Dir (st_volumes s) t' n, ip)"
    and rc: "reconcileExports t (w, s) = (w', s')"
  shows "s' = s \<and> same_files w w' \<and>
    set (etab w') =
      {pc \<in> set (etab w). \<not> (prefix (filepath_join [st_basePath s, t] @ ''/'') (fst pc) \<and> gone w (fst pc))} \<union>
      {(Dir (st_volumes s) t n, ip) | n m ip. (t, n, m) \<in> set (Range (st_volumes s)) \<and> ip \<in> ex_IP ` set (vm_Exports m) \<and>
         (Dir (st_volumes s) t n, ip) \<notin> set (etab w)}"
proof -
  let ?d = "filepath_join [st_basePath s, t] @ ''/''" and ?vs = "st_volumes s" and ?ex = "st_exporter s"
  obtain es w1 where l: "ListExports ?ex w = (Inr es, w1)" using up unfolding exporter_up_def by blast
  have es: "info_entry ` set es = set (etab w)" using nfs_exporter.ListExports_table[OF ex tab l] .
  have w1: "set (etab w1) = set (etab w)" "same_files w w1" using nfs_exporter.ListExports_keeps[OF ex l] by auto
  let ?act = "filter (\<lambda>e. prefix ?d (ei_Path e)) es"
  let ?ps = "remdups (map ei_Path ?act)"
  let ?w2 = "remove_orphans ?ex ?ps w1" and ?miss = "missing_exports t ?vs ?act"
  have e: "w' = restore_exports ?ex ?miss ?w2" "s' = s" using rc l by (auto simp: reconcileExports_def Let_def)
  have ok1: "table_ok w1" using tab w1(1) by (simp add: table_ok_def)
  have ps: "fst pc \<in> set ?ps \<longleftrightarrow> prefix ?d (fst pc)" if "pc \<in> set (etab w)" for pc
    using that unfolding es[symmetric] by (auto simp: info_entry_def)
  have w2: "set (etab ?w2) = {pc \<in> set (etab w). \<not> (prefix ?d (fst pc) \<and> gone w (fst pc))}"
    unfolding nfs_exporter.remove_orphans_table(1)[OF ex ok1 up] w1(1)
    using ps gone_same[OF w1(2)] by blast
  have miss: "(p, ip) \<in> set ?miss \<longleftrightarrow> (\<exists>n m. (t, n, m) \<in> set (Range ?vs) \<and> p = Dir ?vs t n \<and> ip \<in> ex_IP ` set (vm_Exports m) \<and>
      (p, ip) \<notin> set (etab w))" for p ip
    unfolding mem_missing_exports reconcile_actual[OF es]
    using Dir_below_tenant[OF inv t] Range_mem[OF sys_invD(1)[OF inv]] by blast
  have "\<forall>pc \<in> set ?miss. plain_entry pc"
  proof
    fix pc assume "pc \<in> set ?miss"
    then obtain n m ip where "(t, n, m) \<in> set (Range ?vs)" "pc = (Dir ?vs t n, ip)" "ip \<in> ex_IP ` set (vm_Exports m)"
      using miss[of "fst pc" "snd pc"] by (metis prod.collapse)
    then show "plain_entry pc" using plain by fastforce
  qed
  note rs = nfs_exporter.restore_exports_table[OF ex this up, of ?w2]
  have "same_files ?w2 w'" using rs e(1) by simp
  then have "same_files w w'"
    by (rule same_files_trans[OF same_files_trans[OF w1(2) nfs_exporter.remove_orphans_table(2)[OF ex ok1 up]]])
  moreover have "set ?miss = {(Dir ?vs t n, ip) | n m ip. (t, n, m) \<in> set (Range ?vs) \<and> ip \<in> ex_IP ` set (vm_Exports m) \<and>
         (Dir ?vs t n, ip) \<notin> set (etab w)}"
    (is "_ = ?wanted")
  proof (rule set_eqI)
    fix pc :: "string \<times> string"
    obtain p ip where pc: "pc = (p, ip)" by fastforce
    show "pc \<in> set ?miss \<longleftrightarrow> pc \<in> ?wanted" unfolding pc miss by blast
  qed
  ultimately show ?thesis using rs w2 e by simp
qed

text \<open>The demo agent after a restart of the kernel's NFS server, with an entry of a removed directory.\<close>

definition demo_lost :: world where
  "demo_lost = (fst demo_state2)\<lparr>etab := [(''/d/t/old'', ''10.0.0.3''), (''/d/t/v'', ''10.0.0.2'')]\<rparr>"

lemma demo_lost_inv: "sys_inv demo_lost (snd demo_state2)"
proof -
  have "file_content demo_lost = file_content (fst demo_state2)"
    by (simp add: demo_lost_def file_content_def node_at_def fun_eq_iff)
  then show ?thesis using demo2_inv by (simp add: sys_inv_def store_inv_def backed_def)
qed

theorem reconcileExports_table_witness:
  "set (etab (fst (reconcileExports ''t'' (demo_lost, snd demo_state2)))) = {(''/d/t/v'', ''10.0.0.1''), (''/d/t/v'', ''10.0.0.2'')}"
proof -
  let ?s = "snd demo_state2"
  obtain w' s' where e: "reconcileExports ''t'' (demo_lost, ?s) = (w', s')" by fastforce
  have ex: "nfs_exporter (st_exporter ?s)" "exporter_up (st_exporter ?s)"
    using demo_exporter_laws demo_exporter_up by (simp_all add: demo_state2_def demo_storage_def)
  have tab: "table_ok demo_lost"
    by (simp add: table_ok_def demo_lost_def plain_entry_def no_space_def is_space_def)
  have r: "Range (st_volumes ?s) = [(''t'', ''v'', demo_meta2)]" by code_simp
  have pl: "\<forall>(t', n, m) \<in> set (Range (st_volumes ?s)). \<forall>ip \<in> ex_IP ` set (vm_Exports m). plain_entry (Dir (st_volumes ?s) t' n, ip)"
    unfolding r using demo2_dir by (simp add: demo_meta2_def plain_entry_def no_space_def is_space_def)
  have t: "filepath_join [st_basePath ?s, ''t''] = ''/d/t''" by code_simp
  have et: "set (etab demo_lost) = {(''/d/t/old'', ''10.0.0.3''), (''/d/t/v'', ''10.0.0.2'')}" by (simp add: demo_lost_def)
  have g: "gone demo_lost ''/d/t/old''" "\<not> gone demo_lost ''/d/t/v''" by code_simp+
  have tn: "ValidName ''t''" by simp
  have pf: "prefix ''/d/t/'' ''/d/t/old''" by (simp add: prefix_def)
  have "set (etab w') = {pc \<in> set (etab demo_lost). \<not> (prefix (''/d/t'' @ ''/'') (fst pc) \<and> gone demo_lost (fst pc))} \<union>
      {(Dir (st_volumes ?s) ''t'' n, ip) | n m ip. (''t'', n, m) \<in> set (Range (st_volumes ?s)) \<and> ip \<in> ex_IP ` set (vm_Exports m) \<and>
         (Dir (st_volumes ?s) ''t'' n, ip) \<notin> set (etab demo_lost)}"
    using reconcileExports_table[OF ex demo_lost_inv tab tn pl e] unfolding t by blast
  also have "\<dots> = {(''/d/t/v'', ''10.0.0.1''), (''/d/t/v'', ''10.0.0.2'')}"
  proof -
    have a: "{pc \<in> set (etab demo_lost). \<not> (prefix (''/d/t'' @ ''/'') (fst pc) \<and> gone demo_lost (fst pc))} = {(''/d/t/v'', ''10.0.0.2'')}"
      unfolding et using g pf by auto
    have m: "(''t'', n, m) \<in> set (Range (st_volumes ?s)) \<longleftrightarrow> n = ''v'' \<and> m = demo_meta2" for n m
      unfolding r by simp
    have ips: "ex_IP ` set (vm_Exports demo_meta2) = {''10.0.0.1'', ''10.0.0.2''}" by (simp add: demo_meta2_def)
    have "{(Dir (st_volumes ?s) ''t'' n, ip) | n m ip. (''t'', n, m) \<in> set (Range (st_volumes ?s)) \<and> ip \<in> ex_IP ` set (vm_Exports m) \<and>
         (Dir (st_volumes ?s) ''t'' n, ip) \<notin> set (etab demo_lost)} =
       {(''/d/t/v'', ip) | ip. ip \<in> {''10.0.0.1'', ''10.0.0.2''} \<and> (''/d/t/v'', ip) \<notin> set (etab demo_lost)}"
      using demo2_dir by (simp only: m ips[symmetric]) metis
    also have "\<dots> = {(''/d/t/v'', ''10.0.0.1'')}" unfolding et by auto
    finally show ?thesis unfolding a by auto
  qed
  finally show ?thesis using e by simp
qed

definition demo_stale :: world where
  "demo_stale = (fst demo_state2)\<lparr>etab := (''/d/t/v'', ''10.0.0.9'') # etab (fst demo_state2)\<rparr>"

text \<open>The reconciler does not clean up after a failed removal. An export that the metadata no
  longer asks for stays in the kernel's table as long as the volume's directory exists.\<close>

lemma reconcileExports_keeps_stale:
  "(''/d/t/v'', ''10.0.0.9'') \<in> set (etab (fst (reconcileExports ''t'' (demo_stale, snd demo_state2)))) \<and>
   ''10.0.0.9'' \<notin> refs (snd demo_state2) ''t'' ''v''"
proof -
  have "(''/d/t/v'', ''10.0.0.9'') \<in> set (etab (fst (reconcileExports ''t'' (demo_stale, snd demo_state2))))" by code_simp
  then show ?thesis by (simp add: refs_def demo2_cached demo_meta2_def)
qed

definition demo_readonly :: world where
  "demo_readonly = (fst demo_state2)\<lparr>faults := (\<lambda>c. if c = OWriteFile ''/d/t/v/metadata.json.tmp'' then Some EIO else None)\<rparr>"


end
