(* ===== verification/BtrfsParse.thy ===== *)
theory BtrfsParse
  imports Btrfs Nfs
begin

text \<open>
  The parsers of \<open>agent/storage/btrfs/utils.go\<close> for the output of the \<open>btrfs\<close> program, and the
  queries of \<open>agent/storage/btrfs/btrfs.go\<close> that use them. Parsing of floating-point text
  (\<open>strconv.ParseFloat\<close>, for the data ratio) is a parameter.
\<close>

section \<open>Data\<close>

record DeviceErrors =
  de_Device :: string
  de_ReadErrs :: u64
  de_WriteErrs :: u64
  de_FlushErrs :: u64
  de_CorruptionErrs :: u64
  de_GenerationErrs :: u64

record BTRFSDevice =
  bd_DevID :: string
  bd_Device :: string
  bd_Missing :: bool
  bd_SizeBytes :: u64
  bd_AllocatedBytes :: u64
  bd_Errors :: DeviceErrors

record 'f FilesystemUsage =
  fu_TotalBytes :: u64
  fu_UnallocatedBytes :: u64
  fu_UsedBytes :: u64
  fu_FreeBytes :: u64
  fu_DataRatio :: 'f
  fu_MetadataUsedBytes :: u64
  fu_MetadataTotalBytes :: u64

record QgroupInfo =
  qi_Referenced :: u64
  qi_Exclusive :: u64

record ScrubStatus =
  ss_DataBytesScrubbed :: u64
  ss_TreeBytesScrubbed :: u64
  ss_ReadErrors :: u64
  ss_CSumErrors :: u64
  ss_VerifyErrors :: u64
  ss_SuperErrors :: u64
  ss_UncorrectableErrs :: u64
  ss_CorrectedErrs :: u64
  ss_Running :: bool

record subvolEntry =
  sv_ID :: string
  sv_Path :: string

definition HasErrors :: "BTRFSDevice \<Rightarrow> bool" where
  "HasErrors d = (let e = bd_Errors d in
     de_ReadErrs e > 0 \<or> de_WriteErrs e > 0 \<or> de_FlushErrs e > 0 \<or> de_CorruptionErrs e > 0 \<or> de_GenerationErrs e > 0)"

definition no_errors :: "string \<Rightarrow> DeviceErrors" where
  "no_errors device = \<lparr>de_Device = device, de_ReadErrs = 0, de_WriteErrs = 0, de_FlushErrs = 0,
     de_CorruptionErrs = 0, de_GenerationErrs = 0\<rparr>"

text \<open>\<open>strconv.ParseUint\<close> in base 10 with 64 bits.\<close>

definition parse_u64 :: "string \<Rightarrow> u64 option" where
  "parse_u64 s = (case parse_uint 10 64 s of Inl _ \<Rightarrow> None | Inr n \<Rightarrow> Some (of_nat n))"

text \<open>The value that \<open>strconv.ParseUint\<close> returns beside an error the caller ignores.\<close>

definition parse_u64_val :: "string \<Rightarrow> u64" where
  "parse_u64_val s = of_nat (parse_uint_val 10 64 s)"

section \<open>Devices\<close>

definition parse_device :: "string \<Rightarrow> string + BTRFSDevice option" where
  "parse_device line0 =
     (let line = trim_space line0 in
      if \<not> prefix ''devid'' line then Inr None
      else let fs = str_fields line in
        if length fs < 2 then Inr None
        else (case cut_last '' path '' line of
                None \<Rightarrow> Inr None
              | Some (_, rest) \<Rightarrow>
                  let pathPart = trim_space rest;
                      missing = suffix ''MISSING'' pathPart;
                      path = (if missing then trim_space (trim_suffix pathPart ''MISSING'') else pathPart);
                      full = length fs \<ge> 8
                  in if full \<and> \<not> missing \<and> (parse_u64 (fs ! 3) = None \<or> parse_u64 (fs ! 5) = None)
                     then Inl ''failed to parse size/used fields''
                     else Inr (Some \<lparr>bd_DevID = fs ! 1, bd_Device = trim_space path, bd_Missing = missing,
                       bd_SizeBytes = (if full then parse_u64_val (fs ! 3) else 0),
                       bd_AllocatedBytes = (if full then parse_u64_val (fs ! 5) else 0),
                       bd_Errors = no_errors []\<rparr>)))"

fun parse_device_lines :: "string list \<Rightarrow> string + BTRFSDevice list" where
  "parse_device_lines [] = Inr []"
| "parse_device_lines (l # ls) = (case parse_device l of
       Inl e \<Rightarrow> Inl e
     | Inr d \<Rightarrow> (case parse_device_lines ls of
         Inl e \<Rightarrow> Inl e
       | Inr ds \<Rightarrow> Inr (case d of None \<Rightarrow> ds | Some x \<Rightarrow> x # ds)))"

definition parseDevices :: "string \<Rightarrow> string + BTRFSDevice list" where
  "parseDevices out = (case parse_device_lines (split_on newline out) of
       Inl e \<Rightarrow> Inl e
     | Inr ds \<Rightarrow> if ds = [] then Inl ''no devices found in btrfs filesystem show output'' else Inr ds)"

section \<open>Device errors\<close>

definition set_error :: "string \<Rightarrow> u64 \<Rightarrow> DeviceErrors \<Rightarrow> DeviceErrors" where
  "set_error key val e =
     (if key = ''write_io_errs'' then e\<lparr>de_WriteErrs := val\<rparr>
      else if key = ''read_io_errs'' then e\<lparr>de_ReadErrs := val\<rparr>
      else if key = ''flush_io_errs'' then e\<lparr>de_FlushErrs := val\<rparr>
      else if key = ''corruption_errs'' then e\<lparr>de_CorruptionErrs := val\<rparr>
      else if key = ''generation_errs'' then e\<lparr>de_GenerationErrs := val\<rparr>
      else e)"

text \<open>\<open>cur\<close> always points to the last element of the list.\<close>

fun parse_error_lines :: "DeviceErrors list \<Rightarrow> string list \<Rightarrow> string + DeviceErrors list" where
  "parse_error_lines acc [] = Inr acc"
| "parse_error_lines acc (l # ls) =
     (let line = trim_space l in
      if line = [] then parse_error_lines acc ls
      else (case cut ''].'' line of
              None \<Rightarrow> parse_error_lines acc ls
            | Some (devicePart, rest) \<Rightarrow>
                let device = trim_prefix devicePart ''['';
                    acc1 = (if acc = [] \<or> de_Device (last acc) \<noteq> device then acc @ [no_errors device] else acc)
                in (case str_fields rest of
                      [k, v] \<Rightarrow> (case parse_u64 v of
                          None \<Rightarrow> Inl ''parse error''
                        | Some val \<Rightarrow> parse_error_lines (butlast acc1 @ [set_error k val (last acc1)]) ls)
                    | _ \<Rightarrow> parse_error_lines acc1 ls)))"

definition parseDeviceErrors :: "string \<Rightarrow> string + DeviceErrors list" where
  "parseDeviceErrors out = (case parse_error_lines [] (split_on newline out) of
       Inl e \<Rightarrow> Inl e
     | Inr es \<Rightarrow> if es = [] then Inl ''no device found in btrfs device stats output'' else Inr es)"

section \<open>File system usage\<close>

text \<open>The prefix before the first of the given bytes, when that byte is not the first one
  (\<open>strings.Index\<close> or \<open>strings.IndexAny\<close> with \<open>> 0\<close>).\<close>

definition before_any :: "string \<Rightarrow> string \<Rightarrow> string" where
  "before_any s stops =
     (let p = takeWhile (\<lambda>c. c \<notin> set stops) s in if p = s \<or> p = [] then s else p)"

definition parseKVBytes :: "string \<Rightarrow> (string \<times> u64) option" where
  "parseKVBytes line = (case cut '':'' line of
       None \<Rightarrow> None
     | Some (k, rawVal) \<Rightarrow>
         let raw = trim_space rawVal;
             raw = (if before_any raw ''('' = raw then raw else trim_space (before_any raw ''(''))
         in map_option (Pair (trim_space k)) (parse_u64 raw))"

definition profile_value :: "string \<Rightarrow> string \<Rightarrow> u64" where
  "profile_value marker line = (case cut marker line of
       None \<Rightarrow> 0
     | Some (_, after) \<Rightarrow> (case parse_u64 (trim_space (before_any after [CHR '','', space, tab])) of None \<Rightarrow> 0 | Some v \<Rightarrow> v))"

definition parseProfileSizeUsed :: "string \<Rightarrow> u64 \<times> u64" where
  "parseProfileSizeUsed line = (profile_value ''Size:'' line, profile_value ''Used:'' line)"

definition set_usage :: "string \<Rightarrow> u64 \<Rightarrow> 'f FilesystemUsage \<Rightarrow> 'f FilesystemUsage" where
  "set_usage key val fu =
     (if key = ''Device size'' then fu\<lparr>fu_TotalBytes := val\<rparr>
      else if key = ''Device unallocated'' then fu\<lparr>fu_UnallocatedBytes := val\<rparr>
      else if key = ''Used'' then fu\<lparr>fu_UsedBytes := val\<rparr>
      else if key = ''Free (estimated)'' then fu\<lparr>fu_FreeBytes := val\<rparr>
      else fu)"

text \<open>A line inside the overall section that is not the data ratio, or any line outside of it,
  falls through to the test for the metadata profile.\<close>

definition usage_profile :: "string \<Rightarrow> 'f FilesystemUsage \<Rightarrow> 'f FilesystemUsage" where
  "usage_profile trimmed fu =
     (if prefix ''Metadata,'' trimmed
      then (case parseProfileSizeUsed trimmed of (sz, used) \<Rightarrow> fu\<lparr>fu_MetadataTotalBytes := sz, fu_MetadataUsedBytes := used\<rparr>)
      else fu)"

definition usage_line :: "(string \<Rightarrow> 'f option) \<Rightarrow> string \<Rightarrow> bool \<times> 'f FilesystemUsage \<Rightarrow> bool \<times> 'f FilesystemUsage" where
  "usage_line parseFloat line st = (case st of (inOverall, fu) \<Rightarrow>
     let trimmed = trim_space line in
     if prefix ''Overall:'' trimmed then (True, fu)
     else if inOverall then
       (if trimmed = [] then (False, fu)
        else if prefix ''Data ratio:'' trimmed then
          (True, (case cut '':'' trimmed of
                    None \<Rightarrow> fu
                  | Some (_, val) \<Rightarrow> (case parseFloat (trim_space val) of None \<Rightarrow> fu | Some v \<Rightarrow> fu\<lparr>fu_DataRatio := v\<rparr>)))
        else (case parseKVBytes trimmed of
                None \<Rightarrow> (True, fu)
              | Some (k, v) \<Rightarrow> (True, usage_profile trimmed (set_usage k v fu))))
     else (False, usage_profile trimmed fu))"

definition parseFilesystemUsage :: "(string \<Rightarrow> 'f option) \<Rightarrow> 'f \<Rightarrow> string \<Rightarrow> 'f FilesystemUsage" where
  "parseFilesystemUsage parseFloat zero out =
     snd (fold (usage_line parseFloat) (split_on newline out)
       (False, \<lparr>fu_TotalBytes = 0, fu_UnallocatedBytes = 0, fu_UsedBytes = 0, fu_FreeBytes = 0, fu_DataRatio = zero,
          fu_MetadataUsedBytes = 0, fu_MetadataTotalBytes = 0\<rparr>))"

section \<open>Scrub status\<close>

definition scrub_line :: "string \<Rightarrow> ScrubStatus \<Rightarrow> ScrubStatus" where
  "scrub_line line s = (case cut '':'' (trim_space line) of
       None \<Rightarrow> s
     | Some (k, v) \<Rightarrow>
         let key = trim_space k; val = trim_space v in
         if key = ''Status'' then s\<lparr>ss_Running := (val = ''running'')\<rparr>
         else if key = ''data_bytes_scrubbed'' then s\<lparr>ss_DataBytesScrubbed := parse_u64_val val\<rparr>
         else if key = ''tree_bytes_scrubbed'' then s\<lparr>ss_TreeBytesScrubbed := parse_u64_val val\<rparr>
         else if key = ''read_errors'' then s\<lparr>ss_ReadErrors := parse_u64_val val\<rparr>
         else if key = ''csum_errors'' then s\<lparr>ss_CSumErrors := parse_u64_val val\<rparr>
         else if key = ''verify_errors'' then s\<lparr>ss_VerifyErrors := parse_u64_val val\<rparr>
         else if key = ''super_errors'' then s\<lparr>ss_SuperErrors := parse_u64_val val\<rparr>
         else if key = ''uncorrectable_errors'' then s\<lparr>ss_UncorrectableErrs := parse_u64_val val\<rparr>
         else if key = ''corrected_errors'' then s\<lparr>ss_CorrectedErrs := parse_u64_val val\<rparr>
         else s)"

definition parseScrubStatus :: "string \<Rightarrow> ScrubStatus" where
  "parseScrubStatus out = fold scrub_line (split_on newline out)
     \<lparr>ss_DataBytesScrubbed = 0, ss_TreeBytesScrubbed = 0, ss_ReadErrors = 0, ss_CSumErrors = 0, ss_VerifyErrors = 0,
      ss_SuperErrors = 0, ss_UncorrectableErrs = 0, ss_CorrectedErrs = 0, ss_Running = False\<rparr>"

section \<open>Subvolumes and quota groups\<close>

definition parse_subvol_line :: "string \<Rightarrow> subvolEntry option" where
  "parse_subvol_line line =
     (if line = [] then None
      else let fs = str_fields line in
        if length fs < 9 \<or> fs ! 0 \<noteq> ''ID'' then None
        else (case cut '' path '' line of
                None \<Rightarrow> None
              | Some (_, path) \<Rightarrow> Some \<lparr>sv_ID = fs ! 1, sv_Path = path\<rparr>))"

definition parseSubvolumeListFull :: "string \<Rightarrow> subvolEntry list" where
  "parseSubvolumeListFull out = List.map_filter parse_subvol_line (split_on newline (trim_space out))"

fun parse_qgroup_lines :: "(string \<times> QgroupInfo) list \<Rightarrow> string list \<Rightarrow> string + (string \<times> QgroupInfo) list" where
  "parse_qgroup_lines acc [] = Inr acc"
| "parse_qgroup_lines acc (l # ls) =
     (case str_fields l of
        i # r # e # _ \<Rightarrow>
          if \<not> contains i ''/'' then parse_qgroup_lines acc ls
          else (case parse_u64 r of
                  None \<Rightarrow> Inl ''parse referenced bytes''
                | Some rv \<Rightarrow> (case parse_u64 e of
                    None \<Rightarrow> Inl ''parse exclusive bytes''
                  | Some ev \<Rightarrow> parse_qgroup_lines (AList.update i \<lparr>qi_Referenced = rv, qi_Exclusive = ev\<rparr> acc) ls))
      | _ \<Rightarrow> parse_qgroup_lines acc ls)"

definition parseQgroupMap :: "string \<Rightarrow> string + (string \<times> QgroupInfo) list" where
  "parseQgroupMap out = parse_qgroup_lines [] (split_on newline out)"

section \<open>Queries\<close>

text \<open>Running a command for its output.\<close>

definition query :: "manager \<Rightarrow> string list \<Rightarrow> world \<Rightarrow> (string + string) \<times> world" where
  "query m args w = (case cmd m (bin m) args w of ((out, err), w') \<Rightarrow>
     (case err of Some e \<Rightarrow> Inl e | None \<Rightarrow> Inr out, w'))"

definition Devices :: "manager \<Rightarrow> string \<Rightarrow> world \<Rightarrow> (string + BTRFSDevice list) \<times> world" where
  "Devices m path w = (case query m [''filesystem'', ''show'', ''--raw'', path] w of (r, w') \<Rightarrow>
     (case r of Inl e \<Rightarrow> Inl e | Inr out \<Rightarrow> parseDevices out, w'))"

definition DeviceErrorsOf :: "manager \<Rightarrow> string \<Rightarrow> world \<Rightarrow> (string + DeviceErrors list) \<times> world" where
  "DeviceErrorsOf m path w = (case query m [''device'', ''stats'', path] w of (r, w') \<Rightarrow>
     (case r of Inl e \<Rightarrow> Inl e | Inr out \<Rightarrow> parseDeviceErrors out, w'))"

definition FilesystemUsageOf :: "(string \<Rightarrow> 'f option) \<Rightarrow> 'f \<Rightarrow> manager \<Rightarrow> string \<Rightarrow> world \<Rightarrow> (string + 'f FilesystemUsage) \<times> world" where
  "FilesystemUsageOf parseFloat zero m path w = (case query m [''filesystem'', ''usage'', ''-b'', path] w of (r, w') \<Rightarrow>
     (case r of Inl e \<Rightarrow> Inl e | Inr out \<Rightarrow> Inr (parseFilesystemUsage parseFloat zero out), w'))"

definition ScrubStatusOf :: "manager \<Rightarrow> string \<Rightarrow> world \<Rightarrow> (string + ScrubStatus) \<times> world" where
  "ScrubStatusOf m path w = (case query m [''scrub'', ''status'', ''-R'', path] w of (r, w') \<Rightarrow>
     (case r of Inl e \<Rightarrow> Inl e | Inr out \<Rightarrow> Inr (parseScrubStatus out), w'))"

fun subvol_id :: "string list \<Rightarrow> string" where
  "subvol_id [] = []"
| "subvol_id (l # ls) = (if prefix ''Subvolume ID:'' (trim_space l)
     then trim_space (drop (length ''Subvolume ID:'') (trim_space l)) else subvol_id ls)"

definition QgroupUsageEx :: "manager \<Rightarrow> string \<Rightarrow> world \<Rightarrow> (string + QgroupInfo) \<times> world" where
  "QgroupUsageEx m path w = (case query m [''subvolume'', ''show'', path] w of
       (Inl e, w1) \<Rightarrow> (Inl e, w1)
     | (Inr showOut, w1) \<Rightarrow>
         let subvolID = subvol_id (split_on newline showOut) in
         if subvolID = [] then (Inl ''subvolume ID not found'', w1)
         else (case query m [''qgroup'', ''show'', ''-re'', ''--raw'', path] w1 of
                 (Inl e, w2) \<Rightarrow> (Inl e, w2)
               | (Inr out, w2) \<Rightarrow>
                   (case parseQgroupMap out of
                      Inl e \<Rightarrow> (Inl e, w2)
                    | Inr qgroups \<Rightarrow> (case map_of qgroups (''0/'' @ subvolID) of
                        None \<Rightarrow> (Inl ''qgroup not found'', w2)
                      | Some info \<Rightarrow> (Inr info, w2)))))"

definition QgroupUsage :: "manager \<Rightarrow> string \<Rightarrow> world \<Rightarrow> (string + u64) \<times> world" where
  "QgroupUsage m path w = (case QgroupUsageEx m path w of
     (Inl e, w') \<Rightarrow> (Inl e, w') | (Inr info, w') \<Rightarrow> (Inr (qi_Referenced info), w'))"

fun join_usage :: "(string \<times> QgroupInfo) list \<Rightarrow> subvolEntry list \<Rightarrow> (string \<times> QgroupInfo) list \<Rightarrow> (string \<times> QgroupInfo) list" where
  "join_usage qgroups [] acc = acc"
| "join_usage qgroups (sv # svs) acc = join_usage qgroups svs
     (case map_of qgroups (''0/'' @ sv_ID sv) of None \<Rightarrow> acc | Some info \<Rightarrow> AList.update (sv_Path sv) info acc)"

definition QgroupUsageBulk :: "manager \<Rightarrow> string \<Rightarrow> world \<Rightarrow> (string + (string \<times> QgroupInfo) list) \<times> world" where
  "QgroupUsageBulk m path w = (case query m [''subvolume'', ''list'', ''-o'', path] w of
       (Inl e, w1) \<Rightarrow> (Inl (''subvolume list: '' @ e), w1)
     | (Inr listOut, w1) \<Rightarrow>
         (case query m [''qgroup'', ''show'', ''-re'', ''--raw'', path] w1 of
            (Inl e, w2) \<Rightarrow> (Inl (''qgroup show: '' @ e), w2)
          | (Inr qgroupOut, w2) \<Rightarrow>
              (case parseQgroupMap qgroupOut of
                 Inl e \<Rightarrow> (Inl e, w2)
               | Inr qgroups \<Rightarrow> (Inr (join_usage qgroups (parseSubvolumeListFull listOut) []), w2))))"

definition SubvolumeList :: "manager \<Rightarrow> string \<Rightarrow> world \<Rightarrow> (string + string list) \<times> world" where
  "SubvolumeList m path w = (case query m [''subvolume'', ''list'', ''-o'', path] w of (r, w') \<Rightarrow>
     (case r of Inl e \<Rightarrow> Inl e | Inr out \<Rightarrow> Inr (map sv_Path (parseSubvolumeListFull out)), w'))"

section \<open>Printed and parsed\<close>

text \<open>The lines \<open>btrfs subvolume list\<close> and \<open>btrfs qgroup show\<close> print.\<close>

record subvol_row =
  sr_id :: nat
  sr_gen :: nat
  sr_top :: nat
  sr_path :: string

definition dec :: "nat \<Rightarrow> string" where "dec n = show_base 10 n"

definition print_subvol :: "subvol_row \<Rightarrow> string" where
  "print_subvol e = ''ID '' @ dec (sr_id e) @ '' gen '' @ dec (sr_gen e) @ '' top level '' @ dec (sr_top e) @ '' path '' @ sr_path e"

definition print_subvols :: "subvol_row list \<Rightarrow> string" where
  "print_subvols es = join_with [newline] (map print_subvol es @ [[]])"

definition print_qgroup :: "nat \<times> QgroupInfo \<Rightarrow> string" where
  "print_qgroup q = (case q of (i, info) \<Rightarrow>
     ''0/'' @ dec i @ ''        '' @ dec (unat (qi_Referenced info)) @ ''        '' @ dec (unat (qi_Exclusive info)))"

definition print_qgroups :: "(nat \<times> QgroupInfo) list \<Rightarrow> string" where
  "print_qgroups qs = join_with [newline]
     ([''qgroupid         rfer         excl'', ''--------         ----         ----''] @ map print_qgroup qs @ [[]])"

text \<open>A subvolume path as btrfs prints it on one line, without spaces at its ends.\<close>

definition printable_path :: "string \<Rightarrow> bool" where
  "printable_path p = (p \<noteq> [] \<and> newline \<notin> set p \<and> \<not> is_space (hd p) \<and> \<not> is_space (last p))"

lemma digit_char_plain:
  assumes "d < 10"
  shows "\<not> is_space (digit_char d)" "digit_char d \<noteq> CHR ''p''" "digit_char d \<noteq> CHR ''/''"
  using digit_val_char[OF assms] by (auto simp: digit_val_def is_space_def less_eq_char_def)

lemma dec_no_space [simp]: "no_space (dec n)" "dec n \<noteq> []"
  using show_base_digits[of 10 _ n] digit_char_plain(1) by (auto simp: dec_def no_space_def list_all_iff)

lemma dec_hd: "hd (dec n) \<noteq> CHR ''p''" "\<not> is_space (hd (dec n))"
  using show_base_head[of 10 n] digit_char_plain(1,2) by (auto simp: dec_def)

lemma no_space_set: "no_space w \<Longrightarrow> CHR '' '' \<notin> set w \<and> newline \<notin> set w"
  by (auto simp: no_space_def list_all_iff is_space_def newline_def)

lemma parse_u64_dec [simp]: "parse_u64 (dec (unat x)) = Some x"
proof -
  have "unat x < 2 ^ 64" using unsigned_less[where 'a = nat, of x] by simp
  then show ?thesis by (simp add: parse_u64_def dec_def parse_uint_show)
qed

lemma is_space_blank [simp]: "is_space CHR '' ''"
  by (simp add: is_space_def)

lemma fields_word_blank [simp]: "w \<noteq> [] \<Longrightarrow> no_space w \<Longrightarrow> str_fields (w @ CHR '' '' # r) = w # str_fields r"
  by (rule fields_two) auto

lemma fields_blank [simp]: "str_fields (CHR '' '' # r) = str_fields r"
  by (rule fields_space) simp

lemma fields_not_Nil: "p \<noteq> [] \<Longrightarrow> \<not> is_space (hd p) \<Longrightarrow> str_fields p \<noteq> []"
  by (subst str_fields.simps) (cases p, auto simp: Let_def)

lemma cut_skip_word:
  "c \<notin> set w \<Longrightarrow> cut (c # x) (w @ r) = map_option (\<lambda>(a, b). (w @ a, b)) (cut (c # x) r)"
  by (cases "cut (c # x) r"; induction w) auto

lemma literal_no_space: "no_space ''ID''" "no_space ''gen''" "no_space ''top''" "no_space ''level''" "no_space ''path''"
  by code_simp+

lemma literal_words:
  "str_fields (''ID '' @ r) = ''ID'' # str_fields r" "str_fields ('' gen '' @ r) = ''gen'' # str_fields r"
  "str_fields ('' top level '' @ r) = ''top'' # ''level'' # str_fields r" "str_fields ('' path '' @ r) = ''path'' # str_fields r"
  using fields_word_blank[OF _ literal_no_space(1)] fields_word_blank[OF _ literal_no_space(2)] fields_word_blank[OF _ literal_no_space(3)]
    fields_word_blank[OF _ literal_no_space(4)] fields_word_blank[OF _ literal_no_space(5)]
  by simp_all

lemma fields_word_then_blank: "w \<noteq> [] \<Longrightarrow> no_space w \<Longrightarrow> str_fields (w @ CHR '' '' # r) = w # str_fields (CHR '' '' # r)"
  by simp

lemma parse_print_subvol:
  assumes "printable_path (sr_path e)"
  shows "parse_subvol_line (print_subvol e) = Some \<lparr>sv_ID = dec (sr_id e), sv_Path = sr_path e\<rparr>"
proof -
  let ?p = "sr_path e"
  have f: "str_fields (print_subvol e) = [''ID'', dec (sr_id e), ''gen'', dec (sr_gen e), ''top'', ''level'', dec (sr_top e), ''path''] @ str_fields ?p"
    unfolding print_subvol_def literal_words
    by (simp add: fields_word_then_blank literal_words[simplified])
  have n: "str_fields ?p \<noteq> []" using assms fields_not_Nil by (simp add: printable_path_def)
  have np: "\<not> prefix '' path '' (CHR '' '' # dec n @ r)" for n r
    using dec_hd(1)[of n] by (cases "dec n") (use dec_no_space(2)[of n] in auto)
  have "cut '' path '' (print_subvol e) = Some (''ID '' @ dec (sr_id e) @ '' gen '' @ dec (sr_gen e) @ '' top level '' @ dec (sr_top e), ?p)"
    unfolding print_subvol_def
    using np no_space_set[OF dec_no_space(1)] by (simp add: cut_skip_word)
  then show ?thesis using f n
    by (simp add: parse_subvol_line_def Let_def) (simp add: print_subvol_def length_greater_0_conv[symmetric] del: length_greater_0_conv)
qed

lemma trim_both:
  assumes "s \<noteq> []" "\<not> is_space (hd s)" "\<not> is_space (last s)"
  shows "trim_space s = s" "is_space c \<Longrightarrow> trim_space (s @ [c]) = s"
proof -
  have "dropWhile is_space s = s" "dropWhile is_space (s @ r) = s @ r" for r using assms(1,2) by (cases s; simp)+
  moreover have "dropWhile is_space (rev s) = rev s" using assms(1,3) by (cases s rule: rev_cases) auto
  ultimately show "trim_space s = s" "is_space c \<Longrightarrow> trim_space (s @ [c]) = s" by (auto simp: trim_space_def)
qed

lemma print_subvol_ends:
  assumes "printable_path (sr_path e)"
  shows "print_subvol e \<noteq> []" "\<not> is_space (hd (print_subvol e))" "\<not> is_space (last (print_subvol e))" "newline \<notin> set (print_subvol e)"
  using assms no_space_set[OF dec_no_space(1)]
  by (auto simp: print_subvol_def printable_path_def is_space_def newline_def)

lemma join_ends:
  assumes "xs \<noteq> []" "\<forall>x \<in> set xs. x \<noteq> [] \<and> \<not> P (hd x) \<and> \<not> P (last x)"
  shows "join_with s xs \<noteq> [] \<and> \<not> P (hd (join_with s xs)) \<and> \<not> P (last (join_with s xs))"
  using assms by (induction s xs rule: join_with.induct) auto

lemma parse_print_subvols:
  assumes "\<forall>e \<in> set es. printable_path (sr_path e)"
  shows "parseSubvolumeListFull (print_subvols es) = map (\<lambda>e. \<lparr>sv_ID = dec (sr_id e), sv_Path = sr_path e\<rparr>) es"
proof (cases "es = []")
  case True
  then show ?thesis
    by (simp add: parseSubvolumeListFull_def print_subvols_def trim_space_def parse_subvol_line_def map_filter_simps)
next
  case False
  let ?j = "join_with [newline] (map print_subvol es)"
  have j: "?j \<noteq> [] \<and> \<not> is_space (hd ?j) \<and> \<not> is_space (last ?j)"
    by (rule join_ends) (use False assms print_subvol_ends in auto)
  have "print_subvols es = ?j @ [newline]" using False by (simp add: print_subvols_def join_with_append)
  then have "trim_space (print_subvols es) = ?j" using trim_both(2)[of ?j newline] j by simp
  moreover have "split_on newline ?j = map print_subvol es"
    by (rule split_join) (use False assms print_subvol_ends(4) in auto)
  ultimately have "parseSubvolumeListFull (print_subvols es) = List.map_filter parse_subvol_line (map print_subvol es)"
    by (simp add: parseSubvolumeListFull_def)
  also have "\<dots> = map (\<lambda>e. \<lparr>sv_ID = dec (sr_id e), sv_Path = sr_path e\<rparr>) es"
    using assms by (induction es) (simp_all add: map_filter_simps parse_print_subvol)
  finally show ?thesis .
qed

lemma contains_slash: "contains (CHR ''0'' # CHR ''/'' # r) ''/''"
  by (simp add: contains_single)

lemma no_space_qid: "no_space (''0/'' @ dec i)"
  using dec_no_space(1)[of i] by (simp add: no_space_def is_space_def)

lemma fields_last: "no_space w \<Longrightarrow> w \<noteq> [] \<Longrightarrow> str_fields w = [w]"
  by (rule fields_single)

lemma print_qgroup_fields:
  "str_fields (print_qgroup (i, info)) = [''0/'' @ dec i, dec (unat (qi_Referenced info)), dec (unat (qi_Exclusive info))]"
  using fields_word_blank[OF _ no_space_qid[of i]]
  by (simp add: print_qgroup_def fields_last)

lemma qgroup_info_eta [simp]: "\<lparr>qi_Referenced = qi_Referenced b, qi_Exclusive = qi_Exclusive b\<rparr> = (b :: QgroupInfo)"
  by (cases b) simp

lemma parse_print_qgroups:
  "parse_qgroup_lines acc (map print_qgroup qs @ [[]]) =
     Inr (foldl (\<lambda>m (i, info). AList.update (''0/'' @ dec i) info m) acc qs)"
  by (induction qs arbitrary: acc) (auto simp: print_qgroup_fields contains_slash)

lemma dec_inject: "dec i = dec j \<longleftrightarrow> i = j"
proof
  assume e: "dec i = dec j"
  have "parse_digits 10 (max i j) 0 (dec i) = Inr i" "parse_digits 10 (max i j) 0 (dec j) = Inr j"
    unfolding dec_def by (rule parse_show_digits; simp)+
  then show "i = j" unfolding e by simp
qed simp

lemma foldl_update_lookup:
  "distinct (map fst qs) \<Longrightarrow>
     map_of (foldl (\<lambda>m (i, info). AList.update (''0/'' @ dec i) info m) acc qs) (''0/'' @ dec i) =
     (case map_of qs i of Some info \<Rightarrow> Some info | None \<Rightarrow> map_of acc (''0/'' @ dec i))"
proof (induction qs arbitrary: acc)
  case (Cons q qs)
  obtain j info where q: "q = (j, info)" by fastforce
  have "map_of qs j = None" using Cons.prems q by (simp add: map_of_eq_None_iff)
  then show ?case using Cons q by (auto simp: map_of_update dec_inject split: option.splits)
qed simp

lemma join_usage_lookup:
  "distinct (map sv_Path svs) \<Longrightarrow>
     map_of (join_usage qg svs acc) p =
       (case find (\<lambda>sv. sv_Path sv = p) svs of
          None \<Rightarrow> map_of acc p
        | Some sv \<Rightarrow> (case map_of qg (''0/'' @ sv_ID sv) of None \<Rightarrow> map_of acc p | Some info \<Rightarrow> Some info))"
proof (induction svs arbitrary: acc)
  case (Cons sv svs)
  have "find (\<lambda>sv'. sv_Path sv' = sv_Path sv) svs = None"
    using Cons.prems by (auto simp: find_None_iff) (metis image_eqI)
  then show ?case using Cons by (auto simp: map_of_update split: option.splits)
qed simp

lemma find_distinct: "distinct (map f xs) \<Longrightarrow> x \<in> set xs \<Longrightarrow> find (\<lambda>y. f y = f x) xs = Some x"
  by (induction xs) force+

text \<open>C11: the usage of all subvolumes, from two commands, is the usage of each. When \<open>btrfs\<close> prints
  its subvolumes (each with its own path) and its quota groups (each once), \<open>QgroupUsageBulk\<close>
  succeeds and maps the path of every subvolume to the usage of the quota group of that subvolume,
  and to nothing when it has none.\<close>

theorem QgroupUsageBulk_correct:
  assumes "query m [''subvolume'', ''list'', ''-o'', path] w = (Inr (print_subvols es), w1)"
    and "query m [''qgroup'', ''show'', ''-re'', ''--raw'', path] w1 = (Inr (print_qgroups qs), w2)"
    and "\<forall>e \<in> set es. printable_path (sr_path e)" "distinct (map sr_path es)" "distinct (map fst qs)"
  shows "\<exists>usage. QgroupUsageBulk m path w = (Inr usage, w2) \<and>
    (\<forall>e \<in> set es. map_of usage (sr_path e) = map_of qs (sr_id e))"
proof -
  let ?qg = "foldl (\<lambda>m (i, info). AList.update (''0/'' @ dec i) info m) [] qs"
  let ?svs = "map (\<lambda>e. \<lparr>sv_ID = dec (sr_id e), sv_Path = sr_path e\<rparr>) es"
  have nl: "\<forall>x \<in> set (map print_qgroup qs). newline \<notin> set x"
    using no_space_set[OF dec_no_space(1)] by (auto simp: print_qgroup_def newline_def split: prod.splits)
  have "split_on newline (print_qgroups qs) =
      [''qgroupid         rfer         excl'', ''--------         ----         ----''] @ map print_qgroup qs @ [[]]"
    unfolding print_qgroups_def by (rule split_join) (use nl in \<open>auto simp: newline_def\<close>)
  moreover have "parse_qgroup_lines [] ([''qgroupid         rfer         excl'', ''--------         ----         ----''] @ map print_qgroup qs @ [[]]) = Inr ?qg"
  proof -
    have h: "str_fields ''qgroupid         rfer         excl'' = [''qgroupid'', ''rfer'', ''excl'']"
      "str_fields ''--------         ----         ----'' = [''--------'', ''----'', ''----'']" by code_simp+
    show ?thesis unfolding append_Cons append_Nil parse_qgroup_lines.simps h list.case
      using parse_print_qgroups[of "[]" qs] by (simp add: contains_single)
  qed
  ultimately have q: "parseQgroupMap (print_qgroups qs) = Inr ?qg" by (simp add: parseQgroupMap_def)
  have u: "QgroupUsageBulk m path w = (Inr (join_usage ?qg ?svs []), w2)"
    using assms(1,2) q parse_print_subvols[OF assms(3)] by (simp add: QgroupUsageBulk_def)
  have d: "distinct (map sv_Path ?svs)" using assms(4) by (simp add: comp_def)
  have "map_of (join_usage ?qg ?svs []) (sr_path e) = map_of qs (sr_id e)" if "e \<in> set es" for e
  proof -
    let ?sv = "\<lparr>sv_ID = dec (sr_id e), sv_Path = sr_path e\<rparr>"
    have "find (\<lambda>sv. sv_Path sv = sv_Path ?sv) ?svs = Some ?sv" by (rule find_distinct[OF d]) (use that in auto)
    then show ?thesis using join_usage_lookup[OF d, of ?qg "[]" "sr_path e"] foldl_update_lookup[OF assms(5), of "[]" "sr_id e"]
      by (simp split: option.splits)
  qed
  then show ?thesis using u by blast
qed

definition empty_world :: world where
  "empty_world = \<lparr>nodes = [], faults = (\<lambda>_. None), now = 0, etab = []\<rparr>"

definition bulk_rows :: "subvol_row list" where
  "bulk_rows = [\<lparr>sr_id = 259, sr_gen = 12, sr_top = 5, sr_path = ''t/v/data''\<rparr>]"

definition bulk_groups :: "(nat \<times> QgroupInfo) list" where
  "bulk_groups = [(5, \<lparr>qi_Referenced = 1, qi_Exclusive = 1\<rparr>), (259, \<lparr>qi_Referenced = 16384, qi_Exclusive = 8192\<rparr>)]"

definition bulk_manager :: manager where
  "bulk_manager = \<lparr>bin = ''btrfs'', cmd = (\<lambda>b args w.
     if args = [''subvolume'', ''list'', ''-o'', ''/d''] then ((print_subvols bulk_rows, None), w)
     else ((print_qgroups bulk_groups, None), w))\<rparr>"

theorem QgroupUsageBulk_correct_witness:
  "\<exists>usage. QgroupUsageBulk bulk_manager ''/d'' empty_world = (Inr usage, empty_world) \<and>
     map_of usage ''t/v/data'' = Some \<lparr>qi_Referenced = 16384, qi_Exclusive = 8192\<rparr>"
proof -
  have q: "query bulk_manager [''subvolume'', ''list'', ''-o'', ''/d''] empty_world = (Inr (print_subvols bulk_rows), empty_world)"
    "query bulk_manager [''qgroup'', ''show'', ''-re'', ''--raw'', ''/d''] empty_world = (Inr (print_qgroups bulk_groups), empty_world)"
    by (simp_all add: query_def bulk_manager_def)
  show ?thesis
    using QgroupUsageBulk_correct[OF q] by (simp add: bulk_rows_def bulk_groups_def printable_path_def is_space_def newline_def)
qed

end
