(* ===== verification/Usage.thy ===== *)
theory Usage
  imports Volumes BtrfsParse
begin

text \<open>
  The usage updater of \<open>agent/storage/usage.go\<close>: it copies the owner, mode and used bytes that the
  file system reports into the metadata of every volume of a tenant, and the used and exclusive
  bytes into that of every snapshot. The timer loop is in \<open>Workers\<close>, the gauges are in \<open>Metrics\<close>.
\<close>

section \<open>Definitions\<close>

fun drop_common :: "'a list \<Rightarrow> 'a list \<Rightarrow> 'a list \<times> 'a list" where
  "drop_common (x # xs) (y # ys) = (if x = y then drop_common xs ys else (x # xs, y # ys))"
| "drop_common xs ys = (xs, ys)"

text \<open>\<open>filepath.Rel\<close>; the code ignores its error and then uses the empty string.\<close>

definition filepath_rel :: "string \<Rightarrow> string \<Rightarrow> string" where
  "filepath_rel base target =
     (if is_rooted base \<noteq> is_rooted target then []
      else case drop_common (path_comps base) (path_comps target) of (bs, ts) \<Rightarrow>
        if ''..'' \<in> set bs then [] else render False (replicate (length bs) ''..'' @ ts))"

definition bulk_usage :: "world \<Rightarrow> storage \<Rightarrow> (string \<times> QgroupInfo) list option \<times> world" where
  "bulk_usage w s =
     (if \<not> st_quotaEnabled s then (None, w)
      else (case QgroupUsageBulk (st_btrfs s) (st_mountPoint s) w of
              (Inl e, w1) \<Rightarrow> (None, w1)
            | (Inr usage, w1) \<Rightarrow> (Some usage, w1)))"

definition fs_mode :: "attr \<Rightarrow> string" where
  "fs_mode a = show_base 8 (unat (unixMode (at_mode a)))"

definition sync_meta :: "attr \<Rightarrow> u64 \<Rightarrow> int \<Rightarrow> VolumeMetadata \<Rightarrow> VolumeMetadata" where
  "sync_meta a used t m = m\<lparr>vm_UID := at_uid a, vm_GID := at_gid a, vm_Mode := fs_mode a, vm_UsedBytes := used, vm_UpdatedAt := t\<rparr>"

definition owner_drift :: "attr \<Rightarrow> VolumeMetadata \<Rightarrow> bool" where
  "owner_drift a m = (at_uid a \<noteq> vm_UID m \<or> at_gid a \<noteq> vm_GID m \<or> fs_mode a \<noteq> vm_Mode m)"

text \<open>What the scan of one volume finds: nothing to do, or the attributes and used bytes to record.
  Without usage data the used bytes are 0.\<close>

definition volume_drift :: "(string \<times> QgroupInfo) list option \<Rightarrow> string \<Rightarrow> string \<Rightarrow> VolumeMetadata \<Rightarrow> world \<Rightarrow> (attr \<times> u64) option" where
  "volume_drift usage mount data meta w = (case os_stat data w of
       Inr (DirNode a) \<Rightarrow>
         (if vm_QuotaBytes meta > 0 \<and> usage \<noteq> None then
            (case map_of (the usage) (filepath_rel mount data) of
               None \<Rightarrow> None
             | Some qi \<Rightarrow>
                 if owner_drift a meta \<or> qi_Referenced qi \<noteq> vm_UsedBytes meta then Some (a, qi_Referenced qi) else None)
          else if owner_drift a meta then Some (a, 0) else None)
     | _ \<Rightarrow> None)"

definition sync_volume :: "(string \<times> QgroupInfo) list option \<Rightarrow> string \<Rightarrow> string \<times> VolumeMetadata \<Rightarrow> state \<Rightarrow> state" where
  "sync_volume usage tenant entry st = (case st of (w, s) \<Rightarrow> (case entry of (name, meta) \<Rightarrow>
     (case volume_drift usage (st_mountPoint s) (DataPath (st_volumes s) tenant name) meta w of
        None \<Rightarrow> st
      | Some (a, used) \<Rightarrow>
          (case Update volume_codec tenant name (sync_meta a used (now w)) id (w, st_volumes s) of
             (r, w1, vs) \<Rightarrow> (w1, s\<lparr>st_volumes := vs\<rparr>)))))"

definition snapshot_sync_meta :: "QgroupInfo \<Rightarrow> int \<Rightarrow> SnapshotMetadata \<Rightarrow> SnapshotMetadata" where
  "snapshot_sync_meta qi t m = m\<lparr>sm_UsedBytes := qi_Referenced qi, sm_ExclusiveBytes := qi_Exclusive qi, sm_UpdatedAt := t\<rparr>"

definition sync_snapshot :: "(string \<times> QgroupInfo) list option \<Rightarrow> string \<Rightarrow> string \<times> SnapshotMetadata \<Rightarrow> state \<Rightarrow> state" where
  "sync_snapshot usage tenant entry st = (case st of (w, s) \<Rightarrow> (case entry of (name, meta) \<Rightarrow>
     (case usage of
        None \<Rightarrow> st
      | Some u \<Rightarrow>
          (case map_of u (filepath_rel (st_mountPoint s) (DataPath (st_snapshots s) tenant name)) of
             None \<Rightarrow> st
           | Some qi \<Rightarrow>
               if qi_Referenced qi = sm_UsedBytes meta \<and> qi_Exclusive qi = sm_ExclusiveBytes meta then st
               else (case Update snapshot_codec tenant name (snapshot_sync_meta qi (now w)) id (w, st_snapshots s) of
                       (r, w1, ss) \<Rightarrow> (w1, s\<lparr>st_snapshots := ss\<rparr>))))))"

definition tenant_entries :: "string \<Rightarrow> 'a store \<Rightarrow> (string \<times> 'a) list" where
  "tenant_entries tenant st = map snd (filter (\<lambda>(t, _). t = tenant) (Range st))"

definition updateAll :: "string \<Rightarrow> state \<Rightarrow> state" where
  "updateAll tenant st = (case st of (w, s) \<Rightarrow>
     (case bulk_usage w s of (usage, w1) \<Rightarrow>
        (case fold (sync_volume usage tenant) (tenant_entries tenant (st_volumes s)) (w1, s) of (w2, s2) \<Rightarrow>
           fold (sync_snapshot usage tenant) (tenant_entries tenant (st_snapshots s2)) (w2, s2))))"

section \<open>Invariant\<close>

lemma sync_meta_ok: "int64 (at_uid a) \<Longrightarrow> int64 (at_gid a) \<Longrightarrow> volume_ok m \<Longrightarrow> volume_ok (sync_meta a used t m)"
  by (simp add: sync_meta_def volume_ok_def)

lemma snapshot_sync_meta_ok: "snapshot_ok m \<Longrightarrow> snapshot_ok (snapshot_sync_meta qi t m)"
  by (simp add: snapshot_sync_meta_def snapshot_ok_def)

text \<open>Owners that a file system reports fit 64 bits.\<close>

definition owners_ok :: "world \<Rightarrow> bool" where
  "owners_ok w \<longleftrightarrow> (\<forall>p a. node_at w p = Some (DirNode a) \<longrightarrow> int64 (at_uid a) \<and> int64 (at_gid a))"

lemma volume_drift_attr:
  assumes "owners_ok w" "volume_drift usage mount data meta w = Some (a, used)"
  shows "int64 (at_uid a) \<and> int64 (at_gid a)"
proof -
  have "node_at w data = Some (DirNode a)"
    using assms(2) by (auto simp: volume_drift_def os_stat_def split: option.splits sum.splits node.splits if_splits)
  then show ?thesis using assms(1) by (auto simp: owners_ok_def)
qed

lemma tenant_entries_valid:
  assumes "store_inv cd ok w st" "(n, m) \<in> set (tenant_entries t st)"
  shows "ValidName t \<and> ValidName n"
proof -
  have "(t, n, m) \<in> set (Range st)" using assms(2) by (auto simp: tenant_entries_def)
  then obtain k v where kv: "(k, v) \<in> set (cache st)" "range_entry (k, v) = (t, n, m)" by (auto simp: Range_def)
  then obtain v' where "map_of (cache st) k = Some v'" using weak_map_of_SomeI by metis
  with assms(1) obtain t' n' where "ValidName t'" "ValidName n'" "k = key t' n'" unfolding store_inv_def by blast
  then show ?thesis using kv(2) range_entry_key[of t' n' v] by simp
qed

lemma sync_volume_inv:
  assumes inv: "sys_inv w s" and o: "owners_ok w" and tn: "ValidName t" "ValidName n" "n \<noteq> SnapshotsDir"
    and sv: "sync_volume usage t (n, m) (w, s) = (w', s')"
  shows "sys_inv w' s' \<and> within (Dir (st_volumes s) t n) w w' \<and> same_paths (st_volumes s) (st_volumes s')"
proof (cases "volume_drift usage (st_mountPoint s) (DataPath (st_volumes s) t n) m w")
  case None
  then show ?thesis using sv inv by (simp add: sync_volume_def)
next
  case (Some au)
  obtain a used where au: "au = (a, used)" by fastforce
  obtain r w1 vs where u: "Update volume_codec t n (sync_meta a used (now w)) id (w, st_volumes s) = (r, w1, vs)"
    using prod_cases3 by blast
  have e: "w' = w1 \<and> s' = s\<lparr>st_volumes := vs\<rparr>" using sv Some au u by (simp add: sync_volume_def)
  have ok: "volume_ok (sync_meta a used (now w) v)" if "volume_ok v" for v
    using volume_drift_attr[OF o, of usage _ _ m a used] Some au sync_meta_ok that by blast
  have i: "store_inv volume_codec volume_ok w1 vs" using vols.Update_inv[OF sys_invD(1)[OF inv] tn(1,2) ok _ u] by simp
  have win: "within (Dir (st_volumes s) t n) w w1" using vols.Update_within[OF sys_invD(3)[OF inv] tn(1,2) u] .
  show ?thesis using e win sys_inv_volumes[OF inv tn win i same_paths_Update[OF u]] same_paths_Update[OF u] by simp
qed

lemma sync_snapshot_inv:
  assumes inv: "sys_inv w s" and tn: "ValidName t" "ValidName n"
    and sv: "sync_snapshot usage t (n, m) (w, s) = (w', s')"
  shows "sys_inv w' s'"
proof (cases "\<exists>u qi. usage = Some u \<and> map_of u (filepath_rel (st_mountPoint s) (DataPath (st_snapshots s) t n)) = Some qi \<and>
    \<not> (qi_Referenced qi = sm_UsedBytes m \<and> qi_Exclusive qi = sm_ExclusiveBytes m)")
  case False
  then have "w' = w \<and> s' = s" using sv by (auto simp: sync_snapshot_def split: option.splits if_splits)
  then show ?thesis using inv by simp
next
  case True
  then obtain u qi where q: "usage = Some u" "map_of u (filepath_rel (st_mountPoint s) (DataPath (st_snapshots s) t n)) = Some qi"
      "\<not> (qi_Referenced qi = sm_UsedBytes m \<and> qi_Exclusive qi = sm_ExclusiveBytes m)" by blast
  obtain r w1 ss where up: "Update snapshot_codec t n (snapshot_sync_meta qi (now w)) id (w, st_snapshots s) = (r, w1, ss)"
    using prod_cases3 by blast
  have e: "w' = w1 \<and> s' = s\<lparr>st_snapshots := ss\<rparr>" using sv q up by (simp add: sync_snapshot_def)
  have i: "store_inv snapshot_codec snapshot_ok w1 ss"
    using snaps.Update_inv[OF sys_invD(2)[OF inv] tn snapshot_sync_meta_ok _ up] by simp
  show ?thesis
    using e sys_inv_snapshots[OF inv tn snaps.Update_within[OF sys_invD(4)[OF inv] tn up] i same_paths_Update[OF up]] by simp
qed

text \<open>A metadata write makes files only, so the owners of directories stay as they are.\<close>

lemma writeJSONAtomic_dirs:
  assumes "node_at (snd (writeJSONAtomic cd p v w)) q = Some (DirNode a)"
  shows "node_at w q = Some (DirNode a)"
proof (cases "q \<noteq> p \<and> q \<noteq> p @ ''.tmp''")
  case True
  then show ?thesis using assms writeJSONAtomic_other by metis
next
  case False
  let ?tmp = "p @ ''.tmp''"
  obtain e w1 where w1: "os_write_file ?tmp (Doc (marshal cd v)) w = (e, w1)" by fastforce
  show ?thesis
  proof (cases e)
    case (Some x)
    then have "w1 = w" using w1 os_write_file_err by metis
    then show ?thesis using assms w1 Some by (simp add: writeJSONAtomic_def Let_def)
  next
    case None
    have w1e: "w1 = set_node ?tmp (FileNode (Doc (marshal cd v)) False) w" using os_write_file_ok w1 None by simp
    obtain e2 w2 where w2: "os_rename ?tmp p (toggleImmutable p False w1) = (e2, w2)" by fastforce
    have tg: "node_at (toggleImmutable p b x) r = Some (DirNode a) \<Longrightarrow> node_at x r = Some (DirNode a)" for b x r
      by (auto simp: toggleImmutable_def split: option.splits node.splits if_splits)
    have rm: "node_at (snd (os_remove ?tmp x)) r = Some (DirNode a) \<Longrightarrow> node_at x r = Some (DirNode a)" for x r
      by (auto simp: os_remove_def split: option.splits if_splits)
    show ?thesis
    proof (cases e2)
      case (Some y)
      then have "node_at w2 q = Some (DirNode a)" using assms w1 w2 None rm by (simp add: writeJSONAtomic_def Let_def)
      then have "node_at (toggleImmutable p False w1) q = Some (DirNode a)" using os_rename_err w2 Some by metis
      then show ?thesis using tg w1e by (fastforce split: if_splits)
    next
      case None
      then have "node_at w2 q = Some (DirNode a)" using assms w1 w2 \<open>e = None\<close> tg by (simp add: writeJSONAtomic_def Let_def)
      moreover obtain n where n: "node_at (toggleImmutable p False w1) ?tmp = Some n" "w2 = set_node p n (drop_node ?tmp (toggleImmutable p False w1))"
        using os_rename_ok w2 None by blast
      moreover have "n = FileNode (Doc (marshal cd v)) False" using n(1) w1e by simp
      ultimately show ?thesis using False by (auto split: if_splits)
    qed
  qed
qed

lemma owners_ok_Update:
  assumes "owners_ok w" "Update cd t n fn al (w, s) = (r, w', s')"
  shows "owners_ok w'"
proof -
  have "w' = w \<or> (\<exists>v. w' = snd (writeJSONAtomic cd (MetaPath s t n) v w))"
    using assms(2) by (auto simp: Update_def split: prod.splits option.splits sum.splits) (metis snd_conv)+
  then show ?thesis using assms(1) writeJSONAtomic_dirs unfolding owners_ok_def by metis
qed

lemma owners_ok_sync_volume:
  assumes "owners_ok w" "sync_volume usage t e (w, s) = (w', s')"
  shows "owners_ok w'"
  using assms
  by (auto simp: sync_volume_def split: prod.splits option.splits dest: owners_ok_Update)

lemma fold_sync_volumes:
  assumes "sys_inv w s" "owners_ok w" "\<forall>(n, m) \<in> set es. ValidName n \<and> n \<noteq> SnapshotsDir" "ValidName t"
    and "fold (sync_volume usage t) es (w, s) = (w', s')"
  shows "sys_inv w' s' \<and> owners_ok w'"
  using assms
proof (induction es arbitrary: w s)
  case (Cons e es)
  obtain n m where e: "e = (n, m)" by fastforce
  obtain w1 s1 where sv: "sync_volume usage t (n, m) (w, s) = (w1, s1)" by fastforce
  have "sys_inv w1 s1" using sync_volume_inv[OF Cons.prems(1,2) Cons.prems(4) _ _ sv] Cons.prems(3) e by simp
  moreover have "owners_ok w1" using owners_ok_sync_volume[OF Cons.prems(2) sv] .
  ultimately show ?case using Cons.IH[of w1 s1] Cons.prems e sv by simp
qed simp

lemma fold_sync_snapshots:
  assumes "sys_inv w s" "\<forall>(n, m) \<in> set es. ValidName n" "ValidName t"
    and "fold (sync_snapshot usage t) es (w, s) = (w', s')"
  shows "sys_inv w' s'"
  using assms
proof (induction es arbitrary: w s)
  case (Cons e es)
  obtain n m where e: "e = (n, m)" by fastforce
  obtain w1 s1 where sv: "sync_snapshot usage t (n, m) (w, s) = (w1, s1)" by fastforce
  have "sys_inv w1 s1" using sync_snapshot_inv[OF Cons.prems(1) Cons.prems(3) _ sv] Cons.prems(2) e by simp
  then show ?case using Cons.IH[of w1 s1] Cons.prems e sv by simp
qed simp

text \<open>The two query commands only read. No volume of the tenant is called \<open>snapshots\<close>.\<close>

lemma updateAll_inv:
  assumes inv: "sys_inv w s" and o: "owners_ok w" and t: "ValidName t"
    and q: "snd (QgroupUsageBulk (st_btrfs s) (st_mountPoint s) w) = w"
    and n: "\<forall>(n, m) \<in> set (tenant_entries t (st_volumes s)). n \<noteq> SnapshotsDir"
    and up: "updateAll t (w, s) = (w', s')"
  shows "sys_inv w' s'"
proof -
  obtain usage w1 where b: "bulk_usage w s = (usage, w1)" by fastforce
  have "w1 = w" using b q by (auto simp: bulk_usage_def split: if_splits prod.splits sum.splits)
  obtain w2 s2 where f: "fold (sync_volume usage t) (tenant_entries t (st_volumes s)) (w, s) = (w2, s2)" by fastforce
  have v: "\<forall>(n, m) \<in> set (tenant_entries t (st_volumes s)). ValidName n \<and> n \<noteq> SnapshotsDir"
    using n tenant_entries_valid[OF sys_invD(1)[OF inv]] by blast
  have i2: "sys_inv w2 s2" using fold_sync_volumes[OF inv o v t f] by blast
  have v2: "\<forall>(n, m) \<in> set (tenant_entries t (st_snapshots s2)). ValidName n"
    using tenant_entries_valid[OF sys_invD(2)[OF i2]] by blast
  show ?thesis using fold_sync_snapshots[OF i2 v2 t] up b f \<open>w1 = w\<close> by (simp add: updateAll_def)
qed

section \<open>Convergence\<close>

lemma sync_meta_settled:
  assumes "volume_drift usage mount data m w = Some (a, used)" "node_at w' data = node_at w data" "faults w' = faults w"
  shows "volume_drift usage mount data (sync_meta a used t m) w' = None"
proof -
  have st: "os_stat data w' = os_stat data w"
    using assms(2,3) by (cases "faults w (OStat data)") (simp_all add: os_stat_def)
  obtain a' where a: "os_stat data w = Inr (DirNode a')" using assms(1)
    by (auto simp: volume_drift_def split: sum.splits node.splits)
  then have "a' = a" using assms(1) by (auto simp: volume_drift_def split: if_splits option.splits)
  then show ?thesis using assms(1) a st
    by (auto simp: volume_drift_def sync_meta_def owner_drift_def split: if_splits option.splits)
qed

end
