(* ===== verification/Mounts.thy ===== *)
theory Mounts
  imports Filesystem
begin

text \<open>
  The mount point lookup of \<open>utils/mount.go\<close>. The text of \<open>/proc/self/mountinfo\<close> and the working
  directory are arguments; reading the file may fail.
\<close>

section \<open>Definitions\<close>

text \<open>\<open>filepath.Abs\<close>, with the working directory as an argument.\<close>

definition filepath_abs :: "string \<Rightarrow> string \<Rightarrow> string" where
  "filepath_abs cwd p = (if is_rooted p then filepath_clean p else filepath_join [cwd, p])"

text \<open>A mount point covers a path when it is a prefix that ends at a component boundary.\<close>

definition mount_covers :: "string \<Rightarrow> string \<Rightarrow> bool" where
  "mount_covers absPath mountPoint =
     (prefix mountPoint absPath \<and>
      \<not> (mountPoint \<noteq> ''/'' \<and> length absPath > length mountPoint \<and> absPath ! length mountPoint \<noteq> CHR ''/''))"

definition mount_line :: "string \<Rightarrow> string \<Rightarrow> string \<Rightarrow> string" where
  "mount_line absPath line best = (let fs = str_fields line in
     if length fs < 5 then best
     else let mountPoint = fs ! 4 in
       if \<not> mount_covers absPath mountPoint then best
       else if length mountPoint > length best then mountPoint else best)"

definition FindMountPoint :: "string \<Rightarrow> errno + string \<Rightarrow> string \<Rightarrow> error + string" where
  "FindMountPoint cwd mountinfo path = (let absPath = filepath_abs cwd path in
     (case mountinfo of
        Inl e \<Rightarrow> Inl (WrappedError ''read mountinfo: '')
      | Inr data \<Rightarrow>
          let bestMount = fold (mount_line absPath) (split_on newline data) [] in
          if bestMount = [] then Inl (WrappedError ''no mount found for '') else Inr bestMount))"

definition IsMountPoint :: "string \<Rightarrow> errno + string \<Rightarrow> string \<Rightarrow> bool" where
  "IsMountPoint cwd mountinfo path = (case FindMountPoint cwd mountinfo path of Inr mp \<Rightarrow> mp = path | Inl _ \<Rightarrow> False)"

section \<open>The longest mount wins\<close>

text \<open>The mount points that a mountinfo text lists.\<close>

definition mount_points :: "string \<Rightarrow> string list" where
  "mount_points data = map (\<lambda>l. str_fields l ! 4) (filter (\<lambda>l. 5 \<le> length (str_fields l)) (split_on newline data))"

lemma mount_line_cases:
  "mount_line p l best = best \<or> (5 \<le> length (str_fields l) \<and> mount_line p l best = str_fields l ! 4 \<and> mount_covers p (str_fields l ! 4))"
  by (auto simp: mount_line_def Let_def)

lemma mount_line_longer:
  "length best \<le> length (mount_line p l best)"
  "5 \<le> length (str_fields l) \<Longrightarrow> mount_covers p (str_fields l ! 4) \<Longrightarrow> length (str_fields l ! 4) \<le> length (mount_line p l best)"
  by (auto simp: mount_line_def Let_def)

lemma fold_mount_line:
  shows "fold (mount_line p) ls best = best \<or>
      (\<exists>l \<in> set ls. 5 \<le> length (str_fields l) \<and> fold (mount_line p) ls best = str_fields l ! 4 \<and> mount_covers p (str_fields l ! 4))"
    and "length best \<le> length (fold (mount_line p) ls best)"
    and "\<forall>l \<in> set ls. 5 \<le> length (str_fields l) \<longrightarrow> mount_covers p (str_fields l ! 4) \<longrightarrow>
      length (str_fields l ! 4) \<le> length (fold (mount_line p) ls best)"
proof (induction ls arbitrary: best)
  case (Cons l ls)
  { case 1 show ?case using Cons(1)[of "mount_line p l best"] mount_line_cases[of p l best] by auto }
  { case 2 show ?case using Cons(2)[of "mount_line p l best"] mount_line_longer(1)[of best p l] by simp }
  { case 3 show ?case using Cons(3)[of "mount_line p l best"] Cons(2)[of "mount_line p l best"] mount_line_longer(2)[of l p best]
      by fastforce }
qed simp_all

text \<open>The lookup returns a listed mount point that covers the absolute path, and no listed mount
  point that covers it is longer; it fails only when no listed mount point covers the path.\<close>

lemma FindMountPoint_longest:
  "case FindMountPoint cwd (Inr data) path of
     Inr mp \<Rightarrow> mp \<in> set (mount_points data) \<and> mount_covers (filepath_abs cwd path) mp \<and>
       (\<forall>m \<in> set (mount_points data). mount_covers (filepath_abs cwd path) m \<longrightarrow> length m \<le> length mp)
   | Inl _ \<Rightarrow> \<not> (\<exists>m \<in> set (mount_points data). mount_covers (filepath_abs cwd path) m)"
proof -
  let ?p = "filepath_abs cwd path" and ?ls = "split_on newline data"
  let ?best = "fold (mount_line ?p) ?ls []"
  note f = fold_mount_line[where p = ?p and ls = ?ls and best = "[]"]
  have upper: "length m \<le> length ?best" if "m \<in> set (mount_points data)" "mount_covers ?p m" for m
    using that f(3) by (auto simp: mount_points_def)
  show ?thesis
  proof (cases "?best = []")
    case True
    have "str_fields l ! 4 \<noteq> []" if "5 \<le> length (str_fields l)" for l
      using fields_no_space[of "str_fields l ! 4" l] that by simp
    then have "m \<noteq> []" if "m \<in> set (mount_points data)" for m
      using that by (auto simp: mount_points_def)
    then show ?thesis using upper True by (fastforce simp: FindMountPoint_def Let_def)
  next
    case False
    then show ?thesis using f(1) upper by (auto simp: FindMountPoint_def Let_def mount_points_def)
  qed
qed

lemma FindMountPoint_longest_witness:
  "FindMountPoint ''/'' (Inr (''1 0 8:1 / /'' @ [newline] @ ''2 1 8:2 / /mnt'' @ [newline] @ ''3 1 8:3 / /mn'')) ''/mnt/d'' = Inr ''/mnt''
   \<and> ''/mnt'' \<in> set (mount_points (''1 0 8:1 / /'' @ [newline] @ ''2 1 8:2 / /mnt'' @ [newline] @ ''3 1 8:3 / /mn''))"
proof -
  let ?d = "''1 0 8:1 / /'' @ [newline] @ ''2 1 8:2 / /mnt'' @ [newline] @ ''3 1 8:3 / /mn''"
  have e: "FindMountPoint ''/'' (Inr ?d) ''/mnt/d'' = Inr ''/mnt''" by code_simp
  show ?thesis using FindMountPoint_longest[where cwd = "''/''" and data = ?d and path = "''/mnt/d''"] e by simp
qed

end
