(* ===== verification/Start.thy ===== *)
theory Start
  imports Snapshots Mounts BtrfsParse "HOL-Library.List_Lexorder"
begin

text \<open>
  The start of the agent's storage layer, from \<open>agent/storage/storage.go\<close>: \<open>New\<close> with its checks,
  the loading of the metadata cache from disk, and the file system figures of a tenant. The
  environment of the process (working directory, mount table, file system type) is an argument.
\<close>

section \<open>Reading directories\<close>

definition child_name :: "string \<Rightarrow> string \<Rightarrow> string option" where
  "child_name d q = (if prefix (d @ ''/'') q then
       let r = drop (Suc (length d)) q in if r \<noteq> [] \<and> CHR ''/'' \<notin> set r then Some r else None
     else None)"

definition is_dir :: "node option \<Rightarrow> bool" where
  "is_dir n = (case n of Some (DirNode _) \<Rightarrow> True | _ \<Rightarrow> False)"

text \<open>\<open>os.ReadDir\<close>: the entries of a directory in the order of their names, each with its \<open>IsDir\<close>.\<close>

definition dir_entries :: "string \<Rightarrow> world \<Rightarrow> (string \<times> bool) list" where
  "dir_entries d w = map (\<lambda>e. (e, is_dir (node_at w (d @ ''/'' @ e))))
     (sort (remdups (List.map_filter (child_name d) (map fst (nodes w)))))"

definition os_read_dir :: "string \<Rightarrow> world \<Rightarrow> errno + (string \<times> bool) list" where
  "os_read_dir d w = (case faults w (OReadDir d) of
       Some e \<Rightarrow> Inl e
     | None \<Rightarrow> (case node_at w d of
                  None \<Rightarrow> Inl ENOENT
                | Some (FileNode _ _) \<Rightarrow> Inl ENOTDIR
                | Some (DirNode _) \<Rightarrow> Inr (dir_entries d w)))"

section \<open>Loading the cache\<close>

definition load_entry :: "'a codec \<Rightarrow> string \<Rightarrow> string \<Rightarrow> world \<times> 'a store \<Rightarrow> world \<times> 'a store" where
  "load_entry cd tenant name st = (case st of (w, s) \<Rightarrow>
     (case os_stat (DataPath s tenant name) w of
        Inl e \<Rightarrow> if os_IsNotExist e then st else snd (LoadFromDisk cd tenant name st)
      | Inr _ \<Rightarrow> snd (LoadFromDisk cd tenant name st)))"

definition load_volume :: "string \<Rightarrow> string \<times> bool \<Rightarrow> state \<Rightarrow> state" where
  "load_volume tenant e st = (case st of (w, s) \<Rightarrow> (case e of (name, dir) \<Rightarrow>
     if \<not> dir \<or> name = SnapshotsDir then st
     else (case load_entry volume_codec tenant name (w, st_volumes s) of (w1, vs) \<Rightarrow> (w1, s\<lparr>st_volumes := vs\<rparr>))))"

definition load_snapshot :: "string \<Rightarrow> string \<times> bool \<Rightarrow> state \<Rightarrow> state" where
  "load_snapshot tenant e st = (case st of (w, s) \<Rightarrow> (case e of (name, dir) \<Rightarrow>
     if \<not> dir then st
     else (case load_entry snapshot_codec tenant name (w, st_snapshots s) of (w1, ss) \<Rightarrow> (w1, s\<lparr>st_snapshots := ss\<rparr>))))"

definition load_volumes :: "string \<Rightarrow> string \<Rightarrow> state \<Rightarrow> state" where
  "load_volumes tenant tenantDir st = (case os_read_dir tenantDir (fst st) of
     Inl _ \<Rightarrow> st | Inr entries \<Rightarrow> fold (load_volume tenant) entries st)"

definition load_snapshots :: "string \<Rightarrow> string \<Rightarrow> state \<Rightarrow> state" where
  "load_snapshots tenant tenantDir st = (case os_read_dir (filepath_join [tenantDir, SnapshotsDir]) (fst st) of
     Inl _ \<Rightarrow> st | Inr entries \<Rightarrow> fold (load_snapshot tenant) entries st)"

definition load_tenant :: "string \<Rightarrow> state \<Rightarrow> state" where
  "load_tenant tenant st = (let tenantDir = filepath_join [st_basePath (snd st), tenant] in
     load_snapshots tenant tenantDir (load_volumes tenant tenantDir st))"

definition loadCache :: "state \<Rightarrow> state" where
  "loadCache st = fold load_tenant (st_tenants (snd st)) st"

section \<open>Construction\<close>

text \<open>What the process finds around it. \<open>en_exporter\<close> is \<open>None\<close> for a nil exporter.\<close>

record environ =
  en_cwd :: string
  en_mountinfo :: "errno + string"
  en_isBtrfs :: "string \<Rightarrow> bool"
  en_btrfs :: manager
  en_exporter :: "exporter option"

fun make_tenants :: "string \<Rightarrow> file_mode \<Rightarrow> string list \<Rightarrow> world \<Rightarrow> string option \<times> world" where
  "make_tenants base mode [] w = (None, w)"
| "make_tenants base mode (name # names) w =
     (if ValidateName name \<noteq> None then (Some ''invalid tenant name'', w)
      else let td = filepath_join [base, name] in
        (case os_mkdir_all td mode w of
           (Some e, w1) \<Rightarrow> (Some ''failed to create tenant directory'', w1)
         | (None, w1) \<Rightarrow>
             (case os_mkdir_all (filepath_join [td, SnapshotsDir]) mode w1 of
                (Some e, w2) \<Rightarrow> (Some ''failed to create tenant snapshots directory'', w2)
              | (None, w2) \<Rightarrow> make_tenants base mode names w2)))"

text \<open>The checks of \<open>New\<close> up to the construction of the storage, each \<open>log.Fatal\<close> an error message.\<close>

definition setup_storage :: "environ \<Rightarrow> string \<Rightarrow> bool \<Rightarrow> string list \<Rightarrow> string \<Rightarrow> string \<Rightarrow> string \<Rightarrow> world \<Rightarrow> string + state" where
  "setup_storage env base quotaEnabled tenants dirMode dataMode immutableLabels w =
     (case parse_uint 8 32 dirMode of
        Inl _ \<Rightarrow> Inl ''invalid dir mode''
      | Inr parsedDirMode \<Rightarrow>
     (case parse_uint 8 32 dataMode of
        Inl _ \<Rightarrow> Inl ''invalid data mode''
      | Inr _ \<Rightarrow>
     (if (case os_stat base w of Inr (DirNode _) \<Rightarrow> False | _ \<Rightarrow> True) then Inl ''base path does not exist or is not a directory''
      else if \<not> en_isBtrfs env base then Inl ''base path is not on a btrfs filesystem''
      else
     (case FindMountPoint (en_cwd env) (en_mountinfo env) base of
        Inl _ \<Rightarrow> Inl ''failed to resolve btrfs mount point''
      | Inr mountPoint \<Rightarrow>
     (case IsAvailable (en_btrfs env) w of
        (False, w1) \<Rightarrow> Inl ''btrfs tools not found''
      | (True, w1) \<Rightarrow>
     (case en_exporter env of
        None \<Rightarrow> Inl ''exporter must not be nil''
      | Some ex \<Rightarrow>
     (case (if quotaEnabled then QuotaCheck (en_btrfs env) base w1 else (None, w1)) of
        (Some e, w2) \<Rightarrow> Inl ''btrfs quota is not enabled''
      | (None, w2) \<Rightarrow>
     (case make_tenants base (of_nat parsedDirMode) tenants w2 of
        (Some e, w3) \<Rightarrow> Inl e
      | (None, w3) \<Rightarrow>
     (case Devices (en_btrfs env) mountPoint w3 of
        (Inl e, w4) \<Rightarrow> Inl ''failed to resolve block devices''
      | (Inr devices, w4) \<Rightarrow>
          Inr (w4, \<lparr>st_basePath = base, st_mountPoint = mountPoint, st_quotaEnabled = quotaEnabled,
                    st_btrfs = en_btrfs env, st_exporter = ex, st_tenants = tenants,
                    st_defaultDirMode = of_nat parsedDirMode, st_defaultDataMode = dataMode,
                    st_immutableLabelKeys = ImmutableLabelKeys immutableLabels,
                    st_volumes = NewStore base [], st_snapshots = NewStore base [SnapshotsDir]\<rparr>))))))))))"

definition New :: "environ \<Rightarrow> string \<Rightarrow> bool \<Rightarrow> string list \<Rightarrow> string \<Rightarrow> string \<Rightarrow> string \<Rightarrow> world \<Rightarrow> string + state" where
  "New env base quotaEnabled tenants dirMode dataMode immutableLabels w =
     (case setup_storage env base quotaEnabled tenants dirMode dataMode immutableLabels w of
        Inl e \<Rightarrow> Inl e | Inr st \<Rightarrow> Inr (loadCache st))"

section \<open>File system figures\<close>

record FsStats =
  fs_TotalBytes :: u64
  fs_UsedBytes :: u64
  fs_FreeBytes :: u64

text \<open>The fields of \<open>statfs(2)\<close> that \<open>Stats\<close> uses; \<open>Bsize\<close> is signed and converted.\<close>

record statfs_t =
  sf_Blocks :: u64
  sf_Bavail :: u64
  sf_Bsize :: "64 word"

definition Stats :: "(string \<Rightarrow> errno + statfs_t) \<Rightarrow> string \<Rightarrow> state \<Rightarrow> error + FsStats" where
  "Stats statfs tenant st = (case st of (w, s) \<Rightarrow>
     (case tenantPath s tenant w of
        Inl e \<Rightarrow> Inl e
      | Inr bp \<Rightarrow>
          (case statfs bp of
             Inl e \<Rightarrow> Inl (WrappedError ''statfs failed: '')
           | Inr t \<Rightarrow>
               let total = sf_Blocks t * sf_Bsize t; free = sf_Bavail t * sf_Bsize t in
               Inr \<lparr>fs_TotalBytes = total, fs_UsedBytes = total - free, fs_FreeBytes = free\<rparr>)))"

section \<open>Loading changes no tree\<close>

text \<open>Loading only sets immutable flags: directories, file contents and names stay.\<close>

definition same_tree :: "world \<Rightarrow> world \<Rightarrow> bool" where
  "same_tree w w' \<longleftrightarrow> faults w' = faults w \<and> now w' = now w \<and> etab w' = etab w \<and> map fst (nodes w') = map fst (nodes w) \<and>
     (\<forall>q. file_content w' q = file_content w q) \<and>
     (\<forall>q a. node_at w' q = Some (DirNode a) \<longleftrightarrow> node_at w q = Some (DirNode a)) \<and>
     (\<forall>q. node_at w' q = None \<longleftrightarrow> node_at w q = None)"

lemma same_tree_refl [simp]: "same_tree w w"
  by (simp add: same_tree_def)

lemma same_tree_trans: "same_tree w w1 \<Longrightarrow> same_tree w1 w2 \<Longrightarrow> same_tree w w2"
  by (simp add: same_tree_def)

lemma same_tree_toggle: "same_tree w (toggleImmutable p b w)"
proof (cases "faults w (OSetFlags p)")
  case None
  show ?thesis
  proof (cases "node_at w p")
    case (Some n)
    then show ?thesis using None node_at_not_key[of w p n]
      by (cases n) (auto simp: same_tree_def toggleImmutable_def set_node_def node_at_def update_keys file_content_def map_of_update
          split: option.splits node.splits if_splits)
  qed (simp add: toggleImmutable_def None)
qed (simp add: toggleImmutable_def)

lemma is_dir_iff: "is_dir n \<longleftrightarrow> (\<exists>a. n = Some (DirNode a))"
  by (auto simp: is_dir_def split: option.splits node.splits)

lemma dir_entries_same: "same_tree w w' \<Longrightarrow> dir_entries d w' = dir_entries d w"
  by (simp add: dir_entries_def same_tree_def is_dir_iff)

lemma os_read_dir_same:
  assumes "same_tree w w'"
  shows "os_read_dir d w' = os_read_dir d w"
proof -
  have f: "faults w' (OReadDir d) = faults w (OReadDir d)" using assms by (simp add: same_tree_def)
  have n: "node_at w' d = None \<longleftrightarrow> node_at w d = None" "\<And>a. node_at w' d = Some (DirNode a) \<longleftrightarrow> node_at w d = Some (DirNode a)"
    using assms by (auto simp: same_tree_def)
  show ?thesis
    using f n dir_entries_same[OF assms, of d]
    by (cases "node_at w d"; cases "node_at w' d") (auto simp: os_read_dir_def split: option.splits node.splits)
qed

lemma LoadFromDisk_tree: "LoadFromDisk cd t n (w, s) = (r, w', s') \<Longrightarrow> same_tree w w' \<and> same_paths s s'"
  by (auto simp: LoadFromDisk_def same_tree_toggle split: sum.splits)

lemma load_entry_tree: "load_entry cd t n (w, s) = (w', s') \<Longrightarrow> same_tree w w' \<and> same_paths s s'"
  by (cases "LoadFromDisk cd t n (w, s)") (auto simp: load_entry_def dest!: LoadFromDisk_tree split: sum.splits if_splits)

section \<open>Invariant of the loaded cache\<close>

lemma load_entry_cases:
  "load_entry cd t n st = st \<or> load_entry cd t n st = snd (LoadFromDisk cd t n st)"
  by (auto simp: load_entry_def split: prod.splits sum.splits)

lemma LoadFromDisk_within:
  assumes "store_wf s" "ValidName t" "ValidName n" "LoadFromDisk cd t n (w, s) = (r, w', s')"
  shows "within (Dir s t n) w w'"
  using assms entry_paths_under[OF assms(1-3)]
  by (auto simp: LoadFromDisk_def within_toggle split: sum.splits)

lemma load_volume_inv:
  assumes inv: "sys_inv w s" and v: "ValidName t" "snd e \<Longrightarrow> ValidName (fst e)"
    and l: "load_volume t e (w, s) = (w', s')"
  shows "sys_inv w' s'"
proof (cases "\<not> snd e \<or> fst e = SnapshotsDir")
  case True
  then show ?thesis using l inv by (auto simp: load_volume_def split: prod.splits if_splits)
next
  case False
  then have n: "ValidName (fst e)" "fst e \<noteq> SnapshotsDir" using v(2) by auto
  obtain w1 vs where le: "load_entry volume_codec t (fst e) (w, st_volumes s) = (w1, vs)" by fastforce
  have e: "w' = w1" "s' = s\<lparr>st_volumes := vs\<rparr>" using False l le by (auto simp: load_volume_def split: prod.splits)
  obtain r w2 s2 where ld: "LoadFromDisk volume_codec t (fst e) (w, st_volumes s) = (r, w2, s2)" using prod_cases3 by blast
  consider "w1 = w \<and> vs = st_volumes s" | "w1 = w2 \<and> vs = s2"
    using load_entry_cases[of volume_codec t "fst e" "(w, st_volumes s)"] le ld by auto
  then show ?thesis
  proof cases
    case 2
    then show ?thesis
      using e sys_inv_volumes[OF inv v(1) n LoadFromDisk_within[OF sys_invD(3)[OF inv] v(1) n(1) ld]
          vols.LoadFromDisk_inv[OF sys_invD(1)[OF inv] v(1) n(1) ld]] LoadFromDisk_tree[OF ld] by simp
  qed (use e inv in simp)
qed

lemma load_snapshot_inv:
  assumes inv: "sys_inv w s" and v: "ValidName t" "snd e \<Longrightarrow> ValidName (fst e)"
    and l: "load_snapshot t e (w, s) = (w', s')"
  shows "sys_inv w' s'"
proof (cases "snd e")
  case False
  then show ?thesis using l inv by (auto simp: load_snapshot_def split: prod.splits if_splits)
next
  case True
  then have n: "ValidName (fst e)" using v(2) by auto
  obtain w1 ss where le: "load_entry snapshot_codec t (fst e) (w, st_snapshots s) = (w1, ss)" by fastforce
  have e: "w' = w1" "s' = s\<lparr>st_snapshots := ss\<rparr>" using True l le by (auto simp: load_snapshot_def split: prod.splits)
  obtain r w2 s2 where ld: "LoadFromDisk snapshot_codec t (fst e) (w, st_snapshots s) = (r, w2, s2)" using prod_cases3 by blast
  consider "w1 = w \<and> ss = st_snapshots s" | "w1 = w2 \<and> ss = s2"
    using load_entry_cases[of snapshot_codec t "fst e" "(w, st_snapshots s)"] le ld by auto
  then show ?thesis
  proof cases
    case 2
    then show ?thesis
      using e sys_inv_snapshots[OF inv v(1) n LoadFromDisk_within[OF sys_invD(4)[OF inv] v(1) n ld]
          snaps.LoadFromDisk_inv[OF sys_invD(2)[OF inv] v(1) n ld]] LoadFromDisk_tree[OF ld] by simp
  qed (use e inv in simp)
qed

text \<open>Loading keeps the configuration of the storage.\<close>

definition loading :: "state \<Rightarrow> state \<Rightarrow> bool" where
  "loading st st' \<longleftrightarrow> same_tree (fst st) (fst st') \<and>
     st_basePath (snd st') = st_basePath (snd st) \<and> st_tenants (snd st') = st_tenants (snd st) \<and>
     same_paths (st_volumes (snd st)) (st_volumes (snd st')) \<and> same_paths (st_snapshots (snd st)) (st_snapshots (snd st'))"

lemma loading_refl [simp]: "loading st st"
  by (simp add: loading_def)

lemma loading_trans [trans]: "loading st st1 \<Longrightarrow> loading st1 st2 \<Longrightarrow> loading st st2"
  by (auto simp: loading_def same_paths_def intro: same_tree_trans)

lemma load_volume_loading: "loading st (load_volume t e st)"
  by (cases st; cases e) (auto simp: load_volume_def loading_def dest!: load_entry_tree split: prod.splits)

lemma load_snapshot_loading: "loading st (load_snapshot t e st)"
  by (cases st; cases e) (auto simp: load_snapshot_def loading_def dest!: load_entry_tree split: prod.splits)

lemma fold_loading: "(\<And>e st. loading st (f e st)) \<Longrightarrow> loading st (fold f es st)"
proof (induction es arbitrary: st)
  case (Cons e es)
  then show ?case using loading_trans[of st "f e st" "fold f es (f e st)"] by simp
qed simp

lemma load_volumes_loading: "loading st (load_volumes t d st)"
  by (simp add: load_volumes_def fold_loading load_volume_loading split: sum.splits)

lemma load_snapshots_loading: "loading st (load_snapshots t d st)"
  by (simp add: load_snapshots_def fold_loading load_snapshot_loading split: sum.splits)

lemma load_tenant_loading: "loading st (load_tenant t st)"
  unfolding load_tenant_def Let_def by (rule loading_trans[OF load_volumes_loading load_snapshots_loading])

text \<open>Only the agent makes directories below a tenant's directory, and it makes valid names only.\<close>

definition tidy_dir :: "string \<Rightarrow> world \<Rightarrow> bool" where
  "tidy_dir d w \<longleftrightarrow> (case os_read_dir d w of Inl _ \<Rightarrow> True | Inr es \<Rightarrow> list_all (\<lambda>(n, dir). dir \<longrightarrow> ValidName n) es)"

definition tidy :: "state \<Rightarrow> bool" where
  "tidy st \<longleftrightarrow> list_all (\<lambda>t. ValidName t \<and> (let d = filepath_join [st_basePath (snd st), t] in
     tidy_dir d (fst st) \<and> tidy_dir (filepath_join [d, SnapshotsDir]) (fst st))) (st_tenants (snd st))"

lemma tidy_dir_same: "same_tree w w' \<Longrightarrow> tidy_dir d w' = tidy_dir d w"
  by (simp add: tidy_dir_def os_read_dir_same)

lemma fold_state_inv:
  assumes "\<And>e w s w' s'. e \<in> set es \<Longrightarrow> sys_inv w s \<Longrightarrow> f e (w, s) = (w', s') \<Longrightarrow> sys_inv w' s'"
    and "sys_inv (fst st) (snd st)"
  shows "sys_inv (fst (fold f es st)) (snd (fold f es st))"
  using assms
proof (induction es arbitrary: st)
  case (Cons e es)
  have "sys_inv (fst (f e st)) (snd (f e st))" using Cons.prems(1)[of e "fst st" "snd st"] Cons.prems(2) by simp
  then show ?case using Cons.IH[of "f e st"] Cons.prems(1) by (simp, meson list.set_intros(2))
qed simp

lemma load_volumes_inv:
  assumes "sys_inv (fst st) (snd st)" "ValidName t" "tidy_dir d (fst st)"
  shows "sys_inv (fst (load_volumes t d st)) (snd (load_volumes t d st))"
proof (cases "os_read_dir d (fst st)")
  case (Inr es)
  have v: "snd e \<Longrightarrow> ValidName (fst e)" if "e \<in> set es" for e
    using assms(3) Inr that by (auto simp: tidy_dir_def list_all_iff)
  show ?thesis unfolding load_volumes_def Inr sum.case
    by (rule fold_state_inv[OF _ assms(1)]) (use load_volume_inv[OF _ assms(2)] v in blast)
qed (use assms(1) in \<open>simp add: load_volumes_def\<close>)

lemma load_snapshots_inv:
  assumes "sys_inv (fst st) (snd st)" "ValidName t" "tidy_dir (filepath_join [d, SnapshotsDir]) (fst st)"
  shows "sys_inv (fst (load_snapshots t d st)) (snd (load_snapshots t d st))"
proof (cases "os_read_dir (filepath_join [d, SnapshotsDir]) (fst st)")
  case (Inr es)
  have v: "snd e \<Longrightarrow> ValidName (fst e)" if "e \<in> set es" for e
    using assms(3) Inr that by (auto simp: tidy_dir_def list_all_iff)
  show ?thesis unfolding load_snapshots_def Inr sum.case
    by (rule fold_state_inv[OF _ assms(1)]) (use load_snapshot_inv[OF _ assms(2)] v in blast)
qed (use assms(1) in \<open>simp add: load_snapshots_def\<close>)

lemma load_tenant_inv:
  assumes inv: "sys_inv (fst st) (snd st)" and t: "ValidName t"
    and d: "tidy_dir (filepath_join [st_basePath (snd st), t]) (fst st)"
      "tidy_dir (filepath_join [filepath_join [st_basePath (snd st), t], SnapshotsDir]) (fst st)"
  shows "sys_inv (fst (load_tenant t st)) (snd (load_tenant t st))"
proof -
  let ?d = "filepath_join [st_basePath (snd st), t]" and ?s = "filepath_join [filepath_join [st_basePath (snd st), t], SnapshotsDir]"
  let ?st1 = "load_volumes t ?d st"
  have "tidy_dir ?s (fst ?st1)"
    using d(2) load_volumes_loading[of st t ?d] tidy_dir_same unfolding loading_def by blast
  then show ?thesis using load_snapshots_inv[OF load_volumes_inv[OF inv t d(1)] t] by (simp add: load_tenant_def Let_def)
qed

lemma loadCache_inv:
  assumes "sys_inv (fst st) (snd st)" "tidy st"
  shows "sys_inv (fst (loadCache st)) (snd (loadCache st))"
proof -
  have "sys_inv (fst (fold load_tenant ts st)) (snd (fold load_tenant ts st))"
    if "set ts \<subseteq> set (st_tenants (snd st))" "sys_inv (fst st) (snd st)" "tidy st" for ts st
    using that
  proof (induction ts arbitrary: st)
    case (Cons t ts)
    have v: "ValidName t \<and> tidy_dir (filepath_join [st_basePath (snd st), t]) (fst st) \<and>
        tidy_dir (filepath_join [filepath_join [st_basePath (snd st), t], SnapshotsDir]) (fst st)"
      using Cons.prems(1,3) by (auto simp: tidy_def list_all_iff Let_def)
    have l: "loading st (load_tenant t st)" by (rule load_tenant_loading)
    then have "tidy_dir d (fst (load_tenant t st)) = tidy_dir d (fst st)" for d
      by (simp add: loading_def tidy_dir_same)
    then have "tidy (load_tenant t st)" using Cons.prems(3) l by (simp add: tidy_def loading_def)
    then show ?case using Cons.IH[of "load_tenant t st"] load_tenant_inv[of st t] v Cons.prems l by (simp add: loading_def)
  qed simp
  then show ?thesis using assms by (simp add: loadCache_def)
qed

lemma setup_storage_inv:
  assumes "setup_storage env base q ts dm dam il w = Inr (w', s)" "base \<noteq> []"
  shows "sys_inv w' s"
proof -
  have "st_volumes s = NewStore base [] \<and> st_snapshots s = NewStore base [SnapshotsDir] \<and> st_basePath s = base"
    using assms(1) by (auto simp: setup_storage_def split: sum.splits option.splits prod.splits bool.splits if_splits node.splits)
  moreover have "store_inv volume_codec volume_ok w' (NewStore base [])" "store_inv snapshot_codec snapshot_ok w' (NewStore base [SnapshotsDir])"
    using assms(2) by (auto intro: store_inv_NewStore)
  ultimately show ?thesis by (simp add: sys_inv_def) (simp add: NewStore_def)
qed

section \<open>Durability\<close>

text \<open>An entry that is completely on disk, in the format the code writes.\<close>

definition parent_dir :: "'a store \<Rightarrow> string \<Rightarrow> string" where
  "parent_dir s t = filepath_join ([basePath s, t] @ pathSegments s)"

definition saved :: "'a codec \<Rightarrow> world \<Rightarrow> 'a store \<Rightarrow> string \<Rightarrow> string \<Rightarrow> 'a \<Rightarrow> bool" where
  "saved cd w s t n v \<longleftrightarrow> is_dir (node_at w (parent_dir s t)) \<and> is_dir (node_at w (Dir s t n)) \<and>
     is_dir (node_at w (DataPath s t n)) \<and> file_content w (MetaPath s t n) = Some (Doc (marshal cd v))"

text \<open>No call that only reads fails.\<close>

definition readable :: "world \<Rightarrow> bool" where
  "readable w \<longleftrightarrow> (\<forall>p. faults w (OReadDir p) = None \<and> faults w (OStat p) = None \<and> faults w (OReadFile p) = None)"

lemma Dir_child:
  assumes "store_wf s" "ValidName t" "ValidName n"
  shows "Dir s t n = parent_dir s t @ ''/'' @ n"
proof -
  have p: "parent_dir s t = render (is_rooted (basePath s)) (path_comps (basePath s) @ t # pathSegments s)"
    using assms unfolding parent_dir_def store_wf_def
    by (subst append_Cons, subst filepath_join_comps) (auto simp: list_all_iff)
  have "render r (cs @ [n]) = render r cs @ ''/'' @ n" if "cs \<noteq> []" for r cs
    using that by (simp add: render_def join_with_append)
  from this[of "path_comps (basePath s) @ t # pathSegments s"] show ?thesis using p Dir_render[OF assms] by (simp add: entry_comps_def)
qed

lemma dir_entries_child:
  assumes "is_dir (node_at w (d @ ''/'' @ n))" "ValidName n"
  shows "(n, True) \<in> set (dir_entries d w)"
proof -
  obtain a where a: "node_at w (d @ ''/'' @ n) = Some (DirNode a)" using assms(1) by (auto simp: is_dir_iff)
  have "n \<noteq> [] \<and> CHR ''/'' \<notin> set n" using ValidName_no_slash[OF assms(2)] assms(2) by (auto simp: ValidName_def)
  then have "child_name d (d @ ''/'' @ n) = Some n" by (simp add: child_name_def)
  moreover have "d @ ''/'' @ n \<in> set (map fst (nodes w))" using node_at_not_key[OF a] .
  ultimately have "n \<in> set (List.map_filter (child_name d) (map fst (nodes w)))"
    by (force simp: List.map_filter_def)
  then show ?thesis using assms(1) by (force simp: dir_entries_def)
qed

lemma saved_same: "same_tree w w' \<Longrightarrow> same_paths s s' \<Longrightarrow> saved cd w' s' t n v = saved cd w s t n v"
  using Dir_same[of s s'] by (simp add: saved_def same_tree_def is_dir_iff parent_dir_def same_paths_def)

lemma readable_same: "same_tree w w' \<Longrightarrow> readable w' = readable w"
  by (simp add: readable_def same_tree_def)

context metadata_store
begin

lemma load_entry_saved:
  assumes "saved cd w s t n v" "readable w" "ok v"
  shows "map_of (cache (snd (load_entry cd t n (w, s)))) (key t n) = Some v"
proof -
  obtain a where "os_stat (DataPath s t n) w = Inr (DirNode a)"
    using assms(1,2) by (auto simp: saved_def is_dir_iff readable_def os_stat_def)
  then have l: "load_entry cd t n (w, s) = snd (LoadFromDisk cd t n (w, s))" by (simp add: load_entry_def)
  have "readJSON cd (MetaPath s t n) w = Inr v"
    using readJSON_cong[of w "MetaPath s t n" "Doc (marshal cd v)" cd] assms encode_decode by (simp add: saved_def readable_def)
  then show ?thesis by (simp add: l LoadFromDisk_def)
qed

lemma load_entry_other: "k \<noteq> key t n \<Longrightarrow> map_of (cache (snd (load_entry cd t n (w, s)))) k = map_of (cache s) k"
  by (auto simp: load_entry_def LoadFromDisk_def split: sum.splits)

end

lemma load_volume_saved:
  assumes "saved volume_codec (fst st) (st_volumes (snd st)) t n v" "readable (fst st)" "volume_ok v"
    and "ValidName t" "ValidName t'" "n \<noteq> SnapshotsDir"
    and "map_of (cache (st_volumes (snd st))) (key t n) = Some v \<or> (t' = t \<and> e = (n, True))"
  shows "map_of (cache (st_volumes (snd (load_volume t' e st)))) (key t n) = Some v"
proof -
  obtain w s n' d where st: "st = (w, s)" "e = (n', d)" by (meson prod.exhaust)
  obtain w1 vs where le: "load_entry volume_codec t' n' (w, st_volumes s) = (w1, vs)" by fastforce
  show ?thesis
  proof (cases "t' = t \<and> n' = n")
    case True
    then show ?thesis using vols.load_entry_saved[OF _ assms(2,3)] assms(1,6,7) st le
      by (fastforce simp: load_volume_def)
  next
    case False
    then have "key t n \<noteq> key t' n'" using key_inject[OF assms(4,5), of n n'] by auto
    then show ?thesis using vols.load_entry_other[of "key t n" t' n' w "st_volumes s"] assms(7) False st le
      by (auto simp: load_volume_def)
  qed
qed

lemma fold_load_volume_saved:
  assumes "saved volume_codec (fst st) (st_volumes (snd st)) t n v" "readable (fst st)" "volume_ok v"
    and "ValidName t" "ValidName t'" "n \<noteq> SnapshotsDir"
    and "map_of (cache (st_volumes (snd st))) (key t n) = Some v \<or> (t' = t \<and> (n, True) \<in> set es)"
  shows "map_of (cache (st_volumes (snd (fold (load_volume t') es st)))) (key t n) = Some v"
  using assms
proof (induction es arbitrary: st)
  case (Cons e es)
  let ?st1 = "load_volume t' e st"
  have l: "loading st ?st1" by (rule load_volume_loading)
  have tr: "same_tree (fst st) (fst ?st1)" "same_paths (st_volumes (snd st)) (st_volumes (snd ?st1))"
    using l by (simp_all add: loading_def)
  have "saved volume_codec (fst ?st1) (st_volumes (snd ?st1)) t n v" "readable (fst ?st1)"
    using Cons.prems(1,2) saved_same[OF tr, of volume_codec t n v] readable_same[OF tr(1)] by simp_all
  moreover have "map_of (cache (st_volumes (snd ?st1))) (key t n) = Some v \<or> (t' = t \<and> (n, True) \<in> set es)"
    using load_volume_saved[OF Cons.prems(1-6), of e] Cons.prems(7) by auto
  ultimately show ?case using Cons.IH[of ?st1] Cons.prems(3-6) by simp
qed simp

lemma load_snapshot_volumes [simp]: "st_volumes (snd (load_snapshot t e st)) = st_volumes (snd st)"
  by (cases st; cases e) (simp add: load_snapshot_def split: prod.splits)

lemma load_snapshots_volumes [simp]: "st_volumes (snd (load_snapshots t d st)) = st_volumes (snd st)"
proof -
  have "st_volumes (snd (fold (load_snapshot t) es st)) = st_volumes (snd st)" for es
    by (induction es arbitrary: st) simp_all
  then show ?thesis by (simp add: load_snapshots_def split: sum.splits)
qed

lemma load_tenant_saved:
  assumes sv: "saved volume_codec (fst st) (st_volumes (snd st)) t n v" "readable (fst st)" "volume_ok v"
    and nm: "ValidName t" "ValidName t'" "ValidName n" "n \<noteq> SnapshotsDir"
    and p: "basePath (st_volumes (snd st)) = st_basePath (snd st)" "pathSegments (st_volumes (snd st)) = []" "st_basePath (snd st) \<noteq> []"
    and h: "map_of (cache (st_volumes (snd st))) (key t n) = Some v \<or> t' = t"
  shows "map_of (cache (st_volumes (snd (load_tenant t' st)))) (key t n) = Some v"
proof -
  let ?d = "filepath_join [st_basePath (snd st), t']"
  have wf: "store_wf (st_volumes (snd st))" using p by (simp add: store_wf_def)
  have pd: "parent_dir (st_volumes (snd st)) t = filepath_join [st_basePath (snd st), t]" using p by (simp add: parent_dir_def)
  have "map_of (cache (st_volumes (snd (load_volumes t' ?d st)))) (key t n) = Some v"
  proof (cases "t' = t")
    case True
    have "os_read_dir ?d (fst st) = Inr (dir_entries ?d (fst st))"
      using sv(1,2) pd True by (auto simp: os_read_dir_def readable_def saved_def is_dir_iff)
    moreover have "(n, True) \<in> set (dir_entries ?d (fst st))"
      using dir_entries_child[OF _ nm(3), of "fst st" ?d] sv(1) pd True Dir_child[OF wf nm(1,3)] by (simp add: saved_def)
    ultimately show ?thesis using fold_load_volume_saved[OF sv nm(1,2,4)] True by (simp add: load_volumes_def)
  next
    case False
    then show ?thesis using fold_load_volume_saved[OF sv nm(1,2,4)] h by (simp add: load_volumes_def split: sum.splits)
  qed
  then show ?thesis by (simp add: load_tenant_def Let_def)
qed

lemma loadCache_saved:
  assumes sv: "saved volume_codec (fst st) (st_volumes (snd st)) t n v" "readable (fst st)" "volume_ok v"
    and nm: "ValidName t" "ValidName n" "n \<noteq> SnapshotsDir"
    and p: "basePath (st_volumes (snd st)) = st_basePath (snd st)" "pathSegments (st_volumes (snd st)) = []" "st_basePath (snd st) \<noteq> []"
    and h: "list_all ValidName ts" "map_of (cache (st_volumes (snd st))) (key t n) = Some v \<or> t \<in> set ts"
  shows "map_of (cache (st_volumes (snd (fold load_tenant ts st)))) (key t n) = Some v"
  using sv p h
proof (induction ts arbitrary: st)
  case (Cons t' ts)
  let ?st1 = "load_tenant t' st"
  have l: "loading st ?st1" by (rule load_tenant_loading)
  have tr: "same_tree (fst st) (fst ?st1)" "same_paths (st_volumes (snd st)) (st_volumes (snd ?st1))"
    using l by (simp_all add: loading_def)
  have "saved volume_codec (fst ?st1) (st_volumes (snd ?st1)) t n v" "readable (fst ?st1)"
    using Cons.prems(1,2) saved_same[OF tr, of volume_codec t n v] readable_same[OF tr(1)] by simp_all
  moreover have "map_of (cache (st_volumes (snd ?st1))) (key t n) = Some v \<or> t \<in> set ts"
    using load_tenant_saved[OF Cons.prems(1-3) nm(1) _ nm(2,3) Cons.prems(4-6)] Cons.prems(7,8) by auto
  moreover have "basePath (st_volumes (snd ?st1)) = st_basePath (snd ?st1)" "pathSegments (st_volumes (snd ?st1)) = []" "st_basePath (snd ?st1) \<noteq> []"
    using l Cons.prems(4-6) by (simp_all add: loading_def same_paths_def)
  ultimately show ?case using Cons.IH[of ?st1] Cons.prems(3,7) by simp
qed simp

end
