(* ===== verification/StartProps.thy ===== *)
theory StartProps
  imports Start VolumeProps
begin

text \<open>Properties of the agent's start: what was created survives a restart, and the file system
  figures do not wrap around.\<close>

section \<open>Durability across a restart\<close>

text \<open>The storage that \<open>New\<close> builds before it loads the cache.\<close>

definition restarted :: "storage \<Rightarrow> storage" where
  "restarted s = s\<lparr>st_volumes := NewStore (st_basePath s) [], st_snapshots := NewStore (st_basePath s) [SnapshotsDir]\<rparr>"

lemma setup_storage_restarted:
  "setup_storage env base q ts dm dam il w = Inr (w', s) \<Longrightarrow> restarted s = s"
  by (auto simp: setup_storage_def restarted_def split: sum.splits option.splits prod.splits bool.splits if_splits node.splits)

lemma GetVolume_cached_stat:
  assumes "map_of (cache (st_volumes s)) (key t n) = Some v" "ValidName t" "ValidName n"
    and "os_stat (filepath_join [st_basePath s, t]) w = Inr x"
  shows "GetVolume t n (w, s) = (Inr v, w, s)"
proof -
  have v: "ValidateName t = None" "ValidateName n = None" using assms(2,3) by simp_all
  have g: "Get volume_codec t n w (st_volumes s) = (Inr v, st_volumes s)" using assms(1) by (simp add: Get_def)
  show ?thesis by (simp add: v g assms(4) GetVolume_def tenant_err_def tenantPath_def check_def Let_def)
qed

lemma restart_GetVolume:
  assumes sv: "saved volume_codec w (NewStore (st_basePath s) []) t n v" "readable w" "volume_ok v"
    and nm: "ValidName t" "ValidName n" "n \<noteq> SnapshotsDir" "st_basePath s \<noteq> []"
    and ts: "list_all ValidName (st_tenants s)" "t \<in> set (st_tenants s)"
  shows "fst (GetVolume t n (loadCache (w, restarted s))) = Inr v"
proof -
  let ?st = "loadCache (w, restarted s)"
  have st: "st_volumes (restarted s) = NewStore (st_basePath s) []" "st_basePath (restarted s) = st_basePath s" "st_tenants (restarted s) = st_tenants s"
    by (simp_all add: restarted_def)
  have c: "map_of (cache (st_volumes (snd ?st))) (key t n) = Some v"
    unfolding loadCache_def
    by (rule loadCache_saved) (use sv nm ts st in \<open>simp_all add: NewStore_def\<close>)
  have "loading (w, restarted s) ?st" unfolding loadCache_def by (rule fold_loading[OF load_tenant_loading])
  then have tr: "same_tree w (fst ?st)" "st_basePath (snd ?st) = st_basePath s" by (simp_all add: loading_def st)
  have "is_dir (node_at w (filepath_join [st_basePath s, t]))" using sv(1) by (simp add: saved_def parent_dir_def NewStore_def)
  then obtain a where "node_at (fst ?st) (filepath_join [st_basePath s, t]) = Some (DirNode a)"
    using tr(1) by (auto simp: is_dir_iff same_tree_def)
  moreover have "faults (fst ?st) (OStat p) = None" for p using sv(2) tr(1) by (simp add: same_tree_def readable_def)
  ultimately have "os_stat (filepath_join [st_basePath (snd ?st), t]) (fst ?st) = Inr (DirNode a)"
    using tr(2) by (simp add: os_stat_def)
  then show ?thesis using GetVolume_cached_stat[OF c nm(1,2)] by (cases ?st) simp
qed



section \<open>File system figures\<close>

text \<open>When \<open>statfs\<close> reports no more available than existing blocks and a size that fits 64 bits,
  the reported figures are exact: the total is the product, and used and free bytes add up to it
  without wrap-around.\<close>

lemma Stats_exact:
  assumes "\<And>p x. statfs p = Inr x \<Longrightarrow> sf_Bavail x \<le> sf_Blocks x \<and> unat (sf_Blocks x) * unat (sf_Bsize x) < 2 ^ 64"
    and "Stats statfs t st = Inr fs"
  shows "\<exists>p x. statfs p = Inr x \<and> unat (fs_TotalBytes fs) = unat (sf_Blocks x) * unat (sf_Bsize x) \<and>
    unat (fs_FreeBytes fs) = unat (sf_Bavail x) * unat (sf_Bsize x) \<and>
    unat (fs_UsedBytes fs) + unat (fs_FreeBytes fs) = unat (fs_TotalBytes fs)"
proof -
  obtain p x where x: "statfs p = Inr x"
    and fs: "fs = \<lparr>fs_TotalBytes = sf_Blocks x * sf_Bsize x, fs_UsedBytes = sf_Blocks x * sf_Bsize x - sf_Bavail x * sf_Bsize x,
      fs_FreeBytes = sf_Bavail x * sf_Bsize x\<rparr>"
    using assms(2) by (auto simp: Stats_def Let_def split: prod.splits sum.splits)
  have b: "unat (sf_Bavail x) \<le> unat (sf_Blocks x)" "unat (sf_Blocks x) * unat (sf_Bsize x) < 2 ^ 64"
    using assms(1)[OF x] by (simp_all add: word_le_nat_alt)
  have le: "unat (sf_Bavail x) * unat (sf_Bsize x) \<le> unat (sf_Blocks x) * unat (sf_Bsize x)" using b(1) by simp
  have t: "unat (sf_Blocks x * sf_Bsize x) = unat (sf_Blocks x) * unat (sf_Bsize x)"
    "unat (sf_Bavail x * sf_Bsize x) = unat (sf_Bavail x) * unat (sf_Bsize x)"
    using b(2) le_less_trans[OF le b(2)] by (simp_all only: unat_word_ariths mod_less) (simp_all)
  moreover have "unat (sf_Blocks x * sf_Bsize x - sf_Bavail x * sf_Bsize x) = unat (sf_Blocks x * sf_Bsize x) - unat (sf_Bavail x * sf_Bsize x)"
    using t le by (simp add: unat_sub word_le_nat_alt)
  ultimately show ?thesis using x le by (intro exI[of _ p] exI[of _ x]) (simp add: fs)
qed

definition demo_statfs :: "string \<Rightarrow> errno + statfs_t" where
  "demo_statfs p = Inr \<lparr>sf_Blocks = 1000, sf_Bavail = 600, sf_Bsize = 4096\<rparr>"

lemma Stats_exact_witness:
  "\<exists>fs. Stats demo_statfs ''t'' demo_state = Inr fs \<and> unat (fs_UsedBytes fs) + unat (fs_FreeBytes fs) = unat (fs_TotalBytes fs)"
proof -
  have "(case Stats demo_statfs ''t'' demo_state of Inr _ \<Rightarrow> True | Inl _ \<Rightarrow> False)" by code_simp
  then obtain fs where fs: "Stats demo_statfs ''t'' demo_state = Inr fs" by (auto split: sum.splits)
  then show ?thesis using Stats_exact[OF _ fs] by (auto simp: demo_statfs_def)
qed

end
