(* ===== verification/System.thy ===== *)
theory System
  imports Start Exports Usage
begin

text \<open>
  The agent as a transition system. A step is one request handler, one run of a background worker,
  or a step of the environment: time passes, calls start or stop failing, NFS clients change the data
  of a volume, another program changes the export table. The per-entry locks of the code make the
  handlers of one volume exclude each other, so a run of the agent is modelled as a sequence of
  complete handlers. The invariant \<open>sys_inv\<close> holds in every state that can be reached from \<open>New\<close>.
\<close>

section \<open>What no operation changes\<close>

definition config :: "storage \<Rightarrow> storage" where
  "config s = s\<lparr>st_volumes := NewStore [] [], st_snapshots := NewStore [] []\<rparr>"

lemma config_stores [simp]: "config (s\<lparr>st_volumes := vs\<rparr>) = config s" "config (s\<lparr>st_snapshots := ss\<rparr>) = config s"
  by (simp_all add: config_def)

lemma configD:
  assumes "config s' = config s"
  shows "st_btrfs s' = st_btrfs s" "st_exporter s' = st_exporter s" "st_basePath s' = st_basePath s" "st_tenants s' = st_tenants s"
    "st_mountPoint s' = st_mountPoint s"
  using assms by (metis config_def storage.surjective storage.update_convs storage.select_convs)+

named_theorems config_simps \<open>operations keep the configuration\<close>

lemma config_on [config_simps]: "config (snd (snd (on_volumes x s))) = config s" "config (snd (snd (on_snapshots y s))) = config s"
  by (simp_all add: on_volumes_def on_snapshots_def split: prod.splits)

lemma config_GetVolume [config_simps]: "config (snd (snd (GetVolume t n st))) = config (snd st)"
  by (simp add: GetVolume_def split: prod.splits sum.splits)

lemma config_GetSnapshot [config_simps]: "config (snd (snd (GetSnapshot t n st))) = config (snd st)"
  by (simp add: GetSnapshot_def split: prod.splits sum.splits)

lemma config_CreateVolume [config_simps]: "config (snd (snd (CreateVolume l t req st))) = config (snd st)"
  by (simp add: CreateVolume_def Let_def config_simps split: prod.splits sum.splits)

lemma config_UpdateVolume [config_simps]: "config (snd (snd (UpdateVolume t n req st))) = config (snd st)"
proof -
  obtain r w s where g: "GetVolume t n st = (r, w, s)" using prod_cases3 by blast
  have "config s = config (snd st)" using config_GetVolume[of t n st] g by simp
  then show ?thesis by (simp add: UpdateVolume_def g split: prod.splits sum.splits option.splits)
qed

lemma config_CloneVolume [config_simps]: "config (snd (snd (CloneVolume l t req st))) = config (snd st)"
proof -
  obtain r w s where g: "GetVolume t (vlr_Source req) st = (r, w, s)" using prod_cases3 by blast
  have "config s = config (snd st)" using config_GetVolume[of t "vlr_Source req" st] g by simp
  then show ?thesis by (simp add: CloneVolume_def g Let_def config_simps split: prod.splits sum.splits)
qed

lemma config_DeleteVolume [config_simps]: "config (snd (snd (DeleteVolume t n st))) = config (snd st)"
  by (simp add: DeleteVolume_def split: prod.splits sum.splits option.splits)

lemma config_CreateSnapshot [config_simps]: "config (snd (snd (CreateSnapshot l t req st))) = config (snd st)"
  by (simp add: CreateSnapshot_def Let_def config_simps split: prod.splits sum.splits)

lemma config_DeleteSnapshot [config_simps]: "config (snd (snd (DeleteSnapshot t n st))) = config (snd st)"
  by (simp add: DeleteSnapshot_def split: prod.splits sum.splits option.splits)

lemma config_CreateClone [config_simps]: "config (snd (snd (CreateClone l t req st))) = config (snd st)"
  by (simp add: CreateClone_def Let_def config_simps split: prod.splits sum.splits)

lemma config_CreateVolumeExport [config_simps]: "config (snd (snd (CreateVolumeExport t n c ls st))) = config (snd st)"
  by (simp add: CreateVolumeExport_def Let_def split: prod.splits sum.splits option.splits)

lemma config_DeleteVolumeExport [config_simps]: "config (snd (snd (DeleteVolumeExport t n c ls st))) = config (snd st)"
  by (simp add: DeleteVolumeExport_def Let_def split: prod.splits sum.splits option.splits)

lemma config_reconcileExports [config_simps]: "config (snd (reconcileExports t st)) = config (snd st)"
  by (simp add: reconcileExports_def Let_def split: prod.splits sum.splits)

lemma config_sync_volume [config_simps]: "config (snd (sync_volume u t e st)) = config (snd st)"
  by (simp add: sync_volume_def split: prod.splits option.splits)

lemma config_sync_snapshot [config_simps]: "config (snd (sync_snapshot u t e st)) = config (snd st)"
  by (simp add: sync_snapshot_def split: prod.splits option.splits)

lemma config_fold [config_simps]: "(\<And>e st. config (snd (f e st)) = config (snd st)) \<Longrightarrow> config (snd (fold f es st)) = config (snd st)"
  by (induction es arbitrary: st) simp_all

lemma config_updateAll [config_simps]: "config (snd (updateAll t st)) = config (snd st)"
proof (cases st)
  case (Pair w s)
  obtain u w1 where b: "bulk_usage w s = (u, w1)" by fastforce
  obtain w2 s2 where f: "fold (sync_volume u t) (tenant_entries t (st_volumes s)) (w1, s) = (w2, s2)" by fastforce
  have "config s2 = config s" using config_fold[of "sync_volume u t"] config_sync_volume f by (metis snd_conv)
  then show ?thesis using config_fold[of "sync_snapshot u t"] config_sync_snapshot
    by (simp add: updateAll_def Pair b f)
qed

section \<open>Exports keep the invariant\<close>

text \<open>An exporter that changes the export table at most.\<close>

definition keeps_files :: "exporter \<Rightarrow> bool" where
  "keeps_files ex \<longleftrightarrow> (\<forall>p c w. same_files w (snd (Export ex p c w))) \<and> (\<forall>p c w. same_files w (snd (Unexport ex p c w))) \<and>
     (\<forall>w. same_files w (snd (ListExports ex w)))"

lemma keeps_filesD:
  assumes "keeps_files ex"
  shows "Export ex p c w = (r, w') \<Longrightarrow> same_files w w'" "Unexport ex p c w = (r, w') \<Longrightarrow> same_files w w'"
    "ListExports ex w = (l, w') \<Longrightarrow> same_files w w'"
  using assms unfolding keeps_files_def by (metis snd_conv)+

lemma sys_inv_nodes: "nodes w' = nodes w \<Longrightarrow> sys_inv w s \<Longrightarrow> sys_inv w' s"
proof -
  assume n: "nodes w' = nodes w" and i: "sys_inv w s"
  have "file_content w' q = file_content w q" for q using n by (simp add: file_content_def node_at_def)
  then show ?thesis using i unfolding sys_inv_def by (auto intro: store_inv_world)
qed

lemma sys_inv_same_files: "same_files w w' \<Longrightarrow> sys_inv w s \<Longrightarrow> sys_inv w' s"
  by (rule sys_inv_nodes) (simp_all add: same_files_def)

lemma sys_inv_Update:
  assumes inv: "sys_inv w s" and tn: "ValidName t" "ValidName n" "n \<noteq> SnapshotsDir"
    and ok: "\<And>v. volume_ok v \<Longrightarrow> volume_ok (fn v)"
    and u: "Update volume_codec t n fn id (w, st_volumes s) = (r, w', vs)"
  shows "sys_inv w' (s\<lparr>st_volumes := vs\<rparr>)"
  using sys_inv_volumes[OF inv tn vols.Update_within[OF sys_invD(3)[OF inv] tn(1,2) u]
      vols.Update_inv[OF sys_invD(1)[OF inv] tn(1,2) ok _ u] same_paths_Update[OF u]] by simp

lemma CreateVolumeExport_inv:
  assumes inv: "sys_inv w s" and ex: "keeps_files (st_exporter s)" and n: "n \<noteq> SnapshotsDir" and ls: "keys_distinct ls"
    and cv: "CreateVolumeExport t n c ls (w, s) = (r, w', s')"
  shows "sys_inv w' s'"
proof -
  let ?ck = "check (tenant_err s t w) (check (ValidateName n) (check (validateClientIP c)
        (check (ValidateLabels ls) (check (requireImmutableLabels (st_immutableLabelKeys s) ls) (Inr ())))))"
  show ?thesis
  proof (cases ?ck)
    case (Inl e)
    then show ?thesis using cv inv by (simp add: CreateVolumeExport_def)
  next
    case (Inr x)
    then have v: "ValidName t" "ValidName n" using tenant_err_None by auto
    have ok: "volume_ok (add_export c ls (now w) m)" if "volume_ok m" for m
      using that ls by (auto simp: add_export_def volume_ok_def export_ok_def Let_def)
    obtain r1 w1 vs where u: "Update volume_codec t n (add_export c ls (now w)) id (w, st_volumes s) = (r1, w1, vs)"
      using prod_cases3 by blast
    have i1: "sys_inv w1 (s\<lparr>st_volumes := vs\<rparr>)" by (rule sys_inv_Update[OF inv v n ok u])
    have "s' = s\<lparr>st_volumes := vs\<rparr> \<and> (w' = w1 \<or> same_files w1 w')"
      using cv Inr u keeps_filesD(1)[OF ex]
      by (auto simp: CreateVolumeExport_def Let_def split: sum.splits if_splits prod.splits option.splits)
    then show ?thesis using i1 sys_inv_same_files by blast
  qed
qed

text \<open>The write of \<open>DeleteVolumeExport\<close> succeeds, or there is nothing to write.\<close>

definition delete_writes :: "string \<Rightarrow> string \<Rightarrow> string \<Rightarrow> labels option \<Rightarrow> state \<Rightarrow> bool" where
  "delete_writes t n c ls st = (case st of (w, s) \<Rightarrow>
     (case Get volume_codec t n w (st_volumes s) of
        (Inr v, _) \<Rightarrow> fst (writeJSONAtomic volume_codec (MetaPath (st_volumes s) t n) (remove_exports c ls (now w) v) w) = None
      | (Inl _, _) \<Rightarrow> True))"

lemma Update_alias:
  assumes "\<And>v s1. Get cd t n w s = (Inr v, s1) \<Longrightarrow> fst (writeJSONAtomic cd (MetaPath s t n) (fn v) w) = None"
  shows "Update cd t n fn al (w, s) = Update cd t n fn id (w, s)"
  using assms by (auto simp: Update_def split: prod.splits sum.splits option.splits)

lemma DeleteVolumeExport_inv:
  assumes inv: "sys_inv w s" and ex: "keeps_files (st_exporter s)" and n: "n \<noteq> SnapshotsDir"
    and wr: "delete_writes t n c ls (w, s)" and cv: "DeleteVolumeExport t n c ls (w, s) = (r, w', s')"
  shows "sys_inv w' s'"
proof -
  let ?ck = "check (tenant_err s t w) (check (ValidateName n) (check (validateClientIP c)
        (check (ValidateLabels (case ls of None \<Rightarrow> [] | Some l \<Rightarrow> l)) (Inr ()))))"
  show ?thesis
  proof (cases ?ck)
    case (Inl e)
    then show ?thesis using cv inv by (simp add: DeleteVolumeExport_def)
  next
    case (Inr x)
    then have v: "ValidName t" "ValidName n" using tenant_err_None by auto
    have ok: "volume_ok (remove_exports c ls (now w) m)" if "volume_ok m" for m
      using that by (auto simp: remove_exports_def volume_ok_def list_all_iff)
    obtain r1 w1 vs where u: "Update volume_codec t n (remove_exports c ls (now w)) (filter_in_place c ls) (w, st_volumes s) = (r1, w1, vs)"
      using prod_cases3 by blast
    have wn: "fst (writeJSONAtomic volume_codec (MetaPath (st_volumes s) t n) (remove_exports c ls (now w) v) w) = None"
      if "Get volume_codec t n w (st_volumes s) = (Inr v, s1)" for v s1
      using wr that by (simp add: delete_writes_def)
    have up: "Update volume_codec t n (remove_exports c ls (now w)) id (w, st_volumes s) = (r1, w1, vs)"
      using Update_alias[of volume_codec t n w "st_volumes s" "remove_exports c ls (now w)" "filter_in_place c ls", OF wn] u by simp
    have i1: "sys_inv w1 (s\<lparr>st_volumes := vs\<rparr>)" by (rule sys_inv_Update[OF inv v n ok up])
    have "s' = s\<lparr>st_volumes := vs\<rparr> \<and> (w' = w1 \<or> same_files w1 w')"
      using cv Inr u keeps_filesD(2)[OF ex]
      by (auto simp: DeleteVolumeExport_def Let_def split: sum.splits if_splits prod.splits option.splits)
    then show ?thesis using i1 sys_inv_same_files by blast
  qed
qed

lemma remove_orphans_files:
  assumes "keeps_files ex"
  shows "same_files w (remove_orphans ex ps w)"
proof (induction ps arbitrary: w)
  case (Cons p ps)
  show ?case
  proof (cases "os_stat p w")
    case (Inl e)
    obtain r w1 where u: "Unexport ex p [] w = (r, w1)" by fastforce
    show ?thesis using same_files_trans[OF keeps_filesD(2)[OF assms u] Cons.IH] Inl u by simp
  qed (use Cons.IH in simp)
qed (simp add: same_files_def)

lemma restore_exports_files:
  assumes "keeps_files ex"
  shows "same_files w (restore_exports ex pcs w)"
proof (induction pcs arbitrary: w)
  case (Cons pc pcs)
  obtain p c where pc: "pc = (p, c)" by fastforce
  obtain r w1 where u: "Export ex p c w = (r, w1)" by fastforce
  show ?case using same_files_trans[OF keeps_filesD(1)[OF assms u] Cons.IH] pc u by simp
qed (simp add: same_files_def)

lemma reconcileExports_inv:
  assumes inv: "sys_inv w s" and ex: "keeps_files (st_exporter s)" and rc: "reconcileExports t (w, s) = (w', s')"
  shows "sys_inv w' s'"
proof -
  obtain r w1 where l: "ListExports (st_exporter s) w = (r, w1)" by fastforce
  have f1: "same_files w w1" by (rule keeps_filesD(3)[OF ex l])
  have "s' = s \<and> same_files w w'"
    using rc l f1 same_files_trans[OF same_files_trans[OF f1 remove_orphans_files[OF ex]] restore_exports_files[OF ex]]
    by (auto simp: reconcileExports_def Let_def split: sum.splits)
  then show ?thesis using inv sys_inv_same_files by blast
qed

section \<open>Steps\<close>

text \<open>Label arguments come from Go maps, whose keys are distinct. No volume is called \<open>snapshots\<close>: that
  name would put its directory on top of the tenant's snapshots. The usage updater needs query
  commands that only read, and a file system that reports owners of at most 64 bits.\<close>

inductive agent_step :: "state \<Rightarrow> state \<Rightarrow> bool" where
  create: "keys_distinct (vcr_Labels req) \<Longrightarrow> vcr_Name req \<noteq> SnapshotsDir \<Longrightarrow>
    CreateVolume locked t req st = (r, st') \<Longrightarrow> agent_step st st'"
| get: "GetVolume t n st = (r1, st') \<Longrightarrow> agent_step st st'"
| update: "\<forall>ls. vur_Labels ureq \<noteq> Some ls \<or> keys_distinct ls \<Longrightarrow> n \<noteq> SnapshotsDir \<Longrightarrow>
    UpdateVolume t n ureq st = (r1, st') \<Longrightarrow> agent_step st st'"
| clone_volume: "keys_distinct (vlr_Labels lreq) \<Longrightarrow> vlr_Name lreq \<noteq> SnapshotsDir \<Longrightarrow>
    CloneVolume locked t lreq st = (r, st') \<Longrightarrow> agent_step st st'"
| delete: "n \<noteq> SnapshotsDir \<Longrightarrow> DeleteVolume t n st = (e, st') \<Longrightarrow> agent_step st st'"
| create_snapshot: "keys_distinct (scr_Labels sreq) \<Longrightarrow> CreateSnapshot locked t sreq st = (r2, st') \<Longrightarrow> agent_step st st'"
| get_snapshot: "GetSnapshot t n st = (r3, st') \<Longrightarrow> agent_step st st'"
| delete_snapshot: "DeleteSnapshot t n st = (e, st') \<Longrightarrow> agent_step st st'"
| create_clone: "keys_distinct (ccr_Labels creq) \<Longrightarrow> ccr_Name creq \<noteq> SnapshotsDir \<Longrightarrow>
    (\<And>snap. fst (Get snapshot_codec t (ccr_Snapshot creq) (fst st) (st_snapshots (snd st))) = Inr snap \<Longrightarrow> ValidName (sm_Volume snap)) \<Longrightarrow>
    CreateClone locked t creq st = (r, st') \<Longrightarrow> agent_step st st'"
| create_export: "keys_distinct ls \<Longrightarrow> n \<noteq> SnapshotsDir \<Longrightarrow> CreateVolumeExport t n c ls st = (e, st') \<Longrightarrow> agent_step st st'"
| delete_export: "n \<noteq> SnapshotsDir \<Longrightarrow> delete_writes t n c ols st \<Longrightarrow> DeleteVolumeExport t n c ols st = (e, st') \<Longrightarrow> agent_step st st'"
| reconcile: "reconcileExports t st = st' \<Longrightarrow> agent_step st st'"
| usage: "ValidName t \<Longrightarrow> owners_ok (fst st) \<Longrightarrow>
    snd (QgroupUsageBulk (st_btrfs (snd st)) (st_mountPoint (snd st)) (fst st)) = fst st \<Longrightarrow>
    \<forall>(n, m) \<in> set (tenant_entries t (st_volumes (snd st))). n \<noteq> SnapshotsDir \<Longrightarrow>
    updateAll t st = st' \<Longrightarrow> agent_step st st'"
| tick: "now w \<le> T \<Longrightarrow> agent_step (w, s) (w\<lparr>now := T\<rparr>, s)"
| fault: "agent_step (w, s) (w\<lparr>faults := f\<rparr>, s)"
| kernel: "agent_step (w, s) (w\<lparr>etab := es\<rparr>, s)"
| nfs_client: "ValidName t \<Longrightarrow> ValidName n \<Longrightarrow> n \<noteq> SnapshotsDir \<Longrightarrow> within (DataPath (st_volumes s) t n) w w' \<Longrightarrow> agent_step (w, s) (w', s)"

inductive_cases agent_stepE: "agent_step st st'"

lemma agent_step_config: "agent_step st st' \<Longrightarrow> config (snd st') = config (snd st)"
proof (induction rule: agent_step.induct)
  case (create req locked t st r st') then show ?case using config_CreateVolume[of locked t req st] by simp
next
  case (get t n st r1 st') then show ?case using config_GetVolume[of t n st] by simp
next
  case (update ureq n t st r1 st') then show ?case using config_UpdateVolume[of t n ureq st] by simp
next
  case (clone_volume lreq locked t st r st') then show ?case using config_CloneVolume[of locked t lreq st] by simp
next
  case (delete n t st e st') then show ?case using config_DeleteVolume[of t n st] by simp
next
  case (create_snapshot sreq locked t st r2 st') then show ?case using config_CreateSnapshot[of locked t sreq st] by simp
next
  case (get_snapshot t n st r3 st') then show ?case using config_GetSnapshot[of t n st] by simp
next
  case (delete_snapshot t n st e st') then show ?case using config_DeleteSnapshot[of t n st] by simp
next
  case (create_clone creq t st locked r st') then show ?case using config_CreateClone[of locked t creq st] by simp
next
  case (create_export ls n t c st e st') then show ?case using config_CreateVolumeExport[of t n c ls st] by simp
next
  case (delete_export n t c ols st e st') then show ?case using config_DeleteVolumeExport[of t n c ols st] by simp
next
  case (reconcile t st st') then show ?case using config_reconcileExports[of t st] by simp
next
  case (usage t st st') then show ?case using config_updateAll[of t st] by simp
qed simp_all

lemma agent_step_inv:
  assumes "agent_step st st'" "sys_inv (fst st) (snd st)" "btrfs_local (st_btrfs (snd st))" "keeps_files (st_exporter (snd st))"
  shows "sys_inv (fst st') (snd st')"
  using assms
proof (induction rule: agent_step.induct)
  case (create req locked t st r st')
  then show ?case using CreateVolume_inv[of "fst st" "snd st" req locked t r "fst st'" "snd st'"] by simp
next
  case (get t n st r1 st')
  then show ?case using GetVolume_inv(1)[of "fst st" "snd st" t n r1 "fst st'" "snd st'"] by simp
next
  case (update ureq n t st r1 st')
  then show ?case using UpdateVolume_inv(1)[of "fst st" "snd st" n ureq t r1 "fst st'" "snd st'"] by simp
next
  case (clone_volume lreq locked t st r st')
  then show ?case using CloneVolume_inv(1)[of "fst st" "snd st" lreq locked t r "fst st'" "snd st'"] by simp
next
  case (delete n t st e st')
  then show ?case using DeleteVolume_inv(1)[of "fst st" "snd st" n t e "fst st'" "snd st'"] by simp
next
  case (create_snapshot sreq locked t st r2 st')
  then show ?case using CreateSnapshot_inv(1)[of "fst st" "snd st" sreq locked t r2 "fst st'" "snd st'"] by simp
next
  case (get_snapshot t n st r3 st')
  then show ?case using GetSnapshot_inv(1)[of "fst st" "snd st" t n r3 "fst st'" "snd st'"] by simp
next
  case (delete_snapshot t n st e st')
  then show ?case using DeleteSnapshot_inv(1)[of "fst st" "snd st" t n e "fst st'" "snd st'"] by simp
next
  case (create_clone creq t st locked r st')
  then show ?case using CreateClone_inv(1)[of "fst st" "snd st" creq t locked r "fst st'" "snd st'"] by simp
next
  case (create_export ls n t c st e st')
  then show ?case using CreateVolumeExport_inv[of "fst st" "snd st" n ls t c e "fst st'" "snd st'"] by simp
next
  case (delete_export n t c ols st e st')
  then show ?case using DeleteVolumeExport_inv[of "fst st" "snd st" n t c ols e "fst st'" "snd st'"] by simp
next
  case (reconcile t st st')
  then show ?case using reconcileExports_inv[of "fst st" "snd st" t "fst st'" "snd st'"] by simp
next
  case (usage t st st')
  then show ?case using updateAll_inv[of "fst st" "snd st" t "fst st'" "snd st'"] by simp
next
  case (nfs_client t n s w w')
  have "under (Dir (st_volumes s) t n) (DataPath (st_volumes s) t n)"
    using entry_paths_under(3)[OF sys_invD(3) nfs_client.hyps(1,2)] nfs_client.prems(1) by auto
  then have "within (Dir (st_volumes s) t n) w w'" using within_mono[OF nfs_client.hyps(4)] by blast
  then show ?case
    using sys_inv_volumes[of w s t n w' "st_volumes s"] nfs_client vols.store_inv_data[OF sys_invD(1)] by auto
qed (simp_all add: sys_inv_nodes)

lemma agent_steps_inv:
  assumes "agent_step\<^sup>*\<^sup>* st st'" "sys_inv (fst st) (snd st)" "btrfs_local (st_btrfs (snd st))" "keeps_files (st_exporter (snd st))"
  shows "sys_inv (fst st') (snd st') \<and> config (snd st') = config (snd st)"
  using assms(1)
proof (induction rule: rtranclp_induct)
  case (step st1 st2)
  have c: "config (snd st1) = config (snd st)" using step by simp
  then show ?case using agent_step_inv[OF step(2)] agent_step_config[OF step(2)] step.IH assms(3,4) configD[OF c] by simp
qed (use assms in simp)

end
