(* ===== verification/Tenants.thy ===== *)
theory Tenants
  imports System
begin

text \<open>
  Isolation of tenants: a handler that runs for one tenant changes no cached entry of another tenant
  and no node below another tenant's directory.
\<close>

section \<open>Cached entries of other tenants\<close>

definition foreign :: "string \<Rightarrow> storage \<Rightarrow> storage \<Rightarrow> bool" where
  "foreign t s s' \<longleftrightarrow> (\<forall>t' n. ValidName t' \<longrightarrow> t' \<noteq> t \<longrightarrow>
     map_of (cache (st_volumes s')) (key t' n) = map_of (cache (st_volumes s)) (key t' n) \<and>
     map_of (cache (st_snapshots s')) (key t' n) = map_of (cache (st_snapshots s)) (key t' n))"

lemma foreign_refl [simp]: "foreign t s s"
  by (simp add: foreign_def)

lemma foreign_trans: "foreign t s s1 \<Longrightarrow> foreign t s1 s2 \<Longrightarrow> foreign t s s2"
  by (simp add: foreign_def)

lemma only_key_other: "only_key (key t n) s s' \<Longrightarrow> ValidName t \<Longrightarrow> ValidName t' \<Longrightarrow> t' \<noteq> t \<Longrightarrow>
    map_of (cache s') (key t' n') = map_of (cache s) (key t' n')"
  using key_inject[of t' t n' n] by (simp add: only_key_def)

lemma foreign_volumes: "only_key (key t n) (st_volumes s) vs \<Longrightarrow> ValidName t \<Longrightarrow> foreign t s (s\<lparr>st_volumes := vs\<rparr>)"
  by (simp add: foreign_def only_key_other)

lemma foreign_snapshots: "only_key (key t n) (st_snapshots s) ss \<Longrightarrow> ValidName t \<Longrightarrow> foreign t s (s\<lparr>st_snapshots := ss\<rparr>)"
  by (simp add: foreign_def only_key_other)

lemma foreign_GetVolume:
  assumes "ValidName t" "GetVolume t n st = (r, st')"
  shows "foreign t (snd st) (snd st')"
proof (cases st)
  case (Pair w s)
  obtain g vs where g: "Get volume_codec t n w (st_volumes s) = (g, vs)" by fastforce
  have "st' = st \<or> st' = (w, s\<lparr>st_volumes := vs\<rparr>)"
    using assms(2) g by (auto simp: GetVolume_def Pair split: sum.splits)
  then show ?thesis using foreign_volumes[OF only_key_Get[OF g] assms(1)] Pair by auto
qed

lemma foreign_GetSnapshot:
  assumes "ValidName t" "GetSnapshot t n st = (r, st')"
  shows "foreign t (snd st) (snd st')"
proof (cases st)
  case (Pair w s)
  obtain g ss where g: "Get snapshot_codec t n w (st_snapshots s) = (g, ss)" by fastforce
  have "st' = st \<or> st' = (w, s\<lparr>st_snapshots := ss\<rparr>)"
    using assms(2) g by (auto simp: GetSnapshot_def Pair split: sum.splits)
  then show ?thesis using foreign_snapshots[OF only_key_Get[OF g] assms(1)] Pair by auto
qed

lemma foreign_on_volumes:
  assumes "ValidName t" "on_volumes (create_entry cd l m dm cr un steps attrs mk t n (w, st_volumes s)) s = (r, st')"
  shows "foreign t s (snd st')"
proof -
  obtain r1 w1 vs where c: "create_entry cd l m dm cr un steps attrs mk t n (w, st_volumes s) = (r1, w1, vs)" using prod_cases3 by blast
  have "only_key (key t n) (st_volumes s) vs" using c only_key_create_entry by (cases r1) blast
  then show ?thesis using foreign_volumes[OF _ assms(1)] assms(2) c by (auto simp: on_volumes_def)
qed

lemma foreign_on_snapshots:
  assumes "ValidName t" "on_snapshots (create_entry cd l m dm cr un steps attrs mk t n (w, st_snapshots s)) s = (r, st')"
  shows "foreign t s (snd st')"
proof -
  obtain r1 w1 ss where c: "create_entry cd l m dm cr un steps attrs mk t n (w, st_snapshots s) = (r1, w1, ss)" using prod_cases3 by blast
  have "only_key (key t n) (st_snapshots s) ss" using c only_key_create_entry by (cases r1) blast
  then show ?thesis using foreign_snapshots[OF _ assms(1)] assms(2) c by (auto simp: on_snapshots_def)
qed

lemma foreign_CreateVolume:
  assumes "ValidName t" "CreateVolume l t req st = (r, st')"
  shows "foreign t (snd st) (snd st')"
  using assms by (cases st) (auto simp: CreateVolume_def Let_def dest: foreign_on_volumes split: sum.splits)

lemma foreign_UpdateVolume:
  assumes "ValidName t" "UpdateVolume t n req st = (r, st')"
  shows "foreign t (snd st) (snd st')"
proof -
  obtain g w s where g: "GetVolume t n st = (g, w, s)" using prod_cases3 by blast
  have f: "foreign t (snd st) s" using foreign_GetVolume[OF assms(1) g] by simp
  have "snd st' = s \<or> (\<exists>vs. only_key (key t n) (st_volumes s) vs \<and> snd st' = s\<lparr>st_volumes := vs\<rparr>)"
    using assms(2) g by (auto simp: UpdateVolume_def dest: only_key_Update split: sum.splits prod.splits option.splits)
  then show ?thesis using f foreign_volumes[OF _ assms(1)] foreign_trans by auto
qed

lemma foreign_CloneVolume:
  assumes "ValidName t" "CloneVolume l t req st = (r, st')"
  shows "foreign t (snd st) (snd st')"
proof -
  obtain w0 s0 where st: "st = (w0, s0)" by fastforce
  obtain g w s where g: "GetVolume t (vlr_Source req) st = (g, w, s)" using prod_cases3 by blast
  have f: "foreign t (snd st) s" using foreign_GetVolume[OF assms(1) g] by simp
  have "snd st' = snd st \<or> snd st' = s \<or> foreign t s (snd st')"
    using assms g by (auto simp: CloneVolume_def st Let_def dest: foreign_on_volumes split: sum.splits)
  then show ?thesis using f foreign_trans by auto
qed

lemma foreign_DeleteVolume:
  assumes "ValidName t" "DeleteVolume t n st = (r, st')"
  shows "foreign t (snd st) (snd st')"
proof -
  obtain w s where st: "st = (w, s)" by fastforce
  obtain g vs where g: "Get volume_codec t n w (st_volumes s) = (g, vs)" by fastforce
  have k: "only_key (key t n) (st_volumes s) vs" by (rule only_key_Get[OF g])
  have "snd st' = s \<or> (\<exists>vs'. only_key (key t n) (st_volumes s) vs' \<and> snd st' = s\<lparr>st_volumes := vs'\<rparr>)"
    using assms(2) g k by (auto simp: DeleteVolume_def st split: sum.splits prod.splits option.splits if_splits)
      (metis only_key_trans only_key_Delete)+
  then show ?thesis using foreign_volumes[OF _ assms(1)] st by auto
qed

lemma foreign_CreateSnapshot:
  assumes "ValidName t" "CreateSnapshot l t req st = (r, st')"
  shows "foreign t (snd st) (snd st')"
proof -
  obtain w s where st: "st = (w, s)" by fastforce
  obtain g vs where g: "Get volume_codec t (scr_Volume req) w (st_volumes s) = (g, vs)" by fastforce
  have f: "foreign t s (s\<lparr>st_volumes := vs\<rparr>)" by (rule foreign_volumes[OF only_key_Get[OF g] assms(1)])
  have "snd st' = s \<or> snd st' = s\<lparr>st_volumes := vs\<rparr> \<or> foreign t (s\<lparr>st_volumes := vs\<rparr>) (snd st')"
    using assms g foreign_on_snapshots[OF assms(1), where s = "s\<lparr>st_volumes := vs\<rparr>" and st' = st']
    by (auto simp: CreateSnapshot_def st Let_def split: sum.splits)
  then show ?thesis using f foreign_trans st by auto
qed

lemma foreign_DeleteSnapshot:
  assumes "ValidName t" "DeleteSnapshot t n st = (r, st')"
  shows "foreign t (snd st) (snd st')"
proof -
  obtain w s where st: "st = (w, s)" by fastforce
  have "snd st' = s \<or> (\<exists>ss. only_key (key t n) (st_snapshots s) ss \<and> snd st' = s\<lparr>st_snapshots := ss\<rparr>)"
    using assms(2) by (auto simp: DeleteSnapshot_def st dest: only_key_Delete split: sum.splits prod.splits option.splits)
  then show ?thesis using foreign_snapshots[OF _ assms(1)] st by auto
qed

lemma foreign_CreateClone:
  assumes "ValidName t" "CreateClone l t req st = (r, st')"
  shows "foreign t (snd st) (snd st')"
proof -
  obtain w s where st: "st = (w, s)" by fastforce
  obtain g ss where g: "Get snapshot_codec t (ccr_Snapshot req) w (st_snapshots s) = (g, ss)" by fastforce
  have f: "foreign t s (s\<lparr>st_snapshots := ss\<rparr>)" by (rule foreign_snapshots[OF only_key_Get[OF g] assms(1)])
  show ?thesis
  proof (cases g)
    case (Inl e)
    then show ?thesis using assms(2) g f by (auto simp: CreateClone_def st Let_def split: sum.splits)
  next
    case (Inr snap)
    obtain g2 vs where g2: "Get volume_codec t (sm_Volume snap) w (st_volumes s) = (g2, vs)" by fastforce
    let ?s2 = "s\<lparr>st_snapshots := ss, st_volumes := vs\<rparr>"
    have "foreign t (s\<lparr>st_snapshots := ss\<rparr>) ?s2"
      using foreign_volumes[of t "sm_Volume snap" "s\<lparr>st_snapshots := ss\<rparr>" vs] only_key_Get[OF g2] assms(1) by simp
    then have f2: "foreign t s ?s2" using f foreign_trans by blast
    have "snd st' = s \<or> foreign t ?s2 (snd st')"
      using assms(2) g Inr g2 foreign_on_volumes[OF assms(1), where s = ?s2 and st' = st']
      by (auto simp: CreateClone_def st Let_def split: sum.splits)
    then show ?thesis using f2 foreign_trans st by auto
  qed
qed

lemma foreign_CreateVolumeExport:
  assumes "ValidName t" "CreateVolumeExport t n c ls st = (r, st')"
  shows "foreign t (snd st) (snd st')"
proof -
  obtain w s where st: "st = (w, s)" by fastforce
  have "snd st' = s \<or> (\<exists>vs. only_key (key t n) (st_volumes s) vs \<and> snd st' = s\<lparr>st_volumes := vs\<rparr>)"
    using assms(2) by (auto simp: CreateVolumeExport_def st Let_def dest: only_key_Update
        split: sum.splits prod.splits option.splits if_splits)
  then show ?thesis using foreign_volumes[OF _ assms(1)] st by auto
qed

lemma foreign_DeleteVolumeExport:
  assumes "ValidName t" "DeleteVolumeExport t n c ls st = (r, st')"
  shows "foreign t (snd st) (snd st')"
proof -
  obtain w s where st: "st = (w, s)" by fastforce
  have "snd st' = s \<or> (\<exists>vs. only_key (key t n) (st_volumes s) vs \<and> snd st' = s\<lparr>st_volumes := vs\<rparr>)"
    using assms(2) by (auto simp: DeleteVolumeExport_def st Let_def dest: only_key_Update
        split: sum.splits prod.splits option.splits if_splits)
  then show ?thesis using foreign_volumes[OF _ assms(1)] st by auto
qed

section \<open>Nodes of other tenants\<close>

lemma under_comparable: "under a q \<Longrightarrow> under b q \<Longrightarrow> under a b \<or> under b a"
proof -
  assume a: "under a q" and b: "under b q"
  have "prefix (d @ ''/'') (q @ ''/'')" if "under d q" for d
    using that unfolding under_def by (auto intro: prefix_prefix)
  then have "prefix (a @ ''/'') (b @ ''/'') \<or> prefix (b @ ''/'') (a @ ''/'')" using a b prefix_same_cases by blast
  then show ?thesis by (auto simp: under_def prefix_snoc)
qed

lemma tenant_dirs_apart:
  assumes wf: "store_wf st" and v: "ValidName t" "ValidName n" "ValidName t'" "t' \<noteq> t"
    and q: "under (filepath_join [basePath st, t']) q"
  shows "\<not> under (Dir st t n) q"
proof
  assume d: "under (Dir st t n) q"
  let ?r = "is_rooted (basePath st)" and ?b = "path_comps (basePath st)"
  have t': "filepath_join [basePath st, t'] = render ?r (?b @ [t'])"
    using filepath_join_comps[of "basePath st" "[t']"] wf v(3) by (simp add: store_wf_def)
  have dr: "Dir st t n = render ?r (entry_comps st t n)" by (rule Dir_render[OF wf v(1,2)])
  have g: "\<forall>c \<in> set (?b @ [t']). good_comp c" "\<forall>c \<in> set (entry_comps st t n). good_comp c"
    using path_comps_good v(3) entry_comps_good[OF wf v(1,2)] by auto
  have "prefix (?b @ [t']) (entry_comps st t n) \<or> prefix (entry_comps st t n) (?b @ [t'])"
    using under_comparable[OF q d] under_render[OF _ g, of ?r] under_render[OF _ g(2,1), of ?r] unfolding t' dr
    by (auto simp: entry_comps_def)
  then show False using v(4) by (auto simp: entry_comps_def prefix_def)
qed

text \<open>Nothing that exists below the directory changes, and no file appears there.\<close>

definition untouched :: "string \<Rightarrow> world \<Rightarrow> world \<Rightarrow> bool" where
  "untouched d w w' \<longleftrightarrow> (\<forall>q. under d q \<longrightarrow> node_at w' q = node_at w q \<or> node_at w q = None \<and> (\<exists>a. node_at w' q = Some (DirNode a)))"

lemma untouched_refl [simp]: "untouched d w w"
  by (simp add: untouched_def)

lemma within_untouched:
  assumes "store_wf st" "basePath st = b" "ValidName t" "ValidName n" "ValidName t'" "t' \<noteq> t" "within (Dir st t n) w w'"
  shows "untouched (filepath_join [b, t']) w w'"
  using assms tenant_dirs_apart[OF assms(1,3-6)] by (auto simp: untouched_def within_def)

lemma untouched_files: "untouched d w w1 \<Longrightarrow> same_files w1 w' \<Longrightarrow> untouched d w w'"
  by (simp add: untouched_def same_files_def node_at_def)

inductive tenant_step :: "string \<Rightarrow> state \<Rightarrow> state \<Rightarrow> bool" for t where
  create: "keys_distinct (vcr_Labels req) \<Longrightarrow> CreateVolume locked t req st = (r, st') \<Longrightarrow> tenant_step t st st'"
| get: "GetVolume t n st = (r1, st') \<Longrightarrow> tenant_step t st st'"
| update: "\<forall>ls. vur_Labels ureq \<noteq> Some ls \<or> keys_distinct ls \<Longrightarrow> n \<noteq> SnapshotsDir \<Longrightarrow>
    UpdateVolume t n ureq st = (r1, st') \<Longrightarrow> tenant_step t st st'"
| clone_volume: "keys_distinct (vlr_Labels lreq) \<Longrightarrow> vlr_Name lreq \<noteq> SnapshotsDir \<Longrightarrow>
    CloneVolume locked t lreq st = (r, st') \<Longrightarrow> tenant_step t st st'"
| delete: "n \<noteq> SnapshotsDir \<Longrightarrow> DeleteVolume t n st = (e, st') \<Longrightarrow> tenant_step t st st'"
| create_snapshot: "keys_distinct (scr_Labels sreq) \<Longrightarrow> CreateSnapshot locked t sreq st = (r2, st') \<Longrightarrow> tenant_step t st st'"
| get_snapshot: "GetSnapshot t n st = (r3, st') \<Longrightarrow> tenant_step t st st'"
| delete_snapshot: "DeleteSnapshot t n st = (e, st') \<Longrightarrow> tenant_step t st st'"
| create_clone: "keys_distinct (ccr_Labels creq) \<Longrightarrow> ccr_Name creq \<noteq> SnapshotsDir \<Longrightarrow>
    (\<And>snap. fst (Get snapshot_codec t (ccr_Snapshot creq) (fst st) (st_snapshots (snd st))) = Inr snap \<Longrightarrow> ValidName (sm_Volume snap)) \<Longrightarrow>
    CreateClone locked t creq st = (r, st') \<Longrightarrow> tenant_step t st st'"
| create_export: "CreateVolumeExport t n c ls st = (e, st') \<Longrightarrow> tenant_step t st st'"
| delete_export: "DeleteVolumeExport t n c ols st = (e, st') \<Longrightarrow> tenant_step t st st'"
| reconcile: "reconcileExports t st = st' \<Longrightarrow> tenant_step t st st'"

inductive_cases tenant_stepE: "tenant_step t st st'"

lemma tenant_step_foreign:
  assumes "tenant_step t st st'" "ValidName t"
  shows "foreign t (snd st) (snd st')"
  using assms
proof (induction rule: tenant_step.induct)
  case (reconcile st st')
  have "snd (reconcileExports t st) = snd st" by (simp add: reconcileExports_def Let_def split: prod.splits sum.splits)
  then show ?case using reconcile by simp
qed (auto intro: foreign_CreateVolume foreign_GetVolume foreign_UpdateVolume foreign_CloneVolume foreign_DeleteVolume
    foreign_CreateSnapshot foreign_GetSnapshot foreign_DeleteSnapshot foreign_CreateClone foreign_CreateVolumeExport foreign_DeleteVolumeExport)

section \<open>Requests with an invalid name\<close>

lemma invalid_names:
  assumes "\<not> ValidName n"
  shows "vcr_Name req = n \<Longrightarrow> fst (snd (CreateVolume l t req st)) = fst st"
    and "fst (snd (UpdateVolume t n ureq st)) = fst st"
    and "vlr_Name lreq = n \<Longrightarrow> fst (snd (CloneVolume l t lreq st)) = fst st"
    and "fst (snd (DeleteVolume t n st)) = fst st"
    and "scr_Name sreq = n \<Longrightarrow> fst (snd (CreateSnapshot l t sreq st)) = fst st"
    and "fst (snd (DeleteSnapshot t n st)) = fst st"
    and "ccr_Name creq = n \<Longrightarrow> fst (snd (CreateClone l t creq st)) = fst st"
    and "fst (snd (CreateVolumeExport t n c ls st)) = fst st"
    and "fst (snd (DeleteVolumeExport t n c ols st)) = fst st"
proof -
  show "vcr_Name req = n \<Longrightarrow> fst (snd (CreateVolume l t req st)) = fst st"
    using assms create_validate_Inr(2,3)[of "snd st" t req "fst st"]
    by (cases st; cases "create_validate (snd st) t req (fst st)") (auto simp: CreateVolume_def)
qed (insert assms, cases st, auto simp: UpdateVolume_def GetVolume_def CloneVolume_def DeleteVolume_def CreateSnapshot_def
      DeleteSnapshot_def CreateClone_def CreateVolumeExport_def DeleteVolumeExport_def Let_def split: sum.splits prod.splits)

section \<open>Isolation\<close>

lemma Update_untouched:
  assumes inv: "sys_inv w s" and v: "ValidName t" "ValidName n" "ValidName t'" "t' \<noteq> t"
    and u: "Update volume_codec t n fn al (w, st_volumes s) = (r, w', vs)"
  shows "untouched (filepath_join [st_basePath s, t']) w w'"
  using within_untouched[OF sys_invD(3,5)[OF inv] v vols.Update_within[OF sys_invD(3)[OF inv] v(1,2) u]] .

lemma export_untouched:
  assumes inv: "sys_inv w s" and ex: "keeps_files (st_exporter s)" and v: "ValidName t" "ValidName t'" "t' \<noteq> t"
  shows "CreateVolumeExport t n c ls (w, s) = (e, w', s') \<Longrightarrow> untouched (filepath_join [st_basePath s, t']) w w'"
    and "DeleteVolumeExport t n c ols (w, s) = (e, w', s') \<Longrightarrow> untouched (filepath_join [st_basePath s, t']) w w'"
proof -
  assume a: "CreateVolumeExport t n c ls (w, s) = (e, w', s')"
  show "untouched (filepath_join [st_basePath s, t']) w w'"
  proof (cases "ValidName n")
    case True
    obtain r1 w1 vs where u: "Update volume_codec t n (add_export c ls (now w)) id (w, st_volumes s) = (r1, w1, vs)"
      using prod_cases3 by blast
    have "w' = w \<or> w' = w1 \<or> same_files w1 w'"
      using a u keeps_filesD(1)[OF ex]
      by (auto simp: CreateVolumeExport_def Let_def split: sum.splits if_splits prod.splits option.splits)
    then show ?thesis using Update_untouched[OF inv v(1) True v(2,3) u] untouched_files by auto
  qed (use invalid_names(8)[of n t c ls "(w, s)"] a in simp)
next
  assume a: "DeleteVolumeExport t n c ols (w, s) = (e, w', s')"
  show "untouched (filepath_join [st_basePath s, t']) w w'"
  proof (cases "ValidName n")
    case True
    obtain r1 w1 vs where u: "Update volume_codec t n (remove_exports c ols (now w)) (filter_in_place c ols) (w, st_volumes s) = (r1, w1, vs)"
      using prod_cases3 by blast
    have "w' = w \<or> w' = w1 \<or> same_files w1 w'"
      using a u keeps_filesD(2)[OF ex]
      by (auto simp: DeleteVolumeExport_def Let_def split: sum.splits if_splits prod.splits option.splits)
    then show ?thesis using Update_untouched[OF inv v(1) True v(2,3) u] untouched_files by auto
  qed (use invalid_names(9)[of n t c ols "(w, s)"] a in simp)
qed

lemma tenant_step_untouched:
  assumes "tenant_step t st st'" "sys_inv (fst st) (snd st)" "btrfs_local (st_btrfs (snd st))" "keeps_files (st_exporter (snd st))"
    and v: "ValidName t" "ValidName t'" "t' \<noteq> t"
  shows "untouched (filepath_join [st_basePath (snd st), t']) (fst st) (fst st')"
  using assms(1-4)
proof (induction rule: tenant_step.induct)
  case (create req locked st r st')
  show ?case
  proof (cases "create_validate (snd st) t req (fst st)")
    case (Inl e)
    then show ?thesis using create.hyps by (cases st) (auto simp: CreateVolume_def)
  next
    case (Inr x)
    obtain q m where "x = (q, m)" by fastforce
    then show ?thesis
      using within_untouched[OF sys_invD(3,5)[OF create.prems(1)] v(1) _ v(2,3) CreateVolume_entry(1)[OF _ create.prems(1,2) create.hyps(1)]]
        create_validate_Inr(2,3) Inr create.hyps by (metis prod.collapse)
  qed
next
  case (get n st r1 st')
  then show ?case using GetVolume_inv(2)[of "fst st" "snd st" t n r1 "fst st'" "snd st'"] by simp
next
  case (update ureq n st r1 st')
  note w = within_untouched[OF sys_invD(3,5)[OF update.prems(1)] v(1) _ v(2,3), of n "fst st" "fst st'"]
  show ?case using w UpdateVolume_inv(2)[of "fst st" "snd st" n ureq t r1 "fst st'" "snd st'"] update v(1)
      invalid_names(2)[of n t ureq st] by (cases "ValidName n") simp_all
next
  case (clone_volume lreq locked st r st')
  let ?n = "vlr_Name lreq"
  note w = within_untouched[OF sys_invD(3,5)[OF clone_volume.prems(1)] v(1) _ v(2,3), of ?n "fst st" "fst st'"]
  show ?case using w CloneVolume_inv(2)[of "fst st" "snd st" lreq locked t r "fst st'" "snd st'"] clone_volume v(1)
      invalid_names(3)[of ?n lreq locked t st] by (cases "ValidName ?n") simp_all
next
  case (delete n st e st')
  note w = within_untouched[OF sys_invD(3,5)[OF delete.prems(1)] v(1) _ v(2,3), of n "fst st" "fst st'"]
  show ?case using w DeleteVolume_inv(2)[of "fst st" "snd st" n t e "fst st'" "snd st'"] delete v(1)
      invalid_names(4)[of n t st] by (cases "ValidName n") simp_all
next
  case (create_snapshot sreq locked st r2 st')
  let ?n = "scr_Name sreq"
  note w = within_untouched[OF sys_invD(4,7)[OF create_snapshot.prems(1)] v(1) _ v(2,3), of ?n "fst st" "fst st'"]
  show ?case using w CreateSnapshot_inv(2)[of "fst st" "snd st" sreq locked t r2 "fst st'" "snd st'"] create_snapshot v(1)
      invalid_names(5)[of ?n sreq locked t st] by (cases "ValidName ?n") simp_all
next
  case (get_snapshot n st r3 st')
  then show ?case using GetSnapshot_inv(2)[of "fst st" "snd st" t n r3 "fst st'" "snd st'"] by simp
next
  case (delete_snapshot n st e st')
  note w = within_untouched[OF sys_invD(4,7)[OF delete_snapshot.prems(1)] v(1) _ v(2,3), of n "fst st" "fst st'"]
  show ?case using w DeleteSnapshot_inv(2)[of "fst st" "snd st" t n e "fst st'" "snd st'"] delete_snapshot v(1)
      invalid_names(6)[of n t st] by (cases "ValidName n") simp_all
next
  case (create_clone creq st locked r st')
  let ?n = "ccr_Name creq"
  note w = within_untouched[OF sys_invD(3,5)[OF create_clone.prems(1)] v(1) _ v(2,3), of ?n "fst st" "fst st'"]
  show ?case using w CreateClone_inv(2)[of "fst st" "snd st" creq t locked r "fst st'" "snd st'"] create_clone v(1)
      invalid_names(7)[of ?n creq locked t st] by (cases "ValidName ?n") simp_all
next
  case (create_export n c ls st e st')
  then show ?case using export_untouched(1)[of "fst st" "snd st" t t' n c ls e "fst st'" "snd st'"] v by simp
next
  case (delete_export n c ols st e st')
  then show ?case using export_untouched(2)[of "fst st" "snd st" t t' n c ols e "fst st'" "snd st'"] v by simp
next
  case (reconcile st st')
  obtain w s where st: "st = (w, s)" by fastforce
  obtain r w1 where l: "ListExports (st_exporter s) w = (r, w1)" by fastforce
  have ex: "keeps_files (st_exporter s)" using reconcile st by simp
  have f1: "same_files w w1" by (rule keeps_filesD(3)[OF ex l])
  have "same_files w (fst st')"
    using reconcile(1) l st f1 same_files_trans[OF same_files_trans[OF f1 remove_orphans_files[OF ex]] restore_exports_files[OF ex]]
    by (auto simp: reconcileExports_def Let_def split: sum.splits)
  then show ?case using untouched_files[OF untouched_refl] st by simp
qed

end
