(* ===== verification/SystemProps.thy ===== *)
theory SystemProps
  imports Tenants Demo
begin

text \<open>Properties of the agent as a whole: the invariant of every reachable state, and the isolation
  of tenants.\<close>

section \<open>An environment in which the agent starts\<close>

definition demo_env :: environ where
  "demo_env = \<lparr>en_cwd = ''/'', en_mountinfo = Inr (''1 0 8:1 / /'' @ [newline] @ ''2 1 8:2 / /d rw''),
     en_isBtrfs = (\<lambda>p. True), en_btrfs = tree_manager, en_exporter = Some demo_exporter\<rparr>"

definition demo_new :: "string + state" where
  "demo_new = New demo_env ''/d'' True [''t''] ''0755'' ''2770'' [] demo_world"

lemma tool_files: "same_files w (snd (exportfs_tool b args w))"
  by (auto simp: exportfs_tool_def same_files_def split: list.splits if_splits)

lemma tool_run_files:
  "same_files w (snd (ke_run (kernel_of b exportfs_tool opts) args w))"
  "same_files w (snd (tryUnexport (kernel_of b exportfs_tool opts) args w))"
  "same_files w (snd (KernelListExports (kernel_of b exportfs_tool opts) w))"
  using tool_files[of w b args] tool_files[of w b "[''-v'']"]
  by (auto simp: ke_run_def tryUnexport_def KernelListExports_def ke_exec_def kernel_of_def split: prod.splits option.splits)

lemma tool_unexport_all_files: "same_files w (snd (unexport_all (kernel_of b exportfs_tool opts) p cs e w))"
proof (induction cs arbitrary: e w)
  case (Cons c cs)
  obtain r w1 where u: "tryUnexport (kernel_of b exportfs_tool opts) [''-u'', export_target c p] w = (r, w1)" by fastforce
  then have f: "same_files w w1" using tool_run_files(2)[of w b opts] by (metis snd_conv)
  show ?case using u same_files_trans[OF f Cons.IH] by (cases r) simp_all
qed (simp add: same_files_def)

lemma demo_exporter_files: "keeps_files demo_exporter"
proof -
  let ?k = "kernel_of ''exportfs'' exportfs_tool ''rw''"
  have "same_files w (snd (KernelUnexport ?k p c w))" for p c w
  proof -
    obtain r w1 where l: "KernelListExports ?k w = (r, w1)" by fastforce
    have f: "same_files w w1" using tool_run_files(3)[of w "''exportfs''" "''rw''"] l by simp
    then show ?thesis
      using l tool_run_files(2) same_files_trans[OF f tool_unexport_all_files]
      by (auto simp: KernelUnexport_def exportedClients_def split: sum.splits)
  qed
  then show ?thesis using tool_run_files
    by (simp add: keeps_files_def demo_exporter_def NewKernelExporter_def KernelExport_def Let_def)
qed

section \<open>Reachable states\<close>

lemma setup_storage_fields:
  assumes "setup_storage env base q ts dm dam il w = Inr (w', s)"
  shows "st_btrfs s = en_btrfs env" "en_exporter env = Some (st_exporter s)" "st_basePath s = base" "st_tenants s = ts"
  using assms by (auto simp: setup_storage_def split: sum.splits option.splits prod.splits bool.splits if_splits node.splits)

lemma load_config: "config (snd (loadCache st)) = config (snd st)"
proof -
  have v: "config (snd (load_volume t e st)) = config (snd st)" for t e st
    by (simp add: load_volume_def split: prod.splits)
  have s: "config (snd (load_snapshot t e st)) = config (snd st)" for t e st
    by (simp add: load_snapshot_def split: prod.splits)
  have "config (snd (load_tenant t st)) = config (snd st)" for t st
    by (simp add: load_tenant_def load_volumes_def load_snapshots_def Let_def config_fold v s split: sum.splits)
  then show ?thesis by (simp add: loadCache_def config_fold)
qed

lemma New_inv:
  assumes su: "setup_storage env base q ts dm dam il w0 = Inr st1" and td: "tidy st1" and b: "base \<noteq> []"
    and new: "New env base q ts dm dam il w0 = Inr st0"
  shows "sys_inv (fst st0) (snd st0) \<and> st_btrfs (snd st0) = en_btrfs env \<and> en_exporter env = Some (st_exporter (snd st0)) \<and>
    st_basePath (snd st0) = base \<and> st_tenants (snd st0) = ts"
proof -
  obtain w1 s1 where st1: "st1 = (w1, s1)" by fastforce
  have st0: "st0 = loadCache st1" using new su by (simp add: New_def)
  have i1: "sys_inv (fst st1) (snd st1)" using setup_storage_inv[OF su[unfolded st1] b] st1 by simp
  have c0: "config (snd st0) = config s1" using load_config[of st1] st0 st1 by simp
  show ?thesis using loadCache_inv[OF i1 td] st0 configD[OF c0] setup_storage_fields[OF su[unfolded st1]] by simp
qed



section \<open>Isolation of tenants\<close>

text \<open>C14: a request or worker that runs for one tenant leaves every other tenant alone: the cached
  volumes and snapshots of another tenant are the same before and after, nothing that exists below
  the other tenant's directory changes or disappears, and no file appears there.\<close>

theorem tenant_isolation:
  assumes "tenant_step t (w, s) (w', s')" "sys_inv w s" "btrfs_local (st_btrfs s)" "keeps_files (st_exporter s)"
    and v: "ValidName t" "ValidName t'" "t' \<noteq> t"
  shows "map_of (cache (st_volumes s')) (key t' n) = map_of (cache (st_volumes s)) (key t' n) \<and>
    map_of (cache (st_snapshots s')) (key t' n) = map_of (cache (st_snapshots s)) (key t' n) \<and>
    untouched (filepath_join [st_basePath s, t']) w w'"
  using tenant_step_foreign[OF assms(1) v(1)] tenant_step_untouched[OF assms(1) _ _ _ v] assms(2-4) v
  by (simp add: foreign_def)

theorem tenant_isolation_witness:
  "\<exists>w' s'. DeleteVolume ''u'' ''v'' demo_state = (Some (StorageError ErrNotFound), w', s') \<and>
     map_of (cache (st_volumes s')) (key ''t'' ''v'') = Some demo_meta \<and> untouched ''/d/t'' (fst demo_state) w'"
proof -
  let ?w = "fst demo_state" and ?s = "snd demo_state"
  obtain r w' s' where d: "DeleteVolume ''u'' ''v'' demo_state = (r, w', s')" using prod_cases3 by blast
  have e: "fst (DeleteVolume ''u'' ''v'' demo_state) = Some (StorageError ErrNotFound) \<and>
      map_of (cache (st_volumes ?s)) (key ''t'' ''v'') = Some demo_meta \<and>
      filepath_join [st_basePath ?s, ''t''] = ''/d/t'' \<and> ValidName ''u''" by code_simp
  have d2: "DeleteVolume ''u'' ''v'' (?w, ?s) = (r, w', s')" using d by simp
  have s: "tenant_step ''u'' (?w, ?s) (w', s')" by (rule tenant_step.delete[OF _ d2]) (simp add: SnapshotsDir_def)
  have ex: "keeps_files (st_exporter ?s)" using demo_exporter_files by (simp add: demo_state_def demo_storage_def)
  have "map_of (cache (st_volumes s')) (key ''t'' ''v'') = map_of (cache (st_volumes ?s)) (key ''t'' ''v'') \<and>
      untouched (filepath_join [st_basePath ?s, ''t'']) ?w w'"
    using tenant_isolation[OF s demo_state_inv demo_state_local ex _ demo_names(1), of "''v''"] e by simp
  moreover have "r = Some (StorageError ErrNotFound)" using e unfolding d by simp
  ultimately show ?thesis using e d by auto
qed

end
