(* ===== verification/PathLock.thy ===== *)
theory PathLock
  imports Prelude
begin

text \<open>
  The pool of per-path locks of \<open>agent/storage/meta/store.go\<close>. A lock is a channel with room for one
  token and a reference count; the pool maps a path to its lock as long as somebody holds a
  reference. The operations on the pool run under one mutex and are single steps here; a goroutine
  goes through them one by one, interleaved with all others, and may give up waiting when its
  context is cancelled.
\<close>

section \<open>Definitions\<close>

type_synonym path = string
type_synonym lock_id = nat

text \<open>\<open>token\<close> is True when the channel holds its token, that is when the lock is free.\<close>

record refMutex =
  token :: bool
  nrefs :: nat

record pool =
  locksMap :: "(path \<times> lock_id) list"
  mutexes :: "lock_id \<Rightarrow> refMutex"
  next_id :: lock_id

definition pathLockShared :: "path \<Rightarrow> pool \<Rightarrow> lock_id \<times> pool" where
  "pathLockShared path P = (case map_of (locksMap P) path of
       Some rm \<Rightarrow> (rm, P\<lparr>mutexes := (mutexes P)(rm := (mutexes P rm)\<lparr>nrefs := nrefs (mutexes P rm) + 1\<rparr>)\<rparr>)
     | None \<Rightarrow> let rm = next_id P in
         (rm, P\<lparr>locksMap := AList.update path rm (locksMap P),
                mutexes := (mutexes P)(rm := \<lparr>token = True, nrefs = 1\<rparr>), next_id := rm + 1\<rparr>))"

definition take_token :: "lock_id \<Rightarrow> pool \<Rightarrow> pool" where
  "take_token rm P = P\<lparr>mutexes := (mutexes P)(rm := (mutexes P rm)\<lparr>token := False\<rparr>)\<rparr>"

definition put_token :: "lock_id \<Rightarrow> pool \<Rightarrow> pool" where
  "put_token rm P = P\<lparr>mutexes := (mutexes P)(rm := (mutexes P rm)\<lparr>token := True\<rparr>)\<rparr>"

definition releaseRef :: "path \<Rightarrow> lock_id \<Rightarrow> pool \<Rightarrow> pool" where
  "releaseRef path rm P =
     (let n = nrefs (mutexes P rm) - 1;
          P1 = P\<lparr>mutexes := (mutexes P)(rm := (mutexes P rm)\<lparr>nrefs := n\<rparr>)\<rparr>
      in if n = 0 then P1\<lparr>locksMap := AList.delete path (locksMap P1)\<rparr> else P1)"

text \<open>Where a goroutine is: outside, waiting for the token after \<open>pathLockShared\<close>, inside the critical
  section, or before its \<open>releaseRef\<close> (after it put the token back, or gave up waiting).\<close>

datatype pc = Outside | Waiting path lock_id | Holding path lock_id | Leaving path lock_id

record lock_state =
  the_pool :: pool
  thread :: "nat \<Rightarrow> pc"

definition init_locks :: lock_state where
  "init_locks = \<lparr>the_pool = \<lparr>locksMap = [], mutexes = (\<lambda>_. \<lparr>token = False, nrefs = 0\<rparr>), next_id = 0\<rparr>, thread = (\<lambda>_. Outside)\<rparr>"

text \<open>The steps of \<open>pathLock\<close>, of \<open>pathLockCtx\<close> (which adds \<open>give_up\<close>), and of the release closure. The
  send of the release blocks while the channel is full.\<close>

inductive lock_step :: "lock_state \<Rightarrow> lock_state \<Rightarrow> bool" where
  share: "thread S i = Outside \<Longrightarrow> pathLockShared p (the_pool S) = (rm, P') \<Longrightarrow>
    lock_step S (S\<lparr>the_pool := P', thread := (thread S)(i := Waiting p rm)\<rparr>)"
| acquire: "thread S i = Waiting p rm \<Longrightarrow> token (mutexes (the_pool S) rm) \<Longrightarrow>
    lock_step S (S\<lparr>the_pool := take_token rm (the_pool S), thread := (thread S)(i := Holding p rm)\<rparr>)"
| give_up: "thread S i = Waiting p rm \<Longrightarrow> lock_step S (S\<lparr>thread := (thread S)(i := Leaving p rm)\<rparr>)"
| refill: "thread S i = Holding p rm \<Longrightarrow> \<not> token (mutexes (the_pool S) rm) \<Longrightarrow>
    lock_step S (S\<lparr>the_pool := put_token rm (the_pool S), thread := (thread S)(i := Leaving p rm)\<rparr>)"
| drop: "thread S i = Leaving p rm \<Longrightarrow>
    lock_step S (S\<lparr>the_pool := releaseRef p rm (the_pool S), thread := (thread S)(i := Outside)\<rparr>)"

inductive_cases lock_stepE: "lock_step S S'"

section \<open>Invariant\<close>

fun ref_of :: "pc \<Rightarrow> (path \<times> lock_id) option" where
  "ref_of Outside = None"
| "ref_of (Waiting p rm) = Some (p, rm)"
| "ref_of (Holding p rm) = Some (p, rm)"
| "ref_of (Leaving p rm) = Some (p, rm)"

fun holds :: "lock_id \<Rightarrow> pc \<Rightarrow> bool" where
  "holds rm (Holding p rm') = (rm' = rm)"
| "holds rm _ = False"

definition users :: "lock_state \<Rightarrow> lock_id \<Rightarrow> nat set" where
  "users S rm = {i. \<exists>p. ref_of (thread S i) = Some (p, rm)}"

definition lock_inv :: "lock_state \<Rightarrow> bool" where
  "lock_inv S \<longleftrightarrow> finite {i. thread S i \<noteq> Outside} \<and>
     (\<forall>i p rm. ref_of (thread S i) = Some (p, rm) \<longrightarrow> map_of (locksMap (the_pool S)) p = Some rm) \<and>
     (\<forall>p rm. map_of (locksMap (the_pool S)) p = Some rm \<longrightarrow>
        rm < next_id (the_pool S) \<and> nrefs (mutexes (the_pool S) rm) = card (users S rm) \<and> users S rm \<noteq> {} \<and>
        (token (mutexes (the_pool S) rm) \<longleftrightarrow> (\<forall>i. \<not> holds rm (thread S i))) \<and>
        (\<forall>i j. holds rm (thread S i) \<longrightarrow> holds rm (thread S j) \<longrightarrow> i = j)) \<and>
     (\<forall>p q rm. map_of (locksMap (the_pool S)) p = Some rm \<longrightarrow> map_of (locksMap (the_pool S)) q = Some rm \<longrightarrow> p = q)"

lemma lock_invD:
  assumes "lock_inv S"
  shows "finite {i. thread S i \<noteq> Outside}"
    and "ref_of (thread S i) = Some (p, rm) \<Longrightarrow> map_of (locksMap (the_pool S)) p = Some rm"
    and "map_of (locksMap (the_pool S)) p = Some rm \<Longrightarrow> rm < next_id (the_pool S)"
    and "map_of (locksMap (the_pool S)) p = Some rm \<Longrightarrow> nrefs (mutexes (the_pool S) rm) = card (users S rm)"
    and "map_of (locksMap (the_pool S)) p = Some rm \<Longrightarrow> users S rm \<noteq> {}"
    and "map_of (locksMap (the_pool S)) p = Some rm \<Longrightarrow> token (mutexes (the_pool S) rm) \<longleftrightarrow> (\<forall>i. \<not> holds rm (thread S i))"
    and "map_of (locksMap (the_pool S)) p = Some rm \<Longrightarrow> holds rm (thread S i) \<Longrightarrow> holds rm (thread S j) \<Longrightarrow> i = j"
    and "map_of (locksMap (the_pool S)) p = Some rm \<Longrightarrow> map_of (locksMap (the_pool S)) q = Some rm \<Longrightarrow> p = q"
  using assms unfolding lock_inv_def by blast+

lemma finite_users: "lock_inv S \<Longrightarrow> finite (users S rm)"
  by (rule finite_subset[OF _ lock_invD(1)]) (auto simp: users_def)

lemma users_upd: "users (S\<lparr>the_pool := P, thread := (thread S)(i := pc)\<rparr>) rm =
    (if \<exists>p. ref_of pc = Some (p, rm) then insert i (users S rm) else users S rm - {i})"
  by (auto simp: users_def)

lemma holds_users: "holds rm (thread S j) \<Longrightarrow> j \<in> users S rm"
  by (cases "thread S j") (auto simp: users_def)

lemma lock_inv_init: "lock_inv init_locks"
  by (simp add: lock_inv_def init_locks_def)

text \<open>A step that leaves the pool's map alone and changes one lock and one goroutine.\<close>

lemma lock_inv_move:
  assumes inv: "lock_inv S" and old: "ref_of (thread S i) = Some (p, rm)" and new: "ref_of pc' = Some (p, rm)"
    and tk: "token m = (\<forall>j. \<not> holds rm (((thread S)(i := pc')) j))" and nr: "nrefs m = nrefs (mutexes (the_pool S) rm)"
    and one: "holds rm pc' \<Longrightarrow> \<forall>j. j \<noteq> i \<longrightarrow> \<not> holds rm (thread S j)"
  shows "lock_inv (S\<lparr>the_pool := (the_pool S)\<lparr>mutexes := (mutexes (the_pool S))(rm := m)\<rparr>, thread := (thread S)(i := pc')\<rparr>)"
    (is "lock_inv ?S'")
proof -
  note D = lock_invD[OF inv]
  have u: "users ?S' r = users S r" for r
    using old new by (auto simp: users_def)
  have h: "holds r (thread ?S' j) = holds r (thread S j)" if "r \<noteq> rm" for r j
    using that old new by (cases "thread S i"; cases pc') auto
  have l: "locksMap (the_pool ?S') = locksMap (the_pool S)" "next_id (the_pool ?S') = next_id (the_pool S)" by simp_all
  have hd: "holds rm (thread ?S' j) = holds rm (((thread S)(i := pc')) j)" for j by simp
  show ?thesis
    unfolding lock_inv_def l
  proof (intro conjI allI impI)
    show "finite {j. thread ?S' j \<noteq> Outside}" by (rule finite_subset[OF _ finite.insertI[OF D(1), of i]]) auto
  next
    fix j q r assume "ref_of (thread ?S' j) = Some (q, r)"
    then show "map_of (locksMap (the_pool S)) q = Some r" using D(2)[of j q r] D(2)[OF old] new by (auto split: if_splits)
  next
    fix q r assume m: "map_of (locksMap (the_pool S)) q = Some r"
    show "r < next_id (the_pool S)" using D(3)[OF m] .
    show "nrefs (mutexes (the_pool ?S') r) = card (users ?S' r)" using D(4)[OF m] u nr by (cases "r = rm") simp_all
    show "users ?S' r \<noteq> {}" using D(5)[OF m] u by simp
    show "token (mutexes (the_pool ?S') r) = (\<forall>j. \<not> holds r (thread ?S' j))" using D(6)[OF m] h[of r] tk by (cases "r = rm") simp_all
    fix j k assume jk: "holds r (thread ?S' j)" "holds r (thread ?S' k)"
    show "j = k"
    proof (cases "r = rm")
      case True
      then show ?thesis using jk D(7)[OF m, of j k] one by (auto split: if_splits)
    next
      case False
      then show ?thesis using jk h[OF False] D(7)[OF m] by simp
    qed
  next
    fix p q r assume "map_of (locksMap (the_pool S)) p = Some r" "map_of (locksMap (the_pool S)) q = Some r"
    then show "p = q" by (rule D(8))
  qed
qed

lemma lock_inv_share:
  assumes inv: "lock_inv S" and o: "thread S i = Outside" and sh: "pathLockShared p (the_pool S) = (rm, P')"
  shows "lock_inv (S\<lparr>the_pool := P', thread := (thread S)(i := Waiting p rm)\<rparr>)" (is "lock_inv ?S'")
proof -
  note D = lock_invD[OF inv]
  have old: "map_of (locksMap P') q = Some r \<longleftrightarrow> (if q = p then r = rm else map_of (locksMap (the_pool S)) q = Some r)" for q r
    using sh by (auto simp: pathLockShared_def Let_def map_of_update split: option.splits)
  have fresh: "map_of (locksMap (the_pool S)) q \<noteq> Some (next_id (the_pool S))" for q using D(3) by blast
  have mu: "r \<noteq> rm \<Longrightarrow> mutexes P' r = mutexes (the_pool S) r" for r
    using sh by (auto simp: pathLockShared_def Let_def split: option.splits)
  have nx: "next_id (the_pool S) \<le> next_id P' \<and> rm < next_id P'"
    using sh D(3)[of p] by (auto simp: pathLockShared_def Let_def split: option.splits)
  have qp: "map_of (locksMap (the_pool S)) q = Some rm \<Longrightarrow> q = p" for q
    using sh fresh D(8) by (auto simp: pathLockShared_def Let_def split: option.splits)
  have u: "users ?S' r = (if r = rm then insert i (users S rm) else users S r)" for r
    using o by (auto simp: users_def)
  have iu: "i \<notin> users S r" for r using o by (simp add: users_def)
  have nou: "map_of (locksMap (the_pool S)) p = None \<Longrightarrow> users S rm = {}"
    using sh fresh D(2) by (auto simp: pathLockShared_def Let_def users_def)
  have h: "holds r (thread ?S' j) = holds r (thread S j)" for r j using o by simp
  have rmf: "nrefs (mutexes P' rm) = card (insert i (users S rm))"
    using sh D(4)[of p rm] nou iu[of rm] finite_users[OF inv, of rm]
    by (auto simp: pathLockShared_def Let_def split: option.splits)
  have rmt: "token (mutexes P' rm) = (\<forall>j. \<not> holds rm (thread S j))"
  proof (cases "map_of (locksMap (the_pool S)) p")
    case None
    then have "\<not> holds rm (thread S j)" for j using nou[OF None] holds_users by blast
    then show ?thesis using sh None by (auto simp: pathLockShared_def Let_def)
  next
    case (Some r)
    then show ?thesis using sh D(6)[OF Some] by (auto simp: pathLockShared_def)
  qed
  have rm1: "holds rm (thread S j) \<Longrightarrow> holds rm (thread S k) \<Longrightarrow> j = k" for j k
    using D(7)[of p rm j k] nou sh holds_users[of rm S j]
    by (cases "map_of (locksMap (the_pool S)) p") (auto simp: pathLockShared_def)
  show ?thesis
    unfolding lock_inv_def
  proof (intro conjI allI impI)
    show "finite {j. thread ?S' j \<noteq> Outside}" by (rule finite_subset[OF _ finite.insertI[OF D(1), of i]]) auto
  next
    fix j q r assume "ref_of (thread ?S' j) = Some (q, r)"
    then show "map_of (locksMap (the_pool ?S')) q = Some r"
      using D(2)[of j q r] old[of q r] D(2)[of j p r] sh by (auto simp: pathLockShared_def Let_def split: if_splits option.splits)
  next
    fix q r assume "map_of (locksMap (the_pool ?S')) q = Some r"
    then have m: "if q = p then r = rm else map_of (locksMap (the_pool S)) q = Some r" using old by simp
    show "r < next_id (the_pool ?S')" using m nx D(3)[of q r] by (auto split: if_splits)
    show "nrefs (mutexes (the_pool ?S') r) = card (users ?S' r)"
      unfolding u using m rmf mu[of r] D(4)[of q r] qp[of q] by (auto split: if_splits)
    show "users ?S' r \<noteq> {}" unfolding u using m D(5)[of q r] by (auto split: if_splits)
    show "token (mutexes (the_pool ?S') r) = (\<forall>j. \<not> holds r (thread ?S' j))"
    proof (cases "r = rm")
      case True
      then show ?thesis unfolding h using rmt by simp
    next
      case False
      then have "map_of (locksMap (the_pool S)) q = Some r" using m by (simp split: if_splits)
      then show ?thesis unfolding h using D(6) mu[OF False] by simp
    qed
    fix j k assume "holds r (thread ?S' j)" "holds r (thread ?S' k)"
    then show "j = k" unfolding h using m rm1 D(7)[of q r j k] by (auto split: if_splits)
  next
    fix a b r assume "map_of (locksMap (the_pool ?S')) a = Some r" "map_of (locksMap (the_pool ?S')) b = Some r"
    then have ab: "if a = p then r = rm else map_of (locksMap (the_pool S)) a = Some r"
        "if b = p then r = rm else map_of (locksMap (the_pool S)) b = Some r" using old by simp_all
    show "a = b"
    proof (cases "r = rm")
      case True
      then show ?thesis using ab qp[of a] qp[of b] by (metis (full_types))
    next
      case False
      then have "a \<noteq> p" "b \<noteq> p" using ab by auto
      then show ?thesis using ab D(8) by simp
    qed
  qed
qed

lemma lock_inv_drop:
  assumes inv: "lock_inv S" and o: "thread S i = Leaving p rm"
  shows "lock_inv (S\<lparr>the_pool := releaseRef p rm (the_pool S), thread := (thread S)(i := Outside)\<rparr>)" (is "lock_inv ?S'")
proof -
  note D = lock_invD[OF inv]
  let ?P = "the_pool S" and ?P' = "releaseRef p rm (the_pool S)"
  have m0: "map_of (locksMap ?P) p = Some rm" using D(2)[of i p rm] o by simp
  have iu: "i \<in> users S rm" using o by (simp add: users_def)
  have u: "users ?S' r = (if r = rm then users S rm - {i} else users S r)" for r
    using o by (auto simp: users_def)
  have card: "nrefs (mutexes ?P rm) - 1 = card (users S rm - {i})"
    using D(4)[OF m0] iu finite_users[OF inv, of rm] by simp
  have h: "holds r (thread ?S' j) = holds r (thread S j)" for r j using o by simp
  have mu: "mutexes ?P' r = (if r = rm then (mutexes ?P rm)\<lparr>nrefs := card (users S rm - {i})\<rparr> else mutexes ?P r)" for r
    using card by (simp add: releaseRef_def Let_def)
  have nx: "next_id ?P' = next_id ?P" by (simp add: releaseRef_def Let_def)
  have lm: "map_of (locksMap ?P') q = (if q = p \<and> users S rm - {i} = {} then None else map_of (locksMap ?P) q)" for q
    using card finite_users[OF inv, of rm] by (auto simp: releaseRef_def Let_def delete_conv')
  show ?thesis
    unfolding lock_inv_def
  proof (intro conjI allI impI)
    show "finite {j. thread ?S' j \<noteq> Outside}" by (rule finite_subset[OF _ D(1)]) (auto split: if_splits)
  next
    fix j q r assume r: "ref_of (thread ?S' j) = Some (q, r)"
    then have j: "j \<noteq> i" "ref_of (thread S j) = Some (q, r)" by (auto split: if_splits)
    have "q = p \<Longrightarrow> j \<in> users S rm" using D(2)[OF j(2)] m0 j(2) by (auto simp: users_def)
    then show "map_of (locksMap (the_pool ?S')) q = Some r" using D(2)[OF j(2)] j(1) lm[of q] by auto
  next
    fix q r assume "map_of (locksMap (the_pool ?S')) q = Some r"
    then have m: "map_of (locksMap ?P) q = Some r" "q = p \<Longrightarrow> users S rm - {i} \<noteq> {}" using lm[of q] by (auto split: if_splits)
    have qp: "r = rm \<Longrightarrow> q = p" using D(8)[OF m(1)] m0 by blast
    show "r < next_id (the_pool ?S')" using D(3)[OF m(1)] nx by simp
    show "nrefs (mutexes (the_pool ?S') r) = card (users ?S' r)" unfolding u using mu[of r] D(4)[OF m(1)] by simp
    show "users ?S' r \<noteq> {}" unfolding u using m qp D(5)[OF m(1)] by auto
    show "token (mutexes (the_pool ?S') r) = (\<forall>j. \<not> holds r (thread ?S' j))" unfolding h using mu[of r] D(6)[OF m(1)] by (cases "r = rm") simp_all
    fix j k assume "holds r (thread ?S' j)" "holds r (thread ?S' k)"
    then show "j = k" unfolding h using D(7)[OF m(1)] by blast
  next
    fix a b r assume "map_of (locksMap (the_pool ?S')) a = Some r" "map_of (locksMap (the_pool ?S')) b = Some r"
    then show "a = b" using lm[of a] lm[of b] D(8) by (auto split: if_splits)
  qed
qed

lemma lock_step_inv: "lock_step S S' \<Longrightarrow> lock_inv S \<Longrightarrow> lock_inv S'"
proof (induction rule: lock_step.induct)
  case (share S i p rm P')
  then show ?case using lock_inv_share by blast
next
  case (acquire S i p rm)
  note D = lock_invD[OF acquire.prems]
  have m: "map_of (locksMap (the_pool S)) p = Some rm" using D(2)[of i p rm] acquire(1) by simp
  have no: "\<not> holds rm (thread S j)" for j using D(6)[OF m] acquire(2) by simp
  show ?case unfolding take_token_def
    by (rule lock_inv_move[OF acquire.prems, of i p rm]) (use acquire no in \<open>auto\<close>)
next
  case (give_up S i p rm)
  note D = lock_invD[OF give_up.prems]
  have m: "map_of (locksMap (the_pool S)) p = Some rm" using D(2)[of i p rm] give_up(1) by simp
  have no: "holds rm (thread S j) \<Longrightarrow> j \<noteq> i" for j using give_up(1) by auto
  have "S\<lparr>thread := (thread S)(i := Leaving p rm)\<rparr> =
      S\<lparr>the_pool := (the_pool S)\<lparr>mutexes := (mutexes (the_pool S))(rm := mutexes (the_pool S) rm)\<rparr>, thread := (thread S)(i := Leaving p rm)\<rparr>"
    by simp
  also have "lock_inv \<dots>" by (rule lock_inv_move[OF give_up.prems, of i p rm]) (use give_up D(6)[OF m] no in auto)
  finally show ?case .
next
  case (refill S i p rm)
  note D = lock_invD[OF refill.prems]
  have m: "map_of (locksMap (the_pool S)) p = Some rm" using D(2)[of i p rm] refill(1) by simp
  have "holds rm (thread S j) \<Longrightarrow> j = i" for j using D(7)[OF m, of j i] refill(1) by simp
  then show ?case unfolding put_token_def
    by (intro lock_inv_move[OF refill.prems, of i p rm]) (use refill in auto)
next
  case (drop S i p rm)
  then show ?case using lock_inv_drop by blast
qed

lemma lock_reachable_inv: "lock_step\<^sup>*\<^sup>* init_locks S \<Longrightarrow> lock_inv S"
  by (induction rule: rtranclp_induct) (auto intro: lock_inv_init lock_step_inv)

section \<open>Properties\<close>

text \<open>C15: the path locks exclude each other. In every interleaving of any number of goroutines that lock,
  give up and unlock any paths, at most one goroutine is inside the critical section of a path.\<close>

theorem pathLock_mutex:
  assumes "lock_step\<^sup>*\<^sup>* init_locks S" "thread S i = Holding p rm" "thread S j = Holding p rm'"
  shows "i = j"
proof -
  note D = lock_invD[OF lock_reachable_inv[OF assms(1)]]
  have m: "map_of (locksMap (the_pool S)) p = Some rm" "map_of (locksMap (the_pool S)) p = Some rm'"
    using D(2)[of i p rm] D(2)[of j p rm'] assms(2,3) by simp_all
  then show ?thesis using D(7)[OF m(1), of i j] assms(2,3) by simp
qed

definition demo_locks :: lock_state where
  "demo_locks = (let P = snd (pathLockShared ''/m'' (snd (pathLockShared ''/m'' (the_pool init_locks)))) in
     \<lparr>the_pool = take_token 0 P, thread = (\<lambda>_. Outside)(0 := Holding ''/m'' 0, 1 := Waiting ''/m'' 0)\<rparr>)"

lemma demo_locks_reachable: "lock_step\<^sup>*\<^sup>* init_locks demo_locks"
proof -
  let ?P1 = "snd (pathLockShared ''/m'' (the_pool init_locks))"
  let ?S1 = "init_locks\<lparr>the_pool := ?P1, thread := (thread init_locks)(0 := Waiting ''/m'' 0)\<rparr>"
  let ?P2 = "snd (pathLockShared ''/m'' ?P1)"
  let ?S2 = "?S1\<lparr>the_pool := ?P2, thread := (thread ?S1)(1 := Waiting ''/m'' 0)\<rparr>"
  let ?S3 = "?S2\<lparr>the_pool := take_token 0 (the_pool ?S2), thread := (thread ?S2)(0 := Holding ''/m'' 0)\<rparr>"
  have "lock_step init_locks ?S1"
    by (rule lock_step.share) (simp_all add: init_locks_def pathLockShared_def Let_def)
  moreover have "lock_step ?S1 ?S2"
    by (rule lock_step.share) (simp_all add: init_locks_def pathLockShared_def Let_def)
  moreover have "lock_step ?S2 ?S3"
    by (rule lock_step.acquire) (simp_all add: init_locks_def pathLockShared_def Let_def)
  moreover have "?S3 = demo_locks" by (simp add: demo_locks_def init_locks_def Let_def fun_upd_twist)
  ultimately show ?thesis by (metis (no_types, lifting) converse_rtranclp_into_rtranclp rtranclp.rtrancl_refl)
qed

theorem pathLock_mutex_witness:
  "lock_step\<^sup>*\<^sup>* init_locks demo_locks \<and> {j. \<exists>rm. thread demo_locks j = Holding ''/m'' rm} = {0}"
proof -
  have t: "thread demo_locks 0 = Holding ''/m'' 0" by (simp add: demo_locks_def Let_def)
  show ?thesis using demo_locks_reachable t pathLock_mutex[OF demo_locks_reachable t] by blast
qed

text \<open>C16: no lock is lost and none leaks. In every reachable state the pool has an entry for exactly the
  paths somebody refers to, with exactly as many references as goroutines; releasing never blocks on
  the full channel; and a waiting goroutine finds the token in the channel unless another goroutine
  is in the critical section, so the lock cannot get stuck.\<close>

theorem pathLock_live:
  assumes r: "lock_step\<^sup>*\<^sup>* init_locks S"
  shows "(map_of (locksMap (the_pool S)) p = None \<longleftrightarrow> (\<forall>i rm. ref_of (thread S i) \<noteq> Some (p, rm))) \<and>
    (\<forall>rm. map_of (locksMap (the_pool S)) p = Some rm \<longrightarrow>
       nrefs (mutexes (the_pool S) rm) = card {i. ref_of (thread S i) = Some (p, rm)}) \<and>
    (\<forall>i rm. thread S i = Holding p rm \<longrightarrow> \<not> token (mutexes (the_pool S) rm)) \<and>
    (\<forall>i rm. thread S i = Waiting p rm \<longrightarrow> token (mutexes (the_pool S) rm) \<or> (\<exists>j. thread S j = Holding p rm))"
proof -
  note D = lock_invD[OF lock_reachable_inv[OF r]]
  have us: "users S rm = {i. ref_of (thread S i) = Some (p, rm)}" if "map_of (locksMap (the_pool S)) p = Some rm" for rm
    using D(2) D(8)[OF that] by (auto simp: users_def)
  have a: "map_of (locksMap (the_pool S)) p = None \<longleftrightarrow> (\<forall>i rm. ref_of (thread S i) \<noteq> Some (p, rm))"
    using D(2) D(5) us by (cases "map_of (locksMap (the_pool S)) p") fastforce+
  have b: "\<not> token (mutexes (the_pool S) rm)" if "thread S i = Holding p rm" for i rm
    using D(6)[OF D(2)[of i p rm]] that by (metis holds.simps(1) ref_of.simps(3))
  have c: "token (mutexes (the_pool S) rm) \<or> (\<exists>j. thread S j = Holding p rm)" if w: "thread S i = Waiting p rm" for i rm
  proof -
    have m: "map_of (locksMap (the_pool S)) p = Some rm" using D(2)[of i p rm] w by simp
    have "thread S j = Holding p rm" if "holds rm (thread S j)" for j
      using that D(2)[of j _ rm] D(8)[OF m] by (cases "thread S j") auto
    then show ?thesis using D(6)[OF m] by blast
  qed
  show ?thesis using a b c D(4) us by metis
qed

theorem pathLock_live_witness:
  "\<not> token (mutexes (the_pool demo_locks) 0) \<and> nrefs (mutexes (the_pool demo_locks) 0) = card {i. ref_of (thread demo_locks i) = Some (''/m'', 0)}"
proof -
  have t: "thread demo_locks 0 = Holding ''/m'' 0" "map_of (locksMap (the_pool demo_locks)) ''/m'' = Some 0"
    by (simp_all add: demo_locks_def Let_def init_locks_def pathLockShared_def take_token_def)
  show ?thesis using pathLock_live[OF demo_locks_reachable, of "''/m''"] t by blast
qed

end
