(* ===== verification/Tasks.thy ===== *)
theory Tasks
  imports Start
begin

text \<open>
  Background tasks: \<open>agent/storage/task/manager.go\<close> and \<open>model.go\<close>. A task is a record that the manager
  keeps in memory and in one JSON file; a goroutine per task waits for a worker slot, runs the task
  function and records the outcome. The goroutines are interleaved steps here. The random task ids
  are arguments of the steps.
\<close>

section \<open>Data\<close>

text \<open>\<open>TaskStatus\<close> is a string type; a file may hold any string.\<close>

datatype TaskStatus = TaskPending | TaskRunning | TaskCompleted | TaskFailed | TaskCancelled | TaskOther string

fun status_string :: "TaskStatus \<Rightarrow> string" where
  "status_string TaskPending = ''pending''"
| "status_string TaskRunning = ''running''"
| "status_string TaskCompleted = ''completed''"
| "status_string TaskFailed = ''failed''"
| "status_string TaskCancelled = ''cancelled''"
| "status_string (TaskOther s) = s"

definition status_of :: "string \<Rightarrow> TaskStatus" where
  "status_of s = (if s = ''pending'' then TaskPending else if s = ''running'' then TaskRunning
     else if s = ''completed'' then TaskCompleted else if s = ''failed'' then TaskFailed
     else if s = ''cancelled'' then TaskCancelled else TaskOther s)"

record Task =
  tk_ID :: string
  tk_Type :: string
  tk_Status :: TaskStatus
  tk_Progress :: int
  tk_Opts :: labels
  tk_Labels :: labels
  tk_Timeout :: int
  tk_Result :: "json option"
  tk_Error :: string
  tk_CreatedAt :: int
  tk_StartedAt :: "int option"
  tk_CompletedAt :: "int option"

record TaskOpts =
  to_Opts :: labels
  to_Labels :: labels
  to_Timeout :: int

definition TypeScrub :: string where "TypeScrub = ''scrub''"
definition TypeTest :: string where "TypeTest = ''test''"

definition MarshalTask :: "Task \<Rightarrow> json" where
  "MarshalTask t = JObj (
     [(''id'', JStr (tk_ID t)), (''type'', JStr (tk_Type t)), (''status'', JStr (status_string (tk_Status t))),
      (''progress'', JNum (tk_Progress t))]
     @ omit (tk_Opts t = []) ''opts'' (enc_labels (tk_Opts t))
     @ omit (tk_Labels t = []) ''labels'' (enc_labels (tk_Labels t))
     @ omit (tk_Timeout t = 0) ''timeout'' (JNum (tk_Timeout t))
     @ (case tk_Result t of None \<Rightarrow> [] | Some j \<Rightarrow> [(''result'', j)])
     @ omit (tk_Error t = []) ''error'' (JStr (tk_Error t))
     @ [(''created_at'', JTime (tk_CreatedAt t))]
     @ (case tk_StartedAt t of None \<Rightarrow> [] | Some x \<Rightarrow> [(''started_at'', JTime x)])
     @ (case tk_CompletedAt t of None \<Rightarrow> [] | Some x \<Rightarrow> [(''completed_at'', JTime x)]))"

definition zero_task :: Task where
  "zero_task = \<lparr>tk_ID = [], tk_Type = [], tk_Status = status_of [], tk_Progress = 0, tk_Opts = [], tk_Labels = [],
     tk_Timeout = 0, tk_Result = None, tk_Error = [], tk_CreatedAt = 0, tk_StartedAt = None, tk_CompletedAt = None\<rparr>"

fun UnmarshalTask :: "json \<Rightarrow> Task option" where
  "UnmarshalTask JNull = Some zero_task"
| "UnmarshalTask (JObj m) = do {
     i \<leftarrow> dec_str (jfield m ''id'');
     ty \<leftarrow> dec_str (jfield m ''type'');
     st \<leftarrow> dec_str (jfield m ''status'');
     pr \<leftarrow> dec_int (jfield m ''progress'');
     op \<leftarrow> dec_labels (jfield m ''opts'');
     ls \<leftarrow> dec_labels (jfield m ''labels'');
     tmo \<leftarrow> dec_int (jfield m ''timeout'');
     er \<leftarrow> dec_str (jfield m ''error'');
     cr \<leftarrow> dec_time (jfield m ''created_at'');
     sa \<leftarrow> dec_time_ptr (jfield m ''started_at'');
     co \<leftarrow> dec_time_ptr (jfield m ''completed_at'');
     Some \<lparr>tk_ID = i, tk_Type = ty, tk_Status = status_of st, tk_Progress = pr, tk_Opts = op, tk_Labels = ls,
       tk_Timeout = tmo, tk_Result = map_of (rev m) ''result'', tk_Error = er, tk_CreatedAt = cr,
       tk_StartedAt = sa, tk_CompletedAt = co\<rparr> }"
| "UnmarshalTask _ = None"

section \<open>The manager\<close>

record task_manager =
  tm_tasks :: "(string \<times> Task) list"
  tm_taskDir :: string
  tm_max :: int \<comment> \<open>size of the semaphore channel; 0 or less: no semaphore\<close>
  tm_pollInterval :: int

definition taskFile :: "task_manager \<Rightarrow> string \<Rightarrow> string" where
  "taskFile tm i = filepath_join [tm_taskDir tm, i @ ''.json'']"

definition persist :: "task_manager \<Rightarrow> Task \<Rightarrow> world \<Rightarrow> world" where
  "persist tm t w =
     (let path = taskFile tm (tk_ID t); tmp = path @ ''.tmp'' in
      case os_write_file tmp (Doc (MarshalTask t)) w of
        (Some e, w1) \<Rightarrow> w1
      | (None, w1) \<Rightarrow> snd (os_rename tmp path w1))"

text \<open>\<open>filepath.Ext\<close> of a name without a slash.\<close>

definition filepath_ext :: "string \<Rightarrow> string" where
  "filepath_ext name = (case cut_last ''.'' name of None \<Rightarrow> [] | Some (a, b) \<Rightarrow> ''.'' @ b)"

definition active :: "TaskStatus \<Rightarrow> bool" where
  "active s = (s = TaskRunning \<or> s = TaskPending)"

definition put_task :: "Task \<Rightarrow> task_manager \<Rightarrow> task_manager" where
  "put_task t tm = tm\<lparr>tm_tasks := AList.update (tk_ID t) t (tm_tasks tm)\<rparr>"

definition restart_failed :: "int \<Rightarrow> Task \<Rightarrow> Task" where
  "restart_failed T t = t\<lparr>tk_Status := TaskFailed, tk_Error := ''agent restarted'', tk_CompletedAt := Some T\<rparr>"

definition load_task :: "string \<times> bool \<Rightarrow> world \<times> task_manager \<Rightarrow> world \<times> task_manager" where
  "load_task e st = (case st of (w, tm) \<Rightarrow> (case e of (name, dir) \<Rightarrow>
     if dir \<or> filepath_ext name \<noteq> ''.json'' then st
     else (case os_read_file (filepath_join [tm_taskDir tm, name]) w of
             Inl err \<Rightarrow> st
           | Inr Garbage \<Rightarrow> st
           | Inr (Doc j) \<Rightarrow>
               (case UnmarshalTask j of
                  None \<Rightarrow> st
                | Some t \<Rightarrow>
                    if active (tk_Status t)
                    then let t' = restart_failed (now w) t in (persist tm t' w, put_task t' tm)
                    else (w, put_task t tm)))))"

definition loadFromDisk :: "world \<times> task_manager \<Rightarrow> world \<times> task_manager" where
  "loadFromDisk st = (case st of (w, tm) \<Rightarrow>
     (case os_read_dir (tm_taskDir tm) w of Inl e \<Rightarrow> st | Inr entries \<Rightarrow> fold load_task entries st))"

definition second :: int where "second = 1000000000"

definition NewManager :: "string \<Rightarrow> int \<Rightarrow> int \<Rightarrow> world \<Rightarrow> string + (world \<times> task_manager)" where
  "NewManager taskDir maxConcurrent pollInterval w = (case os_mkdir_all taskDir 493 w of
     (Some e, w1) \<Rightarrow> Inl ''failed to create tasks directory''
   | (None, w1) \<Rightarrow> Inr (loadFromDisk (w1, \<lparr>tm_tasks = [], tm_taskDir = taskDir, tm_max = maxConcurrent,
        tm_pollInterval = (if pollInterval \<le> 0 then 5 * second else pollInterval)\<rparr>)))"

definition GetTask :: "string \<Rightarrow> task_manager \<Rightarrow> error + Task" where
  "GetTask i tm = (case map_of (tm_tasks tm) i of None \<Rightarrow> Inl TaskNotFound | Some t \<Rightarrow> Inr t)"

definition ListTasks :: "string \<Rightarrow> task_manager \<Rightarrow> Task list" where
  "ListTasks taskType tm = filter (\<lambda>t. \<not> (taskType \<noteq> [] \<and> tk_Type t \<noteq> taskType)) (map snd (tm_tasks tm))"

definition expired :: "int \<Rightarrow> Task \<Rightarrow> bool" where
  "expired cutoff t = (tk_Status t \<in> {TaskCompleted, TaskFailed, TaskCancelled} \<and>
     (case tk_CompletedAt t of Some c \<Rightarrow> c < cutoff | None \<Rightarrow> False))"

text \<open>The loop deletes from the map while it ranges over it; each expired task goes with its file.\<close>

definition cleanup_task :: "int \<Rightarrow> string \<times> Task \<Rightarrow> world \<times> task_manager \<Rightarrow> world \<times> task_manager" where
  "cleanup_task cutoff e st = (case st of (w, tm) \<Rightarrow> (case e of (i, t) \<Rightarrow>
     if expired cutoff t
     then (snd (os_remove (taskFile tm i) w), tm\<lparr>tm_tasks := AList.delete i (tm_tasks tm)\<rparr>)
     else st))"

definition Cleanup :: "int \<Rightarrow> world \<times> task_manager \<Rightarrow> world \<times> task_manager" where
  "Cleanup maxAge st = (case st of (w, tm) \<Rightarrow> fold (cleanup_task (now w - maxAge)) (tm_tasks tm) st)"

section \<open>Goroutines\<close>

datatype goroutine = NoGoroutine | Queued | Working | Releasing | Finished
datatype ctx = CtxOk | CtxCancelled | CtxDeadline

text \<open>\<open>ts_sem\<close> counts the tokens in the semaphore channel. \<open>ts_inflight\<close> is a task value that a progress
  update has swapped in and not yet written to disk.\<close>

record task_sys =
  ts_world :: world
  ts_tm :: task_manager
  ts_go :: "string \<Rightarrow> goroutine"
  ts_ctx :: "string \<Rightarrow> ctx"
  ts_sem :: nat
  ts_inflight :: "string \<Rightarrow> Task option"

definition new_task :: "string \<Rightarrow> string \<Rightarrow> TaskOpts \<Rightarrow> int \<Rightarrow> Task" where
  "new_task i taskType opts T = \<lparr>tk_ID = i, tk_Type = taskType, tk_Status = TaskPending, tk_Progress = 0,
     tk_Opts = to_Opts opts, tk_Labels = to_Labels opts, tk_Timeout = to_Timeout opts, tk_Result = None, tk_Error = [],
     tk_CreatedAt = T, tk_StartedAt = None, tk_CompletedAt = None\<rparr>"

text \<open>Store a new value of a task and write it to disk.\<close>

definition save_task :: "Task \<Rightarrow> task_sys \<Rightarrow> task_sys" where
  "save_task t S = S\<lparr>ts_world := persist (ts_tm S) t (ts_world S), ts_tm := put_task t (ts_tm S)\<rparr>"

definition CreateTask :: "string \<Rightarrow> string \<Rightarrow> TaskOpts \<Rightarrow> task_sys \<Rightarrow> task_sys" where
  "CreateTask i taskType opts S =
     (save_task (new_task i taskType opts (now (ts_world S))) S)
       \<lparr>ts_go := (ts_go S)(i := Queued), ts_ctx := (ts_ctx S)(i := CtxOk)\<rparr>"

definition start_task :: "int \<Rightarrow> Task \<Rightarrow> Task" where
  "start_task T t = t\<lparr>tk_Status := TaskRunning, tk_StartedAt := Some T\<rparr>"

definition cancel_pending :: "int \<Rightarrow> Task \<Rightarrow> Task" where
  "cancel_pending T t = t\<lparr>tk_Status := TaskCancelled, tk_CompletedAt := Some T\<rparr>"

text \<open>The final value; \<open>err\<close> is the error the task function returned. The printed duration at the end
  of the timeout message is left out.\<close>

definition final_task :: "int \<Rightarrow> ctx \<Rightarrow> string option \<Rightarrow> Task \<Rightarrow> Task" where
  "final_task T c err t0 = (let t = t0\<lparr>tk_CompletedAt := Some T\<rparr> in
     case c of
       CtxDeadline \<Rightarrow> t\<lparr>tk_Status := TaskFailed, tk_Error := ''task timed out after ''\<rparr>
     | CtxCancelled \<Rightarrow> t\<lparr>tk_Status := TaskCancelled\<rparr>
     | CtxOk \<Rightarrow> (case err of
           Some e \<Rightarrow> t\<lparr>tk_Status := TaskFailed, tk_Error := e\<rparr>
         | None \<Rightarrow> t\<lparr>tk_Status := TaskCompleted, tk_Progress := 100\<rparr>))"

definition has_sem :: "task_sys \<Rightarrow> bool" where
  "has_sem S = (tm_max (ts_tm S) > 0)"

definition slot_free :: "task_sys \<Rightarrow> bool" where
  "slot_free S = (has_sem S \<longrightarrow> int (ts_sem S) < tm_max (ts_tm S))"

text \<open>The parts of the goroutine of \<open>Create\<close> and the updates of \<open>Update\<close>, on the task's current value \<open>t\<close>.\<close>

definition run_start :: "string \<Rightarrow> Task \<Rightarrow> task_sys \<Rightarrow> task_sys" where
  "run_start i t S = (save_task (start_task (now (ts_world S)) t) S)
     \<lparr>ts_go := (ts_go S)(i := Working), ts_sem := (if has_sem S then ts_sem S + 1 else ts_sem S)\<rparr>"

definition run_cancelled :: "string \<Rightarrow> Task \<Rightarrow> task_sys \<Rightarrow> task_sys" where
  "run_cancelled i t S = (save_task (cancel_pending (now (ts_world S)) t) S)\<lparr>ts_go := (ts_go S)(i := Finished)\<rparr>"

definition run_finish :: "string \<Rightarrow> string option \<Rightarrow> Task \<Rightarrow> task_sys \<Rightarrow> task_sys" where
  "run_finish i err t S = (save_task (final_task (now (ts_world S)) (ts_ctx S i) err t) S)
     \<lparr>ts_go := (ts_go S)(i := if has_sem S then Releasing else Finished)\<rparr>"

definition run_release :: "string \<Rightarrow> task_sys \<Rightarrow> task_sys" where
  "run_release i S = S\<lparr>ts_go := (ts_go S)(i := Finished), ts_sem := ts_sem S - 1\<rparr>"

text \<open>\<open>SetProgress\<close> in two steps: the swap, and the write of the swapped value.\<close>

definition SetProgress :: "string \<Rightarrow> int \<Rightarrow> Task \<Rightarrow> task_sys \<Rightarrow> task_sys" where
  "SetProgress i pct t S =
     (if tk_Progress t = pct then S
      else S\<lparr>ts_tm := put_task (t\<lparr>tk_Progress := pct\<rparr>) (ts_tm S), ts_inflight := (ts_inflight S)(i \<mapsto> t\<lparr>tk_Progress := pct\<rparr>)\<rparr>)"

definition write_progress :: "string \<Rightarrow> Task \<Rightarrow> task_sys \<Rightarrow> task_sys" where
  "write_progress i t S = S\<lparr>ts_world := persist (ts_tm S) t (ts_world S), ts_inflight := (ts_inflight S)(i := None)\<rparr>"

definition SetResult :: "string \<Rightarrow> json \<Rightarrow> Task \<Rightarrow> task_sys \<Rightarrow> task_sys" where
  "SetResult i raw t S = S\<lparr>ts_tm := put_task (t\<lparr>tk_Result := Some raw\<rparr>) (ts_tm S)\<rparr>"

lemmas task_op_defs = run_start_def run_cancelled_def run_finish_def run_release_def SetProgress_def write_progress_def SetResult_def

definition Cancel :: "string \<Rightarrow> task_sys \<Rightarrow> error option \<times> task_sys" where
  "Cancel i S = (case map_of (tm_tasks (ts_tm S)) i of
       None \<Rightarrow> (Some TaskNotFound, S)
     | Some t \<Rightarrow>
         (None, if active (tk_Status t) \<and> ts_go S i \<noteq> NoGoroutine \<and> ts_ctx S i = CtxOk
                then S\<lparr>ts_ctx := (ts_ctx S)(i := CtxCancelled)\<rparr> else S))"

section \<open>Steps\<close>

text \<open>The goroutine that polls the progress may be in the middle of an update when the task ends, so its
  updates can happen at any time after the start. \<open>env\<close> lets the file tree and the clock change freely.\<close>

inductive task_step :: "task_sys \<Rightarrow> task_sys \<Rightarrow> bool" where
  create: "map_of (tm_tasks (ts_tm S)) i = None \<Longrightarrow> ts_go S i = NoGoroutine \<Longrightarrow> task_step S (CreateTask i ty opts S)"
| start: "ts_go S i = Queued \<Longrightarrow> map_of (tm_tasks (ts_tm S)) i = Some t \<Longrightarrow> slot_free S \<Longrightarrow> task_step S (run_start i t S)"
| cancelled: "has_sem S \<Longrightarrow> ts_go S i = Queued \<Longrightarrow> map_of (tm_tasks (ts_tm S)) i = Some t \<Longrightarrow> ts_ctx S i \<noteq> CtxOk \<Longrightarrow>
    task_step S (run_cancelled i t S)"
| set_progress: "ts_go S i \<in> {Working, Releasing, Finished} \<Longrightarrow> map_of (tm_tasks (ts_tm S)) i = Some t \<Longrightarrow> ts_inflight S i = None \<Longrightarrow>
    task_step S (SetProgress i pct t S)"
| write_progress: "ts_inflight S i = Some t \<Longrightarrow> task_step S (write_progress i t S)"
| set_result: "ts_go S i \<in> {Working, Releasing, Finished} \<Longrightarrow> map_of (tm_tasks (ts_tm S)) i = Some t \<Longrightarrow> task_step S (SetResult i raw t S)"
| finish: "ts_go S i = Working \<Longrightarrow> map_of (tm_tasks (ts_tm S)) i = Some t \<Longrightarrow> task_step S (run_finish i err t S)"
| release: "ts_go S i = Releasing \<Longrightarrow> task_step S (run_release i S)"
| deadline: "map_of (tm_tasks (ts_tm S)) i = Some t \<Longrightarrow> tk_Timeout t > 0 \<Longrightarrow> ts_ctx S i = CtxOk \<Longrightarrow>
    task_step S (S\<lparr>ts_ctx := (ts_ctx S)(i := CtxDeadline)\<rparr>)"
| cancel: "Cancel i S = (e, S') \<Longrightarrow> task_step S S'"
| cleanup: "Cleanup maxAge (ts_world S, ts_tm S) = (w, tm) \<Longrightarrow> task_step S (S\<lparr>ts_world := w, ts_tm := tm\<rparr>)"
| env: "task_step S (S\<lparr>ts_world := w\<rparr>)"

inductive_cases task_stepE: "task_step S S'"

definition init_tasks :: "world \<times> task_manager \<Rightarrow> task_sys" where
  "init_tasks st = \<lparr>ts_world = fst st, ts_tm = snd st, ts_go = (\<lambda>_. NoGoroutine), ts_ctx = (\<lambda>_. CtxOk), ts_sem = 0,
     ts_inflight = (\<lambda>_. None)\<rparr>"

section \<open>Loading\<close>

definition terminal :: "TaskStatus \<Rightarrow> bool" where
  "terminal s = (s \<in> {TaskCompleted, TaskFailed, TaskCancelled})"

lemma terminal_not_active: "terminal s \<Longrightarrow> \<not> active s"
  by (auto simp: terminal_def active_def)

definition tm_ok :: "task_manager \<Rightarrow> bool" where
  "tm_ok tm \<longleftrightarrow> keys_distinct (tm_tasks tm) \<and> (\<forall>i t. map_of (tm_tasks tm) i = Some t \<longrightarrow> tk_ID t = i)"

lemma tm_ok_put: "tm_ok tm \<Longrightarrow> tm_ok (put_task t tm)"
  by (auto simp: tm_ok_def put_task_def map_of_update)

lemma put_task_lookup [simp]: "map_of (tm_tasks (put_task t tm)) i = (if i = tk_ID t then Some t else map_of (tm_tasks tm) i)"
  by (simp add: put_task_def map_of_update)

lemma put_task_frame [simp]: "tm_taskDir (put_task t tm) = tm_taskDir tm" "tm_max (put_task t tm) = tm_max tm"
  by (simp_all add: put_task_def)

definition settled :: "task_manager \<Rightarrow> bool" where
  "settled tm \<longleftrightarrow> tm_ok tm \<and> (\<forall>i t. map_of (tm_tasks tm) i = Some t \<longrightarrow> \<not> active (tk_Status t))"

lemma load_task_settled: "settled (snd st) \<Longrightarrow> settled (snd (load_task e st))"
  by (cases st; cases e) (auto simp: load_task_def settled_def tm_ok_put restart_failed_def active_def Let_def
      split: sum.splits content.splits option.splits)

lemma fold_load_task_settled: "settled (snd st) \<Longrightarrow> settled (snd (fold load_task es st))"
proof (induction es arbitrary: st)
  case (Cons e es)
  then show ?case using load_task_settled[of st e] by simp
qed simp

lemma settled_Nil: "settled \<lparr>tm_tasks = [], tm_taskDir = d, tm_max = m, tm_pollInterval = p\<rparr>"
  by (simp add: settled_def tm_ok_def keys_distinct_def)

lemma NewManager_settled:
  assumes "NewManager d m p w = Inr (w', tm)"
  shows "settled tm"
proof -
  let ?q = "if p \<le> 0 then 5 * second else p"
  obtain w1 where l: "loadFromDisk (w1, \<lparr>tm_tasks = [], tm_taskDir = d, tm_max = m, tm_pollInterval = ?q\<rparr>) = (w', tm)"
    using assms by (auto simp: NewManager_def split: prod.splits option.splits)
  let ?st = "(w1, \<lparr>tm_tasks = [], tm_taskDir = d, tm_max = m, tm_pollInterval = ?q\<rparr>)"
  have i: "settled (snd ?st)" using settled_Nil[of d m ?q] by simp
  show ?thesis
  proof (cases "os_read_dir d w1")
    case (Inl e)
    then show ?thesis using l i by (auto simp: loadFromDisk_def)
  next
    case (Inr es)
    then have "fold load_task es ?st = (w', tm)" using l by (simp add: loadFromDisk_def)
    then show ?thesis using fold_load_task_settled[OF i, of es] by (metis snd_conv)
  qed
qed

section \<open>Invariant of the running system\<close>

definition workers :: "task_sys \<Rightarrow> string set" where
  "workers S = {i. ts_go S i \<in> {Working, Releasing}}"

definition go_ok :: "goroutine \<Rightarrow> Task option \<Rightarrow> bool" where
  "go_ok g ot = (case g of
       NoGoroutine \<Rightarrow> (case ot of None \<Rightarrow> True | Some t \<Rightarrow> \<not> active (tk_Status t))
     | Queued \<Rightarrow> (case ot of None \<Rightarrow> False | Some t \<Rightarrow> tk_Status t = TaskPending)
     | Working \<Rightarrow> (case ot of None \<Rightarrow> False | Some t \<Rightarrow> tk_Status t = TaskRunning \<and> tk_StartedAt t \<noteq> None)
     | _ \<Rightarrow> (case ot of None \<Rightarrow> True | Some t \<Rightarrow> terminal (tk_Status t) \<and> tk_CompletedAt t \<noteq> None))"

definition task_inv :: "task_sys \<Rightarrow> bool" where
  "task_inv S \<longleftrightarrow> tm_ok (ts_tm S) \<and> (\<forall>i. go_ok (ts_go S i) (map_of (tm_tasks (ts_tm S)) i)) \<and>
     finite (workers S) \<and> (has_sem S \<longrightarrow> ts_sem S = card (workers S) \<and> int (ts_sem S) \<le> tm_max (ts_tm S)) \<and>
     (\<not> has_sem S \<longrightarrow> (\<forall>i. ts_go S i \<noteq> Releasing))"

lemma task_invD:
  assumes "task_inv S"
  shows "tm_ok (ts_tm S)" "go_ok (ts_go S i) (map_of (tm_tasks (ts_tm S)) i)" "finite (workers S)"
    "has_sem S \<Longrightarrow> ts_sem S = card (workers S)" "has_sem S \<Longrightarrow> int (ts_sem S) \<le> tm_max (ts_tm S)"
    "\<not> has_sem S \<Longrightarrow> ts_go S i \<noteq> Releasing"
  using assms by (auto simp: task_inv_def)

lemma task_inv_cong:
  assumes "task_inv S" "ts_tm S' = ts_tm S" "ts_go S' = ts_go S" "ts_sem S' = ts_sem S"
  shows "task_inv S'"
  using assms(1) unfolding task_inv_def workers_def has_sem_def assms(2-4) .

lemma task_id: "task_inv S \<Longrightarrow> map_of (tm_tasks (ts_tm S)) i = Some t \<Longrightarrow> tk_ID t = i"
  by (auto simp: task_inv_def tm_ok_def)

lemma task_inv_init: "settled tm \<Longrightarrow> task_inv (init_tasks (w, tm))"
  by (auto simp: task_inv_def init_tasks_def settled_def go_ok_def workers_def has_sem_def split: option.splits)

text \<open>Steps that change one task and its goroutine.\<close>

lemma task_inv_move:
  assumes inv: "task_inv S" and t: "tk_ID t = i" and go: "go_ok g (Some t)"
    and tm: "ts_tm S' = put_task t (ts_tm S)" and g': "ts_go S' = (ts_go S)(i := g)"
    and sem: "has_sem S \<Longrightarrow> ts_sem S' = card (workers S') \<and> int (ts_sem S') \<le> tm_max (ts_tm S)"
    and rel: "\<not> has_sem S \<Longrightarrow> g \<noteq> Releasing"
  shows "task_inv S'"
proof -
  note D = task_invD[OF inv]
  have "workers S' \<subseteq> insert i (workers S)" using g' by (auto simp: workers_def)
  then have "finite (workers S')" using D(3) finite_subset by blast
  moreover have "has_sem S' = has_sem S" using tm by (simp add: has_sem_def)
  ultimately show ?thesis using D tm_ok_put[of "ts_tm S" t] tm g' sem rel go t unfolding task_inv_def by auto
qed

lemma workers_upd:
  assumes "ts_go S' = (ts_go S)(i := g)"
  shows "workers S' = (if g \<in> {Working, Releasing} then insert i (workers S) else workers S - {i})"
  using assms by (auto simp: workers_def)

lemma expired_terminal: "expired c t \<Longrightarrow> terminal (tk_Status t) \<and> (\<exists>x. tk_CompletedAt t = Some x \<and> x < c)"
  by (auto simp: expired_def terminal_def split: option.splits)

lemma fold_cleanup:
  assumes "keys_distinct es"
  shows "map_of (tm_tasks (snd (fold (cleanup_task c) es (w, tm)))) i =
      (case map_of es i of Some t \<Rightarrow> if expired c t then None else map_of (tm_tasks tm) i | None \<Rightarrow> map_of (tm_tasks tm) i) \<and>
    tm_max (snd (fold (cleanup_task c) es (w, tm))) = tm_max tm \<and>
    tm_taskDir (snd (fold (cleanup_task c) es (w, tm))) = tm_taskDir tm \<and>
    (tm_ok tm \<longrightarrow> tm_ok (snd (fold (cleanup_task c) es (w, tm))))"
  using assms
proof (induction es arbitrary: w tm)
  case (Cons e es)
  obtain k t where e: "e = (k, t)" by fastforce
  have k: "k \<notin> fst ` set es" "keys_distinct es" using Cons.prems e by (auto simp: keys_distinct_def)
  then have kn: "map_of es k = None" by (simp add: map_of_eq_None_iff)
  show ?case
  proof (cases "expired c t")
    case True
    let ?tm = "tm\<lparr>tm_tasks := AList.delete k (tm_tasks tm)\<rparr>" and ?w = "snd (os_remove (taskFile tm k) w)"
    have st: "cleanup_task c e (w, tm) = (?w, ?tm)" using True e by (simp add: cleanup_task_def)
    have "tm_ok tm \<Longrightarrow> tm_ok ?tm" by (auto simp: tm_ok_def delete_conv' keys_distinct_def distinct_delete)
    then show ?thesis using Cons.IH[OF k(2), of ?w ?tm] st True e kn by (auto simp: delete_conv' split: option.splits)
  next
    case False
    then have st: "cleanup_task c e (w, tm) = (w, tm)" using e by (simp add: cleanup_task_def)
    then show ?thesis using Cons.IH[OF k(2), of w tm] False e kn by (auto split: option.splits)
  qed
qed simp

lemma Cleanup_lookup:
  assumes "tm_ok tm" "Cleanup maxAge (w, tm) = (w', tm')"
  shows "map_of (tm_tasks tm') i = (case map_of (tm_tasks tm) i of
      Some t \<Rightarrow> if expired (now w - maxAge) t then None else Some t | None \<Rightarrow> None)"
    "tm_max tm' = tm_max tm" "tm_ok tm'" "tm_taskDir tm' = tm_taskDir tm"
  using fold_cleanup[of "tm_tasks tm" "now w - maxAge" w tm] assms
  by (auto simp: Cleanup_def tm_ok_def split: option.splits)

lemma save_task_frame [simp]:
  "ts_tm (save_task t S) = put_task t (ts_tm S)" "ts_go (save_task t S) = ts_go S" "ts_ctx (save_task t S) = ts_ctx S"
  "ts_sem (save_task t S) = ts_sem S" "ts_inflight (save_task t S) = ts_inflight S"
  by (simp_all add: save_task_def)

lemma final_task_facts:
  "terminal (tk_Status (final_task T c e t))" "tk_CompletedAt (final_task T c e t) = Some T" "tk_ID (final_task T c e t) = tk_ID t"
  by (cases c; cases e; simp add: final_task_def Let_def terminal_def)+

lemma task_step_inv: "task_step S S' \<Longrightarrow> task_inv S \<Longrightarrow> task_inv S'"
proof (induction rule: task_step.induct)
  case (create S i ty opts)
  note D = task_invD[OF create.prems]
  have i: "i \<notin> workers S" using create(2) by (simp add: workers_def)
  show ?case
    by (rule task_inv_move[OF create.prems, of "new_task i ty opts (now (ts_world S))" i Queued])
       (use D(4,5) i in \<open>simp_all add: CreateTask_def new_task_def go_ok_def workers_upd[of _ S i Queued]\<close>)
next
  case (start S i t)
  note D = task_invD[OF start.prems]
  have t: "tk_ID t = i" by (rule task_id[OF start.prems start(2)])
  have i: "i \<notin> workers S" using start(1) by (simp add: workers_def)
  have c: "has_sem S \<Longrightarrow> int (ts_sem S) < tm_max (ts_tm S)" using start(3) by (simp add: slot_free_def)
  show ?case
    by (rule task_inv_move[OF start.prems, of "start_task (now (ts_world S)) t" i Working])
       (use D(3,4) c i t in \<open>simp_all add: run_start_def start_task_def go_ok_def workers_upd[of _ S i Working]\<close>)
next
  case (cancelled S i t)
  note D = task_invD[OF cancelled.prems]
  have t: "tk_ID t = i" by (rule task_id[OF cancelled.prems cancelled(3)])
  have i: "i \<notin> workers S" using cancelled(2) by (simp add: workers_def)
  show ?case
    by (rule task_inv_move[OF cancelled.prems, of "cancel_pending (now (ts_world S)) t" i Finished])
       (use D(4,5) i t in \<open>simp_all add: run_cancelled_def cancel_pending_def terminal_def go_ok_def workers_upd[of _ S i Finished]\<close>)
next
  case (set_progress S i t pct)
  note D = task_invD[OF set_progress.prems]
  have t: "tk_ID t = i" by (rule task_id[OF set_progress.prems set_progress(2)])
  show ?case
  proof (cases "tk_Progress t = pct")
    case True
    then show ?thesis using set_progress.prems by (simp add: SetProgress_def)
  next
    case False
    show ?thesis
      by (rule task_inv_move[OF set_progress.prems, of "t\<lparr>tk_Progress := pct\<rparr>" i "ts_go S i"])
         (use D(2)[of i] D(4,5) D(6)[of i] t set_progress(2) False in \<open>simp_all add: SetProgress_def go_ok_def workers_def split: goroutine.splits\<close>)
  qed
next
  case (write_progress S i t)
  show ?case by (rule task_inv_cong[OF write_progress.prems]) (simp_all add: write_progress_def)
next
  case (set_result S i t raw)
  note D = task_invD[OF set_result.prems]
  have t: "tk_ID t = i" by (rule task_id[OF set_result.prems set_result(2)])
  show ?case
    by (rule task_inv_move[OF set_result.prems, of "t\<lparr>tk_Result := Some raw\<rparr>" i "ts_go S i"])
       (use D(2)[of i] D(4,5) D(6)[of i] t set_result(2) in \<open>simp_all add: SetResult_def go_ok_def workers_def split: goroutine.splits\<close>)
next
  case (finish S i t err)
  note D = task_invD[OF finish.prems]
  have t: "tk_ID t = i" by (rule task_id[OF finish.prems finish(2)])
  have i: "i \<in> workers S" using finish(1) by (simp add: workers_def)
  show ?case
    by (rule task_inv_move[OF finish.prems, of "final_task (now (ts_world S)) (ts_ctx S i) err t" i "if has_sem S then Releasing else Finished"])
       (use D(4,5) i t in \<open>simp_all add: run_finish_def final_task_facts go_ok_def workers_upd[of _ S i "if has_sem S then Releasing else Finished"] insert_absorb\<close>)
next
  case (release S i)
  note D = task_invD[OF release.prems]
  let ?S' = "run_release i S"
  have i: "i \<in> workers S" using release(1) by (simp add: workers_def)
  have w: "workers ?S' = workers S - {i}" using workers_upd[of ?S' S i Finished] by (simp add: run_release_def)
  have g: "go_ok Finished (map_of (tm_tasks (ts_tm S)) i)" using D(2)[of i] release(1) by (simp add: go_ok_def)
  have h: "has_sem S" using D(6)[of i] release(1) by blast
  show ?case using D(1-5) g h i w by (simp add: task_inv_def has_sem_def run_release_def)
next
  case (deadline S i t)
  show ?case by (rule task_inv_cong[OF deadline.prems]) simp_all
next
  case (cancel i S e S')
  show ?case by (rule task_inv_cong[OF cancel.prems]) (use cancel(1) in \<open>auto simp: Cancel_def split: option.splits if_splits\<close>)
next
  case (cleanup maxAge S w tm)
  note D = task_invD[OF cleanup.prems] and C = Cleanup_lookup[OF task_invD(1)[OF cleanup.prems] cleanup(1)]
  have "go_ok (ts_go S i) (map_of (tm_tasks tm) i)" for i
    using D(2)[of i] C(1)[of i]
    by (cases "map_of (tm_tasks (ts_tm S)) i"; cases "ts_go S i") (auto simp: go_ok_def expired_def split: if_splits)
  then show ?case using D C(2,3) by (simp add: task_inv_def workers_def has_sem_def)
next
  case (env S w)
  show ?case by (rule task_inv_cong[OF env.prems]) simp_all
qed

lemma task_reachable_inv:
  assumes "NewManager d m p w = Inr st" "task_step\<^sup>*\<^sup>* (init_tasks st) S"
  shows "task_inv S"
proof -
  have "task_inv (init_tasks st)" using task_inv_init[OF NewManager_settled] assms(1) by (cases st) blast
  with assms(2) show ?thesis by (induction rule: rtranclp_induct) (auto intro: task_step_inv)
qed

lemma load_task_max: "tm_max (snd (load_task e st)) = tm_max (snd st)"
  by (cases st; cases e) (auto simp: load_task_def Let_def split: sum.splits content.splits option.splits)

lemma fold_load_task_max: "tm_max (snd (fold load_task es st)) = tm_max (snd st)"
proof (induction es arbitrary: st)
  case (Cons e es)
  then show ?case using load_task_max[of e st] by simp
qed simp

lemma NewManager_max: "NewManager d m p w = Inr st \<Longrightarrow> tm_max (snd st) = m"
  by (auto simp: NewManager_def loadFromDisk_def fold_load_task_max split: prod.splits option.splits sum.splits)

lemma task_step_max: "task_step S S' \<Longrightarrow> task_inv S \<Longrightarrow> tm_max (ts_tm S') = tm_max (ts_tm S)"
proof (induction rule: task_step.induct)
  case (cleanup maxAge S w tm)
  then show ?case using Cleanup_lookup(2)[OF task_invD(1)[OF cleanup.prems] cleanup(1)] by simp
qed (auto simp: CreateTask_def Cancel_def task_op_defs split: option.splits if_splits)

lemma task_reachable:
  assumes "NewManager d m p w = Inr st" "task_step\<^sup>*\<^sup>* (init_tasks st) S"
  shows "task_inv S" "tm_max (ts_tm S) = m"
proof -
  show "task_inv S" by (rule task_reachable_inv[OF assms])
  from assms(2) show "tm_max (ts_tm S) = m"
  proof (induction rule: rtranclp_induct)
    case (step S1 S2)
    then show ?case using task_step_max[OF step(2) task_reachable_inv[OF assms(1) step(1)]] by simp
  qed (use NewManager_max[OF assms(1)] in \<open>simp add: init_tasks_def\<close>)
qed

lemma running_working:
  assumes "task_inv S" "map_of (tm_tasks (ts_tm S)) i = Some t" "tk_Status t = TaskRunning"
  shows "ts_go S i = Working"
  using task_invD(2)[OF assms(1), of i] assms(2,3)
  by (cases "ts_go S i") (auto simp: go_ok_def active_def terminal_def)

end
