(* ===== verification/Scrub.thy ===== *)
theory Scrub
  imports Tasks
begin

text \<open>
  The two kinds of background task: the scrub of \<open>agent/storage/scrub.go\<close> and the test task of
  \<open>agent/storage/testtask.go\<close>. The file system usage that the statistics poller caches, the configured
  timeouts and the fresh task id are arguments.
\<close>

section \<open>Durations\<close>

text \<open>\<open>time.ParseDuration\<close>: a signed sequence of decimal numbers with units. Its arithmetic is exact up to
  the fraction, which it scales in floating point; that scaling is the argument \<open>fr\<close>.\<close>

definition max_duration :: nat where "max_duration = 2 ^ 63"

definition duration_units :: "(string \<times> nat) list" where
  "duration_units = [(''ns'', 1), (''us'', 1000), ([CHR 0xC2, CHR 0xB5, CHR ''s''], 1000), ([CHR 0xCE, CHR 0xBC, CHR ''s''], 1000),
     (''ms'', 1000000), (''s'', 1000000000), (''m'', 60 * 1000000000), (''h'', 3600 * 1000000000)]"

fun leadingInt :: "nat \<Rightarrow> string \<Rightarrow> (nat \<times> string) option" where
  "leadingInt x [] = Some (x, [])"
| "leadingInt x (c # cs) =
     (case digit_val c of
        None \<Rightarrow> Some (x, c # cs)
      | Some d \<Rightarrow> if \<not> is_digit c then Some (x, c # cs)
          else if x > max_duration div 10 then None
          else if x * 10 + d > max_duration then None else leadingInt (x * 10 + d) cs)"

fun leadingFraction :: "nat \<Rightarrow> nat \<Rightarrow> bool \<Rightarrow> string \<Rightarrow> nat \<times> nat \<times> string" where
  "leadingFraction x scale overflow [] = (x, scale, [])"
| "leadingFraction x scale overflow (c # cs) =
     (if \<not> is_digit c then (x, scale, c # cs)
      else if overflow then leadingFraction x scale True cs
      else if x > (max_duration - 1) div 10 then leadingFraction x scale True cs
      else (case digit_val c of
              None \<Rightarrow> (x, scale, c # cs)
            | Some d \<Rightarrow> if x * 10 + d > max_duration then leadingFraction x scale True cs
                else leadingFraction (x * 10 + d) (scale * 10) False cs))"

lemma leadingInt_length: "leadingInt x s = Some (v, r) \<Longrightarrow> length r \<le> length s"
  by (induction x s rule: leadingInt.induct) (auto split: option.splits if_splits)

lemma leadingFraction_length: "leadingFraction x sc ov s = (f, sc', r) \<Longrightarrow> length r \<le> length s"
  by (induction x sc ov s rule: leadingFraction.induct) (auto split: option.splits if_splits)

definition unit_chars :: "string \<Rightarrow> string" where
  "unit_chars s = takeWhile (\<lambda>c. \<not> (c = CHR ''.'' \<or> is_digit c)) s"

text \<open>One number with its unit; the result is its value in nanoseconds and the rest of the text.\<close>

definition duration_part :: "(nat \<Rightarrow> nat \<Rightarrow> nat \<Rightarrow> nat) \<Rightarrow> string \<Rightarrow> (nat \<times> string) option" where
  "duration_part fr s =
     (if s = [] \<or> \<not> (hd s = CHR ''.'' \<or> is_digit (hd s)) then None
      else (case leadingInt 0 s of
        None \<Rightarrow> None
      | Some (v, s1) \<Rightarrow>
          let pre = (length s1 \<noteq> length s);
              dot = (s1 \<noteq> [] \<and> hd s1 = CHR ''.'');
              (f, scale, s2) = (if dot then leadingFraction 0 1 False (tl s1) else (0, 1, s1));
              post = (dot \<and> length s2 \<noteq> length (tl s1));
              u = unit_chars s2
          in if \<not> pre \<and> \<not> post \<or> u = [] then None
             else (case map_of duration_units u of
                     None \<Rightarrow> None
                   | Some unit \<Rightarrow>
                       if v > max_duration div unit then None
                       else let v1 = v * unit + (if f > 0 then fr f unit scale else 0)
                            in if v1 > max_duration then None else Some (v1, drop (length u) s2))))"

lemma duration_part_shorter: "duration_part fr s = Some (v, r) \<Longrightarrow> length r < length s"
proof -
  assume p: "duration_part fr s = Some (v, r)"
  obtain v0 s1 where l: "leadingInt 0 s = Some (v0, s1)" using p by (auto simp: duration_part_def split: option.splits if_splits)
  define s2 where "s2 = (if s1 \<noteq> [] \<and> hd s1 = CHR ''.'' then snd (snd (leadingFraction 0 1 False (tl s1))) else s1)"
  have r: "r = drop (length (unit_chars s2)) s2" "unit_chars s2 \<noteq> []"
    using p l by (auto simp: duration_part_def s2_def Let_def split: option.splits if_splits prod.splits)
  have "length s2 \<le> length s1"
    using leadingFraction_length[of 0 1 False "tl s1"] by (auto simp: s2_def prod_eq_iff)
  moreover have "s2 \<noteq> []" using r(2) by (auto simp: unit_chars_def)
  moreover have "length r < length s2" using r \<open>s2 \<noteq> []\<close> by simp
  ultimately show ?thesis using leadingInt_length[OF l] by linarith
qed

function duration_sum :: "(nat \<Rightarrow> nat \<Rightarrow> nat \<Rightarrow> nat) \<Rightarrow> nat \<Rightarrow> string \<Rightarrow> nat option" where
  "duration_sum fr d s =
     (if s = [] then Some d
      else (case duration_part fr s of
              None \<Rightarrow> None
            | Some (v, r) \<Rightarrow> if d + v > max_duration then None else duration_sum fr (d + v) r))"
  by pat_completeness auto
termination
  by (relation "measure (\<lambda>(fr, d, s). length s)") (auto dest: duration_part_shorter)

declare duration_sum.simps [simp del]

definition ParseDuration :: "(nat \<Rightarrow> nat \<Rightarrow> nat \<Rightarrow> nat) \<Rightarrow> string \<Rightarrow> int option" where
  "ParseDuration fr s =
     (let neg = (s \<noteq> [] \<and> hd s = CHR ''-'');
          s1 = (if s \<noteq> [] \<and> (hd s = CHR ''-'' \<or> hd s = CHR ''+'') then tl s else s)
      in if s1 = ''0'' then Some 0
         else if s1 = [] then None
         else (case duration_sum fr 0 s1 of
                 None \<Rightarrow> None
               | Some d \<Rightarrow> if neg then Some (- int d) else if d > max_duration - 1 then None else Some (int d)))"

section \<open>Scrub\<close>

definition enc_scrub :: "ScrubStatus \<Rightarrow> json" where
  "enc_scrub s = JObj [(''data_bytes_scrubbed'', enc_u64 (ss_DataBytesScrubbed s)), (''tree_bytes_scrubbed'', enc_u64 (ss_TreeBytesScrubbed s)),
     (''read_errors'', enc_u64 (ss_ReadErrors s)), (''csum_errors'', enc_u64 (ss_CSumErrors s)), (''verify_errors'', enc_u64 (ss_VerifyErrors s)),
     (''super_errors'', enc_u64 (ss_SuperErrors s)), (''uncorrectable_errors'', enc_u64 (ss_UncorrectableErrs s)),
     (''corrected_errors'', enc_u64 (ss_CorrectedErrs s)), (''running'', JBool (ss_Running s))]"

definition filesystemUsedBytes :: "'f FilesystemUsage option \<Rightarrow> u64" where
  "filesystemUsedBytes fs = (case fs of None \<Rightarrow> 0 | Some u \<Rightarrow> fu_UsedBytes u)"

text \<open>The percentage: 64-bit arithmetic, and a conversion to a signed integer.\<close>

definition scrub_percent :: "ScrubStatus \<Rightarrow> u64 \<Rightarrow> int" where
  "scrub_percent s tot =
     (let scrubbed = ss_DataBytesScrubbed s + ss_TreeBytesScrubbed s in
      if tot > 0 then let pct = sint (scrubbed * 100 div tot) in if pct > 100 then 100 else pct
      else 0)"

text \<open>The poll function of \<open>runScrub\<close>: the percentage, or -1, and the result to store.\<close>

definition scrub_poll :: "manager \<Rightarrow> string \<Rightarrow> u64 \<Rightarrow> world \<Rightarrow> (int \<times> json option) \<times> world" where
  "scrub_poll m mountPoint tot w = (case ScrubStatusOf m mountPoint w of
       (Inl e, w1) \<Rightarrow> ((-1, None), w1)
     | (Inr s, w1) \<Rightarrow> ((scrub_percent s tot, Some (enc_scrub s)), w1))"

text \<open>What \<open>PollProgress\<close> sets: nothing for a negative percentage.\<close>

definition polled_progress :: "int \<Rightarrow> int option" where
  "polled_progress pct = (if pct \<ge> 0 then Some pct else None)"

text \<open>\<open>runScrub\<close>: the error it returns and the result it stores at the end.\<close>

definition runScrub :: "manager \<Rightarrow> string \<Rightarrow> world \<Rightarrow> (string option \<times> json option) \<times> world" where
  "runScrub m mountPoint w = (case ScrubStart m mountPoint w of
       (Some e, w1) \<Rightarrow> ((Some (''btrfs scrub: '' @ e), None), w1)
     | (None, w1) \<Rightarrow>
         (case ScrubStatusOf m mountPoint w1 of
            (Inl e, w2) \<Rightarrow> ((None, None), w2)
          | (Inr s, w2) \<Rightarrow> ((None, Some (enc_scrub s)), w2)))"

definition StartScrub :: "storage \<Rightarrow> int \<Rightarrow> labels \<Rightarrow> labels \<Rightarrow> int \<Rightarrow> string \<Rightarrow> task_sys \<Rightarrow> (error + string) \<times> task_sys" where
  "StartScrub s scrubTimeout opts ls timeout i S =
     (if list_ex (\<lambda>t. active (tk_Status t)) (ListTasks TypeScrub (ts_tm S)) then (Inl (StorageError ErrBusy), S)
      else (case ScrubStatusOf (st_btrfs s) (st_mountPoint s) (ts_world S) of (r, w1) \<Rightarrow>
        let S1 = S\<lparr>ts_world := w1\<rparr> in
        if (case r of Inr st \<Rightarrow> ss_Running st | Inl _ \<Rightarrow> False) then (Inl (StorageError ErrBusy), S1)
        else (case ValidateLabels ls of
                Some e \<Rightarrow> (Inl e, S1)
              | None \<Rightarrow> (Inr i, CreateTask i TypeScrub
                  \<lparr>to_Opts = opts, to_Labels = ls, to_Timeout = (if timeout > 0 then timeout else scrubTimeout)\<rparr> S1))))"

section \<open>Test task\<close>

definition test_sleep :: "(nat \<Rightarrow> nat \<Rightarrow> nat \<Rightarrow> nat) \<Rightarrow> labels \<Rightarrow> int option" where
  "test_sleep fr opts = (let v = mget opts ''sleep'' in if v = [] then Some 0 else ParseDuration fr v)"

definition StartTestTask :: "(nat \<Rightarrow> nat \<Rightarrow> nat \<Rightarrow> nat) \<Rightarrow> int \<Rightarrow> labels \<Rightarrow> labels \<Rightarrow> int \<Rightarrow> string \<Rightarrow> task_sys \<Rightarrow> (error + string) \<times> task_sys" where
  "StartTestTask fr defaultTimeout opts ls timeout i S = (case test_sleep fr opts of
       None \<Rightarrow> (Inl (StorageError ErrInvalid), S)
     | Some sleep \<Rightarrow>
         (case ValidateLabels ls of
            Some e \<Rightarrow> (Inl e, S)
          | None \<Rightarrow> (Inr i, CreateTask i TypeTest
              \<lparr>to_Opts = opts, to_Labels = ls, to_Timeout = (if timeout > 0 then timeout else defaultTimeout)\<rparr> S)))"

end
