(* ===== verification/TaskProps.thy ===== *)
theory TaskProps
  imports Scrub Demo
begin

text \<open>Properties of the background tasks: worker limit, life cycle, restart, clean-up, and a race.\<close>

section \<open>Worker limit\<close>

text \<open>C17: the worker limit holds. In every reachable state of a manager that was created with a limit,
  whatever is created, cancelled, finished or cleaned up in between, at most that many tasks are
  running at the same time.\<close>

theorem tasks_limit:
  assumes "NewManager d m p w = Inr st" "0 < m" "task_step\<^sup>*\<^sup>* (init_tasks st) S"
  shows "int (card {i. \<exists>t. map_of (tm_tasks (ts_tm S)) i = Some t \<and> tk_Status t = TaskRunning}) \<le> m"
proof -
  have inv: "task_inv S" and mx: "tm_max (ts_tm S) = m" using task_reachable[OF assms(1,3)] by auto
  note D = task_invD[OF inv]
  have s: "has_sem S" using mx assms(2) by (simp add: has_sem_def)
  have "{i. \<exists>t. map_of (tm_tasks (ts_tm S)) i = Some t \<and> tk_Status t = TaskRunning} \<subseteq> workers S"
    using running_working[OF inv] by (auto simp: workers_def)
  then have "card {i. \<exists>t. map_of (tm_tasks (ts_tm S)) i = Some t \<and> tk_Status t = TaskRunning} \<le> card (workers S)"
    by (rule card_mono[OF D(3)])
  then show ?thesis using D(4,5)[OF s] mx by simp
qed

definition demo_tm :: "world \<times> task_manager" where
  "demo_tm = (case NewManager ''/d/tasks'' 1 0 demo_world of Inr st \<Rightarrow> st | Inl _ \<Rightarrow> (demo_world, \<lparr>tm_tasks = [], tm_taskDir = [], tm_max = 0, tm_pollInterval = 0\<rparr>))"

definition demo_opts :: TaskOpts where
  "demo_opts = \<lparr>to_Opts = [], to_Labels = [], to_Timeout = 0\<rparr>"

definition demo_task :: Task where
  "demo_task = new_task ''a'' ''scrub'' demo_opts 7"

lemma demo_tm_new: "NewManager ''/d/tasks'' 1 0 demo_world = Inr demo_tm"
proof -
  have "(case NewManager ''/d/tasks'' 1 0 demo_world of Inr st \<Rightarrow> True | Inl _ \<Rightarrow> False)" by code_simp
  then show ?thesis by (auto simp: demo_tm_def split: sum.splits)
qed

text \<open>A run: a task is created, started, and its progress polled; the task ends; the poller then
  writes the value it swapped in before the end.\<close>

definition demo_s1 :: task_sys where
  "demo_s1 = CreateTask ''a'' ''scrub'' demo_opts (init_tasks demo_tm)"

definition demo_s2 :: task_sys where
  "demo_s2 = run_start ''a'' demo_task demo_s1"

definition demo_task2 :: Task where
  "demo_task2 = start_task 7 demo_task"

definition demo_s3 :: task_sys where
  "demo_s3 = SetProgress ''a'' 40 demo_task2 demo_s2"

definition demo_s4 :: task_sys where
  "demo_s4 = run_finish ''a'' None (demo_task2\<lparr>tk_Progress := 40\<rparr>) demo_s3"

definition demo_s5 :: task_sys where
  "demo_s5 = write_progress ''a'' (demo_task2\<lparr>tk_Progress := 40\<rparr>) demo_s4"

lemma demo_run:
  "task_step (init_tasks demo_tm) demo_s1" "task_step demo_s1 demo_s2" "task_step demo_s2 demo_s3"
  "task_step demo_s3 demo_s4" "task_step demo_s4 demo_s5"
proof -
  have c: "map_of (tm_tasks (ts_tm (init_tasks demo_tm))) ''a'' = None \<and> ts_go (init_tasks demo_tm) ''a'' = NoGoroutine \<and>
      ts_go demo_s1 ''a'' = Queued \<and> map_of (tm_tasks (ts_tm demo_s1)) ''a'' = Some demo_task \<and> slot_free demo_s1 \<and>
      ts_go demo_s2 ''a'' = Working \<and> map_of (tm_tasks (ts_tm demo_s2)) ''a'' = Some demo_task2 \<and> ts_inflight demo_s2 ''a'' = None \<and>
      ts_go demo_s3 ''a'' = Working \<and> map_of (tm_tasks (ts_tm demo_s3)) ''a'' = Some (demo_task2\<lparr>tk_Progress := 40\<rparr>) \<and>
      ts_inflight demo_s4 ''a'' = Some (demo_task2\<lparr>tk_Progress := 40\<rparr>)" by code_simp
  show "task_step (init_tasks demo_tm) demo_s1" unfolding demo_s1_def by (rule task_step.create) (use c in simp_all)
  show "task_step demo_s1 demo_s2" unfolding demo_s2_def by (rule task_step.start) (use c in simp_all)
  show "task_step demo_s2 demo_s3" unfolding demo_s3_def by (rule task_step.set_progress) (use c in simp_all)
  show "task_step demo_s3 demo_s4" unfolding demo_s4_def by (rule task_step.finish) (use c in simp_all)
  show "task_step demo_s4 demo_s5" unfolding demo_s5_def by (rule task_step.write_progress) (use c in simp)
qed

lemma demo_reach: "task_step\<^sup>*\<^sup>* (init_tasks demo_tm) demo_s2" "task_step\<^sup>*\<^sup>* (init_tasks demo_tm) demo_s5"
proof -
  show "task_step\<^sup>*\<^sup>* (init_tasks demo_tm) demo_s2" using demo_run(1,2) by (meson r_into_rtranclp rtranclp_trans)
  then show "task_step\<^sup>*\<^sup>* (init_tasks demo_tm) demo_s5" using demo_run(3-5) by (meson rtranclp.rtrancl_into_rtrancl)
qed

theorem tasks_limit_witness:
  "task_step\<^sup>*\<^sup>* (init_tasks demo_tm) demo_s2 \<and> map_of (tm_tasks (ts_tm demo_s2)) ''a'' = Some demo_task2 \<and> tk_Status demo_task2 = TaskRunning \<and>
   int (card {i. \<exists>t. map_of (tm_tasks (ts_tm demo_s2)) i = Some t \<and> tk_Status t = TaskRunning}) \<le> 1"
proof -
  have "map_of (tm_tasks (ts_tm demo_s2)) ''a'' = Some demo_task2 \<and> tk_Status demo_task2 = TaskRunning" by code_simp
  then show ?thesis using tasks_limit[OF demo_tm_new _ demo_reach(1)] demo_reach(1) by simp
qed

section \<open>Life cycle\<close>

definition may_become :: "TaskStatus \<Rightarrow> TaskStatus \<Rightarrow> bool" where
  "may_become s s' \<longleftrightarrow> s' = s \<or> s = TaskPending \<and> s' \<in> {TaskRunning, TaskCancelled} \<or> s = TaskRunning \<and> terminal s'"

text \<open>C18: the life cycle of a task. No step of the system gives a task another status than the life cycle
  allows: pending tasks start or are cancelled, running tasks end as completed, failed or cancelled,
  and a task that has ended keeps its status for good; a task disappears only when it has ended. A
  completed task had no error and its context was still alive.\<close>

theorem task_lifecycle:
  assumes "NewManager d m p w = Inr st" "task_step\<^sup>*\<^sup>* (init_tasks st) S" "task_step S S'"
    and t: "map_of (tm_tasks (ts_tm S)) i = Some t"
  shows "case map_of (tm_tasks (ts_tm S')) i of
      Some t' \<Rightarrow> may_become (tk_Status t) (tk_Status t') \<and>
        (tk_Status t' = TaskCompleted \<and> tk_Status t \<noteq> TaskCompleted \<longrightarrow> ts_ctx S i = CtxOk \<and> tk_Progress t' = 100)
    | None \<Rightarrow> terminal (tk_Status t)"
proof -
  have inv: "task_inv S" by (rule task_reachable(1)[OF assms(1,2)])
  have go: "go_ok (ts_go S i) (Some t)" using task_invD(2)[OF inv, of i] t by simp
  have ids: "map_of (tm_tasks (ts_tm S)) k = Some x \<Longrightarrow> tk_ID x = k" for k x by (rule task_id[OF inv])
  from assms(3) show ?thesis
  proof cases
    case (create k ty opts)
    then show ?thesis using t by (auto simp: CreateTask_def new_task_def may_become_def)
  next
    case (start k x)
    then show ?thesis using t ids[of k x] go by (auto simp: run_start_def start_task_def may_become_def go_ok_def)
  next
    case (cancelled k x)
    then show ?thesis using t ids[of k x] go by (auto simp: run_cancelled_def cancel_pending_def may_become_def go_ok_def)
  next
    case (set_progress k x pct)
    then show ?thesis using t ids[of k x] by (auto simp: SetProgress_def may_become_def)
  next
    case (set_result k x raw)
    then show ?thesis using t ids[of k x] by (auto simp: SetResult_def may_become_def)
  next
    case (finish k x err)
    have "tk_Status (final_task T c e x) = TaskCompleted \<Longrightarrow> c = CtxOk \<and> tk_Progress (final_task T c e x) = 100" for T c e
      by (cases c; cases e) (simp_all add: final_task_def Let_def)
    then show ?thesis using finish t ids[of k x] go by (auto simp: run_finish_def may_become_def go_ok_def final_task_facts)
  next
    case (cancel k e)
    then show ?thesis using t by (auto simp: Cancel_def may_become_def split: option.splits if_splits)
  next
    case (cleanup maxAge w1 tm)
    then show ?thesis using t Cleanup_lookup(1)[OF task_invD(1)[OF inv] cleanup(2), of i]
      by (auto simp: may_become_def expired_def terminal_def)
  qed (use t in \<open>simp_all add: may_become_def write_progress_def run_release_def\<close>)
qed

theorem task_lifecycle_witness:
  "\<exists>t t'. map_of (tm_tasks (ts_tm demo_s1)) ''a'' = Some t \<and> map_of (tm_tasks (ts_tm demo_s2)) ''a'' = Some t' \<and>
     may_become (tk_Status t) (tk_Status t') \<and> tk_Status t' = TaskRunning"
proof -
  have c: "map_of (tm_tasks (ts_tm demo_s1)) ''a'' = Some demo_task \<and> map_of (tm_tasks (ts_tm demo_s2)) ''a'' = Some demo_task2 \<and>
      tk_Status demo_task2 = TaskRunning" by code_simp
  have "task_step\<^sup>*\<^sup>* (init_tasks demo_tm) demo_s1" using demo_run(1) by blast
  then show ?thesis using task_lifecycle[OF demo_tm_new _ demo_run(2), of "''a''" demo_task] c by auto
qed

section \<open>A race between the end of a task and its progress poller\<close>

text \<open>The file of a finished task can say that it is still running. \<open>SetProgress\<close> swaps the new value
  in and writes it to disk in two steps; when the task ends in between, the older value is written
  last. In the state below the task is completed in memory while its file holds the running task at
  40 percent; a restart of the manager then loads it as failed.\<close>

lemma task_stale_file:
  "task_step\<^sup>*\<^sup>* (init_tasks demo_tm) demo_s5 \<and>
   (\<exists>t. map_of (tm_tasks (ts_tm demo_s5)) ''a'' = Some t \<and> tk_Status t = TaskCompleted) \<and>
   file_content (ts_world demo_s5) (taskFile (ts_tm demo_s5) ''a'') = Some (Doc (MarshalTask (demo_task2\<lparr>tk_Progress := 40\<rparr>))) \<and>
   tk_Status demo_task2 = TaskRunning \<and>
   (\<exists>w tm t. NewManager ''/d/tasks'' 1 0 (ts_world demo_s5) = Inr (w, tm) \<and> map_of (tm_tasks tm) ''a'' = Some t \<and>
      tk_Status t = TaskFailed \<and> tk_Error t = ''agent restarted'')"
proof -
  have i: "tk_ID demo_task2 = ''a''" "tk_Status demo_task2 = TaskRunning" by (simp_all add: demo_task2_def demo_task_def start_task_def new_task_def)
  have x: "ts_ctx demo_s3 ''a'' = CtxOk" by (simp add: demo_s3_def demo_s2_def demo_s1_def CreateTask_def SetProgress_def run_start_def)
  have c1: "\<exists>t. map_of (tm_tasks (ts_tm demo_s5)) ''a'' = Some t \<and> tk_Status t = TaskCompleted"
    by (simp add: demo_s5_def demo_s4_def write_progress_def run_finish_def x i final_task_def Let_def)
  have c2: "file_content (ts_world demo_s5) (taskFile (ts_tm demo_s5) ''a'') = Some (Doc (MarshalTask (demo_task2\<lparr>tk_Progress := 40\<rparr>)))"
    by code_simp
  have c3: "(case NewManager ''/d/tasks'' 1 0 (ts_world demo_s5) of Inr (w, tm) \<Rightarrow>
        (case map_of (tm_tasks tm) ''a'' of Some t \<Rightarrow> tk_Status t = TaskFailed \<and> tk_Error t = ''agent restarted'' | None \<Rightarrow> False)
      | Inl _ \<Rightarrow> False)" by code_simp
  show ?thesis using c1 c2 c3 i(2) demo_reach(2) by (auto split: option.splits sum.splits)
qed

section \<open>Scrub\<close>

lemma sint_small: "unat (x :: u64) < 2 ^ 63 \<Longrightarrow> sint x = int (unat x)"
proof -
  assume x: "unat x < 2 ^ 63"
  obtain n where n: "unat x = n" by blast
  have "- (2 ^ 63) \<le> int n" "int n < 2 ^ 63" using x n by simp_all
  then have "signed_take_bit 63 (int n) = int n" by (rule signed_take_bit_int_eq_self)
  moreover have "uint x = int n" using n by auto
  ultimately show ?thesis using n by (simp add: sint_uint)
qed

text \<open>The scrub percentage is exact and at most 100 as long as a hundred times the scrubbed bytes fits a
  signed 64-bit number; the addition, multiplication and conversion then do not wrap.\<close>

lemma scrub_percent_exact:
  assumes "(unat (ss_DataBytesScrubbed s) + unat (ss_TreeBytesScrubbed s)) * 100 < 2 ^ 63" "0 < tot"
  shows "scrub_percent s tot = int (min 100 ((unat (ss_DataBytesScrubbed s) + unat (ss_TreeBytesScrubbed s)) * 100 div unat tot))"
proof -
  let ?d = "ss_DataBytesScrubbed s" and ?t = "ss_TreeBytesScrubbed s"
  let ?n = "(unat ?d + unat ?t) * 100" and ?q = "(?d + ?t) * 100 div tot"
  have a: "unat (?d + ?t) = unat ?d + unat ?t" using assms(1) by (simp add: unat_word_ariths)
  have m: "unat ((?d + ?t) * 100) = ?n" using assms(1) a by (simp add: unat_word_ariths)
  have q: "unat ?q = ?n div unat tot" using m by (simp add: unat_div)
  have "?n div unat tot \<le> ?n" by simp
  then have small: "unat ?q < 2 ^ 63" using q assms(1) by linarith
  have "sint ?q = int (unat ?q)" by (rule sint_small[OF small])
  then have p: "sint ?q = int (?n div unat tot)" using q by (simp only:)
  have "scrub_percent s tot = (if sint ?q > 100 then 100 else sint ?q)" using assms(2) by (simp only: scrub_percent_def Let_def if_True)
  then show ?thesis unfolding p by (simp add: min_def)
qed

definition demo_status :: ScrubStatus where
  "demo_status = \<lparr>ss_DataBytesScrubbed = 300, ss_TreeBytesScrubbed = 100, ss_ReadErrors = 0, ss_CSumErrors = 0, ss_VerifyErrors = 0,
     ss_SuperErrors = 0, ss_UncorrectableErrs = 0, ss_CorrectedErrs = 0, ss_Running = True\<rparr>"

lemma scrub_percent_exact_witness: "scrub_percent demo_status 1000 = 40"
  using scrub_percent_exact[of demo_status 1000] by (simp add: demo_status_def)

definition active_scrubs :: "task_sys \<Rightarrow> string set" where
  "active_scrubs S = {i. \<exists>t. map_of (tm_tasks (ts_tm S)) i = Some t \<and> tk_Type t = TypeScrub \<and> active (tk_Status t)}"

lemma list_scrubs: "keys_distinct (tm_tasks tm) \<Longrightarrow>
    list_ex (\<lambda>t. active (tk_Status t)) (ListTasks TypeScrub tm) \<longleftrightarrow>
    (\<exists>i t. map_of (tm_tasks tm) i = Some t \<and> tk_Type t = TypeScrub \<and> active (tk_Status t))"
  by (force simp: ListTasks_def list_ex_iff TypeScrub_def keys_distinct_def map_of_eq_Some_iff)

text \<open>One scrub at a time. Whatever the manager's tasks are, \<open>StartScrub\<close> leaves at most one pending or
  running scrub if there was at most one before: while one is active, or the file system reports a
  running scrub, the request is refused as busy and creates no task.\<close>

lemma StartScrub_exclusive:
  assumes "tm_ok (ts_tm S)" "finite (active_scrubs S)" "card (active_scrubs S) \<le> 1"
    and "StartScrub st d opts ls timeout i S = (r, S')"
  shows "card (active_scrubs S') \<le> 1 \<and> (active_scrubs S \<noteq> {} \<longrightarrow> r = Inl (StorageError ErrBusy) \<and> S' = S)"
proof (cases "active_scrubs S = {}")
  case True
  have "active_scrubs S' \<subseteq> insert i (active_scrubs S)"
    using assms(4) by (auto simp: StartScrub_def Let_def CreateTask_def active_scrubs_def new_task_def
        split: if_splits prod.splits option.splits)
  then have "active_scrubs S' \<subseteq> {i}" using True by simp
  then have "card (active_scrubs S') \<le> card {i}" by (rule card_mono[rotated]) simp
  then show ?thesis using True by simp
next
  case False
  then have "list_ex (\<lambda>t. active (tk_Status t)) (ListTasks TypeScrub (ts_tm S))"
    using list_scrubs[of "ts_tm S"] assms(1) by (auto simp: active_scrubs_def tm_ok_def)
  then show ?thesis using assms(3,4) by (simp add: StartScrub_def)
qed

lemma StartScrub_exclusive_witness:
  "fst (StartScrub demo_storage 0 [] [] 0 ''b'' demo_s1) = Inl (StorageError ErrBusy)"
proof -
  obtain r S' where e: "StartScrub demo_storage 0 [] [] 0 ''b'' demo_s1 = (r, S')" by fastforce
  have m: "map_of (tm_tasks (ts_tm demo_s1)) ''a'' = Some demo_task \<and> map fst (tm_tasks (ts_tm demo_s1)) = [''a'']" by code_simp
  have "task_step\<^sup>*\<^sup>* (init_tasks demo_tm) demo_s1" using demo_run(1) by blast
  then have ok: "tm_ok (ts_tm demo_s1)" using task_invD(1)[OF task_reachable(1)[OF demo_tm_new]] by blast
  have "map_of (tm_tasks (ts_tm demo_s1)) i = Some t \<Longrightarrow> i = ''a''" for i t
    using m map_of_SomeD[of "tm_tasks (ts_tm demo_s1)" i t] by (metis empty_iff fst_conv image_eqI list.set(1) list.set(2) list.set_map singletonD)
  then have "active_scrubs demo_s1 \<subseteq> {''a''}" by (auto simp: active_scrubs_def)
  moreover
  have f: "tk_Type demo_task = TypeScrub" "active (tk_Status demo_task)"
    by (simp_all add: demo_task_def new_task_def active_def TypeScrub_def)
  have "''a'' \<in> active_scrubs demo_s1"
    unfolding active_scrubs_def using m f by blast
  ultimately have "active_scrubs demo_s1 = {''a''}" by blast
  then show ?thesis using StartScrub_exclusive[OF ok _ _ e] e by simp
qed

end
