(* ===== verification/Base64.thy ===== *)
theory Base64
  imports Prelude
begin

text \<open>
  The part of Go's \<open>encoding/base64\<close> that the agent uses: the unpadded URL encoding of the page
  cursors and the decoder of the padded standard encoding of HTTP Basic credentials. The decoder
  skips line breaks and, like Go's default, does not ask the unused trailing bits to be zero.
\<close>

section \<open>Definitions\<close>

definition upper_lower_digits :: string where
  "upper_lower_digits = ''ABCDEFGHIJKLMNOPQRSTUVWXYZabcdefghijklmnopqrstuvwxyz0123456789''"

definition std_alphabet :: string where "std_alphabet = upper_lower_digits @ ''+/''"
definition url_alphabet :: string where "url_alphabet = upper_lower_digits @ ''-_''"

definition sextet_char :: "string \<Rightarrow> nat \<Rightarrow> char" where
  "sextet_char a n = a ! (n mod 64)"

fun index_of :: "char \<Rightarrow> string \<Rightarrow> nat option" where
  "index_of c [] = None"
| "index_of c (x # xs) = (if c = x then Some 0 else map_option Suc (index_of c xs))"

definition byte_of :: "nat \<Rightarrow> char" where "byte_of n = char_of n"
definition code_of :: "char \<Rightarrow> nat" where "code_of c = of_char c"

text \<open>\<open>EncodeToString\<close> without padding.\<close>

fun raw_encode :: "string \<Rightarrow> string \<Rightarrow> string" where
  "raw_encode a [] = []"
| "raw_encode a [x] = (let n = code_of x * 16 in [sextet_char a (n div 64), sextet_char a n])"
| "raw_encode a [x, y] = (let n = (code_of x * 256 + code_of y) * 4 in
     [sextet_char a (n div 4096), sextet_char a (n div 64), sextet_char a n])"
| "raw_encode a (x # y # z # r) = (let n = (code_of x * 256 + code_of y) * 256 + code_of z in
     [sextet_char a (n div 262144), sextet_char a (n div 4096), sextet_char a (n div 64), sextet_char a n] @ raw_encode a r)"

definition two_sextets :: "string \<Rightarrow> char \<Rightarrow> char \<Rightarrow> string option" where
  "two_sextets a c d = (case (index_of c a, index_of d a) of
     (Some i, Some j) \<Rightarrow> Some [byte_of ((i * 64 + j) div 16)] | _ \<Rightarrow> None)"

definition three_sextets :: "string \<Rightarrow> char \<Rightarrow> char \<Rightarrow> char \<Rightarrow> string option" where
  "three_sextets a c d e = (case (index_of c a, index_of d a, index_of e a) of
     (Some i, Some j, Some k) \<Rightarrow> let n = ((i * 64 + j) * 64 + k) div 4 in Some [byte_of (n div 256), byte_of n]
   | _ \<Rightarrow> None)"

definition four_sextets :: "string \<Rightarrow> char \<Rightarrow> char \<Rightarrow> char \<Rightarrow> char \<Rightarrow> string option" where
  "four_sextets a c d e f = (case (index_of c a, index_of d a, index_of e a, index_of f a) of
     (Some i, Some j, Some k, Some l) \<Rightarrow> let n = ((i * 64 + j) * 64 + k) * 64 + l in
        Some [byte_of (n div 65536), byte_of (n div 256), byte_of n]
   | _ \<Rightarrow> None)"

text \<open>The decoder of whole quanta; \<open>padded\<close> tells the standard encoding from the raw one.\<close>

fun decode_quanta :: "bool \<Rightarrow> string \<Rightarrow> string \<Rightarrow> string option" where
  "decode_quanta padded a [] = Some []"
| "decode_quanta padded a [c] = None"
| "decode_quanta padded a [c, d] = (if padded then None else two_sextets a c d)"
| "decode_quanta padded a [c, d, e] = (if padded then None else three_sextets a c d e)"
| "decode_quanta padded a (c # d # e # f # r) =
     (if padded \<and> f = CHR ''='' then
        (if r \<noteq> [] then None else if e = CHR ''='' then two_sextets a c d else three_sextets a c d e)
      else (case four_sextets a c d e f of
              None \<Rightarrow> None
            | Some bs \<Rightarrow> (case decode_quanta padded a r of None \<Rightarrow> None | Some t \<Rightarrow> Some (bs @ t))))"

definition carriage_return :: char where "carriage_return = CHR 0x0D"

definition RawURL_encode :: "string \<Rightarrow> string" where
  "RawURL_encode s = raw_encode url_alphabet s"

definition RawURL_decode :: "string \<Rightarrow> string option" where
  "RawURL_decode s = decode_quanta False url_alphabet (filter (\<lambda>c. c \<noteq> newline \<and> c \<noteq> carriage_return) s)"

definition Std_decode :: "string \<Rightarrow> string option" where
  "Std_decode s = decode_quanta True std_alphabet (filter (\<lambda>c. c \<noteq> newline \<and> c \<noteq> carriage_return) s)"

section \<open>Round trip\<close>

lemma index_of_nth: "distinct xs \<Longrightarrow> i < length xs \<Longrightarrow> index_of (xs ! i) xs = Some i"
proof (induction xs arbitrary: i)
  case (Cons x xs)
  then show ?case by (cases i) auto
qed simp

lemma url_alphabet_ok: "distinct url_alphabet \<and> length url_alphabet = 64 \<and> newline \<notin> set url_alphabet \<and> carriage_return \<notin> set url_alphabet"
  by code_simp

lemma index_of_sextet [simp]: "index_of (sextet_char url_alphabet n) url_alphabet = Some (n mod 64)"
  unfolding sextet_char_def using url_alphabet_ok by (intro index_of_nth) simp_all

lemma sextet_char_in: "sextet_char url_alphabet n \<in> set url_alphabet"
  unfolding sextet_char_def using url_alphabet_ok by (intro nth_mem) simp

lemma code_of_bound: "code_of c < 256"
  by (simp add: code_of_def)

lemma byte_of_code [simp]: "byte_of (code_of c) = c"
  by (simp add: byte_of_def code_of_def)

lemma byte_of_mod: "n mod 256 = code_of c \<Longrightarrow> byte_of n = c"
  by (metis byte_of_code byte_of_def char_of_mod_256)

lemma sextets [simp]:
  "n div 64 * 64 + n mod 64 = (n :: nat)"
  "n div 4096 * 64 + n div 64 mod 64 = n div (64 :: nat)"
  "n div 262144 * 64 + n div 4096 mod 64 = n div (4096 :: nat)"
  using div_mult_mod_eq[of "n div 64" 64] div_mult_mod_eq[of "n div 4096" 64] by (simp_all add: div_mult2_eq[symmetric])

lemma two_sextets_encode:
  assumes n: "n = code_of x * 16"
  shows "two_sextets url_alphabet (sextet_char url_alphabet (n div 64)) (sextet_char url_alphabet n) = Some [x]"
proof -
  have "n div 64 mod 64 = n div 64" using code_of_bound[of x] n by (intro mod_less) simp
  then have "(n div 64 mod 64) * 64 + n mod 64 = n" by (simp only: sextets)
  then show ?thesis by (simp add: two_sextets_def) (simp add: n)
qed

lemma three_sextets_encode:
  "three_sextets url_alphabet (sextet_char url_alphabet ((code_of x * 256 + code_of y) * 4 div 4096))
     (sextet_char url_alphabet ((code_of x * 256 + code_of y) * 4 div 64)) (sextet_char url_alphabet ((code_of x * 256 + code_of y) * 4)) = Some [x, y]"
proof -
  let ?n = "(code_of x * 256 + code_of y) * 4"
  have b: "?n < 262144" using code_of_bound[of x] code_of_bound[of y] by simp
  then have "?n div 4096 mod 64 = ?n div 4096" by (intro mod_less) simp
  then have "((?n div 4096 mod 64) * 64 + ?n div 64 mod 64) * 64 + ?n mod 64 = ?n" by (simp only: sextets)
  moreover have "(code_of x * 256 + code_of y) div 256 = code_of x" "(code_of x * 256 + code_of y) mod 256 = code_of y"
    using code_of_bound[of y] by simp_all
  ultimately show ?thesis by (simp add: three_sextets_def Let_def byte_of_mod)
qed

lemma four_sextets_encode:
  fixes x y z defines "n \<equiv> (code_of x * 256 + code_of y) * 256 + code_of z"
  shows "four_sextets url_alphabet (sextet_char url_alphabet (n div 262144)) (sextet_char url_alphabet (n div 4096))
     (sextet_char url_alphabet (n div 64)) (sextet_char url_alphabet n) = Some [x, y, z]"
proof -
  have "n < 16777216" using code_of_bound[of x] code_of_bound[of y] code_of_bound[of z] by (simp add: n_def)
  then have "n div 262144 mod 64 = n div 262144" by (intro mod_less) simp
  then have "(((n div 262144 mod 64) * 64 + n div 4096 mod 64) * 64 + n div 64 mod 64) * 64 + n mod 64 = n" by (simp only: sextets)
  moreover have d: "n div 256 = code_of x * 256 + code_of y" "n mod 256 = code_of z"
    unfolding n_def using code_of_bound[of z] by (simp_all del: add_mult_distrib distrib_right_numeral)
  moreover have "n div 65536 = n div 256 div 256" by (simp add: div_mult2_eq[symmetric])
  moreover have "n div 65536 = code_of x" "n div 256 mod 256 = code_of y"
    using code_of_bound[of y] d(1) \<open>n div 65536 = n div 256 div 256\<close> by simp_all
  ultimately show ?thesis by (simp add: four_sextets_def Let_def byte_of_mod)
qed

lemma decode_raw_encode: "decode_quanta False url_alphabet (raw_encode url_alphabet s) = Some s"
proof (induction url_alphabet s rule: raw_encode.induct)
  case (2 x)
  then show ?case using two_sextets_encode[OF refl, of x] by (simp add: Let_def)
next
  case (3 x y)
  then show ?case using three_sextets_encode[of x y] by (simp add: Let_def)
next
  case (4 x y z r)
  then show ?case using four_sextets_encode[of x y z] by (simp add: Let_def)
qed simp

lemma raw_encode_chars: "set (raw_encode url_alphabet s) \<subseteq> set url_alphabet"
  by (induction url_alphabet s rule: raw_encode.induct) (auto simp: Let_def sextet_char_in)

lemma RawURL_roundtrip [simp]: "RawURL_decode (RawURL_encode s) = Some s"
proof -
  have "filter (\<lambda>c. c \<noteq> newline \<and> c \<noteq> carriage_return) (raw_encode url_alphabet s) = raw_encode url_alphabet s"
    using raw_encode_chars[of s] url_alphabet_ok by (auto simp: filter_id_conv)
  then show ?thesis by (simp add: RawURL_decode_def RawURL_encode_def decode_raw_encode)
qed

end
