(* ===== verification/Pagination.thy ===== *)
theory Pagination
  imports Base64 Types
begin

text \<open>
  Lists of the agent's REST API, from \<open>agent/api/v1/handler.go\<close> and \<open>labels.go\<close>: label filters, the
  opaque page cursors and \<open>paginatedList\<close> with its snapshots, which keep what a client pages through
  fixed while the store changes. A query string is the list of its decoded key-value pairs; the
  random identifier of a new snapshot and the time of a request are arguments; timers are deadlines.
\<close>

section \<open>Label filters\<close>

definition matchLabels :: "labels \<Rightarrow> string list \<Rightarrow> bool" where
  "matchLabels ls filters =
     (if ls = [] then filters = []
      else list_all (\<lambda>f. case cut ''='' f of
             None \<Rightarrow> map_of ls f \<noteq> None
           | Some (k, v) \<Rightarrow> map_of ls k = Some v) filters)"

definition filterByLabels :: "('t \<Rightarrow> labels) \<Rightarrow> 't list \<Rightarrow> string list \<Rightarrow> 't list" where
  "filterByLabels getLabels items filters = filter (\<lambda>x. matchLabels (getLabels x) filters) items"

section \<open>Queries and cursors\<close>

type_synonym url_query = "(string \<times> string) list"

definition QueryParam :: "url_query \<Rightarrow> string \<Rightarrow> string" where
  "QueryParam q k = mget q k"

definition QueryParams :: "url_query \<Rightarrow> string \<Rightarrow> string list" where
  "QueryParams q k = map snd (filter (\<lambda>p. fst p = k) q)"

record pageCursor =
  pc_SnapID :: string
  pc_Offset :: int

definition encodeCursor :: "pageCursor \<Rightarrow> string" where
  "encodeCursor c = RawURL_encode (pc_SnapID c @ '':'' @ show_int (pc_Offset c))"

definition decodeCursor :: "string \<Rightarrow> pageCursor option" where
  "decodeCursor s = (case RawURL_decode s of
       None \<Rightarrow> None
     | Some b \<Rightarrow> (case cut '':'' b of
         None \<Rightarrow> None
       | Some (i, off) \<Rightarrow> (case atoi off of
           Inl e \<Rightarrow> None
         | Inr n \<Rightarrow> Some \<lparr>pc_SnapID = i, pc_Offset = n\<rparr>)))"

section \<open>The snapshots\<close>

record 'i pageSnapshot =
  ps_items :: 'i
  ps_deadline :: int

record 'i pager =
  DefaultPageLimit :: int
  PaginationSnapshotTTL :: int
  PaginationMaxSnapshots :: int
  pageSnapshots :: "(string \<times> 'i pageSnapshot) list"
  snapshotCount :: int

definition paginationSnapshotTTL :: "'i pager \<Rightarrow> int" where
  "paginationSnapshotTTL h = (if PaginationSnapshotTTL h > 0 then PaginationSnapshotTTL h else 30000000000)"

definition paginationMaxSnapshots :: "'i pager \<Rightarrow> int" where
  "paginationMaxSnapshots h = (if PaginationMaxSnapshots h > 0 then PaginationMaxSnapshots h else 100)"

definition deleteSnapshot :: "string \<Rightarrow> 'i pager \<Rightarrow> 'i pager" where
  "deleteSnapshot i h = (case map_of (pageSnapshots h) i of
       None \<Rightarrow> h
     | Some _ \<Rightarrow> h\<lparr>pageSnapshots := AList.delete i (pageSnapshots h), snapshotCount := snapshotCount h - 1\<rparr>)"

text \<open>The timers that have run out at a time.\<close>

definition expire :: "int \<Rightarrow> 'i pager \<Rightarrow> 'i pager" where
  "expire t h = fold deleteSnapshot (map fst (filter (\<lambda>(i, ps). ps_deadline ps \<le> t) (pageSnapshots h))) h"

definition storeSnapshot :: "string \<Rightarrow> 'i \<Rightarrow> int \<Rightarrow> 'i pager \<Rightarrow> 'i pager" where
  "storeSnapshot i x t h = h\<lparr>pageSnapshots := AList.update i \<lparr>ps_items = x, ps_deadline = t + paginationSnapshotTTL h\<rparr> (pageSnapshots h),
     snapshotCount := snapshotCount h + 1\<rparr>"

definition resetTimer :: "string \<Rightarrow> int \<Rightarrow> 'i pager \<Rightarrow> 'i pager" where
  "resetTimer i t h = h\<lparr>pageSnapshots :=
     map (\<lambda>(j, ps). (j, if j = i then ps\<lparr>ps_deadline := t + paginationSnapshotTTL h\<rparr> else ps)) (pageSnapshots h)\<rparr>"

section \<open>Pages\<close>

text \<open>A response: the items, the total and the cursor of the next page; or the panic of slicing with a
  negative offset.\<close>

datatype 'r page_result = PageOK "'r list" int string | PagePanic

definition whole_page :: "('t \<Rightarrow> 'r) \<Rightarrow> 't list \<Rightarrow> 'r page_result" where
  "whole_page mapFn items = PageOK (map mapFn items) (int (length items)) []"

definition serve_page :: "('t \<Rightarrow> 'r) \<Rightarrow> int \<Rightarrow> string \<Rightarrow> 't list \<Rightarrow> int \<Rightarrow> 'r page_result" where
  "serve_page mapFn limit snapID snap offset =
     (let tot = int (length snap) in
      if offset \<ge> tot then PageOK [] tot []
      else if offset < 0 then PagePanic
      else let remaining = drop (nat offset) snap in
           if limit > 0 \<and> int (length remaining) > limit
           then PageOK (map mapFn (take (nat limit) remaining)) tot (encodeCursor \<lparr>pc_SnapID = snapID, pc_Offset = offset + limit\<rparr>)
           else PageOK (map mapFn remaining) tot [])"

text \<open>The snapshot a cursor refers to. The type assertion on the stored items is \<open>proj\<close>.\<close>

definition open_snapshot :: "('i \<Rightarrow> 't list option) \<Rightarrow> string \<Rightarrow> 'i pager \<Rightarrow> ('t list \<times> pageCursor) option" where
  "open_snapshot proj after h = (case decodeCursor after of
       None \<Rightarrow> None
     | Some cur \<Rightarrow> (case map_of (pageSnapshots h) (pc_SnapID cur) of
         None \<Rightarrow> None
       | Some ps \<Rightarrow> map_option (\<lambda>xs. (xs, cur)) (proj (ps_items ps))))"

definition page_limit :: "url_query \<Rightarrow> 'i pager \<Rightarrow> int" where
  "page_limit q h = (let limit = atoi_val (QueryParam q ''limit'') in if limit < 0 then DefaultPageLimit h else limit)"

definition filtered_items :: "('t \<Rightarrow> labels) \<Rightarrow> url_query \<Rightarrow> 't list \<Rightarrow> 't list" where
  "filtered_items getLabels q items =
     (if QueryParams q ''label'' \<noteq> [] then filterByLabels getLabels items (QueryParams q ''label'') else items)"

definition paginatedList ::
  "('t list \<Rightarrow> 'i) \<Rightarrow> ('i \<Rightarrow> 't list option) \<Rightarrow> ('t \<Rightarrow> labels) \<Rightarrow> ('t \<Rightarrow> 'r) \<Rightarrow> string \<Rightarrow> int \<Rightarrow> url_query \<Rightarrow> 't list \<Rightarrow> 'i pager \<Rightarrow>
   'r page_result \<times> 'i pager" where
  "paginatedList emb proj getLabels mapFn newID t q items0 h =
     (let after = QueryParam q ''after'';
          limit = page_limit q h;
          items = filtered_items getLabels q items0
      in if limit \<le> 0 \<and> after = [] then (whole_page mapFn items, h)
         else (case open_snapshot proj after h of
             Some (snap, cur) \<Rightarrow> (serve_page mapFn limit (pc_SnapID cur) snap (pc_Offset cur), resetTimer (pc_SnapID cur) t h)
           | None \<Rightarrow>
               if limit \<le> 0 \<or> int (length items) \<le> limit then (whole_page mapFn items, h)
               else if snapshotCount h \<ge> paginationMaxSnapshots h then (whole_page mapFn items, h)
               else (serve_page mapFn limit newID items 0, storeSnapshot newID (emb items) t h)))"

section \<open>Lemmas\<close>

lemma decode_encode_cursor:
  assumes "CHR '':'' \<notin> set (pc_SnapID c)" "\<bar>pc_Offset c\<bar> < 2 ^ 63"
  shows "decodeCursor (encodeCursor c) = Some c"
  using cut_single_append[OF assms(1)] atoi_show[of "pc_Offset c"] assms(2) by (simp add: decodeCursor_def encodeCursor_def abs_less_iff)

text \<open>The bookkeeping of the snapshots: the counter is exact and bounded.\<close>

definition pager_inv :: "'i pager \<Rightarrow> bool" where
  "pager_inv h \<longleftrightarrow> keys_distinct (pageSnapshots h) \<and> snapshotCount h = int (length (pageSnapshots h)) \<and>
     snapshotCount h \<le> paginationMaxSnapshots h"

definition snap_of :: "'i pager \<Rightarrow> string \<Rightarrow> 'i option" where
  "snap_of h i = map_option ps_items (map_of (pageSnapshots h) i)"

lemma map_snapshots_keys: "map_of (map (\<lambda>(j, ps). (j, f j ps)) xs) i = map_option (f i) (map_of xs i)"
  by (induction xs) auto

lemma snap_of_reset [simp]: "snap_of (resetTimer i t h) j = snap_of h j"
  by (cases "map_of (pageSnapshots h) j")
    (simp_all add: snap_of_def resetTimer_def map_snapshots_keys[where f = "\<lambda>j ps. if j = i then ps\<lparr>ps_deadline := t + paginationSnapshotTTL h\<rparr> else ps"])

lemma snap_of_store [simp]: "snap_of (storeSnapshot i x t h) j = (if j = i then Some x else snap_of h j)"
  by (simp add: snap_of_def storeSnapshot_def update_conv)

lemma limits_kept [simp]:
  "paginationMaxSnapshots (resetTimer i t h) = paginationMaxSnapshots h"
  "paginationMaxSnapshots (storeSnapshot i x t h) = paginationMaxSnapshots h"
  "paginationMaxSnapshots (deleteSnapshot i h) = paginationMaxSnapshots h"
  by (simp_all add: paginationMaxSnapshots_def resetTimer_def storeSnapshot_def deleteSnapshot_def split: option.split)

lemma length_delete: "distinct (map fst xs) \<Longrightarrow> map_of xs k = Some v \<Longrightarrow> length xs = Suc (length (AList.delete k xs))"
proof (induction xs)
  case (Cons x xs)
  have "AList.delete k xs = xs" if "k \<notin> fst ` set xs" using that by (simp add: delete_id)
  then show ?case using Cons by (auto simp: AList.delete_eq split: if_splits)
qed simp

lemma deleteSnapshot_inv: "pager_inv h \<Longrightarrow> pager_inv (deleteSnapshot i h)"
  using length_delete[of "pageSnapshots h" i]
  by (auto simp: pager_inv_def keys_distinct_def deleteSnapshot_def distinct_delete paginationMaxSnapshots_def split: option.split)

lemma expire_inv: "pager_inv h \<Longrightarrow> pager_inv (expire t h)"
proof -
  have "pager_inv h \<Longrightarrow> pager_inv (fold deleteSnapshot is h)" for "is"
    by (induction "is" arbitrary: h) (simp_all add: deleteSnapshot_inv)
  then show "pager_inv h \<Longrightarrow> pager_inv (expire t h)" by (simp add: expire_def)
qed

lemma resetTimer_inv: "pager_inv h \<Longrightarrow> pager_inv (resetTimer i t h)"
  by (simp add: pager_inv_def) (auto simp: resetTimer_def keys_distinct_def comp_def case_prod_unfold)

lemma update_fresh: "map_of xs k = None \<Longrightarrow> AList.update k v xs = xs @ [(k, v)]"
  by (induction xs) auto

lemma storeSnapshot_inv:
  "pager_inv h \<Longrightarrow> snap_of h i = None \<Longrightarrow> snapshotCount h < paginationMaxSnapshots h \<Longrightarrow> pager_inv (storeSnapshot i x t h)"
  by (simp add: pager_inv_def) (auto simp: storeSnapshot_def keys_distinct_def snap_of_def update_fresh map_of_eq_None_iff image_iff)

lemma paginatedList_inv:
  assumes "pager_inv h" "snap_of h newID = None"
  shows "pager_inv (snd (paginatedList emb proj getLabels mapFn newID t q items h))"
  using assms by (auto simp: paginatedList_def Let_def resetTimer_inv storeSnapshot_inv split: option.split)

section \<open>Following the cursors\<close>

lemma serve_page_end: "0 \<le> off \<Longrightarrow> limit > 0 \<Longrightarrow> int (length xs) \<le> off + limit \<Longrightarrow>
    serve_page f limit i xs off = PageOK (map f (drop (nat off) xs)) (int (length xs)) []"
  by (auto simp: serve_page_def Let_def)

lemma serve_page_more: "0 \<le> off \<Longrightarrow> limit > 0 \<Longrightarrow> off + limit < int (length xs) \<Longrightarrow>
    serve_page f limit i xs off = PageOK (map f (take (nat limit) (drop (nat off) xs))) (int (length xs))
      (encodeCursor \<lparr>pc_SnapID = i, pc_Offset = off + limit\<rparr>)"
  by (auto simp: serve_page_def Let_def)

lemma RawURL_encode_nonempty: "s \<noteq> [] \<Longrightarrow> RawURL_encode s \<noteq> []"
  by (cases "(url_alphabet, s)" rule: raw_encode.cases) (simp_all add: Let_def RawURL_encode_def)

lemma encodeCursor_nonempty: "encodeCursor c \<noteq> []"
  unfolding encodeCursor_def by (rule RawURL_encode_nonempty) simp

text \<open>The contract of the type assertion on stored items: what was stored as a slice of a type is read
  back as such a slice.\<close>

locale page_items =
  fixes emb :: "'t list \<Rightarrow> 'i" and proj :: "'i \<Rightarrow> 't list option"
  assumes proj_emb: "proj (emb xs) = Some xs"
begin

lemma first_page:
  assumes "QueryParam q ''after'' = []" "page_limit q h = limit" "0 < limit"
    "limit < int (length (filtered_items getLabels q items))" "snapshotCount h < paginationMaxSnapshots h"
  shows "paginatedList emb proj getLabels f newID t q items h =
    (serve_page f limit newID (filtered_items getLabels q items) 0, storeSnapshot newID (emb (filtered_items getLabels q items)) t h)"
proof -
  have "decodeCursor [] = None" by code_simp
  then show ?thesis using assms by (simp add: paginatedList_def open_snapshot_def Let_def)
qed

lemma next_page:
  assumes "QueryParam q ''after'' = encodeCursor c" "page_limit q h = limit" "0 < limit"
    "decodeCursor (encodeCursor c) = Some c" "snap_of h (pc_SnapID c) = Some (emb xs)"
  shows "paginatedList emb proj getLabels f newID t q items h =
    (serve_page f limit (pc_SnapID c) xs (pc_Offset c), resetTimer (pc_SnapID c) t h)"
  using assms by (auto simp: paginatedList_def open_snapshot_def Let_def snap_of_def proj_emb)

lemma single_page:
  assumes "QueryParam q ''after'' = []" "page_limit q h \<le> 0 \<or> int (length (filtered_items getLabels q items)) \<le> page_limit q h"
  shows "paginatedList emb proj getLabels f newID t q items h = (whole_page f (filtered_items getLabels q items), h)"
proof -
  have "decodeCursor [] = None" by code_simp
  then show ?thesis using assms by (auto simp: paginatedList_def open_snapshot_def Let_def)
qed

end

section \<open>Properties\<close>

text \<open>A page cursor decodes to what was encoded, for every snapshot identifier without a colon and
  every offset.\<close>

lemma cursor_roundtrip:
  assumes "CHR '':'' \<notin> set i" "- (2 ^ 63) < n" "n < 2 ^ 63"
  shows "decodeCursor (encodeCursor \<lparr>pc_SnapID = i, pc_Offset = n\<rparr>) = Some \<lparr>pc_SnapID = i, pc_Offset = n\<rparr>"
  using assms by (intro decode_encode_cursor) auto

lemma cursor_roundtrip_witness:
  "decodeCursor (encodeCursor \<lparr>pc_SnapID = ''00ff'', pc_Offset = 250\<rparr>) = Some \<lparr>pc_SnapID = ''00ff'', pc_Offset = 250\<rparr>"
  by (rule cursor_roundtrip) simp_all

end
