(* ===== verification/Stats.thy ===== *)
theory Stats
  imports Volumes BtrfsParse Demo
begin

text \<open>
  The device statistics of \<open>agent/storage/stats.go\<close>. Two pollers share one cached list of devices:
  the I/O poller renews the devices and their I/O counters and keeps the error counters, the stats
  poller renews the error counters and keeps the rest. Each loads the list, merges and stores it.
  The link resolution and the sysfs files are arguments; the gauges are in \<open>Metrics\<close>, the timers in \<open>Workers\<close>.
\<close>

section \<open>Data\<close>

record DeviceIOStats =
  io_ReadIOs :: u64
  io_ReadBytes :: u64
  io_ReadTimeMs :: u64
  io_WriteIOs :: u64
  io_WriteBytes :: u64
  io_WriteTimeMs :: u64
  io_IOsInProgress :: u64
  io_IOTimeMs :: u64
  io_WeightedIOTimeMs :: u64

text \<open>The embedded struct of the code is an extension of its record.\<close>

record DeviceState = BTRFSDevice +
  ds_IO :: DeviceIOStats

record 'f DeviceStats =
  dst_Devices :: "DeviceState list"
  dst_Filesystem :: "'f FilesystemUsage"

text \<open>The two atomic pointers of \<open>Storage\<close>; \<open>None\<close> is the null pointer.\<close>

record 'f dev_cache =
  cachedDevices :: "DeviceState list option"
  cachedFilesystem :: "'f FilesystemUsage option"

definition no_io :: DeviceIOStats where
  "no_io = \<lparr>io_ReadIOs = 0, io_ReadBytes = 0, io_ReadTimeMs = 0, io_WriteIOs = 0, io_WriteBytes = 0, io_WriteTimeMs = 0,
     io_IOsInProgress = 0, io_IOTimeMs = 0, io_WeightedIOTimeMs = 0\<rparr>"

section \<open>The sysfs counters\<close>

definition sectorSize :: u64 where "sectorSize = 512"

fun parse_values :: "string list \<Rightarrow> u64 list option" where
  "parse_values [] = Some []"
| "parse_values (f # fs) = (case parse_u64 f of
       None \<Rightarrow> None
     | Some v \<Rightarrow> (case parse_values fs of None \<Rightarrow> None | Some vs \<Rightarrow> Some (v # vs)))"

definition parseDeviceIOStats :: "string \<Rightarrow> string + DeviceIOStats" where
  "parseDeviceIOStats data =
     (let fs = str_fields (trim_space data) in
      if length fs < 11 then Inl ''expected at least 11 fields in sysfs stat''
      else (case parse_values (take 11 fs) of
              None \<Rightarrow> Inl ''parse field''
            | Some vals \<Rightarrow> Inr \<lparr>io_ReadIOs = vals ! 0, io_ReadBytes = vals ! 2 * sectorSize, io_ReadTimeMs = vals ! 3,
                io_WriteIOs = vals ! 4, io_WriteBytes = vals ! 6 * sectorSize, io_WriteTimeMs = vals ! 7,
                io_IOsInProgress = vals ! 8, io_IOTimeMs = vals ! 9, io_WeightedIOTimeMs = vals ! 10\<rparr>))"

text \<open>\<open>filepath.Base\<close>.\<close>

definition filepath_base :: "string \<Rightarrow> string" where
  "filepath_base p =
     (if p = [] then ''.''
      else let q = rev (dropWhile ((=) CHR ''/'') (rev p)) in
           if q = [] then ''/'' else rev (takeWhile ((\<noteq>) CHR ''/'') (rev q)))"

record sysfs =
  evalSymlinks :: "string \<Rightarrow> string option"
  sysfs_file :: "string \<Rightarrow> string option"

definition readDeviceIOStats :: "sysfs \<Rightarrow> string \<Rightarrow> string + DeviceIOStats" where
  "readDeviceIOStats sf device =
     (let resolved = (case evalSymlinks sf device of Some r \<Rightarrow> r | None \<Rightarrow> device) in
      (case sysfs_file sf (filepath_join [''/sys/block'', filepath_base resolved, ''stat'']) of
         None \<Rightarrow> Inl ''read sysfs stat''
       | Some data \<Rightarrow> parseDeviceIOStats data))"

section \<open>The pollers\<close>

text \<open>A map filled by a loop: a later entry replaces an earlier one with its key.\<close>

definition last_by :: "('a \<Rightarrow> 'k) \<Rightarrow> 'a list \<Rightarrow> 'k \<Rightarrow> 'a option" where
  "last_by f xs k = find (\<lambda>x. f x = k) (rev xs)"

definition device_io :: "sysfs \<Rightarrow> BTRFSDevice \<Rightarrow> DeviceIOStats option" where
  "device_io sf d = (if bd_Missing d then None
     else case readDeviceIOStats sf (bd_Device d) of Inl e \<Rightarrow> None | Inr io \<Rightarrow> Some io)"

definition io_by_device :: "sysfs \<Rightarrow> BTRFSDevice list \<Rightarrow> string \<Rightarrow> DeviceIOStats option" where
  "io_by_device sf ds dev =
     map_option (\<lambda>d. the (device_io sf d)) (last_by bd_Device (filter (\<lambda>d. device_io sf d \<noteq> None) ds) dev)"

text \<open>The second step of \<open>updateDeviceIO\<close>: the new list from the devices and the list it loaded.\<close>

definition merge_io :: "sysfs \<Rightarrow> BTRFSDevice list \<Rightarrow> DeviceState list option \<Rightarrow> DeviceState list" where
  "merge_io sf ds prev =
     map (\<lambda>d. BTRFSDevice.extend
        (d\<lparr>bd_Errors := (case last_by bd_DevID (case prev of None \<Rightarrow> [] | Some ps \<Rightarrow> ps) (bd_DevID d) of
                            None \<Rightarrow> no_errors [] | Some p \<Rightarrow> bd_Errors p)\<rparr>)
        (DeviceState.fields (case io_by_device sf ds (bd_Device d) of None \<Rightarrow> no_io | Some io \<Rightarrow> io))) ds"

definition updateDeviceIO :: "sysfs \<Rightarrow> storage \<Rightarrow> world \<times> 'f dev_cache \<Rightarrow> world \<times> 'f dev_cache" where
  "updateDeviceIO sf s wc = (case wc of (w, c) \<Rightarrow>
     (case Devices (st_btrfs s) (st_mountPoint s) w of
        (Inl e, w1) \<Rightarrow> (w1, c)
      | (Inr ds, w1) \<Rightarrow> (w1, c\<lparr>cachedDevices := Some (merge_io sf ds (cachedDevices c))\<rparr>)))"

text \<open>The second step of \<open>updateBtrfsStats\<close> on the list it loaded.\<close>

definition merge_errors :: "DeviceErrors list \<Rightarrow> DeviceState list \<Rightarrow> DeviceState list" where
  "merge_errors errs prev =
     map (\<lambda>d. d\<lparr>bd_Errors := (case last_by de_Device errs (bd_Device d) of None \<Rightarrow> no_errors [] | Some e \<Rightarrow> e)\<rparr>) prev"

definition updateBtrfsStats :: "(string \<Rightarrow> 'f option) \<Rightarrow> 'f \<Rightarrow> storage \<Rightarrow> world \<times> 'f dev_cache \<Rightarrow> world \<times> 'f dev_cache" where
  "updateBtrfsStats parseFloat zero s wc = (case wc of (w, c) \<Rightarrow>
     (case DeviceErrorsOf (st_btrfs s) (st_basePath s) w of (errs, w1) \<Rightarrow>
     (case FilesystemUsageOf parseFloat zero (st_btrfs s) (st_mountPoint s) w1 of (fu, w2) \<Rightarrow>
        let c1 = (case errs of
                    Inl e \<Rightarrow> c
                  | Inr es \<Rightarrow> c\<lparr>cachedDevices := map_option (merge_errors es) (cachedDevices c)\<rparr>);
            c2 = (case fu of Inl e \<Rightarrow> c1 | Inr u \<Rightarrow> c1\<lparr>cachedFilesystem := Some u\<rparr>)
        in (w2, c2))))"

definition IsDegraded :: "'f dev_cache \<Rightarrow> bool" where
  "IsDegraded c = (case cachedDevices c of
       None \<Rightarrow> False
     | Some ds \<Rightarrow> list_ex (\<lambda>d. bd_Missing d \<or> HasErrors (BTRFSDevice.truncate d)) ds)"

definition empty_usage :: "'f \<Rightarrow> 'f FilesystemUsage" where
  "empty_usage zero = \<lparr>fu_TotalBytes = 0, fu_UnallocatedBytes = 0, fu_UsedBytes = 0, fu_FreeBytes = 0, fu_DataRatio = zero,
     fu_MetadataUsedBytes = 0, fu_MetadataTotalBytes = 0\<rparr>"

definition DeviceStatsOf :: "'f \<Rightarrow> 'f dev_cache \<Rightarrow> error + 'f DeviceStats" where
  "DeviceStatsOf zero c = (case cachedDevices c of
       None \<Rightarrow> Inl (WrappedError ''device stats not yet available'')
     | Some ds \<Rightarrow> Inr \<lparr>dst_Devices = ds,
         dst_Filesystem = (case cachedFilesystem c of None \<Rightarrow> empty_usage zero | Some u \<Rightarrow> u)\<rparr>)"

section \<open>Lemmas\<close>

lemma last_by_sound: "last_by f xs k = Some x \<Longrightarrow> x \<in> set xs \<and> f x = k"
  using find_Some_iff[of "\<lambda>x. f x = k" "rev xs" x] by (auto simp: last_by_def) (metis length_rev nth_mem set_rev)

lemma last_by_None: "last_by f xs k = None \<longleftrightarrow> k \<notin> f ` set xs"
  by (auto simp: last_by_def find_None_iff)

lemma merge_io_simps [simp]:
  "map bd_DevID (merge_io sf ds prev) = map bd_DevID ds"
  "map bd_Device (merge_io sf ds prev) = map bd_Device ds"
  "map bd_Missing (merge_io sf ds prev) = map bd_Missing ds"
  by (simp_all add: merge_io_def BTRFSDevice.defs DeviceState.defs comp_def)

lemma merge_errors_simps [simp]:
  "map bd_DevID (merge_errors es ds) = map bd_DevID ds"
  "map bd_Device (merge_errors es ds) = map bd_Device ds"
  "map bd_Missing (merge_errors es ds) = map bd_Missing ds"
  "map ds_IO (merge_errors es ds) = map ds_IO ds"
  by (simp_all add: merge_errors_def comp_def)

lemma last_by_unique: "distinct (map f xs) \<Longrightarrow> x \<in> set xs \<Longrightarrow> last_by f xs (f x) = Some x"
proof (cases "last_by f xs (f x)")
  case None
  assume "x \<in> set xs"
  then show ?thesis using None last_by_None[of f xs "f x"] by blast
next
  case (Some y)
  assume d: "distinct (map f xs)" and x: "x \<in> set xs"
  have "y \<in> set xs" "f y = f x" using last_by_sound[OF Some] by simp_all
  then have "y = x" using d x by (simp add: distinct_map inj_on_def)
  then show ?thesis using Some by simp
qed

text \<open>What the error counters of one device say.\<close>

definition counted :: "DeviceErrors \<Rightarrow> bool" where
  "counted e \<longleftrightarrow> (\<exists>get \<in> {de_ReadErrs, de_WriteErrs, de_FlushErrs, de_CorruptionErrs, de_GenerationErrs}. get e \<noteq> 0)"

lemma HasErrors_counted: "HasErrors (BTRFSDevice.truncate d) \<longleftrightarrow> counted (bd_Errors d)"
  by (simp add: HasErrors_def counted_def BTRFSDevice.defs word_neq_0_conv Let_def)

definition state_errors :: "DeviceState list \<Rightarrow> (string \<times> DeviceErrors) list" where
  "state_errors ds = map (\<lambda>d. (bd_DevID d, bd_Errors d)) ds"

text \<open>An I/O poll that finds the devices the cache has keeps their error counters.\<close>

lemma merge_io_keeps:
  assumes "distinct (map bd_DevID ds)" "map bd_DevID ps = map bd_DevID ds"
  shows "state_errors (merge_io sf ds (Some ps)) = state_errors ps"
proof (rule nth_equalityI)
  have l: "length ps = length ds" using assms(2) by (metis length_map)
  then show "length (state_errors (merge_io sf ds (Some ps))) = length (state_errors ps)"
    by (simp add: state_errors_def merge_io_def)
  fix i assume "i < length (state_errors (merge_io sf ds (Some ps)))"
  then have i: "i < length ds" by (simp add: state_errors_def merge_io_def)
  have e: "bd_DevID (ps ! i) = bd_DevID (ds ! i)" using assms(2) i l by (metis nth_map)
  have "last_by bd_DevID ps (bd_DevID (ps ! i)) = Some (ps ! i)" using assms i l by (intro last_by_unique) auto
  then show "state_errors (merge_io sf ds (Some ps)) ! i = state_errors ps ! i"
    using i l e by (simp add: state_errors_def merge_io_def BTRFSDevice.defs DeviceState.defs)
qed

definition same_devices :: "BTRFSDevice list \<Rightarrow> 'f dev_cache \<Rightarrow> DeviceState list \<Rightarrow> bool" where
  "same_devices ds c ps \<longleftrightarrow> (\<exists>qs. cachedDevices c = Some qs \<and> map bd_DevID qs = map bd_DevID ds \<and>
     map bd_Missing qs = map bd_Missing ds \<and> state_errors qs = state_errors ps)"

lemma io_polls_keep:
  assumes d: "Devices (st_btrfs s) (st_mountPoint s) w = (Inr ds, w)" "distinct (map bd_DevID ds)" and c: "same_devices ds c ps"
  shows "\<exists>c'. (updateDeviceIO sf s ^^ n) (w, c) = (w, c') \<and> same_devices ds c' ps"
proof (induction n)
  case (Suc n)
  then obtain c' where c': "(updateDeviceIO sf s ^^ n) (w, c) = (w, c')" "same_devices ds c' ps" by blast
  then have "same_devices ds (c'\<lparr>cachedDevices := Some (merge_io sf ds (cachedDevices c'))\<rparr>) ps"
    using merge_io_keeps[OF d(2)] by (fastforce simp: same_devices_def)
  moreover have "updateDeviceIO sf s (w, c') = (w, c'\<lparr>cachedDevices := Some (merge_io sf ds (cachedDevices c'))\<rparr>)"
    using d(1) by (simp add: updateDeviceIO_def)
  ultimately show ?case using c'(1) by simp
qed (use c in simp)

lemma same_devices_degraded:
  assumes "same_devices ds c ps"
  shows "IsDegraded c \<longleftrightarrow> (\<exists>d \<in> set ds. bd_Missing d) \<or> (\<exists>p \<in> set ps. counted (bd_Errors p))"
proof -
  obtain qs where q: "cachedDevices c = Some qs" "map bd_Missing qs = map bd_Missing ds" "state_errors qs = state_errors ps"
    using assms by (auto simp: same_devices_def)
  have "(\<exists>x \<in> set qs. bd_Missing x) \<longleftrightarrow> True \<in> set (map bd_Missing qs)" by force
  also have "\<dots> \<longleftrightarrow> (\<exists>d \<in> set ds. bd_Missing d)" using q(2) by force
  finally have m: "(\<exists>x \<in> set qs. bd_Missing x) \<longleftrightarrow> (\<exists>d \<in> set ds. bd_Missing d)" .
  have "(\<exists>x \<in> set qs. counted (bd_Errors x)) \<longleftrightarrow> (\<exists>x \<in> set (state_errors qs). counted (snd x))" by (simp add: state_errors_def)
  also have "\<dots> \<longleftrightarrow> (\<exists>p \<in> set ps. counted (bd_Errors p))" unfolding q(3) by (simp add: state_errors_def)
  finally show ?thesis using m q(1) by (auto simp: IsDegraded_def list_ex_iff HasErrors_counted)
qed

section \<open>Properties\<close>


text \<open>A file system of two devices, one of which has read errors.\<close>

definition stats_out :: "string list \<Rightarrow> string" where
  "stats_out args =
     (if take 2 args = [''filesystem'', ''show''] then
        ''devid 1 size 100 used 40 path /dev/sda'' @ [newline] @ ''devid 2 size 100 used 40 path /dev/sdb''
      else if take 2 args = [''device'', ''stats''] then
        ''[/dev/sda].read_io_errs 0'' @ [newline] @ ''[/dev/sdb].read_io_errs 3''
      else [])"

definition stats_storage :: storage where
  "stats_storage = demo_storage\<lparr>st_btrfs := \<lparr>bin = ''btrfs'', cmd = \<lambda>b args w. ((stats_out args, None), w)\<rparr>\<rparr>"

definition stats_sysfs :: sysfs where
  "stats_sysfs = \<lparr>evalSymlinks = \<lambda>_. None, sysfs_file = \<lambda>_. Some ''1 0 2 3 4 0 6 7 8 9 10 0 0''\<rparr>"

definition empty_cache :: "unit dev_cache" where
  "empty_cache = \<lparr>cachedDevices = None, cachedFilesystem = None\<rparr>"

definition found_devices :: "BTRFSDevice list" where
  "found_devices = (case parseDevices (stats_out [''filesystem'', ''show'']) of Inr ds \<Rightarrow> ds | Inl _ \<Rightarrow> [])"

definition found_errors :: "DeviceErrors list" where
  "found_errors = (case parseDeviceErrors (stats_out [''device'', ''stats'']) of Inr es \<Rightarrow> es | Inl _ \<Rightarrow> [])"


text \<open>The two pollers are not atomic: when the stats poller stores its list between the load and the
  store of the I/O poller, the error counters it found are lost, and the agent reports a healthy file
  system until the next stats poll.\<close>

lemma pollers_lost_update:
  "let loaded = Some (merge_io stats_sysfs found_devices None);
       stored = map_option (merge_errors found_errors) loaded;
       late = Some (merge_io stats_sysfs found_devices loaded)
   in IsDegraded (empty_cache\<lparr>cachedDevices := stored\<rparr>) \<and> \<not> IsDegraded (empty_cache\<lparr>cachedDevices := late\<rparr>)"
  by code_simp

end
