(* ===== verification/ApiModels.thy ===== *)
theory ApiModels
  imports Pagination Start Scrub Stats
begin

text \<open>
  The wire types of \<open>agent/api/v1/models/models.go\<close> and the functions of \<open>agent/api/v1\<close> that fill them
  from the metadata. The eight list responses of the code differ in the type of their items only and
  are one polymorphic record. A response body is typed; its JSON text is not modelled.
\<close>

section \<open>Responses\<close>

record VolumeResponse =
  vr_Name :: string
  vr_CreatedBy :: string
  vr_SizeBytes :: u64
  vr_UsedBytes :: u64
  vr_Exports :: int
  vr_CreatedAt :: int

record ExportResponse =
  er_Name :: string
  er_CreatedBy :: string
  er_Client :: string
  er_CreatedAt :: int

record ExportDetailResponse =
  ed_Name :: string
  ed_CreatedBy :: string
  ed_Client :: string
  ed_Labels :: labels
  ed_CreatedAt :: int

record VolumeDetailResponse =
  vd_Name :: string
  vd_CreatedBy :: string
  vd_Path :: string
  vd_SizeBytes :: u64
  vd_NoCOW :: bool
  vd_Compression :: string
  vd_QuotaBytes :: u64
  vd_UsedBytes :: u64
  vd_UID :: int
  vd_GID :: int
  vd_Mode :: string
  vd_Labels :: labels
  vd_Exports :: "ExportDetailResponse list"
  vd_CreatedAt :: int
  vd_UpdatedAt :: int
  vd_LastAttachAt :: "int option"

record SnapshotResponse =
  sr_Name :: string
  sr_CreatedBy :: string
  sr_Volume :: string
  sr_SizeBytes :: u64
  sr_UsedBytes :: u64
  sr_CreatedAt :: int

record SnapshotDetailResponse =
  sd_Name :: string
  sd_CreatedBy :: string
  sd_Volume :: string
  sd_Path :: string
  sd_SizeBytes :: u64
  sd_UsedBytes :: u64
  sd_ExclusiveBytes :: u64
  sd_QuotaBytes :: u64
  sd_NoCOW :: bool
  sd_Compression :: string
  sd_UID :: int
  sd_GID :: int
  sd_Mode :: string
  sd_Labels :: labels
  sd_CreatedAt :: int
  sd_UpdatedAt :: int

record TaskResponse =
  tr_ID :: string
  tr_Type :: string
  tr_CreatedBy :: string
  tr_Status :: string
  tr_Progress :: int
  tr_Opts :: labels
  tr_Timeout :: string
  tr_Error :: string
  tr_CreatedAt :: int
  tr_StartedAt :: "int option"
  tr_CompletedAt :: "int option"

record TaskDetailResponse =
  td_ID :: string
  td_Type :: string
  td_CreatedBy :: string
  td_Status :: string
  td_Progress :: int
  td_Opts :: labels
  td_Labels :: labels
  td_Timeout :: string
  td_Result :: "json option"
  td_Error :: string
  td_CreatedAt :: int
  td_StartedAt :: "int option"
  td_CompletedAt :: "int option"

record TaskCreateResponse =
  tc_TaskID :: string
  tc_Status :: string

record StatfsResponse =
  sf_TotalBytes :: u64
  sf_UsedBytes :: u64
  sf_FreeBytes :: u64

record DeviceIOStatsResponse =
  ir_ReadBytesTotal :: u64
  ir_ReadIOsTotal :: u64
  ir_ReadTimeMsTotal :: u64
  ir_WriteBytesTotal :: u64
  ir_WriteIOsTotal :: u64
  ir_WriteTimeMsTotal :: u64
  ir_IOsInProgress :: u64
  ir_IOTimeMsTotal :: u64
  ir_WeightedIOTimeMsTotal :: u64

record DeviceErrorsResponse =
  de_ReadErrsR :: u64
  de_WriteErrsR :: u64
  de_FlushErrsR :: u64
  de_CorruptionErrsR :: u64
  de_GenerationErrsR :: u64

record DeviceStatsResponse =
  dr_DevID :: string
  dr_Device :: string
  dr_Missing :: bool
  dr_SizeBytes :: u64
  dr_AllocatedBytes :: u64
  dr_IO :: DeviceIOStatsResponse
  dr_Errors :: DeviceErrorsResponse

record 'f FilesystemStatsResponse =
  fr_TotalBytes :: u64
  fr_UsedBytes :: u64
  fr_FreeBytes :: u64
  fr_UnallocatedBytes :: u64
  fr_MetadataUsedBytes :: u64
  fr_MetadataTotalBytes :: u64
  fr_DataRatio :: 'f
  fr_Devices :: "DeviceStatsResponse list"

record 'f StatsResponse =
  st_TenantName :: string
  st_Statfs :: StatfsResponse
  st_Btrfs :: "'f FilesystemStatsResponse"

record HealthResponse =
  hr_Status :: string
  hr_Version :: string
  hr_Commit :: string
  hr_UptimeSeconds :: int

record ErrorResponse =
  err_Error :: string
  err_Code :: "err_code"

record 'a ListResponse =
  lr_Items :: "'a list"
  lr_Total :: int
  lr_Next :: string

datatype 'f body =
    NoContent
  | BError ErrorResponse
  | BVolume VolumeDetailResponse
  | BVolumes "VolumeResponse ListResponse"
  | BVolumeDetails "VolumeDetailResponse ListResponse"
  | BSnapshot SnapshotDetailResponse
  | BSnapshots "SnapshotResponse ListResponse"
  | BSnapshotDetails "SnapshotDetailResponse ListResponse"
  | BExports "ExportResponse ListResponse"
  | BExportDetails "ExportDetailResponse ListResponse"
  | BTask TaskDetailResponse
  | BTaskCreated TaskCreateResponse
  | BTasks "TaskResponse ListResponse"
  | BTaskDetails "TaskDetailResponse ListResponse"
  | BStats "'f StatsResponse"
  | BHealth HealthResponse

record VolumeExportRequest =
  xr_Client :: string
  xr_Labels :: "labels option"

record TaskCreateRequest =
  tq_Timeout :: string
  tq_Opts :: labels
  tq_Labels :: labels

section \<open>Filling the responses\<close>

definition created_by :: "labels \<Rightarrow> string" where "created_by ls = mget ls LabelCreatedBy"

definition volumeResponseFrom :: "VolumeMetadata \<Rightarrow> VolumeResponse" where
  "volumeResponseFrom m = \<lparr>vr_Name = vm_Name m, vr_CreatedBy = created_by (vm_Labels m), vr_SizeBytes = vm_SizeBytes m,
     vr_UsedBytes = vm_UsedBytes m, vr_Exports = int (CountUniqueExportIPs (vm_Exports m)), vr_CreatedAt = vm_CreatedAt m\<rparr>"

text \<open>The exports inside a volume carry no \<open>created_by\<close>.\<close>

definition volumeDetailResponseFrom :: "VolumeMetadata \<Rightarrow> VolumeDetailResponse" where
  "volumeDetailResponseFrom m = \<lparr>vd_Name = vm_Name m, vd_CreatedBy = created_by (vm_Labels m), vd_Path = vm_Path m,
     vd_SizeBytes = vm_SizeBytes m, vd_NoCOW = vm_NoCOW m, vd_Compression = vm_Compression m, vd_QuotaBytes = vm_QuotaBytes m,
     vd_UsedBytes = vm_UsedBytes m, vd_UID = vm_UID m, vd_GID = vm_GID m, vd_Mode = vm_Mode m, vd_Labels = vm_Labels m,
     vd_Exports = map (\<lambda>e. \<lparr>ed_Name = vm_Name m, ed_CreatedBy = [], ed_Client = ex_IP e, ed_Labels = ex_Labels e,
       ed_CreatedAt = ex_CreatedAt e\<rparr>) (vm_Exports m),
     vd_CreatedAt = vm_CreatedAt m, vd_UpdatedAt = vm_UpdatedAt m, vd_LastAttachAt = vm_LastAttachAt m\<rparr>"

definition snapshotResponseFrom :: "SnapshotMetadata \<Rightarrow> SnapshotResponse" where
  "snapshotResponseFrom m = \<lparr>sr_Name = sm_Name m, sr_CreatedBy = created_by (sm_Labels m), sr_Volume = sm_Volume m,
     sr_SizeBytes = sm_SizeBytes m, sr_UsedBytes = sm_UsedBytes m, sr_CreatedAt = sm_CreatedAt m\<rparr>"

definition snapshotDetailResponseFrom :: "SnapshotMetadata \<Rightarrow> SnapshotDetailResponse" where
  "snapshotDetailResponseFrom m = \<lparr>sd_Name = sm_Name m, sd_CreatedBy = created_by (sm_Labels m), sd_Volume = sm_Volume m,
     sd_Path = sm_Path m, sd_SizeBytes = sm_SizeBytes m, sd_UsedBytes = sm_UsedBytes m, sd_ExclusiveBytes = sm_ExclusiveBytes m,
     sd_QuotaBytes = sm_QuotaBytes m, sd_NoCOW = sm_NoCOW m, sd_Compression = sm_Compression m, sd_UID = sm_UID m,
     sd_GID = sm_GID m, sd_Mode = sm_Mode m, sd_Labels = sm_Labels m, sd_CreatedAt = sm_CreatedAt m, sd_UpdatedAt = sm_UpdatedAt m\<rparr>"

definition exportResponseFrom :: "ExportEntry \<Rightarrow> ExportResponse" where
  "exportResponseFrom e = \<lparr>er_Name = ee_Name e, er_CreatedBy = created_by (ee_Labels e), er_Client = ee_Client e,
     er_CreatedAt = ee_CreatedAt e\<rparr>"

definition exportDetailResponseFrom :: "ExportEntry \<Rightarrow> ExportDetailResponse" where
  "exportDetailResponseFrom e = \<lparr>ed_Name = ee_Name e, ed_CreatedBy = created_by (ee_Labels e), ed_Client = ee_Client e,
     ed_Labels = ee_Labels e, ed_CreatedAt = ee_CreatedAt e\<rparr>"

text \<open>\<open>Duration.String\<close> of a positive duration: hours, minutes and seconds, or one small unit.\<close>

definition frac_text :: "nat \<Rightarrow> nat \<Rightarrow> string" where
  "frac_text v prec =
     (let ds = show_base 10 (v mod 10 ^ prec);
          padded = replicate (prec - length ds) CHR ''0'' @ ds;
          kept = rev (dropWhile ((=) CHR ''0'') (rev padded))
      in if kept = [] then [] else ''.'' @ kept)"

definition duration_string :: "nat \<Rightarrow> string" where
  "duration_string u =
     (if u = 0 then ''0s''
      else if u < 1000 then show_base 10 u @ ''ns''
      else if u < 1000000 then show_base 10 (u div 1000) @ frac_text u 3 @ [CHR 0xC2, CHR 0xB5, CHR ''s'']
      else if u < 1000000000 then show_base 10 (u div 1000000) @ frac_text u 6 @ ''ms''
      else let secs = u div 1000000000; mins = secs div 60; hours = mins div 60 in
        (if hours > 0 then show_base 10 hours @ ''h'' else []) @
        (if mins > 0 then show_base 10 (mins mod 60) @ ''m'' else []) @
        show_base 10 (secs mod 60) @ frac_text u 9 @ ''s'')"

definition formatTimeout :: "int \<Rightarrow> string" where
  "formatTimeout d = (if d \<le> 0 then [] else duration_string (nat d))"

definition taskResponseFrom :: "Task \<Rightarrow> TaskResponse" where
  "taskResponseFrom t = \<lparr>tr_ID = tk_ID t, tr_Type = tk_Type t, tr_CreatedBy = created_by (tk_Labels t),
     tr_Status = status_string (tk_Status t), tr_Progress = tk_Progress t, tr_Opts = tk_Opts t,
     tr_Timeout = formatTimeout (tk_Timeout t), tr_Error = tk_Error t, tr_CreatedAt = tk_CreatedAt t,
     tr_StartedAt = tk_StartedAt t, tr_CompletedAt = tk_CompletedAt t\<rparr>"

definition taskDetailResponseFrom :: "Task \<Rightarrow> TaskDetailResponse" where
  "taskDetailResponseFrom t = \<lparr>td_ID = tk_ID t, td_Type = tk_Type t, td_CreatedBy = created_by (tk_Labels t),
     td_Status = status_string (tk_Status t), td_Progress = tk_Progress t, td_Opts = tk_Opts t, td_Labels = tk_Labels t,
     td_Timeout = formatTimeout (tk_Timeout t), td_Result = tk_Result t, td_Error = tk_Error t, td_CreatedAt = tk_CreatedAt t,
     td_StartedAt = tk_StartedAt t, td_CompletedAt = tk_CompletedAt t\<rparr>"

definition ioResponseFrom :: "DeviceIOStats \<Rightarrow> DeviceIOStatsResponse" where
  "ioResponseFrom io = \<lparr>ir_ReadBytesTotal = io_ReadBytes io, ir_ReadIOsTotal = io_ReadIOs io, ir_ReadTimeMsTotal = io_ReadTimeMs io,
     ir_WriteBytesTotal = io_WriteBytes io, ir_WriteIOsTotal = io_WriteIOs io, ir_WriteTimeMsTotal = io_WriteTimeMs io,
     ir_IOsInProgress = io_IOsInProgress io, ir_IOTimeMsTotal = io_IOTimeMs io, ir_WeightedIOTimeMsTotal = io_WeightedIOTimeMs io\<rparr>"

definition errorsResponseFrom :: "DeviceErrors \<Rightarrow> DeviceErrorsResponse" where
  "errorsResponseFrom e = \<lparr>de_ReadErrsR = de_ReadErrs e, de_WriteErrsR = de_WriteErrs e, de_FlushErrsR = de_FlushErrs e,
     de_CorruptionErrsR = de_CorruptionErrs e, de_GenerationErrsR = de_GenerationErrs e\<rparr>"

definition deviceResponseFrom :: "DeviceState \<Rightarrow> DeviceStatsResponse" where
  "deviceResponseFrom d = \<lparr>dr_DevID = bd_DevID d, dr_Device = bd_Device d, dr_Missing = bd_Missing d, dr_SizeBytes = bd_SizeBytes d,
     dr_AllocatedBytes = bd_AllocatedBytes d, dr_IO = ioResponseFrom (ds_IO d), dr_Errors = errorsResponseFrom (bd_Errors d)\<rparr>"

definition statsResponseFrom :: "string \<Rightarrow> FsStats \<Rightarrow> 'f DeviceStats \<Rightarrow> 'f StatsResponse" where
  "statsResponseFrom tenant fs ds = (let u = dst_Filesystem ds in
     \<lparr>st_TenantName = tenant,
      st_Statfs = \<lparr>sf_TotalBytes = fs_TotalBytes fs, sf_UsedBytes = fs_UsedBytes fs, sf_FreeBytes = fs_FreeBytes fs\<rparr>,
      st_Btrfs = \<lparr>fr_TotalBytes = fu_TotalBytes u, fr_UsedBytes = fu_UsedBytes u, fr_FreeBytes = fu_FreeBytes u,
        fr_UnallocatedBytes = fu_UnallocatedBytes u, fr_MetadataUsedBytes = fu_MetadataUsedBytes u,
        fr_MetadataTotalBytes = fu_MetadataTotalBytes u, fr_DataRatio = fu_DataRatio u,
        fr_Devices = map deviceResponseFrom (dst_Devices ds)\<rparr>\<rparr>)"

end
