(* ===== verification/Api.thy ===== *)
theory Api
  imports ApiModels Exports
begin

text \<open>
  The HTTP layer of the agent: authentication (\<open>agent/api/v1/middleware.go\<close>), the mapping of errors to
  responses (\<open>utils.go\<close>), the handlers (\<open>handler_*.go\<close>, \<open>health.go\<close>) and the routes and tenants of
  \<open>agent/agent.go\<close>. The result of \<open>Bind\<close> is an argument of a handler, \<open>None\<close> when the body cannot be
  read. The texts of storage errors are a parameter. Where the code sorts with a function that leaves
  items equal, the model keeps their order.
\<close>

section \<open>The agent\<close>

text \<open>What the snapshots of the pagination hold.\<close>

datatype any_items =
    AnyVolumes "VolumeMetadata list"
  | AnySnapshots "SnapshotMetadata list"
  | AnyExports "ExportEntry list"
  | AnyTasks "Task list"

fun as_volumes :: "any_items \<Rightarrow> VolumeMetadata list option" where
  "as_volumes (AnyVolumes xs) = Some xs" | "as_volumes _ = None"

fun as_snapshots :: "any_items \<Rightarrow> SnapshotMetadata list option" where
  "as_snapshots (AnySnapshots xs) = Some xs" | "as_snapshots _ = None"

fun as_exports :: "any_items \<Rightarrow> ExportEntry list option" where
  "as_exports (AnyExports xs) = Some xs" | "as_exports _ = None"

fun as_tasks :: "any_items \<Rightarrow> Task list option" where
  "as_tasks (AnyTasks xs) = Some xs" | "as_tasks _ = None"

interpretation volume_pages: page_items AnyVolumes as_volumes by unfold_locales simp
interpretation snapshot_pages: page_items AnySnapshots as_snapshots by unfold_locales simp
interpretation export_pages: page_items AnyExports as_exports by unfold_locales simp
interpretation task_pages: page_items AnyTasks as_tasks by unfold_locales simp

text \<open>The storage, the tasks with the file system below them, the device cache and the pages.\<close>

record 'f agent =
  ag_store :: storage
  ag_tasks :: task_sys
  ag_devices :: "'f dev_cache"
  ag_pager :: "any_items pager"

definition store_state :: "'f agent \<Rightarrow> state" where
  "store_state a = (ts_world (ag_tasks a), ag_store a)"

definition set_store :: "state \<Rightarrow> 'f agent \<Rightarrow> 'f agent" where
  "set_store st a = a\<lparr>ag_store := snd st, ag_tasks := (ag_tasks a)\<lparr>ts_world := fst st\<rparr>\<rparr>"

text \<open>What does not change while the agent runs, and the environment's choices for one request.\<close>

record 'f api_env =
  env_tenants :: "(string \<times> string) list"
  env_message :: "error \<Rightarrow> string"
  env_statfs :: "string \<Rightarrow> errno + statfs_t"
  env_zero :: 'f
  env_fr :: "nat \<Rightarrow> nat \<Rightarrow> nat \<Rightarrow> nat"
  env_version :: string
  env_commit :: string
  env_scrubTimeout :: int
  env_defaultTimeout :: int

record choices =
  ch_locked :: bool
  ch_snapID :: string
  ch_taskID :: string
  ch_time :: int
  ch_uptime :: int

record 'f response =
  rs_Status :: int
  rs_Body :: "'f body"

definition JSON :: "int \<Rightarrow> 'f body \<Rightarrow> 'f response" where
  "JSON s b = \<lparr>rs_Status = s, rs_Body = b\<rparr>"

definition json_error :: "int \<Rightarrow> string \<Rightarrow> err_code \<Rightarrow> 'f response" where
  "json_error s e c = JSON s (BError \<lparr>err_Error = e, err_Code = c\<rparr>)"

section \<open>Errors\<close>

fun codeStatus :: "err_code \<Rightarrow> int option" where
  "codeStatus ErrInvalid = Some 400"
| "codeStatus ErrNotFound = Some 404"
| "codeStatus ErrAlreadyExists = Some 409"
| "codeStatus ErrBusy = Some 423"
| "codeStatus ErrMetadata = Some 500"
| "codeStatus ErrInternal = Some 500"
| "codeStatus _ = None"

fun StorageErrorResponse :: "(error \<Rightarrow> string) \<Rightarrow> error \<Rightarrow> 'f response" where
  "StorageErrorResponse msg ValidationError = json_error 400 (msg ValidationError) ErrInvalid"
| "StorageErrorResponse msg (StorageError c) =
     json_error (case codeStatus c of Some s \<Rightarrow> s | None \<Rightarrow> 500) (msg (StorageError c)) c"
| "StorageErrorResponse msg TaskNotFound = json_error 404 (msg TaskNotFound) ErrNotFound"
| "StorageErrorResponse msg (WrappedError e) = json_error 500 ''internal error'' ErrInternal"

definition bad_body :: "'f response" where
  "bad_body = json_error 400 ''invalid request body'' ErrBadRequest"

section \<open>Authentication\<close>

definition provided_token :: "string \<Rightarrow> string option" where
  "provided_token auth =
     (if auth = [] then None
      else (case cut '' '' auth of
              None \<Rightarrow> None
            | Some (scheme, token) \<Rightarrow>
                if scheme = ''Bearer'' then Some token
                else if scheme = ''Basic'' then
                  (case Std_decode token of
                     None \<Rightarrow> None
                   | Some decoded \<Rightarrow> (case cut '':'' decoded of None \<Rightarrow> None | Some (user, pass) \<Rightarrow> Some pass))
                else None))"

definition AuthMiddleware :: "(string \<times> string) list \<Rightarrow> (string \<Rightarrow> 'a \<Rightarrow> 'f response \<times> 'a) \<Rightarrow> string \<Rightarrow> 'a \<Rightarrow> 'f response \<times> 'a" where
  "AuthMiddleware tenants nxt auth a =
     (case provided_token auth of
        None \<Rightarrow> (json_error 401 ''invalid auth token'' ErrUnauthorized, a)
      | Some tok \<Rightarrow> (case map_of tenants tok of
          None \<Rightarrow> (json_error 401 ''invalid auth token'' ErrUnauthorized, a)
        | Some tenant \<Rightarrow> nxt tenant a))"

definition tenant_entry :: "string \<Rightarrow> (string \<times> string) list \<Rightarrow> (string \<times> string) list" where
  "tenant_entry entry m = (case cut '':'' (trim_space entry) of
       None \<Rightarrow> m
     | Some (name, tok) \<Rightarrow> AList.update (trim_space tok) (trim_space name) m)"

definition parseTenants :: "string \<Rightarrow> (string \<times> string) list option" where
  "parseTenants s =
     (if s = [] then None
      else let m = fold tenant_entry (split_on CHR '','' s) [] in if m = [] then None else Some m)"

section \<open>Volumes\<close>

definition created_volume :: "'f api_env \<Rightarrow> (VolumeMetadata option \<times> error option) \<times> state \<Rightarrow> 'f agent \<Rightarrow> 'f response \<times> 'f agent" where
  "created_volume env r a = (case r of ((meta, err), st) \<Rightarrow>
     (case (err, meta) of
        (Some e, Some m) \<Rightarrow> JSON 409 (BVolume (volumeDetailResponseFrom m))
      | (Some e, None) \<Rightarrow> StorageErrorResponse (env_message env) e
      | (None, Some m) \<Rightarrow> JSON 201 (BVolume (volumeDetailResponseFrom m))
      | (None, None) \<Rightarrow> JSON 500 NoContent, set_store st a))"

definition h_CreateVolume :: "'f api_env \<Rightarrow> choices \<Rightarrow> VolumeCreateRequest option \<Rightarrow> string \<Rightarrow> 'f agent \<Rightarrow> 'f response \<times> 'f agent" where
  "h_CreateVolume env ch body tenant a = (case body of
       None \<Rightarrow> (bad_body, a)
     | Some req \<Rightarrow> created_volume env (CreateVolume (ch_locked ch) tenant req (store_state a)) a)"

text \<open>The response of a list handler.\<close>

definition list_response :: "('r ListResponse \<Rightarrow> 'f body) \<Rightarrow> 'r page_result \<times> any_items pager \<Rightarrow> 'f agent \<Rightarrow> 'f response \<times> 'f agent" where
  "list_response wrap r a = (case r of (pg, h) \<Rightarrow>
     (case pg of
        PageOK items tot nxt \<Rightarrow> JSON 200 (wrap \<lparr>lr_Items = items, lr_Total = tot, lr_Next = nxt\<rparr>)
      | PagePanic \<Rightarrow> JSON 500 NoContent, a\<lparr>ag_pager := h\<rparr>))"

definition h_ListVolumes :: "'f api_env \<Rightarrow> choices \<Rightarrow> url_query \<Rightarrow> string \<Rightarrow> 'f agent \<Rightarrow> 'f response \<times> 'f agent" where
  "h_ListVolumes env ch q tenant a = (case ListVolumes tenant (store_state a) of
       Inl e \<Rightarrow> (StorageErrorResponse (env_message env) e, a)
     | Inr vols0 \<Rightarrow>
         let vols = sort_key vm_Name vols0 in
         if QueryParam q ''detail'' = ''true''
         then list_response BVolumeDetails (paginatedList AnyVolumes as_volumes vm_Labels volumeDetailResponseFrom
                (ch_snapID ch) (ch_time ch) q vols (ag_pager a)) a
         else list_response BVolumes (paginatedList AnyVolumes as_volumes vm_Labels volumeResponseFrom
                (ch_snapID ch) (ch_time ch) q vols (ag_pager a)) a)"

definition h_GetVolume :: "'f api_env \<Rightarrow> string \<Rightarrow> string \<Rightarrow> 'f agent \<Rightarrow> 'f response \<times> 'f agent" where
  "h_GetVolume env name tenant a = (case GetVolume tenant name (store_state a) of
       (Inl e, st) \<Rightarrow> (StorageErrorResponse (env_message env) e, set_store st a)
     | (Inr m, st) \<Rightarrow> (JSON 200 (BVolume (volumeDetailResponseFrom m)), set_store st a))"

definition h_UpdateVolume :: "'f api_env \<Rightarrow> string \<Rightarrow> VolumeUpdateRequest option \<Rightarrow> string \<Rightarrow> 'f agent \<Rightarrow> 'f response \<times> 'f agent" where
  "h_UpdateVolume env name body tenant a = (case body of
       None \<Rightarrow> (bad_body, a)
     | Some req \<Rightarrow> (case UpdateVolume tenant name req (store_state a) of
           (Inl e, st) \<Rightarrow> (StorageErrorResponse (env_message env) e, set_store st a)
         | (Inr m, st) \<Rightarrow> (JSON 200 (BVolume (volumeDetailResponseFrom m)), set_store st a)))"

text \<open>The response to an operation without a result.\<close>

definition done_response :: "'f api_env \<Rightarrow> error option \<times> state \<Rightarrow> 'f agent \<Rightarrow> 'f response \<times> 'f agent" where
  "done_response env r a = (case r of (err, st) \<Rightarrow>
     (case err of Some e \<Rightarrow> StorageErrorResponse (env_message env) e | None \<Rightarrow> JSON 204 NoContent, set_store st a))"

definition h_DeleteVolume :: "'f api_env \<Rightarrow> string \<Rightarrow> string \<Rightarrow> 'f agent \<Rightarrow> 'f response \<times> 'f agent" where
  "h_DeleteVolume env name tenant a = done_response env (DeleteVolume tenant name (store_state a)) a"

definition h_CloneVolume :: "'f api_env \<Rightarrow> choices \<Rightarrow> VolumeCloneRequest option \<Rightarrow> string \<Rightarrow> 'f agent \<Rightarrow> 'f response \<times> 'f agent" where
  "h_CloneVolume env ch body tenant a = (case body of
       None \<Rightarrow> (bad_body, a)
     | Some req \<Rightarrow> created_volume env (CloneVolume (ch_locked ch) tenant req (store_state a)) a)"

definition h_CreateClone :: "'f api_env \<Rightarrow> choices \<Rightarrow> CloneCreateRequest option \<Rightarrow> string \<Rightarrow> 'f agent \<Rightarrow> 'f response \<times> 'f agent" where
  "h_CreateClone env ch body tenant a = (case body of
       None \<Rightarrow> (bad_body, a)
     | Some req \<Rightarrow> created_volume env (CreateClone (ch_locked ch) tenant req (store_state a)) a)"

section \<open>Snapshots\<close>

definition h_CreateSnapshot :: "'f api_env \<Rightarrow> choices \<Rightarrow> SnapshotCreateRequest option \<Rightarrow> string \<Rightarrow> 'f agent \<Rightarrow> 'f response \<times> 'f agent" where
  "h_CreateSnapshot env ch body tenant a = (case body of
       None \<Rightarrow> (bad_body, a)
     | Some req \<Rightarrow> (case CreateSnapshot (ch_locked ch) tenant req (store_state a) of ((meta, err), st) \<Rightarrow>
         (case (err, meta) of
            (Some e, Some m) \<Rightarrow> JSON 409 (BSnapshot (snapshotDetailResponseFrom m))
          | (Some e, None) \<Rightarrow> StorageErrorResponse (env_message env) e
          | (None, Some m) \<Rightarrow> JSON 201 (BSnapshot (snapshotDetailResponseFrom m))
          | (None, None) \<Rightarrow> JSON 500 NoContent, set_store st a)))"

definition listSnapshotsPage :: "'f api_env \<Rightarrow> choices \<Rightarrow> url_query \<Rightarrow> string \<Rightarrow> string \<Rightarrow> 'f agent \<Rightarrow> 'f response \<times> 'f agent" where
  "listSnapshotsPage env ch q volume tenant a = (case ListSnapshots tenant volume (store_state a) of
       Inl e \<Rightarrow> (StorageErrorResponse (env_message env) e, a)
     | Inr snaps0 \<Rightarrow>
         let snaps = sort_key sm_Name snaps0 in
         if QueryParam q ''detail'' = ''true''
         then list_response BSnapshotDetails (paginatedList AnySnapshots as_snapshots sm_Labels snapshotDetailResponseFrom
                (ch_snapID ch) (ch_time ch) q snaps (ag_pager a)) a
         else list_response BSnapshots (paginatedList AnySnapshots as_snapshots sm_Labels snapshotResponseFrom
                (ch_snapID ch) (ch_time ch) q snaps (ag_pager a)) a)"

definition h_ListSnapshots :: "'f api_env \<Rightarrow> choices \<Rightarrow> url_query \<Rightarrow> string \<Rightarrow> 'f agent \<Rightarrow> 'f response \<times> 'f agent" where
  "h_ListSnapshots env ch q = listSnapshotsPage env ch q []"

definition h_ListVolumeSnapshots :: "'f api_env \<Rightarrow> choices \<Rightarrow> url_query \<Rightarrow> string \<Rightarrow> string \<Rightarrow> 'f agent \<Rightarrow> 'f response \<times> 'f agent" where
  "h_ListVolumeSnapshots env ch q name = listSnapshotsPage env ch q name"

definition h_GetSnapshot :: "'f api_env \<Rightarrow> string \<Rightarrow> string \<Rightarrow> 'f agent \<Rightarrow> 'f response \<times> 'f agent" where
  "h_GetSnapshot env name tenant a = (case GetSnapshot tenant name (store_state a) of
       (Inl e, st) \<Rightarrow> (StorageErrorResponse (env_message env) e, set_store st a)
     | (Inr m, st) \<Rightarrow> (JSON 200 (BSnapshot (snapshotDetailResponseFrom m)), set_store st a))"

definition h_DeleteSnapshot :: "'f api_env \<Rightarrow> string \<Rightarrow> string \<Rightarrow> 'f agent \<Rightarrow> 'f response \<times> 'f agent" where
  "h_DeleteSnapshot env name tenant a = done_response env (DeleteSnapshot tenant name (store_state a)) a"

section \<open>Exports\<close>

definition client_required :: "'f response" where
  "client_required = json_error 400 ''client is required'' ErrBadRequest"

text \<open>A missing map of labels reads as an empty one when an export is created; when it is deleted, the
  code tells the two apart.\<close>

definition h_CreateVolumeExport :: "'f api_env \<Rightarrow> string \<Rightarrow> VolumeExportRequest option \<Rightarrow> string \<Rightarrow> 'f agent \<Rightarrow> 'f response \<times> 'f agent" where
  "h_CreateVolumeExport env name body tenant a = (case body of
       None \<Rightarrow> (client_required, a)
     | Some req \<Rightarrow>
         if xr_Client req = [] then (client_required, a)
         else done_response env (CreateVolumeExport tenant name (xr_Client req)
                (case xr_Labels req of None \<Rightarrow> [] | Some ls \<Rightarrow> ls) (store_state a)) a)"

definition h_DeleteVolumeExport :: "'f api_env \<Rightarrow> string \<Rightarrow> VolumeExportRequest option \<Rightarrow> string \<Rightarrow> 'f agent \<Rightarrow> 'f response \<times> 'f agent" where
  "h_DeleteVolumeExport env name body tenant a = (case body of
       None \<Rightarrow> (client_required, a)
     | Some req \<Rightarrow>
         if xr_Client req = [] then (client_required, a)
         else done_response env (DeleteVolumeExport tenant name (xr_Client req) (xr_Labels req) (store_state a)) a)"

definition h_ListVolumeExports :: "'f api_env \<Rightarrow> choices \<Rightarrow> url_query \<Rightarrow> string \<Rightarrow> 'f agent \<Rightarrow> 'f response \<times> 'f agent" where
  "h_ListVolumeExports env ch q tenant a = (case ListVolumeExports tenant (store_state a) of
       Inl e \<Rightarrow> (StorageErrorResponse (env_message env) e, a)
     | Inr items0 \<Rightarrow>
         let items = sort_key ee_Name (sort_key ee_Client items0) in
         if QueryParam q ''detail'' = ''true''
         then list_response BExportDetails (paginatedList AnyExports as_exports ee_Labels exportDetailResponseFrom
                (ch_snapID ch) (ch_time ch) q items (ag_pager a)) a
         else list_response BExports (paginatedList AnyExports as_exports ee_Labels exportResponseFrom
                (ch_snapID ch) (ch_time ch) q items (ag_pager a)) a)"

section \<open>Tasks\<close>

definition started_task :: "'f api_env \<Rightarrow> (error + string) \<times> task_sys \<Rightarrow> 'f agent \<Rightarrow> 'f response \<times> 'f agent" where
  "started_task env r a = (case r of
       (Inl e, S) \<Rightarrow> (StorageErrorResponse (env_message env) e, a\<lparr>ag_tasks := S\<rparr>)
     | (Inr i, S) \<Rightarrow> (JSON 202 (BTaskCreated \<lparr>tc_TaskID = i, tc_Status = ''pending''\<rparr>), a\<lparr>ag_tasks := S\<rparr>))"

text \<open>The body is optional: without one the request is empty.\<close>

definition h_CreateTask :: "'f api_env \<Rightarrow> choices \<Rightarrow> string \<Rightarrow> TaskCreateRequest option \<Rightarrow> 'f agent \<Rightarrow> 'f response \<times> 'f agent" where
  "h_CreateTask env ch taskType body a = (case body of
       None \<Rightarrow> (json_error 400 ''invalid request body: '' ErrInvalid, a)
     | Some req \<Rightarrow>
         (case (if tq_Timeout req = [] then Some 0 else ParseDuration (env_fr env) (tq_Timeout req)) of
            None \<Rightarrow> (json_error 400 (''invalid timeout: '' @ tq_Timeout req) ErrInvalid, a)
          | Some timeout \<Rightarrow>
              if mget (tq_Labels req) LabelCreatedBy = [] then (json_error 400 (''label '' @ [CHR 0x22] @ LabelCreatedBy @ [CHR 0x22] @ '' is required'') ErrInvalid, a)
              else if taskType = TypeScrub
              then started_task env (StartScrub (ag_store a) (env_scrubTimeout env) (tq_Opts req) (tq_Labels req) timeout (ch_taskID ch) (ag_tasks a)) a
              else if taskType = TypeTest
              then started_task env (StartTestTask (env_fr env) (env_defaultTimeout env) (tq_Opts req) (tq_Labels req) timeout (ch_taskID ch) (ag_tasks a)) a
              else (json_error 400 (''unknown task type: '' @ taskType) ErrInvalid, a)))"

definition h_ListTasks :: "choices \<Rightarrow> url_query \<Rightarrow> 'f agent \<Rightarrow> 'f response \<times> 'f agent" where
  "h_ListTasks ch q a =
     (let tasks = sort_key (\<lambda>t. - tk_CreatedAt t) (ListTasks (QueryParam q ''type'') (ts_tm (ag_tasks a))) in
      if QueryParam q ''detail'' = ''true''
      then list_response BTaskDetails (paginatedList AnyTasks as_tasks tk_Labels taskDetailResponseFrom
             (ch_snapID ch) (ch_time ch) q tasks (ag_pager a)) a
      else list_response BTasks (paginatedList AnyTasks as_tasks tk_Labels taskResponseFrom
             (ch_snapID ch) (ch_time ch) q tasks (ag_pager a)) a)"

definition h_GetTask :: "'f api_env \<Rightarrow> string \<Rightarrow> 'f agent \<Rightarrow> 'f response \<times> 'f agent" where
  "h_GetTask env i a = (case GetTask i (ts_tm (ag_tasks a)) of
       Inl e \<Rightarrow> (StorageErrorResponse (env_message env) e, a)
     | Inr t \<Rightarrow> (JSON 200 (BTask (taskDetailResponseFrom t)), a))"

definition h_CancelTask :: "'f api_env \<Rightarrow> string \<Rightarrow> 'f agent \<Rightarrow> 'f response \<times> 'f agent" where
  "h_CancelTask env i a = (case Cancel i (ag_tasks a) of
       (Some e, S) \<Rightarrow> (StorageErrorResponse (env_message env) e, a\<lparr>ag_tasks := S\<rparr>)
     | (None, S) \<Rightarrow> (JSON 204 NoContent, a\<lparr>ag_tasks := S\<rparr>))"

section \<open>Statistics and health\<close>

definition h_Stats :: "'f api_env \<Rightarrow> string \<Rightarrow> 'f agent \<Rightarrow> 'f response \<times> 'f agent" where
  "h_Stats env tenant a = (case Stats (env_statfs env) tenant (store_state a) of
       Inl e \<Rightarrow> (StorageErrorResponse (env_message env) e, a)
     | Inr fs \<Rightarrow> (case DeviceStatsOf (env_zero env) (ag_devices a) of
         Inl e \<Rightarrow> (json_error 500 (env_message env e) ErrInternal, a)
       | Inr ds \<Rightarrow> (JSON 200 (BStats (statsResponseFrom tenant fs ds)), a)))"

definition Healthz :: "'f api_env \<Rightarrow> choices \<Rightarrow> 'f agent \<Rightarrow> 'f response \<times> 'f agent" where
  "Healthz env ch a =
     (JSON 200 (BHealth \<lparr>hr_Status = (if IsDegraded (ag_devices a) then ''degraded'' else ''ok''), hr_Version = env_version env,
        hr_Commit = env_commit env, hr_UptimeSeconds = ch_uptime ch\<rparr>), a)"

section \<open>Routes\<close>

datatype http_method = GET | POST | PATCH | DELETE

text \<open>A request body: empty, unreadable, or the request it encodes.\<close>

datatype req_body =
    EmptyBody
  | BadBody
  | RVolumeCreate VolumeCreateRequest
  | RVolumeUpdate VolumeUpdateRequest
  | RVolumeClone VolumeCloneRequest
  | RSnapshotCreate SnapshotCreateRequest
  | RCloneCreate CloneCreateRequest
  | RExport VolumeExportRequest
  | RTaskCreate TaskCreateRequest

record request =
  rq_Method :: http_method
  rq_Path :: string
  rq_Query :: url_query
  rq_Auth :: string
  rq_Body :: req_body

text \<open>\<open>Bind\<close> for a handler that expects one kind of request: an empty body leaves the zero value. A body
  of another kind is outside the model.\<close>

definition bind_body :: "(req_body \<Rightarrow> 'r option) \<Rightarrow> 'r \<Rightarrow> req_body \<Rightarrow> 'r option option" where
  "bind_body sel zero b = (case b of EmptyBody \<Rightarrow> Some (Some zero) | BadBody \<Rightarrow> Some None | _ \<Rightarrow> map_option Some (sel b))"

definition zero_create :: VolumeCreateRequest where
  "zero_create = \<lparr>vcr_Name = [], vcr_SizeBytes = 0, vcr_NoCOW = False, vcr_Compression = [], vcr_QuotaBytes = 0, vcr_UID = 0,
     vcr_GID = 0, vcr_Mode = [], vcr_Labels = []\<rparr>"

definition zero_update :: VolumeUpdateRequest where
  "zero_update = \<lparr>vur_SizeBytes = None, vur_NoCOW = None, vur_Compression = None, vur_UID = None, vur_GID = None, vur_Mode = None,
     vur_Labels = None\<rparr>"

definition bind_create :: "req_body \<Rightarrow> VolumeCreateRequest option option" where
  "bind_create = bind_body (\<lambda>b. case b of RVolumeCreate r \<Rightarrow> Some r | _ \<Rightarrow> None) zero_create"
definition bind_update :: "req_body \<Rightarrow> VolumeUpdateRequest option option" where
  "bind_update = bind_body (\<lambda>b. case b of RVolumeUpdate r \<Rightarrow> Some r | _ \<Rightarrow> None) zero_update"
definition bind_clone :: "req_body \<Rightarrow> VolumeCloneRequest option option" where
  "bind_clone = bind_body (\<lambda>b. case b of RVolumeClone r \<Rightarrow> Some r | _ \<Rightarrow> None) \<lparr>vlr_Source = [], vlr_Name = [], vlr_Labels = []\<rparr>"
definition bind_snapshot :: "req_body \<Rightarrow> SnapshotCreateRequest option option" where
  "bind_snapshot = bind_body (\<lambda>b. case b of RSnapshotCreate r \<Rightarrow> Some r | _ \<Rightarrow> None) \<lparr>scr_Volume = [], scr_Name = [], scr_Labels = []\<rparr>"
definition bind_snapshot_clone :: "req_body \<Rightarrow> CloneCreateRequest option option" where
  "bind_snapshot_clone = bind_body (\<lambda>b. case b of RCloneCreate r \<Rightarrow> Some r | _ \<Rightarrow> None) \<lparr>ccr_Snapshot = [], ccr_Name = [], ccr_Labels = []\<rparr>"
definition bind_export :: "req_body \<Rightarrow> VolumeExportRequest option option" where
  "bind_export = bind_body (\<lambda>b. case b of RExport r \<Rightarrow> Some r | _ \<Rightarrow> None) \<lparr>xr_Client = [], xr_Labels = None\<rparr>"
definition bind_task :: "req_body \<Rightarrow> TaskCreateRequest option option" where
  "bind_task = bind_body (\<lambda>b. case b of RTaskCreate r \<Rightarrow> Some r | _ \<Rightarrow> None) \<lparr>tq_Timeout = [], tq_Opts = [], tq_Labels = []\<rparr>"

type_synonym 'f handler = "string \<Rightarrow> 'f agent \<Rightarrow> 'f response \<times> 'f agent"

text \<open>The routes below \<open>/v1\<close>; a fixed segment goes before a parameter.\<close>

definition volume_routes :: "'f api_env \<Rightarrow> choices \<Rightarrow> http_method \<Rightarrow> url_query \<Rightarrow> req_body \<Rightarrow> string list \<Rightarrow> 'f handler option" where
  "volume_routes env ch m q b p = (case p of
       [] \<Rightarrow> (case m of
           POST \<Rightarrow> map_option (h_CreateVolume env ch) (bind_create b)
         | GET \<Rightarrow> Some (h_ListVolumes env ch q)
         | _ \<Rightarrow> None)
     | [name] \<Rightarrow> (case m of
           POST \<Rightarrow> if name = ''clone'' then map_option (h_CloneVolume env ch) (bind_clone b) else None
         | GET \<Rightarrow> Some (h_GetVolume env name)
         | PATCH \<Rightarrow> map_option (h_UpdateVolume env name) (bind_update b)
         | DELETE \<Rightarrow> Some (h_DeleteVolume env name))
     | [name, sub] \<Rightarrow>
         if sub = ''snapshots'' then (if m = GET then Some (h_ListVolumeSnapshots env ch q name) else None)
         else if sub = ''export'' then (case m of
             POST \<Rightarrow> map_option (h_CreateVolumeExport env name) (bind_export b)
           | DELETE \<Rightarrow> map_option (h_DeleteVolumeExport env name) (bind_export b)
           | _ \<Rightarrow> None)
         else None
     | _ \<Rightarrow> None)"

definition snapshot_routes :: "'f api_env \<Rightarrow> choices \<Rightarrow> http_method \<Rightarrow> url_query \<Rightarrow> req_body \<Rightarrow> string list \<Rightarrow> 'f handler option" where
  "snapshot_routes env ch m q b p = (case p of
       [] \<Rightarrow> (case m of
           POST \<Rightarrow> map_option (h_CreateSnapshot env ch) (bind_snapshot b)
         | GET \<Rightarrow> Some (h_ListSnapshots env ch q)
         | _ \<Rightarrow> None)
     | [name] \<Rightarrow> (case m of
           GET \<Rightarrow> Some (h_GetSnapshot env name)
         | DELETE \<Rightarrow> Some (h_DeleteSnapshot env name)
         | _ \<Rightarrow> None)
     | _ \<Rightarrow> None)"

definition task_routes :: "'f api_env \<Rightarrow> choices \<Rightarrow> http_method \<Rightarrow> url_query \<Rightarrow> req_body \<Rightarrow> string list \<Rightarrow> 'f handler option" where
  "task_routes env ch m q b p = (case p of
       [] \<Rightarrow> if m = GET then Some (\<lambda>_. h_ListTasks ch q) else None
     | [i] \<Rightarrow> (case m of
           POST \<Rightarrow> map_option (\<lambda>r _. h_CreateTask env ch i r) (bind_task b)
         | GET \<Rightarrow> Some (\<lambda>_. h_GetTask env i)
         | DELETE \<Rightarrow> Some (\<lambda>_. h_CancelTask env i)
         | _ \<Rightarrow> None)
     | _ \<Rightarrow> None)"

definition route :: "'f api_env \<Rightarrow> choices \<Rightarrow> http_method \<Rightarrow> url_query \<Rightarrow> req_body \<Rightarrow> string list \<Rightarrow> 'f handler option" where
  "route env ch m q b p = (case p of
       [] \<Rightarrow> None
     | s # r \<Rightarrow>
         if s = ''volumes'' then volume_routes env ch m q b r
         else if s = ''snapshots'' then snapshot_routes env ch m q b r
         else if s = ''tasks'' then task_routes env ch m q b r
         else if p = [''exports''] \<and> m = GET then Some (h_ListVolumeExports env ch q)
         else if p = [''stats''] \<and> m = GET then Some (h_Stats env)
         else if p = [''clones''] \<and> m = POST then map_option (h_CreateClone env ch) (bind_snapshot_clone b)
         else None)"

text \<open>The server: \<open>None\<close> for a request that no route of the agent handles.\<close>

definition serve :: "'f api_env \<Rightarrow> choices \<Rightarrow> request \<Rightarrow> 'f agent \<Rightarrow> ('f response \<times> 'f agent) option" where
  "serve env ch rq a = (case split_on CHR ''/'' (rq_Path rq) of
       root # s # r \<Rightarrow>
         if root \<noteq> [] then None
         else if s = ''healthz'' \<and> r = [] \<and> rq_Method rq = GET then Some (Healthz env ch a)
         else if s = ''v1'' then
           map_option (\<lambda>h. AuthMiddleware (env_tenants env) h (rq_Auth rq) a)
             (route env ch (rq_Method rq) (rq_Query rq) (rq_Body rq) r)
         else None
     | _ \<Rightarrow> None)"

section \<open>Start\<close>

record agent_config =
  cf_BasePath :: string
  cf_Tenants :: string
  cf_TLSCert :: string
  cf_TLSKey :: string
  cf_NFSExporter :: string
  cf_QuotaEnabled :: bool
  cf_DefaultDirMode :: string
  cf_DefaultDataMode :: string
  cf_ImmutableLabels :: string
  cf_DefaultPageLimit :: int
  cf_PaginationSnapshotTTL :: int
  cf_PaginationMaxSnapshots :: int

text \<open>\<open>NewAgent\<close>: its checks, the storage and the state of a fresh agent. The order in which a loop
  meets the tenants is the order of the parsed list.\<close>

definition new_pager :: "agent_config \<Rightarrow> any_items pager" where
  "new_pager cfg = \<lparr>DefaultPageLimit = cf_DefaultPageLimit cfg, PaginationSnapshotTTL = cf_PaginationSnapshotTTL cfg,
     PaginationMaxSnapshots = cf_PaginationMaxSnapshots cfg, pageSnapshots = [], snapshotCount = 0\<rparr>"

definition NewAgent :: "environ \<Rightarrow> agent_config \<Rightarrow> world \<Rightarrow> string + ((string \<times> string) list \<times> state \<times> any_items pager)" where
  "NewAgent env cfg w =
     (if (cf_TLSCert cfg \<noteq> []) \<noteq> (cf_TLSKey cfg \<noteq> []) then Inl ''both AGENT_TLS_CERT and AGENT_TLS_KEY must be set, or neither''
      else (case parseTenants (cf_Tenants cfg) of
         None \<Rightarrow> Inl ''AGENT_TENANTS must contain at least one valid name:token pair''
       | Some tenants \<Rightarrow>
           (case New (if cf_NFSExporter cfg = ''kernel'' then env else env\<lparr>en_exporter := None\<rparr>) (cf_BasePath cfg)
                   (cf_QuotaEnabled cfg) (map snd tenants) (cf_DefaultDirMode cfg) (cf_DefaultDataMode cfg) (cf_ImmutableLabels cfg) w of
              Inl e \<Rightarrow> Inl e
            | Inr st \<Rightarrow> Inr (tenants, st, new_pager cfg))))"

end
