(* ===== verification/Client.thy ===== *)
theory Client
  imports Api
begin

text \<open>
  The HTTP client of the agent API, \<open>agent/api/v1/client/client.go\<close>, with the list options and error
  predicates of \<open>agent/api/v1/models/models.go\<close>. The transport and the server behind it are one argument,
  a function from a request and its state to an error or a response. Paths are texts; names with
  characters that a URL reserves are outside the model. The loop over the pages may not end and is a
  partial function.
\<close>

section \<open>Errors\<close>

text \<open>An \<open>AgentError\<close> has a code when the body was an error response with a message; otherwise its message
  is the raw body, which is not modelled.\<close>

datatype client_error = RequestError string | DecodeError | AgentError int "err_code option" string

fun has_status :: "int \<Rightarrow> client_error \<Rightarrow> bool" where
  "has_status s (AgentError st _ _) = (st = s)"
| "has_status s _ = False"

definition IsConflict :: "client_error \<Rightarrow> bool" where "IsConflict e = has_status 409 e"
definition IsNotFound :: "client_error \<Rightarrow> bool" where "IsNotFound e = has_status 404 e"
definition IsLocked :: "client_error \<Rightarrow> bool" where "IsLocked e = has_status 423 e"

section \<open>The client\<close>

record client =
  cl_url :: string
  cl_token :: string
  cl_identity :: string
  cl_pageLimit :: int
  cl_prefetch :: int
  cl_prefetchBytes :: int

record ClientConfig =
  cc_Identity :: string
  cc_PageLimit :: int
  cc_Prefetch :: int
  cc_PrefetchMB :: int

definition newClient :: "string \<Rightarrow> string \<Rightarrow> ClientConfig \<Rightarrow> string + client" where
  "newClient url token cfg =
     (if url = [] then Inl ''agent URL must not be empty''
      else if token = [] then Inl ''agent token must not be empty''
      else Inr \<lparr>cl_url = url, cl_token = token, cl_identity = cc_Identity cfg, cl_pageLimit = cc_PageLimit cfg,
        cl_prefetch = cc_Prefetch cfg, cl_prefetchBytes = cc_PrefetchMB cfg * 1024 * 1024\<rparr>)"

text \<open>\<open>NewClient\<close> reads its configuration from the environment; \<open>None\<close> is a failed parse. The fallback of
  \<open>NewClient\<close> has no prefetching, the one of \<open>DefaultClientConfig\<close> has.\<close>

definition NewClient :: "ClientConfig option \<Rightarrow> string \<Rightarrow> string \<Rightarrow> string \<Rightarrow> string + client" where
  "NewClient parsed url token identity =
     (let cfg = (case parsed of Some cfg \<Rightarrow> cfg | None \<Rightarrow> \<lparr>cc_Identity = [], cc_PageLimit = 0, cc_Prefetch = 0, cc_PrefetchMB = 0\<rparr>)
      in newClient url token (if cc_Identity cfg = [] then cfg\<lparr>cc_Identity := identity\<rparr> else cfg))"

definition NewClientWithConfig :: "string \<Rightarrow> string \<Rightarrow> ClientConfig \<Rightarrow> string + client" where
  "NewClientWithConfig url token cfg = newClient url token cfg"

definition DefaultClientConfig :: "ClientConfig option \<Rightarrow> ClientConfig" where
  "DefaultClientConfig parsed = (case parsed of Some cfg \<Rightarrow> cfg
     | None \<Rightarrow> \<lparr>cc_Identity = [], cc_PageLimit = 0, cc_Prefetch = 8, cc_PrefetchMB = 4\<rparr>)"

definition ensureIdentity :: "client \<Rightarrow> labels \<Rightarrow> labels" where
  "ensureIdentity c ls = (if map_of ls LabelCreatedBy = None then AList.update LabelCreatedBy (cl_identity c) ls else ls)"

type_synonym ('f, 's) transport = "request \<Rightarrow> 's \<Rightarrow> (string + 'f response) \<times> 's"

definition agent_error :: "'f response \<Rightarrow> client_error" where
  "agent_error rs = (case rs_Body rs of
       BError e \<Rightarrow> if err_Error e \<noteq> [] then AgentError (rs_Status rs) (Some (err_Code e)) (err_Error e) else AgentError (rs_Status rs) None []
     | _ \<Rightarrow> AgentError (rs_Status rs) None [])"

text \<open>\<open>do\<close>: the error and the body to decode. On a conflict both are there.\<close>

definition client_do :: "('f, 's) transport \<Rightarrow> client \<Rightarrow> http_method \<Rightarrow> string \<Rightarrow> url_query \<Rightarrow> req_body \<Rightarrow> 's \<Rightarrow>
    (client_error option \<times> 'f body option) \<times> 's" where
  "client_do http c m path q b st =
     (case http \<lparr>rq_Method = m, rq_Path = path, rq_Query = q, rq_Auth = ''Bearer '' @ cl_token c, rq_Body = b\<rparr> st of
        (Inl e, st1) \<Rightarrow> ((Some (RequestError e), None), st1)
      | (Inr rs, st1) \<Rightarrow>
          (if rs_Status rs \<ge> 400 then (Some (agent_error rs), if rs_Status rs = 409 then Some (rs_Body rs) else None)
           else (None, Some (rs_Body rs)), st1))"

text \<open>Decoding a body into a result that starts as the zero value: an empty body and an error response
  leave it; a body of another kind is a decoding error.\<close>

definition unmarshal :: "'r \<Rightarrow> ('f body \<Rightarrow> 'r option) \<Rightarrow> 'f body \<Rightarrow> 'r option" where
  "unmarshal zero sel b = (case b of NoContent \<Rightarrow> Some zero | BError _ \<Rightarrow> Some zero | _ \<Rightarrow> sel b)"

definition zero_volume :: VolumeDetailResponse where
  "zero_volume = \<lparr>vd_Name = [], vd_CreatedBy = [], vd_Path = [], vd_SizeBytes = 0, vd_NoCOW = False, vd_Compression = [], vd_QuotaBytes = 0,
     vd_UsedBytes = 0, vd_UID = 0, vd_GID = 0, vd_Mode = [], vd_Labels = [], vd_Exports = [], vd_CreatedAt = 0, vd_UpdatedAt = 0,
     vd_LastAttachAt = None\<rparr>"

definition zero_snapshot :: SnapshotDetailResponse where
  "zero_snapshot = \<lparr>sd_Name = [], sd_CreatedBy = [], sd_Volume = [], sd_Path = [], sd_SizeBytes = 0, sd_UsedBytes = 0, sd_ExclusiveBytes = 0,
     sd_QuotaBytes = 0, sd_NoCOW = False, sd_Compression = [], sd_UID = 0, sd_GID = 0, sd_Mode = [], sd_Labels = [], sd_CreatedAt = 0,
     sd_UpdatedAt = 0\<rparr>"

definition zero_task_detail :: TaskDetailResponse where
  "zero_task_detail = \<lparr>td_ID = [], td_Type = [], td_CreatedBy = [], td_Status = [], td_Progress = 0, td_Opts = [], td_Labels = [],
     td_Timeout = [], td_Result = None, td_Error = [], td_CreatedAt = 0, td_StartedAt = None, td_CompletedAt = None\<rparr>"

definition volume_of :: "'f body \<Rightarrow> VolumeDetailResponse option" where
  "volume_of = unmarshal zero_volume (\<lambda>b. case b of BVolume v \<Rightarrow> Some v | _ \<Rightarrow> None)"
definition snapshot_of :: "'f body \<Rightarrow> SnapshotDetailResponse option" where
  "snapshot_of = unmarshal zero_snapshot (\<lambda>b. case b of BSnapshot v \<Rightarrow> Some v | _ \<Rightarrow> None)"
definition task_of :: "'f body \<Rightarrow> TaskDetailResponse option" where
  "task_of = unmarshal zero_task_detail (\<lambda>b. case b of BTask v \<Rightarrow> Some v | _ \<Rightarrow> None)"
definition created_task_of :: "'f body \<Rightarrow> TaskCreateResponse option" where
  "created_task_of = unmarshal \<lparr>tc_TaskID = [], tc_Status = []\<rparr> (\<lambda>b. case b of BTaskCreated v \<Rightarrow> Some v | _ \<Rightarrow> None)"

text \<open>The three shapes of the operations: create (the existing record comes with the conflict), fetch,
  and act.\<close>

definition create_call :: "('f body \<Rightarrow> 'r option) \<Rightarrow> 'r \<Rightarrow> (client_error option \<times> 'f body option) \<times> 's \<Rightarrow> ('r option \<times> client_error option) \<times> 's" where
  "create_call decode zero r = (case r of ((err, b), st) \<Rightarrow>
     (case err of
        Some e \<Rightarrow> if IsConflict e then (Some (case b of None \<Rightarrow> zero | Some x \<Rightarrow> (case decode x of None \<Rightarrow> zero | Some v \<Rightarrow> v)), Some e)
                  else (None, Some e)
      | None \<Rightarrow> (case b of None \<Rightarrow> (Some zero, None)
                  | Some x \<Rightarrow> (case decode x of None \<Rightarrow> (None, Some DecodeError) | Some v \<Rightarrow> (Some v, None))), st))"

definition fetch_call :: "('f body \<Rightarrow> 'r option) \<Rightarrow> (client_error option \<times> 'f body option) \<times> 's \<Rightarrow> (client_error + 'r) \<times> 's" where
  "fetch_call decode r = (case r of ((err, b), st) \<Rightarrow>
     (case err of
        Some e \<Rightarrow> Inl e
      | None \<Rightarrow> (case Option.bind b decode of None \<Rightarrow> Inl DecodeError | Some v \<Rightarrow> Inr v), st))"

definition act_call :: "(client_error option \<times> 'f body option) \<times> 's \<Rightarrow> client_error option \<times> 's" where
  "act_call r = (case r of ((err, b), st) \<Rightarrow> (err, st))"

section \<open>Operations\<close>

definition c_CreateVolume :: "('f, 's) transport \<Rightarrow> client \<Rightarrow> VolumeCreateRequest \<Rightarrow> 's \<Rightarrow> (VolumeDetailResponse option \<times> client_error option) \<times> 's" where
  "c_CreateVolume http c req st = create_call volume_of zero_volume
     (client_do http c POST ''/v1/volumes'' [] (RVolumeCreate (req\<lparr>vcr_Labels := ensureIdentity c (vcr_Labels req)\<rparr>)) st)"

definition c_DeleteVolume :: "('f, 's) transport \<Rightarrow> client \<Rightarrow> string \<Rightarrow> 's \<Rightarrow> client_error option \<times> 's" where
  "c_DeleteVolume http c name st = act_call (client_do http c DELETE (''/v1/volumes/'' @ name) [] EmptyBody st)"

definition c_UpdateVolume :: "('f, 's) transport \<Rightarrow> client \<Rightarrow> string \<Rightarrow> VolumeUpdateRequest \<Rightarrow> 's \<Rightarrow> (client_error + VolumeDetailResponse) \<times> 's" where
  "c_UpdateVolume http c name req st = fetch_call volume_of (client_do http c PATCH (''/v1/volumes/'' @ name) [] (RVolumeUpdate req) st)"

definition c_GetVolume :: "('f, 's) transport \<Rightarrow> client \<Rightarrow> string \<Rightarrow> 's \<Rightarrow> (client_error + VolumeDetailResponse) \<times> 's" where
  "c_GetVolume http c name st = fetch_call volume_of (client_do http c GET (''/v1/volumes/'' @ name) [] EmptyBody st)"

definition c_CreateSnapshot :: "('f, 's) transport \<Rightarrow> client \<Rightarrow> SnapshotCreateRequest \<Rightarrow> 's \<Rightarrow> (SnapshotDetailResponse option \<times> client_error option) \<times> 's" where
  "c_CreateSnapshot http c req st = create_call snapshot_of zero_snapshot
     (client_do http c POST ''/v1/snapshots'' [] (RSnapshotCreate (req\<lparr>scr_Labels := ensureIdentity c (scr_Labels req)\<rparr>)) st)"

definition c_DeleteSnapshot :: "('f, 's) transport \<Rightarrow> client \<Rightarrow> string \<Rightarrow> 's \<Rightarrow> client_error option \<times> 's" where
  "c_DeleteSnapshot http c name st = act_call (client_do http c DELETE (''/v1/snapshots/'' @ name) [] EmptyBody st)"

definition c_GetSnapshot :: "('f, 's) transport \<Rightarrow> client \<Rightarrow> string \<Rightarrow> 's \<Rightarrow> (client_error + SnapshotDetailResponse) \<times> 's" where
  "c_GetSnapshot http c name st = fetch_call snapshot_of (client_do http c GET (''/v1/snapshots/'' @ name) [] EmptyBody st)"

definition c_CreateClone :: "('f, 's) transport \<Rightarrow> client \<Rightarrow> CloneCreateRequest \<Rightarrow> 's \<Rightarrow> (VolumeDetailResponse option \<times> client_error option) \<times> 's" where
  "c_CreateClone http c req st = create_call volume_of zero_volume
     (client_do http c POST ''/v1/clones'' [] (RCloneCreate (req\<lparr>ccr_Labels := ensureIdentity c (ccr_Labels req)\<rparr>)) st)"

definition c_CloneVolume :: "('f, 's) transport \<Rightarrow> client \<Rightarrow> VolumeCloneRequest \<Rightarrow> 's \<Rightarrow> (VolumeDetailResponse option \<times> client_error option) \<times> 's" where
  "c_CloneVolume http c req st = create_call volume_of zero_volume
     (client_do http c POST ''/v1/volumes/clone'' [] (RVolumeClone (req\<lparr>vlr_Labels := ensureIdentity c (vlr_Labels req)\<rparr>)) st)"

definition c_CreateVolumeExport :: "('f, 's) transport \<Rightarrow> client \<Rightarrow> string \<Rightarrow> string \<Rightarrow> labels \<Rightarrow> 's \<Rightarrow> client_error option \<times> 's" where
  "c_CreateVolumeExport http c name cl ls st = act_call (client_do http c POST (''/v1/volumes/'' @ name @ ''/export'') []
     (RExport \<lparr>xr_Client = cl, xr_Labels = Some (ensureIdentity c ls)\<rparr>) st)"

text \<open>The tag \<open>omitempty\<close> drops an empty map of labels.\<close>

definition c_DeleteVolumeExport :: "('f, 's) transport \<Rightarrow> client \<Rightarrow> string \<Rightarrow> string \<Rightarrow> labels \<Rightarrow> 's \<Rightarrow> client_error option \<times> 's" where
  "c_DeleteVolumeExport http c name cl ls st = act_call (client_do http c DELETE (''/v1/volumes/'' @ name @ ''/export'') []
     (RExport \<lparr>xr_Client = cl, xr_Labels = (if ls = [] then None else Some ls)\<rparr>) st)"

definition c_CreateTask :: "('f, 's) transport \<Rightarrow> client \<Rightarrow> string \<Rightarrow> TaskCreateRequest \<Rightarrow> 's \<Rightarrow> (client_error + TaskCreateResponse) \<times> 's" where
  "c_CreateTask http c taskType req st = fetch_call created_task_of
     (client_do http c POST (''/v1/tasks/'' @ taskType) [] (RTaskCreate (req\<lparr>tq_Labels := ensureIdentity c (tq_Labels req)\<rparr>)) st)"

definition c_GetTask :: "('f, 's) transport \<Rightarrow> client \<Rightarrow> string \<Rightarrow> 's \<Rightarrow> (client_error + TaskDetailResponse) \<times> 's" where
  "c_GetTask http c i st = fetch_call task_of (client_do http c GET (''/v1/tasks/'' @ i) [] EmptyBody st)"

definition c_CancelTask :: "('f, 's) transport \<Rightarrow> client \<Rightarrow> string \<Rightarrow> 's \<Rightarrow> client_error option \<times> 's" where
  "c_CancelTask http c i st = act_call (client_do http c DELETE (''/v1/tasks/'' @ i) [] EmptyBody st)"

definition zero_stats :: "'f \<Rightarrow> 'f StatsResponse" where
  "zero_stats z = \<lparr>st_TenantName = [], st_Statfs = \<lparr>sf_TotalBytes = 0, sf_UsedBytes = 0, sf_FreeBytes = 0\<rparr>,
     st_Btrfs = \<lparr>fr_TotalBytes = 0, fr_UsedBytes = 0, fr_FreeBytes = 0, fr_UnallocatedBytes = 0, fr_MetadataUsedBytes = 0,
       fr_MetadataTotalBytes = 0, fr_DataRatio = z, fr_Devices = []\<rparr>\<rparr>"

definition c_Stats :: "'f \<Rightarrow> ('f, 's) transport \<Rightarrow> client \<Rightarrow> 's \<Rightarrow> (client_error + 'f StatsResponse) \<times> 's" where
  "c_Stats z http c st = fetch_call (unmarshal (zero_stats z) (\<lambda>b. case b of BStats s \<Rightarrow> Some s | _ \<Rightarrow> None))
     (client_do http c GET ''/v1/stats'' [] EmptyBody st)"

definition c_Healthz :: "('f, 's) transport \<Rightarrow> client \<Rightarrow> 's \<Rightarrow> (client_error + HealthResponse) \<times> 's" where
  "c_Healthz http c st = fetch_call (unmarshal \<lparr>hr_Status = [], hr_Version = [], hr_Commit = [], hr_UptimeSeconds = 0\<rparr>
       (\<lambda>b. case b of BHealth s \<Rightarrow> Some s | _ \<Rightarrow> None))
     (client_do http c GET ''/healthz'' [] EmptyBody st)"

section \<open>Lists\<close>

record ListOpts =
  lo_After :: string
  lo_Limit :: int
  lo_Labels :: "string list"

definition query_set :: "string \<Rightarrow> string \<Rightarrow> url_query \<Rightarrow> url_query" where
  "query_set k v q = filter (\<lambda>p. fst p \<noteq> k) q @ [(k, v)]"

definition GenerateLabelQuery :: "string list \<Rightarrow> url_query" where
  "GenerateLabelQuery ls = map (\<lambda>l. (''label'', l)) ls"

definition Query :: "ListOpts \<Rightarrow> int \<Rightarrow> url_query" where
  "Query o1 defaultLimit =
     (let q = GenerateLabelQuery (lo_Labels o1);
          q1 = (if lo_After o1 \<noteq> [] then query_set ''after'' (lo_After o1) q else q);
          limit = (if lo_Limit o1 < 0 then defaultLimit else lo_Limit o1)
      in if limit > 0 then query_set ''limit'' (show_int limit) q1 else q1)"

text \<open>\<open>fetch\<close> of \<open>paginate\<close>: one page, or the error.\<close>

definition fetch_page :: "('f body \<Rightarrow> 'r ListResponse option) \<Rightarrow> ('f, 's) transport \<Rightarrow> client \<Rightarrow> string \<Rightarrow> url_query \<Rightarrow> string \<Rightarrow> 's \<Rightarrow>
    (client_error + 'r ListResponse) \<times> 's" where
  "fetch_page decode http c path q after st =
     fetch_call decode (client_do http c GET path (if after \<noteq> [] then query_set ''after'' after q else q) EmptyBody st)"

text \<open>The sequential loop, collecting all items, and with a callback that has a state of its own.\<close>

partial_function (option) collect_pages ::
  "(string \<Rightarrow> 's \<Rightarrow> (client_error + 'r ListResponse) \<times> 's) \<Rightarrow> string \<Rightarrow> 'r list \<Rightarrow> 's \<Rightarrow> ((client_error + 'r list \<times> int) \<times> 's) option" where
  "collect_pages fetch after acc st = (case fetch after st of
       (Inl e, st1) \<Rightarrow> Some (Inl e, st1)
     | (Inr p, st1) \<Rightarrow>
         if lr_Next p = [] then Some (Inr (acc @ lr_Items p, lr_Total p), st1)
         else collect_pages fetch (lr_Next p) (acc @ lr_Items p) st1)"

partial_function (option) call_pages ::
  "(string \<Rightarrow> 's \<Rightarrow> (client_error + 'r ListResponse) \<times> 's) \<Rightarrow> ('r list \<Rightarrow> 'c \<Rightarrow> client_error option \<times> 'c) \<Rightarrow> string \<Rightarrow> 'c \<Rightarrow> 's \<Rightarrow>
   ((client_error + int) \<times> 'c \<times> 's) option" where
  "call_pages fetch fn after cs st = (case fetch after st of
       (Inl e, st1) \<Rightarrow> Some (Inl e, cs, st1)
     | (Inr p, st1) \<Rightarrow> (case fn (lr_Items p) cs of
         (Some e, cs1) \<Rightarrow> Some (Inl e, cs1, st1)
       | (None, cs1) \<Rightarrow>
           if lr_Next p = [] then Some (Inr (lr_Total p), cs1, st1) else call_pages fetch fn (lr_Next p) cs1 st1))"

definition list_all_pages :: "('f body \<Rightarrow> 'r ListResponse option) \<Rightarrow> ('f, 's) transport \<Rightarrow> client \<Rightarrow> string \<Rightarrow> url_query \<Rightarrow> 's \<Rightarrow>
    ((client_error + 'r list \<times> int) \<times> 's) option" where
  "list_all_pages decode http c path q st = collect_pages (fetch_page decode http c path q) [] [] st"

definition list_volumes_of :: "'f body \<Rightarrow> VolumeResponse ListResponse option" where
  "list_volumes_of b = (case b of BVolumes r \<Rightarrow> Some r | _ \<Rightarrow> None)"
definition list_volume_details_of :: "'f body \<Rightarrow> VolumeDetailResponse ListResponse option" where
  "list_volume_details_of b = (case b of BVolumeDetails r \<Rightarrow> Some r | _ \<Rightarrow> None)"
definition list_snapshots_of :: "'f body \<Rightarrow> SnapshotResponse ListResponse option" where
  "list_snapshots_of b = (case b of BSnapshots r \<Rightarrow> Some r | _ \<Rightarrow> None)"
definition list_snapshot_details_of :: "'f body \<Rightarrow> SnapshotDetailResponse ListResponse option" where
  "list_snapshot_details_of b = (case b of BSnapshotDetails r \<Rightarrow> Some r | _ \<Rightarrow> None)"
definition list_exports_of :: "'f body \<Rightarrow> ExportResponse ListResponse option" where
  "list_exports_of b = (case b of BExports r \<Rightarrow> Some r | _ \<Rightarrow> None)"
definition list_export_details_of :: "'f body \<Rightarrow> ExportDetailResponse ListResponse option" where
  "list_export_details_of b = (case b of BExportDetails r \<Rightarrow> Some r | _ \<Rightarrow> None)"
definition list_tasks_of :: "'f body \<Rightarrow> TaskResponse ListResponse option" where
  "list_tasks_of b = (case b of BTasks r \<Rightarrow> Some r | _ \<Rightarrow> None)"
definition list_task_details_of :: "'f body \<Rightarrow> TaskDetailResponse ListResponse option" where
  "list_task_details_of b = (case b of BTaskDetails r \<Rightarrow> Some r | _ \<Rightarrow> None)"

definition c_ListVolumes where
  "c_ListVolumes http c opts st = list_all_pages list_volumes_of http c ''/v1/volumes'' (Query opts (cl_pageLimit c)) st"
definition c_ListVolumesDetail where
  "c_ListVolumesDetail http c opts st = list_all_pages list_volume_details_of http c ''/v1/volumes''
     (query_set ''detail'' ''true'' (Query opts (cl_pageLimit c))) st"
definition c_ListSnapshots where
  "c_ListSnapshots http c opts st = list_all_pages list_snapshots_of http c ''/v1/snapshots'' (Query opts (cl_pageLimit c)) st"
definition c_ListSnapshotsDetail where
  "c_ListSnapshotsDetail http c opts st = list_all_pages list_snapshot_details_of http c ''/v1/snapshots''
     (query_set ''detail'' ''true'' (Query opts (cl_pageLimit c))) st"
definition c_ListVolumeSnapshots where
  "c_ListVolumeSnapshots http c volume opts st = list_all_pages list_snapshots_of http c (''/v1/volumes/'' @ volume @ ''/snapshots'')
     (Query opts (cl_pageLimit c)) st"
definition c_ListVolumeSnapshotsDetail where
  "c_ListVolumeSnapshotsDetail http c volume opts st = list_all_pages list_snapshot_details_of http c (''/v1/volumes/'' @ volume @ ''/snapshots'')
     (query_set ''detail'' ''true'' (Query opts (cl_pageLimit c))) st"
definition c_ListVolumeExports where
  "c_ListVolumeExports http c opts st = list_all_pages list_exports_of http c ''/v1/exports'' (Query opts (cl_pageLimit c)) st"
definition c_ListVolumeExportsDetail where
  "c_ListVolumeExportsDetail http c opts st = list_all_pages list_export_details_of http c ''/v1/exports''
     (query_set ''detail'' ''true'' (Query opts (cl_pageLimit c))) st"
definition c_ListTasks where
  "c_ListTasks http c taskType opts st = list_all_pages list_tasks_of http c ''/v1/tasks''
     ((if taskType \<noteq> [] then query_set ''type'' taskType else id) (Query opts (cl_pageLimit c))) st"
definition c_ListTasksDetail where
  "c_ListTasksDetail http c taskType opts st = list_all_pages list_task_details_of http c ''/v1/tasks''
     ((if taskType \<noteq> [] then query_set ''type'' taskType else id) (query_set ''detail'' ''true'' (Query opts (cl_pageLimit c)))) st"

end
