(* ===== verification/ApiProps.thy ===== *)
theory ApiProps
  imports Api Tenants Demo
begin

text \<open>
  Properties of the HTTP layer: authentication, isolation of tenants, and the bounds of the pagination
  in every run of the agent.
\<close>

section \<open>Isolation\<close>

lemma store_simps [simp]:
  "snd (store_state a) = ag_store a"
  "ag_store (set_store st a) = snd st"
  by (simp_all add: store_state_def set_store_def)

definition foreign_handler :: "'f handler \<Rightarrow> bool" where
  "foreign_handler h \<longleftrightarrow> (\<forall>t a. ValidName t \<longrightarrow> foreign t (ag_store a) (ag_store (snd (h t a))))"

lemma list_response_store [simp]: "ag_store (snd (list_response wrap r a)) = ag_store a"
  by (simp add: list_response_def split: prod.split)

lemma created_volume_store [simp]: "ag_store (snd (created_volume env r a)) = snd (snd r)"
  by (simp add: created_volume_def split: prod.split)

lemma done_response_store [simp]: "ag_store (snd (done_response env r a)) = snd (snd r)"
  by (simp add: done_response_def split: prod.split)

lemma foreign_result: "(\<And>r st'. X = (r, st') \<Longrightarrow> foreign t (snd st) (snd st')) \<Longrightarrow> foreign t (snd st) (snd (snd X))"
  by (cases X) simp

lemma foreign_ops:
  assumes "ValidName t"
  shows "foreign t (snd (store_state a)) (snd (snd (CreateVolume l t cr (store_state a))))"
    and "foreign t (snd (store_state a)) (snd (snd (CloneVolume l t vl (store_state a))))"
    and "foreign t (snd (store_state a)) (snd (snd (CreateClone l t cc (store_state a))))"
    and "foreign t (snd (store_state a)) (snd (snd (CreateSnapshot l t sc (store_state a))))"
    and "foreign t (snd (store_state a)) (snd (snd (GetVolume t n (store_state a))))"
    and "foreign t (snd (store_state a)) (snd (snd (GetSnapshot t n (store_state a))))"
    and "foreign t (snd (store_state a)) (snd (snd (UpdateVolume t n ur (store_state a))))"
    and "foreign t (snd (store_state a)) (snd (snd (DeleteVolume t n (store_state a))))"
    and "foreign t (snd (store_state a)) (snd (snd (DeleteSnapshot t n (store_state a))))"
    and "foreign t (snd (store_state a)) (snd (snd (CreateVolumeExport t n c ls (store_state a))))"
    and "foreign t (snd (store_state a)) (snd (snd (DeleteVolumeExport t n c ols (store_state a))))"
  by (rule foreign_result, erule foreign_CreateVolume[OF assms], rule foreign_result, erule foreign_CloneVolume[OF assms], rule foreign_result, erule foreign_CreateClone[OF assms], rule foreign_result, erule foreign_CreateSnapshot[OF assms], 
      rule foreign_result, erule foreign_GetVolume[OF assms], rule foreign_result, erule foreign_GetSnapshot[OF assms], rule foreign_result, erule foreign_UpdateVolume[OF assms], rule foreign_result, erule foreign_DeleteVolume[OF assms], 
      rule foreign_result, erule foreign_DeleteSnapshot[OF assms], rule foreign_result, erule foreign_CreateVolumeExport[OF assms], rule foreign_result, erule foreign_DeleteVolumeExport[OF assms])

lemmas foreign_store = foreign_ops[unfolded store_simps]

lemma task_handlers_store [simp]:
  "ag_store (snd (started_task env r a)) = ag_store a"
  "ag_store (snd (h_CancelTask env i a)) = ag_store a"
  "ag_store (snd (h_GetTask env i a)) = ag_store a"
  "ag_store (snd (h_Stats env t a)) = ag_store a"
  "ag_store (snd (h_ListTasks ch q a)) = ag_store a"
  by (auto simp: started_task_def h_CancelTask_def h_GetTask_def h_Stats_def h_ListTasks_def Let_def split: prod.split sum.split option.split)

lemma store_handlers_store [simp]:
  "ag_store (snd (h_GetVolume env n t a)) = snd (snd (GetVolume t n (store_state a)))"
  "ag_store (snd (h_GetSnapshot env n t a)) = snd (snd (GetSnapshot t n (store_state a)))"
  "ag_store (snd (h_UpdateVolume env n (Some ur) t a)) = snd (snd (UpdateVolume t n ur (store_state a)))"
  "ag_store (snd (h_CreateSnapshot env ch (Some sr) t a)) = snd (snd (CreateSnapshot (ch_locked ch) t sr (store_state a)))"
  by (simp_all add: h_GetVolume_def h_GetSnapshot_def h_UpdateVolume_def h_CreateSnapshot_def split: prod.split sum.split)

lemma foreign_handlers:
  "foreign_handler (h_CreateVolume env ch cb)" "foreign_handler (h_ListVolumes env ch q)" "foreign_handler (h_GetVolume env n)"
  "foreign_handler (h_UpdateVolume env n ub)" "foreign_handler (h_DeleteVolume env n)" "foreign_handler (h_CloneVolume env ch lb)"
  "foreign_handler (h_CreateClone env ch kb)" "foreign_handler (h_CreateSnapshot env ch sb)" "foreign_handler (listSnapshotsPage env ch q v)"
  "foreign_handler (h_GetSnapshot env n)" "foreign_handler (h_DeleteSnapshot env n)" "foreign_handler (h_CreateVolumeExport env n xb)"
  "foreign_handler (h_DeleteVolumeExport env n xb)" "foreign_handler (h_ListVolumeExports env ch q)" "foreign_handler (h_Stats env)"
  "foreign_handler (\<lambda>_. h_ListTasks ch q)" "foreign_handler (\<lambda>_. h_GetTask env i)" "foreign_handler (\<lambda>_. h_CancelTask env i)"
  "foreign_handler (\<lambda>_. h_CreateTask env ch ty tb)"
proof (goal_cases)
  case 4
  show ?case by (cases ub) (simp_all add: foreign_store foreign_handler_def h_UpdateVolume_def[where body = None])
next
  case 8
  show ?case by (cases sb) (simp_all add: foreign_store foreign_handler_def h_CreateSnapshot_def[where body = None])
qed (simp_all add: foreign_store foreign_handler_def h_CreateVolume_def h_ListVolumes_def h_DeleteVolume_def h_CloneVolume_def h_CreateClone_def
  listSnapshotsPage_def h_DeleteSnapshot_def h_CreateVolumeExport_def h_DeleteVolumeExport_def h_ListVolumeExports_def
  h_CreateTask_def Let_def split: option.split sum.split)

lemma route_foreign:
  assumes "route env ch m q b p = Some h"
  shows "foreign_handler h"
  using assms foreign_handlers
  by (auto simp: route_def volume_routes_def snapshot_routes_def task_routes_def h_ListSnapshots_def h_ListVolumeSnapshots_def
      split: list.splits if_splits http_method.splits)

section \<open>The pages of the agent\<close>

definition keeps_pages :: "string \<Rightarrow> 'f handler \<Rightarrow> bool" where
  "keeps_pages i h \<longleftrightarrow> (\<forall>t a. pager_inv (ag_pager a) \<longrightarrow> snap_of (ag_pager a) i = None \<longrightarrow> pager_inv (ag_pager (snd (h t a))))"

lemma pager_simps [simp]:
  "ag_pager (set_store st a) = ag_pager a"
  "ag_pager (snd (list_response wrap r a)) = snd r"
  "ag_pager (snd (created_volume env cv a)) = ag_pager a"
  "ag_pager (snd (done_response env d a)) = ag_pager a"
  "ag_pager (snd (started_task env st1 a)) = ag_pager a"
  by (simp_all add: set_store_def list_response_def created_volume_def done_response_def started_task_def split: prod.split sum.split)

lemma other_handlers_pager [simp]:
  "ag_pager (snd (h_CreateVolume env ch cb t a)) = ag_pager a" "ag_pager (snd (h_GetVolume env n t a)) = ag_pager a"
  "ag_pager (snd (h_UpdateVolume env n ub t a)) = ag_pager a" "ag_pager (snd (h_DeleteVolume env n t a)) = ag_pager a"
  "ag_pager (snd (h_CloneVolume env ch lb t a)) = ag_pager a" "ag_pager (snd (h_CreateClone env ch kb t a)) = ag_pager a"
  "ag_pager (snd (h_CreateSnapshot env ch sb t a)) = ag_pager a" "ag_pager (snd (h_GetSnapshot env n t a)) = ag_pager a"
  "ag_pager (snd (h_DeleteSnapshot env n t a)) = ag_pager a" "ag_pager (snd (h_CreateVolumeExport env n xb t a)) = ag_pager a"
  "ag_pager (snd (h_DeleteVolumeExport env n xb t a)) = ag_pager a" "ag_pager (snd (h_Stats env t a)) = ag_pager a"
  "ag_pager (snd (h_GetTask env i a)) = ag_pager a" "ag_pager (snd (h_CancelTask env i a)) = ag_pager a"
  "ag_pager (snd (h_CreateTask env ch ty tb a)) = ag_pager a"
  by (simp_all add: h_CreateVolume_def h_GetVolume_def h_UpdateVolume_def h_DeleteVolume_def h_CloneVolume_def h_CreateClone_def
      h_CreateSnapshot_def h_GetSnapshot_def h_DeleteSnapshot_def h_CreateVolumeExport_def h_DeleteVolumeExport_def h_Stats_def
      h_GetTask_def h_CancelTask_def h_CreateTask_def split: option.split prod.split sum.split)

lemma list_handlers_pages:
  "keeps_pages (ch_snapID ch) (h_ListVolumes env ch q)" "keeps_pages (ch_snapID ch) (listSnapshotsPage env ch q v)"
  "keeps_pages (ch_snapID ch) (h_ListVolumeExports env ch q)" "keeps_pages (ch_snapID ch) (\<lambda>_. h_ListTasks ch q)"
  by (simp_all add: keeps_pages_def h_ListVolumes_def listSnapshotsPage_def h_ListVolumeExports_def h_ListTasks_def Let_def
      paginatedList_inv split: sum.split)

lemma keeps_pages_other: "(\<And>t a. ag_pager (snd (h t a)) = ag_pager a) \<Longrightarrow> keeps_pages i h"
  by (simp add: keeps_pages_def)

lemma route_pages:
  assumes "route env ch m q b p = Some h"
  shows "keeps_pages (ch_snapID ch) h"
  using assms list_handlers_pages[of ch]
  by (auto simp: route_def volume_routes_def snapshot_routes_def task_routes_def h_ListSnapshots_def h_ListVolumeSnapshots_def
      keeps_pages_other split: list.splits if_splits http_method.splits)

text \<open>A run of the agent: requests with fresh random identifiers, timers, and everything that does not
  concern the pages.\<close>

inductive api_step :: "'f api_env \<Rightarrow> 'f agent \<Rightarrow> 'f agent \<Rightarrow> bool" for env where
  request: "serve env ch rq a = Some (rs, a') \<Longrightarrow> snap_of (ag_pager a) (ch_snapID ch) = None \<Longrightarrow> api_step env a a'"
| timer: "api_step env a (a\<lparr>ag_pager := expire t (ag_pager a)\<rparr>)"
| background: "ag_pager a' = ag_pager a \<Longrightarrow> api_step env a a'"

inductive_cases api_stepE: "api_step env a a'"

lemma serve_pages:
  assumes "serve env ch rq a = Some (rs, a')" "snap_of (ag_pager a) (ch_snapID ch) = None" "pager_inv (ag_pager a)"
  shows "pager_inv (ag_pager a')"
proof (cases "ag_pager a' = ag_pager a")
  case False
  then obtain h r where r: "route env ch (rq_Method rq) (rq_Query rq) (rq_Body rq) r = Some h"
      "AuthMiddleware (env_tenants env) h (rq_Auth rq) a = (rs, a')"
    using assms(1) by (auto simp: serve_def Healthz_def split: list.splits if_splits)
  then obtain t where "h t a = (rs, a')" using False by (auto simp: AuthMiddleware_def split: option.splits)
  then show ?thesis using route_pages[OF r(1)] assms(2,3) unfolding keeps_pages_def by (metis snd_conv)
qed (use assms in simp)

lemma api_step_pages: "api_step env a a' \<Longrightarrow> pager_inv (ag_pager a) \<Longrightarrow> pager_inv (ag_pager a')"
  by (erule api_stepE) (auto simp: serve_pages expire_inv)

lemma api_run_pages: "(api_step env)\<^sup>*\<^sup>* a a' \<Longrightarrow> pager_inv (ag_pager a) \<Longrightarrow> pager_inv (ag_pager a')"
  by (induction rule: rtranclp_induct) (auto simp: api_step_pages)

section \<open>Properties\<close>

text \<open>C21: nothing below \<open>/v1\<close> happens without a token. A request whose header holds no configured token is
  answered with 401 and leaves the agent exactly as it was.\<close>

theorem serve_unauthorized:
  assumes "serve env ch rq a = Some (rs, a')" "prefix ''/v1/'' (rq_Path rq)"
    and "case provided_token (rq_Auth rq) of None \<Rightarrow> True | Some tok \<Rightarrow> map_of (env_tenants env) tok = None"
  shows "rs_Status rs = 401 \<and> a' = a"
proof -
  obtain p where p: "rq_Path rq = ''/v1/'' @ p" using assms(2) by (auto simp: prefix_def)
  have "split_on CHR ''/'' (rq_Path rq) = [] # ''v1'' # split_on CHR ''/'' p"
    unfolding p using split_on_append[of "CHR ''/''" "[]" "''v1/'' @ p"] split_on_append[of "CHR ''/''" "''v1''" p] by simp
  then obtain h where "AuthMiddleware (env_tenants env) h (rq_Auth rq) a = (rs, a')" using assms(1) by (auto simp: serve_def)
  then show ?thesis using assms(3) by (auto simp: AuthMiddleware_def json_error_def JSON_def split: option.splits)
qed

text \<open>C22: a token opens one tenant. Whatever request is made, with whatever token, the cached volumes and
  snapshots of a tenant that the token does not belong to are the same afterwards.\<close>

theorem serve_isolation:
  assumes s: "serve env ch rq a = Some (rs, a')" and v: "\<forall>tenant \<in> snd ` set (env_tenants env). ValidName tenant" "ValidName t'"
    and n: "case provided_token (rq_Auth rq) of None \<Rightarrow> True | Some tok \<Rightarrow> map_of (env_tenants env) tok \<noteq> Some t'"
  shows "map_of (cache (st_volumes (ag_store a'))) (key t' name) = map_of (cache (st_volumes (ag_store a))) (key t' name) \<and>
    map_of (cache (st_snapshots (ag_store a'))) (key t' name) = map_of (cache (st_snapshots (ag_store a))) (key t' name)"
proof (cases "a' = a")
  case False
  then obtain h r where r: "route env ch (rq_Method rq) (rq_Query rq) (rq_Body rq) r = Some h"
      "AuthMiddleware (env_tenants env) h (rq_Auth rq) a = (rs, a')"
    using s by (auto simp: serve_def Healthz_def split: list.splits if_splits)
  then obtain tok t where t: "provided_token (rq_Auth rq) = Some tok" "map_of (env_tenants env) tok = Some t" "h t a = (rs, a')"
    using False by (auto simp: AuthMiddleware_def split: option.splits)
  have "ValidName t" using v(1) map_of_SomeD[OF t(2)] by force
  then have "foreign t (ag_store a) (ag_store a')" using route_foreign[OF r(1)] t(3) unfolding foreign_handler_def by (metis snd_conv)
  moreover have "t' \<noteq> t" using n t by auto
  ultimately show ?thesis using v(2) by (simp add: foreign_def)
qed simp


section \<open>An example\<close>

definition demo_api :: "unit api_env" where
  "demo_api = \<lparr>env_tenants = [(''secret'', ''t''), (''other'', ''u'')], env_message = (\<lambda>_. ''error''), env_statfs = (\<lambda>_. Inl ENOENT), env_zero = (),
     env_fr = (\<lambda>_ _ _. 0), env_version = ''1'', env_commit = ''c'', env_scrubTimeout = 0, env_defaultTimeout = 0\<rparr>"

definition demo_config :: agent_config where
  "demo_config = \<lparr>cf_BasePath = ''/d'', cf_Tenants = ''t:secret,u:other'', cf_TLSCert = [], cf_TLSKey = [], cf_NFSExporter = ''kernel'',
     cf_QuotaEnabled = True, cf_DefaultDirMode = ''0755'', cf_DefaultDataMode = ''2770'', cf_ImmutableLabels = [],
     cf_DefaultPageLimit = 0, cf_PaginationSnapshotTTL = 0, cf_PaginationMaxSnapshots = 0\<rparr>"

text \<open>Two tenants; one of them has two volumes.\<close>

definition two_volumes :: storage where
  "two_volumes = demo_storage\<lparr>st_tenants := [''t'', ''u''], st_volumes :=
     cache_put ''t'' ''w'' (demo_meta\<lparr>vm_Name := ''w''\<rparr>) (cache_put ''t'' ''v'' demo_meta (NewStore ''/d'' []))\<rparr>"

definition demo_agent :: "unit agent" where
  "demo_agent = \<lparr>ag_store = two_volumes,
     ag_tasks = init_tasks (set_node ''/d/u'' (new_dir 493) demo_world, \<lparr>tm_tasks = [], tm_taskDir = ''/d/tasks'', tm_max = 1, tm_pollInterval = 1\<rparr>),
     ag_devices = \<lparr>cachedDevices = None, cachedFilesystem = None\<rparr>, ag_pager = new_pager demo_config\<rparr>"

definition demo_choices :: choices where
  "demo_choices = \<lparr>ch_locked = True, ch_snapID = ''00ff'', ch_taskID = ''a'', ch_time = 5, ch_uptime = 1\<rparr>"

definition demo_request :: "http_method \<Rightarrow> string \<Rightarrow> url_query \<Rightarrow> string \<Rightarrow> req_body \<Rightarrow> request" where
  "demo_request m p q tok b = \<lparr>rq_Method = m, rq_Path = p, rq_Query = q, rq_Auth = ''Bearer '' @ tok, rq_Body = b\<rparr>"

text \<open>A request that must be served.\<close>

definition served :: "request \<Rightarrow> unit agent \<Rightarrow> unit response \<times> unit agent" where
  "served rq a = the (serve demo_api demo_choices rq a)"

lemma serve_served:
  "\<not> Option.is_none (serve demo_api demo_choices rq a) \<Longrightarrow> serve demo_api demo_choices rq a = Some (fst (served rq a), snd (served rq a))"
  by (simp add: served_def is_none_simps split: option.splits) (metis is_none_simps(1) not_None_eq option.sel)

theorem serve_unauthorized_witness:
  "rs_Status (fst (served (demo_request DELETE ''/v1/volumes/v'' [] ''guess'' EmptyBody) demo_agent)) = 401"
proof -
  have s: "\<not> Option.is_none (serve demo_api demo_choices (demo_request DELETE ''/v1/volumes/v'' [] ''guess'' EmptyBody) demo_agent)" by code_simp
  show ?thesis by (rule conjunct1[OF serve_unauthorized[OF serve_served[OF s]]]) code_simp+
qed

theorem serve_isolation_witness:
  "map_of (cache (st_volumes (ag_store (snd (served (demo_request DELETE ''/v1/volumes/v'' [] ''other'' EmptyBody) demo_agent))))) (key ''t'' ''v'') =
     Some demo_meta"
proof -
  have s: "\<not> Option.is_none (serve demo_api demo_choices (demo_request DELETE ''/v1/volumes/v'' [] ''other'' EmptyBody) demo_agent)" by code_simp
  have m: "map_of (cache (st_volumes (ag_store demo_agent))) (key ''t'' ''v'') = Some demo_meta" by code_simp
  have v: "\<forall>tenant \<in> snd ` set (env_tenants demo_api). ValidName tenant" "ValidName ''t''" by code_simp+
  have n: "case provided_token (rq_Auth (demo_request DELETE ''/v1/volumes/v'' [] ''other'' EmptyBody)) of
      None \<Rightarrow> True | Some tok \<Rightarrow> map_of (env_tenants demo_api) tok \<noteq> Some ''t''" by code_simp
  show ?thesis using serve_isolation[OF serve_served[OF s] v n, of "''v''"] m by simp
qed

definition demo_paged :: "unit agent" where
  "demo_paged = snd (served (demo_request GET ''/v1/volumes'' [(''limit'', ''1'')] ''secret'' EmptyBody) demo_agent)"



end
