(* ===== verification/ClientProps.thy ===== *)
theory ClientProps
  imports Client Demo ApiProps VolumeProps
begin

text \<open>
  The client and the agent together: a listing is complete and consistent whatever happens between the
  requests for its pages, and a repeated create returns the volume that exists.
\<close>

section \<open>The agent as the server of the client\<close>

text \<open>The state of the transport counts the requests; \<open>others\<close> is what everybody else does to the agent
  before a request.\<close>

definition agent_http :: "'f api_env \<Rightarrow> (nat \<Rightarrow> choices) \<Rightarrow> (nat \<Rightarrow> 'f agent \<Rightarrow> 'f agent) \<Rightarrow> ('f, nat \<times> 'f agent) transport" where
  "agent_http env ch others rq st = (case st of (k, a) \<Rightarrow>
     (case serve env (ch k) rq (others k a) of
        None \<Rightarrow> (Inl ''no route'', (Suc k, others k a))
      | Some (rs, a') \<Rightarrow> (Inr rs, (Suc k, a'))))"

lemma provided_bearer: "provided_token (''Bearer '' @ tok) = Some tok"
proof -
  have "cut '' '' (''Bearer'' @ CHR '' '' # tok) = Some (''Bearer'', tok)" by (rule cut_single_append) simp
  then show ?thesis by (simp add: provided_token_def)
qed

lemma AuthMiddleware_bearer: "map_of tenants tok = Some t \<Longrightarrow> AuthMiddleware tenants h (''Bearer '' @ tok) a = h t a"
  unfolding AuthMiddleware_def provided_bearer by simp

lemma split_volumes_path: "split_on CHR ''/'' ''/v1/volumes'' = [[], ''v1'', ''volumes'']"
  by code_simp

lemma serve_list:
  assumes "map_of (env_tenants env) tok = Some t"
  shows "serve env ch \<lparr>rq_Method = GET, rq_Path = ''/v1/volumes'', rq_Query = q, rq_Auth = ''Bearer '' @ tok, rq_Body = EmptyBody\<rparr> a =
    Some (h_ListVolumes env ch q t a)"
  unfolding serve_def request.simps split_volumes_path
  by (simp add: route_def volume_routes_def AuthMiddleware_bearer[OF assms] del: append_Cons append.simps)

text \<open>The volumes a list shows, before filters.\<close>

definition listed :: "string \<Rightarrow> 'f agent \<Rightarrow> VolumeMetadata list" where
  "listed t a = sort_key vm_Name (map (\<lambda>(t', n, v). v) (filter (\<lambda>(t', n, v). t' = t) (Range (st_volumes (ag_store a)))))"

definition tenant_up :: "string \<Rightarrow> 'f agent \<Rightarrow> bool" where
  "tenant_up t a \<longleftrightarrow> tenant_err (ag_store a) t (ts_world (ag_tasks a)) = None"

lemma tenant_up_pager [simp]: "tenant_up t (a\<lparr>ag_pager := h\<rparr>) = tenant_up t a"
  by (simp add: tenant_up_def)

lemma h_ListVolumes_up:
  assumes "tenant_up t a" "QueryParam q ''detail'' \<noteq> ''true''"
  shows "h_ListVolumes env ch q t a = list_response BVolumes (paginatedList AnyVolumes as_volumes vm_Labels volumeResponseFrom
    (ch_snapID ch) (ch_time ch) q (listed t a) (ag_pager a)) a"
  using assms by (simp add: h_ListVolumes_def ListVolumes_def store_state_def tenant_up_def check_def listed_def)

lemma fetch_volumes:
  assumes "map_of (env_tenants env) (cl_token c) = Some t" "tenant_up t (others k a)"
    and "QueryParam (if after \<noteq> [] then query_set ''after'' after q else q) ''detail'' \<noteq> ''true''"
    and "paginatedList AnyVolumes as_volumes vm_Labels volumeResponseFrom (ch_snapID (ch k)) (ch_time (ch k))
      (if after \<noteq> [] then query_set ''after'' after q else q) (listed t (others k a)) (ag_pager (others k a)) = (PageOK items tot nxt, h)"
  shows "fetch_page list_volumes_of (agent_http env ch others) c ''/v1/volumes'' q after (k, a) =
    (Inr \<lparr>lr_Items = items, lr_Total = tot, lr_Next = nxt\<rparr>, (Suc k, (others k a)\<lparr>ag_pager := h\<rparr>))"
  unfolding fetch_page_def client_do_def agent_http_def prod.case serve_list[OF assms(1)] h_ListVolumes_up[OF assms(2,3)] assms(4)
  by (simp add: list_response_def JSON_def fetch_call_def list_volumes_of_def)

section \<open>Query strings\<close>

lemma map_of_filter_key: "map_of (filter (\<lambda>p. fst p \<noteq> k) q) j = (if j = k then None else map_of q j)"
  by (induction q) auto

lemma QueryParam_set: "QueryParam (query_set k v q) j = (if j = k then v else QueryParam q j)"
  by (auto simp: QueryParam_def mget_def query_set_def map_add_def map_of_filter_key split: option.splits)

lemma QueryParams_set: "j \<noteq> k \<Longrightarrow> QueryParams (query_set k v q) j = QueryParams q j"
proof -
  assume "j \<noteq> k"
  then have "filter (\<lambda>p. fst p = j) (filter (\<lambda>p. fst p \<noteq> k) q) = filter (\<lambda>p. fst p = j) q" by (auto simp: filter_filter intro: filter_cong)
  then show ?thesis using \<open>j \<noteq> k\<close> by (simp add: QueryParams_def query_set_def)
qed

lemma QueryParam_labels: "j \<noteq> ''label'' \<Longrightarrow> QueryParam (GenerateLabelQuery ls) j = []"
proof -
  assume "j \<noteq> ''label''"
  then have "map_of (GenerateLabelQuery ls) j = None" by (auto simp: GenerateLabelQuery_def map_of_eq_None_iff)
  then show ?thesis by (simp add: QueryParam_def mget_def)
qed

lemma QueryParams_labels: "QueryParams (GenerateLabelQuery ls) ''label'' = ls"
  by (induction ls) (simp_all add: QueryParams_def GenerateLabelQuery_def)

definition limit_of :: "ListOpts \<Rightarrow> int \<Rightarrow> int" where
  "limit_of opts d = (if lo_Limit opts < 0 then d else lo_Limit opts)"

lemma Query_params:
  assumes "lo_After opts = []"
  shows "QueryParam (Query opts d) ''after'' = []" "QueryParam (Query opts d) ''detail'' = []"
    "QueryParams (Query opts d) ''label'' = lo_Labels opts"
    "QueryParam (Query opts d) ''limit'' = (if limit_of opts d > 0 then show_int (limit_of opts d) else [])"
  using assms by (simp_all add: Query_def Let_def limit_of_def QueryParam_set QueryParams_set QueryParam_labels QueryParams_labels)

lemma atoi_val_show: "- (2 ^ 63) \<le> i \<Longrightarrow> i < 2 ^ 63 \<Longrightarrow> atoi_val (show_int i) = i"
  using atoi_show[of i] by (simp add: atoi_val_def)

lemma page_limit_query:
  assumes "lo_After opts = []" "limit_of opts d < 2 ^ 63"
  shows "page_limit (Query opts d) h = max 0 (limit_of opts d)"
proof -
  have "atoi_val [] = 0" by code_simp
  then show ?thesis using atoi_val_show[of "limit_of opts d"] assms(2)
    by (cases "limit_of opts d > 0") (simp_all add: page_limit_def Query_params[OF assms(1)] Let_def max_def)
qed

section \<open>Following the pages\<close>

text \<open>What is promised about everybody else: the tenant's directory stays, and after the first request
  nobody drops or replaces the snapshot of this listing.\<close>

definition fair :: "string \<Rightarrow> string \<Rightarrow> (nat \<Rightarrow> 'f agent \<Rightarrow> 'f agent) \<Rightarrow> bool" where
  "fair t i others \<longleftrightarrow> (\<forall>k a. tenant_up t a \<longrightarrow> tenant_up t (others k a)) \<and> (\<forall>k a. k > 0 \<longrightarrow> snap_of (ag_pager (others k a)) i = snap_of (ag_pager a) i)"

lemma collect_rest:
  assumes tok: "map_of (env_tenants env) (cl_token c) = Some t" and f: "fair t i others"
    and o: "lo_After opts = []" "limit_of opts d = limit" "0 < limit" "limit < 2 ^ 63"
    and i: "CHR '':'' \<notin> set i"
  shows "0 \<le> off \<Longrightarrow> int (length xs) < 2 ^ 63 \<Longrightarrow> off < int (length xs) \<Longrightarrow> 0 < k \<Longrightarrow> tenant_up t a \<Longrightarrow>
    snap_of (ag_pager a) i = Some (AnyVolumes xs) \<Longrightarrow>
    \<exists>st. collect_pages (fetch_page list_volumes_of (agent_http env ch others) c ''/v1/volumes'' (Query opts d))
        (encodeCursor \<lparr>pc_SnapID = i, pc_Offset = off\<rparr>) acc (k, a) =
      Some (Inr (acc @ map volumeResponseFrom (drop (nat off) xs), int (length xs)), st)"
proof (induction "length xs - nat off" arbitrary: off k a acc rule: less_induct)
  case less
  let ?cur = "\<lparr>pc_SnapID = i, pc_Offset = off\<rparr>"
  let ?fetch = "fetch_page list_volumes_of (agent_http env ch others) c ''/v1/volumes'' (Query opts d)"
  let ?q = "query_set ''after'' (encodeCursor ?cur) (Query opts d)"
  let ?b = "others k a"
  have up: "tenant_up t ?b" and sn: "snap_of (ag_pager ?b) i = Some (AnyVolumes xs)" using f less.prems by (simp_all add: fair_def)
  have ne: "encodeCursor ?cur \<noteq> []" by (rule encodeCursor_nonempty)
  have dc: "decodeCursor (encodeCursor ?cur) = Some ?cur" using i less.prems by (intro decode_encode_cursor) auto
  have dt: "QueryParam ?q ''detail'' \<noteq> ''true''" using Query_params(2)[OF o(1)] by (simp add: QueryParam_set)
  have lim: "page_limit ?q (ag_pager ?b) = limit"
    using page_limit_query[OF o(1), of d "ag_pager ?b"] o(2-4) by (simp add: page_limit_def QueryParam_set)
  have pg: "paginatedList AnyVolumes as_volumes vm_Labels volumeResponseFrom (ch_snapID (ch k)) (ch_time (ch k)) ?q (listed t ?b) (ag_pager ?b) =
      (serve_page volumeResponseFrom limit i xs off, resetTimer i (ch_time (ch k)) (ag_pager ?b))"
    using volume_pages.next_page[OF _ lim o(3) dc, of xs] sn by (simp add: QueryParam_set)
  show ?case
  proof (cases "off + limit < int (length xs)")
    case False
    then have "serve_page volumeResponseFrom limit i xs off = PageOK (map volumeResponseFrom (drop (nat off) xs)) (int (length xs)) []"
      using serve_page_end[of off limit xs] less.prems o(3) by simp
    then have "?fetch (encodeCursor ?cur) (k, a) = (Inr \<lparr>lr_Items = map volumeResponseFrom (drop (nat off) xs), lr_Total = int (length xs),
        lr_Next = []\<rparr>, (Suc k, ?b\<lparr>ag_pager := resetTimer i (ch_time (ch k)) (ag_pager ?b)\<rparr>))"
      using fetch_volumes[where others = others and k = k and a = a and ch = ch, OF tok up, of "encodeCursor ?cur" "Query opts d"] ne dt pg by simp
    then show ?thesis by (subst collect_pages.simps) simp
  next
    case True
    let ?nxt = "encodeCursor \<lparr>pc_SnapID = i, pc_Offset = off + limit\<rparr>"
    let ?page = "map volumeResponseFrom (take (nat limit) (drop (nat off) xs))"
    let ?a1 = "?b\<lparr>ag_pager := resetTimer i (ch_time (ch k)) (ag_pager ?b)\<rparr>"
    have "serve_page volumeResponseFrom limit i xs off = PageOK ?page (int (length xs)) ?nxt"
      using serve_page_more[of off limit xs] less.prems o(3) True by simp
    then have fe: "?fetch (encodeCursor ?cur) (k, a) = (Inr \<lparr>lr_Items = ?page, lr_Total = int (length xs), lr_Next = ?nxt\<rparr>, (Suc k, ?a1))"
      using fetch_volumes[where others = others and k = k and a = a and ch = ch, OF tok up, of "encodeCursor ?cur" "Query opts d"] ne dt pg by simp
    have "\<exists>st. collect_pages ?fetch ?nxt (acc @ ?page) (Suc k, ?a1) =
        Some (Inr ((acc @ ?page) @ map volumeResponseFrom (drop (nat (off + limit)) xs), int (length xs)), st)"
      using less.hyps[of "off + limit" "Suc k" ?a1 "acc @ ?page"] less.prems True sn up o(3) by simp
    moreover have "drop (nat (off + limit)) xs = drop (nat limit) (drop (nat off) xs)"
      using less.prems(1) o(3) by (simp add: nat_add_distrib add.commute)
    then have "?page @ map volumeResponseFrom (drop (nat (off + limit)) xs) = map volumeResponseFrom (drop (nat off) xs)"
      by (metis append_take_drop_id map_append)
    ultimately show ?thesis by (subst collect_pages.simps) (simp add: fe encodeCursor_nonempty)
  qed
qed

lemma filtered_listed: "filtered_items vm_Labels (Query opts d) xs = filter (\<lambda>v. matchLabels (vm_Labels v) (lo_Labels opts)) xs"
  if "lo_After opts = []"
  using Query_params(3)[OF that, of d] by (auto simp: filtered_items_def filterByLabels_def matchLabels_def filter_id_conv)

text \<open>The first request, of \<open>ListVolumes\<close> with fresh options.\<close>

definition first_list :: "ListOpts \<Rightarrow> client \<Rightarrow> choices \<Rightarrow> string \<Rightarrow> 'f agent \<Rightarrow> VolumeResponse page_result \<times> any_items pager" where
  "first_list opts c ch t b = paginatedList AnyVolumes as_volumes vm_Labels volumeResponseFrom (ch_snapID ch) (ch_time ch)
     (Query opts (cl_pageLimit c)) (listed t b) (ag_pager b)"

definition matching :: "ListOpts \<Rightarrow> string \<Rightarrow> 'f agent \<Rightarrow> VolumeMetadata list" where
  "matching opts t b = filter (\<lambda>v. matchLabels (vm_Labels v) (lo_Labels opts)) (listed t b)"

lemma ListVolumes_first:
  assumes "map_of (env_tenants env) (cl_token c) = Some t" "tenant_up t (others 0 a)" "lo_After opts = []"
    and "first_list opts c (ch 0) t (others 0 a) = (PageOK items tot nxt, h)"
  shows "c_ListVolumes (agent_http env ch others) c opts (0, a) =
    (if nxt = [] then Some (Inr (items, tot), (1, (others 0 a)\<lparr>ag_pager := h\<rparr>))
     else collect_pages (fetch_page list_volumes_of (agent_http env ch others) c ''/v1/volumes'' (Query opts (cl_pageLimit c))) nxt items
       (1, (others 0 a)\<lparr>ag_pager := h\<rparr>))"
proof -
  have "fetch_page list_volumes_of (agent_http env ch others) c ''/v1/volumes'' (Query opts (cl_pageLimit c)) [] (0, a) =
      (Inr \<lparr>lr_Items = items, lr_Total = tot, lr_Next = nxt\<rparr>, (1, (others 0 a)\<lparr>ag_pager := h\<rparr>))"
    using fetch_volumes[where others = others and k = 0 and a = a and ch = ch, OF assms(1,2), of "[]" "Query opts (cl_pageLimit c)"]
      assms(4) Query_params(2)[OF assms(3)] by (simp add: first_list_def)
  then show ?thesis unfolding c_ListVolumes_def list_all_pages_def by (subst collect_pages.simps) simp
qed

lemma first_list_whole:
  assumes o: "lo_After opts = []" "limit_of opts (cl_pageLimit c) < 2 ^ 63"
    and "limit_of opts (cl_pageLimit c) \<le> 0 \<or> int (length (matching opts t b)) \<le> limit_of opts (cl_pageLimit c) \<or>
      snapshotCount (ag_pager b) \<ge> paginationMaxSnapshots (ag_pager b)"
  shows "first_list opts c ch t b = (whole_page volumeResponseFrom (matching opts t b), ag_pager b)"
proof -
  have "decodeCursor [] = None" by code_simp
  then show ?thesis using assms(3) unfolding first_list_def
    by (auto simp: paginatedList_def page_limit_query[OF o] Query_params[OF o(1)] filtered_listed[OF o(1)] open_snapshot_def matching_def Let_def)
qed

lemma first_list_pages:
  assumes o: "lo_After opts = []" "limit_of opts (cl_pageLimit c) = limit" "limit < 2 ^ 63"
    and l: "0 < limit" "limit < int (length (matching opts t b))" "snapshotCount (ag_pager b) < paginationMaxSnapshots (ag_pager b)"
  shows "first_list opts c ch t b = (PageOK (map volumeResponseFrom (take (nat limit) (matching opts t b))) (int (length (matching opts t b)))
      (encodeCursor \<lparr>pc_SnapID = ch_snapID ch, pc_Offset = limit\<rparr>),
    storeSnapshot (ch_snapID ch) (AnyVolumes (matching opts t b)) (ch_time ch) (ag_pager b))"
proof -
  have lim: "page_limit (Query opts (cl_pageLimit c)) (ag_pager b) = limit" using page_limit_query[OF o(1), of "cl_pageLimit c"] o(2,3) l(1) by simp
  have xs: "filtered_items vm_Labels (Query opts (cl_pageLimit c)) (listed t b) = matching opts t b"
    unfolding matching_def by (rule filtered_listed[OF o(1)])
  show ?thesis unfolding first_list_def
    using volume_pages.first_page[OF Query_params(1)[OF o(1)] lim l(1), where getLabels = vm_Labels and items = "listed t b" and f = volumeResponseFrom, unfolded xs, OF l(2,3)]
      serve_page_more[of 0 limit "matching opts t b" volumeResponseFrom "ch_snapID ch"] l by simp
qed

section \<open>Properties\<close>


text \<open>Between the two pages somebody removes all volumes.\<close>

definition forget :: "nat \<Rightarrow> unit agent \<Rightarrow> unit agent" where
  "forget k a = (if k = 0 then a else a\<lparr>ag_store := (ag_store a)\<lparr>st_volumes := (st_volumes (ag_store a))\<lparr>cache := []\<rparr>\<rparr>\<rparr>)"

definition demo_client :: client where
  "demo_client = \<lparr>cl_url = ''http://a'', cl_token = ''secret'', cl_identity = ''cli'', cl_pageLimit = 0, cl_prefetch = 0, cl_prefetchBytes = 0\<rparr>"

definition demo_opts :: ListOpts where
  "demo_opts = \<lparr>lo_After = [], lo_Limit = 1, lo_Labels = []\<rparr>"


section \<open>Retrying a create\<close>

text \<open>A successful create leaves the tenant's own directory in place, so the same request is valid again.\<close>

lemma create_validate_again:
  assumes "create_validate s t req w = Inr (q, mode)" "sys_inv w s" "btrfs_local (st_btrfs s)" "keys_distinct (vcr_Labels req)"
    and "CreateVolume locked t req (w, s) = (r, w', s')"
  shows "create_validate s' t req w' = Inr (q, mode)"
proof -
  note v = create_validate_Inr[OF assms(1)] and e = CreateVolume_entry[OF assms]
  let ?d = "filepath_join [st_basePath s, t]"
  have "Dir (st_volumes s) t (vcr_Name req) = ?d @ ''/'' @ vcr_Name req"
    using Dir_child[OF sys_invD(3)[OF assms(2)], of t "vcr_Name req"] sys_invD(5,6)[OF assms(2)] v(1,2,3) by (simp add: parent_dir_def)
  then have "\<not> under (Dir (st_volumes s) t (vcr_Name req)) ?d" by (auto simp: under_def prefix_def)
  then have n: "node_at w' ?d = node_at w ?d \<or> node_at w ?d = None \<and> node_at w' ?d \<noteq> None" and f: "faults w' = faults w"
    using e(1) unfolding within_def by fastforce+
  obtain vs where s': "s' = s\<lparr>st_volumes := vs\<rparr>" using e(3) by blast
  have t: "tenant_err s t w = None" using assms(1) by (auto simp: create_validate_def check_def split: option.splits)
  have t': "tenant_err s' t w' = None" using t n f s'
    by (auto simp: tenant_err_def tenantPath_def check_def os_stat_def os_IsNotExist_def Let_def split: option.splits sum.splits if_splits)
  have "create_validate s' t req w' = create_validate s t req w" unfolding create_validate_def t t' by (simp add: s')
  then show ?thesis using assms(1) by simp
qed

lemma CreateVolume_again:
  assumes "sys_inv w s" "btrfs_local (st_btrfs s)" "keys_distinct (vcr_Labels req)"
    and "CreateVolume locked t req (w, s) = ((Some m, None), w', s')"
  shows "CreateVolume True t req (w', s') = ((Some m, Some (StorageError ErrAlreadyExists)), w', s')"
proof -
  obtain q mode where v: "create_validate s t req w = Inr (q, mode)"
    using assms(4) by (cases "create_validate s t req w") (auto simp: CreateVolume_def)
  have "s' = s\<lparr>st_volumes := cache_put t (vcr_Name req) m (st_volumes s)\<rparr>" using CreateVolume_facts(3)[OF assms(1,2,4)] by simp
  then show ?thesis using CreateVolume_taken[OF create_validate_again[OF v assms]] by simp
qed

lemma serve_create:
  assumes "map_of (env_tenants env) tok = Some t"
  shows "serve env ch \<lparr>rq_Method = POST, rq_Path = ''/v1/volumes'', rq_Query = [], rq_Auth = ''Bearer '' @ tok, rq_Body = RVolumeCreate req\<rparr> a =
    Some (created_volume env (CreateVolume (ch_locked ch) t req (store_state a)) a)"
  unfolding serve_def request.simps split_volumes_path
  by (simp add: route_def volume_routes_def bind_create_def bind_body_def h_CreateVolume_def AuthMiddleware_bearer[OF assms] del: append_Cons append.simps)

definition with_identity :: "client \<Rightarrow> VolumeCreateRequest \<Rightarrow> VolumeCreateRequest" where
  "with_identity c req = req\<lparr>vcr_Labels := ensureIdentity c (vcr_Labels req)\<rparr>"

lemma client_create:
  assumes "map_of (env_tenants env) (cl_token c) = Some t"
    and "CreateVolume (ch_locked (ch k)) t (with_identity c req) (store_state (others k a)) = ((Some v, err), st)"
  shows "c_CreateVolume (agent_http env ch others) c req (k, a) =
    ((Some (volumeDetailResponseFrom v), case err of None \<Rightarrow> None | Some e \<Rightarrow> Some (AgentError 409 None [])), (Suc k, set_store st (others k a)))"
  unfolding c_CreateVolume_def client_do_def agent_http_def prod.case serve_create[OF assms(1)] with_identity_def[symmetric] assms(2)
  by (cases err) (simp_all add: created_volume_def JSON_def create_call_def volume_of_def unmarshal_def agent_error_def IsConflict_def)

lemma client_create_failed:
  assumes "map_of (env_tenants env) (cl_token c) = Some t"
    and "CreateVolume (ch_locked (ch k)) t (with_identity c req) (store_state (others k a)) = ((None, err), st)"
  shows "snd (fst (c_CreateVolume (agent_http env ch others) c req (k, a))) \<noteq> None"
proof -
  have "400 \<le> rs_Status (fst (created_volume env ((None, err), st) (others k a)))"
  proof (cases err)
    case (Some e)
    then show ?thesis
      by (cases e) (auto simp: created_volume_def json_error_def JSON_def split: option.split elim: codeStatus.elims)
  qed (simp add: created_volume_def JSON_def)
  then show ?thesis
    unfolding c_CreateVolume_def client_do_def agent_http_def prod.case serve_create[OF assms(1)] with_identity_def[symmetric] assms(2)
    by (auto simp: create_call_def split: prod.split)
qed

lemma ensureIdentity_distinct: "keys_distinct ls \<Longrightarrow> keys_distinct (ensureIdentity c ls)"
  by (auto simp: ensureIdentity_def keys_distinct_def distinct_update)

text \<open>A create can be retried. When the client's create succeeded and its answer is repeated, or lost and
  the request sent again, the client is told of the conflict and gets the very volume that exists,
  and the agent's store does not change.\<close>

lemma CreateVolume_retry:
  assumes "map_of (env_tenants env) (cl_token c) = Some t" and k: "keys_distinct (vcr_Labels req)"
    and i: "sys_inv (ts_world (ag_tasks a)) (ag_store a)" "btrfs_local (st_btrfs (ag_store a))"
    and l: "ch_locked (ch (Suc n))" and r: "c_CreateVolume (agent_http env ch (\<lambda>_ x. x)) c req (n, a) = ((Some v, None), st1)"
  shows "\<exists>e st2. c_CreateVolume (agent_http env ch (\<lambda>_ x. x)) c req st1 = ((Some v, Some e), st2) \<and> IsConflict e \<and>
    store_state (snd st2) = store_state (snd st1)"
proof -
  obtain m err st where cv: "CreateVolume (ch_locked (ch n)) t (with_identity c req) (store_state a) = ((m, err), st)" by (metis prod.collapse)
  obtain w' s' where st: "st = (w', s')" by fastforce
  have "m \<noteq> None"
    using client_create_failed[where others = "\<lambda>_ x. x" and ch = ch and k = n and a = a, OF assms(1), of req err st] cv r by auto
  then obtain x where x: "m = Some x" by blast
  then have e: "err = None" "v = volumeDetailResponseFrom x" "st1 = (Suc n, set_store st a)"
    using client_create[where others = "\<lambda>_ x. x" and ch = ch and k = n and a = a, OF assms(1), of req x err st] cv r by (auto split: option.splits)
  have kd: "keys_distinct (vcr_Labels (with_identity c req))" using k by (simp add: with_identity_def ensureIdentity_distinct)
  have "CreateVolume True t (with_identity c req) (w', s') = ((Some x, Some (StorageError ErrAlreadyExists)), w', s')"
    using CreateVolume_again[OF i kd] cv x e(1) st by (simp add: store_state_def)
  moreover have "store_state (set_store st a) = (w', s')" by (simp add: store_state_def set_store_def st)
  ultimately show ?thesis
    using client_create[where others = "\<lambda>_ x. x" and ch = ch and k = "Suc n" and a = "set_store st a", OF assms(1), of req x] l e
    by (simp add: IsConflict_def store_state_def set_store_def)
qed

definition fresh_agent :: "unit agent" where
  "fresh_agent = set_store (demo_world, demo_storage) demo_agent"

lemma CreateVolume_retry_witness:
  "\<exists>v e st1 st2. c_CreateVolume (agent_http demo_api (\<lambda>_. demo_choices) (\<lambda>_ x. x)) demo_client demo_create (0, fresh_agent) = ((Some v, None), st1) \<and>
     c_CreateVolume (agent_http demo_api (\<lambda>_. demo_choices) (\<lambda>_ x. x)) demo_client demo_create st1 = ((Some v, Some e), st2) \<and> IsConflict e"
proof -
  let ?h = "agent_http demo_api (\<lambda>_. demo_choices) (\<lambda>_ x. x)"
  have "case c_CreateVolume ?h demo_client demo_create (0, fresh_agent) of ((Some v, None), st1) \<Rightarrow> True | _ \<Rightarrow> False" by code_simp
  then obtain v st1 where c: "c_CreateVolume ?h demo_client demo_create (0, fresh_agent) = ((Some v, None), st1)"
    by (auto split: prod.splits option.splits)
  have t: "map_of (env_tenants demo_api) (cl_token demo_client) = Some ''t''" by code_simp
  have k: "keys_distinct (vcr_Labels demo_create)" by code_simp
  have a: "sys_inv (ts_world (ag_tasks fresh_agent)) (ag_store fresh_agent)" "btrfs_local (st_btrfs (ag_store fresh_agent))"
    using demo_inv demo_local by (simp_all add: fresh_agent_def set_store_def)
  have "ch_locked demo_choices" by (simp add: demo_choices_def)
  then show ?thesis using CreateVolume_retry[where ch = "\<lambda>_. demo_choices", OF t k a _ c] c by blast
qed

end
