(* ===== verification/Prefetch.thy ===== *)
theory Prefetch
  imports Client
begin

text \<open>
  The prefetching pipeline of \<open>paginate\<close> in \<open>agent/api/v1/client/client.go\<close>: a goroutine fetches the pages and
  sends them over a channel, the caller receives them and calls the callback. The two and their shared
  state, the channel, the count of pending bytes and the release channel, are a transition system, one step
  for each operation on the shared state. The context is cancelled when the caller returns, and a request that
  is under way then may fail; a cancellation from outside is not modelled. The total that the code returns
  beside an error is not a part of the result.
\<close>

section \<open>The pipeline\<close>

text \<open>Where the producer is: before the check of the pending bytes, waiting for a release, before a fetch, before
  the count of the page, before the send, or at the end with the channel closed. The consumer receives,
  calls, subtracts the bytes, releases, or has returned.\<close>

datatype 'r producer = PCheck string | PBlocked string | PFetch string | PAdd "client_error + 'r ListResponse" | PSend "client_error + 'r ListResponse" | PDone

datatype 'r consumer = CRecv | CCall "'r ListResponse" | CSub "'r ListResponse" | CRelease | CRet "client_error + int"

record ('r, 'c, 's) pipe =
  pp_prod :: "'r producer"
  pp_chan :: "(client_error + 'r ListResponse) list"
  pp_pending :: int
  pp_release :: bool
  pp_cons :: "'r consumer"
  pp_total :: int
  pp_cs :: 'c
  pp_st :: 's

definition pipe_init :: "'c \<Rightarrow> 's \<Rightarrow> ('r, 'c, 's) pipe" where
  "pipe_init cs st = \<lparr>pp_prod = PCheck [], pp_chan = [], pp_pending = 0, pp_release = False, pp_cons = CRecv, pp_total = 0, pp_cs = cs, pp_st = st\<rparr>"

text \<open>The page after a page: none after an error and after the last one.\<close>

definition next_pos :: "client_error + 'r ListResponse \<Rightarrow> string option" where
  "next_pos p = (case p of Inl _ \<Rightarrow> None | Inr r \<Rightarrow> if lr_Next r = [] then None else Some (lr_Next r))"

definition page_size :: "('r ListResponse \<Rightarrow> int) \<Rightarrow> client_error + 'r ListResponse \<Rightarrow> int" where
  "page_size psize p = (case p of Inl _ \<Rightarrow> 0 | Inr r \<Rightarrow> psize r)"

inductive pipe_step :: "(string \<Rightarrow> 's \<Rightarrow> (client_error + 'r ListResponse) \<times> 's) \<Rightarrow> ('r list \<Rightarrow> 'c \<Rightarrow> client_error option \<times> 'c) \<Rightarrow>
    ('r ListResponse \<Rightarrow> int) \<Rightarrow> nat \<Rightarrow> int \<Rightarrow> ('r, 'c, 's) pipe \<Rightarrow> ('r, 'c, 's) pipe \<Rightarrow> bool"
  for fetch fn psize cap maxBytes where
  check_go: "pp_prod S = PCheck a \<Longrightarrow> maxBytes \<le> 0 \<or> pp_pending S < maxBytes \<Longrightarrow> pipe_step fetch fn psize cap maxBytes S (S\<lparr>pp_prod := PFetch a\<rparr>)"
| check_block: "pp_prod S = PCheck a \<Longrightarrow> 0 < maxBytes \<Longrightarrow> maxBytes \<le> pp_pending S \<Longrightarrow>
    pipe_step fetch fn psize cap maxBytes S (S\<lparr>pp_prod := PBlocked a\<rparr>)"
| wake: "pp_prod S = PBlocked a \<Longrightarrow> pp_release S \<Longrightarrow> pipe_step fetch fn psize cap maxBytes S (S\<lparr>pp_prod := PCheck a, pp_release := False\<rparr>)"
| cancel_blocked: "pp_prod S = PBlocked a \<Longrightarrow> pp_cons S = CRet r \<Longrightarrow> pipe_step fetch fn psize cap maxBytes S (S\<lparr>pp_prod := PDone\<rparr>)"
| fetch: "pp_prod S = PFetch a \<Longrightarrow> fetch a (pp_st S) = (p, st') \<Longrightarrow> pipe_step fetch fn psize cap maxBytes S (S\<lparr>pp_prod := PAdd p, pp_st := st'\<rparr>)"
| fetch_cancelled: "pp_prod S = PFetch a \<Longrightarrow> pp_cons S = CRet r \<Longrightarrow> pipe_step fetch fn psize cap maxBytes S (S\<lparr>pp_prod := PAdd (Inl e)\<rparr>)"
| add: "pp_prod S = PAdd p \<Longrightarrow>
    pipe_step fetch fn psize cap maxBytes S (S\<lparr>pp_prod := PSend p, pp_pending := pp_pending S + (if 0 < maxBytes then page_size psize p else 0)\<rparr>)"
| send: "pp_prod S = PSend p \<Longrightarrow> length (pp_chan S) < cap \<Longrightarrow>
    pipe_step fetch fn psize cap maxBytes S (S\<lparr>pp_chan := pp_chan S @ [p], pp_prod := (case next_pos p of None \<Rightarrow> PDone | Some a \<Rightarrow> PCheck a)\<rparr>)"
| cancel_send: "pp_prod S = PSend p \<Longrightarrow> pp_cons S = CRet r \<Longrightarrow> pipe_step fetch fn psize cap maxBytes S (S\<lparr>pp_prod := PDone\<rparr>)"
| recv_err: "pp_cons S = CRecv \<Longrightarrow> pp_chan S = Inl e # ps \<Longrightarrow> pipe_step fetch fn psize cap maxBytes S (S\<lparr>pp_chan := ps, pp_cons := CRet (Inl e)\<rparr>)"
| recv: "pp_cons S = CRecv \<Longrightarrow> pp_chan S = Inr r # ps \<Longrightarrow>
    pipe_step fetch fn psize cap maxBytes S (S\<lparr>pp_chan := ps, pp_cons := CCall r, pp_total := lr_Total r\<rparr>)"
| recv_closed: "pp_cons S = CRecv \<Longrightarrow> pp_chan S = [] \<Longrightarrow> pp_prod S = PDone \<Longrightarrow>
    pipe_step fetch fn psize cap maxBytes S (S\<lparr>pp_cons := CRet (Inr (pp_total S))\<rparr>)"
| call_err: "pp_cons S = CCall r \<Longrightarrow> fn (lr_Items r) (pp_cs S) = (Some e, cs') \<Longrightarrow>
    pipe_step fetch fn psize cap maxBytes S (S\<lparr>pp_cons := CRet (Inl e), pp_cs := cs'\<rparr>)"
| call: "pp_cons S = CCall r \<Longrightarrow> fn (lr_Items r) (pp_cs S) = (None, cs') \<Longrightarrow>
    pipe_step fetch fn psize cap maxBytes S (S\<lparr>pp_cons := (if 0 < maxBytes then CSub r else CRecv), pp_cs := cs'\<rparr>)"
| sub: "pp_cons S = CSub r \<Longrightarrow> pipe_step fetch fn psize cap maxBytes S (S\<lparr>pp_cons := CRelease, pp_pending := pp_pending S - psize r\<rparr>)"
| release: "pp_cons S = CRelease \<Longrightarrow> pipe_step fetch fn psize cap maxBytes S (S\<lparr>pp_cons := CRecv, pp_release := True\<rparr>)"

section \<open>Consuming the pages\<close>

text \<open>What the callback sees when the pages of a queue come first and the rest is fetched from a position on;
  the number counts the pages.\<close>

inductive consume :: "(string \<Rightarrow> 's \<Rightarrow> (client_error + 'r ListResponse) \<times> 's) \<Rightarrow> ('r list \<Rightarrow> 'c \<Rightarrow> client_error option \<times> 'c) \<Rightarrow>
    (client_error + 'r ListResponse) list \<Rightarrow> string option \<Rightarrow> 's \<Rightarrow> 'c \<Rightarrow> int \<Rightarrow> nat \<Rightarrow> client_error + int \<Rightarrow> 'c \<Rightarrow> bool"
  for fetch fn where
  page_err: "consume fetch fn (Inl e # ps) pos st cs tot 0 (Inl e) cs"
| page_call_err: "fn (lr_Items r) cs = (Some e, cs1) \<Longrightarrow> consume fetch fn (Inr r # ps) pos st cs tot 0 (Inl e) cs1"
| page_call: "fn (lr_Items r) cs = (None, cs1) \<Longrightarrow> consume fetch fn ps pos st cs1 (lr_Total r) n res cs' \<Longrightarrow>
    consume fetch fn (Inr r # ps) pos st cs tot (Suc n) res cs'"
| page_end: "consume fetch fn [] None st cs tot 0 (Inr tot) cs"
| page_fetch: "fetch a st = (p, st1) \<Longrightarrow> consume fetch fn [p] (next_pos p) st1 cs tot n res cs' \<Longrightarrow> consume fetch fn [] (Some a) st cs tot n res cs'"

inductive_cases consume_ConsE: "consume fetch fn (p # ps) pos st cs tot n res cs'"
inductive_cases consume_EndE: "consume fetch fn [] None st cs tot n res cs'"
inductive_cases consume_FetchE: "consume fetch fn [] (Some a) st cs tot n res cs'"

text \<open>Fetching ahead changes nothing.\<close>

lemma consume_ahead:
  assumes f: "fetch a st = (p, st1)"
  shows "consume fetch fn qs (Some a) st cs tot n res cs' \<Longrightarrow> consume fetch fn (qs @ [p]) (next_pos p) st1 cs tot n res cs'"
proof (induction qs arbitrary: cs tot n)
  case Nil
  then show ?case using f by (auto elim: consume_FetchE)
next
  case (Cons q qs)
  show ?case using Cons.prems by (rule consume_ConsE) (auto intro: consume.intros Cons.IH)
qed

lemma consume_total: "consume fetch fn (p # ps) pos st cs tot n res cs' \<Longrightarrow> consume fetch fn (p # ps) pos st cs tot' n res cs'"
  by (auto elim!: consume_ConsE intro: consume.intros)

text \<open>A sequential loop that returns consumes the pages, and the first total does not matter.\<close>

lemma call_pages_consume:
  fixes fetch :: "string \<Rightarrow> 's \<Rightarrow> (client_error + 'r ListResponse) \<times> 's" and fn :: "'r list \<Rightarrow> 'c \<Rightarrow> client_error option \<times> 'c"
  assumes "call_pages fetch fn a cs st = Some (res, cs', st')"
  shows "\<exists>n. consume fetch fn [] (Some a) st cs tot n res cs'"
proof -
  have "\<forall>tot. \<exists>n. consume fetch fn [] (Some a) st cs tot n (fst (res, cs', st')) (fst (snd (res, cs', st')))"
  proof (rule call_pages.raw_induct[where P = "\<lambda>fetch fn a cs st y. \<forall>tot. \<exists>n. consume fetch fn [] (Some a) st cs tot n (fst y) (fst (snd y))", OF _ assms])
    fix rec :: "(string \<Rightarrow> 's \<Rightarrow> (client_error + 'r ListResponse) \<times> 's) \<Rightarrow> ('r list \<Rightarrow> 'c \<Rightarrow> client_error option \<times> 'c) \<Rightarrow> string \<Rightarrow> 'c \<Rightarrow> 's \<Rightarrow>
        ((client_error + int) \<times> 'c \<times> 's) option"
      and fetch fn a cs st y
    assume IH: "\<And>fetch fn a cs st y. rec fetch fn a cs st = Some y \<Longrightarrow> \<forall>tot. \<exists>n. consume fetch fn [] (Some a) st cs tot n (fst y) (fst (snd y))"
      and y: "(case fetch a st of (Inl e, st1) \<Rightarrow> Some (Inl e, cs, st1)
         | (Inr p, st1) \<Rightarrow> (case fn (lr_Items p) cs of (None, cs1) \<Rightarrow> if lr_Next p = [] then Some (Inr (lr_Total p), cs1, st1) else rec fetch fn (lr_Next p) cs1 st1
           | (Some e, cs1) \<Rightarrow> Some (Inl e, cs1, st1))) = Some y"
    obtain p st1 where f: "fetch a st = (p, st1)" by fastforce
    show "\<forall>tot. \<exists>n. consume fetch fn [] (Some a) st cs tot n (fst y) (fst (snd y))"
    proof (cases p)
      case (Inl e)
      then show ?thesis using y f by (auto intro!: page_fetch page_err)
    next
      case (Inr r)
      obtain err cs1 where c: "fn (lr_Items r) cs = (err, cs1)" by fastforce
      show ?thesis
      proof (cases err)
        case (Some e)
        have "consume fetch fn [] (Some a) st cs tot 0 (Inl e) cs1" for tot
          by (rule page_fetch[where fetch = fetch and a = a and st = st, OF f]) (use c Some Inr in \<open>auto intro: page_call_err\<close>)
        then show ?thesis using y f Inr c Some by (auto intro: exI[of _ 0])
      next
        case None
        have "\<exists>n. consume fetch fn [] (next_pos p) st1 cs1 (lr_Total r) n (fst y) (fst (snd y))"
        proof (cases "lr_Next r = []")
          case True
          then show ?thesis using y f Inr c None by (auto simp: next_pos_def intro!: page_end)
        next
          case False
          then show ?thesis using y f Inr c None IH[of fetch fn "lr_Next r" cs1 st1 y] by (auto simp: next_pos_def)
        qed
        then obtain n where n: "consume fetch fn [] (next_pos p) st1 cs1 (lr_Total r) n (fst y) (fst (snd y))" by blast
        have "consume fetch fn [] (Some a) st cs tot (Suc n) (fst y) (fst (snd y))" for tot
          by (rule page_fetch[where fetch = fetch and a = a and st = st, OF f]) (use c None Inr n in \<open>auto intro: page_call\<close>)
        then show ?thesis by blast
      qed
    qed
  qed
  then show ?thesis by simp
qed

section \<open>The pipeline against the sequential loop\<close>

definition in_hand :: "('r, 'c, 's) pipe \<Rightarrow> (client_error + 'r ListResponse) list" where
  "in_hand S = (case pp_cons S of CCall r \<Rightarrow> [Inr r] | _ \<Rightarrow> [])"

definition held :: "('r, 'c, 's) pipe \<Rightarrow> (client_error + 'r ListResponse) list" where
  "held S = (case pp_prod S of PAdd p \<Rightarrow> [p] | PSend p \<Rightarrow> [p] | _ \<Rightarrow> [])"

definition position :: "('r, 'c, 's) pipe \<Rightarrow> string option" where
  "position S = (case pp_prod S of PCheck a \<Rightarrow> Some a | PBlocked a \<Rightarrow> Some a | PFetch a \<Rightarrow> Some a | PAdd p \<Rightarrow> next_pos p | PSend p \<Rightarrow> next_pos p | PDone \<Rightarrow> None)"

text \<open>The state leads to a result: the caller has returned it, or consuming what is in the pipeline and what
  will still be fetched gives it.\<close>

definition leads_to where
  "leads_to fetch fn S n res cs' \<longleftrightarrow> (case pp_cons S of CRet r \<Rightarrow> r = res \<and> pp_cs S = cs'
     | _ \<Rightarrow> consume fetch fn (in_hand S @ pp_chan S @ held S) (position S) (pp_st S) (pp_cs S) (pp_total S) n res cs')"

definition pending_pages :: "('r, 'c, 's) pipe \<Rightarrow> (client_error + 'r ListResponse) list" where
  "pending_pages S = (case pp_cons S of CCall r \<Rightarrow> [Inr r] | CSub r \<Rightarrow> [Inr r] | _ \<Rightarrow> []) @ pp_chan S @ (case pp_prod S of PSend p \<Rightarrow> [p] | _ \<Rightarrow> [])"

definition returned :: "('r, 'c, 's) pipe \<Rightarrow> bool" where
  "returned S \<longleftrightarrow> (case pp_cons S of CRet _ \<Rightarrow> True | _ \<Rightarrow> False)"

text \<open>The count of pending bytes is exact, and a blocked producer without a release waits for bytes that are
  still pending or for a release that is about to come.\<close>

definition pipe_inv :: "('r ListResponse \<Rightarrow> int) \<Rightarrow> nat \<Rightarrow> int \<Rightarrow> ('r, 'c, 's) pipe \<Rightarrow> bool" where
  "pipe_inv psize cap maxBytes S \<longleftrightarrow> length (pp_chan S) \<le> cap \<and> (\<forall>r. pp_cons S = CCall r \<longrightarrow> pp_total S = lr_Total r) \<and>
     (0 < maxBytes \<and> \<not> returned S \<longrightarrow> pp_pending S = sum_list (map (page_size psize) (pending_pages S))) \<and>
     (\<forall>a. pp_prod S = PBlocked a \<longrightarrow> 0 < maxBytes \<and> (pp_release S \<or> pp_cons S = CRelease \<or> returned S \<or> maxBytes \<le> pp_pending S)) \<and>
     (maxBytes \<le> 0 \<longrightarrow> pp_cons S \<noteq> CRelease \<and> (\<forall>r. pp_cons S \<noteq> CSub r))"

lemma pipe_inv_step:
  assumes "pipe_step fetch fn psize cap maxBytes S S'" "pipe_inv psize cap maxBytes S"
  shows "pipe_inv psize cap maxBytes S'"
  using assms
  by (induction rule: pipe_step.induct)
     (auto simp: pipe_inv_def returned_def pending_pages_def page_size_def split: option.splits consumer.splits producer.splits sum.splits if_splits)

lemma pipe_progress:
  assumes "pipe_inv psize cap maxBytes S" "0 < cap" "\<forall>S'. \<not> pipe_step fetch fn psize cap maxBytes S S'"
  shows "returned S \<and> pp_prod S = PDone"
proof -
  note st = assms(3)[rule_format]
  have ret: "returned S"
  proof (rule ccontr)
    assume nr: "\<not> returned S"
    have c: "pp_cons S = CRecv"
      using nr st call[of S] call_err[of S] sub[of S] release[of S]
      by (cases "pp_cons S"; simp add: returned_def) (metis not_None_eq surj_pair)+
    have ch: "pp_chan S = []"
      using st recv[OF c] recv_err[OF c] by (cases "pp_chan S") (metis sum.exhaust)+
    show False
    proof (cases "pp_prod S")
      case (PCheck a)
      then show ?thesis using st check_go[OF PCheck] check_block[OF PCheck] by (meson not_le)
    next
      case (PBlocked a)
      then have "0 < maxBytes" "pp_release S \<or> maxBytes \<le> pp_pending S" "pp_pending S = 0"
        using assms(1) nr c ch by (auto simp: pipe_inv_def pending_pages_def)
      then have "pp_release S" by auto
      then show ?thesis using st wake[OF PBlocked] by blast
    next
      case (PFetch a)
      then show ?thesis using st fetch[OF PFetch] by (metis surj_pair)
    next
      case (PAdd p)
      then show ?thesis using st add[OF PAdd] by blast
    next
      case (PSend p)
      then show ?thesis using st send[OF PSend] ch assms(2) by (metis list.size(3))
    next
      case PDone
      then show ?thesis using st recv_closed[OF c ch PDone] by blast
    qed
  qed
  then obtain r where r: "pp_cons S = CRet r" by (auto simp: returned_def split: consumer.splits)
  have "pp_prod S = PDone"
  proof (cases "pp_prod S")
    case (PCheck a)
    then show ?thesis using st check_go[OF PCheck] check_block[OF PCheck] by (meson not_le)
  next
    case (PBlocked a)
    then show ?thesis using st cancel_blocked[OF PBlocked r] by blast
  next
    case (PFetch a)
    then show ?thesis using st fetch[OF PFetch] by (metis surj_pair)
  next
    case (PAdd p)
    then show ?thesis using st add[OF PAdd] by blast
  next
    case (PSend p)
    then show ?thesis using st cancel_send[OF PSend r] by blast
  qed
  then show ?thesis using ret by blast
qed

subsection \<open>Runs end\<close>

fun prod_rank :: "'r producer \<Rightarrow> nat" where
  "prod_rank (PCheck _) = 4" | "prod_rank (PBlocked _) = 3" | "prod_rank (PFetch _) = 3" | "prod_rank (PAdd _) = 2" | "prod_rank (PSend _) = 1" | "prod_rank PDone = 0"

fun cons_rank :: "nat \<Rightarrow> 'r consumer \<Rightarrow> nat" where
  "cons_rank n CRecv = 4 * n + 2" | "cons_rank n (CCall _) = 4 * n + 1" | "cons_rank n (CSub _) = 4 * n + 4" | "cons_rank n CRelease = 4 * n + 3" | "cons_rank n (CRet _) = 0"

text \<open>The work left: first the consumer's, then how far the producer can run ahead.\<close>

definition ahead :: "nat \<Rightarrow> ('r, 'c, 's) pipe \<Rightarrow> nat" where
  "ahead cap S = 5 * (cap - length (pp_chan S)) + prod_rank (pp_prod S) + (if pp_release S then 3 else 0)"

definition less_work :: "nat \<Rightarrow> nat \<times> ('r, 'c, 's) pipe \<Rightarrow> nat \<times> ('r, 'c, 's) pipe \<Rightarrow> bool" where
  "less_work cap x y \<longleftrightarrow> cons_rank (fst x) (pp_cons (snd x)) < cons_rank (fst y) (pp_cons (snd y)) \<or>
     cons_rank (fst x) (pp_cons (snd x)) = cons_rank (fst y) (pp_cons (snd y)) \<and> ahead cap (snd x) < ahead cap (snd y)"

lemmas leads_defs = leads_to_def in_hand_def held_def position_def

lemma leads_step:
  assumes "pipe_step fetch fn psize cap maxBytes S S'" "pipe_inv psize cap maxBytes S" "leads_to fetch fn S n res cs'"
  shows "\<exists>m. leads_to fetch fn S' m res cs' \<and> less_work cap (m, S') (n, S)"
  using assms
proof (induction rule: pipe_step.induct)
  case (fetch S a p st')
  note ahead_of = consume_ahead[where fetch = fetch and a = a and st = "pp_st S" and p = p and ?st1.0 = st' and fn = fn and
    qs = "in_hand S @ pp_chan S" and cs = "pp_cs S" and tot = "pp_total S" and n = n and res = res and cs' = cs', OF fetch(2)]
  have "leads_to fetch fn (S\<lparr>pp_prod := PAdd p, pp_st := st'\<rparr>) n res cs'"
    using fetch ahead_of
    by (auto simp: leads_defs split: consumer.splits)
  then show ?case using fetch by (auto simp: less_work_def ahead_def)
next
  case (send S p)
  then have "leads_to fetch fn (S\<lparr>pp_chan := pp_chan S @ [p], pp_prod := (case next_pos p of None \<Rightarrow> PDone | Some a \<Rightarrow> PCheck a)\<rparr>) n res cs'"
    by (auto simp: leads_defs split: consumer.splits option.splits)
  then show ?case using send by (auto simp: less_work_def ahead_def split: option.splits)
next
  case (recv S r ps)
  then have "leads_to fetch fn (S\<lparr>pp_chan := ps, pp_cons := CCall r, pp_total := lr_Total r\<rparr>) n res cs'"
    by (auto simp: leads_defs intro: consume_total)
  then show ?case using recv by (auto simp: less_work_def)
next
  case (call S r cs1)
  then obtain m where m: "n = Suc m" "consume fetch fn (pp_chan S @ held S) (position S) (pp_st S) cs1 (lr_Total r) m res cs'"
    by (auto simp: leads_to_def in_hand_def elim!: consume_ConsE)
  moreover have "pp_total S = lr_Total r" using call by (simp add: pipe_inv_def)
  ultimately have "leads_to fetch fn (S\<lparr>pp_cons := (if 0 < maxBytes then CSub r else CRecv), pp_cs := cs1\<rparr>) m res cs'"
    by (simp add: leads_defs)
  then show ?case using call m(1) by (auto simp: less_work_def)
next
  case (recv_closed S)
  then show ?case by (auto simp: leads_defs less_work_def elim: consume_EndE)
next
  case (recv_err S e ps)
  then show ?case by (auto simp: leads_defs less_work_def elim: consume_ConsE)
next
  case (call_err S r e cs1)
  then show ?case by (auto simp: leads_defs less_work_def elim!: consume_ConsE)
qed (auto simp: leads_defs less_work_def ahead_def split: consumer.splits)

lemma less_work_wf: "wf {(x :: nat \<times> ('r, 'c, 's) pipe, y). less_work cap x y}"
proof -
  have "{(x :: nat \<times> ('r, 'c, 's) pipe, y). less_work cap x y} =
      inv_image (less_than <*lex*> less_than) (\<lambda>z. (cons_rank (fst z) (pp_cons (snd z)), ahead cap (snd z)))"
    by (auto simp: less_work_def)
  then show ?thesis by (simp only:) (intro wf_inv_image wf_lex_prod wf_less_than)
qed

lemma leads_reach:
  assumes "(pipe_step fetch fn psize cap maxBytes)\<^sup>*\<^sup>* S0 S" "pipe_inv psize cap maxBytes S0" "leads_to fetch fn S0 n0 res cs'"
  shows "pipe_inv psize cap maxBytes S \<and> (\<exists>n. leads_to fetch fn S n res cs')"
  using assms by (induction rule: rtranclp_induct) (blast dest: pipe_inv_step leads_step)+

text \<open>By the order on the work left, a state that leads to a result starts no infinite run.\<close>

lemma leads_terminates:
  assumes "leads_to fetch fn (f 0) n0 res cs'" "pipe_inv psize cap maxBytes (f 0)" "\<forall>i. pipe_step fetch fn psize cap maxBytes (f i) (f (Suc i))"
  shows False
proof -
  have "\<not> (\<exists>f. f 0 = snd x \<and> pipe_inv psize cap maxBytes (f 0) \<and> leads_to fetch fn (f 0) (fst x) res cs' \<and>
      (\<forall>i. pipe_step fetch fn psize cap maxBytes (f i) (f (Suc i))))" (is "\<not> (\<exists>f. ?run x f)") for x
  proof (induction x rule: wf_induct_rule[OF less_work_wf[of cap]])
    case (1 x)
    show ?case
    proof
      assume "\<exists>f. ?run x f"
      then obtain f where f: "?run x f" by (elim exE)
      then have st: "pipe_step fetch fn psize cap maxBytes (f 0) (f (Suc 0))" and inv: "pipe_inv psize cap maxBytes (f 0)"
        and l: "leads_to fetch fn (f 0) (fst x) res cs'" by metis+
      obtain m where m: "leads_to fetch fn (f (Suc 0)) m res cs'" "less_work cap (m, f (Suc 0)) (fst x, f 0)"
        using leads_step[OF st inv l] by (elim exE conjE)
      have w: "((m, f (Suc 0)), x) \<in> {(x, y). less_work cap x y}" using m(2) f by simp
      have "?run (m, f (Suc 0)) (\<lambda>i. f (Suc i))" using f m(1) pipe_inv_step[OF st inv] by simp
      then show False using 1[OF w] by (elim notE exI)
    qed
  qed
  from this[of "(n0, f 0)"] show ?thesis using assms by (elim notE, intro exI[of _ f]) simp
qed

text \<open>C26: prefetching is transparent. When the sequential loop over the pages returns, then every run of the
  pipeline ends, whatever the interleaving, the depth of the channel and the byte budget, and in the last
  state the caller has returned the same result, the callback has seen the same pages in the same order,
  and the producer has ended.\<close>

theorem prefetch_equivalent:
  assumes seq: "call_pages fetch fn [] cs st = Some (res, cs', st')" and cap: "0 < cap"
  shows "(\<nexists>f. f 0 = pipe_init cs st \<and> (\<forall>i. pipe_step fetch fn psize cap maxBytes (f i) (f (Suc i)))) \<and>
    {(pp_cons S, pp_cs S, pp_prod S) | S. (pipe_step fetch fn psize cap maxBytes)\<^sup>*\<^sup>* (pipe_init cs st) S \<and>
      (\<nexists>S'. pipe_step fetch fn psize cap maxBytes S S')} \<subseteq> {(CRet res, cs', PDone)}"
proof -
  have inv: "pipe_inv psize cap maxBytes (pipe_init cs st)" by (simp add: pipe_inv_def pipe_init_def pending_pages_def)
  obtain n where l: "leads_to fetch fn (pipe_init cs st) n res cs'"
    using call_pages_consume[OF seq, of 0] by (auto simp: leads_defs pipe_init_def)
  have "pp_cons S = CRet res \<and> pp_cs S = cs' \<and> pp_prod S = PDone"
    if "(pipe_step fetch fn psize cap maxBytes)\<^sup>*\<^sup>* (pipe_init cs st) S" "\<nexists>S'. pipe_step fetch fn psize cap maxBytes S S'" for S
    using leads_reach[OF that(1) inv l] pipe_progress[OF _ cap, of psize maxBytes S fetch fn] that(2)
    by (auto simp: leads_to_def returned_def split: consumer.splits)
  moreover have "\<nexists>f. f 0 = pipe_init cs st \<and> (\<forall>i. pipe_step fetch fn psize cap maxBytes (f i) (f (Suc i)))"
  proof
    assume "\<exists>f. f 0 = pipe_init cs st \<and> (\<forall>i. pipe_step fetch fn psize cap maxBytes (f i) (f (Suc i)))"
    then obtain f where f: "f 0 = pipe_init cs st" "\<forall>i. pipe_step fetch fn psize cap maxBytes (f i) (f (Suc i))" by (elim exE conjE)
    show False by (rule leads_terminates[of fetch fn f n res cs' psize cap maxBytes]) (use f inv l in simp_all)
  qed
  ultimately show ?thesis by auto
qed

text \<open>A list of one page, received through a channel of one place with a budget of one byte.\<close>

theorem prefetch_equivalent_witness:
  "(\<nexists>f. f 0 = pipe_init [] () \<and> (\<forall>i. pipe_step (\<lambda>_ s. (Inr \<lparr>lr_Items = [7 :: nat], lr_Total = 1, lr_Next = []\<rparr>, s)) (\<lambda>is c. (None, c @ is))
      (\<lambda>_. 20) 1 1 (f i) (f (Suc i)))) \<and>
    {(pp_cons S, pp_cs S, pp_prod S) | S.
      (pipe_step (\<lambda>_ s. (Inr \<lparr>lr_Items = [7 :: nat], lr_Total = 1, lr_Next = []\<rparr>, s)) (\<lambda>is c. (None, c @ is)) (\<lambda>_. 20) 1 1)\<^sup>*\<^sup>*
        (pipe_init [] ()) S \<and>
      (\<nexists>S'. pipe_step (\<lambda>_ s. (Inr \<lparr>lr_Items = [7 :: nat], lr_Total = 1, lr_Next = []\<rparr>, s)) (\<lambda>is c. (None, c @ is)) (\<lambda>_. 20) 1 1 S S')}
      \<subseteq> {(CRet (Inr 1), [7], PDone)}"
  by (rule prefetch_equivalent[where st' = "()"]) (simp_all add: call_pages.simps)

end
