(* ===== verification/Csi.thy ===== *)
theory Csi
  imports Client
begin

text \<open>
  What the controller and the node service of \<open>integrations/kubernetes\<close> share: the constants and
  identifiers of \<open>csiserver\<close>, the parameter and label keys of \<open>controller/config.go\<close>, the status codes of
  gRPC, and the objects of the Kubernetes API the code reads. The Kubernetes API itself is not part of
  the repository: its answers are a record of functions, an argument of the operations.
\<close>

named_theorems csi_keys \<open>constants of the Kubernetes integration\<close>

section \<open>Status codes\<close>

text \<open>The code of a gRPC status; message texts are not modelled. \<open>Unknown\<close> is the code of an error that is
  not a status, \<open>Panic\<close> a nil dereference.\<close>

datatype grpc_code = InvalidArgument | FailedPrecondition | Aborted | NotFound | Internal | Unknown | Panic

section \<open>Constants\<close>

definition DriverName :: string where [csi_keys]: "DriverName = ''btrfs-nfs-csi''"
definition VolumeIDSep :: string where [csi_keys]: "VolumeIDSep = ''|''"
definition NodeIDSep :: string where [csi_keys]: "NodeIDSep = ''|''"
definition PvcNameKey :: string where [csi_keys]: "PvcNameKey = ''csi.storage.k8s.io/pvc/name''"
definition PvcNamespaceKey :: string where [csi_keys]: "PvcNamespaceKey = ''csi.storage.k8s.io/pvc/namespace''"
definition SecretNameKey :: string where [csi_keys]: "SecretNameKey = ''csi.storage.k8s.io/provisioner-secret-name''"
definition SecretNamespaceKey :: string where [csi_keys]: "SecretNamespaceKey = ''csi.storage.k8s.io/provisioner-secret-namespace''"
definition ParamNFSServer :: string where [csi_keys]: "ParamNFSServer = ''nfsServer''"
definition ParamNFSMountOptions :: string where [csi_keys]: "ParamNFSMountOptions = ''nfsMountOptions''"
definition ParamNFSSharePath :: string where [csi_keys]: "ParamNFSSharePath = ''nfsSharePath''"

definition paramAgentURL :: string where [csi_keys]: "paramAgentURL = ''agentURL''"
definition secretAgentToken :: string where [csi_keys]: "secretAgentToken = ''agentToken''"
definition labelPVCName :: string where [csi_keys]: "labelPVCName = ''kubernetes.pvc.name''"
definition labelPVCNamespace :: string where [csi_keys]: "labelPVCNamespace = ''kubernetes.pvc.namespace''"
definition labelPVCStorageClass :: string where [csi_keys]: "labelPVCStorageClass = ''kubernetes.pvc.storageclassname''"
definition labelPVName :: string where [csi_keys]: "labelPVName = ''kubernetes.pv.name''"
definition labelPVStorageClass :: string where [csi_keys]: "labelPVStorageClass = ''kubernetes.pv.storageclassname''"
definition labelNodeName :: string where [csi_keys]: "labelNodeName = ''kubernetes.node.name''"
definition labelVolumeAttachmentName :: string where [csi_keys]: "labelVolumeAttachmentName = ''kubernetes.volumeattachment.name''"
definition labelSourcePVCName :: string where [csi_keys]: "labelSourcePVCName = ''kubernetes.source.pvc.name''"
definition labelSourcePVCNamespace :: string where [csi_keys]: "labelSourcePVCNamespace = ''kubernetes.source.pvc.namespace''"
definition labelSourcePVCStorageClass :: string where [csi_keys]: "labelSourcePVCStorageClass = ''kubernetes.source.pvc.storageclassname''"
definition labelSnapshotName :: string where [csi_keys]: "labelSnapshotName = ''kubernetes.snapshot.name''"
definition labelSnapshotNamespace :: string where [csi_keys]: "labelSnapshotNamespace = ''kubernetes.snapshot.namespace''"
definition snapshotNameKey :: string where [csi_keys]: "snapshotNameKey = ''csi.storage.k8s.io/volumesnapshot/name''"
definition snapshotNamespaceKey :: string where [csi_keys]: "snapshotNamespaceKey = ''csi.storage.k8s.io/volumesnapshot/namespace''"
definition annoPrefix :: string where [csi_keys]: "annoPrefix = DriverName @ ''/''"
definition paramNoCOW :: string where [csi_keys]: "paramNoCOW = ''nocow''"
definition paramCompression :: string where [csi_keys]: "paramCompression = ''compression''"
definition paramUID :: string where [csi_keys]: "paramUID = ''uid''"
definition paramGID :: string where [csi_keys]: "paramGID = ''gid''"
definition paramMode :: string where [csi_keys]: "paramMode = ''mode''"
definition paramLabels :: string where [csi_keys]: "paramLabels = ''labels''"

section \<open>Identifiers\<close>

definition MakeVolumeID :: "string \<Rightarrow> string \<Rightarrow> string" where
  "MakeVolumeID storageClass name = storageClass @ VolumeIDSep @ name"

definition ParseVolumeID :: "string \<Rightarrow> (string \<times> string) option" where
  "ParseVolumeID vid = (case cut VolumeIDSep vid of
       None \<Rightarrow> None
     | Some (sc, n) \<Rightarrow> if sc = [] \<or> n = [] then None else Some (sc, n))"

definition MakeNodeID :: "string \<Rightarrow> string \<Rightarrow> string" where
  "MakeNodeID hostname ip = hostname @ NodeIDSep @ ip"

definition ParseNodeID :: "string \<Rightarrow> (string \<times> string) option" where
  "ParseNodeID nodeID = (case cut NodeIDSep nodeID of
       None \<Rightarrow> None
     | Some (h, i) \<Rightarrow> if i = [] then None else Some (h, i))"

section \<open>The identity service\<close>

record plugin_info = pi_Name :: string pi_VendorVersion :: string

definition GetPluginInfo :: "string \<Rightarrow> plugin_info" where
  "GetPluginInfo version = \<lparr>pi_Name = DriverName, pi_VendorVersion = version\<rparr>"

datatype plugin_capability = CONTROLLER_SERVICE

definition GetPluginCapabilities :: "plugin_capability list" where
  "GetPluginCapabilities = [CONTROLLER_SERVICE]"

definition Probe :: bool where "Probe = True"

section \<open>Kubernetes objects\<close>

record StorageClass =
  sc_Name :: string
  sc_Provisioner :: string
  sc_Parameters :: labels

record PVC =
  pvc_Name :: string
  pvc_Namespace :: string
  pvc_StorageClassName :: "string option"
  pvc_Annotations :: labels

text \<open>The CSI source is the driver and the volume handle; the claim is its namespace and name.\<close>

record PV =
  pv_CSI :: "(string \<times> string) option"
  pv_ClaimRef :: "(string \<times> string) option"

text \<open>\<open>None\<close> is an error of the API. The lookups take the namespace first; a secret is its data, a volume
  snapshot its annotations.\<close>

record kube =
  k_StorageClasses :: "StorageClass list option"
  k_Secret :: "string \<Rightarrow> string \<Rightarrow> labels option"
  k_PVC :: "string \<Rightarrow> string \<Rightarrow> PVC option"
  k_PVs :: "PV list option"
  k_VolumeSnapshot :: "string \<Rightarrow> string \<Rightarrow> labels option"

section \<open>Laws of the identifiers\<close>

lemma ParseVolumeID_Make: "sc \<noteq> [] \<Longrightarrow> n \<noteq> [] \<Longrightarrow> CHR ''|'' \<notin> set sc \<Longrightarrow> ParseVolumeID (MakeVolumeID sc n) = Some (sc, n)"
  by (simp add: ParseVolumeID_def MakeVolumeID_def VolumeIDSep_def cut_single_append)

lemma ParseVolumeID_SomeD:
  "ParseVolumeID vid = Some (sc, n) \<Longrightarrow> vid = MakeVolumeID sc n \<and> sc \<noteq> [] \<and> n \<noteq> [] \<and> CHR ''|'' \<notin> set sc"
  by (auto simp: ParseVolumeID_def MakeVolumeID_def VolumeIDSep_def dest!: cut_single_SomeD split: option.splits if_splits)

lemma ParseNodeID_Make: "ip \<noteq> [] \<Longrightarrow> CHR ''|'' \<notin> set h \<Longrightarrow> ParseNodeID (MakeNodeID h ip) = Some (h, ip)"
  by (simp add: ParseNodeID_def MakeNodeID_def NodeIDSep_def cut_single_append)

lemma ParseNodeID_SomeD: "ParseNodeID nid = Some (h, ip) \<Longrightarrow> nid = MakeNodeID h ip \<and> ip \<noteq> [] \<and> CHR ''|'' \<notin> set h"
  by (auto simp: ParseNodeID_def MakeNodeID_def NodeIDSep_def dest!: cut_single_SomeD split: option.splits if_splits)

text \<open>Volume identifiers are unambiguous. An identifier parses to a storage class and a name exactly when
  it is the identifier made from them, both are not empty and the class has no separator: the parts
  an identifier was made from are recovered, and no other text is accepted for them.\<close>

lemma ParseVolumeID_exact:
  "ParseVolumeID vid = Some (sc, n) \<longleftrightarrow> vid = MakeVolumeID sc n \<and> sc \<noteq> [] \<and> n \<noteq> [] \<and> CHR ''|'' \<notin> set sc"
  using ParseVolumeID_Make ParseVolumeID_SomeD by blast

end
