(* ===== verification/Tracker.thy ===== *)
theory Tracker
  imports Csi
begin

text \<open>
  The agents the controller knows: \<open>controller/agenttracker.go\<close> and the client functions of
  \<open>controller/utils.go\<close>. Each method of the tracker holds its lock for its whole body and is one step. The
  environment of the client (\<open>AGENT_HTTP_CLIENT_*\<close>) is an argument, as in \<open>NewClient\<close>; the network gives
  each URL a transport.
\<close>

section \<open>The tracker\<close>

record tracker =
  trk_version :: string
  trk_commit :: string
  trk_agents :: "(string \<times> client) list"
  trk_scToURL :: "(string \<times> string) list"

definition NewAgentTracker :: "string \<Rightarrow> string \<Rightarrow> tracker" where
  "NewAgentTracker version commit = \<lparr>trk_version = version, trk_commit = commit, trk_agents = [], trk_scToURL = []\<rparr>"

definition AgentURL :: "string \<Rightarrow> tracker \<Rightarrow> string option" where
  "AgentURL scName t = map_of (trk_scToURL t) scName"

definition Track :: "string \<Rightarrow> client \<Rightarrow> tracker \<Rightarrow> tracker" where
  "Track url c t = t\<lparr>trk_agents := AList.update url c (trk_agents t)\<rparr>"

definition tracked_Client :: "string \<Rightarrow> tracker \<Rightarrow> client option" where
  "tracked_Client scName t = (case map_of (trk_scToURL t) scName of
       Some url \<Rightarrow> map_of (trk_agents t) url
     | None \<Rightarrow> None)"

definition Agents :: "tracker \<Rightarrow> (string \<times> client) list" where
  "Agents t = List.map_filter (\<lambda>(sc, url). map_option (Pair sc) (map_of (trk_agents t) url)) (trk_scToURL t)"

section \<open>Discovery\<close>

record agentInfo =
  ai_scName :: string
  ai_agentURL :: string
  ai_token :: string

definition resolveAgentToken :: "kube \<Rightarrow> labels \<Rightarrow> string" where
  "resolveAgentToken k params =
     (let name = mget params SecretNameKey; ns = mget params SecretNamespaceKey in
      if name = [] \<or> ns = [] then []
      else (case k_Secret k ns name of None \<Rightarrow> [] | Some d \<Rightarrow> mget d secretAgentToken))"

definition agent_info :: "kube \<Rightarrow> StorageClass \<Rightarrow> agentInfo option" where
  "agent_info k sc =
     (let url = mget (sc_Parameters sc) paramAgentURL in
      if sc_Provisioner sc \<noteq> DriverName \<or> url = [] then None
      else Some \<lparr>ai_scName = sc_Name sc, ai_agentURL = url, ai_token = resolveAgentToken k (sc_Parameters sc)\<rparr>)"

definition discoverAgents :: "kube \<Rightarrow> agentInfo list option" where
  "discoverAgents k = map_option (List.map_filter (agent_info k)) (k_StorageClasses k)"

definition discover_agent :: "ClientConfig option \<Rightarrow> agentInfo \<Rightarrow> (string \<times> client) list \<Rightarrow> (string \<times> client) list" where
  "discover_agent cfg a agents =
     (if map_of agents (ai_agentURL a) \<noteq> None then agents
      else (case NewClient cfg (ai_agentURL a) (ai_token a) IdentityK8sController of
              Inl _ \<Rightarrow> agents
            | Inr c \<Rightarrow> AList.update (ai_agentURL a) c agents))"

definition discoverFromStorageClasses :: "ClientConfig option \<Rightarrow> kube \<Rightarrow> tracker \<Rightarrow> tracker" where
  "discoverFromStorageClasses cfg k t = (case discoverAgents k of
       None \<Rightarrow> t
     | Some infos \<Rightarrow>
         t\<lparr>trk_agents := filter (\<lambda>(url, _). url \<in> ai_agentURL ` set infos) (fold (discover_agent cfg) infos (trk_agents t)),
           trk_scToURL := fold (\<lambda>a. AList.update (ai_scName a) (ai_agentURL a)) infos []\<rparr>)"

section \<open>Health checks\<close>

datatype check_outcome = CheckError | CheckDegraded | CheckVersionMismatch | CheckHealthy

definition check_outcome_of :: "tracker \<Rightarrow> client_error + HealthResponse \<Rightarrow> check_outcome" where
  "check_outcome_of t r = (case r of
       Inl e \<Rightarrow> CheckError
     | Inr h \<Rightarrow> if hr_Status h = ''degraded'' then CheckDegraded
                else if hr_Version h \<noteq> trk_version t then CheckVersionMismatch
                else CheckHealthy)"

fun check_agents :: "(string \<Rightarrow> ('f, 's) transport) \<Rightarrow> tracker \<Rightarrow> (string \<times> client) list \<Rightarrow> 's \<Rightarrow> (string \<times> check_outcome) list \<times> 's" where
  "check_agents net t [] st = ([], st)"
| "check_agents net t ((sc, c) # cs) st =
     (case c_Healthz (net (cl_url c)) c st of (r, st1) \<Rightarrow>
      (case check_agents net t cs st1 of (os, st2) \<Rightarrow> ((sc, check_outcome_of t r) # os, st2)))"

text \<open>The counted outcomes; a commit that differs counts as healthy.\<close>

definition checkAll :: "(string \<Rightarrow> ('f, 's) transport) \<Rightarrow> tracker \<Rightarrow> 's \<Rightarrow> (string \<times> check_outcome) list \<times> 's" where
  "checkAll net t st = check_agents net t (Agents t) st"

text \<open>One turn of \<open>Run\<close>.\<close>

definition tracker_turn :: "(string \<Rightarrow> ('f, 's) transport) \<Rightarrow> ClientConfig option \<Rightarrow> kube \<Rightarrow> tracker \<times> 's \<Rightarrow> tracker \<times> 's" where
  "tracker_turn net cfg k s = (case s of (t, st) \<Rightarrow>
     let t1 = discoverFromStorageClasses cfg k t in (t1, snd (checkAll net t1 st)))"

section \<open>The client of a storage class\<close>

definition agentClientFromSecrets :: "ClientConfig option \<Rightarrow> string \<Rightarrow> labels \<Rightarrow> grpc_code + client" where
  "agentClientFromSecrets cfg agentURL secrets =
     (let tok = mget secrets secretAgentToken in
      if tok = [] then Inl InvalidArgument
      else (case NewClient cfg agentURL tok IdentityK8sController of Inl _ \<Rightarrow> Inl Unknown | Inr c \<Rightarrow> Inr c))"

definition agentClientFromStorageClass :: "ClientConfig option \<Rightarrow> string \<Rightarrow> labels \<Rightarrow> tracker \<Rightarrow> (grpc_code + client) \<times> tracker" where
  "agentClientFromStorageClass cfg scName secrets t = (case tracked_Client scName t of
       Some c \<Rightarrow> (Inr c, t)
     | None \<Rightarrow> (case AgentURL scName t of
         None \<Rightarrow> (Inl FailedPrecondition, t)
       | Some url \<Rightarrow> (case agentClientFromSecrets cfg url secrets of
           Inl e \<Rightarrow> (Inl e, t)
         | Inr c \<Rightarrow> (Inr c, Track url c t))))"

section \<open>The invariant of the tracker\<close>

text \<open>A client is stored under its own URL and can authenticate, and no storage class has an empty URL.\<close>

definition tracker_ok :: "tracker \<Rightarrow> bool" where
  "tracker_ok t \<longleftrightarrow>
     (\<forall>url c. map_of (trk_agents t) url = Some c \<longrightarrow> cl_url c = url \<and> url \<noteq> [] \<and> cl_token c \<noteq> []) \<and>
     (\<forall>sc url. map_of (trk_scToURL t) sc = Some url \<longrightarrow> url \<noteq> [])"

lemma NewClient_Inr: "NewClient cfg url tok i = Inr c \<Longrightarrow> cl_url c = url \<and> cl_token c = tok \<and> url \<noteq> [] \<and> tok \<noteq> []"
  by (auto simp: NewClient_def newClient_def Let_def split: if_splits)

lemma agentClientFromSecrets_Inr:
  "agentClientFromSecrets cfg url secrets = Inr c \<Longrightarrow> cl_url c = url \<and> url \<noteq> [] \<and> cl_token c \<noteq> [] \<and> cl_token c = mget secrets secretAgentToken"
  by (auto simp: agentClientFromSecrets_def Let_def dest: NewClient_Inr split: if_splits sum.splits)

definition agents_ok :: "(string \<times> client) list \<Rightarrow> bool" where
  "agents_ok as \<longleftrightarrow> (\<forall>url c. map_of as url = Some c \<longrightarrow> cl_url c = url \<and> url \<noteq> [] \<and> cl_token c \<noteq> [])"

lemma agents_ok_update: "agents_ok as \<Longrightarrow> cl_url c = url \<Longrightarrow> url \<noteq> [] \<Longrightarrow> cl_token c \<noteq> [] \<Longrightarrow> agents_ok (AList.update url c as)"
  by (auto simp: agents_ok_def map_of_update)

lemma agents_ok_discover: "agents_ok as \<Longrightarrow> agents_ok (discover_agent cfg a as)"
  by (auto simp: discover_agent_def intro!: agents_ok_update dest: NewClient_Inr split: sum.splits)

lemma agents_ok_fold: "agents_ok as \<Longrightarrow> agents_ok (fold (discover_agent cfg) infos as)"
  by (induction infos arbitrary: as) (auto simp: agents_ok_discover)

lemma agents_ok_filter: "agents_ok as \<Longrightarrow> agents_ok (filter (\<lambda>(u, _). P u) as)"
  by (auto simp: agents_ok_def map_of_filter_keys split: if_splits)

lemma discoverAgents_url: "discoverAgents k = Some infos \<Longrightarrow> a \<in> set infos \<Longrightarrow> ai_agentURL a \<noteq> []"
  by (auto simp: discoverAgents_def List.map_filter_def agent_info_def Let_def split: if_splits)

lemma fold_update_range: "map_of (fold (\<lambda>a. AList.update (f a) (g a)) as m) k = Some v \<Longrightarrow> map_of m k = Some v \<or> v \<in> g ` set as"
  by (induction as arbitrary: m) (fastforce simp: map_of_update split: if_splits)+

lemma tracker_ok_agents: "tracker_ok t \<longleftrightarrow> agents_ok (trk_agents t) \<and> (\<forall>sc url. map_of (trk_scToURL t) sc = Some url \<longrightarrow> url \<noteq> [])"
  by (simp add: tracker_ok_def agents_ok_def)

lemma NewAgentTracker_ok: "tracker_ok (NewAgentTracker v c)"
  by (simp add: NewAgentTracker_def tracker_ok_def)

lemma Track_ok: "tracker_ok t \<Longrightarrow> cl_url c = url \<Longrightarrow> url \<noteq> [] \<Longrightarrow> cl_token c \<noteq> [] \<Longrightarrow> tracker_ok (Track url c t)"
  by (simp add: Track_def tracker_ok_agents agents_ok_update)

lemma discover_ok:
  assumes "tracker_ok t"
  shows "tracker_ok (discoverFromStorageClasses cfg k t)"
proof (cases "discoverAgents k")
  case (Some infos)
  have "url \<noteq> []" if "map_of (fold (\<lambda>a. AList.update (ai_scName a) (ai_agentURL a)) infos []) sc = Some url" for sc url
    using fold_update_range[OF that] discoverAgents_url[OF Some] by auto
  then show ?thesis
    using assms Some by (simp add: discoverFromStorageClasses_def tracker_ok_agents agents_ok_filter agents_ok_fold)
qed (use assms in \<open>simp add: discoverFromStorageClasses_def\<close>)

text \<open>The three ways a client for a storage class is found: it is tracked, or made for the URL of the class.\<close>

lemma agentClientFromStorageClass_Inr:
  assumes "agentClientFromStorageClass cfg sc secrets t = (Inr c, t')"
  shows "tracked_Client sc t = Some c \<and> t' = t \<or>
    (\<exists>url. AgentURL sc t = Some url \<and> agentClientFromSecrets cfg url secrets = Inr c \<and> t' = Track url c t)"
  using assms by (auto simp: agentClientFromStorageClass_def split: option.splits sum.splits)

lemma agentClientFromStorageClass_Inl: "agentClientFromStorageClass cfg sc secrets t = (Inl e, t') \<Longrightarrow> t' = t"
  by (auto simp: agentClientFromStorageClass_def split: option.splits sum.splits)

lemma agentClientFromStorageClass_url:
  assumes "tracker_ok t" "agentClientFromStorageClass cfg sc secrets t = (Inr c, t')"
  shows "map_of (trk_scToURL t) sc = Some (cl_url c)" "cl_token c \<noteq> []"
  using agentClientFromStorageClass_Inr[OF assms(2)] assms(1)
  by (auto simp: tracked_Client_def AgentURL_def tracker_ok_def dest!: agentClientFromSecrets_Inr split: option.splits)

lemma agentClientFromStorageClass_ok:
  assumes "tracker_ok t" "agentClientFromStorageClass cfg sc secrets t = (r, t')"
  shows "tracker_ok t'"
proof (cases r)
  case (Inl e)
  then show ?thesis using agentClientFromStorageClass_Inl assms by metis
next
  case (Inr c)
  then show ?thesis
    using agentClientFromStorageClass_Inr[of cfg sc secrets t c t'] assms by (auto dest: agentClientFromSecrets_Inr intro: Track_ok)
qed

lemma agentClientFromStorageClass_scToURL:
  "agentClientFromStorageClass cfg sc secrets t = (r, t') \<Longrightarrow> trk_scToURL t' = trk_scToURL t"
  by (cases r) (auto simp: Track_def dest!: agentClientFromStorageClass_Inr agentClientFromStorageClass_Inl)

end
