(* ===== verification/Params.thy ===== *)
theory Params
  imports Tracker
begin

text \<open>
  Parameters and labels of volumes, exports and snapshots: \<open>controller/pvc.go\<close>. The parameters of the storage
  class and the annotations of the claim are maps of texts; the labels the controller sends to the agent
  come from the claim, the defaults of the environment and the user. Events for the user are a list.
\<close>

section \<open>Labels\<close>

definition reservedLabelKeys :: "string list" where
  "reservedLabelKeys = [labelPVCName, labelPVCNamespace, labelPVCStorageClass, LabelCreatedBy, labelPVName, labelPVStorageClass,
     labelNodeName, labelVolumeAttachmentName, labelSourcePVCName, labelSourcePVCNamespace, labelSourcePVCStorageClass,
     labelSnapshotName, labelSnapshotNamespace] @ SoftReservedLabelKeys"

definition add_pair :: "string \<Rightarrow> labels \<Rightarrow> labels" where
  "add_pair pair ls =
     (let p = trim_space pair in
      if p = [] then ls
      else (case cut ''='' p of None \<Rightarrow> AList.update p [] ls | Some (k, v) \<Rightarrow> AList.update k v ls))"

definition parseLabels :: "string \<Rightarrow> labels" where
  "parseLabels raw = fold add_pair (split_on CHR '','' raw) []"

definition valid_label :: "string \<Rightarrow> string \<Rightarrow> bool" where
  "valid_label k v \<longleftrightarrow> ValidLabelKey k \<and> ValidLabelVal v"

text \<open>The default labels of the environment, a variable of the package; \<open>[]\<close> when it is not set.\<close>

definition initDefaultLabels :: "string \<Rightarrow> labels" where
  "initDefaultLabels raw =
     (if raw = [] then [] else filter (\<lambda>(k, v). k \<notin> set reservedLabelKeys \<and> valid_label k v) (parseLabels raw))"

fun add_missing :: "labels \<Rightarrow> labels \<Rightarrow> labels" where
  "add_missing [] ls = ls"
| "add_missing ((k, v) # defaults) ls = add_missing defaults (if map_of ls k = None then AList.update k v ls else ls)"

text \<open>The loop of \<open>mergeUserLabels\<close> over the sorted keys: the map, the number merged and the skipped keys.\<close>

fun merge_loop :: "nat \<Rightarrow> (string \<times> string) list \<Rightarrow> nat \<Rightarrow> labels \<Rightarrow> labels \<times> string list" where
  "merge_loop maxUser [] merged dst = (dst, [])"
| "merge_loop maxUser ((k, v) # kvs) merged dst =
     (if k \<in> set reservedLabelKeys \<or> \<not> valid_label k v \<or> maxUser \<le> merged
      then (case merge_loop maxUser kvs merged dst of (d, sk) \<Rightarrow> (d, k # sk))
      else merge_loop maxUser kvs (Suc merged) (AList.update k v dst))"

definition mergeUserLabels :: "labels \<Rightarrow> labels \<Rightarrow> nat \<Rightarrow> labels \<times> string list" where
  "mergeUserLabels dst user maxUser = merge_loop maxUser (sort_key fst user) 0 dst"

section \<open>Parameters of a volume\<close>

record volumeParams =
  vp_StorageClass :: string
  vp_Labels :: "labels option"
  vp_req :: VolumeUpdateRequest

definition zero_params :: volumeParams where
  "zero_params = \<lparr>vp_StorageClass = [], vp_Labels = None, vp_req = zero_update\<rparr>"

text \<open>One parameter: absent and empty values are ignored, a bad one is the error \<open>None\<close>.\<close>

definition string_param :: "string \<Rightarrow> (string \<Rightarrow> VolumeUpdateRequest \<Rightarrow> VolumeUpdateRequest option) \<Rightarrow> labels \<Rightarrow> VolumeUpdateRequest \<Rightarrow>
    VolumeUpdateRequest option" where
  "string_param name set_field params r =
     (case map_of params name of None \<Rightarrow> Some r | Some v \<Rightarrow> if v = [] then Some r else set_field v r)"

definition set_nocow :: "string \<Rightarrow> VolumeUpdateRequest \<Rightarrow> VolumeUpdateRequest option" where
  "set_nocow v r = (if v \<noteq> ''true'' \<and> v \<noteq> ''false'' then None else Some (r\<lparr>vur_NoCOW := Some (v = ''true'')\<rparr>))"

definition set_compression :: "string \<Rightarrow> VolumeUpdateRequest \<Rightarrow> VolumeUpdateRequest option" where
  "set_compression v r = (if \<not> IsValidCompression v then None else Some (r\<lparr>vur_Compression := Some v\<rparr>))"

definition set_uid :: "string \<Rightarrow> VolumeUpdateRequest \<Rightarrow> VolumeUpdateRequest option" where
  "set_uid v r = (case atoi v of Inl _ \<Rightarrow> None | Inr uid \<Rightarrow> if \<not> ValidateUID uid then None else Some (r\<lparr>vur_UID := Some uid\<rparr>))"

definition set_gid :: "string \<Rightarrow> VolumeUpdateRequest \<Rightarrow> VolumeUpdateRequest option" where
  "set_gid v r = (case atoi v of Inl _ \<Rightarrow> None | Inr gid \<Rightarrow> if \<not> ValidateGID gid then None else Some (r\<lparr>vur_GID := Some gid\<rparr>))"

definition set_mode :: "string \<Rightarrow> VolumeUpdateRequest \<Rightarrow> VolumeUpdateRequest option" where
  "set_mode v r = (case ValidateMode v of None \<Rightarrow> None | Some _ \<Rightarrow> Some (r\<lparr>vur_Mode := Some v\<rparr>))"

text \<open>The parameters in the order of the code. On an error the fields set so far stay set, so the request
  comes back with the error flag.\<close>

fun param_chain :: "(VolumeUpdateRequest \<Rightarrow> VolumeUpdateRequest option) list \<Rightarrow> VolumeUpdateRequest \<Rightarrow> bool \<times> VolumeUpdateRequest" where
  "param_chain [] r = (True, r)"
| "param_chain (f # fs) r = (case f r of None \<Rightarrow> (False, r) | Some r1 \<Rightarrow> param_chain fs r1)"

definition applyStringParams :: "labels \<Rightarrow> volumeParams \<Rightarrow> bool \<times> volumeParams" where
  "applyStringParams params vp =
     (case param_chain [string_param paramNoCOW set_nocow params, string_param paramCompression set_compression params,
        string_param paramUID set_uid params, string_param paramGID set_gid params, string_param paramMode set_mode params] (vp_req vp) of
        (good, r) \<Rightarrow> (good, vp\<lparr>vp_req := r\<rparr>))"

datatype event = AnnotationInvalid string | LabelsSkipped "string list"

definition anno_keys :: "string list" where
  "anno_keys = [paramNoCOW, paramCompression, paramUID, paramGID, paramMode]"

fun apply_annotations :: "labels \<Rightarrow> string list \<Rightarrow> volumeParams \<Rightarrow> volumeParams \<times> event list" where
  "apply_annotations annos [] vp = (vp, [])"
| "apply_annotations annos (k # ks) vp =
     (case map_of annos (annoPrefix @ k) of
        None \<Rightarrow> apply_annotations annos ks vp
      | Some v \<Rightarrow> (case applyStringParams [(k, v)] vp of (good, vp1) \<Rightarrow>
          (case apply_annotations annos ks vp1 of (vp2, evs) \<Rightarrow> (vp2, if good then evs else AnnotationInvalid (annoPrefix @ k) # evs))))"

definition pvc_labels :: "labels \<Rightarrow> string \<Rightarrow> string \<Rightarrow> string \<Rightarrow> labels" where
  "pvc_labels defaults pvcName pvcNamespace scName = add_missing defaults
     [(labelPVCName, pvcName), (labelPVCNamespace, pvcNamespace), (labelPVCStorageClass, scName), (LabelCreatedBy, IdentityK8sController)]"

definition user_labels :: "labels \<Rightarrow> labels \<Rightarrow> labels \<times> event list" where
  "user_labels annos ls = (case map_of annos (annoPrefix @ paramLabels) of
       None \<Rightarrow> (ls, [])
     | Some v \<Rightarrow> if v = [] then (ls, [])
         else (case mergeUserLabels ls (parseLabels v) MaxUserLabels of (ls1, sk) \<Rightarrow> (ls1, if sk = [] then [] else [LabelsSkipped sk])))"

text \<open>\<open>None\<close> is the error of a bad parameter of the storage class.\<close>

definition resolveVolumeParams :: "labels \<Rightarrow> kube \<Rightarrow> labels \<Rightarrow> volumeParams option \<times> event list" where
  "resolveVolumeParams defaults k params =
     (case applyStringParams params zero_params of
        (False, vp) \<Rightarrow> (None, [])
      | (True, vp) \<Rightarrow>
          let pvcName = mget params PvcNameKey; pvcNamespace = mget params PvcNamespaceKey in
          if pvcName = [] \<or> pvcNamespace = [] then (Some vp, [])
          else (case k_PVC k pvcNamespace pvcName of
                  None \<Rightarrow> (Some vp, [])
                | Some pvc \<Rightarrow>
                    let scName = (case pvc_StorageClassName pvc of None \<Rightarrow> [] | Some n \<Rightarrow> n) in
                    (case apply_annotations (pvc_Annotations pvc) anno_keys (vp\<lparr>vp_StorageClass := scName\<rparr>) of (vp1, evs) \<Rightarrow>
                     (case user_labels (pvc_Annotations pvc) (pvc_labels defaults pvcName pvcNamespace scName) of (ls, evs1) \<Rightarrow>
                        (Some (vp1\<lparr>vp_Labels := Some ls\<rparr>), evs @ evs1)))))"

definition hasUpdates :: "volumeParams \<Rightarrow> bool" where
  "hasUpdates vp = (vur_NoCOW (vp_req vp) \<noteq> None \<or> vur_Compression (vp_req vp) \<noteq> None \<or> vur_UID (vp_req vp) \<noteq> None \<or>
     vur_GID (vp_req vp) \<noteq> None \<or> vur_Mode (vp_req vp) \<noteq> None \<or> vp_Labels vp \<noteq> None)"

definition updateRequest :: "volumeParams \<Rightarrow> VolumeUpdateRequest" where
  "updateRequest vp = (case vp_Labels vp of None \<Rightarrow> vp_req vp | Some ls \<Rightarrow> (vp_req vp)\<lparr>vur_Labels := Some ls\<rparr>)"

section \<open>Labels of a snapshot\<close>

text \<open>The first volume of this driver with the handle decides.\<close>

definition pvcFromVolumeHandle :: "kube \<Rightarrow> string \<Rightarrow> PVC option" where
  "pvcFromVolumeHandle k volumeID = (case k_PVs k of
       None \<Rightarrow> None
     | Some pvs \<Rightarrow> (case List.find (\<lambda>pv. pv_CSI pv = Some (DriverName, volumeID)) pvs of
         None \<Rightarrow> None
       | Some pv \<Rightarrow> (case pv_ClaimRef pv of None \<Rightarrow> None | Some (ns, n) \<Rightarrow> k_PVC k ns n)))"

definition source_labels :: "PVC option \<Rightarrow> labels \<Rightarrow> labels" where
  "source_labels pvc ls = (case pvc of
       None \<Rightarrow> ls
     | Some p \<Rightarrow> AList.update labelSourcePVCStorageClass (case pvc_StorageClassName p of None \<Rightarrow> [] | Some n \<Rightarrow> n)
         (AList.update labelSourcePVCNamespace (pvc_Namespace p) (AList.update labelSourcePVCName (pvc_Name p) ls)))"

definition set_nonempty :: "string \<Rightarrow> string \<Rightarrow> labels \<Rightarrow> labels" where
  "set_nonempty k v ls = (if v \<noteq> [] then AList.update k v ls else ls)"

definition resolveSnapshotLabels :: "labels \<Rightarrow> kube \<Rightarrow> labels \<Rightarrow> string \<Rightarrow> string \<Rightarrow> string \<Rightarrow> labels" where
  "resolveSnapshotLabels defaults k params sourceVolumeID sc pvName =
     (let snapName = mget params snapshotNameKey; snapNS = mget params snapshotNamespaceKey;
          ls = add_missing defaults [(labelPVName, pvName), (labelPVStorageClass, sc)];
          ls1 = set_nonempty labelSnapshotNamespace snapNS (set_nonempty labelSnapshotName snapName ls);
          ls2 = source_labels (pvcFromVolumeHandle k sourceVolumeID) ls1;
          raw = (if snapName \<noteq> [] \<and> snapNS \<noteq> []
                 then (case k_VolumeSnapshot k snapNS snapName of None \<Rightarrow> [] | Some annos \<Rightarrow> mget annos (annoPrefix @ paramLabels))
                 else [])
      in if raw \<noteq> [] then fst (mergeUserLabels ls2 (parseLabels raw) MaxUserLabels) else ls2)"

section \<open>Laws\<close>

lemma keys_distinct_add_pair [intro]: "keys_distinct ls \<Longrightarrow> keys_distinct (add_pair p ls)"
  by (auto simp: add_pair_def Let_def keys_distinct_update split: option.splits)

lemma keys_distinct_fold: "(\<And>a ls. keys_distinct ls \<Longrightarrow> keys_distinct (f a ls)) \<Longrightarrow> keys_distinct ls \<Longrightarrow> keys_distinct (fold f xs ls)"
  by (induction xs arbitrary: ls) auto

lemma parseLabels_distinct: "keys_distinct (parseLabels raw)"
  unfolding parseLabels_def by (rule keys_distinct_fold) (erule keys_distinct_add_pair, simp add: keys_distinct_def)

lemma add_missing_distinct: "keys_distinct ls \<Longrightarrow> keys_distinct (add_missing ds ls)"
  by (induction ds ls rule: add_missing.induct) (auto simp: keys_distinct_update)

lemma map_of_add_missing: "map_of ls k = Some v \<Longrightarrow> map_of (add_missing ds ls) k = Some v"
proof (induction ds ls rule: add_missing.induct)
  case (2 k' v' ds ls)
  then have "map_of (if map_of ls k' = None then AList.update k' v' ls else ls) k = Some v" by (auto simp: map_of_update)
  then show ?case using 2 by simp
qed simp

lemma length_add_missing: "length (add_missing ds ls) \<le> length ds + length ls"
proof (induction ds ls rule: add_missing.induct)
  case (2 k v ds ls)
  then show ?case using length_update_le[of k v ls] by (auto split: if_splits)
qed simp

lemma set_add_missing: "set (add_missing ds ls) \<subseteq> set ds \<union> set ls"
proof (induction ds ls rule: add_missing.induct)
  case (2 k v ds ls)
  then show ?case using set_update_subset[of k v ls] by (auto split: if_splits)
qed simp

lemma merge_loop_reserved: "k \<in> set reservedLabelKeys \<Longrightarrow> map_of (fst (merge_loop n kvs m dst)) k = map_of dst k"
  by (induction n kvs m dst rule: merge_loop.induct) (auto simp: map_of_update split: prod.splits)

lemma merge_loop_distinct: "keys_distinct dst \<Longrightarrow> keys_distinct (fst (merge_loop n kvs m dst))"
  by (induction n kvs m dst rule: merge_loop.induct) (auto simp: keys_distinct_update split: prod.splits)

lemma merge_loop_set: "set (fst (merge_loop n kvs m dst)) \<subseteq> set dst \<union> {(k, v) \<in> set kvs. valid_label k v}"
proof (induction n kvs m dst rule: merge_loop.induct)
  case (2 n k v kvs m dst)
  then show ?case using set_update_subset[of k v dst] by (auto split: prod.splits if_splits)
qed simp

lemma merge_loop_length: "m \<le> n \<Longrightarrow> length (fst (merge_loop n kvs m dst)) \<le> length dst + (n - m)"
proof (induction n kvs m dst rule: merge_loop.induct)
  case (2 n k v kvs m dst)
  then show ?case using length_update_le[of k v dst] by (auto split: prod.splits)
qed simp

end
