(* ===== verification/Controller.thy ===== *)
theory Controller
  imports Params
begin

text \<open>
  The controller service of the Kubernetes integration: \<open>controller/volumes.go\<close>, \<open>snapshots.go\<close>, \<open>publish.go\<close> and
  \<open>controller.go\<close>. Each operation takes the environment, the request and the state of the server: the tracked
  agents, the network with the agents behind it, and the events recorded for the user. It calls the
  agents through the client of \<open>Client.thy\<close>. The hash of the attachment name and the JSON decoding of page
  tokens are arguments. The lists the client returns have no next cursor, so no page token is ever made.
\<close>

section \<open>The server\<close>

record ('f, 's) ctrl_env =
  ce_net :: "string \<Rightarrow> ('f, 's) transport"
  ce_client :: "ClientConfig option"
  ce_kube :: kube
  ce_defaults :: labels
  ce_sha256 :: "string \<Rightarrow> string"
  ce_now :: int
  ce_json :: "string \<Rightarrow> (string \<times> string) option"

record 's server =
  sv_agents :: tracker
  sv_net :: 's
  sv_events :: "event list"

definition on_net :: "'r \<times> 's \<Rightarrow> 's server \<Rightarrow> 'r \<times> 's server" where
  "on_net r S = (fst r, S\<lparr>sv_net := snd r\<rparr>)"

definition agent_of :: "('f, 's) ctrl_env \<Rightarrow> client \<Rightarrow> ('f, 's) transport" where
  "agent_of env c = ce_net env (cl_url c)"

definition with_agent :: "('f, 's) ctrl_env \<Rightarrow> string \<Rightarrow> labels \<Rightarrow> (client \<Rightarrow> 's server \<Rightarrow> (grpc_code + 'r) \<times> 's server) \<Rightarrow>
    's server \<Rightarrow> (grpc_code + 'r) \<times> 's server" where
  "with_agent env sc secrets f S = (case agentClientFromStorageClass (ce_client env) sc secrets (sv_agents S) of
       (Inl e, t) \<Rightarrow> (Inl e, S\<lparr>sv_agents := t\<rparr>)
     | (Inr c, t) \<Rightarrow> f c (S\<lparr>sv_agents := t\<rparr>))"

definition resolve_params :: "('f, 's) ctrl_env \<Rightarrow> labels \<Rightarrow> (volumeParams option \<Rightarrow> 's server \<Rightarrow> 'r) \<Rightarrow> 's server \<Rightarrow> 'r" where
  "resolve_params env params f S = (case resolveVolumeParams (ce_defaults env) (ce_kube env) params of
     (vp, evs) \<Rightarrow> f vp (S\<lparr>sv_events := sv_events S @ evs\<rparr>))"

section \<open>Creating a volume\<close>

datatype content_source = FromVolume string | FromSnapshot string | OtherSource

record create_request =
  cq_Name :: string
  cq_Parameters :: labels
  cq_Secrets :: labels
  cq_Capacity :: "(int \<times> int) option"
  cq_Source :: "content_source option"

record csi_volume =
  cv_VolumeId :: string
  cv_CapacityBytes :: int
  cv_Context :: labels
  cv_Source :: "content_source option"

definition requested_size :: "u64 \<Rightarrow> (int \<times> int) option \<Rightarrow> u64" where
  "requested_size zero cap = (case cap of
       None \<Rightarrow> zero
     | Some (required, limit) \<Rightarrow> if required > 0 then of_int required else if limit > 0 then of_int limit else zero)"

definition volume_context :: "labels \<Rightarrow> labels" where
  "volume_context params =
     set_nonempty PvcNamespaceKey (mget params PvcNamespaceKey)
      (set_nonempty PvcNameKey (mget params PvcNameKey)
        (set_nonempty ParamNFSMountOptions (mget params ParamNFSMountOptions)
          [(ParamNFSServer, mget params ParamNFSServer), (paramAgentURL, mget params paramAgentURL)]))"

definition created :: "string \<Rightarrow> create_request \<Rightarrow> u64 \<Rightarrow> string \<Rightarrow> csi_volume" where
  "created sc req sizeBytes path = \<lparr>cv_VolumeId = MakeVolumeID sc (cq_Name req), cv_CapacityBytes = sint sizeBytes,
     cv_Context = AList.update ParamNFSSharePath path (volume_context (cq_Parameters req)), cv_Source = cq_Source req\<rparr>"

text \<open>After the call that made a clone: on a conflict the clone that exists is used, and a clone smaller
  than requested is expanded; a failure to expand is only logged.\<close>

definition finish_clone :: "('f, 's) ctrl_env \<Rightarrow> client \<Rightarrow> string \<Rightarrow> create_request \<Rightarrow> u64 \<Rightarrow>
    (VolumeDetailResponse option \<times> client_error option) \<times> 's server \<Rightarrow> (grpc_code + csi_volume) \<times> 's server" where
  "finish_clone env c sc req sizeBytes r = (case r of ((resp, err), S) \<Rightarrow>
     (case (err, resp) of
        (Some e, None) \<Rightarrow> (Inl Internal, S)
      | (None, None) \<Rightarrow> (Inl Panic, S)
      | (_, Some v) \<Rightarrow>
          if err \<noteq> None \<and> \<not> IsConflict (the err) then (Inl Internal, S)
          else
            let S1 = (if vd_SizeBytes v < sizeBytes
                      then snd (on_net (c_UpdateVolume (agent_of env c) c (cq_Name req) (zero_update\<lparr>vur_SizeBytes := Some sizeBytes\<rparr>) (sv_net S)) S)
                      else S)
            in (Inr (created sc req sizeBytes (vd_Path v)), S1)))"

definition param_labels :: "volumeParams \<Rightarrow> labels" where
  "param_labels vp = (case vp_Labels vp of None \<Rightarrow> [] | Some ls \<Rightarrow> ls)"

definition deref :: "'a \<Rightarrow> 'a option \<Rightarrow> 'a" where
  "deref d p = (case p of None \<Rightarrow> d | Some v \<Rightarrow> v)"

definition volume_request :: "create_request \<Rightarrow> u64 \<Rightarrow> volumeParams \<Rightarrow> VolumeCreateRequest" where
  "volume_request req sizeBytes vp = \<lparr>vcr_Name = cq_Name req, vcr_SizeBytes = sizeBytes, vcr_NoCOW = deref False (vur_NoCOW (vp_req vp)),
     vcr_Compression = deref [] (vur_Compression (vp_req vp)), vcr_QuotaBytes = 0, vcr_UID = deref 0 (vur_UID (vp_req vp)),
     vcr_GID = deref 0 (vur_GID (vp_req vp)), vcr_Mode = deref [] (vur_Mode (vp_req vp)), vcr_Labels = param_labels vp\<rparr>"

definition create_plain :: "('f, 's) ctrl_env \<Rightarrow> client \<Rightarrow> string \<Rightarrow> create_request \<Rightarrow> u64 \<Rightarrow> volumeParams \<Rightarrow> 's server \<Rightarrow>
    (grpc_code + csi_volume) \<times> 's server" where
  "create_plain env c sc req sizeBytes vp S =
     (case on_net (c_CreateVolume (agent_of env c) c (volume_request req sizeBytes vp) (sv_net S)) S of
        ((Some v, None), S1) \<Rightarrow> (Inr (created sc req sizeBytes (vd_Path v)), S1)
      | ((None, None), S1) \<Rightarrow> (Inl Panic, S1)
      | ((resp, Some e), S1) \<Rightarrow>
          if \<not> IsConflict e then (Inl Internal, S1)
          else (case resp of
                  Some v \<Rightarrow> (Inr (created sc req sizeBytes (vd_Path v)), S1)
                | None \<Rightarrow> (case on_net (c_GetVolume (agent_of env c) c (cq_Name req) (sv_net S1)) S1 of
                    (Inl e, S2) \<Rightarrow> (Inl Internal, S2)
                  | (Inr v, S2) \<Rightarrow> (Inr (created sc req sizeBytes (vd_Path v)), S2))))"

definition create_from :: "('f, 's) ctrl_env \<Rightarrow> client \<Rightarrow> string \<Rightarrow> create_request \<Rightarrow> u64 \<Rightarrow> volumeParams \<Rightarrow> content_source \<Rightarrow> 's server \<Rightarrow>
    (grpc_code + csi_volume) \<times> 's server" where
  "create_from env c sc req sizeBytes vp src S = (case src of
       FromVolume vid \<Rightarrow> (case ParseVolumeID vid of
         None \<Rightarrow> (Inl InvalidArgument, S)
       | Some (_, srcName) \<Rightarrow> finish_clone env c sc req sizeBytes
           (on_net (c_CloneVolume (agent_of env c) c \<lparr>vlr_Source = srcName, vlr_Name = cq_Name req, vlr_Labels = param_labels vp\<rparr> (sv_net S)) S))
     | FromSnapshot sid \<Rightarrow> (case ParseVolumeID sid of
         None \<Rightarrow> (Inl InvalidArgument, S)
       | Some (_, snapName) \<Rightarrow> finish_clone env c sc req sizeBytes
           (on_net (c_CreateClone (agent_of env c) c \<lparr>ccr_Snapshot = snapName, ccr_Name = cq_Name req, ccr_Labels = param_labels vp\<rparr> (sv_net S)) S))
     | OtherSource \<Rightarrow> (Inl InvalidArgument, S))"

definition csi_CreateVolume :: "('f, 's) ctrl_env \<Rightarrow> create_request \<Rightarrow> 's server \<Rightarrow> (grpc_code + csi_volume) \<times> 's server" where
  "csi_CreateVolume env req S =
     (let agentURL = mget (cq_Parameters req) paramAgentURL in
      if cq_Name req = [] then (Inl InvalidArgument, S)
      else if mget (cq_Parameters req) ParamNFSServer = [] \<or> agentURL = [] then (Inl InvalidArgument, S)
      else (case agentClientFromSecrets (ce_client env) agentURL (cq_Secrets req) of
              Inl e \<Rightarrow> (Inl e, S)
            | Inr c \<Rightarrow> resolve_params env (cq_Parameters req) (\<lambda>vp S1.
                (case vp of
                   None \<Rightarrow> (Inl InvalidArgument, S1)
                 | Some vp \<Rightarrow>
                     let sc = vp_StorageClass vp; sizeBytes = requested_size (2 ^ 30) (cq_Capacity req) in
                     if sc = [] then (Inl Internal, S1)
                     else (case cq_Source req of
                             None \<Rightarrow> create_plain env c sc req sizeBytes vp S1
                           | Some src \<Rightarrow> create_from env c sc req sizeBytes vp src S1)))
                (S\<lparr>sv_agents := Track agentURL c (sv_agents S)\<rparr>)))"

section \<open>Deleting and expanding a volume\<close>

definition csi_DeleteVolume :: "('f, 's) ctrl_env \<Rightarrow> string \<Rightarrow> labels \<Rightarrow> 's server \<Rightarrow> (grpc_code + unit) \<times> 's server" where
  "csi_DeleteVolume env vid secrets S =
     (if vid = [] then (Inl InvalidArgument, S)
      else (case ParseVolumeID vid of
              None \<Rightarrow> (Inl InvalidArgument, S)
            | Some (sc, name) \<Rightarrow> with_agent env sc secrets (\<lambda>c S1.
                (case on_net (c_DeleteVolume (agent_of env c) c name (sv_net S1)) S1 of
                   (None, S2) \<Rightarrow> (Inr (), S2)
                 | (Some e, S2) \<Rightarrow> (if IsNotFound e then Inr () else if IsLocked e then Inl FailedPrecondition else Inl Internal, S2))) S))"

definition csi_ExpandVolume :: "('f, 's) ctrl_env \<Rightarrow> string \<Rightarrow> labels \<Rightarrow> (int \<times> int) option \<Rightarrow> 's server \<Rightarrow> (grpc_code + int) \<times> 's server" where
  "csi_ExpandVolume env vid secrets cap S =
     (if vid = [] then (Inl InvalidArgument, S)
      else (case ParseVolumeID vid of
              None \<Rightarrow> (Inl InvalidArgument, S)
            | Some (sc, name) \<Rightarrow> with_agent env sc secrets (\<lambda>c S1.
                let sizeBytes = requested_size 0 cap in
                if sizeBytes = 0 then (Inl InvalidArgument, S1)
                else (case on_net (c_UpdateVolume (agent_of env c) c name (zero_update\<lparr>vur_SizeBytes := Some sizeBytes\<rparr>) (sv_net S1)) S1 of
                        (Inl e, S2) \<Rightarrow> (Inl Internal, S2)
                      | (Inr v, S2) \<Rightarrow> (Inr (sint sizeBytes), S2))) S))"

section \<open>Publishing\<close>

record publish_request =
  pq_VolumeId :: string
  pq_NodeId :: string
  pq_Secrets :: labels
  pq_Context :: labels

definition exportLabels :: "(string \<Rightarrow> string) \<Rightarrow> string \<Rightarrow> string \<Rightarrow> string \<Rightarrow> publish_request \<Rightarrow> labels" where
  "exportLabels sha256 sc name nodeHostname req =
     set_nonempty labelPVCNamespace (mget (pq_Context req) PvcNamespaceKey)
      (set_nonempty labelPVCName (mget (pq_Context req) PvcNameKey)
        [(labelNodeName, nodeHostname), (labelPVName, name), (labelPVStorageClass, sc),
         (labelVolumeAttachmentName, ''csi-'' @ sha256 (pq_VolumeId req @ DriverName @ nodeHostname))])"

definition unexportLabels :: "string \<Rightarrow> string \<Rightarrow> string \<Rightarrow> labels" where
  "unexportLabels sc name nodeHostname = [(labelNodeName, nodeHostname), (labelPVName, name), (labelPVStorageClass, sc)]"

text \<open>The change of the claim's annotations; its failure is only logged.\<close>

definition apply_updates :: "('f, 's) ctrl_env \<Rightarrow> client \<Rightarrow> string \<Rightarrow> volumeParams \<Rightarrow> 's server \<Rightarrow> 's server" where
  "apply_updates env c name vp S =
     (if hasUpdates vp then snd (on_net (c_UpdateVolume (agent_of env c) c name (updateRequest vp) (sv_net S)) S) else S)"

definition csi_PublishVolume :: "('f, 's) ctrl_env \<Rightarrow> publish_request \<Rightarrow> 's server \<Rightarrow> (grpc_code + unit) \<times> 's server" where
  "csi_PublishVolume env req S =
     (if pq_VolumeId req = [] \<or> pq_NodeId req = [] then (Inl InvalidArgument, S)
      else (case (ParseNodeID (pq_NodeId req), ParseVolumeID (pq_VolumeId req)) of
              (Some (nodeHostname, nodeIP), Some (sc, name)) \<Rightarrow>
                with_agent env sc (pq_Secrets req) (\<lambda>c. resolve_params env (pq_Context req) (\<lambda>vp S1.
                  (case vp of
                     None \<Rightarrow> (Inl InvalidArgument, S1)
                   | Some vp \<Rightarrow>
                       let S2 = apply_updates env c name vp S1 in
                       (case on_net (c_CreateVolumeExport (agent_of env c) c name nodeIP
                               (exportLabels (ce_sha256 env) sc name nodeHostname req) (sv_net S2)) S2 of
                          (Some e, S3) \<Rightarrow> (Inl Internal, S3)
                        | (None, S3) \<Rightarrow> (Inr (), S3))))) S
            | _ \<Rightarrow> (Inl InvalidArgument, S)))"

definition csi_UnpublishVolume :: "('f, 's) ctrl_env \<Rightarrow> publish_request \<Rightarrow> 's server \<Rightarrow> (grpc_code + unit) \<times> 's server" where
  "csi_UnpublishVolume env req S =
     (if pq_VolumeId req = [] \<or> pq_NodeId req = [] then (Inl InvalidArgument, S)
      else (case (ParseNodeID (pq_NodeId req), ParseVolumeID (pq_VolumeId req)) of
              (Some (nodeHostname, nodeIP), Some (sc, name)) \<Rightarrow>
                with_agent env sc (pq_Secrets req) (\<lambda>c S1.
                  (case on_net (c_DeleteVolumeExport (agent_of env c) c name nodeIP (unexportLabels sc name nodeHostname) (sv_net S1)) S1 of
                     (None, S2) \<Rightarrow> (Inr (), S2)
                   | (Some e, S2) \<Rightarrow> (if IsNotFound e then Inr () else Inl Internal, S2))) S
            | _ \<Rightarrow> (Inl InvalidArgument, S)))"

section \<open>Snapshots\<close>

record csi_snapshot =
  cs_SnapshotId :: string
  cs_SourceVolumeId :: string
  cs_SizeBytes :: int
  cs_ReadyToUse :: bool
  cs_CreationTime :: int

record snapshot_request =
  sq_Name :: string
  sq_SourceVolumeId :: string
  sq_Secrets :: labels
  sq_Parameters :: labels

definition snapshot_answer :: "int \<Rightarrow> string \<Rightarrow> snapshot_request \<Rightarrow> SnapshotDetailResponse option \<times> client_error option \<Rightarrow> grpc_code + csi_snapshot" where
  "snapshot_answer t sc req r = (case r of
       (_, Some e) \<Rightarrow> if IsConflict e
         then Inr \<lparr>cs_SnapshotId = MakeVolumeID sc (sq_Name req), cs_SourceVolumeId = sq_SourceVolumeId req, cs_SizeBytes = 0,
                cs_ReadyToUse = True, cs_CreationTime = t\<rparr>
         else Inl Internal
     | (None, None) \<Rightarrow> Inl Panic
     | (Some s, None) \<Rightarrow> Inr \<lparr>cs_SnapshotId = MakeVolumeID sc (sq_Name req), cs_SourceVolumeId = sq_SourceVolumeId req,
         cs_SizeBytes = sint (sd_SizeBytes s), cs_ReadyToUse = True, cs_CreationTime = sd_CreatedAt s\<rparr>)"

definition csi_CreateSnapshot :: "('f, 's) ctrl_env \<Rightarrow> snapshot_request \<Rightarrow> 's server \<Rightarrow> (grpc_code + csi_snapshot) \<times> 's server" where
  "csi_CreateSnapshot env req S =
     (if sq_Name req = [] \<or> sq_SourceVolumeId req = [] then (Inl InvalidArgument, S)
      else (case ParseVolumeID (sq_SourceVolumeId req) of
              None \<Rightarrow> (Inl InvalidArgument, S)
            | Some (sc, volName) \<Rightarrow> with_agent env sc (sq_Secrets req) (\<lambda>c S1.
                (case on_net (c_CreateSnapshot (agent_of env c) c \<lparr>scr_Volume = volName, scr_Name = sq_Name req,
                        scr_Labels = resolveSnapshotLabels (ce_defaults env) (ce_kube env) (sq_Parameters req) (sq_SourceVolumeId req) sc volName\<rparr>
                        (sv_net S1)) S1 of
                   (r, S2) \<Rightarrow> (snapshot_answer (ce_now env) sc req r, S2))) S))"

definition csi_DeleteSnapshot :: "('f, 's) ctrl_env \<Rightarrow> string \<Rightarrow> labels \<Rightarrow> 's server \<Rightarrow> (grpc_code + unit) \<times> 's server" where
  "csi_DeleteSnapshot env sid secrets S =
     (if sid = [] then (Inl InvalidArgument, S)
      else (case ParseVolumeID sid of
              None \<Rightarrow> (Inl InvalidArgument, S)
            | Some (sc, name) \<Rightarrow> with_agent env sc secrets (\<lambda>c S1.
                (case on_net (c_DeleteSnapshot (agent_of env c) c name (sv_net S1)) S1 of
                   (None, S2) \<Rightarrow> (Inr (), S2)
                 | (Some e, S2) \<Rightarrow> (if IsNotFound e then Inr () else Inl Internal, S2))) S))"

section \<open>Lists over all agents\<close>

definition decodePageToken :: "(string \<Rightarrow> (string \<times> string) option) \<Rightarrow> string \<Rightarrow> grpc_code + (string \<times> string)" where
  "decodePageToken json tok =
     (if tok = [] then Inr ([], [])
      else (case RawURL_decode tok of
              None \<Rightarrow> Inl Aborted
            | Some text \<Rightarrow> (case json text of None \<Rightarrow> Inl Aborted | Some pt \<Rightarrow> Inr pt)))"

definition sortedAgents :: "(string \<times> client) list \<Rightarrow> (string \<times> client) list" where
  "sortedAgents agents = sort_key fst agents"

text \<open>The loop over the sorted agents: those before the token are left out, a failing agent is skipped, and
  the loop ends when the limit is used up.\<close>

fun list_agents :: "(client \<Rightarrow> ListOpts \<Rightarrow> 's \<Rightarrow> ((client_error + 'r list \<times> int) \<times> 's) option) \<Rightarrow> (string \<Rightarrow> 'r \<Rightarrow> 'e) \<Rightarrow>
    string \<times> string \<Rightarrow> (string \<times> client) list \<Rightarrow> int \<Rightarrow> 's \<Rightarrow> ('e list \<times> 's) option" where
  "list_agents list_of entry pt [] limit st = Some ([], st)"
| "list_agents list_of entry pt ((sc, c) # as) limit st =
     (if fst pt \<noteq> [] \<and> sc < fst pt then list_agents list_of entry pt as limit st
      else (case list_of c \<lparr>lo_After = (if sc = fst pt then snd pt else []), lo_Limit = limit, lo_Labels = []\<rparr> st of
              None \<Rightarrow> None
            | Some (Inl e, st1) \<Rightarrow> list_agents list_of entry pt as limit st1
            | Some (Inr (items, _), st1) \<Rightarrow>
                let limit1 = (if 0 < limit then limit - int (length items) else limit) in
                if 0 < limit \<and> limit1 \<le> 0 then Some (map (entry sc) items, st1)
                else map_option (\<lambda>(es, st2). (map (entry sc) items @ es, st2)) (list_agents list_of entry pt as limit1 st1)))"

definition volume_entry :: "string \<Rightarrow> VolumeResponse \<Rightarrow> string \<times> int" where
  "volume_entry sc v = (MakeVolumeID sc (vr_Name v), sint (vr_SizeBytes v))"

definition snapshot_entry :: "string \<Rightarrow> SnapshotResponse \<Rightarrow> csi_snapshot" where
  "snapshot_entry sc s = \<lparr>cs_SnapshotId = MakeVolumeID sc (sr_Name s), cs_SourceVolumeId = MakeVolumeID sc (sr_Volume s),
     cs_SizeBytes = sint (sr_SizeBytes s), cs_ReadyToUse = True, cs_CreationTime = sr_CreatedAt s\<rparr>"

definition csi_ListVolumes :: "('f, 's) ctrl_env \<Rightarrow> string \<Rightarrow> int \<Rightarrow> 's server \<Rightarrow> ((grpc_code + (string \<times> int) list) \<times> 's server) option" where
  "csi_ListVolumes env tok maxEntries S = (case decodePageToken (ce_json env) tok of
       Inl e \<Rightarrow> Some (Inl e, S)
     | Inr pt \<Rightarrow> map_option (\<lambda>(es, st). (Inr es, S\<lparr>sv_net := st\<rparr>))
         (list_agents (\<lambda>c. c_ListVolumes (agent_of env c) c) volume_entry pt (sortedAgents (Agents (sv_agents S))) maxEntries (sv_net S)))"

record snapshots_request =
  lq_SnapshotId :: string
  lq_SourceVolumeId :: string
  lq_StartingToken :: string
  lq_MaxEntries :: int

definition no_opts :: ListOpts where "no_opts = \<lparr>lo_After = [], lo_Limit = 0, lo_Labels = []\<rparr>"

definition one_agent :: "string \<Rightarrow> (SnapshotResponse \<Rightarrow> bool) \<Rightarrow> ((client_error + SnapshotResponse list \<times> int) \<times> 's) option \<Rightarrow> 's server \<Rightarrow>
    ((grpc_code + csi_snapshot list) \<times> 's server) option" where
  "one_agent sc P r S = map_option (\<lambda>(r, st). (case r of
       Inl e \<Rightarrow> Inl Internal
     | Inr (items, _) \<Rightarrow> Inr (map (snapshot_entry sc) (filter P items)), S\<lparr>sv_net := st\<rparr>)) r"

definition csi_ListSnapshots :: "('f, 's) ctrl_env \<Rightarrow> snapshots_request \<Rightarrow> 's server \<Rightarrow> ((grpc_code + csi_snapshot list) \<times> 's server) option" where
  "csi_ListSnapshots env req S =
     (let agents = Agents (sv_agents S) in
      if lq_SnapshotId req \<noteq> [] then
        (case ParseVolumeID (lq_SnapshotId req) of
           None \<Rightarrow> Some (Inl InvalidArgument, S)
         | Some (sc, _) \<Rightarrow> (case map_of agents sc of
             None \<Rightarrow> Some (Inr [], S)
           | Some c \<Rightarrow> one_agent sc (\<lambda>s. MakeVolumeID sc (sr_Name s) = lq_SnapshotId req) (c_ListSnapshots (agent_of env c) c no_opts (sv_net S)) S))
      else if lq_SourceVolumeId req \<noteq> [] then
        (case ParseVolumeID (lq_SourceVolumeId req) of
           None \<Rightarrow> Some (Inl InvalidArgument, S)
         | Some (sc, volName) \<Rightarrow> (case map_of agents sc of
             None \<Rightarrow> Some (Inr [], S)
           | Some c \<Rightarrow> one_agent sc (\<lambda>_. True) (c_ListVolumeSnapshots (agent_of env c) c volName no_opts (sv_net S)) S))
      else
        (case decodePageToken (ce_json env) (lq_StartingToken req) of
           Inl e \<Rightarrow> Some (Inl e, S)
         | Inr pt \<Rightarrow> map_option (\<lambda>(es, st). (Inr es, S\<lparr>sv_net := st\<rparr>))
             (list_agents (\<lambda>c. c_ListSnapshots (agent_of env c) c) snapshot_entry pt (sortedAgents agents) (lq_MaxEntries req) (sv_net S))))"

section \<open>Capabilities\<close>

datatype access_mode = UNKNOWN | SINGLE_NODE_WRITER | SINGLE_NODE_READER_ONLY | MULTI_NODE_READER_ONLY | MULTI_NODE_SINGLE_WRITER
  | MULTI_NODE_MULTI_WRITER | SINGLE_NODE_SINGLE_WRITER | SINGLE_NODE_MULTI_WRITER

record volume_capability =
  cap_Block :: bool
  cap_AccessMode :: "access_mode option"

text \<open>A capability that is refused; the answer confirms all of them or none.\<close>

definition refused :: "volume_capability \<Rightarrow> bool" where
  "refused cap \<longleftrightarrow> cap_Block cap \<or> (case cap_AccessMode cap of
     None \<Rightarrow> False
   | Some m \<Rightarrow> m \<notin> {SINGLE_NODE_WRITER, SINGLE_NODE_READER_ONLY, MULTI_NODE_READER_ONLY, MULTI_NODE_MULTI_WRITER})"

definition ValidateVolumeCapabilities :: "string \<Rightarrow> volume_capability list \<Rightarrow> grpc_code + volume_capability list option" where
  "ValidateVolumeCapabilities vid caps =
     (if vid = [] \<or> caps = [] then Inl InvalidArgument else if list_ex refused caps then Inr None else Inr (Some caps))"

datatype controller_capability = CREATE_DELETE_VOLUME | CREATE_DELETE_SNAPSHOT | EXPAND_VOLUME | CLONE_VOLUME | PUBLISH_UNPUBLISH_VOLUME
  | LIST_VOLUMES | LIST_SNAPSHOTS

definition ControllerGetCapabilities :: "controller_capability list" where
  "ControllerGetCapabilities = [CREATE_DELETE_VOLUME, CREATE_DELETE_SNAPSHOT, EXPAND_VOLUME, CLONE_VOLUME, PUBLISH_UNPUBLISH_VOLUME,
     LIST_VOLUMES, LIST_SNAPSHOTS]"

end
