(* ===== verification/Protocol.thy ===== *)
theory Protocol
  imports ClientProps
begin

text \<open>
  The protocol between the client and the agent is typed: on every route the client uses, the agent answers
  with an error status or with the kind of body the client decodes. The model of the client fails on a body
  of another kind, and the theorem of this theory shows that no such body comes from the agent.
\<close>

section \<open>Typed answers\<close>

definition typed :: "('f body \<Rightarrow> 'r option) \<Rightarrow> 'f response \<Rightarrow> bool" where
  "typed decode rs \<longleftrightarrow> 400 \<le> rs_Status rs \<or> decode (rs_Body rs) \<noteq> None"

definition error_status :: "error \<Rightarrow> int" where
  "error_status e = (case e of ValidationError \<Rightarrow> 400 | StorageError c \<Rightarrow> (case codeStatus c of Some s \<Rightarrow> s | None \<Rightarrow> 500)
     | TaskNotFound \<Rightarrow> 404 | WrappedError _ \<Rightarrow> 500)"

lemma error_status_ge: "400 \<le> error_status e"
  by (cases e) (auto simp: error_status_def split: option.splits elim: codeStatus.elims)

lemma rs_Status_error: "rs_Status (StorageErrorResponse msg e) = error_status e"
  by (cases e) (simp_all add: error_status_def json_error_def JSON_def)

lemma typed_error [simp]: "typed decode (StorageErrorResponse msg e)"
  by (simp add: typed_def rs_Status_error error_status_ge)

lemma typed_json_error [simp]: "400 \<le> s \<Longrightarrow> typed decode (json_error s e c)"
  by (simp add: typed_def json_error_def JSON_def)

lemma typed_JSON [simp]: "typed decode (JSON s b) \<longleftrightarrow> 400 \<le> s \<or> decode b \<noteq> None"
  by (simp add: typed_def JSON_def)

lemma typed_bad_body [simp]: "typed decode bad_body"
  by (simp add: bad_body_def)

lemma decode_simps [simp]:
  "volume_of (BVolume v) = Some v" "snapshot_of (BSnapshot sn) = Some sn" "task_of (BTask t) = Some t" "created_task_of (BTaskCreated tc) = Some tc"
  "unmarshal z (\<lambda>b. case b of BStats s \<Rightarrow> Some s | _ \<Rightarrow> None) (BStats ss) = Some ss"
  "unmarshal z' (\<lambda>b. case b of BHealth s \<Rightarrow> Some s | _ \<Rightarrow> None) (BHealth hs) = Some hs"
  by (simp_all add: volume_of_def snapshot_of_def task_of_def created_task_of_def unmarshal_def)

lemma decode_lists [simp]:
  "list_volumes_of (BVolumes r1) = Some r1" "list_volume_details_of (BVolumeDetails r2) = Some r2" "list_snapshots_of (BSnapshots r3) = Some r3"
  "list_snapshot_details_of (BSnapshotDetails r4) = Some r4" "list_exports_of (BExports r5) = Some r5"
  "list_export_details_of (BExportDetails r6) = Some r6" "list_tasks_of (BTasks r7) = Some r7" "list_task_details_of (BTaskDetails r8) = Some r8"
  by (simp_all add: list_volumes_of_def list_volume_details_of_def list_snapshots_of_def list_snapshot_details_of_def list_exports_of_def
      list_export_details_of_def list_tasks_of_def list_task_details_of_def)

subsection \<open>Handlers\<close>

lemma typed_created: "typed volume_of (fst (created_volume env r a))"
  by (auto simp: created_volume_def split: prod.splits option.splits)

lemma typed_volume_handlers:
  "typed volume_of (fst (h_CreateVolume env ch b1 t a))" "typed volume_of (fst (h_CloneVolume env ch b2 t a))"
  "typed volume_of (fst (h_CreateClone env ch b3 t a))" "typed volume_of (fst (h_GetVolume env n t a))"
  "typed volume_of (fst (h_UpdateVolume env n b4 t a))"
  by (auto simp: h_CreateVolume_def h_CloneVolume_def h_CreateClone_def typed_created h_GetVolume_def h_UpdateVolume_def
      split: prod.splits option.splits sum.splits)

lemma typed_other_handlers:
  "typed snapshot_of (fst (h_CreateSnapshot env ch b1 t a))" "typed snapshot_of (fst (h_GetSnapshot env n t a))"
  "typed created_task_of (fst (h_CreateTask env ch n b2 a))" "typed task_of (fst (h_GetTask env n a))"
  "typed (unmarshal z (\<lambda>b. case b of BStats s \<Rightarrow> Some s | _ \<Rightarrow> None)) (fst (h_Stats env t a))"
  "typed (unmarshal z' (\<lambda>b. case b of BHealth s \<Rightarrow> Some s | _ \<Rightarrow> None)) (fst (Healthz env ch a))"
  by (auto simp: h_CreateSnapshot_def h_GetSnapshot_def h_CreateTask_def started_task_def h_GetTask_def h_Stats_def Healthz_def
      split: prod.splits option.splits sum.splits)

lemma typed_list: "(\<And>r. decode (wrap r) \<noteq> None) \<Longrightarrow> typed decode (fst (list_response wrap p a))"
  by (auto simp: list_response_def split: prod.splits page_result.splits)

lemma typed_list_handlers:
  "QueryParam q ''detail'' \<noteq> ''true'' \<Longrightarrow> typed list_volumes_of (fst (h_ListVolumes env ch q t a))"
  "QueryParam q ''detail'' = ''true'' \<Longrightarrow> typed list_volume_details_of (fst (h_ListVolumes env ch q t a))"
  "QueryParam q ''detail'' \<noteq> ''true'' \<Longrightarrow> typed list_snapshots_of (fst (listSnapshotsPage env ch q n t a))"
  "QueryParam q ''detail'' = ''true'' \<Longrightarrow> typed list_snapshot_details_of (fst (listSnapshotsPage env ch q n t a))"
  "QueryParam q ''detail'' \<noteq> ''true'' \<Longrightarrow> typed list_exports_of (fst (h_ListVolumeExports env ch q t a))"
  "QueryParam q ''detail'' = ''true'' \<Longrightarrow> typed list_export_details_of (fst (h_ListVolumeExports env ch q t a))"
  "QueryParam q ''detail'' \<noteq> ''true'' \<Longrightarrow> typed list_tasks_of (fst (h_ListTasks ch q a))"
  "QueryParam q ''detail'' = ''true'' \<Longrightarrow> typed list_task_details_of (fst (h_ListTasks ch q a))"
  by (simp_all add: h_ListVolumes_def listSnapshotsPage_def h_ListVolumeExports_def h_ListTasks_def Let_def split: sum.splits)
     (auto intro!: typed_list)

subsection \<open>Routes\<close>

lemma split_volume_path:
  assumes "CHR ''/'' \<notin> set n"
  shows "split_on CHR ''/'' (''/v1/volumes/'' @ n) = [[], ''v1'', ''volumes'', n]"
proof -
  have "''/v1/volumes/'' @ n = [] @ CHR ''/'' # (''v1'' @ CHR ''/'' # (''volumes'' @ CHR ''/'' # n))" by simp
  then show ?thesis using assms by (simp only: split_on_append split_on_no_sep) (simp add: split_on_append split_on_no_sep)
qed

lemma split_resource_path:
  assumes "CHR ''/'' \<notin> set r" "CHR ''/'' \<notin> set n"
  shows "split_on CHR ''/'' (''/v1/'' @ r @ CHR ''/'' # n) = [[], ''v1'', r, n]"
proof -
  have "''/v1/'' @ r @ CHR ''/'' # n = [] @ CHR ''/'' # (''v1'' @ CHR ''/'' # (r @ CHR ''/'' # n))" by simp
  then show ?thesis using assms by (simp only: split_on_append split_on_no_sep) (simp add: split_on_append split_on_no_sep)
qed

lemma split_sub_path:
  assumes "CHR ''/'' \<notin> set n" "CHR ''/'' \<notin> set s"
  shows "split_on CHR ''/'' (''/v1/volumes/'' @ n @ CHR ''/'' # s) = [[], ''v1'', ''volumes'', n, s]"
proof -
  have "''/v1/volumes/'' @ n @ CHR ''/'' # s = [] @ CHR ''/'' # (''v1'' @ CHR ''/'' # (''volumes'' @ CHR ''/'' # (n @ CHR ''/'' # s)))" by simp
  then show ?thesis using assms by (simp only: split_on_append split_on_no_sep) (simp add: split_on_append split_on_no_sep)
qed

lemma named_paths:
  assumes "CHR ''/'' \<notin> set n"
  shows "split_on CHR ''/'' (''/v1/snapshots/'' @ n) = [[], ''v1'', ''snapshots'', n]" "split_on CHR ''/'' (''/v1/tasks/'' @ n) = [[], ''v1'', ''tasks'', n]"
    "split_on CHR ''/'' (''/v1/volumes/'' @ n @ ''/snapshots'') = [[], ''v1'', ''volumes'', n, ''snapshots'']"
    "split_on CHR ''/'' (''/v1/volumes/'' @ n @ ''/export'') = [[], ''v1'', ''volumes'', n, ''export'']"
  using split_resource_path[of "''snapshots''" n] split_resource_path[of "''tasks''" n] split_sub_path[of n "''snapshots''"]
    split_sub_path[of n "''export''"] assms by simp_all

lemma typed_auth: "(\<And>t. typed decode (fst (h t a))) \<Longrightarrow> typed decode (fst (AuthMiddleware ts h auth a))"
  by (simp add: AuthMiddleware_def split: option.splits)

text \<open>The answers on a path below \<open>/v1\<close>, whoever asks.\<close>

definition route_typed :: "'f api_env \<Rightarrow> ('f body \<Rightarrow> 'r option) \<Rightarrow> http_method \<Rightarrow> string \<Rightarrow> url_query \<Rightarrow> req_body \<Rightarrow> bool" where
  "route_typed env decode m path q b \<longleftrightarrow> (\<forall>ch auth a. \<exists>rs a'.
     serve env ch \<lparr>rq_Method = m, rq_Path = path, rq_Query = q, rq_Auth = auth, rq_Body = b\<rparr> a = Some (rs, a') \<and> typed decode rs)"

lemma route_typedI:
  assumes "split_on CHR ''/'' path = [] # ''v1'' # r"
    and "\<And>ch. \<exists>h. route env ch m q b r = Some h \<and> (\<forall>t a. typed decode (fst (h t a)))"
  shows "route_typed env decode m path q b"
  unfolding route_typed_def
proof (intro allI)
  fix ch auth a
  obtain h where h: "route env ch m q b r = Some h" "\<And>t a. typed decode (fst (h t a))" using assms(2)[of ch] by auto
  obtain rs a' where rs: "AuthMiddleware (env_tenants env) h auth a = (rs, a')" by fastforce
  have "typed decode rs" using typed_auth[of decode h a "env_tenants env" auth, OF h(2)] rs by simp
  then show "\<exists>rs a'. serve env ch \<lparr>rq_Method = m, rq_Path = path, rq_Query = q, rq_Auth = auth, rq_Body = b\<rparr> a = Some (rs, a') \<and> typed decode rs"
    using h(1) rs by (simp add: serve_def assms(1))
qed

lemmas route_simps = route_def volume_routes_def snapshot_routes_def task_routes_def
lemmas bind_simps = bind_create_def bind_update_def bind_clone_def bind_snapshot_def bind_snapshot_clone_def bind_export_def bind_task_def bind_body_def

lemma fixed_paths:
  "split_on CHR ''/'' ''/v1/volumes'' = [[], ''v1'', ''volumes'']" "split_on CHR ''/'' ''/v1/volumes/clone'' = [[], ''v1'', ''volumes'', ''clone'']"
  "split_on CHR ''/'' ''/v1/snapshots'' = [[], ''v1'', ''snapshots'']" "split_on CHR ''/'' ''/v1/clones'' = [[], ''v1'', ''clones'']"
  "split_on CHR ''/'' ''/v1/exports'' = [[], ''v1'', ''exports'']" "split_on CHR ''/'' ''/v1/tasks'' = [[], ''v1'', ''tasks'']"
  "split_on CHR ''/'' ''/v1/stats'' = [[], ''v1'', ''stats'']" "split_on CHR ''/'' ''/healthz'' = [[], ''healthz'']"
  by code_simp+

lemma routes_volume:
  "split_on CHR ''/'' p = [[], ''v1'', ''volumes''] \<Longrightarrow> route_typed env volume_of POST p [] (RVolumeCreate r1)"
  "split_on CHR ''/'' p = [[], ''v1'', ''volumes'', ''clone''] \<Longrightarrow> route_typed env volume_of POST p [] (RVolumeClone r2)"
  "split_on CHR ''/'' p = [[], ''v1'', ''clones''] \<Longrightarrow> route_typed env volume_of POST p [] (RCloneCreate r3)"
  "split_on CHR ''/'' p = [[], ''v1'', ''volumes'', n] \<Longrightarrow> route_typed env volume_of GET p [] EmptyBody"
  "split_on CHR ''/'' p = [[], ''v1'', ''volumes'', n] \<Longrightarrow> route_typed env volume_of PATCH p [] (RVolumeUpdate r4)"
  by (erule route_typedI, force simp: route_simps bind_simps typed_volume_handlers)+

lemma routes_other:
  "split_on CHR ''/'' p = [[], ''v1'', ''snapshots''] \<Longrightarrow> route_typed env snapshot_of POST p [] (RSnapshotCreate r1)"
  "split_on CHR ''/'' p = [[], ''v1'', ''snapshots'', n] \<Longrightarrow> route_typed env snapshot_of GET p [] EmptyBody"
  "split_on CHR ''/'' p = [[], ''v1'', ''tasks'', n] \<Longrightarrow> route_typed env created_task_of POST p [] (RTaskCreate r2)"
  "split_on CHR ''/'' p = [[], ''v1'', ''tasks'', n] \<Longrightarrow> route_typed env task_of GET p [] EmptyBody"
  "split_on CHR ''/'' p = [[], ''v1'', ''stats''] \<Longrightarrow> route_typed env (unmarshal z (\<lambda>b. case b of BStats s \<Rightarrow> Some s | _ \<Rightarrow> None)) GET p [] EmptyBody"
  by (erule route_typedI, force simp: route_simps bind_simps typed_other_handlers)+

lemma route_healthz: "route_typed env (unmarshal z (\<lambda>b. case b of BHealth s \<Rightarrow> Some s | _ \<Rightarrow> None)) GET ''/healthz'' [] EmptyBody"
  unfolding route_typed_def serve_def request.simps fixed_paths list.case by (simp add: Healthz_def)

text \<open>For an operation without a result only the status matters.\<close>

lemma routes_act:
  "split_on CHR ''/'' p = [[], ''v1'', ''volumes'', n] \<Longrightarrow> route_typed env (\<lambda>_. Some ()) DELETE p [] EmptyBody"
  "split_on CHR ''/'' p = [[], ''v1'', ''snapshots'', n] \<Longrightarrow> route_typed env (\<lambda>_. Some ()) DELETE p [] EmptyBody"
  "split_on CHR ''/'' p = [[], ''v1'', ''tasks'', n] \<Longrightarrow> route_typed env (\<lambda>_. Some ()) DELETE p [] EmptyBody"
  "split_on CHR ''/'' p = [[], ''v1'', ''volumes'', n, ''export''] \<Longrightarrow> route_typed env (\<lambda>_. Some ()) POST p [] (RExport x)"
  "split_on CHR ''/'' p = [[], ''v1'', ''volumes'', n, ''export''] \<Longrightarrow> route_typed env (\<lambda>_. Some ()) DELETE p [] (RExport x)"
  by (erule route_typedI, force simp: route_simps bind_simps typed_def)+

lemma routes_lists:
  assumes "QueryParam q ''detail'' \<noteq> ''true''"
  shows "split_on CHR ''/'' p = [[], ''v1'', ''volumes''] \<Longrightarrow> route_typed env list_volumes_of GET p q EmptyBody"
    "split_on CHR ''/'' p = [[], ''v1'', ''snapshots''] \<Longrightarrow> route_typed env list_snapshots_of GET p q EmptyBody"
    "split_on CHR ''/'' p = [[], ''v1'', ''volumes'', n, ''snapshots''] \<Longrightarrow> route_typed env list_snapshots_of GET p q EmptyBody"
    "split_on CHR ''/'' p = [[], ''v1'', ''exports''] \<Longrightarrow> route_typed env list_exports_of GET p q EmptyBody"
    "split_on CHR ''/'' p = [[], ''v1'', ''tasks''] \<Longrightarrow> route_typed env list_tasks_of GET p q EmptyBody"
  by (erule route_typedI, force simp: assms route_simps h_ListSnapshots_def h_ListVolumeSnapshots_def typed_list_handlers)+

lemma routes_detail_lists:
  assumes "QueryParam q ''detail'' = ''true''"
  shows "split_on CHR ''/'' p = [[], ''v1'', ''volumes''] \<Longrightarrow> route_typed env list_volume_details_of GET p q EmptyBody"
    "split_on CHR ''/'' p = [[], ''v1'', ''snapshots''] \<Longrightarrow> route_typed env list_snapshot_details_of GET p q EmptyBody"
    "split_on CHR ''/'' p = [[], ''v1'', ''volumes'', n, ''snapshots''] \<Longrightarrow> route_typed env list_snapshot_details_of GET p q EmptyBody"
    "split_on CHR ''/'' p = [[], ''v1'', ''exports''] \<Longrightarrow> route_typed env list_export_details_of GET p q EmptyBody"
    "split_on CHR ''/'' p = [[], ''v1'', ''tasks''] \<Longrightarrow> route_typed env list_task_details_of GET p q EmptyBody"
  by (erule route_typedI, force simp: assms route_simps h_ListSnapshots_def h_ListVolumeSnapshots_def typed_list_handlers)+

section \<open>The client\<close>

text \<open>An error that the agent itself reported, or none. The others are that the request did not reach a
  handler and that its answer does not decode.\<close>

fun protocol_ok :: "client_error option \<Rightarrow> bool" where
  "protocol_ok None = True" | "protocol_ok (Some (AgentError _ _ _)) = True" | "protocol_ok _ = False"

definition error_of :: "client_error + 'r \<Rightarrow> client_error option" where
  "error_of r = (case r of Inl e \<Rightarrow> Some e | Inr _ \<Rightarrow> None)"

lemma agent_error_ok [simp]: "protocol_ok (Some (agent_error rs))"
  by (simp add: agent_error_def split: body.splits)

lemma do_typed:
  assumes "route_typed env decode m path q b"
  shows "case client_do (agent_http env ch others) c m path q b st of ((err, x), _) \<Rightarrow>
    protocol_ok err \<and> (err = None \<longrightarrow> (\<exists>y v. x = Some y \<and> decode y = Some v))"
proof -
  obtain k a where st: "st = (k, a)" by fastforce
  obtain rs a' where rs: "serve env (ch k) \<lparr>rq_Method = m, rq_Path = path, rq_Query = q, rq_Auth = ''Bearer '' @ cl_token c, rq_Body = b\<rparr> (others k a) =
      Some (rs, a')" and t: "typed decode rs"
    using assms[unfolded route_typed_def, rule_format, of "ch k" "''Bearer '' @ cl_token c" "others k a"] by (elim exE conjE)
  show ?thesis unfolding client_do_def agent_http_def st prod.case rs option.case sum.case using t by (auto simp: typed_def)
qed

lemma fetch_typed:
  assumes "route_typed env decode m path q b"
  shows "protocol_ok (error_of (fst (fetch_call decode (client_do (agent_http env ch others) c m path q b st))))"
  using do_typed[OF assms, of ch others c st] by (auto simp: fetch_call_def error_of_def split: prod.splits option.splits)

lemma create_typed:
  assumes "route_typed env decode m path q b"
  shows "protocol_ok (snd (fst (create_call decode z (client_do (agent_http env ch others) c m path q b st))))"
  using do_typed[OF assms, of ch others c st] by (auto simp: create_call_def split: prod.splits option.splits)

lemma act_typed:
  assumes "route_typed env (\<lambda>_. Some ()) m path q b"
  shows "protocol_ok (fst (act_call (client_do (agent_http env ch others) c m path q b st)))"
  using do_typed[OF assms, of ch others c st] by (auto simp: act_call_def split: prod.splits)

lemma collect_typed:
  assumes "\<And>after st. protocol_ok (error_of (fst (fetch after st)))"
  shows "protocol_ok (Option.bind (collect_pages fetch after acc st) (error_of \<circ> fst))"
proof -
  have "protocol_ok (error_of (fst y))" if "collect_pages fetch after acc st = Some y" for y
  proof (rule collect_pages.raw_induct[where P = "\<lambda>g after acc st y. (\<forall>after st. protocol_ok (error_of (fst (g after st)))) \<longrightarrow>
        protocol_ok (error_of (fst y))", OF _ that, rule_format])
    show "protocol_ok (error_of (fst (fetch after st)))" for after st by (rule assms)
  qed (auto simp: error_of_def split: prod.splits sum.splits if_splits, (metis fst_conv sum.case(1))+)
  then show ?thesis by (cases "collect_pages fetch after acc st") auto
qed

lemma Query_detail: "QueryParam (Query opts d) ''detail'' = []"
  by (simp add: Query_def Let_def QueryParam_set QueryParam_labels)

lemma list_typed:
  assumes "\<And>after. route_typed env decode GET path (if after \<noteq> [] then query_set ''after'' after q else q) EmptyBody"
  shows "protocol_ok (Option.bind (list_all_pages decode (agent_http env ch others) c path q st) (error_of \<circ> fst))"
  unfolding list_all_pages_def by (rule collect_typed) (simp only: fetch_page_def fetch_typed[OF assms])

lemma calls_typed:
  assumes "CHR ''/'' \<notin> set n"
  shows "protocol_ok (snd (fst (c_CreateVolume (agent_http env ch others) c vreq st))) \<and>
    protocol_ok (snd (fst (c_CreateSnapshot (agent_http env ch others) c sreq st))) \<and>
    protocol_ok (snd (fst (c_CreateClone (agent_http env ch others) c creq st))) \<and>
    protocol_ok (snd (fst (c_CloneVolume (agent_http env ch others) c lreq st))) \<and>
    protocol_ok (fst (c_DeleteVolume (agent_http env ch others) c n st)) \<and>
    protocol_ok (fst (c_DeleteSnapshot (agent_http env ch others) c n st)) \<and>
    protocol_ok (fst (c_CancelTask (agent_http env ch others) c n st)) \<and>
    protocol_ok (fst (c_CreateVolumeExport (agent_http env ch others) c n ip ls st)) \<and>
    protocol_ok (fst (c_DeleteVolumeExport (agent_http env ch others) c n ip ls st)) \<and>
    protocol_ok (error_of (fst (c_GetVolume (agent_http env ch others) c n st))) \<and>
    protocol_ok (error_of (fst (c_UpdateVolume (agent_http env ch others) c n ureq st))) \<and>
    protocol_ok (error_of (fst (c_GetSnapshot (agent_http env ch others) c n st))) \<and>
    protocol_ok (error_of (fst (c_CreateTask (agent_http env ch others) c n treq st))) \<and>
    protocol_ok (error_of (fst (c_GetTask (agent_http env ch others) c n st))) \<and>
    protocol_ok (error_of (fst (c_Healthz (agent_http env ch others) c st))) \<and>
    protocol_ok (error_of (fst (c_Stats z (agent_http env ch others) c st)))"
  unfolding c_CreateVolume_def c_CreateSnapshot_def c_CreateClone_def c_CloneVolume_def c_GetVolume_def c_UpdateVolume_def c_GetSnapshot_def
    c_CreateTask_def c_GetTask_def c_Healthz_def c_Stats_def c_DeleteVolume_def c_DeleteSnapshot_def c_CancelTask_def c_CreateVolumeExport_def
    c_DeleteVolumeExport_def
  by (intro conjI create_typed fetch_typed act_typed route_healthz;
      rule routes_volume routes_other routes_act; rule fixed_paths split_volume_path[OF assms] named_paths[OF assms])

lemma lists_typed:
  assumes "CHR ''/'' \<notin> set n"
  shows "protocol_ok (Option.bind (c_ListVolumes (agent_http env ch others) c opts st) (error_of \<circ> fst)) \<and>
    protocol_ok (Option.bind (c_ListVolumesDetail (agent_http env ch others) c opts st) (error_of \<circ> fst)) \<and>
    protocol_ok (Option.bind (c_ListSnapshots (agent_http env ch others) c opts st) (error_of \<circ> fst)) \<and>
    protocol_ok (Option.bind (c_ListSnapshotsDetail (agent_http env ch others) c opts st) (error_of \<circ> fst)) \<and>
    protocol_ok (Option.bind (c_ListVolumeSnapshots (agent_http env ch others) c n opts st) (error_of \<circ> fst)) \<and>
    protocol_ok (Option.bind (c_ListVolumeSnapshotsDetail (agent_http env ch others) c n opts st) (error_of \<circ> fst)) \<and>
    protocol_ok (Option.bind (c_ListVolumeExports (agent_http env ch others) c opts st) (error_of \<circ> fst)) \<and>
    protocol_ok (Option.bind (c_ListVolumeExportsDetail (agent_http env ch others) c opts st) (error_of \<circ> fst)) \<and>
    protocol_ok (Option.bind (c_ListTasks (agent_http env ch others) c ty opts st) (error_of \<circ> fst)) \<and>
    protocol_ok (Option.bind (c_ListTasksDetail (agent_http env ch others) c ty opts st) (error_of \<circ> fst))"
  unfolding c_ListVolumes_def c_ListVolumesDetail_def c_ListSnapshots_def c_ListSnapshotsDetail_def c_ListVolumeSnapshots_def
    c_ListVolumeSnapshotsDetail_def c_ListVolumeExports_def c_ListVolumeExportsDetail_def c_ListTasks_def c_ListTasksDetail_def
  by (intro conjI list_typed; rule routes_lists routes_detail_lists;
      (simp add: QueryParam_set Query_detail; fail | rule fixed_paths named_paths[OF assms]))



end
