(* ===== verification/Quiet.thy ===== *)
theory Quiet
  imports Protocol
begin

text \<open>
  The client against an agent that nobody else uses: every operation of the client is the operation of the
  agent's storage, and the client sees its result. The theorems on the controller and on the command line
  rest on these lemmas.
\<close>

lemma serve_export:
  assumes "map_of (env_tenants env) tok = Some t" "CHR ''/'' \<notin> set n" "xr_Client x \<noteq> []"
  shows "serve env ch \<lparr>rq_Method = POST, rq_Path = ''/v1/volumes/'' @ n @ ''/export'', rq_Query = [], rq_Auth = ''Bearer '' @ tok, rq_Body = RExport x\<rparr> a =
      Some (done_response env (CreateVolumeExport t n (xr_Client x) (case xr_Labels x of None \<Rightarrow> [] | Some ls \<Rightarrow> ls) (store_state a)) a)"
    "serve env ch \<lparr>rq_Method = DELETE, rq_Path = ''/v1/volumes/'' @ n @ ''/export'', rq_Query = [], rq_Auth = ''Bearer '' @ tok, rq_Body = RExport x\<rparr> a =
      Some (done_response env (DeleteVolumeExport t n (xr_Client x) (xr_Labels x) (store_state a)) a)"
  using assms(3) unfolding serve_def request.simps named_paths(4)[OF assms(2)]
  by (simp_all add: route_def volume_routes_def bind_export_def bind_body_def AuthMiddleware_bearer[OF assms(1)] h_CreateVolumeExport_def
      h_DeleteVolumeExport_def del: append_Cons append.simps)

lemma serve_volume:
  assumes "map_of (env_tenants env) tok = Some t" "CHR ''/'' \<notin> set n"
  shows "serve env ch \<lparr>rq_Method = PATCH, rq_Path = ''/v1/volumes/'' @ n, rq_Query = [], rq_Auth = ''Bearer '' @ tok, rq_Body = RVolumeUpdate u\<rparr> a =
      Some (h_UpdateVolume env n (Some u) t a)"
    "serve env ch \<lparr>rq_Method = DELETE, rq_Path = ''/v1/volumes/'' @ n, rq_Query = [], rq_Auth = ''Bearer '' @ tok, rq_Body = EmptyBody\<rparr> a =
      Some (done_response env (DeleteVolume t n (store_state a)) a)"
    "serve env ch \<lparr>rq_Method = GET, rq_Path = ''/v1/volumes/'' @ n, rq_Query = [], rq_Auth = ''Bearer '' @ tok, rq_Body = EmptyBody\<rparr> a =
      Some (h_GetVolume env n t a)"
  unfolding serve_def request.simps split_volume_path[OF assms(2)]
  by (simp_all add: route_def volume_routes_def bind_update_def bind_body_def AuthMiddleware_bearer[OF assms(1)] h_DeleteVolume_def
      del: append_Cons append.simps)

text \<open>An agent that nobody else uses between two requests.\<close>

definition quiet :: "nat \<Rightarrow> 'f agent \<Rightarrow> 'f agent" where "quiet k a = a"

lemma store_set [simp]: "store_state (set_store st a) = st"
  by (simp add: store_state_def set_store_def)

text \<open>What the client makes of the error of an operation without a result.\<close>

definition client_sees :: "error option \<Rightarrow> client_error option \<Rightarrow> bool" where
  "client_sees err x \<longleftrightarrow> (case err of None \<Rightarrow> x = None
     | Some e \<Rightarrow> \<exists>y. x = Some y \<and> (IsNotFound y \<longleftrightarrow> error_status e = 404) \<and> (IsLocked y \<longleftrightarrow> error_status e = 423))"

lemma client_sees_None [simp]: "client_sees err None \<longleftrightarrow> err = None"
  by (simp add: client_sees_def split: option.splits)

lemma agent_http_served:
  "serve env (ch k) rq a = Some r \<Longrightarrow> agent_http env ch quiet rq (k, a) = (Inr (fst r), (Suc k, snd r))"
  by (simp add: agent_http_def quiet_def split: prod.splits)

lemma client_done:
  assumes "serve env (ch k) \<lparr>rq_Method = m, rq_Path = path, rq_Query = q, rq_Auth = ''Bearer '' @ cl_token c, rq_Body = b\<rparr> a = Some (done_response env r a)"
  shows "\<exists>x. act_call (client_do (agent_http env ch quiet) c m path q b (k, a)) = (x, (Suc k, set_store (snd r) a)) \<and> client_sees (fst r) x"
proof -
  have s: "snd (done_response env r a) = set_store (snd r) a" by (simp add: done_response_def split: prod.splits)
  obtain err st where r: "r = (err, st)" by (cases r) blast
  show ?thesis unfolding act_call_def client_do_def agent_http_served[of env ch k, OF assms] s client_sees_def
    using error_status_ge
    by (auto simp: r done_response_def JSON_def rs_Status_error IsNotFound_def IsLocked_def agent_error_def split: option.splits body.splits)
qed

text \<open>The client's operations on a quiet agent.\<close>

lemma client_CreateExport:
  assumes "map_of (env_tenants env) (cl_token c) = Some t" "CHR ''/'' \<notin> set n" "ip \<noteq> []"
    and "CreateVolumeExport t n ip (ensureIdentity c ls) (store_state a) = (err, st)"
  shows "\<exists>x. c_CreateVolumeExport (agent_http env ch quiet) c n ip ls (k, a) = (x, (Suc k, set_store st a)) \<and> client_sees err x"
proof -
  let ?x = "\<lparr>xr_Client = ip, xr_Labels = Some (ensureIdentity c ls)\<rparr>"
  have x: "xr_Client ?x \<noteq> []" using assms(3) by simp
  show ?thesis unfolding c_CreateVolumeExport_def
    using client_done[of env ch k, OF serve_export(1)[OF assms(1,2) x, of "ch k" a]] assms(4) by (simp del: append.simps)
qed

lemma client_DeleteExport:
  assumes "map_of (env_tenants env) (cl_token c) = Some t" "CHR ''/'' \<notin> set n" "ip \<noteq> []" "ls \<noteq> []"
    and "DeleteVolumeExport t n ip (Some ls) (store_state a) = (err, st)"
  shows "\<exists>x. c_DeleteVolumeExport (agent_http env ch quiet) c n ip ls (k, a) = (x, (Suc k, set_store st a)) \<and> client_sees err x"
proof -
  let ?x = "\<lparr>xr_Client = ip, xr_Labels = Some ls\<rparr>"
  have x: "xr_Client ?x \<noteq> []" using assms(3) by simp
  show ?thesis unfolding c_DeleteVolumeExport_def
    using client_done[of env ch k, OF serve_export(2)[OF assms(1,2) x, of "ch k" a]] assms(4,5) by (simp del: append.simps)
qed

lemma client_Delete:
  assumes "map_of (env_tenants env) (cl_token c) = Some t" "CHR ''/'' \<notin> set n" "DeleteVolume t n (store_state a) = (err, st)"
  shows "\<exists>x. c_DeleteVolume (agent_http env ch quiet) c n (k, a) = (x, (Suc k, set_store st a)) \<and> client_sees err x"
  unfolding c_DeleteVolume_def using client_done[of env ch k, OF serve_volume(2)[OF assms(1,2), of "ch k" a]] assms(3) by (simp del: append.simps)

text \<open>An operation that returns a volume.\<close>

lemma client_volume:
  assumes "serve env (ch k) \<lparr>rq_Method = m, rq_Path = path, rq_Query = q, rq_Auth = ''Bearer '' @ cl_token c, rq_Body = b\<rparr> a = Some (rs, a')"
    and "case r of Inl e \<Rightarrow> rs = StorageErrorResponse msg e | Inr v \<Rightarrow> rs = JSON 200 (BVolume (volumeDetailResponseFrom v))"
  shows "\<exists>x. fetch_call volume_of (client_do (agent_http env ch quiet) c m path q b (k, a)) = (x, (Suc k, a')) \<and>
    (case r of Inl e \<Rightarrow> \<exists>y. x = Inl y | Inr v \<Rightarrow> x = Inr (volumeDetailResponseFrom v))"
  unfolding fetch_call_def client_do_def agent_http_served[of env ch k, OF assms(1)] using assms(2) error_status_ge
  by (auto simp: rs_Status_error JSON_def split: sum.splits)

lemma client_Get:
  assumes "map_of (env_tenants env) (cl_token c) = Some t" "CHR ''/'' \<notin> set n" "GetVolume t n (store_state a) = (r, st)"
  shows "\<exists>x. c_GetVolume (agent_http env ch quiet) c n (k, a) = (x, (Suc k, set_store st a)) \<and>
    (case r of Inl e \<Rightarrow> \<exists>y. x = Inl y | Inr v \<Rightarrow> x = Inr (volumeDetailResponseFrom v))"
proof -
  obtain rs where h: "h_GetVolume env n t a = (rs, set_store st a)"
      "case r of Inl e \<Rightarrow> rs = StorageErrorResponse (env_message env) e | Inr v \<Rightarrow> rs = JSON 200 (BVolume (volumeDetailResponseFrom v))"
    using assms(3) by (cases r) (simp_all add: h_GetVolume_def)
  show ?thesis unfolding c_GetVolume_def by (rule client_volume[where ch = ch and k = k and msg = "env_message env", OF serve_volume(3)[OF assms(1,2), of "ch k" a, unfolded h(1)] h(2)])
qed

lemma client_Update:
  assumes "map_of (env_tenants env) (cl_token c) = Some t" "CHR ''/'' \<notin> set n" "UpdateVolume t n u (store_state a) = (r, st)"
  shows "\<exists>x. c_UpdateVolume (agent_http env ch quiet) c n u (k, a) = (x, (Suc k, set_store st a)) \<and>
    (case r of Inl e \<Rightarrow> \<exists>y. x = Inl y | Inr v \<Rightarrow> x = Inr (volumeDetailResponseFrom v))"
proof -
  obtain rs where h: "h_UpdateVolume env n (Some u) t a = (rs, set_store st a)"
      "case r of Inl e \<Rightarrow> rs = StorageErrorResponse (env_message env) e | Inr v \<Rightarrow> rs = JSON 200 (BVolume (volumeDetailResponseFrom v))"
    using assms(3) by (cases r) (simp_all add: h_UpdateVolume_def)
  show ?thesis unfolding c_UpdateVolume_def by (rule client_volume[where ch = ch and k = k and msg = "env_message env", OF serve_volume(1)[OF assms(1,2), of "ch k" u a, unfolded h(1)] h(2)])
qed

end
