(* ===== verification/ControllerProps.thy ===== *)
theory ControllerProps
  imports Controller Quiet ExportProps AgentProps
begin

text \<open>
  The controller, the client and the agent together: labels sent to the agent, routing of a storage class to
  its agent, and what publishing, unpublishing, creating and deleting a volume through the CSI service
  do to the agent behind it.
\<close>

section \<open>Labels\<close>

lemma mergeUserLabels_facts:
  assumes "mergeUserLabels dst user n = (ls, sk)"
  shows "k \<in> set reservedLabelKeys \<Longrightarrow> map_of ls k = map_of dst k" "keys_distinct dst \<Longrightarrow> keys_distinct ls"
    "length ls \<le> length dst + n" "set ls \<subseteq> set dst \<union> {(k, v) \<in> set user. valid_label k v}"
proof -
  have l: "ls = fst (merge_loop n (sort_key fst user) 0 dst)" using assms by (simp add: mergeUserLabels_def)
  show "k \<in> set reservedLabelKeys \<Longrightarrow> map_of ls k = map_of dst k" unfolding l by (rule merge_loop_reserved)
  show "keys_distinct dst \<Longrightarrow> keys_distinct ls" unfolding l by (rule merge_loop_distinct)
  show "length ls \<le> length dst + n" unfolding l using merge_loop_length[of 0 n] by simp
  show "set ls \<subseteq> set dst \<union> {(k, v) \<in> set user. valid_label k v}" unfolding l using merge_loop_set[of n "sort_key fst user"] by simp
qed

lemma user_labels_cases:
  assumes "user_labels annos dst = (ls, evs)"
  shows "ls = dst \<or> (\<exists>raw sk. mergeUserLabels dst (parseLabels raw) MaxUserLabels = (ls, sk))"
  using assms by (auto simp: user_labels_def split: option.splits if_splits prod.splits)

lemma user_labels_facts:
  assumes "user_labels annos dst = (ls, evs)"
  shows "k \<in> set reservedLabelKeys \<Longrightarrow> map_of ls k = map_of dst k" "keys_distinct dst \<Longrightarrow> keys_distinct ls"
    "length ls \<le> length dst + MaxUserLabels" "set ls \<subseteq> set dst \<union> {(k, v). valid_label k v}"
proof -
  note m = mergeUserLabels_facts[of dst "parseLabels _" MaxUserLabels ls] and c = user_labels_cases[OF assms]
  show "k \<in> set reservedLabelKeys \<Longrightarrow> map_of ls k = map_of dst k" using c m(1) by metis
  show "keys_distinct dst \<Longrightarrow> keys_distinct ls" using c m(2) by metis
  show "length ls \<le> length dst + MaxUserLabels" using c m(3) by (metis le_add1)
  show "set ls \<subseteq> set dst \<union> {(k, v). valid_label k v}" using c by (auto dest!: m(4))
qed

lemma pvc_labels_facts:
  "keys_distinct (pvc_labels ds pn ns sc)" "length (pvc_labels ds pn ns sc) \<le> length ds + 4"
  "mget (pvc_labels ds pn ns sc) labelPVCName = pn" "mget (pvc_labels ds pn ns sc) labelPVCNamespace = ns"
  "mget (pvc_labels ds pn ns sc) LabelCreatedBy = IdentityK8sController"
  "set (pvc_labels ds pn ns sc) \<subseteq> set ds \<union> {(labelPVCName, pn), (labelPVCNamespace, ns), (labelPVCStorageClass, sc), (LabelCreatedBy, IdentityK8sController)}"
proof -
  let ?b = "[(labelPVCName, pn), (labelPVCNamespace, ns), (labelPVCStorageClass, sc), (LabelCreatedBy, IdentityK8sController)]"
  have "keys_distinct ?b" by (simp add: keys_distinct_def csi_keys LabelCreatedBy_def)
  then show "keys_distinct (pvc_labels ds pn ns sc)" unfolding pvc_labels_def by (rule add_missing_distinct)
  show "length (pvc_labels ds pn ns sc) \<le> length ds + 4" unfolding pvc_labels_def using length_add_missing[of ds ?b] by simp
  have m: "map_of ?b labelPVCName = Some pn" "map_of ?b labelPVCNamespace = Some ns" "map_of ?b LabelCreatedBy = Some IdentityK8sController"
    by (simp_all add: csi_keys LabelCreatedBy_def)
  show "mget (pvc_labels ds pn ns sc) labelPVCName = pn" "mget (pvc_labels ds pn ns sc) labelPVCNamespace = ns"
    "mget (pvc_labels ds pn ns sc) LabelCreatedBy = IdentityK8sController"
    unfolding pvc_labels_def mget_def using m[THEN map_of_add_missing, of ds] by simp_all
  show "set (pvc_labels ds pn ns sc) \<subseteq> set ds \<union> {(labelPVCName, pn), (labelPVCNamespace, ns), (labelPVCStorageClass, sc), (LabelCreatedBy, IdentityK8sController)}"
    unfolding pvc_labels_def using set_add_missing[of ds ?b] by auto
qed

lemma resolveVolumeParams_cases:
  assumes "resolveVolumeParams ds k params = (Some vp, evs)" "vp_Labels vp = Some ls"
  obtains sc annos evs1 where "user_labels annos (pvc_labels ds (mget params PvcNameKey) (mget params PvcNamespaceKey) sc) = (ls, evs1)"
proof -
  have z: "vp_Labels vp' = None" if "applyStringParams params zero_params = (b, vp')" for b vp'
    using that by (auto simp: applyStringParams_def zero_params_def split: prod.splits)
  show thesis using assms z that
    by (auto simp: resolveVolumeParams_def Let_def split: prod.splits bool.splits if_splits option.splits)
qed

text \<open>C32: users cannot forge the labels the controller manages. Whatever the annotations of the claim, the
  labels sent to the agent name the claim, its namespace and the controller as the creator, every
  further label is a default or well-formed, and there are at most twelve more than the defaults.\<close>

theorem resolveVolumeParams_labels:
  assumes "resolveVolumeParams ds k params = (Some vp, evs)" "vp_Labels vp = Some ls"
  shows "mget ls labelPVCName = mget params PvcNameKey \<and> mget ls labelPVCNamespace = mget params PvcNamespaceKey \<and>
    mget ls LabelCreatedBy = IdentityK8sController \<and> keys_distinct ls \<and> length ls \<le> length ds + 12 \<and>
    set ls \<subseteq> set ds \<union> {(k, v). valid_label k v} \<union> {(k, v). k \<in> {labelPVCName, labelPVCNamespace, labelPVCStorageClass, LabelCreatedBy}}"
proof -
  obtain sc annos evs1 where u: "user_labels annos (pvc_labels ds (mget params PvcNameKey) (mget params PvcNamespaceKey) sc) = (ls, evs1)"
    using resolveVolumeParams_cases[OF assms] by blast
  note p = pvc_labels_facts[of ds "mget params PvcNameKey" "mget params PvcNamespaceKey" sc]
  have r: "{labelPVCName, labelPVCNamespace, LabelCreatedBy} \<subseteq> set reservedLabelKeys" by (simp add: reservedLabelKeys_def)
  have e: "mget ls x = mget (pvc_labels ds (mget params PvcNameKey) (mget params PvcNamespaceKey) sc) x"
      if "x \<in> {labelPVCName, labelPVCNamespace, LabelCreatedBy}" for x
    using user_labels_facts(1)[OF u, of x] subsetD[OF r that] by (simp add: mget_def)
  have "length ls \<le> length ds + 12" using p(2) user_labels_facts(3)[OF u] by (simp add: MaxUserLabels_def)
  moreover have "set ls \<subseteq> set ds \<union> {(k, v). valid_label k v} \<union>
      {(k, v). k \<in> {labelPVCName, labelPVCNamespace, labelPVCStorageClass, LabelCreatedBy}}"
    using p(6) user_labels_facts(4)[OF u] by (elim subset_trans) blast
  ultimately show ?thesis using p(1,3,4,5) e user_labels_facts(2)[OF u p(1)] by simp
qed

section \<open>Publishing\<close>

text \<open>The agent keeps its promises for the volume: the invariant, the kernel table in step with the
  references, and the volume in the cache.\<close>

definition export_ready :: "string \<Rightarrow> string \<Rightarrow> state \<Rightarrow> bool" where
  "export_ready t n st \<longleftrightarrow> (case st of (w, s) \<Rightarrow>
     nfs_exporter (st_exporter s) \<and> btrfs_local (st_btrfs s) \<and> sys_inv w s \<and> in_sync w s \<and>
     map_of (cache (st_volumes s)) (key t n) \<noteq> None \<and> no_space (Dir (st_volumes s) t n))"

lemma update_meta_exports [simp]: "vm_Exports (update_meta u T m) = vm_Exports m"
  by (simp add: update_meta_def Let_def split: option.splits)

lemma UpdateVolume_cached:
  assumes "map_of (cache (st_volumes s)) (key t n) = Some m" "UpdateVolume t n u (w, s) = (r, w', s')"
  shows "s' = s \<or> (\<exists>m'. vm_Exports m' = vm_Exports m \<and> s' = s\<lparr>st_volumes := cache_put t n m' (st_volumes s)\<rparr>)"
proof (cases "GetVolume t n (w, s) = (Inr m, w, s)")
  case False
  then obtain e where "GetVolume t n (w, s) = (Inl e, w, s)" using GetVolume_rejected GetVolume_cached[OF assms(1)] by blast
  then show ?thesis using assms(2) by (simp add: UpdateVolume_def)
next
  case True
  show ?thesis using assms(2) True
    by (auto simp: UpdateVolume_def Update_def Get_def assms(1) split: sum.splits prod.splits option.splits)
       (use update_meta_exports in blast)+
qed

lemma UpdateVolume_ready:
  assumes rd: "export_ready t n (w, s)" and v: "ValidName t" "ValidName n" "n \<noteq> SnapshotsDir"
    and ls: "\<forall>ls. vur_Labels u \<noteq> Some ls \<or> keys_distinct ls" and up: "UpdateVolume t n u (w, s) = (r, w', s')"
  shows "export_ready t n (w', s') \<and> refs s' t n = refs s t n \<and> Dir (st_volumes s') = Dir (st_volumes s)"
proof -
  have e: "nfs_exporter (st_exporter s)" "btrfs_local (st_btrfs s)" "sys_inv w s" "in_sync w s" "no_space (Dir (st_volumes s) t n)"
    using rd by (simp_all add: export_ready_def)
  obtain m where m: "map_of (cache (st_volumes s)) (key t n) = Some m" using rd by (auto simp: export_ready_def)
  note inv = UpdateVolume_inv[OF e(3,2) v(3) ls up]
  have tab: "etab w' = etab w" using inv(2)[OF v(1,2)] by (simp add: within_def)
  show ?thesis using UpdateVolume_cached[OF m up]
  proof (elim disjE exE conjE)
    assume "s' = s"
    then show ?thesis using e m inv(1) tab by (simp add: export_ready_def in_sync_def)
  next
    fix m' assume m': "vm_Exports m' = vm_Exports m" "s' = s\<lparr>st_volumes := cache_put t n m' (st_volumes s)\<rparr>"
    have D: "Dir (st_volumes s') = Dir (st_volumes s)" using m'(2) Dir_same[of "st_volumes s" "st_volumes s'"] by simp
    have row: "(Dir (st_volumes s) t n, ip) \<in> set (etab w') \<longleftrightarrow> ip \<in> ex_IP ` set (vm_Exports m')" for ip
      using e(4) v(1,2) m m'(1) tab by (simp add: in_sync_def refs_def)
    have "in_sync w' s'" unfolding m'(2) by (rule in_sync_step[OF e(3,4) v(1,2) refl row]) (simp add: tab)
    then show ?thesis using e m m' inv(1) D by (simp add: export_ready_def refs_def)
  qed
qed

text \<open>The labels of an export contain the labels the unpublish call looks for.\<close>

lemma exportLabels_distinct: "keys_distinct (exportLabels sha sc n h req)"
proof -
  have n: "keys_distinct ls \<Longrightarrow> keys_distinct (set_nonempty k v ls)" for k v ls by (simp add: set_nonempty_def keys_distinct_update)
  have "keys_distinct [(labelNodeName, h), (labelPVName, n), (labelPVStorageClass, sc), (labelVolumeAttachmentName, x)]" for x
    by (simp add: keys_distinct_def csi_keys)
  then show ?thesis unfolding exportLabels_def by (intro n)
qed

lemma export_keys: "distinct [labelNodeName, labelPVName, labelPVStorageClass, labelVolumeAttachmentName, labelPVCName, labelPVCNamespace, LabelCreatedBy]"
  by code_simp

lemma export_labels_match: "labelsContain (ensureIdentity c (exportLabels sha sc n h req)) (unexportLabels sc n h)"
proof -
  have n: "mget (set_nonempty k v ls) k' = mget ls k'" if "k' \<noteq> k" for k v ls k' using that by (simp add: set_nonempty_def mget_update)
  have i: "mget (ensureIdentity c ls) k = mget ls k" if "k \<noteq> LabelCreatedBy" for ls k using that by (simp add: ensureIdentity_def mget_update)
  show ?thesis using export_keys unfolding exportLabels_def
    by (simp add: labelsContain_def unexportLabels_def i n) (auto simp: mget_def)
qed

lemma labelsContain_equal: "maps_equal a b \<Longrightarrow> keys_distinct a \<Longrightarrow> keys_distinct b \<Longrightarrow> labelsContain a m \<longleftrightarrow> labelsContain b m"
  by (simp add: maps_equal_iff labelsContain_def mget_def)

lemma add_export_reference:
  assumes "list_all export_ok (vm_Exports m)" "keys_distinct ls" "labelsContain ls m0"
  shows "\<exists>e \<in> set (vm_Exports (add_export ip ls T m)). ex_IP e = ip \<and> labelsContain (ex_Labels e) m0"
proof (cases "hasExport (vm_Exports m) ip ls")
  case True
  then obtain e where "e \<in> set (vm_Exports m)" "ex_IP e = ip" "maps_equal (ex_Labels e) ls" by (auto simp: hasExport_def list_ex_iff)
  moreover from this assms(1) have "keys_distinct (ex_Labels e)" by (simp add: list_all_iff export_ok_def)
  ultimately show ?thesis using True labelsContain_equal[of "ex_Labels e" ls m0] assms(2,3) by (auto simp: add_export_def Let_def)
qed (use assms(3) in \<open>simp add: add_export_def Let_def\<close>)

lemma sys_inv_cached_ok: "sys_inv w s \<Longrightarrow> map_of (cache (st_volumes s)) k = Some m \<Longrightarrow> volume_ok m"
  by (fastforce simp: sys_inv_def store_inv_def dest: map_of_SomeD)

text \<open>The controller has a client for the storage class, the client's URL is a quiet agent, and its token is
  the one of the tenant.\<close>

definition reaches :: "('f, nat \<times> 'f agent) ctrl_env \<Rightarrow> 'f api_env \<Rightarrow> (nat \<Rightarrow> choices) \<Rightarrow> string \<Rightarrow> labels \<Rightarrow> (nat \<times> 'f agent) server \<Rightarrow> string \<Rightarrow> bool" where
  "reaches env aenv ch sc secrets S t \<longleftrightarrow> (\<exists>c T. agentClientFromStorageClass (ce_client env) sc secrets (sv_agents S) = (Inr c, T) \<and>
     ce_net env (cl_url c) = agent_http aenv ch quiet \<and> map_of (env_tenants aenv) (cl_token c) = Some t)"

definition agent_state :: "(nat \<times> 'f agent) server \<Rightarrow> state" where
  "agent_state S = store_state (snd (sv_net S))"

lemma resolved_labels_distinct:
  assumes "resolveVolumeParams ds k params = (Some vp, evs)"
  shows "\<forall>ls. vur_Labels (updateRequest vp) \<noteq> Some ls \<or> keys_distinct ls"
proof (cases "vp_Labels vp")
  case (Some ls)
  obtain sc annos evs1 where u: "user_labels annos (pvc_labels ds (mget params PvcNameKey) (mget params PvcNamespaceKey) sc) = (ls, evs1)"
    using resolveVolumeParams_cases[OF assms Some] by blast
  show ?thesis using user_labels_facts(2)[OF u pvc_labels_facts(1)] Some by (simp add: updateRequest_def)
next
  case None
  have r: "vur_Labels r1 = vur_Labels r" if "string_param x f p r = Some r1"
      "f \<in> {set_nocow, set_compression, set_uid, set_gid, set_mode}" for x f p r r1
    using that by (auto simp: string_param_def set_nocow_def set_compression_def set_uid_def set_gid_def set_mode_def split: option.splits if_splits sum.splits)
  have a: "vur_Labels (vp_req vp1) = vur_Labels (vp_req vp0)" if "applyStringParams p vp0 = (g, vp1)" for p vp0 g vp1
    using that by (auto simp: applyStringParams_def split: prod.splits option.splits dest!: r)
  have b: "apply_annotations an ks vp0 = (vp1, evs) \<Longrightarrow> vur_Labels (vp_req vp1) = vur_Labels (vp_req vp0)" for an ks vp0 vp1 evs
    by (induction ks arbitrary: vp0 vp1 evs) (fastforce split: option.splits prod.splits dest!: a)+
  show ?thesis using assms None a b by (auto simp: resolveVolumeParams_def zero_params_def zero_update_def updateRequest_def Let_def
      split: prod.splits bool.splits if_splits option.splits)
qed

text \<open>What a call of the publish operation does when it succeeds: an update of the volume may come first, then
  the export.\<close>

lemma csi_PublishVolume_calls:
  assumes "csi_PublishVolume env req S = (Inr (), S')" "ParseNodeID (pq_NodeId req) = Some (h, ip)" "ParseVolumeID (pq_VolumeId req) = Some (sc, n)"
    and r: "reaches env aenv ch sc (pq_Secrets req) S t" and n: "CHR ''/'' \<notin> set n"
  obtains c vp evs st1 where "resolveVolumeParams (ce_defaults env) (ce_kube env) (pq_Context req) = (Some vp, evs)"
    "st1 = agent_state S \<or> st1 = snd (UpdateVolume t n (updateRequest vp) (agent_state S))"
    "CreateVolumeExport t n ip (ensureIdentity c (exportLabels (ce_sha256 env) sc n h req)) st1 = (None, agent_state S')"
proof -
  obtain c T where c: "agentClientFromStorageClass (ce_client env) sc (pq_Secrets req) (sv_agents S) = (Inr c, T)"
      "ce_net env (cl_url c) = agent_http aenv ch quiet" "map_of (env_tenants aenv) (cl_token c) = Some t"
    using r by (auto simp: reaches_def)
  obtain k a where net: "sv_net S = (k, a)" by fastforce
  have ip: "ip \<noteq> []" using ParseNodeID_SomeD[OF assms(2)] by simp
  obtain vpo evs where rv: "resolveVolumeParams (ce_defaults env) (ce_kube env) (pq_Context req) = (vpo, evs)" by fastforce
  let ?S1 = "S\<lparr>sv_agents := T, sv_events := sv_events S @ evs\<rparr>"
  have e: "pq_VolumeId req \<noteq> []" "pq_NodeId req \<noteq> []" using assms(1) by (auto simp: csi_PublishVolume_def split: if_splits)
  then obtain vp where vp: "vpo = Some vp"
    using assms(1-3) c(1) rv by (cases vpo) (auto simp: csi_PublishVolume_def with_agent_def resolve_params_def)
  obtain k1 a1 where a1: "sv_net (apply_updates env c n vp ?S1) = (k1, a1)" by fastforce
  have st1: "store_state a1 = agent_state S \<or> store_state a1 = snd (UpdateVolume t n (updateRequest vp) (agent_state S))"
  proof (cases "hasUpdates vp")
    case True
    have "sv_net (apply_updates env c n vp ?S1) = (Suc k, set_store (snd (UpdateVolume t n (updateRequest vp) (store_state a))) a)"
      using client_Update[where ch = ch and k = k and a = a and u = "updateRequest vp", OF c(3) n surjective_pairing] net c(2)
      by (auto simp: apply_updates_def True on_net_def agent_of_def)
    then show ?thesis using a1 net by (simp add: agent_state_def)
  qed (use a1 net in \<open>simp add: apply_updates_def agent_state_def\<close>)
  let ?ls = "exportLabels (ce_sha256 env) sc n h req"
  obtain err st where ex: "CreateVolumeExport t n ip (ensureIdentity c ?ls) (store_state a1) = (err, st)" by (metis prod.collapse)
  obtain x where x: "c_CreateVolumeExport (agent_http aenv ch quiet) c n ip ?ls (k1, a1) = (x, (Suc k1, set_store st a1))" "client_sees err x"
    using client_CreateExport[where ch = ch, OF c(3) n ip ex] by blast
  have "x = None \<and> sv_net S' = (Suc k1, set_store st a1)"
    using assms(1-3) e c(1,2) rv vp a1 x(1)
    by (auto simp: csi_PublishVolume_def with_agent_def resolve_params_def agent_of_def on_net_def Let_def split: option.splits)
  then have "CreateVolumeExport t n ip (ensureIdentity c ?ls) (store_state a1) = (None, agent_state S')"
    using ex x(2) by (simp add: agent_state_def)
  then show thesis using that rv vp st1 by blast
qed


lemma error_status_404: "error_status e = 404 \<longleftrightarrow> e = StorageError ErrNotFound \<or> e = TaskNotFound"
  by (cases e) (auto simp: error_status_def split: option.splits elim!: codeStatus.elims)

lemma tenant_err_not_task: "tenant_err s t w \<noteq> Some TaskNotFound"
  by (auto simp: tenant_err_def tenantPath_def check_def ValidateName_def Let_def split: sum.splits option.splits if_splits)

lemma ValidateLabels_Some: "ValidateLabels ls = Some e \<Longrightarrow> e = ValidationError"
  by (induction ls rule: validate_entries.induct) (auto simp: ValidateLabels_def split: if_splits)

lemma DeleteVolumeExport_404:
  assumes "DeleteVolumeExport t n c ls st = (Some e, st')" "error_status e = 404"
  shows "e = StorageError ErrNotFound"
proof -
  have "e \<noteq> TaskNotFound" using assms(1) tenant_err_not_task
    by (auto simp: DeleteVolumeExport_def check_def Let_def ValidateName_def validateClientIP_def fail_if_def dest!: ValidateLabels_Some
        split: prod.splits option.splits sum.splits if_splits)
  then show ?thesis using assms(2) error_status_404 by auto
qed

lemma csi_UnpublishVolume_calls:
  assumes "csi_UnpublishVolume env req S = (Inr (), S')" "ParseNodeID (pq_NodeId req) = Some (h, ip)" "ParseVolumeID (pq_VolumeId req) = Some (sc, n)"
    and r: "reaches env aenv ch sc (pq_Secrets req) S t" and n: "CHR ''/'' \<notin> set n"
  obtains err where "DeleteVolumeExport t n ip (Some (unexportLabels sc n h)) (agent_state S) = (err, agent_state S')"
    "err = None \<or> err = Some (StorageError ErrNotFound)"
proof -
  obtain c T where c: "agentClientFromStorageClass (ce_client env) sc (pq_Secrets req) (sv_agents S) = (Inr c, T)"
      "ce_net env (cl_url c) = agent_http aenv ch quiet" "map_of (env_tenants aenv) (cl_token c) = Some t"
    using r by (auto simp: reaches_def)
  obtain k a where net: "sv_net S = (k, a)" by fastforce
  have ip: "ip \<noteq> []" using ParseNodeID_SomeD[OF assms(2)] by simp
  have e: "pq_VolumeId req \<noteq> []" "pq_NodeId req \<noteq> []" using assms(1) by (auto simp: csi_UnpublishVolume_def split: if_splits)
  let ?ls = "unexportLabels sc n h"
  have ls: "?ls \<noteq> []" by (simp add: unexportLabels_def)
  obtain err st where d: "DeleteVolumeExport t n ip (Some ?ls) (store_state a) = (err, st)" by (metis prod.collapse)
  obtain x where x: "c_DeleteVolumeExport (agent_http aenv ch quiet) c n ip ?ls (k, a) = (x, (Suc k, set_store st a))" "client_sees err x"
    using client_DeleteExport[where ch = ch, OF c(3) n ip ls d] by blast
  have "(x = None \<or> (\<exists>y. x = Some y \<and> IsNotFound y)) \<and> sv_net S' = (Suc k, set_store st a)"
    using assms(1-3) e c(1,2) x(1) net
    by (auto simp: csi_UnpublishVolume_def with_agent_def agent_of_def on_net_def split: option.splits if_splits)
  then have "(err = None \<or> err = Some (StorageError ErrNotFound)) \<and> agent_state S' = st"
    using x(2) DeleteVolumeExport_404[of t n ip "Some ?ls" "store_state a" _ st] d
    by (auto simp: client_sees_def agent_state_def split: option.splits)
  then show thesis using that d net by (auto simp: agent_state_def)
qed

text \<open>C29: an unpublished volume has no reference of the node left. When the unpublish call of the controller
  succeeds, and not because the agent reported that the volume does not exist, then the agent has
  removed every reference of this node and volume, and the kernel table is still in step, so the export is
  gone unless another reference of the same address remains.\<close>

theorem csi_UnpublishVolume_removes:
  assumes unp: "csi_UnpublishVolume env req S = (Inr (), S')"
    and ids: "ParseNodeID (pq_NodeId req) = Some (h, ip)" "ParseVolumeID (pq_VolumeId req) = Some (sc, n)"
    and r: "reaches env aenv ch sc (pq_Secrets req) S t" and v: "ValidName n"
    and rd: "export_ready t n (agent_state S)"
    and nf: "fst (DeleteVolumeExport t n ip (Some (unexportLabels sc n h)) (agent_state S)) \<noteq> Some (StorageError ErrNotFound)"
  shows "in_sync (fst (agent_state S')) (snd (agent_state S')) \<and>
    refs (snd (agent_state S)) t n - {ip} \<subseteq> refs (snd (agent_state S')) t n \<and>
    refs (snd (agent_state S')) t n \<subseteq> refs (snd (agent_state S)) t n \<and>
    (\<exists>m. map_of (cache (st_volumes (snd (agent_state S')))) (key t n) = Some m \<and>
       {e \<in> set (vm_Exports m). ex_IP e = ip \<and> labelsContain (ex_Labels e) (unexportLabels sc n h)} = {})"
proof -
  have sl: "CHR ''/'' \<notin> set n" using ValidName_no_slash[OF v] by blast
  obtain w s where ws: "agent_state S = (w, s)" by fastforce
  obtain w' s' where w': "agent_state S' = (w', s')" by fastforce
  have d: "DeleteVolumeExport t n ip (Some (unexportLabels sc n h)) (w, s) = (None, w', s')"
    by (rule csi_UnpublishVolume_calls[OF unp ids r sl]) (use nf ws w' in auto)
  have e: "nfs_exporter (st_exporter s)" "sys_inv w s" "in_sync w s" "no_space (Dir (st_volumes s) t n)"
    and "\<exists>m. map_of (cache (st_volumes s)) (key t n) = Some m" using rd ws by (auto simp: export_ready_def)
  then obtain m where m: "map_of (cache (st_volumes s)) (key t n) = Some m" by blast
  have "map_of (cache (st_volumes s')) (key t n) = Some (remove_exports ip (Some (unexportLabels sc n h)) (now w) m)"
    using DeleteVolumeExport_cases[OF d m] by auto
  then show ?thesis using DeleteVolumeExport_sync[OF e(1-3) m e(4) d] ws w' by (simp add: remove_exports_def keeps_export_def)
qed

section \<open>Deleting and creating again\<close>

lemma reaches_again:
  assumes "agentClientFromStorageClass cfg sc secrets T0 = (Inr c, T)"
  shows "agentClientFromStorageClass cfg sc secrets T = (Inr c, T)"
  using agentClientFromStorageClass_Inr[OF assms]
  by (auto simp: agentClientFromStorageClass_def tracked_Client_def AgentURL_def Track_def map_of_update split: option.splits)

lemma csi_DeleteVolume_call:
  assumes "ParseVolumeID vid = Some (sc, n)" "CHR ''/'' \<notin> set n"
    and "agentClientFromStorageClass (ce_client env) sc secrets (sv_agents S) = (Inr c, T)" "ce_net env (cl_url c) = agent_http aenv ch quiet"
      "map_of (env_tenants aenv) (cl_token c) = Some t" and "DeleteVolume t n (agent_state S) = (err, st)"
  shows "\<exists>S'. csi_DeleteVolume env vid secrets S = (case err of None \<Rightarrow> Inr ()
      | Some e \<Rightarrow> if error_status e = 404 then Inr () else if error_status e = 423 then Inl FailedPrecondition else Inl Internal, S') \<and>
    agent_state S' = st \<and> sv_agents S' = T"
proof -
  obtain k a where net: "sv_net S = (k, a)" by fastforce
  obtain x where x: "c_DeleteVolume (agent_http aenv ch quiet) c n (k, a) = (x, (Suc k, set_store st a))" "client_sees err x"
    using client_Delete[where ch = ch, OF assms(5,2), of a err st k] assms(6) net by (auto simp: agent_state_def)
  have "vid \<noteq> []" using ParseVolumeID_SomeD[OF assms(1)] by (auto simp: MakeVolumeID_def)
  then show ?thesis using assms(1,3,4) x net
    by (cases err) (auto simp: csi_DeleteVolume_def with_agent_def agent_of_def on_net_def client_sees_def agent_state_def)
qed

lemma DeleteVolume_missing:
  assumes "tenant_err s t w = None" "ValidName n" "Get volume_codec t n w (st_volumes s) = (Inl e, vs)" "meta_IsNotExist e"
  shows "DeleteVolume t n (w, s) = (Some (StorageError ErrNotFound), w, s) \<and> fst (GetVolume t n (w, s)) = Inl (StorageError ErrNotFound)"
proof -
  have "vs = st_volumes s" using assms(3) by (auto simp: Get_def split: option.splits sum.splits)
  then show ?thesis using assms by (simp add: DeleteVolume_def GetVolume_def read_err_def)
qed

lemma DeleteVolume_404:
  assumes "DeleteVolume t n (w, s) = (Some e, w', s')" "error_status e = 404"
  shows "(w', s') = (w, s) \<and> (tenant_err s t w \<noteq> None \<or> (\<exists>x. Get volume_codec t n w (st_volumes s) = (Inl x, st_volumes s) \<and> meta_IsNotExist x \<and> ValidName n))"
  using assms
  by (auto simp: DeleteVolume_def check_def Get_def ValidateName_def error_status_def split: option.splits sum.splits prod.splits if_splits)

text \<open>C31: deleting a volume through the CSI service is idempotent. When the delete call succeeds, the volume is
  gone, and the same call again succeeds and changes nothing on the agent.\<close>

theorem csi_DeleteVolume_idempotent:
  assumes vid: "ParseVolumeID vid = Some (sc, n)" and r: "reaches env aenv ch sc secrets S t" and v: "ValidName n" "n \<noteq> SnapshotsDir"
    and del: "csi_DeleteVolume env vid secrets S = (Inr (), S')" and ws: "agent_state S = (w, s)" "agent_state S' = (w', s')"
    and inv: "sys_inv w s" "btrfs_local (st_btrfs s)"
    and nf: "faults w (OReadFile (MetaPath (st_volumes s) t n)) = None" "tenant_err s' t w' = None"
  shows "fst (GetVolume t n (agent_state S')) = Inl (StorageError ErrNotFound) \<and>
    (\<exists>S''. csi_DeleteVolume env vid secrets S' = (Inr (), S'') \<and> agent_state S'' = agent_state S')"
proof -
  have sl: "CHR ''/'' \<notin> set n" using ValidName_no_slash[OF v(1)] by blast
  obtain c T where c: "agentClientFromStorageClass (ce_client env) sc secrets (sv_agents S) = (Inr c, T)"
      "ce_net env (cl_url c) = agent_http aenv ch quiet" "map_of (env_tenants aenv) (cl_token c) = Some t"
    using r by (auto simp: reaches_def)
  obtain err st where d: "DeleteVolume t n (agent_state S) = (err, st)" by (metis prod.collapse)
  have st: "st = (w', s')" "sv_agents S' = T" and ok: "err = None \<or> (\<exists>e. err = Some e \<and> error_status e = 404)"
    using csi_DeleteVolume_call[OF vid sl c d] del ws(2) by (auto split: option.splits if_splits)
  have "\<exists>x. Get volume_codec t n w' (st_volumes s') = (Inl x, st_volumes s') \<and> meta_IsNotExist x"
  proof (cases err)
    case None
    then show ?thesis using DeleteVolume_gone(1)[OF inv v(2) _ nf(1)] d st(1) ws(1) by (auto simp: meta_IsNotExist_def)
  next
    case (Some e)
    then show ?thesis using DeleteVolume_404[of t n w s e w' s'] d st(1) ws(1) ok nf(2) by auto
  qed
  then have d': "DeleteVolume t n (agent_state S') = (Some (StorageError ErrNotFound), agent_state S')"
      and g: "fst (GetVolume t n (agent_state S')) = Inl (StorageError ErrNotFound)"
    using DeleteVolume_missing[OF nf(2) v(1)] ws(2) by auto
  have c': "agentClientFromStorageClass (ce_client env) sc secrets (sv_agents S') = (Inr c, T)" using reaches_again[OF c(1)] st(2) by simp
  show ?thesis using csi_DeleteVolume_call[OF vid sl c' c(2,3) d'] g by (auto simp: error_status_def)
qed

lemma csi_CreateVolume_eq:
  assumes "cq_Name req \<noteq> []" "mget (cq_Parameters req) ParamNFSServer \<noteq> []" "mget (cq_Parameters req) paramAgentURL \<noteq> []"
    and "agentClientFromSecrets (ce_client env) (mget (cq_Parameters req) paramAgentURL) (cq_Secrets req) = Inr c"
    and "resolveVolumeParams (ce_defaults env) (ce_kube env) (cq_Parameters req) = (Some vp, evs)" "vp_StorageClass vp \<noteq> []" "cq_Source req = None"
  shows "\<exists>S1. csi_CreateVolume env req S = create_plain env c (vp_StorageClass vp) req (requested_size (2 ^ 30) (cq_Capacity req)) vp S1 \<and> sv_net S1 = sv_net S"
  using assms by (simp add: csi_CreateVolume_def resolve_params_def Let_def) force

lemma csi_CreateVolume_Inr:
  assumes "csi_CreateVolume env req S = (Inr v, S')" "agentClientFromSecrets (ce_client env) (mget (cq_Parameters req) paramAgentURL) (cq_Secrets req) = Inr c"
  obtains vp evs where "cq_Name req \<noteq> []" "mget (cq_Parameters req) ParamNFSServer \<noteq> []" "mget (cq_Parameters req) paramAgentURL \<noteq> []"
    "resolveVolumeParams (ce_defaults env) (ce_kube env) (cq_Parameters req) = (Some vp, evs)" "vp_StorageClass vp \<noteq> []"
  using assms by (auto simp: csi_CreateVolume_def resolve_params_def Let_def split: if_splits prod.splits option.splits)

lemma create_plain_some:
  assumes "ce_net env (cl_url c) = agent_http aenv ch quiet" "map_of (env_tenants aenv) (cl_token c) = Some t" "sv_net S = (k, a)"
    and "CreateVolume (ch_locked (ch k)) t (with_identity c (volume_request req sz vp)) (store_state a) = ((Some x, err), st)"
  shows "\<exists>S'. create_plain env c sc req sz vp S = (Inr (created sc req sz (vm_Path x)), S') \<and> sv_net S' = (Suc k, set_store st a)"
  using client_create[where others = quiet and ch = ch and k = k and a = a, OF assms(2), of "volume_request req sz vp" x err st] assms
  by (cases err) (auto simp: create_plain_def agent_of_def on_net_def quiet_def IsConflict_def volumeDetailResponseFrom_def)

lemma StorageErrorResponse_body: "\<exists>x. rs_Body (StorageErrorResponse msg e) = BError x"
  by (cases e) (simp_all add: json_error_def JSON_def)

lemma create_plain_none:
  assumes "ce_net env (cl_url c) = agent_http aenv ch quiet" "map_of (env_tenants aenv) (cl_token c) = Some t" "sv_net S = (k, a)"
    and cv: "CreateVolume (ch_locked (ch k)) t (with_identity c (volume_request req sz vp)) (store_state a) = ((None, err), st)"
    and r: "create_plain env c sc req sz vp S = (Inr v, S')"
  shows "mget (cv_Context v) ParamNFSSharePath = []"
proof -
  define rs where "rs = fst (created_volume aenv ((None, err), st) a)"
  have rs: "created_volume aenv ((None, err), st) a = (rs, set_store st a)" "400 \<le> rs_Status rs" "rs_Body rs = NoContent \<or> (\<exists>e. rs_Body rs = BError e)"
    unfolding rs_def by (cases err, simp_all add: created_volume_def JSON_def rs_Status_error error_status_ge StorageErrorResponse_body)+
  have "\<exists>y e st'. c_CreateVolume (agent_http aenv ch quiet) c (volume_request req sz vp) (k, a) = ((y, Some e), st') \<and>
      (IsConflict e \<longrightarrow> y = Some zero_volume)"
    unfolding c_CreateVolume_def client_do_def agent_http_def prod.case quiet_def serve_create[OF assms(2)] with_identity_def[symmetric] cv rs(1)
    using rs(2,3) by (auto simp: create_call_def agent_error_def IsConflict_def volume_of_def unmarshal_def split: body.splits option.splits)
  then obtain y e st' where y: "c_CreateVolume (agent_http aenv ch quiet) c (volume_request req sz vp) (k, a) = ((y, Some e), st')"
      "IsConflict e \<Longrightarrow> y = Some zero_volume" by blast
  show ?thesis
  proof (cases "IsConflict e")
    case True
    then show ?thesis using r assms(1,3) y by (auto simp: create_plain_def agent_of_def on_net_def created_def zero_volume_def mget_update)
  next
    case False
    then show ?thesis using r assms(1,3) y(1) by (cases y) (simp_all add: create_plain_def agent_of_def on_net_def)
  qed
qed

lemma create_validate_volumes: "create_validate (s\<lparr>st_volumes := vs\<rparr>) t req w = create_validate s t req w"
  by (simp add: create_validate_def tenant_err_def tenantPath_def)

lemma CreateVolume_conflict_again:
  assumes "CreateVolume True t req (w, s) = ((Some x, Some e), w', s')"
  shows "CreateVolume True t req (w', s') = ((Some x, Some (StorageError ErrAlreadyExists)), w', s')"
proof -
  obtain q mode where v: "create_validate s t req w = Inr (q, mode)"
    using assms by (cases "create_validate s t req w") (auto simp: CreateVolume_def)
  have n: "vcr_Name q = vcr_Name req" using create_validate_Inr(3)[OF v] by simp
  have "\<exists>vs. Get volume_codec t (vcr_Name req) w (st_volumes s) = (Inr x, vs) \<and> w' = w \<and> s' = s\<lparr>st_volumes := vs\<rparr>"
    using assms v n by (auto simp: CreateVolume_def create_entry_def on_volumes_def provision_def Let_def split: prod.splits sum.splits option.splits if_splits)
  then obtain vs where g: "Get volume_codec t (vcr_Name req) w (st_volumes s) = (Inr x, vs)" "w' = w" "s' = s\<lparr>st_volumes := vs\<rparr>" by blast
  then have "map_of (cache (st_volumes s')) (key t (vcr_Name req)) = Some x" by (auto simp: Get_def split: option.splits sum.splits)
  then show ?thesis using CreateVolume_taken[of s' t req w' "(q, mode)" x] v g create_validate_volumes by simp
qed


section \<open>A demo controller\<close>

text \<open>One storage class whose agent is the demo agent, and a claim whose user tries to set the creator.\<close>

definition demo_pvc :: PVC where
  "demo_pvc = \<lparr>pvc_Name = ''data'', pvc_Namespace = ''prod'', pvc_StorageClassName = Some ''fast'',
     pvc_Annotations = [(''btrfs-nfs-csi/labels'', ''created-by=me,team=a''), (''btrfs-nfs-csi/uid'', ''x'')]\<rparr>"

definition demo_kube :: kube where
  "demo_kube = \<lparr>k_StorageClasses = Some [], k_Secret = (\<lambda>_ _. None), k_PVC = (\<lambda>ns n. if ns = ''prod'' \<and> n = ''data'' then Some demo_pvc else None),
     k_PVs = Some [], k_VolumeSnapshot = (\<lambda>_ _. None)\<rparr>"

definition demo_ctrl :: "(unit, nat \<times> unit agent) ctrl_env" where
  "demo_ctrl = \<lparr>ce_net = (\<lambda>_. agent_http demo_api (\<lambda>_. demo_choices) quiet), ce_client = None, ce_kube = demo_kube, ce_defaults = [(''env'', ''x'')],
     ce_sha256 = (\<lambda>_. ''00''), ce_now = 0, ce_json = (\<lambda>_. None)\<rparr>"

definition demo_params :: labels where
  "demo_params = [(ParamNFSServer, ''10.0.0.1''), (paramAgentURL, ''http://a''), (PvcNameKey, ''data''), (PvcNamespaceKey, ''prod'')]"

definition demo_server :: "unit agent \<Rightarrow> (nat \<times> unit agent) server" where
  "demo_server a = \<lparr>sv_agents = \<lparr>trk_version = ''1'', trk_commit = ''c'', trk_agents = [(''http://a'', demo_client)], trk_scToURL = [(''fast'', ''http://a'')]\<rparr>,
     sv_net = (0, a), sv_events = []\<rparr>"

theorem resolveVolumeParams_labels_witness:
  "\<exists>vp ls evs. resolveVolumeParams [(''env'', ''x'')] demo_kube demo_params = (Some vp, evs) \<and> vp_Labels vp = Some ls \<and>
     mget ls LabelCreatedBy = ''k8s'' \<and> mget ls ''team'' = ''a'' \<and> evs = [AnnotationInvalid ''btrfs-nfs-csi/uid'', LabelsSkipped [''created-by'']]"
proof -
  let ?r = "resolveVolumeParams [(''env'', ''x'')] demo_kube demo_params"
  have e: "case ?r of (Some vp, evs) \<Rightarrow> evs = [AnnotationInvalid ''btrfs-nfs-csi/uid'', LabelsSkipped [''created-by'']] \<and>
      (case vp_Labels vp of None \<Rightarrow> False | Some ls \<Rightarrow> mget ls ''team'' = ''a'') | _ \<Rightarrow> False" by code_simp
  then obtain vp evs ls where r: "?r = (Some vp, evs)" "vp_Labels vp = Some ls" by (cases ?r; cases "fst ?r") (auto split: option.splits)
  then show ?thesis using resolveVolumeParams_labels[OF r] e by (auto simp: IdentityK8sController_def)
qed

definition demo_publish :: publish_request where
  "demo_publish = \<lparr>pq_VolumeId = ''fast|v'', pq_NodeId = ''node2|10.0.0.2'', pq_Secrets = [], pq_Context = demo_params\<rparr>"

lemma demo_ids: "ParseNodeID (pq_NodeId demo_publish) = Some (''node2'', ''10.0.0.2'')" "ParseVolumeID (pq_VolumeId demo_publish) = Some (''fast'', ''v'')"
  by code_simp+

lemma demo_reaches: "reaches demo_ctrl demo_api (\<lambda>_. demo_choices) ''fast'' secrets (demo_server a) ''t''"
proof -
  have "tracked_Client ''fast'' (sv_agents (demo_server a)) = Some demo_client" by (simp add: tracked_Client_def demo_server_def)
  moreover have "map_of (env_tenants demo_api) (cl_token demo_client) = Some ''t''" by code_simp
  ultimately show ?thesis by (simp add: reaches_def agentClientFromStorageClass_def demo_ctrl_def)
qed

lemma demo_ready: "export_ready ''t'' ''v'' demo_state2"
proof -
  have "no_space (Dir (st_volumes (snd demo_state2)) ''t'' ''v'')" unfolding demo2_dir by (simp add: no_space_def is_space_def)
  moreover have "st_exporter (snd demo_state2) = demo_exporter" "btrfs_local (st_btrfs (snd demo_state2))"
    using demo_local by (simp_all add: demo_state2_def demo_storage_def)
  ultimately show ?thesis using demo_exporter_laws demo2_inv demo2_sync demo2_cached by (simp add: export_ready_def case_prod_unfold)
qed

lemma demo_server_state: "agent_state (demo_server (set_store st a)) = st"
  by (simp add: agent_state_def demo_server_def)


theorem csi_UnpublishVolume_removes_witness:
  "\<exists>S' m. csi_UnpublishVolume demo_ctrl demo_publish (demo_server (set_store demo_state2 demo_agent)) = (Inr (), S') \<and>
     map_of (cache (st_volumes (snd (agent_state S')))) (key ''t'' ''v'') = Some m \<and> map ex_IP (vm_Exports m) = [''10.0.0.1'']"
proof -
  let ?S = "demo_server (set_store demo_state2 demo_agent)"
  have e: "case csi_UnpublishVolume demo_ctrl demo_publish ?S of (Inr _, S') \<Rightarrow>
      (case map_of (cache (st_volumes (snd (agent_state S')))) (key ''t'' ''v'') of None \<Rightarrow> False | Some m \<Rightarrow> map ex_IP (vm_Exports m) = [''10.0.0.1''])
    | _ \<Rightarrow> False" by code_simp
  then obtain S' where p: "csi_UnpublishVolume demo_ctrl demo_publish ?S = (Inr (), S')" by (auto split: prod.splits sum.splits)
  have nf: "fst (DeleteVolumeExport ''t'' ''v'' ''10.0.0.2'' (Some (unexportLabels ''fast'' ''v'' ''node2'')) demo_state2) \<noteq> Some (StorageError ErrNotFound)"
    by code_simp
  have v: "ValidName ''v''" by simp
  show ?thesis using csi_UnpublishVolume_removes[OF p demo_ids demo_reaches v] demo_ready nf e p by (auto simp: demo_server_state)
qed

theorem csi_DeleteVolume_idempotent_witness:
  "\<exists>S' S''. csi_DeleteVolume demo_ctrl ''fast|v'' [] (demo_server (set_store demo_state demo_agent)) = (Inr (), S') \<and>
     csi_DeleteVolume demo_ctrl ''fast|v'' [] S' = (Inr (), S'')"
proof -
  let ?S = "demo_server (set_store demo_state demo_agent)"
  have e: "case csi_DeleteVolume demo_ctrl ''fast|v'' [] ?S of (Inr _, S') \<Rightarrow>
      (case agent_state S' of (w', s') \<Rightarrow> tenant_err s' ''t'' w' = None) | _ \<Rightarrow> False" by code_simp
  then obtain S' w' s' where p: "csi_DeleteVolume demo_ctrl ''fast|v'' [] ?S = (Inr (), S')" "agent_state S' = (w', s')" "tenant_err s' ''t'' w' = None"
    by (auto split: prod.splits sum.splits)
  have v: "ParseVolumeID ''fast|v'' = Some (''fast'', ''v'')" "ValidName ''v''" "''v'' \<noteq> SnapshotsDir" by (code_simp, simp_all add: SnapshotsDir_def)
  have s: "agent_state ?S = (fst demo_state, snd demo_state)" by (simp add: demo_server_state)
  have f: "faults (fst demo_state) (OReadFile (MetaPath (st_volumes (snd demo_state)) ''t'' ''v'')) = None" by (simp add: demo_state_def demo_world_def)
  show ?thesis using csi_DeleteVolume_idempotent[OF v(1) demo_reaches v(2,3) p(1) s p(2) demo_state_inv demo_state_local f p(3)] p(1) by blast
qed

definition demo_claim :: create_request where
  "demo_claim = \<lparr>cq_Name = ''pvc1'', cq_Parameters = demo_params, cq_Secrets = [(''agentToken'', ''secret'')], cq_Capacity = Some (4096, 0), cq_Source = None\<rparr>"


end
