(* ===== verification/Node.thy ===== *)
theory Node
  imports Controller Start
begin

text \<open>
  The node service of the Kubernetes integration: \<open>driver/node.go\<close>, \<open>stats.go\<close>, \<open>mount.go\<close>, \<open>utils.go\<close> and
  \<open>driver.go\<close>. The mount utilities of Kubernetes and the network interfaces of the node are not part of the
  repository: a mounter is a record of functions on the node's state, which is a file system and what else
  the mounter keeps. The operations on one volume hold its lock, so each is one step.
\<close>

section \<open>The mounter\<close>

text \<open>The errors of \<open>IsMountPoint\<close>, as the code tells them apart.\<close>

datatype mount_err = MountNotExist | MountCorrupted | MountOther

record MountPoint =
  mp_Device :: string
  mp_Path :: string
  mp_Type :: string

type_synonym 'm node_state = "world \<times> 'm"

text \<open>\<open>mo_force\<close>: the mounter can force an unmount.\<close>

record 'm mounter =
  mo_IsMountPoint :: "string \<Rightarrow> 'm node_state \<Rightarrow> mount_err + bool"
  mo_Mount :: "string \<Rightarrow> string \<Rightarrow> string \<Rightarrow> string list \<Rightarrow> 'm node_state \<Rightarrow> string option \<times> 'm node_state"
  mo_force :: bool
  mo_CleanupMountWithForce :: "string \<Rightarrow> 'm node_state \<Rightarrow> string option \<times> 'm node_state"
  mo_CleanupMountPoint :: "string \<Rightarrow> 'm node_state \<Rightarrow> string option \<times> 'm node_state"
  mo_List :: "'m node_state \<Rightarrow> MountPoint list option"

definition cleanupMountPoint :: "'m mounter \<Rightarrow> string \<Rightarrow> 'm node_state \<Rightarrow> string option \<times> 'm node_state" where
  "cleanupMountPoint m path S = (if mo_force m then mo_CleanupMountWithForce m path S else mo_CleanupMountPoint m path S)"

definition parseVolumeLog :: "string \<Rightarrow> string \<times> string" where
  "parseVolumeLog vid = (case ParseVolumeID vid of None \<Rightarrow> ([], vid) | Some p \<Rightarrow> p)"

text \<open>The check before a mount: a result when the path is mounted already or something failed, and otherwise
  \<open>None\<close> with the state to mount in, after the clean-up of a stale mount and with the directory made.\<close>

definition prepare_target :: "'m mounter \<Rightarrow> string \<Rightarrow> 'm node_state \<Rightarrow> ((grpc_code + unit) option) \<times> 'm node_state" where
  "prepare_target m path S =
     (let mkdir = (\<lambda>S. case os_mkdir_all path 493 (fst S) of
          (Some e, w) \<Rightarrow> (Some (Inl Internal), (w, snd S))
        | (None, w) \<Rightarrow> (None, (w, snd S))) in
      case mo_IsMountPoint m path S of
        Inr True \<Rightarrow> (Some (Inr ()), S)
      | Inr False \<Rightarrow> mkdir S
      | Inl MountNotExist \<Rightarrow> mkdir S
      | Inl MountCorrupted \<Rightarrow> (case cleanupMountPoint m path S of
            (Some e, S1) \<Rightarrow> (Some (Inl Internal), S1)
          | (None, S1) \<Rightarrow> mkdir S1)
      | Inl MountOther \<Rightarrow> (Some (Inl Internal), S))"

section \<open>The lock of a volume\<close>

text \<open>\<open>volumeLock\<close>: the mutexes by volume identifier, with \<open>True\<close> for a locked one; \<open>None\<close> while the caller has to
  wait. An operation holds the lock of its volume until it returns.\<close>

definition volumeLock :: "string \<Rightarrow> (string \<times> bool) list \<Rightarrow> (string \<times> bool) list option" where
  "volumeLock vid locks = (case map_of locks vid of Some True \<Rightarrow> None | _ \<Rightarrow> Some (AList.update vid True locks))"

definition volumeUnlock :: "string \<Rightarrow> (string \<times> bool) list \<Rightarrow> (string \<times> bool) list" where
  "volumeUnlock vid locks = AList.update vid False locks"

lemma volumeLock_excludes:
  assumes "volumeLock vid locks = Some locks'"
  shows "volumeLock vid locks' = None" "vid' \<noteq> vid \<Longrightarrow> (volumeLock vid' locks' = None) = (volumeLock vid' locks = None)"
    "volumeLock vid (volumeUnlock vid locks') \<noteq> None"
  using assms by (auto simp: volumeLock_def volumeUnlock_def map_of_update split: option.splits bool.splits)

section \<open>Staging\<close>

record stage_request =
  ns_VolumeId :: string
  ns_StagingTargetPath :: string
  ns_Context :: labels
  ns_AccessMode :: "access_mode option"

definition stage_opts :: "stage_request \<Rightarrow> string list" where
  "stage_opts req =
     (if ns_AccessMode req = Some SINGLE_NODE_READER_ONLY \<or> ns_AccessMode req = Some MULTI_NODE_READER_ONLY then [''ro''] else [''rw'']) @
     (if mget (ns_Context req) ParamNFSMountOptions \<noteq> [] then split_on CHR '','' (mget (ns_Context req) ParamNFSMountOptions) else [])"

definition NodeStageVolume :: "'m mounter \<Rightarrow> stage_request \<Rightarrow> 'm node_state \<Rightarrow> (grpc_code + unit) \<times> 'm node_state" where
  "NodeStageVolume m req S =
     (let nfsServer = mget (ns_Context req) ParamNFSServer; nfsSharePath = mget (ns_Context req) ParamNFSSharePath;
          stagingPath = ns_StagingTargetPath req in
      if ns_VolumeId req = [] \<or> stagingPath = [] then (Inl InvalidArgument, S)
      else if nfsServer = [] \<or> nfsSharePath = [] then (Inl InvalidArgument, S)
      else (case prepare_target m stagingPath S of
              (Some r, S1) \<Rightarrow> (r, S1)
            | (None, S1) \<Rightarrow> (case mo_Mount m (nfsServer @ '':'' @ nfsSharePath) stagingPath ''nfs'' (stage_opts req) S1 of
                (Some e, S2) \<Rightarrow> (Inl Internal, S2)
              | (None, S2) \<Rightarrow> (Inr (), S2))))"

definition cleanup_target :: "'m mounter \<Rightarrow> string \<Rightarrow> string \<Rightarrow> 'm node_state \<Rightarrow> (grpc_code + unit) \<times> 'm node_state" where
  "cleanup_target m vid path S =
     (if vid = [] \<or> path = [] then (Inl InvalidArgument, S)
      else (case cleanupMountPoint m path S of (Some e, S1) \<Rightarrow> (Inl Internal, S1) | (None, S1) \<Rightarrow> (Inr (), S1)))"

definition NodeUnstageVolume :: "'m mounter \<Rightarrow> string \<Rightarrow> string \<Rightarrow> 'm node_state \<Rightarrow> (grpc_code + unit) \<times> 'm node_state" where
  "NodeUnstageVolume m vid stagingPath S = cleanup_target m vid stagingPath S"

section \<open>Publishing on the node\<close>

record node_publish_request =
  np_VolumeId :: string
  np_StagingTargetPath :: string
  np_TargetPath :: string
  np_Readonly :: bool

definition NodePublishVolume :: "'m mounter \<Rightarrow> node_publish_request \<Rightarrow> 'm node_state \<Rightarrow> (grpc_code + unit) \<times> 'm node_state" where
  "NodePublishVolume m req S =
     (let target = np_TargetPath req in
      if np_VolumeId req = [] \<or> np_StagingTargetPath req = [] \<or> target = [] then (Inl InvalidArgument, S)
      else (case prepare_target m target S of
              (Some r, S1) \<Rightarrow> (r, S1)
            | (None, S1) \<Rightarrow> (case mo_Mount m (np_StagingTargetPath req @ ''/'' @ DataDir) target [] [''bind''] S1 of
                (Some e, S2) \<Rightarrow> (Inl Internal, S2)
              | (None, S2) \<Rightarrow>
                  if np_Readonly req
                  then (case mo_Mount m [] target [] [''bind'', ''remount'', ''ro''] S2 of
                          (Some e, S3) \<Rightarrow> (Inl Internal, snd (cleanupMountPoint m target S3))
                        | (None, S3) \<Rightarrow> (Inr (), S3))
                  else (Inr (), S2))))"

definition NodeUnpublishVolume :: "'m mounter \<Rightarrow> string \<Rightarrow> string \<Rightarrow> 'm node_state \<Rightarrow> (grpc_code + unit) \<times> 'm node_state" where
  "NodeUnpublishVolume m vid target S = cleanup_target m vid target S"

section \<open>Statistics\<close>

record volumeStats =
  vs_QuotaBytes :: u64
  vs_UsedBytes :: u64

fun UnmarshalStats :: "json \<Rightarrow> volumeStats option" where
  "UnmarshalStats JNull = Some \<lparr>vs_QuotaBytes = 0, vs_UsedBytes = 0\<rparr>"
| "UnmarshalStats (JObj m) = (case (dec_u64 (jfield m ''quota_bytes''), dec_u64 (jfield m ''used_bytes'')) of
       (Some q, Some u) \<Rightarrow> Some \<lparr>vs_QuotaBytes = q, vs_UsedBytes = u\<rparr>
     | _ \<Rightarrow> None)"
| "UnmarshalStats _ = None"

record VolumeUsage =
  vu_Available :: int
  vu_Total :: int
  vu_Used :: int

text \<open>The first NFS mount below a \<open>globalmount\<close> directory whose source ends in the name of the volume.\<close>

definition staging_mount :: "string \<Rightarrow> MountPoint \<Rightarrow> bool" where
  "staging_mount volName mp \<longleftrightarrow> (mp_Type mp = ''nfs'' \<or> mp_Type mp = ''nfs4'') \<and> contains (mp_Path mp) ''globalmount'' \<and> suffix (''/'' @ volName) (mp_Device mp)"

definition findStagingPath :: "'m mounter \<Rightarrow> string \<Rightarrow> 'm node_state \<Rightarrow> string" where
  "findStagingPath m vid S = (case ParseVolumeID vid of
       None \<Rightarrow> []
     | Some (_, volName) \<Rightarrow> (case mo_List m S of
         None \<Rightarrow> []
       | Some mounts \<Rightarrow> (case List.find (staging_mount volName) mounts of None \<Rightarrow> [] | Some mp \<Rightarrow> mp_Path mp)))"

definition statfsResponse :: "(string \<Rightarrow> errno + statfs_t) \<Rightarrow> string \<Rightarrow> grpc_code + VolumeUsage" where
  "statfsResponse statfs path = (case statfs path of
       Inl e \<Rightarrow> Inl Internal
     | Inr st \<Rightarrow>
         let tot = sf_Blocks st * sf_Bsize st; free = sf_Bavail st * sf_Bsize st
         in Inr \<lparr>vu_Available = sint free, vu_Total = sint tot, vu_Used = sint (tot - free)\<rparr>)"

definition quota_usage :: "volumeStats \<Rightarrow> VolumeUsage" where
  "quota_usage vs =
     (let avail = vs_QuotaBytes vs - vs_UsedBytes vs
      in \<lparr>vu_Available = (if sint avail < 0 then 0 else sint avail), vu_Total = sint (vs_QuotaBytes vs), vu_Used = sint (vs_UsedBytes vs)\<rparr>)"

record stats_request =
  nt_VolumeId :: string
  nt_VolumePath :: string
  nt_StagingTargetPath :: string

definition NodeGetVolumeStats :: "(string \<Rightarrow> errno + statfs_t) \<Rightarrow> 'm mounter \<Rightarrow> stats_request \<Rightarrow> 'm node_state \<Rightarrow> grpc_code + VolumeUsage" where
  "NodeGetVolumeStats statfs m req S =
     (if nt_VolumePath req = [] then Inl InvalidArgument
      else
        let stagingPath = (if nt_StagingTargetPath req = [] then findStagingPath m (nt_VolumeId req) S else nt_StagingTargetPath req) in
        if stagingPath = [] then Inl NotFound
        else (case os_read_file (stagingPath @ ''/'' @ MetadataFile) (fst S) of
                Inl e \<Rightarrow> Inl Internal
              | Inr Garbage \<Rightarrow> Inl Internal
              | Inr (Doc j) \<Rightarrow> (case UnmarshalStats j of
                  None \<Rightarrow> Inl Internal
                | Some vs \<Rightarrow> if vs_QuotaBytes vs > 0 then Inr (quota_usage vs) else statfsResponse statfs (nt_VolumePath req))))"

section \<open>The node's address\<close>

text \<open>An address of an interface: the text of an IPv4 address, or another kind of address.\<close>

datatype if_addr = IPv4 string | OtherAddr

record net_iface =
  ni_Name :: string
  ni_Loopback :: bool
  ni_Addrs :: "if_addr list option"

fun first_ip4 :: "(string \<Rightarrow> bool) \<Rightarrow> if_addr list \<Rightarrow> string option" where
  "first_ip4 P [] = None"
| "first_ip4 P (IPv4 ip # as) = (if P ip then Some ip else first_ip4 P as)"
| "first_ip4 P (OtherAddr # as) = first_ip4 P as"

definition ipFromInterface :: "net_iface list \<Rightarrow> string \<Rightarrow> string option" where
  "ipFromInterface ifs name = (case List.find (\<lambda>i. ni_Name i = name) ifs of
       None \<Rightarrow> None
     | Some i \<Rightarrow> Option.bind (ni_Addrs i) (first_ip4 (\<lambda>_. True)))"

fun first_in_cidr :: "(string \<Rightarrow> bool) \<Rightarrow> net_iface list \<Rightarrow> string option" where
  "first_in_cidr P [] = None"
| "first_in_cidr P (i # is) =
     (if ni_Loopback i then first_in_cidr P is
      else (case Option.bind (ni_Addrs i) (first_ip4 P) of Some ip \<Rightarrow> Some ip | None \<Rightarrow> first_in_cidr P is))"

text \<open>\<open>ParseCIDR\<close> gives the addresses of a network; \<open>None\<close> for the list of interfaces is an error.\<close>

definition ipFromCIDR :: "(string \<Rightarrow> (string \<Rightarrow> bool) option) \<Rightarrow> net_iface list option \<Rightarrow> string \<Rightarrow> string option" where
  "ipFromCIDR parse_cidr ifs cidr = (case (parse_cidr cidr, ifs) of (Some P, Some is) \<Rightarrow> first_in_cidr P is | _ \<Rightarrow> None)"

definition ResolveNodeIP :: "(string \<Rightarrow> (string \<Rightarrow> bool) option) \<Rightarrow> net_iface list option \<Rightarrow> string \<Rightarrow> string \<Rightarrow> string \<Rightarrow> string option" where
  "ResolveNodeIP parse_cidr ifs nodeIP storageIface storageCIDR =
     (if storageIface \<noteq> [] then Option.bind ifs (\<lambda>is. ipFromInterface is storageIface)
      else if storageCIDR \<noteq> [] then ipFromCIDR parse_cidr ifs storageCIDR
      else if nodeIP \<noteq> [] then Some nodeIP else None)"

datatype node_capability = STAGE_UNSTAGE_VOLUME | GET_VOLUME_STATS

definition NodeGetCapabilities :: "node_capability list" where
  "NodeGetCapabilities = [STAGE_UNSTAGE_VOLUME, GET_VOLUME_STATS]"

definition NodeGetInfo :: "string \<Rightarrow> string \<Rightarrow> string" where
  "NodeGetInfo nodeID nodeIP = MakeNodeID nodeID nodeIP"

section \<open>Mounted targets\<close>

text \<open>What the code relies on of the mounter: a path that was mounted on successfully is a mount point.\<close>

definition mount_visible :: "'m mounter \<Rightarrow> bool" where
  "mount_visible m \<longleftrightarrow> (\<forall>src target ty opts S S'. mo_Mount m src target ty opts S = (None, S') \<longrightarrow> mo_IsMountPoint m target S' = Inr True)"

lemma prepare_target_mounted: "mo_IsMountPoint m path S = Inr True \<Longrightarrow> prepare_target m path S = (Some (Inr ()), S)"
  by (simp add: prepare_target_def)

lemma prepare_target_done: "prepare_target m path S = (Some (Inr u), S') \<Longrightarrow> S' = S \<and> mo_IsMountPoint m path S = Inr True"
  by (auto simp: prepare_target_def Let_def split: sum.splits bool.splits mount_err.splits prod.splits option.splits)

lemma NodePublishVolume_cases:
  assumes "NodePublishVolume m req S = (Inr (), S')"
  shows "np_VolumeId req \<noteq> [] \<and> np_StagingTargetPath req \<noteq> [] \<and> np_TargetPath req \<noteq> [] \<and>
    (mo_IsMountPoint m (np_TargetPath req) S' = Inr True \<or> (\<exists>src ty opts S1. mo_Mount m src (np_TargetPath req) ty opts S1 = (None, S')))"
  using assms by (auto simp: NodePublishVolume_def Let_def dest!: prepare_target_done split: if_splits prod.splits option.splits)

lemma NodeStageVolume_mounted:
  assumes "mount_visible m" "NodeStageVolume m req S = (Inr (), S')"
  shows "mo_IsMountPoint m (ns_StagingTargetPath req) S' = Inr True" "NodeStageVolume m req S' = (Inr (), S')"
proof -
  have r: "mo_IsMountPoint m (ns_StagingTargetPath req) S' = Inr True \<or>
      (\<exists>src ty opts S1. mo_Mount m src (ns_StagingTargetPath req) ty opts S1 = (None, S'))"
    using assms(2) by (auto simp: NodeStageVolume_def Let_def dest!: prepare_target_done split: if_splits prod.splits option.splits)
  then show p: "mo_IsMountPoint m (ns_StagingTargetPath req) S' = Inr True" using assms(1) unfolding mount_visible_def by blast
  show "NodeStageVolume m req S' = (Inr (), S')"
    using assms(2) prepare_target_mounted[OF p] by (simp add: NodeStageVolume_def Let_def split: if_splits)
qed

text \<open>C34: pods never write to the node's own file system. When publishing a volume on the node succeeds, the
  target is a mount point, also when after a reboot only its plain directory had survived, and the same
  call again succeeds and changes nothing.\<close>

theorem NodePublishVolume_mounted:
  assumes "mount_visible m" "NodePublishVolume m req S = (Inr (), S')"
  shows "mo_IsMountPoint m (np_TargetPath req) S' = Inr True \<and> NodePublishVolume m req S' = (Inr (), S')"
proof -
  note c = NodePublishVolume_cases[OF assms(2)]
  then have p: "mo_IsMountPoint m (np_TargetPath req) S' = Inr True" using assms(1) unfolding mount_visible_def by blast
  then show ?thesis using c prepare_target_mounted[OF p] by (simp add: NodePublishVolume_def Let_def)
qed

text \<open>A mounter that keeps the list of mounted paths, on a node where the target directory exists but is not
  mounted.\<close>

definition list_mounter :: "string list mounter" where
  "list_mounter = \<lparr>mo_IsMountPoint = (\<lambda>p S. Inr (p \<in> set (snd S))), mo_Mount = (\<lambda>_ t _ _ S. (None, (fst S, t # snd S))), mo_force = True,
     mo_CleanupMountWithForce = (\<lambda>p S. (None, (fst S, removeAll p (snd S)))), mo_CleanupMountPoint = (\<lambda>p S. (None, (fst S, removeAll p (snd S)))),
     mo_List = (\<lambda>S. Some [\<lparr>mp_Device = ''10.0.0.1:/d/t/v'', mp_Path = ''/k/globalmount'', mp_Type = ''nfs4''\<rparr>])\<rparr>"

definition demo_node :: "string list node_state" where
  "demo_node = (\<lparr>nodes = [(''/k/globalmount/metadata.json'', FileNode (Doc (JObj [(''quota_bytes'', JNum 4096), (''used_bytes'', JNum 5000)])) False),
     (''/p'', new_dir 493)], faults = (\<lambda>_. None), now = 0, etab = []\<rparr>, [])"

definition demo_node_publish :: node_publish_request where
  "demo_node_publish = \<lparr>np_VolumeId = ''fast|v'', np_StagingTargetPath = ''/k/globalmount'', np_TargetPath = ''/p'', np_Readonly = True\<rparr>"

theorem NodePublishVolume_mounted_witness:
  "\<exists>S'. NodePublishVolume list_mounter demo_node_publish demo_node = (Inr (), S') \<and> mo_IsMountPoint list_mounter ''/p'' S' = Inr True \<and>
     mo_IsMountPoint list_mounter ''/p'' demo_node = Inr False"
proof -
  have "case NodePublishVolume list_mounter demo_node_publish demo_node of (Inr _, _) \<Rightarrow> True | _ \<Rightarrow> False" by code_simp
  then obtain S' where p: "NodePublishVolume list_mounter demo_node_publish demo_node = (Inr (), S')" by (auto split: prod.splits sum.splits)
  have v: "mount_visible list_mounter" by (simp add: mount_visible_def list_mounter_def)
  show ?thesis using NodePublishVolume_mounted[OF v p] p by (simp add: demo_node_publish_def list_mounter_def demo_node_def)
qed

section \<open>Statistics of a volume\<close>

lemma UnmarshalStats_volume: "UnmarshalStats (MarshalVolume v) = Some \<lparr>vs_QuotaBytes = vm_QuotaBytes v, vs_UsedBytes = vm_UsedBytes v\<rparr>"
proof -
  have e: "dec_u64 (enc_u64 x) = Some x" for x by simp
  show ?thesis by (cases "vm_LastAttachAt v") (simp_all add: MarshalVolume_def jfield_def e omit_def map_add_def)
qed

lemma sint_uint_small: "uint (x :: u64) < 2 ^ 63 \<Longrightarrow> sint x = uint x"
proof -
  assume "uint x < 2 ^ 63"
  moreover have "- (2 ^ 63) \<le> uint x" by (rule order_trans[OF _ uint_ge_0]) simp
  ultimately show ?thesis by (simp add: sint_uint signed_take_bit_int_eq_self)
qed



text \<open>The staging path is found by the name of the volume alone: of two volumes with the same name in two
  storage classes, the statistics of the second are those of the one mounted first.\<close>

lemma findStagingPath_same_name:
  "findStagingPath m (MakeVolumeID ''a'' n) S = findStagingPath m (MakeVolumeID ''b'' n) S"
proof (cases "n = []")
  case True
  then show ?thesis by (simp add: findStagingPath_def ParseVolumeID_def MakeVolumeID_def VolumeIDSep_def)
qed (simp add: findStagingPath_def ParseVolumeID_Make)

text \<open>An address found in a network is one of the addresses of an interface and in the network.\<close>

lemma first_ip4_Some: "first_ip4 P as = Some ip \<Longrightarrow> IPv4 ip \<in> set as \<and> P ip"
  by (induction P as rule: first_ip4.induct) (auto split: if_splits)

lemma first_in_cidr_Some:
  "first_in_cidr P is = Some ip \<Longrightarrow> P ip \<and> (\<exists>i \<in> set is. \<not> ni_Loopback i \<and> (\<exists>as. ni_Addrs i = Some as \<and> IPv4 ip \<in> set as))"
  by (induction P "is" rule: first_in_cidr.induct) (auto split: if_splits option.splits bind_splits dest!: first_ip4_Some)

end
