(* ===== verification/Format.thy ===== *)
theory Format
  imports Sizes
begin

text \<open>
  \<open>FormatBytes\<close> of \<open>utils/format.go\<close>. The code divides two floating-point numbers and prints the quotient with
  a fixed number of decimals. The divisor is a power of two, so the division is exact, and the printing rounds the
  exact value, half to even; only the conversion of the count to a float rounds, to 53 significant bits.
  So the printed text is a function of integers.
\<close>

section \<open>Definitions\<close>

text \<open>\<open>float64\<close> of a count: the nearest integer with at most 53 significant bits, half to even.\<close>

function float_exp :: "nat \<Rightarrow> nat" where
  "float_exp b = (if b < 2 ^ 53 then 0 else Suc (float_exp (b div 2)))"
  by auto
termination by (relation "measure (\<lambda>b. b)") auto

declare float_exp.simps [simp del]

definition round_div :: "nat \<Rightarrow> nat \<Rightarrow> nat" where
  "round_div a d = (let q = a div d; r = a mod d in if d < 2 * r \<or> d = 2 * r \<and> odd q then q + 1 else q)"

definition float64 :: "nat \<Rightarrow> nat" where
  "float64 b = (let e = float_exp b in round_div b (2 ^ e) * 2 ^ e)"

text \<open>The verbs \<open>%.1f\<close> and \<open>%.0f\<close> on a quotient.\<close>

definition fixed1 :: "nat \<Rightarrow> nat \<Rightarrow> string" where
  "fixed1 a d = (let q = round_div (a * 10) d in show_base 10 (q div 10) @ ''.'' @ show_base 10 (q mod 10))"

definition fixed0 :: "nat \<Rightarrow> nat \<Rightarrow> string" where
  "fixed0 a d = show_base 10 (round_div a d)"

definition FormatBytes :: "u64 \<Rightarrow> string" where
  "FormatBytes b = (let n = unat b in
     if n \<ge> 2 ^ 60 then fixed1 (float64 n) (2 ^ 60) @ ''Ei''
     else if n \<ge> 2 ^ 50 then fixed1 (float64 n) (2 ^ 50) @ ''Pi''
     else if n \<ge> 2 ^ 40 then fixed1 (float64 n) (2 ^ 40) @ ''Ti''
     else if n \<ge> 2 ^ 30 then fixed1 (float64 n) (2 ^ 30) @ ''Gi''
     else if n \<ge> 2 ^ 20 then fixed0 (float64 n) (2 ^ 20) @ ''Mi''
     else if n \<ge> 2 ^ 10 then fixed0 (float64 n) (2 ^ 10) @ ''Ki''
     else show_base 10 n @ ''B'')"

section \<open>Rounding\<close>

lemma round_div_near:
  assumes "0 < d"
  shows "2 * a \<le> 2 * d * round_div a d + d" "2 * d * round_div a d \<le> 2 * a + d"
proof -
  have a: "2 * a = 2 * (d * (a div d)) + 2 * (a mod d)" by (simp flip: distrib_left)
  have r: "a mod d < d" using assms by simp
  show "2 * a \<le> 2 * d * round_div a d + d" unfolding a using r
    by (cases "d < 2 * (a mod d) \<or> d = 2 * (a mod d) \<and> odd (a div d)") (auto simp: round_div_def Let_def distrib_left mult.assoc)
  show "2 * d * round_div a d \<le> 2 * a + d" unfolding a using r
    by (cases "d < 2 * (a mod d) \<or> d = 2 * (a mod d) \<and> odd (a div d)") (auto simp: round_div_def Let_def distrib_left mult.assoc)
qed

lemma round_div_exact [simp]: "0 < d \<Longrightarrow> round_div (k * d) d = k"
  by (simp add: round_div_def)

text \<open>The float is within half a unit in the last place.\<close>

lemma float_exp_bound: "0 < float_exp b \<Longrightarrow> 2 ^ (52 + float_exp b) \<le> b"
proof (induction b rule: float_exp.induct)
  case (1 b)
  then have b: "\<not> b < 2 ^ 53" by (auto simp: float_exp.simps[of b])
  show ?case
  proof (cases "float_exp (b div 2) = 0")
    case True
    then show ?thesis using b by (simp add: float_exp.simps[of b])
  next
    case False
    then have "2 ^ (52 + float_exp (b div 2)) \<le> b div 2" using 1(1)[OF b] by simp
    moreover have "(2 :: nat) ^ (52 + float_exp b) = 2 * 2 ^ (52 + float_exp (b div 2))"
      using b by (simp add: float_exp.simps[of b] power_add)
    ultimately show ?thesis by simp
  qed
qed

lemma float64_small: "b < 2 ^ 53 \<Longrightarrow> float64 b = b"
  using round_div_exact[of 1 b] by (simp add: float64_def float_exp.simps[of b])

lemma float64_near:
  "2 ^ 53 * b \<le> 2 ^ 53 * float64 b + b" "2 ^ 53 * float64 b \<le> 2 ^ 53 * b + b"
proof -
  let ?e = "float_exp b"
  have n: "2 * b \<le> 2 * 2 ^ ?e * round_div b (2 ^ ?e) + 2 ^ ?e" "2 * 2 ^ ?e * round_div b (2 ^ ?e) \<le> 2 * b + 2 ^ ?e"
    by (rule round_div_near, simp)+
  have f: "float64 b = round_div b (2 ^ ?e) * 2 ^ ?e" by (simp add: float64_def Let_def)
  show "2 ^ 53 * b \<le> 2 ^ 53 * float64 b + b" "2 ^ 53 * float64 b \<le> 2 ^ 53 * b + b"
  proof (atomize(full), cases "?e = 0")
    case True
    then have "b < 2 ^ 53" by (simp add: float_exp.simps[of b] split: if_splits)
    then show "2 ^ 53 * b \<le> 2 ^ 53 * float64 b + b \<and> 2 ^ 53 * float64 b \<le> 2 ^ 53 * b + b" by (simp add: float64_small)
  next
    case False
    then have e: "2 ^ 52 * 2 ^ ?e \<le> b" using float_exp_bound[of b] by (simp add: power_add)
    show "2 ^ 53 * b \<le> 2 ^ 53 * float64 b + b \<and> 2 ^ 53 * float64 b \<le> 2 ^ 53 * b + b"
      using n e unfolding f by (simp add: algebra_simps)
  qed
qed

section \<open>Whole units round trip\<close>

text \<open>A whole number of kibibytes or mebibytes below the next unit is printed in a form that \<open>ParseSize\<close> reads
  back as the same count.\<close>

lemma FormatBytes_whole:
  assumes "0 < k" "k < 1024"
  shows "FormatBytes (of_nat (k * 2 ^ 10)) = show_base 10 k @ ''Ki''" "FormatBytes (of_nat (k * 2 ^ 20)) = show_base 10 k @ ''Mi''"
proof -
  have u: "unat (of_nat (k * 2 ^ 10) :: u64) = k * 2 ^ 10" "unat (of_nat (k * 2 ^ 20) :: u64) = k * 2 ^ 20"
    using assms by (subst unat_of_nat, simp)+
  show "FormatBytes (of_nat (k * 2 ^ 10)) = show_base 10 k @ ''Ki''"
    unfolding FormatBytes_def u Let_def using assms by (simp add: fixed0_def float64_small)
  show "FormatBytes (of_nat (k * 2 ^ 20)) = show_base 10 k @ ''Mi''"
    unfolding FormatBytes_def u Let_def using assms by (simp add: fixed0_def float64_small)
qed

lemma ParseSize_suffix:
  assumes "map_of size_suffixes2 [c, d] = Some m" "k * unat m < 2 ^ 64" "k < 2 ^ 64"
  shows "ParseSize (show_base 10 k @ [c, d]) = Inr (of_nat k * m)"
proof -
  have "parse_uint 10 64 (show_base 10 k) = Inr k" using assms(3) by (simp add: parse_uint_show)
  then show ?thesis using assms scaled_exact[OF assms(3), of m] by (simp add: ParseSize_def Let_def)
qed

lemma ParseSize_FormatBytes:
  assumes "0 < k" "k < 1024"
  shows "ParseSize (FormatBytes (of_nat (k * 2 ^ 10))) = Inr (of_nat (k * 2 ^ 10))" "ParseSize (FormatBytes (of_nat (k * 2 ^ 20))) = Inr (of_nat (k * 2 ^ 20))"
  using ParseSize_suffix[of "CHR ''K''" "CHR ''i''" 1024 k] ParseSize_suffix[of "CHR ''M''" "CHR ''i''" 1048576 k] assms
  unfolding FormatBytes_whole[OF assms] by (simp_all add: size_suffixes2_def)

end
