(* ===== verification/Cli.thy ===== *)
theory Cli
  imports Client Format
begin

text \<open>
  The command line of \<open>cmd/btrfs-nfs-csi\<close>: flags, tables, sorting and the actions of the volume, snapshot,
  export, task, stats and health commands, as far as they call the agent. A parsed command line is a record of
  lookups, the way \<open>cli.Command\<close> is used. What a command prints is a list of lines, rows handed to the table
  writer and values handed to the JSON encoder. Floating-point numbers, the local time format and the sorting
  routine of \<open>slices\<close> are arguments.
\<close>

section \<open>Command lines and output\<close>

record command =
  cm_Args :: "string list"
  cm_String :: "string \<Rightarrow> string"
  cm_Bool :: "string \<Rightarrow> bool"
  cm_Int :: "string \<Rightarrow> int"
  cm_Duration :: "string \<Rightarrow> int"
  cm_StringSlice :: "string \<Rightarrow> string list"
  cm_IsSet :: "string \<Rightarrow> bool"

definition arg :: "command \<Rightarrow> nat \<Rightarrow> string" where
  "arg cm i = (if i < length (cm_Args cm) then cm_Args cm ! i else [])"

text \<open>What a JSON document is made of: the answer of the agent, or the labels of one.\<close>

datatype 'f document = DBody "'f body" | DLabels labels

datatype 'f out = Stdout string | Stderr string | TableRow "string list" | JSONDoc "'f document"

text \<open>The operations on floats and what depends on the environment of the process: the time format with the
  local zone, the clock, \<open>Duration.String\<close>, and the variable \<open>BTRFS_NFS_CSI_FORCE\<close>.\<close>

record 'f cli_env =
  cx_float64 :: "u64 \<Rightarrow> 'f"
  cx_div :: "'f \<Rightarrow> 'f \<Rightarrow> 'f"
  cx_mul :: "'f \<Rightarrow> 'f \<Rightarrow> 'f"
  cx_const :: "nat \<Rightarrow> 'f"
  cx_compare :: "'f \<Rightarrow> 'f \<Rightarrow> int"
  cx_fixed0 :: "'f \<Rightarrow> string"
  cx_fixed1 :: "'f \<Rightarrow> string"
  cx_uint64 :: "'f \<Rightarrow> u64"
  cx_seconds :: "int \<Rightarrow> 'f"
  cx_FormatTime :: "int \<Rightarrow> string"
  cx_Duration :: "int \<Rightarrow> string"
  cx_now :: int
  cx_force :: string

definition sortSize :: string where "sortSize = ''size''"
definition sortUsed :: string where "sortUsed = ''used''"
definition sortUsedPct :: string where "sortUsedPct = ''used%''"
definition sortCreated :: string where "sortCreated = ''created''"
definition sortExports :: string where "sortExports = ''clients''"
definition sortVolume :: string where "sortVolume = ''volume''"
definition sortType :: string where "sortType = ''type''"
definition sortStatus :: string where "sortStatus = ''status''"

text \<open>The error of a command. The texts of the messages are left out; what the code puts into them is kept.\<close>

datatype cli_error =
    UsageError
  | NameRequired
  | SizeError
  | FlagError string
  | NoFlags
  | LabelSyntax string
  | LabelValue string string string
  | ShrinkBelowZero
  | NotFoundError string string
  | ExistsError string string
  | BusyError string string
  | ApiError client_error
  | TaskFailure string
  | IndexPanic
  | NilMapPanic

definition wrapErr :: "client_error \<Rightarrow> string \<Rightarrow> string \<Rightarrow> cli_error" where
  "wrapErr e resource name =
     (if IsNotFound e then NotFoundError resource name
      else if IsConflict e then ExistsError resource name
      else if IsLocked e then BusyError resource name
      else ApiError e)"

definition isWide :: "command \<Rightarrow> bool" where
  "isWide cm \<longleftrightarrow> cm_String cm ''output'' = ''wide'' \<or> contains (cm_String cm ''output'') ''wide''"

definition isJSON :: "command \<Rightarrow> bool" where
  "isJSON cm \<longleftrightarrow> contains (cm_String cm ''output'') ''json''"

definition cli_output :: "command \<Rightarrow> 'f document \<Rightarrow> 'f out list \<Rightarrow> 'f out list" where
  "cli_output cm d tbl = (if isJSON cm then [JSONDoc d] else tbl)"

text \<open>A line that is left out of JSON output.\<close>

definition unless_json :: "command \<Rightarrow> string \<Rightarrow> 'f out list" where
  "unless_json cm s = (if isJSON cm then [] else [Stdout s])"

text \<open>The verb \<open>%q\<close> for texts without special characters, as names are that the agent has accepted.\<close>

definition quote :: "string \<Rightarrow> string" where
  "quote s = [CHR 0x22] @ s @ [CHR 0x22]"

section \<open>Flags\<close>

definition splitLabelsFlag :: "command \<Rightarrow> string list" where
  "splitLabelsFlag cm = filter (\<lambda>p. p \<noteq> []) (map trim_space (concat (map (split_on CHR '','') (cm_StringSlice cm ''label''))))"

text \<open>\<open>strings.Cut\<close> without a separator gives the whole text and an empty value.\<close>

definition cut_pair :: "string \<Rightarrow> string \<times> string" where
  "cut_pair s = (case cut ''='' s of None \<Rightarrow> (s, []) | Some kv \<Rightarrow> kv)"

text \<open>The labels and the warnings. A missing map and an empty one are the same to the requests made of them.\<close>

definition label_pair :: "string \<Rightarrow> labels \<times> 'f out list \<Rightarrow> labels \<times> 'f out list" where
  "label_pair p acc = (case (cut_pair p, acc) of ((k, v), (ls, ws)) \<Rightarrow>
     if k \<in> set SoftReservedLabelKeys then (ls, ws @ [Stderr (''warning: label '' @ quote k @ '' is reserved, skipping'')])
     else (AList.update k v ls, ws))"

definition parseLabelsFlag :: "command \<Rightarrow> labels \<times> 'f out list" where
  "parseLabelsFlag cm =
     (let raw = splitLabelsFlag cm;
          warn = (if length raw > MaxUserLabels
                  then [Stderr (''warning: too many labels ('' @ show_base 10 (length raw) @ ''), max '' @ show_base 10 MaxUserLabels @ '' user labels allowed'')]
                  else [])
      in fold label_pair (take MaxUserLabels raw) ([], warn))"

record cliListOpts =
  co_ListOpts :: ListOpts
  co_allSet :: bool
  co_labelSet :: bool

definition buildListOpts :: "command \<Rightarrow> cliListOpts" where
  "buildListOpts cm =
     (let allSet = cm_Bool cm ''all''
      in \<lparr>co_ListOpts = \<lparr>lo_After = [], lo_Limit = 0,
            lo_Labels = splitLabelsFlag cm @ (if allSet then [] else [LabelCreatedBy @ ''='' @ IdentityCLI])\<rparr>,
          co_allSet = allSet, co_labelSet = cm_IsSet cm ''label''\<rparr>)"

text \<open>The loop returns at the first bare flag; one with a value is passed over.\<close>

fun injectWatchDefault :: "string list \<Rightarrow> string list" where
  "injectWatchDefault [] = []"
| "injectWatchDefault (a # rest) =
     (if (a = ''-w'' \<or> a = ''--watch'') \<and> (case rest of [] \<Rightarrow> True | b # _ \<Rightarrow> prefix ''-'' b)
      then a # ''2s'' # rest
      else a # injectWatchDefault rest)"

definition emptyHint :: "string \<Rightarrow> nat \<Rightarrow> bool \<Rightarrow> bool \<Rightarrow> 'f out list" where
  "emptyHint resource n allSet labelSet =
     (if n > 0 then []
      else [Stdout (''  '' @ ''no '' @ resource @ '' found'' @
              (if labelSet then '' (label filter active)'' else if \<not> allSet then '' (use -A to show all)'' else []))])"

section \<open>Tables\<close>

definition to_lower :: "string \<Rightarrow> string" where
  "to_lower = map (\<lambda>c. if CHR ''A'' \<le> c \<and> c \<le> CHR ''Z'' then char_of (of_char c + 32 :: nat) else c)"

definition column_key :: "string \<Rightarrow> string" where
  "column_key s = to_lower (filter (\<lambda>c. c \<noteq> CHR '' '') s)"

text \<open>The selected columns: the known ones among those asked for, and all when none is known.\<close>

definition newTableWriter :: "command \<Rightarrow> string list \<Rightarrow> string list" where
  "newTableWriter cm cols =
     (let raw = cm_String cm ''columns'';
          avail = fold (\<lambda>col m. AList.update (column_key col) col m) cols [];
          filtered = List.map_filter (\<lambda>r. map_of avail (column_key (trim_space r))) (split_on CHR '','' raw)
      in if raw \<noteq> [] \<and> filtered \<noteq> [] then filtered else cols)"

definition writeHeader :: "string list \<Rightarrow> 'f out list" where
  "writeHeader selected = (if length selected > 1 then [TableRow selected] else [])"

definition writeRow :: "string list \<Rightarrow> labels \<Rightarrow> 'f out" where
  "writeRow selected values = (if length selected > 1 then TableRow (map (mget values) selected) else Stdout (mget values (hd selected)))"

definition printLabels :: "string \<Rightarrow> labels \<Rightarrow> nat \<Rightarrow> 'f out list" where
  "printLabels header ls indent =
     (let pad = (\<lambda>s. s @ replicate (indent - length s) CHR '' '')
      in if ls = [] then [Stdout (pad header @ ''none'')]
         else map (\<lambda>(i, k). Stdout (pad (if i = 0 then header else []) @ k @ ''='' @ mget ls k)) (enumerate 0 (sort (map fst ls))))"

definition formatLabelsShort :: "labels \<Rightarrow> string" where
  "formatLabelsShort ls =
     (if ls = [] then ''-''
      else let parts = (case map_of ls LabelCreatedBy of None \<Rightarrow> [] | Some v \<Rightarrow> [LabelCreatedBy @ ''='' @ v]);
               rest = sort (map (\<lambda>(k, v). k @ ''='' @ v) (filter (\<lambda>(k, v). k \<noteq> LabelCreatedBy) ls));
               s = join_with '', '' (parts @ rest)
           in if length s > 48 then take 45 s @ ''...'' else s)"

text \<open>\<open>IsZero\<close>: the zero time is the time 0 of the model.\<close>

definition formatExports :: "'f cli_env \<Rightarrow> ExportDetailResponse list \<Rightarrow> string" where
  "formatExports env es = join_with '', '' (map (\<lambda>r.
     ed_Client r @ (if ed_Labels r \<noteq> [] then '' ('' @ formatLabelsShort (ed_Labels r) @ '')'' else []) @
     (if ed_CreatedAt r \<noteq> 0 then '' since '' @ cx_FormatTime env (ed_CreatedAt r) else [])) es)"

definition usedPct :: "'f cli_env \<Rightarrow> u64 \<Rightarrow> u64 \<Rightarrow> 'f" where
  "usedPct env used tot = (if tot = 0 then cx_const env 0 else cx_mul env (cx_div env (cx_float64 env used) (cx_float64 env tot)) (cx_const env 100))"

section \<open>Sorting\<close>

text \<open>\<open>cmp.Compare\<close> on ordered types; \<open>time.Compare\<close> is the same on the times of the model.\<close>

definition compare :: "'a :: linorder \<Rightarrow> 'a \<Rightarrow> int" where
  "compare a b = (if a < b then - 1 else if a = b then 0 else 1)"

definition directed :: "bool \<Rightarrow> int \<Rightarrow> int" where
  "directed rv c = (if rv then - c else c)"

type_synonym 'a sorter = "('a \<Rightarrow> 'a \<Rightarrow> int) \<Rightarrow> 'a list \<Rightarrow> 'a list"

definition volume_compare :: "'f cli_env \<Rightarrow> string \<Rightarrow> VolumeResponse \<Rightarrow> VolumeResponse \<Rightarrow> int" where
  "volume_compare env field a b =
     (if field = sortSize then compare (vr_SizeBytes a) (vr_SizeBytes b)
      else if field = sortUsed then compare (vr_UsedBytes a) (vr_UsedBytes b)
      else if field = sortUsedPct then cx_compare env (usedPct env (vr_UsedBytes a) (vr_SizeBytes a)) (usedPct env (vr_UsedBytes b) (vr_SizeBytes b))
      else if field = sortCreated then compare (vr_CreatedAt a) (vr_CreatedAt b)
      else if field = sortExports then compare (vr_Exports a) (vr_Exports b)
      else compare (vr_Name a) (vr_Name b))"

definition sortVolumes :: "'f cli_env \<Rightarrow> VolumeResponse sorter \<Rightarrow> string \<Rightarrow> bool \<Rightarrow> VolumeResponse list \<Rightarrow> VolumeResponse list" where
  "sortVolumes env sortFunc field rv vols = sortFunc (\<lambda>a b. directed rv (volume_compare env field a b)) vols"

definition volume_detail_compare :: "'f cli_env \<Rightarrow> string \<Rightarrow> VolumeDetailResponse \<Rightarrow> VolumeDetailResponse \<Rightarrow> int" where
  "volume_detail_compare env field a b =
     (if field = sortSize then compare (vd_SizeBytes a) (vd_SizeBytes b)
      else if field = sortUsed then compare (vd_UsedBytes a) (vd_UsedBytes b)
      else if field = sortUsedPct then cx_compare env (usedPct env (vd_UsedBytes a) (vd_SizeBytes a)) (usedPct env (vd_UsedBytes b) (vd_SizeBytes b))
      else if field = sortCreated then compare (vd_CreatedAt a) (vd_CreatedAt b)
      else if field = sortExports then compare (length (vd_Exports a)) (length (vd_Exports b))
      else compare (vd_Name a) (vd_Name b))"

definition sortVolumesDetail :: "'f cli_env \<Rightarrow> VolumeDetailResponse sorter \<Rightarrow> string \<Rightarrow> bool \<Rightarrow> VolumeDetailResponse list \<Rightarrow> VolumeDetailResponse list" where
  "sortVolumesDetail env sortFunc field rv vols = sortFunc (\<lambda>a b. directed rv (volume_detail_compare env field a b)) vols"

definition sortSnapshots :: "SnapshotResponse sorter \<Rightarrow> string \<Rightarrow> bool \<Rightarrow> SnapshotResponse list \<Rightarrow> SnapshotResponse list" where
  "sortSnapshots sortFunc field rv snaps = sortFunc (\<lambda>a b. directed rv
     (if field = sortSize then compare (sr_SizeBytes a) (sr_SizeBytes b)
      else if field = sortUsed then compare (sr_UsedBytes a) (sr_UsedBytes b)
      else if field = sortCreated then compare (sr_CreatedAt a) (sr_CreatedAt b)
      else if field = sortVolume then compare (sr_Volume a) (sr_Volume b)
      else compare (sr_Name a) (sr_Name b))) snaps"

definition sortSnapshotsDetail :: "SnapshotDetailResponse sorter \<Rightarrow> string \<Rightarrow> bool \<Rightarrow> SnapshotDetailResponse list \<Rightarrow> SnapshotDetailResponse list" where
  "sortSnapshotsDetail sortFunc field rv snaps = sortFunc (\<lambda>a b. directed rv
     (if field = sortSize then compare (sd_SizeBytes a) (sd_SizeBytes b)
      else if field = sortUsed then compare (sd_UsedBytes a) (sd_UsedBytes b)
      else if field = sortCreated then compare (sd_CreatedAt a) (sd_CreatedAt b)
      else if field = sortVolume then compare (sd_Volume a) (sd_Volume b)
      else compare (sd_Name a) (sd_Name b))) snaps"

definition sortExportsList :: "ExportResponse sorter \<Rightarrow> string \<Rightarrow> bool \<Rightarrow> ExportResponse list \<Rightarrow> ExportResponse list" where
  "sortExportsList sortFunc field rv exports = sortFunc (\<lambda>a b. directed rv
     (if field = ''client'' then compare (er_Client a) (er_Client b)
      else if field = sortCreated then compare (er_CreatedAt a) (er_CreatedAt b)
      else compare (er_Name a) (er_Name b))) exports"

definition sortExportsDetailList :: "ExportDetailResponse sorter \<Rightarrow> string \<Rightarrow> bool \<Rightarrow> ExportDetailResponse list \<Rightarrow> ExportDetailResponse list" where
  "sortExportsDetailList sortFunc field rv exports = sortFunc (\<lambda>a b. directed rv
     (if field = ''client'' then compare (ed_Client a) (ed_Client b)
      else if field = sortCreated then compare (ed_CreatedAt a) (ed_CreatedAt b)
      else compare (ed_Name a) (ed_Name b))) exports"

definition sortTasks :: "TaskResponse sorter \<Rightarrow> string \<Rightarrow> bool \<Rightarrow> TaskResponse list \<Rightarrow> TaskResponse list" where
  "sortTasks sortFunc field rv tasks = sortFunc (\<lambda>a b. directed rv
     (if field = sortType then compare (tr_Type a) (tr_Type b)
      else if field = sortStatus then compare (tr_Status a) (tr_Status b)
      else compare (tr_CreatedAt a) (tr_CreatedAt b))) tasks"

definition sortTasksDetail :: "TaskDetailResponse sorter \<Rightarrow> string \<Rightarrow> bool \<Rightarrow> TaskDetailResponse list \<Rightarrow> TaskDetailResponse list" where
  "sortTasksDetail sortFunc field rv tasks = sortFunc (\<lambda>a b. directed rv
     (if field = sortType then compare (td_Type a) (td_Type b)
      else if field = sortStatus then compare (td_Status a) (td_Status b)
      else compare (td_CreatedAt a) (td_CreatedAt b))) tasks"

end
