(* ===== verification/CliVolume.thy ===== *)
theory CliVolume
  imports Cli
begin

text \<open>
  The volume commands of the command line, \<open>cmd/btrfs-nfs-csi/volume.go\<close>, over the client of the agent API.
\<close>

type_synonym ('f, 's) ran = "(cli_error option \<times> 'f out list) \<times> 's"

text \<open>Lines that were printed before the rest of a command.\<close>

definition after_lines :: "'f out list \<Rightarrow> ('f, 's) ran \<Rightarrow> ('f, 's) ran" where
  "after_lines ls r = (case r of ((err, outs), st) \<Rightarrow> ((err, ls @ outs), st))"

definition show_bool :: "bool \<Rightarrow> string" where
  "show_bool b = (if b then ''true'' else ''false'')"

section \<open>Reading\<close>

definition volume_detail_row :: "'f cli_env \<Rightarrow> VolumeDetailResponse \<Rightarrow> labels" where
  "volume_detail_row env v =
     [(''NAME'', vd_Name v), (''CREATED BY'', vd_CreatedBy v), (''SIZE'', FormatBytes (vd_SizeBytes v)), (''USED'', FormatBytes (vd_UsedBytes v)),
      (''QUOTA'', FormatBytes (vd_QuotaBytes v)), (''COMPRESSION'', vd_Compression v), (''NOCOW'', show_bool (vd_NoCOW v)),
      (''UID'', show_int (vd_UID v)), (''GID'', show_int (vd_GID v)), (''MODE'', vd_Mode v), (''LABELS'', formatLabelsShort (vd_Labels v)),
      (''CLIENTS'', show_base 10 (length (vd_Exports v))), (''CREATED'', cx_FormatTime env (vd_CreatedAt v))]"

definition volume_row :: "'f cli_env \<Rightarrow> VolumeResponse \<Rightarrow> labels" where
  "volume_row env v =
     [(''NAME'', vr_Name v), (''CREATED BY'', vr_CreatedBy v), (''SIZE'', FormatBytes (vr_SizeBytes v)), (''USED'', FormatBytes (vr_UsedBytes v)),
      (''USED%'', cx_fixed0 env (usedPct env (vr_UsedBytes v) (vr_SizeBytes v)) @ ''%''), (''CLIENTS'', show_int (vr_Exports v)),
      (''CREATED'', cx_FormatTime env (vr_CreatedAt v))]"

text \<open>A table: the header, the rows, and the hint for an empty one.\<close>

definition print_table :: "command \<Rightarrow> string list \<Rightarrow> string \<Rightarrow> cliListOpts \<Rightarrow> labels list \<Rightarrow> 'f out list" where
  "print_table cm cols resource opts rows =
     (let selected = newTableWriter cm cols
      in writeHeader selected @ map (writeRow selected) rows @ emptyHint resource (length rows) (co_allSet opts) (co_labelSet opts))"

text \<open>The end of a list command: the error, or the sorted items with their total.\<close>

definition listed_items :: "('r list \<Rightarrow> 'r list) \<Rightarrow> ('r list \<Rightarrow> int \<Rightarrow> 'f out list) \<Rightarrow> (client_error + 'r list \<times> int) \<times> 's \<Rightarrow> ('f, 's) ran" where
  "listed_items srt show r = (case r of
       (Inl e, st) \<Rightarrow> ((Some (ApiError e), []), st)
     | (Inr (items, tot), st) \<Rightarrow> ((None, show (srt items) tot), st))"

definition listVolumes :: "'f cli_env \<Rightarrow> VolumeDetailResponse sorter \<Rightarrow> VolumeResponse sorter \<Rightarrow> ('f, 's) transport \<Rightarrow> client \<Rightarrow> command \<Rightarrow> string \<Rightarrow> bool \<Rightarrow>
    cliListOpts \<Rightarrow> 's \<Rightarrow> ('f, 's) ran option" where
  "listVolumes env sortD sortF http c cm sortBy rv opts st =
     (if isWide cm
      then map_option (listed_items (sortVolumesDetail env sortD sortBy rv)
             (\<lambda>vols tot. cli_output cm (DBody (BVolumeDetails \<lparr>lr_Items = vols, lr_Total = tot, lr_Next = []\<rparr>))
               (print_table cm [''NAME'', ''CREATED BY'', ''SIZE'', ''USED'', ''QUOTA'', ''COMPRESSION'', ''NOCOW'', ''UID'', ''GID'', ''MODE'', ''LABELS'',
                  ''CLIENTS'', ''CREATED''] ''volumes'' opts (map (volume_detail_row env) vols))))
             (c_ListVolumesDetail http c (co_ListOpts opts) st)
      else map_option (listed_items (sortVolumes env sortF sortBy rv)
             (\<lambda>vols tot. cli_output cm (DBody (BVolumes \<lparr>lr_Items = vols, lr_Total = tot, lr_Next = []\<rparr>))
               (print_table cm [''NAME'', ''CREATED BY'', ''SIZE'', ''USED'', ''USED%'', ''CLIENTS'', ''CREATED''] ''volumes'' opts
                 (map (volume_row env) vols))))
             (c_ListVolumes http c (co_ListOpts opts) st))"

definition volume_lines :: "'f cli_env \<Rightarrow> VolumeDetailResponse \<Rightarrow> 'f out list" where
  "volume_lines env v =
     [Stdout (''Name:         '' @ vd_Name v), Stdout (''Path:         '' @ vd_Path v), Stdout (''Size:         '' @ FormatBytes (vd_SizeBytes v)),
      Stdout (''Used:         '' @ FormatBytes (vd_UsedBytes v) @ '' ('' @ cx_fixed0 env (usedPct env (vd_UsedBytes v) (vd_SizeBytes v)) @ ''%)''),
      Stdout (''Quota:        '' @ FormatBytes (vd_QuotaBytes v)), Stdout (''Compression:  '' @ vd_Compression v),
      Stdout (''NoCOW:        '' @ show_bool (vd_NoCOW v)), Stdout (''UID:          '' @ show_int (vd_UID v)),
      Stdout (''GID:          '' @ show_int (vd_GID v)), Stdout (''Mode:         '' @ vd_Mode v)] @
     printLabels ''Labels:'' (vd_Labels v) 14 @
     [Stdout (''Exports:      '' @ (if vd_Exports v = [] then ''none'' else formatExports env (vd_Exports v))),
      Stdout (''Created:      '' @ cx_FormatTime env (vd_CreatedAt v)), Stdout (''Updated:      '' @ cx_FormatTime env (vd_UpdatedAt v))]"

definition volumeGet :: "'f cli_env \<Rightarrow> ('f, 's) transport \<Rightarrow> client \<Rightarrow> command \<Rightarrow> 's \<Rightarrow> ('f, 's) ran" where
  "volumeGet env http c cm st =
     (let name = arg cm 0
      in if name = [] then ((Some NameRequired, []), st)
         else (case c_GetVolume http c name st of
                 (Inl e, st1) \<Rightarrow> ((Some (wrapErr e ''volume'' name), []), st1)
               | (Inr v, st1) \<Rightarrow> ((None, cli_output cm (DBody (BVolume v)) (volume_lines env v)), st1)))"

section \<open>Creating\<close>

definition bad_compression :: "string \<Rightarrow> bool" where
  "bad_compression v \<longleftrightarrow> v \<noteq> [] \<and> v \<noteq> ''none'' \<and> \<not> IsValidCompression v"

text \<open>The answer to a request that creates something.\<close>

definition made :: "command \<Rightarrow> string \<Rightarrow> string \<Rightarrow> ('r \<Rightarrow> 'f document) \<Rightarrow> ('r \<Rightarrow> string) \<Rightarrow> ('r option \<times> client_error option) \<times> 's \<Rightarrow> ('f, 's) ran" where
  "made cm resource name doc line r = (case r of ((resp, err), st) \<Rightarrow>
     (case err of
        Some e \<Rightarrow> ((Some (wrapErr e resource name), []), st)
      | None \<Rightarrow> ((None, (case resp of None \<Rightarrow> [] | Some v \<Rightarrow> cli_output cm (doc v) [Stdout (line v)])), st)))"

definition volumeCreate :: "('f, 's) transport \<Rightarrow> client \<Rightarrow> command \<Rightarrow> 's \<Rightarrow> ('f, 's) ran" where
  "volumeCreate http c cm st =
     (if length (cm_Args cm) < 2 then ((Some UsageError, []), st)
      else (case ParseSize (arg cm 1) of
         Inl _ \<Rightarrow> ((Some SizeError, []), st)
       | Inr sz \<Rightarrow>
           let compression = cm_String cm ''compression''; uid = cm_Int cm ''uid''; gid = cm_Int cm ''gid''; mode = cm_String cm ''mode''
           in if bad_compression compression then ((Some (FlagError ''compression''), []), st)
              else if \<not> ValidateUID uid then ((Some (FlagError ''uid''), []), st)
              else if \<not> ValidateGID gid then ((Some (FlagError ''gid''), []), st)
              else if mode \<noteq> [] \<and> ValidateMode mode = None then ((Some (FlagError ''mode''), []), st)
              else (case parseLabelsFlag cm of (ls, ws) \<Rightarrow>
                 let req = \<lparr>vcr_Name = arg cm 0, vcr_SizeBytes = sz, vcr_NoCOW = cm_Bool cm ''nocow'', vcr_Compression = compression, vcr_QuotaBytes = 0,
                       vcr_UID = uid, vcr_GID = gid, vcr_Mode = mode, vcr_Labels = ls\<rparr>
                 in after_lines ws (made cm ''volume'' (arg cm 0) (\<lambda>v. DBody (BVolume v))
                      (\<lambda>v. ''volume '' @ quote (vd_Name v) @ '' created ('' @ FormatBytes (vd_SizeBytes v) @ '')'') (c_CreateVolume http c req st)))))"

definition volumeClone :: "('f, 's) transport \<Rightarrow> client \<Rightarrow> command \<Rightarrow> 's \<Rightarrow> ('f, 's) ran" where
  "volumeClone http c cm st =
     (if length (cm_Args cm) < 2 then ((Some UsageError, []), st)
      else (case parseLabelsFlag cm of (ls, ws) \<Rightarrow>
         after_lines ws (made cm ''volume'' (arg cm 1) (\<lambda>v. DBody (BVolume v))
           (\<lambda>v. ''volume '' @ quote (vd_Name v) @ '' cloned from '' @ quote (arg cm 0))
           (c_CloneVolume http c \<lparr>vlr_Source = arg cm 0, vlr_Name = arg cm 1, vlr_Labels = ls\<rparr> st))))"

section \<open>Deleting\<close>

text \<open>The owner that a skipped entry is reported with: the labels were read and name another creator.\<close>

definition foreign_owner :: "client \<Rightarrow> labels option \<Rightarrow> string option" where
  "foreign_owner c ls = (case ls of
       None \<Rightarrow> None
     | Some l \<Rightarrow> let owner = mget l LabelCreatedBy in
         if owner \<noteq> cl_identity c then Some (if owner = [] then ''unknown'' else owner) else None)"

text \<open>The loop over the names, with the protected ones so far.\<close>

fun delete_volumes :: "('f, 's) transport \<Rightarrow> client \<Rightarrow> command \<Rightarrow> bool \<Rightarrow> string list \<Rightarrow> string list \<Rightarrow> 's \<Rightarrow> ('f, 's) ran" where
  "delete_volumes http c cm confirmed protected [] st =
     ((None, if protected = [] then []
             else [Stderr (''to force:  btrfs-nfs-csi volume delete '' @ join_with '' '' protected @ '' --confirm --yes'')]), st)"
| "delete_volumes http c cm confirmed protected (name # names) st =
     (case (if confirmed then (Inr None, st)
            else (case c_GetVolume http c name st of
                    (Inl e, st1) \<Rightarrow> (Inl e, st1)
                  | (Inr vol, st1) \<Rightarrow> (Inr (Some (vd_Labels vol)), st1))) of
        (Inl e, st1) \<Rightarrow> ((Some (wrapErr e ''volume'' name), []), st1)
      | (Inr vol, st1) \<Rightarrow>
          if foreign_owner c vol \<noteq> None
          then after_lines [Stderr (''skipped '' @ quote name @ '' (created-by: '' @ the (foreign_owner c vol) @ '')'')]
                 (delete_volumes http c cm confirmed (protected @ [name]) names st1)
          else (case c_DeleteVolume http c name st1 of
                  (Some e, st2) \<Rightarrow> ((Some (wrapErr e ''volume'' name), []), st2)
                | (None, st2) \<Rightarrow> after_lines (unless_json cm (''volume '' @ quote name @ '' deleted''))
                                   (delete_volumes http c cm confirmed protected names st2)))"

definition is_confirmed :: "'f cli_env \<Rightarrow> command \<Rightarrow> bool" where
  "is_confirmed env cm \<longleftrightarrow> cx_force env = ''true'' \<or> cm_Bool cm ''confirm'' \<and> cm_Bool cm ''yes''"

definition volumeDelete :: "'f cli_env \<Rightarrow> ('f, 's) transport \<Rightarrow> client \<Rightarrow> command \<Rightarrow> 's \<Rightarrow> ('f, 's) ran" where
  "volumeDelete env http c cm st =
     (if cm_Args cm = [] then ((Some NameRequired, []), st)
      else delete_volumes http c cm (is_confirmed env cm) [] (cm_Args cm) st)"

section \<open>Updating\<close>

text \<open>The answer to an update.\<close>

definition updated :: "command \<Rightarrow> string \<Rightarrow> (VolumeDetailResponse \<Rightarrow> 'f out list) \<Rightarrow> (client_error + VolumeDetailResponse) \<times> 's \<Rightarrow> ('f, 's) ran" where
  "updated cm name show r = (case r of
       (Inl e, st) \<Rightarrow> ((Some (wrapErr e ''volume'' name), []), st)
     | (Inr v, st) \<Rightarrow> ((None, show v), st))"

definition relative_size :: "string \<Rightarrow> bool" where
  "relative_size s \<longleftrightarrow> (case s of a # b # _ \<Rightarrow> (a = CHR ''+'' \<or> a = CHR ''-'') \<and> CHR ''0'' \<le> b \<and> b \<le> CHR ''9'' | _ \<Rightarrow> False)"

text \<open>The new size for an argument like \<open>+1Gi\<close>, from the current one; the sum wraps around.\<close>

definition resized :: "string \<Rightarrow> u64 \<Rightarrow> u64 \<Rightarrow> cli_error + u64" where
  "resized s cur delta =
     (if hd s = CHR ''+'' then Inr (cur + delta)
      else if delta > cur then Inl ShrinkBelowZero
      else Inr (cur - delta))"

definition send_size :: "('f, 's) transport \<Rightarrow> client \<Rightarrow> command \<Rightarrow> string \<Rightarrow> u64 \<Rightarrow> 's \<Rightarrow> ('f, 's) ran" where
  "send_size http c cm name sz st = updated cm name
     (\<lambda>v. cli_output cm (DBody (BVolume v)) [Stdout (''volume '' @ quote (vd_Name v) @ '' expanded to '' @ FormatBytes (vd_SizeBytes v))])
     (c_UpdateVolume http c name (zero_update\<lparr>vur_SizeBytes := Some sz\<rparr>) st)"

definition volumeExpand :: "('f, 's) transport \<Rightarrow> client \<Rightarrow> command \<Rightarrow> 's \<Rightarrow> ('f, 's) ran" where
  "volumeExpand http c cm st =
     (if length (cm_Args cm) < 2 then ((Some UsageError, []), st)
      else let name = arg cm 0; sizeArg = arg cm 1
           in if sizeArg = [] then ((Some IndexPanic, []), st)
              else if relative_size sizeArg
              then (case ParseSize (tl sizeArg) of
                      Inl _ \<Rightarrow> ((Some SizeError, []), st)
                    | Inr delta \<Rightarrow> (case c_GetVolume http c name st of
                        (Inl e, st1) \<Rightarrow> ((Some (wrapErr e ''volume'' name), []), st1)
                      | (Inr vol, st1) \<Rightarrow> (case resized sizeArg (vd_SizeBytes vol) delta of
                          Inl e \<Rightarrow> ((Some e, []), st1)
                        | Inr sz \<Rightarrow> send_size http c cm name sz st1)))
              else (case ParseSize sizeArg of
                      Inl _ \<Rightarrow> ((Some SizeError, []), st)
                    | Inr sz \<Rightarrow> send_size http c cm name sz st))"

definition set_request :: "command \<Rightarrow> cli_error + VolumeUpdateRequest" where
  "set_request cm =
     (let flag = (\<lambda>n v. if cm_IsSet cm n then Some v else None);
          uid = cm_Int cm ''uid''; gid = cm_Int cm ''gid''; mode = cm_String cm ''mode''; compression = cm_String cm ''compression''
      in if cm_IsSet cm ''uid'' \<and> \<not> ValidateUID uid then Inl (FlagError ''uid'')
         else if cm_IsSet cm ''gid'' \<and> \<not> ValidateGID gid then Inl (FlagError ''gid'')
         else if cm_IsSet cm ''mode'' \<and> ValidateMode mode = None then Inl (FlagError ''mode'')
         else if cm_IsSet cm ''compression'' \<and> bad_compression compression then Inl (FlagError ''compression'')
         else let req = \<lparr>vur_SizeBytes = None, vur_NoCOW = (if cm_IsSet cm ''nocow'' then Some (cm_Bool cm ''nocow'') else None),
                  vur_Compression = flag ''compression'' compression,
                  vur_UID = (if cm_IsSet cm ''uid'' then Some uid else None), vur_GID = (if cm_IsSet cm ''gid'' then Some gid else None),
                  vur_Mode = flag ''mode'' mode, vur_Labels = None\<rparr>
              in if req = zero_update then Inl NoFlags else Inr req)"

definition volumeSet :: "('f, 's) transport \<Rightarrow> client \<Rightarrow> command \<Rightarrow> 's \<Rightarrow> ('f, 's) ran" where
  "volumeSet http c cm st =
     (let name = arg cm 0
      in if name = [] then ((Some NameRequired, []), st)
         else (case set_request cm of
                 Inl e \<Rightarrow> ((Some e, []), st)
               | Inr req \<Rightarrow> updated cm name (\<lambda>v. cli_output cm (DBody (BVolume v)) [Stdout (''volume '' @ quote (vd_Name v) @ '' updated'')])
                              (c_UpdateVolume http c name req st)))"

section \<open>Labels\<close>

definition volumeLabelList :: "('f, 's) transport \<Rightarrow> client \<Rightarrow> command \<Rightarrow> 's \<Rightarrow> ('f, 's) ran" where
  "volumeLabelList http c cm st =
     (let name = arg cm 0
      in if name = [] then ((Some NameRequired, []), st)
         else (case c_GetVolume http c name st of
                 (Inl e, st1) \<Rightarrow> ((Some (wrapErr e ''volume'' name), []), st1)
               | (Inr v, st1) \<Rightarrow> ((None, cli_output cm (DLabels (vd_Labels v)) (printLabels [] (vd_Labels v) 0)), st1)))"

text \<open>Setting labels from arguments. A volume without labels is decoded into a nil map, and an assignment to
  it panics.\<close>

fun set_labels :: "bool \<Rightarrow> string list \<Rightarrow> labels \<Rightarrow> cli_error + labels" where
  "set_labels nil [] ls = Inr ls"
| "set_labels nil (a # as) ls = (case cut ''='' a of
       None \<Rightarrow> Inl (LabelSyntax a)
     | Some (k, v) \<Rightarrow> if nil then Inl NilMapPanic else set_labels nil as (AList.update k v ls))"

fun remove_labels :: "string list \<Rightarrow> labels \<Rightarrow> cli_error + labels" where
  "remove_labels [] ls = Inr ls"
| "remove_labels (a # as) ls = (case cut ''='' a of
       None \<Rightarrow> remove_labels as (AList.delete a ls)
     | Some (k, v) \<Rightarrow> if mget ls k \<noteq> v then Inl (LabelValue k (mget ls k) v) else remove_labels as (AList.delete k ls))"

text \<open>The request for new labels, from those of the volume. A nil map is sent as \<open>null\<close>, which leaves the
  field of the request unset.\<close>

definition change_labels :: "('f, 's) transport \<Rightarrow> client \<Rightarrow> command \<Rightarrow> (labels \<Rightarrow> cli_error + labels option) \<Rightarrow> string \<Rightarrow> 's \<Rightarrow> ('f, 's) ran" where
  "change_labels http c cm f verb st =
     (let name = arg cm 0
      in case c_GetVolume http c name st of
           (Inl e, st1) \<Rightarrow> ((Some (wrapErr e ''volume'' name), []), st1)
         | (Inr vol, st1) \<Rightarrow> (case f (vd_Labels vol) of
             Inl e \<Rightarrow> ((Some e, []), st1)
           | Inr ls \<Rightarrow> updated cm name (\<lambda>_. unless_json cm (''labels '' @ verb @ '' on volume '' @ quote name))
                         (c_UpdateVolume http c name (zero_update\<lparr>vur_Labels := ls\<rparr>) st1)))"

definition volumeLabelAdd :: "('f, 's) transport \<Rightarrow> client \<Rightarrow> command \<Rightarrow> 's \<Rightarrow> ('f, 's) ran" where
  "volumeLabelAdd http c cm st =
     (if length (cm_Args cm) < 2 then ((Some UsageError, []), st)
      else change_labels http c cm (\<lambda>ls. map_sum id Some (set_labels (ls = []) (tl (cm_Args cm)) ls)) ''updated'' st)"

definition volumeLabelRemove :: "('f, 's) transport \<Rightarrow> client \<Rightarrow> command \<Rightarrow> 's \<Rightarrow> ('f, 's) ran" where
  "volumeLabelRemove http c cm st =
     (if length (cm_Args cm) < 2 then ((Some UsageError, []), st)
      else change_labels http c cm (\<lambda>ls. map_sum id (\<lambda>r. if ls = [] then None else Some r) (remove_labels (tl (cm_Args cm)) ls)) ''updated'' st)"

definition kept_labels :: "labels \<Rightarrow> labels" where
  "kept_labels ls = fold (\<lambda>k m. case map_of ls k of None \<Rightarrow> m | Some v \<Rightarrow> AList.update k v m) SoftReservedLabelKeys []"

definition volumeLabelPatch :: "('f, 's) transport \<Rightarrow> client \<Rightarrow> command \<Rightarrow> 's \<Rightarrow> ('f, 's) ran" where
  "volumeLabelPatch http c cm st =
     (if arg cm 0 = [] then ((Some NameRequired, []), st)
      else change_labels http c cm (\<lambda>ls. map_sum id Some (set_labels False (tl (cm_Args cm)) (kept_labels ls))) ''replaced'' st)"

section \<open>Panics\<close>

text \<open>An empty size argument is indexed, and a volume without labels comes back with a nil map: in both cases the
  command line ends with a panic instead of an error.\<close>

lemma volumeExpand_empty: "cm_Args cm = [name, []] \<Longrightarrow> volumeExpand http c cm st = ((Some IndexPanic, []), st)"
  by (simp add: volumeExpand_def arg_def Let_def)

lemma volumeLabelAdd_nil:
  assumes "cm_Args cm = name # a # as" "cut ''='' a = Some kv" "c_GetVolume http c name st = (Inr vol, st1)" "vd_Labels vol = []"
  shows "volumeLabelAdd http c cm st = ((Some NilMapPanic, []), st1)"
  using assms by (cases kv) (simp add: volumeLabelAdd_def change_labels_def arg_def Let_def)

end
