(* ===== verification/CliOther.thy ===== *)
theory CliOther
  imports CliVolume
begin

text \<open>
  The snapshot, export, task, stats and health commands of the command line: \<open>snapshot.go\<close>, \<open>export.go\<close>,
  \<open>task.go\<close> and \<open>stats.go\<close> of \<open>cmd/btrfs-nfs-csi\<close>.
\<close>

section \<open>Snapshots\<close>

definition snapshot_detail_row :: "'f cli_env \<Rightarrow> SnapshotDetailResponse \<Rightarrow> labels" where
  "snapshot_detail_row env s =
     [(''NAME'', sd_Name s), (''CREATED BY'', sd_CreatedBy s), (''VOLUME'', sd_Volume s), (''SIZE'', FormatBytes (sd_SizeBytes s)),
      (''USED'', FormatBytes (sd_UsedBytes s)), (''EXCLUSIVE'', FormatBytes (sd_ExclusiveBytes s)), (''LABELS'', formatLabelsShort (sd_Labels s)),
      (''CREATED'', cx_FormatTime env (sd_CreatedAt s))]"

definition snapshot_row :: "'f cli_env \<Rightarrow> SnapshotResponse \<Rightarrow> labels" where
  "snapshot_row env s =
     [(''NAME'', sr_Name s), (''CREATED BY'', sr_CreatedBy s), (''VOLUME'', sr_Volume s), (''SIZE'', FormatBytes (sr_SizeBytes s)),
      (''USED'', FormatBytes (sr_UsedBytes s)), (''CREATED'', cx_FormatTime env (sr_CreatedAt s))]"

definition listSnapshots :: "'f cli_env \<Rightarrow> SnapshotDetailResponse sorter \<Rightarrow> SnapshotResponse sorter \<Rightarrow> ('f, 's) transport \<Rightarrow> client \<Rightarrow> command \<Rightarrow> string \<Rightarrow>
    string \<Rightarrow> bool \<Rightarrow> cliListOpts \<Rightarrow> 's \<Rightarrow> ('f, 's) ran option" where
  "listSnapshots env sortD sortF http c cm vol sortBy rv opts st =
     (if isWide cm
      then map_option (listed_items (sortSnapshotsDetail sortD sortBy rv)
             (\<lambda>snaps tot. cli_output cm (DBody (BSnapshotDetails \<lparr>lr_Items = snaps, lr_Total = tot, lr_Next = []\<rparr>))
               (print_table cm [''NAME'', ''CREATED BY'', ''VOLUME'', ''SIZE'', ''USED'', ''EXCLUSIVE'', ''LABELS'', ''CREATED''] ''snapshots'' opts
                 (map (snapshot_detail_row env) snaps))))
             (if vol \<noteq> [] then c_ListVolumeSnapshotsDetail http c vol (co_ListOpts opts) st else c_ListSnapshotsDetail http c (co_ListOpts opts) st)
      else map_option (listed_items (sortSnapshots sortF sortBy rv)
             (\<lambda>snaps tot. cli_output cm (DBody (BSnapshots \<lparr>lr_Items = snaps, lr_Total = tot, lr_Next = []\<rparr>))
               (print_table cm [''NAME'', ''CREATED BY'', ''VOLUME'', ''SIZE'', ''USED'', ''CREATED''] ''snapshots'' opts (map (snapshot_row env) snaps))))
             (if vol \<noteq> [] then c_ListVolumeSnapshots http c vol (co_ListOpts opts) st else c_ListSnapshots http c (co_ListOpts opts) st))"

definition snapshot_lines :: "'f cli_env \<Rightarrow> SnapshotDetailResponse \<Rightarrow> 'f out list" where
  "snapshot_lines env s =
     [Stdout (''Name:       '' @ sd_Name s), Stdout (''Path:       '' @ sd_Path s), Stdout (''Volume:     '' @ sd_Volume s),
      Stdout (''Size:       '' @ FormatBytes (sd_SizeBytes s)), Stdout (''Used:       '' @ FormatBytes (sd_UsedBytes s)),
      Stdout (''Exclusive:  '' @ FormatBytes (sd_ExclusiveBytes s))] @
     printLabels ''Labels:'' (sd_Labels s) 12 @
     [Stdout (''Created:    '' @ cx_FormatTime env (sd_CreatedAt s)), Stdout (''Updated:    '' @ cx_FormatTime env (sd_UpdatedAt s))]"

definition snapshotGet :: "'f cli_env \<Rightarrow> ('f, 's) transport \<Rightarrow> client \<Rightarrow> command \<Rightarrow> 's \<Rightarrow> ('f, 's) ran" where
  "snapshotGet env http c cm st =
     (let name = arg cm 0
      in if name = [] then ((Some NameRequired, []), st)
         else (case c_GetSnapshot http c name st of
                 (Inl e, st1) \<Rightarrow> ((Some (wrapErr e ''snapshot'' name), []), st1)
               | (Inr s, st1) \<Rightarrow> ((None, cli_output cm (DBody (BSnapshot s)) (snapshot_lines env s)), st1)))"

definition snapshotLabelList :: "('f, 's) transport \<Rightarrow> client \<Rightarrow> command \<Rightarrow> 's \<Rightarrow> ('f, 's) ran" where
  "snapshotLabelList http c cm st =
     (let name = arg cm 0
      in if name = [] then ((Some NameRequired, []), st)
         else (case c_GetSnapshot http c name st of
                 (Inl e, st1) \<Rightarrow> ((Some (wrapErr e ''snapshot'' name), []), st1)
               | (Inr s, st1) \<Rightarrow> ((None, cli_output cm (DLabels (sd_Labels s)) (printLabels [] (sd_Labels s) 0)), st1)))"

definition snapshotCreate :: "('f, 's) transport \<Rightarrow> client \<Rightarrow> command \<Rightarrow> 's \<Rightarrow> ('f, 's) ran" where
  "snapshotCreate http c cm st =
     (if length (cm_Args cm) < 2 then ((Some UsageError, []), st)
      else (case parseLabelsFlag cm of (ls, ws) \<Rightarrow>
         after_lines ws (made cm ''snapshot'' (arg cm 1) (\<lambda>s. DBody (BSnapshot s))
           (\<lambda>s. ''snapshot '' @ quote (sd_Name s) @ '' created from volume '' @ quote (sd_Volume s))
           (c_CreateSnapshot http c \<lparr>scr_Volume = arg cm 0, scr_Name = arg cm 1, scr_Labels = ls\<rparr> st))))"

definition snapshotClone :: "('f, 's) transport \<Rightarrow> client \<Rightarrow> command \<Rightarrow> 's \<Rightarrow> ('f, 's) ran" where
  "snapshotClone http c cm st =
     (if length (cm_Args cm) < 2 then ((Some UsageError, []), st)
      else (case parseLabelsFlag cm of (ls, ws) \<Rightarrow>
         after_lines ws (made cm ''clone'' (arg cm 1) (\<lambda>v. DBody (BVolume v))
           (\<lambda>v. ''clone '' @ quote (vd_Name v) @ '' created from snapshot '' @ quote (arg cm 0))
           (c_CreateClone http c \<lparr>ccr_Snapshot = arg cm 0, ccr_Name = arg cm 1, ccr_Labels = ls\<rparr> st))))"

fun delete_snapshots :: "('f, 's) transport \<Rightarrow> client \<Rightarrow> command \<Rightarrow> bool \<Rightarrow> string list \<Rightarrow> string list \<Rightarrow> 's \<Rightarrow> ('f, 's) ran" where
  "delete_snapshots http c cm confirmed protected [] st =
     ((None, if protected = [] then []
             else [Stderr (''to force:  btrfs-nfs-csi snapshot delete '' @ join_with '' '' protected @ '' --confirm --yes'')]), st)"
| "delete_snapshots http c cm confirmed protected (name # names) st =
     (case (if confirmed then (Inr None, st)
            else (case c_GetSnapshot http c name st of
                    (Inl e, st1) \<Rightarrow> (Inl e, st1)
                  | (Inr snap, st1) \<Rightarrow> (Inr (Some (sd_Labels snap)), st1))) of
        (Inl e, st1) \<Rightarrow> ((Some (wrapErr e ''snapshot'' name), []), st1)
      | (Inr snap, st1) \<Rightarrow>
          if foreign_owner c snap \<noteq> None
          then after_lines [Stderr (''skipped '' @ quote name @ '' (created-by: '' @ the (foreign_owner c snap) @ '')'')]
                 (delete_snapshots http c cm confirmed (protected @ [name]) names st1)
          else (case c_DeleteSnapshot http c name st1 of
                  (Some e, st2) \<Rightarrow> ((Some (wrapErr e ''snapshot'' name), []), st2)
                | (None, st2) \<Rightarrow> after_lines (unless_json cm (''snapshot '' @ quote name @ '' deleted''))
                                   (delete_snapshots http c cm confirmed protected names st2)))"

definition snapshotDelete :: "'f cli_env \<Rightarrow> ('f, 's) transport \<Rightarrow> client \<Rightarrow> command \<Rightarrow> 's \<Rightarrow> ('f, 's) ran" where
  "snapshotDelete env http c cm st =
     (if cm_Args cm = [] then ((Some NameRequired, []), st)
      else delete_snapshots http c cm (is_confirmed env cm) [] (cm_Args cm) st)"

section \<open>Exports\<close>

text \<open>The answer to an operation without a result.\<close>

definition acted :: "command \<Rightarrow> string \<Rightarrow> string \<Rightarrow> string \<Rightarrow> client_error option \<times> 's \<Rightarrow> ('f, 's) ran" where
  "acted cm resource name line r = (case r of
       (Some e, st) \<Rightarrow> ((Some (wrapErr e resource name), []), st)
     | (None, st) \<Rightarrow> ((None, unless_json cm line), st))"

definition exportAdd :: "('f, 's) transport \<Rightarrow> client \<Rightarrow> command \<Rightarrow> 's \<Rightarrow> ('f, 's) ran" where
  "exportAdd http c cm st =
     (if length (cm_Args cm) < 2 then ((Some UsageError, []), st)
      else (case parseLabelsFlag cm of (ls, ws) \<Rightarrow>
         after_lines ws (acted cm ''volume'' (arg cm 0) (''exported '' @ quote (arg cm 0) @ '' to '' @ arg cm 1)
           (c_CreateVolumeExport http c (arg cm 0) (arg cm 1) ls st))))"

definition exportRemove :: "('f, 's) transport \<Rightarrow> client \<Rightarrow> command \<Rightarrow> 's \<Rightarrow> ('f, 's) ran" where
  "exportRemove http c cm st =
     (if length (cm_Args cm) < 2 then ((Some UsageError, []), st)
      else (case parseLabelsFlag cm of (ls, ws) \<Rightarrow>
         after_lines ws (acted cm ''volume'' (arg cm 0) (''unexported '' @ quote (arg cm 0) @ '' from '' @ arg cm 1)
           (c_DeleteVolumeExport http c (arg cm 0) (arg cm 1) ls st))))"

definition created_cell :: "'f cli_env \<Rightarrow> int \<Rightarrow> string" where
  "created_cell env t = (if t \<noteq> 0 then cx_FormatTime env t else [])"

definition export_detail_row :: "'f cli_env \<Rightarrow> ExportDetailResponse \<Rightarrow> labels" where
  "export_detail_row env e =
     [(''NAME'', ed_Name e), (''CREATED_BY'', ed_CreatedBy e), (''CLIENT'', ed_Client e), (''LABELS'', formatLabelsShort (ed_Labels e)),
      (''CREATED'', created_cell env (ed_CreatedAt e))]"

definition export_row :: "'f cli_env \<Rightarrow> ExportResponse \<Rightarrow> labels" where
  "export_row env e =
     [(''NAME'', er_Name e), (''CREATED_BY'', er_CreatedBy e), (''CLIENT'', er_Client e), (''CREATED'', created_cell env (er_CreatedAt e))]"

definition listExports :: "'f cli_env \<Rightarrow> ExportDetailResponse sorter \<Rightarrow> ExportResponse sorter \<Rightarrow> ('f, 's) transport \<Rightarrow> client \<Rightarrow> command \<Rightarrow> string \<Rightarrow> bool \<Rightarrow>
    cliListOpts \<Rightarrow> 's \<Rightarrow> ('f, 's) ran option" where
  "listExports env sortD sortF http c cm sortBy rv opts st =
     (if isWide cm
      then map_option (listed_items (sortExportsDetailList sortD sortBy rv)
             (\<lambda>es tot. cli_output cm (DBody (BExportDetails \<lparr>lr_Items = es, lr_Total = tot, lr_Next = []\<rparr>))
               (print_table cm [''NAME'', ''CREATED_BY'', ''CLIENT'', ''LABELS'', ''CREATED''] ''exports'' opts (map (export_detail_row env) es))))
             (c_ListVolumeExportsDetail http c (co_ListOpts opts) st)
      else map_option (listed_items (sortExportsList sortF sortBy rv)
             (\<lambda>es tot. cli_output cm (DBody (BExports \<lparr>lr_Items = es, lr_Total = tot, lr_Next = []\<rparr>))
               (print_table cm [''NAME'', ''CREATED_BY'', ''CLIENT'', ''CREATED''] ''exports'' opts (map (export_row env) es))))
             (c_ListVolumeExports http c (co_ListOpts opts) st))"

section \<open>Task results\<close>

text \<open>Decoding the result of a scrub: fields of other kinds and a value that is no object fail.\<close>

definition dec_scrub :: "json \<Rightarrow> ScrubStatus option" where
  "dec_scrub j = (case j of
       JObj m \<Rightarrow> do {
         d \<leftarrow> dec_u64 (jfield m ''data_bytes_scrubbed''); t \<leftarrow> dec_u64 (jfield m ''tree_bytes_scrubbed'');
         r \<leftarrow> dec_u64 (jfield m ''read_errors''); cs \<leftarrow> dec_u64 (jfield m ''csum_errors''); v \<leftarrow> dec_u64 (jfield m ''verify_errors'');
         su \<leftarrow> dec_u64 (jfield m ''super_errors''); u \<leftarrow> dec_u64 (jfield m ''uncorrectable_errors''); co \<leftarrow> dec_u64 (jfield m ''corrected_errors'');
         run \<leftarrow> dec_bool (jfield m ''running'');
         Some \<lparr>ss_DataBytesScrubbed = d, ss_TreeBytesScrubbed = t, ss_ReadErrors = r, ss_CSumErrors = cs, ss_VerifyErrors = v, ss_SuperErrors = su,
           ss_UncorrectableErrs = u, ss_CorrectedErrs = co, ss_Running = run\<rparr> }
     | JNull \<Rightarrow> Some \<lparr>ss_DataBytesScrubbed = 0, ss_TreeBytesScrubbed = 0, ss_ReadErrors = 0, ss_CSumErrors = 0, ss_VerifyErrors = 0,
         ss_SuperErrors = 0, ss_UncorrectableErrs = 0, ss_CorrectedErrs = 0, ss_Running = False\<rparr>
     | _ \<Rightarrow> None)"

text \<open>The verb \<open>%v\<close> of a decoded JSON value is the argument \<open>show\<close>.\<close>

definition genericResultSummary :: "(json \<Rightarrow> string) \<Rightarrow> json \<Rightarrow> string" where
  "genericResultSummary show j = (case j of
       JObj m \<Rightarrow> join_with '', '' (map (\<lambda>k. k @ '': '' @ show (jfield m k)) (sort (remdups (map fst m))))
     | _ \<Rightarrow> [])"

definition speed_text :: "'f cli_env \<Rightarrow> u64 \<Rightarrow> int \<Rightarrow> string option" where
  "speed_text env bytes elapsed =
     (if cx_compare env (cx_seconds env elapsed) (cx_const env 0) > 0 \<and> bytes > 0
      then Some (FormatBytes (cx_uint64 env (cx_div env (cx_float64 env bytes) (cx_seconds env elapsed))) @ ''/s'') else None)"

definition scrubResultSummary :: "'f cli_env \<Rightarrow> (json \<Rightarrow> string) \<Rightarrow> int \<Rightarrow> TaskDetailResponse \<Rightarrow> json \<Rightarrow> string" where
  "scrubResultSummary env show t resp j = (case dec_scrub j of
       None \<Rightarrow> genericResultSummary show j
     | Some s \<Rightarrow>
         let errs = ss_ReadErrors s + ss_CSumErrors s + ss_VerifyErrors s + ss_UncorrectableErrs s;
             errors = show_base 10 (unat errs) @ '' errors''
         in if td_Status resp = ''running''
            then join_with '', ''
              ((case Option.bind (td_StartedAt resp) (\<lambda>s0. speed_text env (ss_DataBytesScrubbed s) (t - s0)) of None \<Rightarrow> [] | Some x \<Rightarrow> [x]) @
               (if errs > 0 then [errors] else []))
            else if td_Status resp = ''completed''
            then FormatBytes (ss_DataBytesScrubbed s) @ '' scrubbed, '' @ errors @
              (case (td_StartedAt resp, td_CompletedAt resp) of
                 (Some s0, Some s1) \<Rightarrow> (case speed_text env (ss_DataBytesScrubbed s) (s1 - s0) of None \<Rightarrow> [] | Some x \<Rightarrow> '', '' @ x)
               | _ \<Rightarrow> [])
            else if td_Status resp = ''failed'' then (if errs > 0 then errors else [])
            else [])"

definition taskResultSummary :: "'f cli_env \<Rightarrow> (json \<Rightarrow> string) \<Rightarrow> int \<Rightarrow> TaskDetailResponse \<Rightarrow> string" where
  "taskResultSummary env show t resp = (case td_Result resp of
       None \<Rightarrow> []
     | Some j \<Rightarrow> if td_Type resp = TypeScrub then scrubResultSummary env show t resp j else genericResultSummary show j)"

definition truncate_ms :: "int \<Rightarrow> int" where
  "truncate_ms d = sgn d * (\<bar>d\<bar> - \<bar>d\<bar> mod 1000000)"

definition taskTook :: "'f cli_env \<Rightarrow> int \<Rightarrow> int \<Rightarrow> int option \<Rightarrow> int option \<Rightarrow> string" where
  "taskTook env t createdAt startedAt completedAt = (case completedAt of
       Some e \<Rightarrow> cx_Duration env (truncate_ms (e - createdAt))
     | None \<Rightarrow> (case startedAt of Some s \<Rightarrow> cx_Duration env (truncate_ms (t - s)) | None \<Rightarrow> ''-''))"

definition taskTimeout :: "string \<Rightarrow> string" where
  "taskTimeout t = (if t \<noteq> [] then t else ''-'')"

section \<open>Tasks\<close>

definition or_dash :: "string \<Rightarrow> string" where
  "or_dash s = (if s = [] then ''-'' else s)"

definition task_detail_row :: "'f cli_env \<Rightarrow> (json \<Rightarrow> string) \<Rightarrow> TaskDetailResponse \<Rightarrow> labels" where
  "task_detail_row env show t =
     [(''ID'', td_ID t), (''TYPE'', td_Type t), (''CREATED_BY'', td_CreatedBy t), (''STATUS'', td_Status t), (''PROGRESS'', show_int (td_Progress t) @ ''%''),
      (''LABELS'', formatLabelsShort (td_Labels t)), (''TIMEOUT'', taskTimeout (td_Timeout t)),
      (''TOOK'', taskTook env (cx_now env) (td_CreatedAt t) (td_StartedAt t) (td_CompletedAt t)), (''CREATED'', cx_FormatTime env (td_CreatedAt t)),
      (''RESULT'', or_dash (taskResultSummary env show (cx_now env) t)), (''ERROR'', or_dash (td_Error t))]"

definition task_row :: "'f cli_env \<Rightarrow> TaskResponse \<Rightarrow> labels" where
  "task_row env t =
     [(''ID'', tr_ID t), (''TYPE'', tr_Type t), (''CREATED_BY'', tr_CreatedBy t), (''STATUS'', tr_Status t), (''PROGRESS'', show_int (tr_Progress t) @ ''%''),
      (''TIMEOUT'', taskTimeout (tr_Timeout t)), (''TOOK'', taskTook env (cx_now env) (tr_CreatedAt t) (tr_StartedAt t) (tr_CompletedAt t)),
      (''CREATED'', cx_FormatTime env (tr_CreatedAt t))]"

definition listTasks :: "'f cli_env \<Rightarrow> (json \<Rightarrow> string) \<Rightarrow> TaskDetailResponse sorter \<Rightarrow> TaskResponse sorter \<Rightarrow> ('f, 's) transport \<Rightarrow> client \<Rightarrow> command \<Rightarrow> string \<Rightarrow>
    string \<Rightarrow> bool \<Rightarrow> cliListOpts \<Rightarrow> 's \<Rightarrow> ('f, 's) ran option" where
  "listTasks env show sortD sortF http c cm taskType sortBy rv opts st =
     (if isWide cm
      then map_option (listed_items (sortTasksDetail sortD sortBy rv)
             (\<lambda>ts tot. cli_output cm (DBody (BTaskDetails \<lparr>lr_Items = ts, lr_Total = tot, lr_Next = []\<rparr>))
               (print_table cm [''ID'', ''TYPE'', ''CREATED_BY'', ''STATUS'', ''PROGRESS'', ''LABELS'', ''TIMEOUT'', ''TOOK'', ''CREATED'', ''RESULT'', ''ERROR'']
                 ''tasks'' opts (map (task_detail_row env show) ts))))
             (c_ListTasksDetail http c taskType (co_ListOpts opts) st)
      else map_option (listed_items (sortTasks sortF sortBy rv)
             (\<lambda>ts tot. cli_output cm (DBody (BTasks \<lparr>lr_Items = ts, lr_Total = tot, lr_Next = []\<rparr>))
               (print_table cm [''ID'', ''TYPE'', ''CREATED_BY'', ''STATUS'', ''PROGRESS'', ''TIMEOUT'', ''TOOK'', ''CREATED''] ''tasks'' opts
                 (map (task_row env) ts))))
             (c_ListTasks http c taskType (co_ListOpts opts) st))"

text \<open>The options are printed in the order in which the loop meets them.\<close>

definition task_lines :: "'f cli_env \<Rightarrow> (json \<Rightarrow> string) \<Rightarrow> TaskDetailResponse \<Rightarrow> 'f out list" where
  "task_lines env show r =
     (let summary = taskResultSummary env show (cx_now env) r in
      [Stdout (''ID:         '' @ td_ID r), Stdout (''Type:       '' @ td_Type r)] @
      (if td_Opts r = [] then [] else [Stdout (''Opts:       '' @ join_with '', '' (map (\<lambda>(k, v). k @ ''='' @ v) (td_Opts r)))]) @
      printLabels ''Labels:'' (td_Labels r) 12 @
      (if td_Timeout r = [] then [] else [Stdout (''Timeout:    '' @ td_Timeout r)]) @
      [Stdout (''Status:     '' @ td_Status r), Stdout (''Progress:   '' @ show_int (td_Progress r) @ ''%'')] @
      (if td_Error r = [] then [] else [Stdout (''Error:      '' @ td_Error r)]) @
      [Stdout (''Created:    '' @ cx_FormatTime env (td_CreatedAt r))] @
      (case td_StartedAt r of None \<Rightarrow> [] | Some t \<Rightarrow> [Stdout (''Started:    '' @ cx_FormatTime env t)]) @
      (case td_CompletedAt r of None \<Rightarrow> []
       | Some t \<Rightarrow> [Stdout (''Completed:  '' @ cx_FormatTime env t), Stdout (''Took:       '' @ cx_Duration env (truncate_ms (t - td_CreatedAt r)))]) @
      (if summary = [] then [] else [Stdout (''Result:     '' @ summary)]))"

definition taskGet :: "'f cli_env \<Rightarrow> (json \<Rightarrow> string) \<Rightarrow> ('f, 's) transport \<Rightarrow> client \<Rightarrow> command \<Rightarrow> 's \<Rightarrow> ('f, 's) ran" where
  "taskGet env show http c cm st =
     (let i = arg cm 0
      in if i = [] then ((Some NameRequired, []), st)
         else (case c_GetTask http c i st of
                 (Inl e, st1) \<Rightarrow> ((Some (wrapErr e ''task'' i), []), st1)
               | (Inr t, st1) \<Rightarrow> ((None, cli_output cm (DBody (BTask t)) (task_lines env show t)), st1)))"

definition taskCancel :: "('f, 's) transport \<Rightarrow> client \<Rightarrow> command \<Rightarrow> 's \<Rightarrow> ('f, 's) ran" where
  "taskCancel http c cm st =
     (let i = arg cm 0
      in if i = [] then ((Some NameRequired, []), st)
         else acted cm ''task'' i (''task '' @ quote i @ '' cancel requested'') (c_CancelTask http c i st))"

text \<open>Waiting for a task: one turn of the loop per tick, with the clock at each tick. The loop ends when the task
  has ended.\<close>

definition wait_line :: "'f cli_env \<Rightarrow> (json \<Rightarrow> string) \<Rightarrow> int \<Rightarrow> TaskDetailResponse \<Rightarrow> string" where
  "wait_line env show t r =
     (let s = taskResultSummary env show t r; took = taskTook env t (td_CreatedAt r) (td_StartedAt r) (td_CompletedAt r)
      in if td_Status r = ''completed'' then ''completed (took '' @ took @ (if s \<noteq> [] then '', '' @ s else []) @ '')''
         else if td_Status r = ''cancelled'' then ''cancelled''
         else td_Status r @ '' '' @ show_int (td_Progress r) @ ''%'' @ (if s \<noteq> [] then '' ('' @ s @ '')'' else []))"

partial_function (option) waitForTask ::
  "'f cli_env \<Rightarrow> (json \<Rightarrow> string) \<Rightarrow> (nat \<Rightarrow> int) \<Rightarrow> ('f, 's) transport \<Rightarrow> client \<Rightarrow> string \<Rightarrow> nat \<Rightarrow> 'f out list \<Rightarrow> 's \<Rightarrow> ('f, 's) ran option" where
  "waitForTask env show clock http c i n outs st = (case c_GetTask http c i st of
       (Inl e, st1) \<Rightarrow> Some ((Some (wrapErr e ''task'' i), outs), st1)
     | (Inr t, st1) \<Rightarrow>
         if td_Status t = ''failed'' then Some ((Some (TaskFailure (td_Error t)), outs), st1)
         else if td_Status t = ''completed'' \<or> td_Status t = ''cancelled''
         then Some ((None, outs @ [Stdout (wait_line env show (clock n) t)]), st1)
         else waitForTask env show clock http c i (Suc n) (outs @ [Stdout (wait_line env show (clock n) t)]) st1)"

text \<open>Starting a task, and waiting for it when asked to.\<close>

definition create_task :: "'f cli_env \<Rightarrow> (json \<Rightarrow> string) \<Rightarrow> (nat \<Rightarrow> int) \<Rightarrow> ('f, 's) transport \<Rightarrow> client \<Rightarrow> command \<Rightarrow> string \<Rightarrow> string \<Rightarrow> labels \<Rightarrow> 's \<Rightarrow>
    ('f, 's) ran option" where
  "create_task env show clock http c cm kind text opts st =
     (case parseLabelsFlag cm of (ls, ws) \<Rightarrow>
        let timeout = cm_Duration cm ''timeout'';
            req = \<lparr>tq_Timeout = (if timeout > 0 then cx_Duration env timeout else []), tq_Opts = opts, tq_Labels = ls\<rparr>
        in case c_CreateTask http c kind req st of
             (Inl e, st1) \<Rightarrow> Some ((Some (ApiError e), ws), st1)
           | (Inr resp, st1) \<Rightarrow>
               let line = text @ '' started (task '' @ tc_TaskID resp @ '')''
               in if \<not> cm_Bool cm ''wait'' then Some ((None, ws @ cli_output cm (DBody (BTaskCreated resp)) [Stdout line]), st1)
                  else waitForTask env show clock http c (tc_TaskID resp) 0 (ws @ unless_json cm line) st1)"

definition taskCreateScrub :: "'f cli_env \<Rightarrow> (json \<Rightarrow> string) \<Rightarrow> (nat \<Rightarrow> int) \<Rightarrow> ('f, 's) transport \<Rightarrow> client \<Rightarrow> command \<Rightarrow> 's \<Rightarrow> ('f, 's) ran option" where
  "taskCreateScrub env show clock http c cm st = create_task env show clock http c cm TypeScrub ''scrub'' [] st"

definition taskCreateTest :: "'f cli_env \<Rightarrow> (json \<Rightarrow> string) \<Rightarrow> (nat \<Rightarrow> int) \<Rightarrow> ('f, 's) transport \<Rightarrow> client \<Rightarrow> command \<Rightarrow> 's \<Rightarrow> ('f, 's) ran option" where
  "taskCreateTest env show clock http c cm st =
     (let s = cm_Duration cm ''sleep''
      in create_task env show clock http c cm TypeTest ''test task'' (if s > 0 then [(''sleep'', cx_Duration env s)] else []) st)"

section \<open>Statistics and health\<close>

definition device_errs :: "DeviceErrorsResponse \<Rightarrow> u64" where
  "device_errs e = de_ReadErrsR e + de_WriteErrsR e + de_FlushErrsR e + de_CorruptionErrsR e + de_GenerationErrsR e"

definition device_status :: "DeviceStatsResponse \<Rightarrow> string" where
  "device_status d = (if dr_Missing d then ''MISSING'' else if device_errs (dr_Errors d) > 0 then ''ERRORS'' else ''ok'')"

definition show_u64 :: "u64 \<Rightarrow> string" where
  "show_u64 x = show_base 10 (unat x)"

definition wide_device_row :: "DeviceStatsResponse \<Rightarrow> string list" where
  "wide_device_row d =
     [''  '' @ dr_Device d, FormatBytes (dr_SizeBytes d), FormatBytes (dr_AllocatedBytes d), FormatBytes (ir_ReadBytesTotal (dr_IO d)),
      FormatBytes (ir_WriteBytesTotal (dr_IO d)), show_u64 (ir_ReadIOsTotal (dr_IO d)), show_u64 (ir_WriteIOsTotal (dr_IO d)),
      show_u64 (de_ReadErrsR (dr_Errors d)), show_u64 (de_WriteErrsR (dr_Errors d)), show_u64 (de_FlushErrsR (dr_Errors d)),
      show_u64 (de_CorruptionErrsR (dr_Errors d)), show_u64 (de_GenerationErrsR (dr_Errors d)), device_status d]"

definition device_row :: "DeviceStatsResponse \<Rightarrow> string list" where
  "device_row d =
     [''  '' @ dr_Device d, FormatBytes (dr_SizeBytes d), FormatBytes (dr_AllocatedBytes d), FormatBytes (ir_ReadBytesTotal (dr_IO d)),
      FormatBytes (ir_WriteBytesTotal (dr_IO d)), show_u64 (device_errs (dr_Errors d)), device_status d]"

definition used_text :: "'f cli_env \<Rightarrow> u64 \<Rightarrow> u64 \<Rightarrow> string" where
  "used_text env used tot = FormatBytes used @ '' ('' @ cx_fixed0 env (usedPct env used tot) @ ''%)''"

definition stats_lines :: "'f cli_env \<Rightarrow> command \<Rightarrow> 'f StatsResponse \<Rightarrow> 'f out list" where
  "stats_lines env cm r =
     (let s = st_Statfs r; b = st_Btrfs r in
      [Stdout (''tenant: '' @ st_TenantName r), Stdout [], Stdout ''statfs:'',
       Stdout (''  Total:       '' @ FormatBytes (sf_TotalBytes s)), Stdout (''  Used:        '' @ used_text env (sf_UsedBytes s) (sf_TotalBytes s)),
       Stdout (''  Free:        '' @ FormatBytes (sf_FreeBytes s)), Stdout [], Stdout ''btrfs:'',
       Stdout (''  Total:       '' @ FormatBytes (fr_TotalBytes b)), Stdout (''  Used:        '' @ used_text env (fr_UsedBytes b) (fr_TotalBytes b)),
       Stdout (''  Free:        '' @ FormatBytes (fr_FreeBytes b)), Stdout (''  Unallocated: '' @ FormatBytes (fr_UnallocatedBytes b)),
       Stdout (''  Metadata:    '' @ FormatBytes (fr_MetadataUsedBytes b) @ '' / '' @ FormatBytes (fr_MetadataTotalBytes b)),
       Stdout (''  Data ratio:  '' @ cx_fixed1 env (fr_DataRatio b)), Stdout [], Stdout ''devices:''] @
      (if isWide cm
       then TableRow [''  DEVICE'', ''SIZE'', ''ALLOCATED'', ''READ'', ''WRITTEN'', ''READ_IOS'', ''WRITE_IOS'', ''READ_ERR'', ''WRITE_ERR'', ''FLUSH_ERR'',
              ''CSUM_ERR'', ''GEN_ERR'', ''STATUS''] # map (\<lambda>d. TableRow (wide_device_row d)) (fr_Devices b)
       else TableRow [''  DEVICE'', ''SIZE'', ''ALLOCATED'', ''READ'', ''WRITTEN'', ''ERRORS'', ''STATUS''] #
              map (\<lambda>d. TableRow (device_row d)) (fr_Devices b)))"

definition showStats :: "'f cli_env \<Rightarrow> ('f, 's) transport \<Rightarrow> client \<Rightarrow> command \<Rightarrow> 's \<Rightarrow> ('f, 's) ran" where
  "showStats env http c cm st = (case c_Stats (cx_const env 0) http c st of
       (Inl e, st1) \<Rightarrow> ((Some (ApiError e), []), st1)
     | (Inr r, st1) \<Rightarrow> ((None, cli_output cm (DBody (BStats r)) (stats_lines env cm r)), st1))"

definition showHealth :: "('f, 's) transport \<Rightarrow> client \<Rightarrow> command \<Rightarrow> 's \<Rightarrow> ('f, 's) ran" where
  "showHealth http c cm st = (case c_Healthz http c st of
       (Inl e, st1) \<Rightarrow> ((Some (ApiError e), []), st1)
     | (Inr r, st1) \<Rightarrow> ((None, cli_output cm (DBody (BHealth r))
          [Stdout (''status:  '' @ hr_Status r), Stdout (''version: '' @ hr_Version r), Stdout (''commit:  '' @ hr_Commit r),
           Stdout (''uptime:  '' @ show_int (hr_UptimeSeconds r) @ ''s'')]), st1))"

end
