(* ===== verification/CliTree.thy ===== *)
theory CliTree
  imports CliOther
begin

text \<open>
  The commands of the command line: the tree of names, aliases and flags of \<open>cmd/btrfs-nfs-csi/model.go\<close>, the
  hooks and the watch loop of \<open>utils.go\<close>, and the run of an action. Parsing the arguments is the work of the
  library \<open>urfave/cli\<close>; what it looks up by name is shown to be unambiguous.
\<close>

section \<open>Actions\<close>

datatype cli_action =
    VolumeList | VolumeGet | VolumeCreate | VolumeDelete | VolumeSet | VolumeExpand | VolumeClone
  | VolumeLabelList | VolumeLabelAdd | VolumeLabelRemove | VolumeLabelPatch
  | SnapshotList | SnapshotGet | SnapshotCreate | SnapshotDelete | SnapshotClone | SnapshotLabelList
  | ExportAdd | ExportRemove | ExportList
  | TaskList | TaskGet | TaskCancel | TaskCreateScrub | TaskCreateTest
  | Version | ShowStats | ShowHealth

record sorters =
  so_vd :: "VolumeDetailResponse sorter"
  so_v :: "VolumeResponse sorter"
  so_sd :: "SnapshotDetailResponse sorter"
  so_s :: "SnapshotResponse sorter"
  so_ed :: "ExportDetailResponse sorter"
  so_e :: "ExportResponse sorter"
  so_td :: "TaskDetailResponse sorter"
  so_t :: "TaskResponse sorter"

text \<open>What a run of the program has beside the command line: the environment, the printing of JSON values, the clock
  of the waiting loop, whether the output is a terminal, the ticks before the interrupt, and the version.\<close>

record 'f process =
  pr_env :: "'f cli_env"
  pr_show :: "json \<Rightarrow> string"
  pr_clock :: "nat \<Rightarrow> int"
  pr_sorters :: sorters
  pr_tty :: bool
  pr_ticks :: nat
  pr_version :: string
  pr_commit :: string

definition sort_or :: "command \<Rightarrow> string \<Rightarrow> string" where
  "sort_or cm d = (if cm_String cm ''sort'' = [] then d else cm_String cm ''sort'')"

text \<open>\<open>runWatch\<close>: the action once, or again at every tick until the interrupt comes. The escape sequences and the line
  with the timing are left out.\<close>

fun watch_turns :: "nat \<Rightarrow> ('s \<Rightarrow> ('f, 's) ran option) \<Rightarrow> 's \<Rightarrow> ('f, 's) ran option" where
  "watch_turns n fn st = (case fn st of
       None \<Rightarrow> None
     | Some ((Some e, outs), st1) \<Rightarrow> Some ((Some e, outs), st1)
     | Some ((None, outs), st1) \<Rightarrow> (case n of 0 \<Rightarrow> Some ((None, outs), st1) | Suc m \<Rightarrow> map_option (after_lines outs) (watch_turns m fn st1)))"

definition runWatch :: "'f process \<Rightarrow> command \<Rightarrow> ('s \<Rightarrow> ('f, 's) ran option) \<Rightarrow> 's \<Rightarrow> ('f, 's) ran option" where
  "runWatch p cm fn st = (if \<not> cm_IsSet cm ''watch'' \<or> \<not> pr_tty p then fn st else watch_turns (pr_ticks p) fn st)"

text \<open>The agent's version is asked for when the client can be configured.\<close>

definition showVersion :: "'f process \<Rightarrow> (client_error \<Rightarrow> string) \<Rightarrow> ('f, 's) transport \<Rightarrow> client \<Rightarrow> command \<Rightarrow> 's \<Rightarrow> ('f, 's) ran" where
  "showVersion p msg http c cm st =
     (let line = (\<lambda>v k. Stdout (''  btrfs-nfs-csi '' @ v @ '' ('' @ k @ '')''));
          ls = [Stdout ''Local:'', line (pr_version p) (pr_commit p)]
      in if cm_String cm ''agent-url'' \<noteq> [] \<and> cm_String cm ''agent-token'' \<noteq> []
         then (case c_Healthz http c st of
                 (Inr h, st1) \<Rightarrow> ((None, ls @ [Stdout ''Agent:'', line (hr_Version h) (hr_Commit h)]), st1)
               | (Inl e, st1) \<Rightarrow> ((None, ls @ [Stdout ''Agent:'', Stdout (''  unreachable ('' @ msg e @ '')'')]), st1))
         else ((None, ls), st))"

text \<open>\<open>initClient\<close>: the client of a command, from its flags and the identity of the command line.\<close>

definition initClient :: "ClientConfig option \<Rightarrow> command \<Rightarrow> string + client" where
  "initClient parsed cm = NewClient parsed (cm_String cm ''agent-url'') (cm_String cm ''agent-token'') IdentityCLI"

fun run_action :: "'f process \<Rightarrow> (client_error \<Rightarrow> string) \<Rightarrow> ('f, 's) transport \<Rightarrow> client \<Rightarrow> cli_action \<Rightarrow> command \<Rightarrow> 's \<Rightarrow> ('f, 's) ran option" where
  "run_action p msg http c VolumeList cm st = runWatch p cm
     (listVolumes (pr_env p) (so_vd (pr_sorters p)) (so_v (pr_sorters p)) http c cm (sort_or cm sortUsedPct) (\<not> cm_Bool cm ''asc'') (buildListOpts cm)) st"
| "run_action p msg http c VolumeGet cm st = runWatch p cm (\<lambda>s. Some (volumeGet (pr_env p) http c cm s)) st"
| "run_action p msg http c VolumeCreate cm st = Some (volumeCreate http c cm st)"
| "run_action p msg http c VolumeDelete cm st = Some (volumeDelete (pr_env p) http c cm st)"
| "run_action p msg http c VolumeSet cm st = Some (volumeSet http c cm st)"
| "run_action p msg http c VolumeExpand cm st = Some (volumeExpand http c cm st)"
| "run_action p msg http c VolumeClone cm st = Some (volumeClone http c cm st)"
| "run_action p msg http c VolumeLabelList cm st = Some (volumeLabelList http c cm st)"
| "run_action p msg http c VolumeLabelAdd cm st = Some (volumeLabelAdd http c cm st)"
| "run_action p msg http c VolumeLabelRemove cm st = Some (volumeLabelRemove http c cm st)"
| "run_action p msg http c VolumeLabelPatch cm st = Some (volumeLabelPatch http c cm st)"
| "run_action p msg http c SnapshotList cm st = runWatch p cm
     (listSnapshots (pr_env p) (so_sd (pr_sorters p)) (so_s (pr_sorters p)) http c cm (arg cm 0) (sort_or cm sortCreated) (\<not> cm_Bool cm ''asc'')
       (buildListOpts cm)) st"
| "run_action p msg http c SnapshotGet cm st = runWatch p cm (\<lambda>s. Some (snapshotGet (pr_env p) http c cm s)) st"
| "run_action p msg http c SnapshotCreate cm st = Some (snapshotCreate http c cm st)"
| "run_action p msg http c SnapshotDelete cm st = Some (snapshotDelete (pr_env p) http c cm st)"
| "run_action p msg http c SnapshotClone cm st = Some (snapshotClone http c cm st)"
| "run_action p msg http c SnapshotLabelList cm st = Some (snapshotLabelList http c cm st)"
| "run_action p msg http c ExportAdd cm st = Some (exportAdd http c cm st)"
| "run_action p msg http c ExportRemove cm st = Some (exportRemove http c cm st)"
| "run_action p msg http c ExportList cm st = runWatch p cm
     (listExports (pr_env p) (so_ed (pr_sorters p)) (so_e (pr_sorters p)) http c cm (cm_String cm ''sort'') (\<not> cm_Bool cm ''asc'') (buildListOpts cm)) st"
| "run_action p msg http c TaskList cm st = runWatch p cm
     (listTasks (pr_env p) (pr_show p) (so_td (pr_sorters p)) (so_t (pr_sorters p)) http c cm (cm_String cm ''type'') (sort_or cm sortCreated)
       (\<not> cm_Bool cm ''asc'') (buildListOpts cm)) st"
| "run_action p msg http c TaskGet cm st = runWatch p cm (\<lambda>s. Some (taskGet (pr_env p) (pr_show p) http c cm s)) st"
| "run_action p msg http c TaskCancel cm st = Some (taskCancel http c cm st)"
| "run_action p msg http c TaskCreateScrub cm st = taskCreateScrub (pr_env p) (pr_show p) (pr_clock p) http c cm st"
| "run_action p msg http c TaskCreateTest cm st = taskCreateTest (pr_env p) (pr_show p) (pr_clock p) http c cm st"
| "run_action p msg http c Version cm st = Some (showVersion p msg http c cm st)"
| "run_action p msg http c ShowStats cm st = runWatch p cm (\<lambda>s. Some (showStats (pr_env p) http c cm s)) st"
| "run_action p msg http c ShowHealth cm st = runWatch p cm (\<lambda>s. Some (showHealth http c cm s)) st"

section \<open>The tree\<close>

text \<open>A command: its name and aliases, its flags with their aliases, and an action or further commands.\<close>

datatype cli_command = Command string "string list" "(string \<times> string list) list" "cli_action option" "cli_command list"

definition labelFlag :: "string \<times> string list" where "labelFlag = (''label'', [''l''])"
definition allFlag :: "string \<times> string list" where "allFlag = (''all'', [''A''])"
definition sortFlag :: "string \<times> string list" where "sortFlag = (''sort'', [''s''])"
definition ascFlag :: "string \<times> string list" where "ascFlag = (''asc'', [])"
definition watchFlag :: "string \<times> string list" where "watchFlag = (''watch'', [''w''])"
definition columnsFlag :: "string \<times> string list" where "columnsFlag = (''columns'', [''c''])"

definition listFlags :: "(string \<times> string list) list" where
  "listFlags = [allFlag, sortFlag, ascFlag, labelFlag, columnsFlag, watchFlag]"

definition leaf :: "string \<Rightarrow> string list \<Rightarrow> (string \<times> string list) list \<Rightarrow> cli_action \<Rightarrow> cli_command" where
  "leaf name aliases fs act = Command name aliases fs (Some act) []"

definition volumeCmd :: cli_command where
  "volumeCmd = Command ''volume'' [''volumes'', ''vol'', ''v''] [] None
     [leaf ''list'' [''ls'', ''l''] listFlags VolumeList,
      leaf ''get'' [''g''] [watchFlag] VolumeGet,
      leaf ''create'' [''c''] [(''compression'', [''c'']), (''nocow'', [''C'']), (''uid'', [''u'']), (''gid'', [''g'']), (''mode'', [''m'']), labelFlag]
        VolumeCreate,
      leaf ''delete'' [''rm'', ''d''] [(''confirm'', []), (''yes'', [])] VolumeDelete,
      leaf ''set'' [''s''] [(''uid'', [''u'']), (''gid'', [''g'']), (''mode'', [''m'']), (''compression'', []), (''nocow'', [])] VolumeSet,
      leaf ''expand'' [''e''] [] VolumeExpand,
      leaf ''clone'' [''cl''] [labelFlag] VolumeClone,
      Command ''label'' [''labels'', ''lb''] [] None
        [leaf ''list'' [''ls'', ''l''] [] VolumeLabelList,
         leaf ''add'' [''a''] [] VolumeLabelAdd,
         leaf ''remove'' [''rm'', ''r''] [] VolumeLabelRemove,
         leaf ''patch'' [''p''] [] VolumeLabelPatch]]"

definition snapshotCmd :: cli_command where
  "snapshotCmd = Command ''snapshot'' [''snapshots'', ''snap'', ''s''] [] None
     [leaf ''list'' [''ls'', ''l''] listFlags SnapshotList,
      leaf ''get'' [''g''] [watchFlag] SnapshotGet,
      leaf ''create'' [''c''] [labelFlag] SnapshotCreate,
      leaf ''delete'' [''rm'', ''d''] [(''confirm'', []), (''yes'', [])] SnapshotDelete,
      leaf ''clone'' [] [labelFlag] SnapshotClone,
      Command ''label'' [''labels'', ''lb''] [] None [leaf ''list'' [''ls'', ''l''] [] SnapshotLabelList]]"

definition exportCmd :: cli_command where
  "exportCmd = Command ''export'' [''exports'', ''e''] [] None
     [leaf ''add'' [''a''] [labelFlag] ExportAdd,
      leaf ''remove'' [''rm'', ''r''] [labelFlag] ExportRemove,
      leaf ''list'' [''ls'', ''l''] listFlags ExportList]"

definition taskCmd :: cli_command where
  "taskCmd = Command ''task'' [''tasks'', ''t''] [] None
     [leaf ''list'' [''ls'', ''l''] ((''type'', [''t'']) # listFlags) TaskList,
      leaf ''get'' [''g''] [watchFlag] TaskGet,
      leaf ''cancel'' [] [] TaskCancel,
      Command ''create'' [''c''] [] None
        [leaf TypeScrub [] [(''timeout'', [''t'']), (''wait'', [''W'']), labelFlag] TaskCreateScrub,
         leaf TypeTest [] [(''sleep'', [''s'']), (''timeout'', [''t'']), (''wait'', [''W'']), labelFlag] TaskCreateTest]]"

definition versionCmd :: cli_command where "versionCmd = leaf ''version'' [] [] Version"
definition statsCmd :: cli_command where "statsCmd = leaf ''stats'' [] [watchFlag] ShowStats"
definition healthCmd :: cli_command where "healthCmd = leaf ''health'' [] [watchFlag] ShowHealth"

text \<open>The flags that every command of the client gets; flags of a command count for the commands below it.\<close>

definition hookFlags :: "(string \<times> string list) list" where
  "hookFlags = [(''agent-url'', []), (''agent-token'', []), (''output'', [''o''])]"

definition withCLIHooks :: "cli_command list \<Rightarrow> cli_command list" where
  "withCLIHooks cmds = map (\<lambda>x. case x of Command n as fs act subs \<Rightarrow> Command n as (fs @ hookFlags) act subs) cmds"

definition client_commands :: "cli_command list" where
  "client_commands = withCLIHooks [volumeCmd, snapshotCmd, exportCmd, taskCmd, versionCmd, statsCmd, healthCmd]"

section \<open>Lookups are unambiguous\<close>

definition spelled :: "cli_command \<Rightarrow> string list" where
  "spelled x = (case x of Command n as fs act subs \<Rightarrow> n # as)"

definition flag_names :: "(string \<times> string list) list \<Rightarrow> string list" where
  "flag_names fs = concat (map (\<lambda>(n, as). n # as) fs)"

text \<open>No two commands beside each other share a name or an alias, and no two flags that a command sees do.\<close>

fun unambiguous :: "(string \<times> string list) list \<Rightarrow> cli_command \<Rightarrow> bool" where
  "unambiguous seen (Command n as fs act subs) \<longleftrightarrow>
     distinct (flag_names (seen @ fs)) \<and> distinct (concat (map spelled subs)) \<and> list_all (unambiguous (seen @ fs)) subs"

lemma commands_unambiguous: "distinct (concat (map spelled client_commands)) \<and> list_all (unambiguous []) client_commands"
  by code_simp

text \<open>The command a list of names leads to.\<close>

fun find_action :: "cli_command list \<Rightarrow> string list \<Rightarrow> cli_action option" where
  "find_action cmds [] = None"
| "find_action cmds (n # ns) = (case find (\<lambda>x. n \<in> set (spelled x)) cmds of
       None \<Rightarrow> None
     | Some (Command m as fs act subs) \<Rightarrow> if subs = [] then act else find_action subs ns)"

text \<open>Every action can be reached by its name.\<close>

lemma actions_reachable:
  "map (find_action client_commands)
     [[''volume'', ''list''], [''v'', ''rm''], [''volume'', ''expand''], [''vol'', ''label'', ''patch''], [''snap'', ''clone''], [''e'', ''add''],
      [''task'', ''create'', ''scrub''], [''health'']] =
   map Some [VolumeList, VolumeDelete, VolumeExpand, VolumeLabelPatch, SnapshotClone, ExportAdd, TaskCreateScrub, ShowHealth]"
  by code_simp

end
