(* ===== verification/CliSort.thy ===== *)
theory CliSort
  imports Cli "HOL-Library.Multiset"
begin

text \<open>
  The contract of \<open>slices.SortFunc\<close>, on which the list commands rely: for a comparison that is a strict weak
  order the result is sorted and has the same elements. The comparisons of the commands are such orders, so the
  lists they print are sorted and complete, whatever the algorithm does with equal elements.
\<close>

section \<open>Comparisons\<close>

definition comparator :: "('a \<Rightarrow> 'a \<Rightarrow> int) \<Rightarrow> bool" where
  "comparator cmp \<longleftrightarrow> (\<forall>a b. cmp a b < 0 \<longleftrightarrow> 0 < cmp b a) \<and> (\<forall>a b c. cmp a b \<le> 0 \<longrightarrow> cmp b c \<le> 0 \<longrightarrow> cmp a c \<le> 0)"

lemma comparator_compare [simp]: "comparator (\<lambda>a b. compare (f a) (f b))"
  by (auto simp: comparator_def compare_def)

lemma comparator_by: "comparator cmp \<Longrightarrow> comparator (\<lambda>a b. cmp (f a) (f b))"
  unfolding comparator_def by blast

lemma comparator_directed: "comparator cmp \<Longrightarrow> comparator (\<lambda>a b. directed rv (cmp a b))"
  unfolding comparator_def directed_def by (smt (verit))

lemma comparator_if: "(P \<Longrightarrow> comparator f) \<Longrightarrow> (\<not> P \<Longrightarrow> comparator g) \<Longrightarrow> comparator (\<lambda>a b. if P then f a b else g a b)"
  by (cases P) simp_all

lemma comparator_volume: "comparator (cx_compare env) \<Longrightarrow> comparator (volume_compare env field)"
  unfolding volume_compare_def[abs_def]
  using comparator_by[of "cx_compare env" "\<lambda>v. usedPct env (vr_UsedBytes v) (vr_SizeBytes v)"] by (intro comparator_if) simp_all

lemma comparator_volume_detail: "comparator (cx_compare env) \<Longrightarrow> comparator (volume_detail_compare env field)"
  unfolding volume_detail_compare_def[abs_def]
  using comparator_by[of "cx_compare env" "\<lambda>v. usedPct env (vd_UsedBytes v) (vd_SizeBytes v)"] by (intro comparator_if) simp_all

section \<open>The contract\<close>

locale slices_sort =
  fixes sortFunc :: "('a \<Rightarrow> 'a \<Rightarrow> int) \<Rightarrow> 'a list \<Rightarrow> 'a list"
  assumes sort_mset: "mset (sortFunc cmp xs) = mset xs"
    and sort_sorted: "comparator cmp \<Longrightarrow> sorted_wrt (\<lambda>a b. cmp a b \<le> 0) (sortFunc cmp xs)"
begin

lemma sorts: "comparator cmp \<Longrightarrow> sorted_wrt (\<lambda>a b. cmp a b \<le> 0) (sortFunc cmp xs) \<and> mset (sortFunc cmp xs) = mset xs"
  using sort_mset sort_sorted by blast

end

definition sorts_by :: "('a \<Rightarrow> 'a \<Rightarrow> int) \<Rightarrow> bool \<Rightarrow> 'a list \<Rightarrow> 'a list \<Rightarrow> bool" where
  "sorts_by cmp rv xs ys \<longleftrightarrow> sorted_wrt (\<lambda>a b. directed rv (cmp a b) \<le> 0) ys \<and> mset ys = mset xs"

text \<open>Ascending or descending, by the field of the flag.\<close>

lemma sortVolumes_sorts:
  assumes "slices_sort sortFunc" "comparator (cx_compare env)"
  shows "sorts_by (volume_compare env field) rv vols (sortVolumes env sortFunc field rv vols)"
  unfolding sorts_by_def sortVolumes_def by (rule slices_sort.sorts[OF assms(1) comparator_directed[OF comparator_volume[OF assms(2)]]])

lemma sortVolumesDetail_sorts:
  assumes "slices_sort sortFunc" "comparator (cx_compare env)"
  shows "sorts_by (volume_detail_compare env field) rv vols (sortVolumesDetail env sortFunc field rv vols)"
  unfolding sorts_by_def sortVolumesDetail_def by (rule slices_sort.sorts[OF assms(1) comparator_directed[OF comparator_volume_detail[OF assms(2)]]])

lemma sort_lists_complete:
  "slices_sort s1 \<Longrightarrow> mset (sortSnapshots s1 field rv a1) = mset a1" "slices_sort s2 \<Longrightarrow> mset (sortSnapshotsDetail s2 field rv a2) = mset a2"
  "slices_sort s3 \<Longrightarrow> mset (sortExportsList s3 field rv a3) = mset a3" "slices_sort s4 \<Longrightarrow> mset (sortExportsDetailList s4 field rv a4) = mset a4"
  "slices_sort s5 \<Longrightarrow> mset (sortTasks s5 field rv a5) = mset a5" "slices_sort s6 \<Longrightarrow> mset (sortTasksDetail s6 field rv a6) = mset a6"
  by (simp_all add: sortSnapshots_def sortSnapshotsDetail_def sortExportsList_def sortExportsDetailList_def sortTasks_def sortTasksDetail_def
      slices_sort.sort_mset)

section \<open>Insertion sort\<close>

text \<open>\<open>insertionSortCmpFunc\<close>, which \<open>slices\<close> runs on short lists: each element moves left past the greater ones. The
  sorted part is kept in reverse.\<close>

fun insert_left :: "('a \<Rightarrow> 'a \<Rightarrow> int) \<Rightarrow> 'a \<Rightarrow> 'a list \<Rightarrow> 'a list" where
  "insert_left cmp x [] = [x]"
| "insert_left cmp x (y # ys) = (if cmp x y < 0 then y # insert_left cmp x ys else x # y # ys)"

definition insertionSortCmpFunc :: "('a \<Rightarrow> 'a \<Rightarrow> int) \<Rightarrow> 'a list \<Rightarrow> 'a list" where
  "insertionSortCmpFunc cmp xs = rev (fold (insert_left cmp) xs [])"

lemma insert_left_mset: "mset (insert_left cmp x ys) = add_mset x (mset ys)"
  by (induction ys) auto

lemma insert_left_sorted:
  assumes "comparator cmp"
  shows "sorted_wrt (\<lambda>a b. cmp b a \<le> 0) ys \<Longrightarrow> sorted_wrt (\<lambda>a b. cmp b a \<le> 0) (insert_left cmp x ys)"
proof (induction ys)
  case (Cons y ys)
  have s: "set (insert_left cmp x ys) = insert x (set ys)" using insert_left_mset[of cmp x ys] by (metis set_mset_add_mset_insert set_mset_mset)
  show ?case
  proof (cases "cmp x y < 0")
    case True
    then show ?thesis using Cons s by auto
  next
    case False
    then have "cmp y x \<le> 0" using assms unfolding comparator_def by (meson not_le)
    moreover have "cmp z x \<le> 0" if "z \<in> set ys" for z
      using Cons.prems that \<open>cmp y x \<le> 0\<close> assms unfolding comparator_def by (metis sorted_wrt.simps(2))
    ultimately show ?thesis using False Cons.prems by auto
  qed
qed simp

interpretation insertion: slices_sort insertionSortCmpFunc
proof
  fix cmp :: "'a \<Rightarrow> 'a \<Rightarrow> int" and xs :: "'a list"
  have "mset (fold (insert_left cmp) xs ys) = mset xs + mset ys" for ys by (induction xs arbitrary: ys) (simp_all add: insert_left_mset)
  then show "mset (insertionSortCmpFunc cmp xs) = mset xs" by (simp add: insertionSortCmpFunc_def)
  assume c: "comparator cmp"
  have "sorted_wrt (\<lambda>a b. cmp b a \<le> 0) ys \<Longrightarrow> sorted_wrt (\<lambda>a b. cmp b a \<le> 0) (fold (insert_left cmp) xs ys)" for ys
    by (induction xs arbitrary: ys) (simp_all add: insert_left_sorted[OF c])
  then show "sorted_wrt (\<lambda>a b. cmp a b \<le> 0) (insertionSortCmpFunc cmp xs)" by (simp add: insertionSortCmpFunc_def sorted_wrt_rev)
qed

end
