(* ===== verification/CliProps.thy ===== *)
theory CliProps
  imports CliTree CliSort Quiet AgentProps
begin

text \<open>
  The command line against the agent: what \<open>volume delete\<close> spares, and that \<open>volume expand\<close> is exact.
\<close>

section \<open>What a delete spares\<close>

lemma volume_dirs_apart:
  assumes wf: "store_wf st" and v: "ValidName t" "ValidName n" "ValidName m" "n \<noteq> m" and q: "under (Dir st t m) q"
  shows "\<not> under (Dir st t n) q"
proof
  assume d: "under (Dir st t n) q"
  have g: "\<forall>c \<in> set (entry_comps st t m). good_comp c" "\<forall>c \<in> set (entry_comps st t n). good_comp c"
    using entry_comps_good_list[OF wf v(1,2)] entry_comps_good_list[OF wf v(1,3)] by auto
  have "prefix (entry_comps st t m) (entry_comps st t n) \<or> prefix (entry_comps st t n) (entry_comps st t m)"
    using under_comparable[OF q d] under_render[OF _ g] under_render[OF _ g(2,1)] unfolding Dir_render[OF wf v(1,2)] Dir_render[OF wf v(1,3)]
    by (auto simp: entry_comps_def)
  then show False using v(4) by (auto simp: entry_comps_def prefix_def)
qed

lemma untouched_trans: "untouched d w w1 \<Longrightarrow> untouched d w1 w2 \<Longrightarrow> untouched d w w2"
  unfolding untouched_def by (metis option.distinct(1))

text \<open>The state still has the volume: the entry in the cache and everything below its directory.\<close>

definition spares :: "string \<Rightarrow> string \<Rightarrow> VolumeMetadata \<Rightarrow> state \<Rightarrow> state \<Rightarrow> bool" where
  "spares t m v st st' \<longleftrightarrow> map_of (cache (st_volumes (snd st'))) (key t m) = Some v \<and>
     untouched (Dir (st_volumes (snd st)) t m) (fst st) (fst st') \<and> Dir (st_volumes (snd st')) = Dir (st_volumes (snd st))"

text \<open>What holds before each turn of the loop.\<close>

definition agent_ok :: "string \<Rightarrow> string \<Rightarrow> VolumeMetadata \<Rightarrow> state \<Rightarrow> bool" where
  "agent_ok t m v st \<longleftrightarrow> sys_inv (fst st) (snd st) \<and> btrfs_local (st_btrfs (snd st)) \<and> map_of (cache (st_volumes (snd st))) (key t m) = Some v"

lemma spares_trans: "spares t m v st st1 \<Longrightarrow> spares t m v st1 st2 \<Longrightarrow> spares t m v st st2"
  by (auto simp: spares_def intro: untouched_trans)

lemma spares_refl: "agent_ok t m v st \<Longrightarrow> spares t m v st st"
  by (simp add: spares_def agent_ok_def)

lemma spares_Get:
  assumes ok: "agent_ok t m v st" and g: "GetVolume t n st = (r, st1)"
  shows "agent_ok t m v st1" "spares t m v st st1" "r = Inr v1 \<Longrightarrow> n = m \<Longrightarrow> v1 = v"
proof -
  obtain w s w1 s1 where st: "st = (w, s)" "st1 = (w1, s1)" by (cases st, cases st1) blast
  note gi = GetVolume_inv[of w s t n r w1 s1]
  have i: "sys_inv w s" using ok by (simp add: agent_ok_def st)
  obtain vs where vs: "s1 = s\<lparr>st_volumes := vs\<rparr>" "same_paths (st_volumes s) vs" using gi(3)[OF i] g st by auto
  have k: "map_of (cache (st_volumes s1)) (key t m) = Some v"
  proof (cases "n = m")
    case True
    then show ?thesis using g ok GetVolume_cached[of s t m v w] GetVolume_rejected[of s t w m] unfolding st agent_ok_def by force
  next
    case False
    have "only_key (key t n) (st_volumes s) (st_volumes s1)"
      using g by (auto simp: st GetVolume_def dest: only_key_Get split: sum.splits prod.splits)
    then show ?thesis using False ok by (simp add: only_key_def key_def agent_ok_def st)
  qed
  show "agent_ok t m v st1" using gi(1)[OF i] g ok k vs by (simp add: agent_ok_def st)
  show "spares t m v st st1" using gi(2)[OF i] g k vs Dir_same[OF vs(2)] by (simp add: spares_def st)
  show "v1 = v" if "r = Inr v1" "n = m" using gi(4)[OF i, of v1] g k that by (simp add: st)
qed

lemma Delete_frame:
  assumes "Get cd t n w s = (r, s1)" "Delete t n (w1, s1) = (w2, s2)"
  shows "only_key (key t n) s s2 \<and> same_paths s s2"
  using only_key_trans[OF only_key_Get[OF assms(1)] only_key_Delete[OF assms(2)]] same_paths_Get[OF assms(1)] same_paths_Delete[OF assms(2)]
  by (simp add: same_paths_def)

lemma spares_Delete:
  assumes ok: "agent_ok t m v st" and d: "DeleteVolume t n st = (r, st1)" and n: "n \<noteq> m" "n \<noteq> SnapshotsDir" "ValidName t" "ValidName n" "ValidName m"
  shows "agent_ok t m v st1" "spares t m v st st1"
proof -
  obtain w s w1 s1 where st: "st = (w, s)" "st1 = (w1, s1)" by (cases st, cases st1) blast
  have i: "sys_inv w s" "btrfs_local (st_btrfs s)" and k: "map_of (cache (st_volumes s)) (key t m) = Some v" using ok by (simp_all add: agent_ok_def st)
  note di = DeleteVolume_inv[OF i n(2) d[unfolded st]]
  have w: "within (Dir (st_volumes s) t n) w w1" using di(2) n by simp
  have o: "only_key (key t n) (st_volumes s) (st_volumes s1) \<and> same_paths (st_volumes s) (st_volumes s1) \<and> st_btrfs s1 = st_btrfs s"
    using d by (auto simp: st DeleteVolume_def split: sum.splits prod.splits option.splits if_splits
        dest: only_key_Get same_paths_Get Delete_frame)
  have "untouched (Dir (st_volumes s) t m) w w1"
    using w volume_dirs_apart[OF sys_invD(3)[OF i(1)] n(3,4,5,1)] by (auto simp: within_def untouched_def)
  moreover have "map_of (cache (st_volumes s1)) (key t m) = Some v" using o k n(1) by (simp add: only_key_def key_def)
  ultimately show "agent_ok t m v st1" "spares t m v st st1" using di(1) i o Dir_same[of "st_volumes s" "st_volumes s1"] by (simp_all add: agent_ok_def spares_def st)
qed

lemma GetVolume_names: "GetVolume t n st = (Inr v, st1) \<Longrightarrow> ValidName t \<and> ValidName n"
  by (auto simp: GetVolume_def tenant_err_None split: prod.splits sum.splits)

lemma detail_fields [simp]: "vd_Labels (volumeDetailResponseFrom v) = vm_Labels v" "vd_SizeBytes (volumeDetailResponseFrom v) = vm_SizeBytes v"
  by (simp_all add: volumeDetailResponseFrom_def)

lemma delete_volumes_spares:
  assumes tok: "map_of (env_tenants env) (cl_token c) = Some t" and m: "ValidName m" and own: "mget (vm_Labels v) LabelCreatedBy \<noteq> cl_identity c"
  shows "delete_volumes (agent_http env ch quiet) c cm False protected names (k, a) = (r, (k', a')) \<Longrightarrow>
    \<forall>n \<in> set names. CHR ''/'' \<notin> set n \<and> n \<noteq> SnapshotsDir \<Longrightarrow> agent_ok t m v (store_state a) \<Longrightarrow>
    spares t m v (store_state a) (store_state a')"
proof (induction names arbitrary: protected k a r)
  case Nil
  then show ?case using spares_refl by auto
next
  case (Cons n names)
  let ?http = "agent_http env ch quiet"
  have n: "CHR ''/'' \<notin> set n" "n \<noteq> SnapshotsDir" using Cons.prems(2) by auto
  obtain g st1 where g: "GetVolume t n (store_state a) = (g, st1)" by (rule prod.exhaust)
  note sg = spares_Get[OF Cons.prems(3) g]
  let ?a1 = "set_store st1 a"
  obtain x where x: "c_GetVolume ?http c n (k, a) = (x, (Suc k, ?a1))"
      "case g of Inl e \<Rightarrow> \<exists>y. x = Inl y | Inr v1 \<Rightarrow> x = Inr (volumeDetailResponseFrom v1)"
    using client_Get[OF tok n(1) g, of ch k] by blast
  show ?case
  proof (cases g)
    case (Inl e)
    then show ?thesis using Cons.prems(1) x sg(2) by auto
  next
    case (Inr v1)
    note vn = GetVolume_names[OF g[unfolded Inr]]
    show ?thesis
    proof (cases "foreign_owner c (Some (vm_Labels v1)) = None")
      case False
      then obtain prot r1 where "delete_volumes ?http c cm False prot names (Suc k, ?a1) = (r1, (k', a'))"
        using Cons.prems(1) x Inr by (auto simp: after_lines_def split: prod.splits)
      then have "spares t m v (store_state ?a1) (store_state a')" by (rule Cons.IH) (use Cons.prems(2) sg(1) in simp_all)
      then show ?thesis using sg(2) spares_trans by simp
    next
      case True
      then have nm: "n \<noteq> m" using sg(3)[OF Inr] own by (auto simp: foreign_owner_def Let_def split: if_splits)
      obtain d st2 where d: "DeleteVolume t n st1 = (d, st2)" by (rule prod.exhaust)
      note sd = spares_Delete[OF sg(1) d nm n(2) vn[THEN conjunct1] vn[THEN conjunct2] m]
      have both: "spares t m v (store_state a) st2" by (rule spares_trans[OF sg(2) sd(2)])
      obtain y where y: "c_DeleteVolume ?http c n (Suc k, ?a1) = (y, (Suc (Suc k), set_store st2 ?a1))"
        using client_Delete[OF tok n(1), of ?a1 d st2 ch "Suc k"] d by auto
      show ?thesis
      proof (cases y)
        case (Some e)
        then show ?thesis using Cons.prems(1) x Inr y True both by auto
      next
        case None
        then obtain r1 where "delete_volumes ?http c cm False protected names (Suc (Suc k), set_store st2 ?a1) = (r1, (k', a'))"
          using Cons.prems(1) x Inr y True by (auto simp: after_lines_def split: prod.splits)
        then have "spares t m v (store_state (set_store st2 ?a1)) (store_state a')" by (rule Cons.IH) (use Cons.prems(2) sd(1) in simp_all)
        then show ?thesis using spares_trans[OF both] by simp
      qed
    qed
  qed
qed


section \<open>Expanding\<close>

lemma word_grows: "(x :: u64) \<le> x + y \<Longrightarrow> unat (x + y) = unat x + unat y"
proof (rule ccontr)
  assume le: "x \<le> x + y" and ne: "unat (x + y) \<noteq> unat x + unat y"
  have b: "unat x < 2 ^ 64" "unat y < 2 ^ 64" using unsigned_less[of x] unsigned_less[of y] by simp_all
  have m: "unat (x + y) = (unat x + unat y) mod 2 ^ 64" by (simp add: unat_word_ariths)
  then have o: "2 ^ 64 \<le> unat x + unat y" using ne by (metis mod_less not_less)
  then have "unat (x + y) = unat x + unat y - 2 ^ 64" using m b by (simp add: mod_if)
  then show False using o b le by (simp add: word_le_nat_alt)
qed

lemma send_size_ok:
  assumes tok: "map_of (env_tenants env) (cl_token c) = Some t" "CHR ''/'' \<notin> set n"
    and k: "map_of (cache (st_volumes (ag_store a))) (key t n) = Some v"
    and run: "send_size (agent_http env ch quiet) c cm n sz (k, a) = ((None, outs), (k', a'))"
  shows "\<exists>v'. map_of (cache (st_volumes (ag_store a'))) (key t n) = Some v' \<and> vm_SizeBytes v' = sz \<and> vm_SizeBytes v \<le> sz"
proof -
  let ?u = "zero_update\<lparr>vur_SizeBytes := Some sz\<rparr>"
  obtain r w' s' where u: "UpdateVolume t n ?u (store_state a) = (r, (w', s'))" by (metis surj_pair)
  obtain x where x: "c_UpdateVolume (agent_http env ch quiet) c n ?u (k, a) = (x, (Suc k, set_store (w', s') a))"
      "case r of Inl e \<Rightarrow> \<exists>y. x = Inl y | Inr v1 \<Rightarrow> x = Inr (volumeDetailResponseFrom v1)"
    using client_Update[OF tok u, of ch k] by blast
  then obtain v1 where r: "r = Inr v1" using run by (cases r) (auto simp: send_size_def updated_def)
  have a': "a' = set_store (w', s') a" using run x r by (simp add: send_size_def updated_def)
  obtain q mode T where q: "update_validate (ag_store a) v ?u = Inr (q, mode)" "v1 = update_meta (update_nocow v q) T v"
      "s' = (ag_store a)\<lparr>st_volumes := cache_put t n v1 (st_volumes (ag_store a))\<rparr>"
    using UpdateVolume_ok[OF u[unfolded r store_state_def] k] by blast
  note i = update_validate_Inr(1)[OF q(1)]
  have "vur_SizeBytes (update_nocow v q) = Some sz" using i by (simp add: update_nocow_def)
  then show ?thesis using i q(2,3) by (simp add: a')
qed

text \<open>C33: \<open>volume expand\<close> is exact and never shrinks. When the command succeeds, the agent holds the volume with
  exactly the size that was asked for: the given size, or the old size plus the given difference, without
  wrap-around, although the command adds 64-bit numbers. A negative difference succeeds only when it is
  zero.\<close>

theorem volumeExpand_exact:
  assumes "map_of (env_tenants env) (cl_token c) = Some t" "CHR ''/'' \<notin> set (arg cm 0)"
    and k: "map_of (cache (st_volumes (ag_store a))) (key t (arg cm 0)) = Some v"
    and run: "volumeExpand (agent_http env ch quiet) c cm (k, a) = ((None, outs), (k', a'))"
  shows "\<exists>v' x. map_of (cache (st_volumes (ag_store a'))) (key t (arg cm 0)) = Some v' \<and> vm_SizeBytes v \<le> vm_SizeBytes v' \<and>
    ParseSize (if relative_size (arg cm 1) then tl (arg cm 1) else arg cm 1) = Inr x \<and>
    unat (vm_SizeBytes v') = (if \<not> relative_size (arg cm 1) then unat x
      else if hd (arg cm 1) = CHR ''+'' then unat (vm_SizeBytes v) + unat x else unat (vm_SizeBytes v)) \<and>
    (relative_size (arg cm 1) \<and> hd (arg cm 1) \<noteq> CHR ''+'' \<longrightarrow> x = 0)"
proof (cases "relative_size (arg cm 1)")
  case False
  then obtain x where "ParseSize (arg cm 1) = Inr x" "send_size (agent_http env ch quiet) c cm (arg cm 0) x (k, a) = ((None, outs), (k', a'))"
    using run by (auto simp: volumeExpand_def Let_def split: if_splits sum.splits)
  then show ?thesis using send_size_ok[OF assms(1,2) k] False by fastforce
next
  case True
  obtain g st1 where g: "GetVolume t (arg cm 0) (store_state a) = (g, st1)" by (rule prod.exhaust)
  obtain y where y: "c_GetVolume (agent_http env ch quiet) c (arg cm 0) (k, a) = (y, (Suc k, set_store st1 a))"
      "case g of Inl e \<Rightarrow> \<exists>y0. y = Inl y0 | Inr v1 \<Rightarrow> y = Inr (volumeDetailResponseFrom v1)"
    using client_Get[OF assms(1,2) g, of ch k] by blast
  obtain x v1 sz where p: "ParseSize (tl (arg cm 1)) = Inr x" and v1: "g = Inr v1" and sz: "resized (arg cm 1) (vm_SizeBytes v1) x = Inr sz"
      and s: "send_size (agent_http env ch quiet) c cm (arg cm 0) sz (Suc k, set_store st1 a) = ((None, outs), (k', a'))"
    using run True y by (auto simp: volumeExpand_def Let_def split: if_splits sum.splits)
  have c1: "tenant_err (ag_store a) t (ts_world (ag_tasks a)) = None \<and> ValidName (arg cm 0)"
    using g v1 GetVolume_rejected[of "ag_store a" t "ts_world (ag_tasks a)" "arg cm 0"] unfolding store_state_def by fastforce
  then have e: "v1 = v" "st1 = store_state a" using GetVolume_cached[OF k] g v1 by (auto simp: store_state_def)
  obtain v' where v': "map_of (cache (st_volumes (ag_store a'))) (key t (arg cm 0)) = Some v'" "vm_SizeBytes v' = sz" "vm_SizeBytes v \<le> sz"
    using send_size_ok[OF assms(1,2) _ s, of v] k e by auto
  show ?thesis
  proof (cases "hd (arg cm 1) = CHR ''+''")
    case pl: True
    then have "sz = vm_SizeBytes v + x" using sz e by (simp add: resized_def)
    then have "unat sz = unat (vm_SizeBytes v) + unat x" using word_grows v'(3) by simp
    then show ?thesis using v' p True pl by auto
  next
    case mi: False
    then have z: "sz = vm_SizeBytes v - x" "x \<le> vm_SizeBytes v" using sz e by (auto simp: resized_def split: if_splits)
    then have "unat sz = unat (vm_SizeBytes v) - unat x" "unat x \<le> unat (vm_SizeBytes v)" by (simp_all add: unat_sub word_le_nat_alt)
    then have "unat x = 0" using v'(3) by (simp add: word_le_nat_alt)
    then have "x = 0" by (simp add: unat_eq_0)
    then show ?thesis using v' p True mi z by auto
  qed
qed

section \<open>Examples\<close>

definition cli_demo :: "unit cli_env" where
  "cli_demo = \<lparr>cx_float64 = (\<lambda>_. ()), cx_div = (\<lambda>_ _. ()), cx_mul = (\<lambda>_ _. ()), cx_const = (\<lambda>_. ()), cx_compare = (\<lambda>_ _. 0),
     cx_fixed0 = (\<lambda>_. ''0''), cx_fixed1 = (\<lambda>_. ''0.0''), cx_uint64 = (\<lambda>_. 0), cx_seconds = (\<lambda>_. ()), cx_FormatTime = (\<lambda>_. []),
     cx_Duration = (\<lambda>_. []), cx_now = 0, cx_force = []\<rparr>"

definition cli_line :: "string list \<Rightarrow> command" where
  "cli_line as = \<lparr>cm_Args = as, cm_String = (\<lambda>_. []), cm_Bool = (\<lambda>_. False), cm_Int = (\<lambda>_. 0), cm_Duration = (\<lambda>_. 0), cm_StringSlice = (\<lambda>_. []),
     cm_IsSet = (\<lambda>_. False)\<rparr>"

definition cli_agent :: "unit agent" where
  "cli_agent = set_store demo_state demo_agent"

lemma cli_agent_state:
  "ts_world (ag_tasks cli_agent) = fst demo_state" "ag_store cli_agent = snd demo_state"
  "map_of (cache (st_volumes (ag_store cli_agent))) (key ''t'' ''v'') = Some demo_meta" "map_of (env_tenants demo_api) (cl_token demo_client) = Some ''t''"
  by (simp_all add: cli_agent_def set_store_def) code_simp+


lemma demo_size: "relative_size ''+4Ki''" "ParseSize ''4Ki'' = Inr 4096"
proof -
  show "relative_size ''+4Ki''" by (simp add: relative_size_def less_eq_char_def)
  have "parse_uint 10 64 ''4'' = Inr 4" by code_simp
  then show "ParseSize ''4Ki'' = Inr 4096" using scaled_exact[of 4 1024] by (simp add: ParseSize_def size_suffixes2_def)
qed

lemma demo_get: "c_GetVolume (agent_http demo_api (\<lambda>_. demo_choices) quiet) demo_client ''v'' (0, cli_agent) =
  (Inr (volumeDetailResponseFrom demo_meta), (1, cli_agent))"
proof -
  have v: "tenant_err (snd demo_state) ''t'' (fst demo_state) = None" "ValidName ''v''" "CHR ''/'' \<notin> set ''v''" by code_simp+
  have "GetVolume ''t'' ''v'' (store_state cli_agent) = (Inr demo_meta, store_state cli_agent)"
    using GetVolume_cached[OF cli_agent_state(3), of "ts_world (ag_tasks cli_agent)"] v by (simp add: store_state_def cli_agent_state(1,2))
  moreover have "set_store (store_state cli_agent) cli_agent = cli_agent" by (simp add: set_store_def store_state_def)
  ultimately show ?thesis using client_Get[OF cli_agent_state(4) v(3), of cli_agent _ _ "\<lambda>_. demo_choices" 0] by fastforce
qed

lemma demo_expand: "\<exists>outs k' a'. send_size (agent_http demo_api (\<lambda>_. demo_choices) quiet) demo_client cm ''v'' 8192 (1, cli_agent) = ((None, outs), (k', a'))"
proof -
  have "case fst (c_UpdateVolume (agent_http demo_api (\<lambda>_. demo_choices) quiet) demo_client ''v'' (zero_update\<lparr>vur_SizeBytes := Some 8192\<rparr>) (1, cli_agent)) of
      Inl _ \<Rightarrow> False | Inr v \<Rightarrow> True" by code_simp
  then show ?thesis
    by (cases "c_UpdateVolume (agent_http demo_api (\<lambda>_. demo_choices) quiet) demo_client ''v'' (zero_update\<lparr>vur_SizeBytes := Some 8192\<rparr>) (1, cli_agent)")
       (auto simp: send_size_def updated_def split: sum.splits)
qed

text \<open>The volume of four kibibytes grows by four.\<close>

theorem volumeExpand_exact_witness:
  "\<exists>outs k' a' v'. volumeExpand (agent_http demo_api (\<lambda>_. demo_choices) quiet) demo_client (cli_line [''v'', ''+4Ki'']) (0, cli_agent) =
     ((None, outs), (k', a')) \<and> map_of (cache (st_volumes (ag_store a'))) (key ''t'' ''v'') = Some v' \<and> unat (vm_SizeBytes v') = 8192"
proof -
  have a: "arg (cli_line [''v'', ''+4Ki'']) 0 = ''v''" "arg (cli_line [''v'', ''+4Ki'']) 1 = ''+4Ki''" by (simp_all add: arg_def cli_line_def)
  have p: "ParseSize (if relative_size ''+4Ki'' then tl ''+4Ki'' else ''+4Ki'') = Inr 4096" "relative_size ''+4Ki''" by (simp_all add: demo_size)
  have "volumeExpand (agent_http demo_api (\<lambda>_. demo_choices) quiet) demo_client (cli_line [''v'', ''+4Ki'']) (0, cli_agent) =
      send_size (agent_http demo_api (\<lambda>_. demo_choices) quiet) demo_client (cli_line [''v'', ''+4Ki'']) ''v'' 8192 (1, cli_agent)"
    unfolding volumeExpand_def Let_def a using p demo_get by (simp add: cli_line_def resized_def demo_meta_def)
  then obtain outs k' a' where run: "volumeExpand (agent_http demo_api (\<lambda>_. demo_choices) quiet) demo_client (cli_line [''v'', ''+4Ki'']) (0, cli_agent) =
      ((None, outs), (k', a'))" using demo_expand[of "cli_line [''v'', ''+4Ki'']"] by (elim exE) simp
  have n: "CHR ''/'' \<notin> set (arg (cli_line [''v'', ''+4Ki'']) 0)" by (simp add: a)
  have k: "map_of (cache (st_volumes (ag_store cli_agent))) (key ''t'' (arg (cli_line [''v'', ''+4Ki'']) 0)) = Some demo_meta"
    unfolding a(1) by (rule cli_agent_state(3))
  obtain v' x where v: "map_of (cache (st_volumes (ag_store a'))) (key ''t'' ''v'') = Some v'"
      "ParseSize (if relative_size ''+4Ki'' then tl ''+4Ki'' else ''+4Ki'') = Inr x"
      "unat (vm_SizeBytes v') = (if \<not> relative_size ''+4Ki'' then unat x
        else if hd ''+4Ki'' = CHR ''+'' then unat (vm_SizeBytes demo_meta) + unat x else unat (vm_SizeBytes demo_meta))"
    using volumeExpand_exact[OF cli_agent_state(4) n k run] unfolding a by (elim exE conjE)
  have "x = 4096" using v(2) unfolding p(1) by simp
  then have "unat (vm_SizeBytes v') = 8192" using v(3) p(2) by (simp add: demo_meta_def)
  then show ?thesis using v(1) run by (intro exI conjI)
qed

end
