(* ===== verification/MetricDecl.thy ===== *)
theory MetricDecl
  imports Complex_Main Prelude
begin

text \<open>
  The Prometheus collectors of the program: \<open>agent/storage/metrics.go\<close>, \<open>agent/storage/task/metrics.go\<close>,
  \<open>agent/api/v1/metrics.go\<close> and the \<open>metrics.go\<close> of the controller and of the node driver. A collector is a
  package variable in the code and a constructor here; its options are the value of a description function. The
  client library is not part of the repository: the program's side of it is the list of calls it makes, and
  \<open>read_call\<close> is the documented effect of a call on the values a scrape returns.
\<close>

section \<open>Collectors\<close>

datatype collector = CounterVec | GaugeVec | HistogramVec "rat list" | PlainGauge

record metric_desc =
  md_kind :: collector
  md_Namespace :: string
  md_Subsystem :: string
  md_Name :: string
  md_Help :: string
  md_labels :: "string list"

definition csi_metric :: "string \<Rightarrow> collector \<Rightarrow> string \<Rightarrow> string \<Rightarrow> string list \<Rightarrow> metric_desc" where
  "csi_metric sub k name help ls =
     \<lparr>md_kind = k, md_Namespace = ''btrfs_nfs_csi'', md_Subsystem = sub, md_Name = name, md_Help = help, md_labels = ls\<rparr>"

definition agent_gauge :: "string \<Rightarrow> string \<Rightarrow> string list \<Rightarrow> metric_desc" where
  "agent_gauge = csi_metric ''agent'' GaugeVec"

text \<open>\<open>agent/storage/metrics.go\<close>\<close>

datatype volume_metric =
    VolumesGauge | ExportsGauge | VolumeSizeBytes | VolumeUsedBytes

datatype device_io_metric =
    DeviceReadBytesTotal | DeviceReadIOsTotal | DeviceReadTimeSecondsTotal | DeviceWriteBytesTotal
  | DeviceWriteIOsTotal | DeviceWriteTimeSecondsTotal | DeviceIOsInProgress | DeviceIOTimeSecondsTotal
  | DeviceIOWeightedTimeSecondsTotal | DeviceSizeBytes | DeviceAllocatedBytes | DevicePresentGauge

datatype device_error_metric =
    DeviceReadErrsTotal | DeviceWriteErrsTotal | DeviceFlushErrsTotal | DeviceCorruptionErrsTotal
  | DeviceGenerationErrsTotal

datatype filesystem_metric =
    FilesystemSizeBytes | FilesystemUsedBytes | FilesystemUnallocatedBytes | FilesystemMetadataUsedBytes
  | FilesystemMetadataTotalBytes | FilesystemDataRatio

text \<open>\<open>agent/storage/task/metrics.go\<close>\<close>

datatype task_metric = tasksTotal | taskDuration | tasksRunning | tasksQueued | tasksWorkers

text \<open>\<open>prometheus.ExponentialBuckets\<close>\<close>

definition ExponentialBuckets :: "rat \<Rightarrow> rat \<Rightarrow> nat \<Rightarrow> rat list" where
  "ExponentialBuckets start factor count = map (\<lambda>i. start * factor ^ i) [0..<count]"

text \<open>\<open>agent/api/v1/metrics.go\<close>\<close>

datatype http_metric = httpRequestsTotal | httpRequestDuration

text \<open>\<open>integrations/kubernetes/driver/metrics.go\<close> and \<open>controller/metrics.go\<close>\<close>

datatype node_metric = node_grpcRequestsTotal | node_grpcRequestDuration | mountOpsTotal | mountDuration | volumeStatsOpsTotal

datatype controller_metric =
  controller_grpcRequestsTotal | controller_grpcRequestDuration | agentOpsTotal | agentDuration | ctrlK8sOpsTotal

datatype metric =
    VolumeM volume_metric | DeviceIOM device_io_metric | DeviceErrorM device_error_metric
  | FilesystemM filesystem_metric | TaskM task_metric | HttpM http_metric | NodeM node_metric | ControllerM controller_metric

section \<open>Descriptions\<close>

primrec volume_metric_desc :: "volume_metric \<Rightarrow> metric_desc" where
  "volume_metric_desc VolumesGauge = agent_gauge ''volumes'' ''Current number of volumes.'' [''tenant'']"
| "volume_metric_desc ExportsGauge = agent_gauge ''exports'' ''Current number of NFS exports.'' [''tenant'']"
| "volume_metric_desc VolumeSizeBytes = agent_gauge ''volume_size_bytes'' ''Volume quota size in bytes.'' [''tenant'', ''volume'']"
| "volume_metric_desc VolumeUsedBytes = agent_gauge ''volume_used_bytes'' ''Volume used space in bytes.'' [''tenant'', ''volume'']"

primrec device_io_metric_desc :: "device_io_metric \<Rightarrow> metric_desc" where
  "device_io_metric_desc DeviceReadBytesTotal = agent_gauge ''device_read_bytes_total'' ''Total bytes read from the block device.'' [''device'']"
| "device_io_metric_desc DeviceReadIOsTotal = agent_gauge ''device_read_ios_total'' ''Total read IO operations on the block device.'' [''device'']"
| "device_io_metric_desc DeviceReadTimeSecondsTotal = agent_gauge ''device_read_time_seconds_total'' ''Total time spent reading from the block device in seconds.'' [''device'']"
| "device_io_metric_desc DeviceWriteBytesTotal = agent_gauge ''device_write_bytes_total'' ''Total bytes written to the block device.'' [''device'']"
| "device_io_metric_desc DeviceWriteIOsTotal = agent_gauge ''device_write_ios_total'' ''Total write IO operations on the block device.'' [''device'']"
| "device_io_metric_desc DeviceWriteTimeSecondsTotal = agent_gauge ''device_write_time_seconds_total'' ''Total time spent writing to the block device in seconds.'' [''device'']"
| "device_io_metric_desc DeviceIOsInProgress = agent_gauge ''device_ios_in_progress'' ''Number of IO operations currently in progress.'' [''device'']"
| "device_io_metric_desc DeviceIOTimeSecondsTotal = agent_gauge ''device_io_time_seconds_total'' ''Total time spent on IO operations in seconds.'' [''device'']"
| "device_io_metric_desc DeviceIOWeightedTimeSecondsTotal = agent_gauge ''device_io_weighted_time_seconds_total'' ''Weighted total time spent on IO operations in seconds.'' [''device'']"
| "device_io_metric_desc DeviceSizeBytes = agent_gauge ''device_size_bytes'' ''Total size of the block device in bytes.'' [''device'']"
| "device_io_metric_desc DeviceAllocatedBytes = agent_gauge ''device_allocated_bytes'' ''Bytes allocated by btrfs on the block device.'' [''device'']"
| "device_io_metric_desc DevicePresentGauge = agent_gauge ''device_present'' ''Whether the block device is present (1) or missing (0).'' [''device'']"

primrec device_error_metric_desc :: "device_error_metric \<Rightarrow> metric_desc" where
  "device_error_metric_desc DeviceReadErrsTotal = agent_gauge ''device_read_errs_total'' ''Total btrfs read errors on the device.'' [''device'']"
| "device_error_metric_desc DeviceWriteErrsTotal = agent_gauge ''device_write_errs_total'' ''Total btrfs write errors on the device.'' [''device'']"
| "device_error_metric_desc DeviceFlushErrsTotal = agent_gauge ''device_flush_errs_total'' ''Total btrfs flush errors on the device.'' [''device'']"
| "device_error_metric_desc DeviceCorruptionErrsTotal = agent_gauge ''device_corruption_errs_total'' ''Total btrfs corruption errors on the device.'' [''device'']"
| "device_error_metric_desc DeviceGenerationErrsTotal = agent_gauge ''device_generation_errs_total'' ''Total btrfs generation errors on the device.'' [''device'']"

primrec filesystem_metric_desc :: "filesystem_metric \<Rightarrow> metric_desc" where
  "filesystem_metric_desc FilesystemSizeBytes = agent_gauge ''filesystem_size_bytes'' ''Total filesystem size in bytes.'' [''path'']"
| "filesystem_metric_desc FilesystemUsedBytes = agent_gauge ''filesystem_used_bytes'' ''Used filesystem space in bytes.'' [''path'']"
| "filesystem_metric_desc FilesystemUnallocatedBytes = agent_gauge ''filesystem_unallocated_bytes'' ''Unallocated filesystem space in bytes.'' [''path'']"
| "filesystem_metric_desc FilesystemMetadataUsedBytes = agent_gauge ''filesystem_metadata_used_bytes'' ''Used metadata space in bytes.'' [''path'']"
| "filesystem_metric_desc FilesystemMetadataTotalBytes = agent_gauge ''filesystem_metadata_total_bytes'' ''Total metadata allocation in bytes.'' [''path'']"
| "filesystem_metric_desc FilesystemDataRatio = agent_gauge ''filesystem_data_ratio'' ''Data RAID profile ratio (1.0 for single, 2.0 for RAID1/DUP).'' [''path'']"

primrec task_metric_desc :: "task_metric \<Rightarrow> metric_desc" where
  "task_metric_desc tasksTotal = csi_metric ''agent'' CounterVec ''tasks_total'' [] [''type'', ''status'']"
| "task_metric_desc taskDuration =
     csi_metric ''agent'' (HistogramVec (ExponentialBuckets 1 2 15)) ''task_duration_seconds'' [] [''type'']"
| "task_metric_desc tasksRunning = csi_metric ''agent'' GaugeVec ''tasks_running'' [] [''type'']"
| "task_metric_desc tasksQueued = csi_metric ''agent'' GaugeVec ''tasks_queued'' [] [''type'']"
| "task_metric_desc tasksWorkers = csi_metric ''agent'' PlainGauge ''tasks_workers'' [] []"

definition http_buckets :: "rat list" where
  "http_buckets = [5 / 1000, 10 / 1000, 25 / 1000, 50 / 1000, 100 / 1000, 250 / 1000, 500 / 1000, 1, 2500 / 1000, 5]"

primrec http_metric_desc :: "http_metric \<Rightarrow> metric_desc" where
  "http_metric_desc httpRequestsTotal = csi_metric ''agent'' CounterVec ''http_requests_total''
     ''Total HTTP requests by method, path, and status code.'' [''method'', ''path'', ''code'']"
| "http_metric_desc httpRequestDuration = csi_metric ''agent'' (HistogramVec http_buckets) ''http_request_duration_seconds''
     ''HTTP request duration in seconds.'' [''method'', ''path'']"

definition grpc_buckets :: "rat list" where
  "grpc_buckets = [5 / 1000, 10 / 1000, 25 / 1000, 50 / 1000, 100 / 1000, 250 / 1000, 500 / 1000, 1, 2500 / 1000, 5, 10]"

definition mount_buckets :: "rat list" where
  "mount_buckets = [10 / 1000, 50 / 1000, 100 / 1000, 250 / 1000, 500 / 1000, 1, 2500 / 1000, 5, 10, 30, 60, 120]"

definition agent_buckets :: "rat list" where
  "agent_buckets = [10 / 1000, 50 / 1000, 100 / 1000, 250 / 1000, 500 / 1000, 1, 2500 / 1000, 5, 10]"

primrec node_metric_desc :: "node_metric \<Rightarrow> metric_desc" where
  "node_metric_desc node_grpcRequestsTotal = csi_metric ''node'' CounterVec ''grpc_requests_total''
     ''Total gRPC requests by method and status code.'' [''method'', ''code'']"
| "node_metric_desc node_grpcRequestDuration = csi_metric ''node'' (HistogramVec grpc_buckets) ''grpc_request_duration_seconds''
     ''gRPC request duration in seconds.'' [''method'']"
| "node_metric_desc mountOpsTotal = csi_metric ''node'' CounterVec ''mount_ops_total''
     ''Total mount/unmount operations by type and status.'' [''operation'', ''status'']"
| "node_metric_desc mountDuration = csi_metric ''node'' (HistogramVec mount_buckets) ''mount_duration_seconds''
     ''Mount/unmount operation duration in seconds.'' [''operation'']"
| "node_metric_desc volumeStatsOpsTotal = csi_metric ''node'' CounterVec ''volume_stats_ops_total''
     ''Total volume stats lookups by status.'' [''status'']"

primrec controller_metric_desc :: "controller_metric \<Rightarrow> metric_desc" where
  "controller_metric_desc controller_grpcRequestsTotal = csi_metric ''controller'' CounterVec ''grpc_requests_total''
     ''Total gRPC requests by method and status code.'' [''method'', ''code'']"
| "controller_metric_desc controller_grpcRequestDuration = csi_metric ''controller'' (HistogramVec grpc_buckets) ''grpc_request_duration_seconds''
     ''gRPC request duration in seconds.'' [''method'']"
| "controller_metric_desc agentOpsTotal = csi_metric ''controller'' CounterVec ''agent_ops_total''
     ''Total agent API operations by type, status, and storage class.'' [''operation'', ''status'', ''storage_class'']"
| "controller_metric_desc agentDuration = csi_metric ''controller'' (HistogramVec agent_buckets) ''agent_duration_seconds''
     ''Agent API operation duration in seconds.'' [''operation'', ''storage_class'']"
| "controller_metric_desc ctrlK8sOpsTotal = csi_metric ''controller'' CounterVec ''k8s_ops_total''
     ''Total K8s API operations from controller by status.'' [''status'']"

primrec metric_desc_of :: "metric \<Rightarrow> metric_desc" where
  "metric_desc_of (VolumeM m) = volume_metric_desc m"
| "metric_desc_of (DeviceIOM m) = device_io_metric_desc m"
| "metric_desc_of (DeviceErrorM m) = device_error_metric_desc m"
| "metric_desc_of (FilesystemM m) = filesystem_metric_desc m"
| "metric_desc_of (TaskM m) = task_metric_desc m"
| "metric_desc_of (HttpM m) = http_metric_desc m"
| "metric_desc_of (NodeM m) = node_metric_desc m"
| "metric_desc_of (ControllerM m) = controller_metric_desc m"

section \<open>Registration\<close>

text \<open>The arguments of \<open>prometheus.MustRegister\<close> in the \<open>init\<close> functions. All packages are linked into one
  program, so all of them register with one registry.\<close>

definition storage_init :: "metric list" where
  "storage_init =
     map VolumeM [VolumesGauge, ExportsGauge, VolumeSizeBytes, VolumeUsedBytes] @
     map DeviceIOM [DeviceReadBytesTotal, DeviceReadIOsTotal, DeviceReadTimeSecondsTotal, DeviceWriteBytesTotal,
       DeviceWriteIOsTotal, DeviceWriteTimeSecondsTotal, DeviceIOsInProgress, DeviceIOTimeSecondsTotal,
       DeviceIOWeightedTimeSecondsTotal, DeviceSizeBytes, DeviceAllocatedBytes, DevicePresentGauge] @
     map DeviceErrorM [DeviceReadErrsTotal, DeviceWriteErrsTotal, DeviceFlushErrsTotal, DeviceCorruptionErrsTotal,
       DeviceGenerationErrsTotal] @
     map FilesystemM [FilesystemSizeBytes, FilesystemUsedBytes, FilesystemUnallocatedBytes, FilesystemMetadataUsedBytes,
       FilesystemMetadataTotalBytes, FilesystemDataRatio]"

definition task_init :: "metric list" where
  "task_init = map TaskM [tasksTotal, taskDuration, tasksRunning, tasksQueued, tasksWorkers]"

definition http_init :: "metric list" where
  "http_init = map HttpM [httpRequestsTotal, httpRequestDuration]"

definition node_init :: "metric list" where
  "node_init = map NodeM [node_grpcRequestsTotal, node_grpcRequestDuration, mountOpsTotal, mountDuration, volumeStatsOpsTotal]"

definition controller_init :: "metric list" where
  "controller_init = map ControllerM
     [controller_grpcRequestsTotal, controller_grpcRequestDuration, agentOpsTotal, agentDuration, ctrlK8sOpsTotal]"

definition registered :: "metric list" where
  "registered = storage_init @ task_init @ http_init @ node_init @ controller_init"

text \<open>\<open>prometheus.BuildFQName\<close>\<close>

definition fq_name :: "metric \<Rightarrow> string" where
  "fq_name m = (let d = metric_desc_of m in
     join_with ''_'' (filter (\<lambda>s. s \<noteq> []) [md_Namespace d, md_Subsystem d, md_Name d]))"

text \<open>\<open>MustRegister\<close> panics when a name is taken already. No \<open>init\<close> function does, and no collector is forgotten:
  an update of a collector that is not registered would be lost.\<close>

lemma registered_all: "m \<in> set registered"
proof (cases m)
  case (VolumeM x) then show ?thesis by (cases x) (simp_all add: registered_def storage_init_def)
next
  case (DeviceIOM x) then show ?thesis by (cases x) (simp_all add: registered_def storage_init_def)
next
  case (DeviceErrorM x) then show ?thesis by (cases x) (simp_all add: registered_def storage_init_def)
next
  case (FilesystemM x) then show ?thesis by (cases x) (simp_all add: registered_def storage_init_def)
next
  case (TaskM x) then show ?thesis by (cases x) (simp_all add: registered_def task_init_def)
next
  case (HttpM x) then show ?thesis by (cases x) (simp_all add: registered_def http_init_def)
next
  case (NodeM x) then show ?thesis by (cases x) (simp_all add: registered_def node_init_def)
next
  case (ControllerM x) then show ?thesis by (cases x) (simp_all add: registered_def controller_init_def)
qed

text \<open>The namespace is the same everywhere and the subsystem is one of three, so two full names agree only when the short
  names and the subsystems do.\<close>

definition short_name :: "metric \<Rightarrow> string \<times> string" where
  "short_name m = (md_Name (metric_desc_of m), md_Subsystem (metric_desc_of m))"

lemma desc_parts:
  "md_Namespace (metric_desc_of m) = ''btrfs_nfs_csi'' \<and> md_Subsystem (metric_desc_of m) \<in> {''agent'', ''node'', ''controller''} \<and>
   md_Name (metric_desc_of m) \<noteq> []"
proof -
  have "list_all (\<lambda>m. md_Namespace (metric_desc_of m) = ''btrfs_nfs_csi'' \<and>
      md_Subsystem (metric_desc_of m) \<in> set [''agent'', ''node'', ''controller''] \<and> md_Name (metric_desc_of m) \<noteq> []) registered"
    by code_simp
  then show ?thesis using registered_all[of m] by (auto simp: list_all_iff)
qed

lemma fq_name_short: "fq_name m = fq_name m' \<Longrightarrow> short_name m = short_name m'"
  using desc_parts[of m] desc_parts[of m'] by (auto simp: fq_name_def short_name_def Let_def)

lemma short_names_distinct: "distinct (map short_name registered)"
  by code_simp

lemma registered_distinct: "distinct (map fq_name registered)"
proof -
  have d: "distinct registered" and i: "inj_on short_name (set registered)"
    using short_names_distinct unfolding distinct_map by blast+
  have "inj_on fq_name (set registered)"
    by (rule inj_onI) (rule inj_onD[OF i fq_name_short])
  then show ?thesis using d unfolding distinct_map by blast
qed

text \<open>Two collectors never share a name.\<close>

lemma fq_name_inj: "fq_name m = fq_name m' \<Longrightarrow> m = m'"
  using registered_distinct registered_all[of m] registered_all[of m'] by (auto simp: distinct_map inj_on_def)

section \<open>Calls\<close>

text \<open>A value is the expression that is converted to \<open>float64\<close>: a number, a number of milliseconds that is divided
  by 1000, a float, or the nanoseconds of a \<open>Duration\<close> whose \<open>Seconds\<close> are taken.\<close>

datatype 'f mvalue = Float64 int | Milliseconds int | FloatValue 'f | Elapsed int

datatype 'f metric_call =
    MReset metric
  | MSet metric "string list" "'f mvalue"
  | MInc metric "string list"
  | MDec metric "string list"
  | MObserve metric "string list" "'f mvalue"

text \<open>\<open>WithLabelValues\<close> panics when the number of values is not the number of labels.\<close>

primrec arity_ok :: "'f metric_call \<Rightarrow> bool" where
  "arity_ok (MReset m) = True"
| "arity_ok (MSet m ls v) = (length ls = length (md_labels (metric_desc_of m)))"
| "arity_ok (MInc m ls) = (length ls = length (md_labels (metric_desc_of m)))"
| "arity_ok (MDec m ls) = (length ls = length (md_labels (metric_desc_of m)))"
| "arity_ok (MObserve m ls v) = (length ls = length (md_labels (metric_desc_of m)))"

text \<open>What a scrape shows of the gauges that are set: \<open>Reset\<close> drops every series of a collector.\<close>

type_synonym 'f series = "metric \<times> string list \<Rightarrow> 'f mvalue option"

primrec read_call :: "'f metric_call \<Rightarrow> 'f series \<Rightarrow> 'f series" where
  "read_call (MReset m) z = (\<lambda>k. if fst k = m then None else z k)"
| "read_call (MSet m ls v) z = z((m, ls) \<mapsto> v)"
| "read_call (MInc m ls) z = z"
| "read_call (MDec m ls) z = z"
| "read_call (MObserve m ls v) z = z"

definition read_calls :: "'f metric_call list \<Rightarrow> 'f series \<Rightarrow> 'f series" where
  "read_calls cs z = fold read_call cs z"

text \<open>The level of a collector that is only incremented and decremented.\<close>

primrec level_call :: "metric \<Rightarrow> string list \<Rightarrow> 'f metric_call \<Rightarrow> int" where
  "level_call m ls (MReset m') = 0"
| "level_call m ls (MSet m' ls' v) = 0"
| "level_call m ls (MInc m' ls') = (if (m', ls') = (m, ls) then 1 else 0)"
| "level_call m ls (MDec m' ls') = (if (m', ls') = (m, ls) then - 1 else 0)"
| "level_call m ls (MObserve m' ls' v) = 0"

definition level :: "metric \<Rightarrow> string list \<Rightarrow> 'f metric_call list \<Rightarrow> int" where
  "level m ls cs = sum_list (map (level_call m ls) cs)"

lemma level_append [simp]: "level m ls (cs @ ds) = level m ls cs + level m ls ds"
  by (simp add: level_def)

lemma level_Nil [simp]: "level m ls [] = 0"
  by (simp add: level_def)

lemma level_Cons [simp]: "level m ls (c # cs) = level_call m ls c + level m ls cs"
  by (simp add: level_def)

lemma read_calls_simps [simp]:
  "read_calls [] z = z" "read_calls (c # cs) z = read_calls cs (read_call c z)"
  "read_calls (cs @ ds) z = read_calls ds (read_calls cs z)"
  by (simp_all add: read_calls_def)

text \<open>Calls leave the collectors alone that they do not name.\<close>

primrec call_metric :: "'f metric_call \<Rightarrow> metric" where
  "call_metric (MReset m) = m"
| "call_metric (MSet m ls v) = m"
| "call_metric (MInc m ls) = m"
| "call_metric (MDec m ls) = m"
| "call_metric (MObserve m ls v) = m"

lemma read_frame: "fst k \<notin> call_metric ` set cs \<Longrightarrow> read_calls cs z k = z k"
proof (induction cs arbitrary: z)
  case (Cons c cs)
  then have "read_call c z k = z k" by (cases c; cases k) auto
  then show ?case using Cons by simp
qed simp

lemma read_resets: "read_calls (map MReset ms) z k = (if fst k \<in> set ms then None else z k)"
  by (induction ms arbitrary: z) simp_all

end
