(* ===== verification/Metrics.thy ===== *)
theory Metrics
  imports MetricDecl Stats Usage Exports
begin

text \<open>
  The gauges the agent's workers set: the calls of \<open>updateDeviceIO\<close>, \<open>updateBtrfsStats\<close> (\<open>stats.go\<close>), \<open>updateAll\<close>
  (\<open>usage.go\<close>) and \<open>reconcileExports\<close> (\<open>reconciler.go\<close>), each beside the operation it belongs to. Shown are the
  exact series of the device gauges after a poll, that every call has the right number of label values, and that
  the series of a volume outlives the volume.
\<close>

section \<open>The device pollers\<close>

definition device_gauge :: "device_io_metric \<Rightarrow> DeviceState \<Rightarrow> 'f mvalue \<Rightarrow> 'f metric_call" where
  "device_gauge m ds v = MSet (DeviceIOM m) [bd_Device ds] v"

definition device_io_calls :: "DeviceState \<Rightarrow> 'f metric_call list" where
  "device_io_calls ds =
     [device_gauge DeviceSizeBytes ds (Float64 (uint (bd_SizeBytes ds))),
      device_gauge DeviceAllocatedBytes ds (Float64 (uint (bd_AllocatedBytes ds)))] @
     (if bd_Missing ds then [device_gauge DevicePresentGauge ds (Float64 0)]
      else
       [device_gauge DevicePresentGauge ds (Float64 1),
        device_gauge DeviceReadBytesTotal ds (Float64 (uint (io_ReadBytes (ds_IO ds)))),
        device_gauge DeviceReadIOsTotal ds (Float64 (uint (io_ReadIOs (ds_IO ds)))),
        device_gauge DeviceReadTimeSecondsTotal ds (Milliseconds (uint (io_ReadTimeMs (ds_IO ds)))),
        device_gauge DeviceWriteBytesTotal ds (Float64 (uint (io_WriteBytes (ds_IO ds)))),
        device_gauge DeviceWriteIOsTotal ds (Float64 (uint (io_WriteIOs (ds_IO ds)))),
        device_gauge DeviceWriteTimeSecondsTotal ds (Milliseconds (uint (io_WriteTimeMs (ds_IO ds)))),
        device_gauge DeviceIOsInProgress ds (Float64 (uint (io_IOsInProgress (ds_IO ds)))),
        device_gauge DeviceIOTimeSecondsTotal ds (Milliseconds (uint (io_IOTimeMs (ds_IO ds)))),
        device_gauge DeviceIOWeightedTimeSecondsTotal ds (Milliseconds (uint (io_WeightedIOTimeMs (ds_IO ds))))])"

definition device_resets :: "device_io_metric list" where
  "device_resets = [DeviceSizeBytes, DeviceAllocatedBytes, DevicePresentGauge, DeviceReadBytesTotal, DeviceReadIOsTotal,
     DeviceReadTimeSecondsTotal, DeviceWriteBytesTotal, DeviceWriteIOsTotal, DeviceWriteTimeSecondsTotal,
     DeviceIOsInProgress, DeviceIOTimeSecondsTotal, DeviceIOWeightedTimeSecondsTotal]"

definition device_calls :: "DeviceState list \<Rightarrow> 'f metric_call list" where
  "device_calls states = map (MReset \<circ> DeviceIOM) device_resets @ concat (map device_io_calls states)"

text \<open>The third step of \<open>updateDeviceIO\<close>; it is not reached when the devices are not found.\<close>

definition updateDeviceIO_calls :: "sysfs \<Rightarrow> storage \<Rightarrow> world \<times> 'f dev_cache \<Rightarrow> 'f metric_call list" where
  "updateDeviceIO_calls sf s wc = (case wc of (w, c) \<Rightarrow>
     (case Devices (st_btrfs s) (st_mountPoint s) w of
        (Inl e, w1) \<Rightarrow> []
      | (Inr ds, w1) \<Rightarrow> device_calls (merge_io sf ds (cachedDevices c))))"

definition error_calls :: "DeviceErrors \<Rightarrow> 'f metric_call list" where
  "error_calls de =
     [MSet (DeviceErrorM DeviceReadErrsTotal) [de_Device de] (Float64 (uint (de_ReadErrs de))),
      MSet (DeviceErrorM DeviceWriteErrsTotal) [de_Device de] (Float64 (uint (de_WriteErrs de))),
      MSet (DeviceErrorM DeviceFlushErrsTotal) [de_Device de] (Float64 (uint (de_FlushErrs de))),
      MSet (DeviceErrorM DeviceCorruptionErrsTotal) [de_Device de] (Float64 (uint (de_CorruptionErrs de))),
      MSet (DeviceErrorM DeviceGenerationErrsTotal) [de_Device de] (Float64 (uint (de_GenerationErrs de)))]"

definition device_error_calls :: "DeviceErrors list \<Rightarrow> 'f metric_call list" where
  "device_error_calls errs =
     map (MReset \<circ> DeviceErrorM) [DeviceReadErrsTotal, DeviceWriteErrsTotal, DeviceFlushErrsTotal, DeviceCorruptionErrsTotal,
       DeviceGenerationErrsTotal] @ concat (map error_calls errs)"

definition filesystem_calls :: "string \<Rightarrow> 'f FilesystemUsage \<Rightarrow> 'f metric_call list" where
  "filesystem_calls base fu =
     [MSet (FilesystemM FilesystemSizeBytes) [base] (Float64 (uint (fu_TotalBytes fu))),
      MSet (FilesystemM FilesystemUsedBytes) [base] (Float64 (uint (fu_UsedBytes fu))),
      MSet (FilesystemM FilesystemUnallocatedBytes) [base] (Float64 (uint (fu_UnallocatedBytes fu))),
      MSet (FilesystemM FilesystemMetadataUsedBytes) [base] (Float64 (uint (fu_MetadataUsedBytes fu))),
      MSet (FilesystemM FilesystemMetadataTotalBytes) [base] (Float64 (uint (fu_MetadataTotalBytes fu))),
      MSet (FilesystemM FilesystemDataRatio) [base] (FloatValue (fu_DataRatio fu))]"

text \<open>The third step of \<open>updateBtrfsStats\<close>: each half only when its command has succeeded.\<close>

definition updateBtrfsStats_calls :: "(string \<Rightarrow> 'f option) \<Rightarrow> 'f \<Rightarrow> storage \<Rightarrow> world \<Rightarrow> 'f metric_call list" where
  "updateBtrfsStats_calls parseFloat zero s w =
     (case DeviceErrorsOf (st_btrfs s) (st_basePath s) w of (errs, w1) \<Rightarrow>
     (case FilesystemUsageOf parseFloat zero (st_btrfs s) (st_mountPoint s) w1 of (fu, w2) \<Rightarrow>
        (case errs of Inl e \<Rightarrow> [] | Inr es \<Rightarrow> device_error_calls es) @
        (case fu of Inl e \<Rightarrow> [] | Inr u \<Rightarrow> filesystem_calls (st_basePath s) u)))"

section \<open>The usage updater and the reconciler\<close>

text \<open>The gauges of a volume are set after its directory was found and before its usage is compared, from the entry
  the cache had.\<close>

definition volume_calls :: "string \<Rightarrow> string \<times> VolumeMetadata \<Rightarrow> state \<Rightarrow> 'f metric_call list" where
  "volume_calls tenant entry st = (case st of (w, s) \<Rightarrow> (case entry of (name, meta) \<Rightarrow>
     (case os_stat (DataPath (st_volumes s) tenant name) w of
        Inl e \<Rightarrow> []
      | Inr n \<Rightarrow> [MSet (VolumeM VolumeSizeBytes) [tenant, name] (Float64 (uint (vm_QuotaBytes meta))),
                  MSet (VolumeM VolumeUsedBytes) [tenant, name] (Float64 (uint (vm_UsedBytes meta)))])))"

fun scan_calls :: "(string \<times> QgroupInfo) list option \<Rightarrow> string \<Rightarrow> (string \<times> VolumeMetadata) list \<Rightarrow> state \<Rightarrow> 'f metric_call list" where
  "scan_calls usage tenant [] st = []"
| "scan_calls usage tenant (e # es) st = volume_calls tenant e st @ scan_calls usage tenant es (sync_volume usage tenant e st)"

definition updateAll_calls :: "string \<Rightarrow> state \<Rightarrow> 'f metric_call list" where
  "updateAll_calls tenant st = (case st of (w, s) \<Rightarrow>
     (case bulk_usage w s of (usage, w1) \<Rightarrow>
        let es = tenant_entries tenant (st_volumes s)
        in scan_calls usage tenant es (w1, s) @ [MSet (VolumeM VolumesGauge) [tenant] (Float64 (int (length es)))]))"

text \<open>The exports are counted as they were found, before any is removed or restored.\<close>

definition reconcileExports_calls :: "string \<Rightarrow> state \<Rightarrow> 'f metric_call list" where
  "reconcileExports_calls tenant st = (case st of (w, s) \<Rightarrow>
     let tenantDir = filepath_join [st_basePath s, tenant] in
     (case ListExports (st_exporter s) w of
        (Inl e, w1) \<Rightarrow> []
      | (Inr exports, w1) \<Rightarrow>
          [MSet (VolumeM ExportsGauge) [tenant]
             (Float64 (int (length (filter (\<lambda>e. prefix (tenantDir @ ''/'') (ei_Path e)) exports))))]))"

section \<open>Reading blocks of calls\<close>

text \<open>A loop that makes the calls \<open>f d\<close> for each element, of which at most one sets a given series.\<close>

lemma read_blocks:
  assumes "\<And>d z. read_calls (f d) z k = (if h d = lab \<and> P d then Some (g d) else z k)"
  shows "read_calls (concat (map f xs)) z k = (case last_by h (filter P xs) lab of Some d \<Rightarrow> Some (g d) | None \<Rightarrow> z k)"
proof (induction xs rule: rev_induct)
  case (snoc d xs)
  then show ?case using assms[of d] by (auto simp: last_by_def)
qed (simp add: last_by_def)

text \<open>The value of a series after a poll: of the last device with the name, and for the I/O counters of the last one
  that is present.\<close>

primrec io_value :: "device_io_metric \<Rightarrow> DeviceState \<Rightarrow> 'f mvalue" where
  "io_value DeviceSizeBytes d = Float64 (uint (bd_SizeBytes d))"
| "io_value DeviceAllocatedBytes d = Float64 (uint (bd_AllocatedBytes d))"
| "io_value DevicePresentGauge d = Float64 (if bd_Missing d then 0 else 1)"
| "io_value DeviceReadBytesTotal d = Float64 (uint (io_ReadBytes (ds_IO d)))"
| "io_value DeviceReadIOsTotal d = Float64 (uint (io_ReadIOs (ds_IO d)))"
| "io_value DeviceReadTimeSecondsTotal d = Milliseconds (uint (io_ReadTimeMs (ds_IO d)))"
| "io_value DeviceWriteBytesTotal d = Float64 (uint (io_WriteBytes (ds_IO d)))"
| "io_value DeviceWriteIOsTotal d = Float64 (uint (io_WriteIOs (ds_IO d)))"
| "io_value DeviceWriteTimeSecondsTotal d = Milliseconds (uint (io_WriteTimeMs (ds_IO d)))"
| "io_value DeviceIOsInProgress d = Float64 (uint (io_IOsInProgress (ds_IO d)))"
| "io_value DeviceIOTimeSecondsTotal d = Milliseconds (uint (io_IOTimeMs (ds_IO d)))"
| "io_value DeviceIOWeightedTimeSecondsTotal d = Milliseconds (uint (io_WeightedIOTimeMs (ds_IO d)))"

definition always_shown :: "device_io_metric \<Rightarrow> bool" where
  "always_shown m = (m \<in> {DeviceSizeBytes, DeviceAllocatedBytes, DevicePresentGauge})"

lemma device_io_block:
  "read_calls (device_io_calls d) z (DeviceIOM m, [dev]) =
     (if bd_Device d = dev \<and> (always_shown m \<or> \<not> bd_Missing d) then Some (io_value m d) else z (DeviceIOM m, [dev]))"
  by (cases m) (simp_all add: device_io_calls_def device_gauge_def always_shown_def)

lemma device_io_metrics: "call_metric ` set (device_io_calls d) \<subseteq> range DeviceIOM"
  by (auto simp: device_io_calls_def device_gauge_def)

lemma device_resets_all: "m \<in> set device_resets"
  by (cases m) (simp_all add: device_resets_def)

lemma read_device_resets:
  "read_calls (map (MReset \<circ> DeviceIOM) device_resets) z k = (if fst k \<in> range DeviceIOM then None else z k)"
proof -
  have "set (map DeviceIOM device_resets) = range DeviceIOM" using device_resets_all by auto
  then show ?thesis using read_resets[of "map DeviceIOM device_resets" z k] by (simp add: comp_def)
qed

lemma device_calls_series:
  "read_calls (device_calls states) z (DeviceIOM m, [dev]) =
     map_option (io_value m) (last_by bd_Device (filter (\<lambda>d. always_shown m \<or> \<not> bd_Missing d) states) dev)"
  unfolding device_calls_def read_calls_simps(3)
  by (subst read_blocks[of device_io_calls _ bd_Device dev "\<lambda>d. always_shown m \<or> \<not> bd_Missing d" "io_value m"])
    (simp_all add: device_io_block read_device_resets split: option.split)

lemma device_calls_frame: "fst k \<notin> range DeviceIOM \<Longrightarrow> read_calls (device_calls states) z k = z k"
proof (rule read_frame)
  assume "fst k \<notin> range DeviceIOM"
  moreover have "call_metric ` set (device_calls states) \<subseteq> range DeviceIOM"
    using device_io_metrics by (fastforce simp: device_calls_def)
  ultimately show "fst k \<notin> call_metric ` set (device_calls states)" by blast
qed

section \<open>Label values\<close>

lemma device_io_arity: "list_all arity_ok (device_io_calls d)"
  by (simp add: device_io_calls_def device_gauge_def agent_gauge_def csi_metric_def)

lemma error_arity: "list_all arity_ok (error_calls e)"
  by (simp add: error_calls_def agent_gauge_def csi_metric_def)

lemma concat_arity: "(\<And>x. list_all arity_ok (f x)) \<Longrightarrow> list_all arity_ok (concat (map f xs))"
  by (induction xs) simp_all

lemma scan_arity: "list_all arity_ok (scan_calls usage tenant es st)"
  by (induction es arbitrary: st) (auto simp: volume_calls_def agent_gauge_def csi_metric_def split: prod.splits sum.splits)

text \<open>No gauge call of a worker panics on the number of its label values.\<close>

lemma worker_calls_arity:
  "list_all arity_ok (updateDeviceIO_calls sf s wc)" "list_all arity_ok (updateBtrfsStats_calls parseFloat zero s w)"
  "list_all arity_ok (updateAll_calls tenant st)" "list_all arity_ok (reconcileExports_calls tenant st)"
proof -
  have r: "list_all arity_ok (map (MReset \<circ> f) ms)" for f :: "'m \<Rightarrow> metric" and ms by (induction ms) simp_all
  have d: "list_all arity_ok (device_calls ds)" for ds unfolding device_calls_def by (simp add: r concat_arity device_io_arity)
  show "list_all arity_ok (updateDeviceIO_calls sf s wc)" by (simp add: updateDeviceIO_calls_def d split: prod.splits sum.splits)
  show "list_all arity_ok (updateBtrfsStats_calls parseFloat zero s w)"
    by (simp add: updateBtrfsStats_calls_def device_error_calls_def concat_arity error_arity filesystem_calls_def agent_gauge_def
        csi_metric_def split: prod.splits sum.splits)
  show "list_all arity_ok (updateAll_calls tenant st)"
    by (simp add: updateAll_calls_def Let_def scan_arity agent_gauge_def csi_metric_def split: prod.splits)
  show "list_all arity_ok (reconcileExports_calls tenant st)"
    by (simp add: reconcileExports_calls_def Let_def agent_gauge_def csi_metric_def split: prod.splits sum.splits)
qed

section \<open>The gauges of volumes\<close>

lemma volume_series:
  "read_calls (volume_calls tenant (name, meta) st) z (VolumeM m, [t, n]) \<in>
     {z (VolumeM m, [t, n])} \<union>
     (if t = tenant \<and> n = name then {Some (Float64 (uint (vm_QuotaBytes meta))), Some (Float64 (uint (vm_UsedBytes meta)))} else {})"
  by (auto simp: volume_calls_def split: prod.splits sum.splits)

lemma volume_used_series:
  "read_calls (volume_calls tenant (name, meta) st) z (VolumeM VolumeUsedBytes, [t, n]) \<in>
     {z (VolumeM VolumeUsedBytes, [t, n])} \<union> (if t = tenant \<and> n = name then {Some (Float64 (uint (vm_UsedBytes meta)))} else {})"
  by (auto simp: volume_calls_def split: prod.splits sum.splits)

text \<open>A scan neither sets nor removes the series of a volume that is not in the cache: the gauges of a deleted volume
  keep their last values until the agent is restarted.\<close>

lemma scan_stale:
  assumes "n \<notin> fst ` set es"
  shows "read_calls (scan_calls usage tenant es st) z (VolumeM m, [t, n]) = z (VolumeM m, [t, n])"
  using assms
proof (induction es arbitrary: st z)
  case (Cons e es)
  obtain name meta where e: "e = (name, meta)" by (rule prod.exhaust)
  have "read_calls (volume_calls tenant (name, meta) st) z (VolumeM m, [t, n]) = z (VolumeM m, [t, n])"
    using volume_series[of tenant name meta st z m t n] Cons.prems e by auto
  then show ?case using Cons e by simp
qed simp

lemma volume_gauges_stale:
  assumes "n \<notin> fst ` set (tenant_entries tenant (st_volumes s))"
  shows "read_calls (updateAll_calls tenant (w, s)) z (VolumeM m, [tenant, n]) = z (VolumeM m, [tenant, n])"
  by (simp add: updateAll_calls_def Let_def scan_stale[OF assms] split: prod.splits)

text \<open>The used bytes a scan shows are those the cache had before the scan, not those it has measured.\<close>

lemma volume_used_lags:
  "read_calls (scan_calls usage tenant es st) z (VolumeM VolumeUsedBytes, [tenant, n]) \<in>
     {z (VolumeM VolumeUsedBytes, [tenant, n])} \<union> {Some (Float64 (uint (vm_UsedBytes meta))) | meta. (n, meta) \<in> set es}"
proof (induction es arbitrary: st z)
  case (Cons e es)
  obtain name meta where e: "e = (name, meta)" by (rule prod.exhaust)
  show ?case
    using volume_used_series[of tenant name meta st z tenant n]
      Cons.IH[of "sync_volume usage tenant e st" "read_calls (volume_calls tenant e st) z"] e by (auto split: if_splits)
qed simp

section \<open>Properties\<close>

text \<open>C38: the device gauges are exact after a poll. Whatever was shown before, a size, allocation and presence series is shown
  for exactly the devices of the file system, with the values of the cache the poll has stored; I/O counters are shown for
  exactly the devices that are present; the series of devices that have left are gone; no other collector is touched.\<close>

theorem device_gauges_exact:
  assumes "Devices (st_btrfs s) (st_mountPoint s) w = (Inr ds, w1)"
  shows "\<exists>states. cachedDevices (snd (updateDeviceIO sf s (w, c))) = Some states \<and> map bd_Device states = map bd_Device ds \<and>
    (\<forall>m dev. read_calls (updateDeviceIO_calls sf s (w, c)) z (DeviceIOM m, [dev]) =
       map_option (io_value m) (last_by bd_Device
         (if m \<in> {DeviceSizeBytes, DeviceAllocatedBytes, DevicePresentGauge} then states else filter (\<lambda>d. \<not> bd_Missing d) states) dev)) \<and>
    (\<forall>k. fst k \<notin> range DeviceIOM \<longrightarrow> read_calls (updateDeviceIO_calls sf s (w, c)) z k = z k)"
proof (intro exI conjI allI impI)
  let ?st = "merge_io sf ds (cachedDevices c)"
  have cs: "updateDeviceIO_calls sf s (w, c) = device_calls ?st" using assms by (simp add: updateDeviceIO_calls_def)
  show "cachedDevices (snd (updateDeviceIO sf s (w, c))) = Some ?st" using assms by (simp add: updateDeviceIO_def)
  show "map bd_Device ?st = map bd_Device ds" by simp
  fix m dev
  show "read_calls (updateDeviceIO_calls sf s (w, c)) z (DeviceIOM m, [dev]) = map_option (io_value m) (last_by bd_Device
      (if m \<in> {DeviceSizeBytes, DeviceAllocatedBytes, DevicePresentGauge} then ?st else filter (\<lambda>d. \<not> bd_Missing d) ?st) dev)"
    unfolding cs device_calls_series always_shown_def by simp
next
  fix k :: "metric \<times> string list"
  assume "fst k \<notin> range DeviceIOM"
  then show "read_calls (updateDeviceIO_calls sf s (w, c)) z k = z k"
    using assms by (simp add: updateDeviceIO_calls_def device_calls_frame)
qed

text \<open>A device that has left and one that is there.\<close>

definition old_series :: "unit series" where
  "old_series = [(DeviceIOM DeviceSizeBytes, [''/dev/sdc'']) \<mapsto> Float64 7]"

theorem device_gauges_exact_witness:
  "read_calls (updateDeviceIO_calls stats_sysfs stats_storage (demo_world, empty_cache)) old_series
     (DeviceIOM DeviceSizeBytes, [''/dev/sdc'']) = None \<and>
   read_calls (updateDeviceIO_calls stats_sysfs stats_storage (demo_world, empty_cache)) old_series
     (DeviceIOM DeviceReadBytesTotal, [''/dev/sdb'']) = Some (Float64 1024)"
proof -
  let ?r = "read_calls (updateDeviceIO_calls stats_sysfs stats_storage (demo_world, empty_cache)) old_series"
  have p: "parseDevices (stats_out [''filesystem'', ''show'']) = Inr found_devices" by code_simp
  then have "Devices (st_btrfs stats_storage) (st_mountPoint stats_storage) demo_world = (Inr found_devices, demo_world)"
    by (simp add: Devices_def query_def stats_storage_def stats_out_def)
  then obtain states where st: "cachedDevices (snd (updateDeviceIO stats_sysfs stats_storage (demo_world, empty_cache))) = Some states"
    and r: "\<forall>m dev. ?r (DeviceIOM m, [dev]) = map_option (io_value m) (last_by bd_Device
         (if m \<in> {DeviceSizeBytes, DeviceAllocatedBytes, DevicePresentGauge} then states else filter (\<lambda>d. \<not> bd_Missing d) states) dev)"
    using device_gauges_exact[where s = stats_storage and w = demo_world and c = empty_cache and sf = stats_sysfs and z = old_series] by metis
  have "updateDeviceIO stats_sysfs stats_storage (demo_world, empty_cache) =
      (demo_world, empty_cache\<lparr>cachedDevices := Some (merge_io stats_sysfs found_devices None)\<rparr>)"
    using p by (simp add: updateDeviceIO_def Devices_def query_def stats_storage_def stats_out_def empty_cache_def)
  then have "states = merge_io stats_sysfs found_devices None" using st by simp
  moreover have "last_by bd_Device (merge_io stats_sysfs found_devices None) ''/dev/sdc'' = None \<and>
      map_option io_ReadBytes (map_option ds_IO (last_by bd_Device (filter (\<lambda>d. \<not> bd_Missing d) (merge_io stats_sysfs found_devices None)) ''/dev/sdb'')) = Some 1024"
    by code_simp
  ultimately show ?thesis using r by (auto simp: option.map_comp comp_def)
qed

end
