(* ===== verification/TaskMetrics.thy ===== *)
theory TaskMetrics
  imports Metrics TaskProps
begin

text \<open>
  The metrics of the task manager (\<open>agent/storage/task/manager.go\<close> and \<open>metrics.go\<close>). The transition system of
  \<open>Tasks\<close> is extended by the calls that follow each step of a goroutine, made one by one, and by the type that each
  goroutine was started with. With a worker limit the gauges of queued and running tasks are exact up to the calls under
  way, in every interleaving; without one the gauge of running tasks is never decremented.
\<close>

section \<open>Calls\<close>

definition NewManager_calls :: "int \<Rightarrow> 'f metric_call list" where
  "NewManager_calls maxConcurrent = [MSet (TaskM tasksWorkers) [] (Float64 (if maxConcurrent > 0 then maxConcurrent else 0))]"

text \<open>The goroutine counts itself as queued before it waits.\<close>

definition queue_calls :: "task_sys \<Rightarrow> string \<Rightarrow> 'f metric_call list" where
  "queue_calls S ty = (if has_sem S then [MInc (TaskM tasksQueued) [ty]] else [])"

definition start_calls :: "task_sys \<Rightarrow> string \<Rightarrow> 'f metric_call list" where
  "start_calls S ty = (if has_sem S then [MDec (TaskM tasksQueued) [ty]] else []) @ [MInc (TaskM tasksRunning) [ty]]"

definition cancelled_calls :: "string \<Rightarrow> 'f metric_call list" where
  "cancelled_calls ty = [MDec (TaskM tasksQueued) [ty], MInc (TaskM tasksTotal) [ty, status_string TaskCancelled]]"

definition finish_calls :: "string \<Rightarrow> Task \<Rightarrow> int \<Rightarrow> 'f metric_call list" where
  "finish_calls ty final elapsed =
     [MInc (TaskM tasksTotal) [ty, status_string (tk_Status final)], MObserve (TaskM taskDuration) [ty] (Elapsed elapsed)]"

text \<open>The deferred function, which exists only when there is a semaphore: it gives the slot back first.\<close>

definition release_calls :: "string \<Rightarrow> 'f metric_call list" where
  "release_calls ty = [MDec (TaskM tasksRunning) [ty]]"

section \<open>Steps\<close>

text \<open>\<open>tr_pending\<close> has the calls that a goroutine makes next. It makes them before it goes on; other goroutines may do
  anything in between.\<close>

record 'f task_run =
  tr_sys :: task_sys
  tr_type :: "string \<Rightarrow> string"
  tr_pending :: "string \<Rightarrow> 'f metric_call list"
  tr_calls :: "'f metric_call list"

definition follow :: "task_sys \<Rightarrow> string \<Rightarrow> 'f metric_call list \<Rightarrow> 'f task_run \<Rightarrow> 'f task_run" where
  "follow S' i cs R = R\<lparr>tr_sys := S', tr_pending := (tr_pending R)(i := cs)\<rparr>"

inductive run_step :: "'f task_run \<Rightarrow> 'f task_run \<Rightarrow> bool" where
  create: "tr_sys R = S \<Longrightarrow> map_of (tm_tasks (ts_tm S)) i = None \<Longrightarrow> ts_go S i = NoGoroutine \<Longrightarrow>
    run_step R (follow (CreateTask i ty opts S) i (queue_calls S ty) (R\<lparr>tr_type := (tr_type R)(i := ty)\<rparr>))"
| start: "tr_sys R = S \<Longrightarrow> tr_pending R i = [] \<Longrightarrow> ts_go S i = Queued \<Longrightarrow> map_of (tm_tasks (ts_tm S)) i = Some t \<Longrightarrow> slot_free S \<Longrightarrow>
    run_step R (follow (run_start i t S) i (start_calls S (tr_type R i)) R)"
| cancelled: "tr_sys R = S \<Longrightarrow> tr_pending R i = [] \<Longrightarrow> has_sem S \<Longrightarrow> ts_go S i = Queued \<Longrightarrow> map_of (tm_tasks (ts_tm S)) i = Some t \<Longrightarrow>
    ts_ctx S i \<noteq> CtxOk \<Longrightarrow> run_step R (follow (run_cancelled i t S) i (cancelled_calls (tr_type R i)) R)"
| finish: "tr_sys R = S \<Longrightarrow> tr_pending R i = [] \<Longrightarrow> ts_go S i = Working \<Longrightarrow> map_of (tm_tasks (ts_tm S)) i = Some t \<Longrightarrow>
    run_step R (follow (run_finish i err t S) i
      (finish_calls (tr_type R i) (final_task (now (ts_world S)) (ts_ctx S i) err t) elapsed) R)"
| release: "tr_sys R = S \<Longrightarrow> tr_pending R i = [] \<Longrightarrow> ts_go S i = Releasing \<Longrightarrow>
    run_step R (follow (run_release i S) i (release_calls (tr_type R i)) R)"
| call: "tr_pending R i = c # cs \<Longrightarrow> run_step R (R\<lparr>tr_pending := (tr_pending R)(i := cs), tr_calls := tr_calls R @ [c]\<rparr>)"
| quiet: "task_step (tr_sys R) S' \<Longrightarrow> ts_go S' = ts_go (tr_sys R) \<Longrightarrow> run_step R (R\<lparr>tr_sys := S'\<rparr>)"

inductive_cases run_stepE: "run_step R R'"

definition start_run :: "world \<times> task_manager \<Rightarrow> 'f task_run" where
  "start_run st = \<lparr>tr_sys = init_tasks st, tr_type = (\<lambda>_. []), tr_pending = (\<lambda>_. []), tr_calls = NewManager_calls (tm_max (snd st))\<rparr>"

lemma follow_simps [simp]:
  "tr_sys (follow S' i cs R) = S'" "tr_type (follow S' i cs R) = tr_type R"
  "tr_pending (follow S' i cs R) = (tr_pending R)(i := cs)" "tr_calls (follow S' i cs R) = tr_calls R"
  by (simp_all add: follow_def)

text \<open>The extended system makes the steps of the task system and its own calls.\<close>

lemma run_step_task_step: "run_step R R' \<Longrightarrow> task_step\<^sup>*\<^sup>* (tr_sys R) (tr_sys R')"
  by (induction rule: run_step.induct) (auto intro: task_step.intros r_into_rtranclp)

lemma run_steps_task_steps: "run_step\<^sup>*\<^sup>* R R' \<Longrightarrow> task_step\<^sup>*\<^sup>* (tr_sys R) (tr_sys R')"
  by (induction rule: rtranclp_induct) (auto dest: run_step_task_step)

text \<open>The state after a goroutine has made its calls.\<close>

definition made :: "string \<Rightarrow> 'f task_run \<Rightarrow> 'f task_run" where
  "made i R = R\<lparr>tr_pending := (tr_pending R)(i := []), tr_calls := tr_calls R @ tr_pending R i\<rparr>"

lemma made_simps [simp]:
  "tr_sys (made i R) = tr_sys R" "tr_type (made i R) = tr_type R" "tr_pending (made i R) = (tr_pending R)(i := [])"
  "tr_calls (made i R) = tr_calls R @ tr_pending R i"
  by (simp_all add: made_def)

lemma run_made: "run_step\<^sup>*\<^sup>* R (made i R)"
proof (induction "tr_pending R i" arbitrary: R)
  case Nil
  then have "made i R = R" by (simp add: made_def fun_upd_idem)
  then show ?case by simp
next
  case (Cons c cs)
  let ?Q = "R\<lparr>tr_pending := (tr_pending R)(i := cs), tr_calls := tr_calls R @ [c]\<rparr>"
  have q: "run_step R ?Q" by (rule run_step.call) (use Cons(2) in simp)
  have "made i ?Q = made i R" using Cons(2) by (simp add: made_def)
  then have "run_step\<^sup>*\<^sup>* ?Q (made i R)" using Cons(1)[of ?Q] by simp
  then show ?case by (rule converse_rtranclp_into_rtranclp[where r = run_step, OF q])
qed

text \<open>Conversely every step of the task system can be made once the calls of its goroutine are made.\<close>

lemma task_step_run_step:
  assumes "task_step (tr_sys R) S'"
  shows "\<exists>R'. run_step\<^sup>*\<^sup>* R R' \<and> tr_sys R' = S'"
proof -
  have q: ?thesis if "ts_go S' = ts_go (tr_sys R)" using run_step.quiet[OF assms that] by (intro exI[of _ "R\<lparr>tr_sys := S'\<rparr>"]) auto
  have k: ?thesis if st: "run_step (made i R) R'" "tr_sys R' = S'" for i R'
    using rtranclp.rtrancl_into_rtrancl[OF run_made st(1)] st(2) by blast
  from assms show ?thesis
  proof (cases rule: task_step.cases)
    case (create i ty opts)
    show ?thesis by (rule k[OF run_step.create[of "made i R" _ i ty opts]]) (use create in simp_all)
  next
    case (start i t)
    show ?thesis by (rule k[OF run_step.start[of "made i R" _ i t]]) (use start in simp_all)
  next
    case (cancelled i t)
    show ?thesis by (rule k[OF run_step.cancelled[of "made i R" _ i t]]) (use cancelled in simp_all)
  next
    case (finish i t err)
    show ?thesis by (rule k[OF run_step.finish[of "made i R" _ i t err]]) (use finish in simp_all)
  next
    case (release i)
    show ?thesis by (rule k[OF run_step.release[of "made i R" _ i]]) (use release in simp_all)
  next
    case (cancel i e) then show ?thesis using q by (auto simp: Cancel_def split: option.splits if_splits)
  qed (use q in \<open>simp_all add: SetProgress_def write_progress_def SetResult_def\<close>)
qed

section \<open>Counting goroutines\<close>

definition goroutines :: "(string \<Rightarrow> goroutine) \<Rightarrow> (string \<Rightarrow> string) \<Rightarrow> goroutine set \<Rightarrow> string \<Rightarrow> string set" where
  "goroutines go ty A t = {j. go j \<in> A \<and> ty j = t}"

lemma goroutines_finite: "finite {j. go j \<noteq> NoGoroutine} \<Longrightarrow> NoGoroutine \<notin> A \<Longrightarrow> finite (goroutines go ty A t)"
  by (rule finite_subset[of _ "{j. go j \<noteq> NoGoroutine}"]) (auto simp: goroutines_def)

lemma goroutines_upd:
  assumes "finite (goroutines go ty A t)"
  shows "int (card (goroutines (go(i := g)) ty A t)) =
    int (card (goroutines go ty A t)) + of_bool (g \<in> A \<and> ty i = t) - of_bool (go i \<in> A \<and> ty i = t)"
proof -
  define D where "D = goroutines go ty A t - {i}"
  have e: "goroutines (go(i := g)) ty A t = (if g \<in> A \<and> ty i = t then insert i D else D)"
    by (auto simp: goroutines_def D_def)
  have n: "card (insert i D) = Suc (card D)" using assms by (intro card_insert_disjoint) (simp_all add: D_def)
  have c: "int (card D) = int (card (goroutines go ty A t)) - of_bool (i \<in> goroutines go ty A t)"
  proof (cases "i \<in> goroutines go ty A t")
    case True
    then have "int (card D) + 1 = int (card (goroutines go ty A t))"
      using card_Suc_Diff1[OF assms True] unfolding D_def by linarith
    then show ?thesis unfolding of_bool_def if_P[OF True] by linarith
  qed (simp add: D_def)
  have "i \<in> goroutines go ty A t \<longleftrightarrow> go i \<in> A \<and> ty i = t" by (simp add: goroutines_def)
  then show ?thesis using c n unfolding e by simp
qed

lemma goroutines_type: "go i \<notin> A \<Longrightarrow> goroutines go (ty(i := x)) A t = goroutines go ty A t"
  by (auto simp: goroutines_def)

text \<open>The states of a goroutine in which it counts as running. The deferred decrement belongs to the semaphore.\<close>

definition counted_running :: "task_sys \<Rightarrow> goroutine set" where
  "counted_running S = (if has_sem S then {Working, Releasing} else {Working, Releasing, Finished})"

text \<open>What the calls under way will change.\<close>

definition under_way :: "metric \<Rightarrow> string list \<Rightarrow> 'f task_run \<Rightarrow> int" where
  "under_way m ls R = (\<Sum>j | ts_go (tr_sys R) j \<noteq> NoGoroutine. level m ls (tr_pending R j))"

definition gauges_ok :: "'f task_run \<Rightarrow> bool" where
  "gauges_ok R \<longleftrightarrow> task_inv (tr_sys R) \<and> finite {j. ts_go (tr_sys R) j \<noteq> NoGoroutine} \<and>
     (\<forall>j. ts_go (tr_sys R) j = NoGoroutine \<longrightarrow> tr_pending R j = []) \<and>
     (\<forall>ty. level (TaskM tasksRunning) [ty] (tr_calls R) + under_way (TaskM tasksRunning) [ty] R =
             int (card (goroutines (ts_go (tr_sys R)) (tr_type R) (counted_running (tr_sys R)) ty))) \<and>
     (has_sem (tr_sys R) \<longrightarrow> (\<forall>ty. level (TaskM tasksQueued) [ty] (tr_calls R) + under_way (TaskM tasksQueued) [ty] R =
             int (card (goroutines (ts_go (tr_sys R)) (tr_type R) {Queued} ty))))"

lemma gauges_init: "settled tm \<Longrightarrow> gauges_ok (start_run (w, tm))"
  using task_inv_init
  by (simp add: gauges_ok_def start_run_def init_tasks_def goroutines_def counted_running_def NewManager_calls_def under_way_def)

lemma has_sem_step: "task_inv S \<Longrightarrow> task_step S S' \<Longrightarrow> has_sem S' = has_sem S"
  using task_step_max by (simp add: has_sem_def)

lemma sum_upd:
  assumes "finite A" "i \<in> A"
  shows "(\<Sum>j \<in> A. g ((p(i := x)) j)) = (\<Sum>j \<in> A. g (p j)) - g (p i) + (g x :: int)"
proof -
  have "(\<Sum>j \<in> A - {i}. g ((p(i := x)) j)) = (\<Sum>j \<in> A - {i}. g (p j))" by (rule sum.cong) auto
  then show ?thesis using sum.remove[OF assms, of "\<lambda>j. g ((p(i := x)) j)"] sum.remove[OF assms, of "\<lambda>j. g (p j)"] by simp
qed

text \<open>A step that moves the goroutine of one task, after which it has the calls \<open>cs\<close> to make.\<close>

lemma under_way_follow:
  assumes "gauges_ok R" "tr_pending R i = []" "ts_go S' = (ts_go (tr_sys R))(i := g)" "g \<noteq> NoGoroutine"
  shows "under_way m ls (follow S' i cs R) = under_way m ls R + level m ls cs"
proof -
  let ?A = "{j. ts_go (tr_sys R) j \<noteq> NoGoroutine}"
  have f: "finite ?A" using assms(1) by (simp add: gauges_ok_def)
  have e: "{j. ts_go S' j \<noteq> NoGoroutine} = insert i ?A" using assms(3,4) by auto
  have "(\<Sum>j \<in> insert i ?A. level m ls (tr_pending R j)) = (\<Sum>j \<in> ?A. level m ls (tr_pending R j))"
    using f assms(2) by (cases "i \<in> ?A") (simp_all add: insert_absorb)
  then show ?thesis
    using sum_upd[of "insert i ?A" i "level m ls" "tr_pending R" cs] f assms(2) unfolding under_way_def follow_simps e by simp
qed

lemma gauges_move:
  assumes ok: "gauges_ok R" and p: "tr_pending R i = []" and s: "task_step (tr_sys R) S'"
    and go: "ts_go S' = (ts_go (tr_sys R))(i := g)" "g \<noteq> NoGoroutine"
    and run: "\<And>ty. level (TaskM tasksRunning) [ty] cs = of_bool (g \<in> counted_running (tr_sys R) \<and> tr_type R i = ty) -
      of_bool (ts_go (tr_sys R) i \<in> counted_running (tr_sys R) \<and> tr_type R i = ty)"
    and que: "\<And>ty. has_sem (tr_sys R) \<Longrightarrow> level (TaskM tasksQueued) [ty] cs =
      of_bool (g = Queued \<and> tr_type R i = ty) - of_bool (ts_go (tr_sys R) i = Queued \<and> tr_type R i = ty)"
  shows "gauges_ok (follow S' i cs R)"
proof -
  have inv: "task_inv (tr_sys R)" and fin: "finite {j. ts_go (tr_sys R) j \<noteq> NoGoroutine}" using ok by (simp_all add: gauges_ok_def)
  have sem: "has_sem S' = has_sem (tr_sys R)" by (rule has_sem_step[OF inv s])
  then have cr: "counted_running S' = counted_running (tr_sys R)" by (simp add: counted_running_def)
  have "NoGoroutine \<notin> counted_running (tr_sys R)" by (simp add: counted_running_def)
  then have f: "finite (goroutines (ts_go (tr_sys R)) (tr_type R) (counted_running (tr_sys R)) ty)"
    "finite (goroutines (ts_go (tr_sys R)) (tr_type R) {Queued} ty)" for ty
    using goroutines_finite[OF fin] by simp_all
  have "{j. ts_go S' j \<noteq> NoGoroutine} \<subseteq> insert i {j. ts_go (tr_sys R) j \<noteq> NoGoroutine}" using go by auto
  then have "finite {j. ts_go S' j \<noteq> NoGoroutine}" using fin finite_subset by blast
  moreover have "task_inv S'" by (rule task_step_inv[OF s inv])
  moreover have "level (TaskM tasksRunning) [ty] (tr_calls R) + under_way (TaskM tasksRunning) [ty] (follow S' i cs R) =
      int (card (goroutines (ts_go S') (tr_type R) (counted_running S') ty))" for ty
    using ok run[of ty] unfolding under_way_follow[OF ok p go] cr go(1) goroutines_upd[OF f(1)] by (simp add: gauges_ok_def)
  moreover have "level (TaskM tasksQueued) [ty] (tr_calls R) + under_way (TaskM tasksQueued) [ty] (follow S' i cs R) =
      int (card (goroutines (ts_go S') (tr_type R) {Queued} ty))" if "has_sem (tr_sys R)" for ty
    using ok que[OF that, of ty] that unfolding under_way_follow[OF ok p go] go(1) goroutines_upd[OF f(2)] by (simp add: gauges_ok_def)
  moreover have "\<forall>j. ts_go S' j = NoGoroutine \<longrightarrow> ((tr_pending R)(i := cs)) j = []" using ok go by (simp add: gauges_ok_def)
  ultimately show ?thesis using sem by (simp add: gauges_ok_def)
qed

lemma gauges_type:
  assumes "gauges_ok R" "ts_go (tr_sys R) i = NoGoroutine"
  shows "gauges_ok (R\<lparr>tr_type := (tr_type R)(i := x)\<rparr>)"
  using assms by (simp add: gauges_ok_def goroutines_type counted_running_def under_way_def)

lemma gauges_call:
  assumes ok: "gauges_ok R" and p: "tr_pending R i = c # cs"
  shows "gauges_ok (R\<lparr>tr_pending := (tr_pending R)(i := cs), tr_calls := tr_calls R @ [c]\<rparr>)"
proof -
  let ?R = "R\<lparr>tr_pending := (tr_pending R)(i := cs), tr_calls := tr_calls R @ [c]\<rparr>"
  have i: "ts_go (tr_sys R) i \<noteq> NoGoroutine" and f: "finite {j. ts_go (tr_sys R) j \<noteq> NoGoroutine}"
    using ok p by (auto simp: gauges_ok_def)
  have "level m ls (tr_calls ?R) + under_way m ls ?R = level m ls (tr_calls R) + under_way m ls R" for m ls
    using sum_upd[OF f, of i "level m ls" "tr_pending R" cs] i p by (simp add: under_way_def)
  then show ?thesis using ok i unfolding gauges_ok_def by (simp del: level_append)
qed

lemma gauges_step: "run_step R R' \<Longrightarrow> gauges_ok R \<Longrightarrow> gauges_ok R'"
proof (induction rule: run_step.induct)
  case (create R S i ty opts)
  have "gauges_ok (R\<lparr>tr_type := (tr_type R)(i := ty)\<rparr>)" using create by (intro gauges_type) simp_all
  moreover have "task_step S (CreateTask i ty opts S)" using create by (intro task_step.create)
  moreover have "tr_pending R i = []" using create by (simp add: gauges_ok_def)
  ultimately show ?case using create
    by (intro gauges_move[where i = i and g = Queued]) (simp_all add: CreateTask_def queue_calls_def counted_running_def)
next
  case (start R S i t)
  have "task_step S (run_start i t S)" using start by (intro task_step.start)
  then show ?case using start
    by (intro gauges_move[where i = i and g = Working]) (simp_all add: run_start_def start_calls_def counted_running_def)
next
  case (cancelled R S i t)
  have "task_step S (run_cancelled i t S)" using cancelled by (intro task_step.cancelled)
  then show ?case using cancelled
    by (intro gauges_move[where i = i and g = Finished]) (simp_all add: run_cancelled_def cancelled_calls_def counted_running_def)
next
  case (finish R S i t err elapsed)
  have "task_step S (run_finish i err t S)" using finish by (intro task_step.finish)
  then show ?case using finish
    by (intro gauges_move[where i = i and g = "if has_sem S then Releasing else Finished"])
      (simp_all add: run_finish_def finish_calls_def counted_running_def)
next
  case (release R S i)
  have s: "task_step S (run_release i S)" using release by (intro task_step.release)
  have "has_sem S" using release task_invD(6)[of S i] by (auto simp: gauges_ok_def)
  then show ?case using release s
    by (intro gauges_move[where i = i and g = Finished]) (simp_all add: run_release_def release_calls_def counted_running_def)
next
  case (call R i c cs)
  then show ?case by (intro gauges_call)
next
  case (quiet R S')
  then have "task_inv (tr_sys R)" by (simp add: gauges_ok_def)
  then show ?case using quiet task_step_inv[OF quiet(1)] has_sem_step[OF _ quiet(1)]
    by (simp add: gauges_ok_def counted_running_def under_way_def)
qed

lemma under_way_sum: "gauges_ok R \<Longrightarrow> under_way m ls R = (\<Sum>i | tr_pending R i \<noteq> []. level m ls (tr_pending R i))"
  unfolding under_way_def by (rule sum.mono_neutral_right) (auto simp: gauges_ok_def)

lemma gauges_reachable:
  assumes "NewManager d m p w = Inr st" "run_step\<^sup>*\<^sup>* (start_run st) R"
  shows "gauges_ok R" "tm_max (ts_tm (tr_sys R)) = m"
proof -
  have "settled (snd st)" using NewManager_settled assms(1) by (cases st) auto
  then have i: "gauges_ok (start_run st)" using gauges_init[of "snd st" "fst st"] by simp
  show "gauges_ok R" using assms(2) i by (induction rule: rtranclp_induct) (auto intro: gauges_step)
  have "task_step\<^sup>*\<^sup>* (init_tasks st) (tr_sys R)" using run_steps_task_steps[OF assms(2)] by (simp add: start_run_def)
  then show "tm_max (ts_tm (tr_sys R)) = m" using task_reachable[OF assms(1)] by simp
qed

text \<open>No call of the task manager panics on the number of its label values.\<close>

definition arities_ok :: "'f task_run \<Rightarrow> bool" where
  "arities_ok R \<longleftrightarrow> list_all arity_ok (tr_calls R) \<and> (\<forall>i. list_all arity_ok (tr_pending R i))"

lemma task_calls_arity: "run_step R R' \<Longrightarrow> arities_ok R \<Longrightarrow> arities_ok R'"
proof (induction rule: run_step.induct)
  case (call R i c cs)
  then have "list_all arity_ok (c # cs)" unfolding arities_ok_def by metis
  then show ?case using call(2) by (simp add: arities_ok_def)
qed (simp_all add: arities_ok_def queue_calls_def start_calls_def cancelled_calls_def finish_calls_def release_calls_def csi_metric_def)

section \<open>Properties\<close>

text \<open>C37: with a worker limit the task gauges are exact. In every interleaving of creating, starting, cancelling, finishing
  and cleaning up tasks and of the metric calls of their goroutines, the gauge of running tasks of a type differs from the
  number of goroutines of that type that hold a worker slot, and the gauge of queued tasks from the number of those that
  wait for one, only by the calls under way; with none under way the gauge of running tasks is within the limit.\<close>

theorem task_gauges_exact:
  assumes "NewManager d m p w = Inr st" "0 < m" "run_step\<^sup>*\<^sup>* (start_run st) R"
  shows "level (TaskM tasksRunning) [ty] (tr_calls R) + (\<Sum>i | tr_pending R i \<noteq> []. level (TaskM tasksRunning) [ty] (tr_pending R i)) =
      int (card {i. ts_go (tr_sys R) i \<in> {Working, Releasing} \<and> tr_type R i = ty}) \<and>
    level (TaskM tasksQueued) [ty] (tr_calls R) + (\<Sum>i | tr_pending R i \<noteq> []. level (TaskM tasksQueued) [ty] (tr_pending R i)) =
      int (card {i. ts_go (tr_sys R) i = Queued \<and> tr_type R i = ty}) \<and>
    ((\<forall>i. tr_pending R i = []) \<longrightarrow> level (TaskM tasksRunning) [ty] (tr_calls R) \<le> m)"
proof -
  let ?S = "tr_sys R"
  let ?W = "{i. ts_go ?S i \<in> {Working, Releasing} \<and> tr_type R i = ty}"
  have ok: "gauges_ok R" and mx: "tm_max (ts_tm ?S) = m" using gauges_reachable[OF assms(1,3)] by auto
  have s: "has_sem ?S" using mx assms(2) by (simp add: has_sem_def)
  have inv: "task_inv ?S" using ok by (simp add: gauges_ok_def)
  have r: "level (TaskM tasksRunning) [ty] (tr_calls R) + under_way (TaskM tasksRunning) [ty] R = int (card ?W)"
    "level (TaskM tasksQueued) [ty] (tr_calls R) + under_way (TaskM tasksQueued) [ty] R =
      int (card {i. ts_go ?S i = Queued \<and> tr_type R i = ty})"
    using ok s by (simp_all add: gauges_ok_def counted_running_def goroutines_def)
  have "card ?W \<le> card (workers ?S)"
    by (rule card_mono[OF task_invD(3)[OF inv]]) (auto simp: workers_def)
  then have "int (card ?W) \<le> m" using task_invD(4,5)[OF inv s] mx by linarith
  moreover have "under_way (TaskM tasksRunning) [ty] R = 0" if "\<forall>i. tr_pending R i = []" using that by (simp add: under_way_def)
  ultimately show ?thesis using r unfolding under_way_sum[OF ok, symmetric] by (intro conjI impI) simp_all
qed

text \<open>Without a worker limit (\<open>AGENT_TASK_MAX_CONCURRENT\<close> of 0 or less) the gauge of running tasks counts every task that
  was ever started, up to the calls under way: the decrement is part of the function that gives the worker slot back, and
  there is no slot.\<close>

lemma task_running_leaks:
  assumes "NewManager d m p w = Inr st" "m \<le> 0" "run_step\<^sup>*\<^sup>* (start_run st) R"
  shows "level (TaskM tasksRunning) [ty] (tr_calls R) + (\<Sum>i | tr_pending R i \<noteq> []. level (TaskM tasksRunning) [ty] (tr_pending R i)) =
    int (card {i. ts_go (tr_sys R) i \<in> {Working, Finished} \<and> tr_type R i = ty})"
proof -
  let ?S = "tr_sys R"
  have ok: "gauges_ok R" and mx: "tm_max (ts_tm ?S) = m" using gauges_reachable[OF assms(1,3)] by auto
  have s: "\<not> has_sem ?S" using mx assms(2) by (simp add: has_sem_def)
  have "ts_go ?S i \<noteq> Releasing" for i using ok task_invD(6)[OF _ s] by (simp add: gauges_ok_def)
  then have "ts_go ?S i \<in> {Working, Releasing, Finished} \<longleftrightarrow> ts_go ?S i \<in> {Working, Finished}" for i by auto
  then show ?thesis using ok s unfolding under_way_sum[OF ok, symmetric]
    by (simp add: gauges_ok_def counted_running_def goroutines_def)
qed

text \<open>One task with a limit of one and without a limit: created, started and ended, each with the calls that follow.\<close>

definition limited :: "int \<Rightarrow> world \<times> task_manager" where
  "limited m = (case NewManager ''/d/tasks'' m 0 demo_world of Inr st \<Rightarrow> st | Inl _ \<Rightarrow> demo_tm)"

definition run1 :: "int \<Rightarrow> unit task_run" where
  "run1 m = made ''a'' (follow (CreateTask ''a'' ''scrub'' demo_opts (init_tasks (limited m))) ''a''
     (queue_calls (init_tasks (limited m)) ''scrub'') ((start_run (limited m))\<lparr>tr_type := (\<lambda>_. [])(''a'' := ''scrub'')\<rparr>))"

definition run2 :: "int \<Rightarrow> unit task_run" where
  "run2 m = made ''a'' (follow (run_start ''a'' demo_task (tr_sys (run1 m))) ''a''
     (start_calls (tr_sys (run1 m)) (tr_type (run1 m) ''a'')) (run1 m))"

definition run3 :: "int \<Rightarrow> unit task_run" where
  "run3 m = made ''a'' (follow (run_finish ''a'' None demo_task2 (tr_sys (run2 m))) ''a''
     (finish_calls (tr_type (run2 m) ''a'') (final_task (now (ts_world (tr_sys (run2 m)))) (ts_ctx (tr_sys (run2 m)) ''a'') None demo_task2) 9)
     (run2 m))"

definition demo_ok :: "int \<Rightarrow> bool" where
  "demo_ok m = (map_of (tm_tasks (ts_tm (init_tasks (limited m)))) ''a'' = None \<and> ts_go (init_tasks (limited m)) ''a'' = NoGoroutine \<and>
     ts_go (tr_sys (run1 m)) ''a'' = Queued \<and> map_of (tm_tasks (ts_tm (tr_sys (run1 m)))) ''a'' = Some demo_task \<and> slot_free (tr_sys (run1 m)) \<and>
     ts_go (tr_sys (run2 m)) ''a'' = Working \<and> map_of (tm_tasks (ts_tm (tr_sys (run2 m)))) ''a'' = Some demo_task2 \<and>
     (case NewManager ''/d/tasks'' m 0 demo_world of Inr st \<Rightarrow> True | Inl _ \<Rightarrow> False))"

lemma demo_pending: "tr_pending (run1 m) = (\<lambda>_. [])" "tr_pending (run2 m) = (\<lambda>_. [])" "tr_pending (run3 m) = (\<lambda>_. [])"
  by (simp_all add: run3_def run2_def run1_def start_run_def fun_eq_iff)

lemma step_made: "run_step\<^sup>*\<^sup>* R Q \<Longrightarrow> run_step Q Q' \<Longrightarrow> run_step\<^sup>*\<^sup>* R (made i Q')"
  using run_made by (meson rtranclp.rtrancl_into_rtrancl rtranclp_trans)

lemma demo_runs:
  assumes "demo_ok m"
  shows "NewManager ''/d/tasks'' m 0 demo_world = Inr (limited m)" "run_step\<^sup>*\<^sup>* (start_run (limited m)) (run2 m)"
    "run_step\<^sup>*\<^sup>* (start_run (limited m)) (run3 m)"
proof -
  show "NewManager ''/d/tasks'' m 0 demo_world = Inr (limited m)" using assms by (auto simp: demo_ok_def limited_def split: sum.splits)
  have "run_step (start_run (limited m)) (follow (CreateTask ''a'' ''scrub'' demo_opts (init_tasks (limited m))) ''a''
     (queue_calls (init_tasks (limited m)) ''scrub'') ((start_run (limited m))\<lparr>tr_type := (\<lambda>_. [])(''a'' := ''scrub'')\<rparr>) :: unit task_run)"
    using run_step.create[of "start_run (limited m)" "init_tasks (limited m)" "''a''" "''scrub''" demo_opts] assms
    by (simp add: demo_ok_def start_run_def)
  then have r1: "run_step\<^sup>*\<^sup>* (start_run (limited m)) (run1 m)" unfolding run1_def by (rule step_made[rotated]) simp
  show r: "run_step\<^sup>*\<^sup>* (start_run (limited m)) (run2 m)" unfolding run2_def
    by (rule step_made[OF r1], rule run_step.start) (use assms demo_pending in \<open>simp_all add: demo_ok_def\<close>)
  show "run_step\<^sup>*\<^sup>* (start_run (limited m)) (run3 m)" unfolding run3_def
    by (rule step_made[OF r], rule run_step.finish) (use assms demo_pending in \<open>simp_all add: demo_ok_def\<close>)
qed

lemma demo_go: "ts_go (tr_sys (run2 m)) = (\<lambda>_. NoGoroutine)(''a'' := Working)"
  "ts_go (tr_sys (run3 m)) = (\<lambda>_. NoGoroutine)(''a'' := if has_sem (tr_sys (run2 m)) then Releasing else Finished)"
  "tr_type (run2 m) = (\<lambda>_. [])(''a'' := ''scrub'')" "tr_type (run3 m) = (\<lambda>_. [])(''a'' := ''scrub'')"
  by (simp_all add: run3_def run2_def run1_def run_finish_def run_start_def CreateTask_def init_tasks_def)

theorem task_gauges_exact_witness:
  "level (TaskM tasksRunning) [''scrub''] (tr_calls (run2 1)) = 1 \<and> level (TaskM tasksQueued) [''scrub''] (tr_calls (run2 1)) = 0"
proof -
  have d: "demo_ok 1" by code_simp
  have s: "{i. ts_go (tr_sys (run2 1)) i \<in> {Working, Releasing} \<and> tr_type (run2 1) i = ''scrub''} = {''a''}"
    "{i. ts_go (tr_sys (run2 1)) i = Queued \<and> tr_type (run2 1) i = ''scrub''} = {}"
    by (auto simp: demo_go split: if_splits)
  show ?thesis using task_gauges_exact[OF demo_runs(1)[OF d] _ demo_runs(2)[OF d], of "''scrub''"] demo_pending(2)[of 1]
    unfolding s by simp
qed

text \<open>The task has ended, nothing is running, and the gauge still shows one running task.\<close>

lemma task_running_leaks_witness:
  "workers (tr_sys (run3 0)) = {} \<and> level (TaskM tasksRunning) [''scrub''] (tr_calls (run3 0)) = 1"
proof -
  have d: "demo_ok 0" and n: "\<not> has_sem (tr_sys (run2 0))" by code_simp+
  have s: "{i. ts_go (tr_sys (run3 0)) i \<in> {Working, Finished} \<and> tr_type (run3 0) i = ''scrub''} = {''a''}"
    using n by (auto simp: demo_go split: if_splits)
  have "workers (tr_sys (run3 0)) = {}" using n by (auto simp: workers_def demo_go)
  then show ?thesis using task_running_leaks[OF demo_runs(1)[OF d] _ demo_runs(3)[OF d], of "''scrub''"] demo_pending(3)[of 0]
    unfolding s by simp
qed

end
