(* ===== verification/Workers.thy ===== *)
theory Workers
  imports SystemProps Stats Scrub
begin

text \<open>
  The background workers of the agent: \<open>StartWorkers\<close> (\<open>storage.go\<close>), the loops \<open>startUsageUpdater\<close>,
  \<open>startNFSReconciler\<close>, \<open>startDeviceIOUpdater\<close>, \<open>startDeviceStatsUpdater\<close>, \<open>StartCleanup\<close> and the poller of a task's
  progress. A worker is a goroutine that does its work once, makes a ticker, and then does its work at every tick until
  the context is done. The goroutines are interleaved with each other and with the handlers, one turn a step. The
  locale \<open>ticker_pool\<close> carries an invariant of the turns to every interleaving.
\<close>

section \<open>A pool of tickers\<close>

datatype phase = Starting | Ticking | Panicked | Stopped

record 's worker_pool =
  po_state :: 's
  po_phase :: "phase list"
  po_done :: bool

text \<open>\<open>time.NewTicker\<close> panics when the interval is not positive, and a panic of one goroutine ends the process. A select
  with several ready cases takes any of them, so a tick may still be served after the context is done.\<close>

definition process_up :: "'s worker_pool \<Rightarrow> bool" where
  "process_up P = (Panicked \<notin> set (po_phase P))"

definition turn :: "('w \<Rightarrow> 's \<Rightarrow> 's) \<Rightarrow> 'w \<Rightarrow> nat \<Rightarrow> phase \<Rightarrow> 's worker_pool \<Rightarrow> 's worker_pool" where
  "turn body w i ph P = P\<lparr>po_state := body w (po_state P), po_phase := (po_phase P)[i := ph]\<rparr>"

inductive pool_step :: "('w \<times> int) list \<Rightarrow> ('w \<Rightarrow> 's \<Rightarrow> 's) \<Rightarrow> ('w \<Rightarrow> 's \<Rightarrow> bool) \<Rightarrow> ('s \<Rightarrow> 's \<Rightarrow> bool) \<Rightarrow> 's worker_pool \<Rightarrow> 's worker_pool \<Rightarrow> bool"
  for ws body ok env where
  first: "process_up P \<Longrightarrow> i < length ws \<Longrightarrow> ws ! i = (w, interval) \<Longrightarrow> po_phase P ! i = Starting \<Longrightarrow> ok w (po_state P) \<Longrightarrow>
    pool_step ws body ok env P (turn body w i (if interval \<le> 0 then Panicked else Ticking) P)"
| tick: "process_up P \<Longrightarrow> i < length ws \<Longrightarrow> ws ! i = (w, interval) \<Longrightarrow> po_phase P ! i = Ticking \<Longrightarrow> ok w (po_state P) \<Longrightarrow>
    pool_step ws body ok env P (turn body w i Ticking P)"
| stop: "process_up P \<Longrightarrow> i < length ws \<Longrightarrow> po_phase P ! i = Ticking \<Longrightarrow> po_done P \<Longrightarrow>
    pool_step ws body ok env P (P\<lparr>po_phase := (po_phase P)[i := Stopped]\<rparr>)"
| cancel: "process_up P \<Longrightarrow> pool_step ws body ok env P (P\<lparr>po_done := True\<rparr>)"
| other: "process_up P \<Longrightarrow> env (po_state P) s' \<Longrightarrow> pool_step ws body ok env P (P\<lparr>po_state := s'\<rparr>)"

inductive_cases pool_stepE: "pool_step ws body ok env P P'"

definition start_pool :: "('w \<times> int) list \<Rightarrow> 's \<Rightarrow> 's worker_pool" where
  "start_pool ws s = \<lparr>po_state = s, po_phase = map (\<lambda>_. Starting) ws, po_done = False\<rparr>"

lemma turn_simps [simp]:
  "po_state (turn body w i ph P) = body w (po_state P)" "po_phase (turn body w i ph P) = (po_phase P)[i := ph]"
  "po_done (turn body w i ph P) = po_done P"
  by (simp_all add: turn_def)

lemma pool_step_length: "pool_step ws body ok env P P' \<Longrightarrow> length (po_phase P') = length (po_phase P)"
  by (induction rule: pool_step.induct) simp_all

text \<open>With positive intervals no ticker panics.\<close>

lemma pool_step_up:
  assumes "pool_step ws body ok env P P'" "\<forall>(w, interval) \<in> set ws. 0 < interval"
  shows "process_up P'"
  using assms
proof (induction rule: pool_step.induct)
  case (first P i w interval)
  then have "0 < interval" using nth_mem[OF first(2)] by auto
  then show ?case using first set_update_subset_insert[of "po_phase P" i Ticking] by (auto simp: process_up_def)
next
  case (tick P i w interval)
  then show ?case using set_update_subset_insert[of "po_phase P" i Ticking] by (auto simp: process_up_def)
next
  case (stop P i)
  then show ?case using set_update_subset_insert[of "po_phase P" i Stopped] by (auto simp: process_up_def)
qed (simp_all add: process_up_def)

lemma pool_up:
  assumes "(pool_step ws body ok env)\<^sup>*\<^sup>* P P'" "process_up P" "\<forall>(w, interval) \<in> set ws. 0 < interval"
  shows "process_up P'"
  using assms(1,2) by (induction rule: rtranclp_induct) (auto intro: pool_step_up[OF _ assms(3)])

lemma start_pool_up: "process_up (start_pool ws s)"
  by (auto simp: process_up_def start_pool_def)

text \<open>An interval that is not positive ends the process with the first turn of its worker.\<close>

lemma bad_interval_panics:
  assumes "process_up P" "i < length ws" "length (po_phase P) = length ws" "ws ! i = (w, interval)" "interval \<le> 0"
    "po_phase P ! i = Starting" "ok w (po_state P)"
  shows "\<exists>P'. pool_step ws body ok env P P' \<and> \<not> process_up P' \<and> po_state P' = body w (po_state P)"
  using pool_step.first[of P i ws w interval ok body env] assms
  by (intro exI[of _ "turn body w i Panicked P"]) (auto simp: process_up_def in_set_conv_nth)

text \<open>Once the context is done, the workers can stop without another turn of anyone.\<close>

lemma pool_stops_upto:
  assumes "process_up P" "length (po_phase P) = length ws" "po_done P" "Starting \<notin> set (po_phase P)" "k \<le> length ws"
  shows "\<exists>P'. (pool_step ws body ok env)\<^sup>*\<^sup>* P P' \<and> po_state P' = po_state P \<and> po_done P' \<and> process_up P' \<and>
    length (po_phase P') = length ws \<and> Starting \<notin> set (po_phase P') \<and> (\<forall>i < k. po_phase P' ! i = Stopped)"
  using assms(5)
proof (induction k)
  case 0
  then show ?case using assms by blast
next
  case (Suc k)
  then obtain Q where q: "(pool_step ws body ok env)\<^sup>*\<^sup>* P Q" "po_state Q = po_state P" "po_done Q" "process_up Q"
    "length (po_phase Q) = length ws" "Starting \<notin> set (po_phase Q)" "\<forall>i < k. po_phase Q ! i = Stopped" by auto
  have k: "k < length (po_phase Q)" using Suc.prems q(5) by simp
  then have "po_phase Q ! k \<in> set (po_phase Q)" by simp
  then have "po_phase Q ! k = Ticking \<or> po_phase Q ! k = Stopped"
    using q(4,6) unfolding process_up_def by (metis phase.exhaust)
  then show ?case
  proof
    assume t: "po_phase Q ! k = Ticking"
    let ?R = "Q\<lparr>po_phase := (po_phase Q)[k := Stopped]\<rparr>"
    have "pool_step ws body ok env Q ?R" using q t k by (intro pool_step.stop) simp_all
    moreover have "set (po_phase ?R) \<subseteq> insert Stopped (set (po_phase Q))" using set_update_subset_insert by fastforce
    moreover have "\<forall>i < Suc k. po_phase ?R ! i = Stopped" using q(7) k by (auto simp: less_Suc_eq)
    ultimately show ?thesis using q k by (intro exI[of _ ?R]) (auto simp: process_up_def)
  next
    assume "po_phase Q ! k = Stopped"
    then show ?thesis using q by (intro exI[of _ Q]) (auto simp: less_Suc_eq)
  qed
qed

text \<open>What the turns and the environment keep, every interleaving keeps.\<close>

locale ticker_pool =
  fixes ws :: "('w \<times> int) list" and body :: "'w \<Rightarrow> 's \<Rightarrow> 's" and ok :: "'w \<Rightarrow> 's \<Rightarrow> bool" and env :: "'s \<Rightarrow> 's \<Rightarrow> bool"
    and inv :: "'s \<Rightarrow> bool"
  assumes body_inv: "inv s \<Longrightarrow> ok w s \<Longrightarrow> inv (body w s)"
    and env_inv: "inv s \<Longrightarrow> env s s' \<Longrightarrow> inv s'"
begin

lemma step_inv: "pool_step ws body ok env P P' \<Longrightarrow> inv (po_state P) \<Longrightarrow> inv (po_state P')"
  by (induction rule: pool_step.induct) (simp_all add: body_inv env_inv)

lemma reach_inv: "(pool_step ws body ok env)\<^sup>*\<^sup>* P P' \<Longrightarrow> inv (po_state P) \<Longrightarrow> inv (po_state P')"
  by (induction rule: rtranclp_induct) (auto intro: step_inv)

end

section \<open>The workers of the agent\<close>

datatype worker = UsageUpdater string | NFSReconciler string | DeviceIOUpdater | DeviceStatsUpdater | TaskCleanup int

definition startUsageUpdater :: "int \<Rightarrow> string \<Rightarrow> worker \<times> int" where
  "startUsageUpdater interval tenant = (UsageUpdater tenant, interval)"

definition startNFSReconciler :: "int \<Rightarrow> string \<Rightarrow> worker \<times> int" where
  "startNFSReconciler interval tenant = (NFSReconciler tenant, interval)"

definition startDeviceIOUpdater :: "int \<Rightarrow> worker \<times> int" where
  "startDeviceIOUpdater interval = (DeviceIOUpdater, interval)"

definition startDeviceStatsUpdater :: "int \<Rightarrow> worker \<times> int" where
  "startDeviceStatsUpdater interval = (DeviceStatsUpdater, interval)"

text \<open>The division of Go rounds towards zero.\<close>

definition StartCleanup :: "int \<Rightarrow> worker \<times> int" where
  "StartCleanup maxAge = (TaskCleanup maxAge, if maxAge < 0 then - (- maxAge div 2) else maxAge div 2)"

definition StartWorkers :: "storage \<Rightarrow> int \<Rightarrow> int \<Rightarrow> int \<Rightarrow> int \<Rightarrow> int \<Rightarrow> (worker \<times> int) list" where
  "StartWorkers s usageInterval reconcileInterval deviceIOInterval deviceStatsInterval taskCleanupInterval =
     concat (map (\<lambda>tenant.
       (if st_quotaEnabled s then [startUsageUpdater usageInterval tenant] else []) @
       (if reconcileInterval > 0 then [startNFSReconciler reconcileInterval tenant] else [])) (st_tenants s)) @
     [startDeviceIOUpdater deviceIOInterval, startDeviceStatsUpdater deviceStatsInterval, StartCleanup taskCleanupInterval]"

text \<open>The state the workers share: the storage, the cached devices and the task manager.\<close>

record 'f agent_run =
  ar_st :: state
  ar_cache :: "'f dev_cache"
  ar_tm :: task_manager

definition worker_body :: "sysfs \<Rightarrow> (string \<Rightarrow> 'f option) \<Rightarrow> 'f \<Rightarrow> worker \<Rightarrow> 'f agent_run \<Rightarrow> 'f agent_run" where
  "worker_body sf parseFloat zero wk R = (case ar_st R of (w, s) \<Rightarrow>
     (case wk of
        UsageUpdater t \<Rightarrow> R\<lparr>ar_st := updateAll t (w, s)\<rparr>
      | NFSReconciler t \<Rightarrow> R\<lparr>ar_st := reconcileExports t (w, s)\<rparr>
      | DeviceIOUpdater \<Rightarrow> (case updateDeviceIO sf s (w, ar_cache R) of (w1, c) \<Rightarrow> R\<lparr>ar_st := (w1, s), ar_cache := c\<rparr>)
      | DeviceStatsUpdater \<Rightarrow>
          (case updateBtrfsStats parseFloat zero s (w, ar_cache R) of (w1, c) \<Rightarrow> R\<lparr>ar_st := (w1, s), ar_cache := c\<rparr>)
      | TaskCleanup maxAge \<Rightarrow> (case Cleanup maxAge (w, ar_tm R) of (w1, tm) \<Rightarrow> R\<lparr>ar_st := (w1, s), ar_tm := tm\<rparr>)))"

text \<open>The progress poller of a task: nothing at once, then a turn at every tick until it is stopped or the context is
  done. Closing the channel a second time has no effect.\<close>

datatype wake = Tick | CtxDone | StopCalled

definition poll_turn :: "('s \<Rightarrow> int \<times> 's) \<Rightarrow> (int \<Rightarrow> 's \<Rightarrow> 's) \<Rightarrow> 's \<Rightarrow> 's" where
  "poll_turn fn set_progress s = (case fn s of (pct, s1) \<Rightarrow>
     (case polled_progress pct of None \<Rightarrow> s1 | Some p \<Rightarrow> set_progress p s1))"

fun PollProgress :: "('s \<Rightarrow> int \<times> 's) \<Rightarrow> (int \<Rightarrow> 's \<Rightarrow> 's) \<Rightarrow> wake list \<Rightarrow> 's \<Rightarrow> 's" where
  "PollProgress fn sp [] s = s"
| "PollProgress fn sp (Tick # es) s = PollProgress fn sp es (poll_turn fn sp s)"
| "PollProgress fn sp (CtxDone # es) s = s"
| "PollProgress fn sp (StopCalled # es) s = s"

lemma PollProgress_stopped: "PollProgress fn sp (es @ StopCalled # fs) s = PollProgress fn sp (es @ [StopCalled]) s"
  by (induction fn sp es s rule: PollProgress.induct) simp_all

section \<open>The invariant under all workers\<close>

text \<open>When a turn is in order: the query commands only read, a file system reports owners of at most 64 bits, no
  volume is called \<open>snapshots\<close>, and no task has the path of a metadata file for its own.\<close>

definition tasks_apart :: "storage \<Rightarrow> task_manager \<Rightarrow> bool" where
  "tasks_apart s tm \<longleftrightarrow> (\<forall>i \<in> fst ` set (tm_tasks tm). \<forall>t n. ValidName t \<longrightarrow> ValidName n \<longrightarrow>
     taskFile tm i \<noteq> MetaPath (st_volumes s) t n \<and> taskFile tm i \<noteq> MetaPath (st_snapshots s) t n)"

definition turn_ok :: "(string \<Rightarrow> 'f option) \<Rightarrow> 'f \<Rightarrow> worker \<Rightarrow> 'f agent_run \<Rightarrow> bool" where
  "turn_ok parseFloat zero wk R = (case ar_st R of (w, s) \<Rightarrow>
     (case wk of
        UsageUpdater t \<Rightarrow> ValidName t \<and> owners_ok w \<and> snd (QgroupUsageBulk (st_btrfs s) (st_mountPoint s) w) = w \<and>
          (\<forall>(n, m) \<in> set (tenant_entries t (st_volumes s)). n \<noteq> SnapshotsDir)
      | NFSReconciler t \<Rightarrow> True
      | DeviceIOUpdater \<Rightarrow> snd (Devices (st_btrfs s) (st_mountPoint s) w) = w
      | DeviceStatsUpdater \<Rightarrow> snd (DeviceErrorsOf (st_btrfs s) (st_basePath s) w) = w \<and>
          snd (FilesystemUsageOf parseFloat zero (st_btrfs s) (st_mountPoint s) w) = w
      | TaskCleanup maxAge \<Rightarrow> tasks_apart s (ar_tm R)))"

text \<open>What happens beside the workers: handlers and the environment of \<open>System\<close>, and changes of the tasks.\<close>

definition agent_env :: "'f agent_run \<Rightarrow> 'f agent_run \<Rightarrow> bool" where
  "agent_env R R' \<longleftrightarrow> (\<exists>st'. agent_step (ar_st R) st' \<and> R' = R\<lparr>ar_st := st'\<rparr>) \<or> (\<exists>tm. R' = R\<lparr>ar_tm := tm\<rparr>)"

definition run_inv :: "'f agent_run \<Rightarrow> bool" where
  "run_inv R \<longleftrightarrow> sys_inv (fst (ar_st R)) (snd (ar_st R)) \<and> btrfs_local (st_btrfs (snd (ar_st R))) \<and>
     keeps_files (st_exporter (snd (ar_st R)))"

lemma sys_inv_remove:
  assumes "sys_inv w s" "\<And>t n. ValidName t \<Longrightarrow> ValidName n \<Longrightarrow> p \<noteq> MetaPath (st_volumes s) t n \<and> p \<noteq> MetaPath (st_snapshots s) t n"
  shows "sys_inv (snd (os_remove p w)) s"
proof -
  have f: "file_content (snd (os_remove p w)) q = file_content w q" if "q \<noteq> p" for q
    using that by (auto simp: os_remove_def file_content_def split: option.splits if_splits)
  have "store_inv volume_codec volume_ok (snd (os_remove p w)) (st_volumes s)"
    using f assms(2) by (intro store_inv_world[OF sys_invD(1)[OF assms(1)]]) metis
  moreover have "store_inv snapshot_codec snapshot_ok (snd (os_remove p w)) (st_snapshots s)"
    using f assms(2) by (intro store_inv_world[OF sys_invD(2)[OF assms(1)]]) metis
  ultimately show ?thesis using assms(1) unfolding sys_inv_def by blast
qed

lemma cleanup_task_inv:
  assumes "sys_inv w s" "\<And>t n. ValidName t \<Longrightarrow> ValidName n \<Longrightarrow>
      taskFile tm i \<noteq> MetaPath (st_volumes s) t n \<and> taskFile tm i \<noteq> MetaPath (st_snapshots s) t n"
  shows "sys_inv (fst (cleanup_task c (i, t) (w, tm))) s" "tm_taskDir (snd (cleanup_task c (i, t) (w, tm))) = tm_taskDir tm"
  using assms sys_inv_remove[of w s "taskFile tm i"] by (auto simp: cleanup_task_def)

lemma Cleanup_sys_inv:
  assumes "sys_inv w s" "tasks_apart s tm" "Cleanup maxAge (w, tm) = (w', tm')"
  shows "sys_inv w' s"
proof -
  have "sys_inv (fst (fold (cleanup_task c) es (w1, tm1))) s"
    if "sys_inv w1 s" "tm_taskDir tm1 = tm_taskDir tm" "set es \<subseteq> set (tm_tasks tm)" for c es w1 tm1
    using that
  proof (induction es arbitrary: w1 tm1)
    case (Cons e es)
    obtain i t where e: "e = (i, t)" by (rule prod.exhaust)
    obtain w2 tm2 where s2: "cleanup_task c (i, t) (w1, tm1) = (w2, tm2)" by (rule prod.exhaust)
    have "i \<in> fst ` set (tm_tasks tm)" using Cons.prems(3) e by (auto intro: rev_image_eqI)
    moreover have "taskFile tm1 i = taskFile tm i" using Cons.prems(2) by (simp add: taskFile_def)
    ultimately have a: "taskFile tm1 i \<noteq> MetaPath (st_volumes s) t' n \<and> taskFile tm1 i \<noteq> MetaPath (st_snapshots s) t' n"
      if "ValidName t'" "ValidName n" for t' n
      using assms(2) that unfolding tasks_apart_def by metis
    have "sys_inv w2 s" "tm_taskDir tm2 = tm_taskDir tm"
      using cleanup_task_inv[OF Cons.prems(1) a, where c = c and t = t] s2 Cons.prems(2) by simp_all
    then show ?case using Cons.IH[of w2 tm2] Cons.prems(3) e s2 by simp
  qed simp
  then show ?thesis using assms(1,3) unfolding Cleanup_def by (metis case_prod_conv fst_conv order_refl)
qed

lemma worker_body_inv:
  assumes "run_inv R" "turn_ok parseFloat zero wk R"
  shows "run_inv (worker_body sf parseFloat zero wk R)"
proof -
  obtain w s where st: "ar_st R = (w, s)" by (rule prod.exhaust)
  have i: "sys_inv w s" "btrfs_local (st_btrfs s)" "keeps_files (st_exporter s)" using assms(1) st by (simp_all add: run_inv_def)
  have k: "run_inv (R\<lparr>ar_st := st'\<rparr>)" if "agent_step (w, s) st'" for st'
    using agent_step_inv[OF that] agent_step_config[OF that] i configD(1,2)[of "snd st'" s] by (simp add: run_inv_def)
  show ?thesis
  proof (cases wk)
    case (UsageUpdater t)
    then have "agent_step (w, s) (updateAll t (w, s))" using assms(2) st by (intro agent_step.usage) (auto simp: turn_ok_def)
    then show ?thesis using UsageUpdater st k by (simp add: worker_body_def)
  next
    case (NFSReconciler t)
    then show ?thesis using st k[OF agent_step.reconcile] by (simp add: worker_body_def)
  next
    case DeviceIOUpdater
    then have "fst (updateDeviceIO sf s (w, ar_cache R)) = w"
      using assms(2) st by (auto simp: turn_ok_def updateDeviceIO_def split: prod.splits sum.splits)
    then show ?thesis using DeviceIOUpdater st i by (auto simp: worker_body_def run_inv_def split: prod.splits)
  next
    case DeviceStatsUpdater
    then have "fst (updateBtrfsStats parseFloat zero s (w, ar_cache R)) = w"
      using assms(2) st by (auto simp: turn_ok_def updateBtrfsStats_def Let_def split: prod.splits)
    then show ?thesis using DeviceStatsUpdater st i by (auto simp: worker_body_def run_inv_def split: prod.splits)
  next
    case (TaskCleanup maxAge)
    obtain w1 tm1 where c: "Cleanup maxAge (w, ar_tm R) = (w1, tm1)" by (rule prod.exhaust)
    then have "sys_inv w1 s" using Cleanup_sys_inv[OF i(1)] assms(2) TaskCleanup st by (simp add: turn_ok_def)
    then show ?thesis using TaskCleanup st i c by (simp add: worker_body_def run_inv_def)
  qed
qed

lemma agent_env_inv:
  assumes "run_inv R" "agent_env R R'"
  shows "run_inv R'"
  using assms(2) unfolding agent_env_def
proof (elim disjE exE conjE)
  fix st' assume s: "agent_step (ar_st R) st'" and r: "R' = R\<lparr>ar_st := st'\<rparr>"
  show ?thesis using assms(1) agent_step_inv[OF s] configD(1,2)[OF agent_step_config[OF s]] r by (simp add: run_inv_def)
next
  fix tm assume "R' = R\<lparr>ar_tm := tm\<rparr>"
  then show ?thesis using assms(1) by (simp add: run_inv_def)
qed

interpretation agent_pool: ticker_pool ws "worker_body sf parseFloat zero" "turn_ok parseFloat zero" agent_env run_inv
  for ws and sf and parseFloat and zero
  by unfold_locales (simp_all add: worker_body_inv agent_env_inv)

section \<open>Properties\<close>


definition idle_run :: "state \<Rightarrow> unit agent_run" where
  "idle_run st = \<lparr>ar_st = st, ar_cache = empty_cache, ar_tm = \<lparr>tm_tasks = [], tm_taskDir = ''/d/tasks'', tm_max = 2, tm_pollInterval = 5\<rparr>\<rparr>"

definition demo_workers :: "state \<Rightarrow> (worker \<times> int) list" where
  "demo_workers st = StartWorkers (snd st) 60 60 5 60 86400"


text \<open>Only the interval of the reconciler may be zero, which turns it off. With any other interval of zero, for example
  \<open>AGENT_DEVICE_IO_INTERVAL=0\<close>, the process ends with a panic after the first turn of the worker.\<close>

lemma zero_interval_panics:
  assumes "ws = StartWorkers s usageI reconcileI 0 statsI cleanupI" "turn_ok parseFloat zero DeviceIOUpdater R"
  shows "\<exists>P. pool_step ws (worker_body sf parseFloat zero) (turn_ok parseFloat zero) agent_env (start_pool ws R) P \<and> Panicked \<in> set (po_phase P)"
proof -
  have "(DeviceIOUpdater, 0) \<in> set ws" by (simp add: assms(1) StartWorkers_def startDeviceIOUpdater_def)
  then obtain i where i: "i < length ws" "ws ! i = (DeviceIOUpdater, 0)" by (auto simp: in_set_conv_nth)
  then show ?thesis
    using bad_interval_panics[of "start_pool ws R" i ws DeviceIOUpdater 0 "turn_ok parseFloat zero" "worker_body sf parseFloat zero" agent_env] assms(2)
      start_pool_up[of ws R] by (auto simp: start_pool_def process_up_def)
qed

end
