(* ===== verification/Runner.thy ===== *)
theory Runner
  imports Nfs
begin

text \<open>
  The command runner of \<open>utils/runner.go\<close>, its mock (\<open>utils/mock_runner.go\<close>), and the constructors that put it under
  the btrfs manager and the exporter. Starting a process is an argument, the combined output and the error of
  \<open>exec.Cmd.CombinedOutput\<close>; the log lines are left out. Shown is that the text of an error tells exactly what the
  command has printed, on which the create paths of the agent rely.
\<close>

section \<open>Definitions\<close>

type_synonym exec = "string \<Rightarrow> string list \<Rightarrow> world \<Rightarrow> (string \<times> string option) \<times> world"

definition run_error :: "string \<Rightarrow> string list \<Rightarrow> string \<Rightarrow> string \<Rightarrow> string" where
  "run_error b args e out = b @ '' '' @ join_with '' '' args @ '': '' @ e @ '': '' @ trim_space out"

definition ShellRunner :: "exec \<Rightarrow> runner" where
  "ShellRunner ex b args w = (case ex b args w of
       ((out, Some e), w1) \<Rightarrow> ((out, Some (run_error b args e out)), w1)
     | ((out, None), w1) \<Rightarrow> ((out, None), w1))"

text \<open>The mock keeps the arguments of its calls.\<close>

record mock_runner =
  mr_Calls :: "string list list"
  mr_Out :: string
  mr_Err :: "string option"
  mr_RunFn :: "(string list \<Rightarrow> string \<times> string option) option"

definition MockRunner :: "string list \<Rightarrow> mock_runner \<Rightarrow> (string \<times> string option) \<times> mock_runner" where
  "MockRunner args m =
     (let m1 = m\<lparr>mr_Calls := mr_Calls m @ [args]\<rparr> in
      (case mr_RunFn m of Some f \<Rightarrow> (f args, m1) | None \<Rightarrow> ((mr_Out m, mr_Err m), m1)))"

definition btrfs_NewManager :: "exec \<Rightarrow> string \<Rightarrow> manager" where
  "btrfs_NewManager ex b = \<lparr>bin = b, cmd = ShellRunner ex\<rparr>"

definition NewManagerWithRunner :: "string \<Rightarrow> runner \<Rightarrow> manager" where
  "NewManagerWithRunner b r = \<lparr>bin = b, cmd = r\<rparr>"

definition kernel_exporter :: "exec \<Rightarrow> string \<Rightarrow> string \<Rightarrow> exporter" where
  "kernel_exporter ex b exportOpts = NewKernelExporter \<lparr>ke_bin = b, ke_cmd = ShellRunner ex, ke_opts = exportOpts\<rparr>"

text \<open>\<open>IsBtrfs\<close>: the type that \<open>statfs(2)\<close> reports, if it succeeds.\<close>

definition IsBtrfs :: "(string \<Rightarrow> 64 word option) \<Rightarrow> string \<Rightarrow> bool" where
  "IsBtrfs statfs_type path = (statfs_type path = Some 0x9123683E)"

section \<open>Occurrences in a text\<close>

lemma contains_sublist: "contains s m \<longleftrightarrow> sublist m s"
proof (induction s)
  case (Cons c s)
  then show ?case by (auto simp: contains_def sublist_Cons_right)
qed (simp add: contains_def)

text \<open>An occurrence does not reach over a character that is not part of it.\<close>

lemma sublist_sep:
  assumes "c \<notin> set m"
  shows "sublist m (a @ c # b) \<longleftrightarrow> sublist m a \<or> sublist m b"
proof
  assume "sublist m (a @ c # b)"
  then consider "sublist m a" | "sublist m (c # b)" | x y where "m = x @ y" "suffix x a" "prefix y (c # b)"
    by (auto simp: sublist_append)
  then show "sublist m a \<or> sublist m b"
  proof cases
    case 2
    then show ?thesis using assms by (cases m) (auto simp: sublist_Cons_right)
  next
    case 3
    then have "y = []" using assms by (cases y) auto
    then show ?thesis using 3 by (simp add: suffix_imp_sublist)
  qed simp
next
  assume "sublist m a \<or> sublist m b"
  then show "sublist m (a @ c # b)" by (auto simp: sublist_append sublist_Cons_right)
qed

lemma sublist_dropWhile:
  assumes "m \<noteq> []" "\<not> P (hd m)"
  shows "sublist m (dropWhile P s) \<longleftrightarrow> sublist m s"
proof (induction s)
  case (Cons c s)
  then show ?case using assms by (cases m) (auto simp: sublist_Cons_right)
qed simp

lemma sublist_trim:
  assumes "m \<noteq> []" "\<not> is_space (hd m)" "\<not> is_space (last m)"
  shows "sublist m (trim_space s) \<longleftrightarrow> sublist m s"
proof -
  have "sublist m (trim_space s) \<longleftrightarrow> sublist (rev m) (dropWhile is_space (rev (dropWhile is_space s)))"
    using sublist_rev[of "rev m" "dropWhile is_space (rev (dropWhile is_space s))"] by (simp add: trim_space_def)
  also have "\<dots> \<longleftrightarrow> sublist (rev m) (rev (dropWhile is_space s))"
    using assms by (intro sublist_dropWhile) (simp_all add: hd_rev)
  also have "\<dots> \<longleftrightarrow> sublist m (dropWhile is_space s)" by (rule sublist_rev)
  also have "\<dots> \<longleftrightarrow> sublist m s" by (rule sublist_dropWhile[of m is_space s, OF assms(1,2)])
  finally show ?thesis .
qed

text \<open>A message without colons and without surrounding space is in an error text if and only if it is in the command
  line, in the error of the process or in the output.\<close>

lemma run_error_contains:
  assumes "CHR '':'' \<notin> set m" "m \<noteq> []" "\<not> is_space (hd m)" "\<not> is_space (last m)"
  shows "contains (run_error b args e out) m \<longleftrightarrow> contains (b @ '' '' @ join_with '' '' args) m \<or> contains e m \<or> contains out m"
proof -
  have sp: "sublist m (CHR '' '' # t) \<longleftrightarrow> sublist m t" for t
    using assms(2,3) by (cases m) (auto simp: sublist_Cons_right is_space_def)
  have t: "run_error b args e out = (b @ '' '' @ join_with '' '' args) @ CHR '':'' # CHR '' '' # (e @ CHR '':'' # CHR '' '' # trim_space out)"
    by (simp add: run_error_def)
  show ?thesis unfolding t contains_sublist sublist_sep[OF assms(1)] sp sublist_trim[OF assms(2-4)] by blast
qed

section \<open>Properties\<close>

text \<open>The agent recognises an existing subvolume exactly when \<open>btrfs\<close> says so. When the runner is the shell runner, a
  failed \<open>btrfs subvolume create\<close> or \<open>snapshot\<close> is taken for an existing target if and only if the command has failed and
  printed the message, wherever in its output; neither the command line nor the error of the process can be mistaken
  for it.\<close>

lemma already_exists_exact:
  assumes "ex b args w = ((out, err), w1)"
    and "\<not> contains (b @ '' '' @ join_with '' '' args) ''target path already exists''"
    and "\<And>e. err = Some e \<Longrightarrow> \<not> contains e ''target path already exists''"
  shows "isSubvolumeAlreadyExistsError (fst (run (btrfs_NewManager ex b) args w)) \<longleftrightarrow>
    err \<noteq> None \<and> contains out ''target path already exists''"
proof (cases err)
  case None
  then show ?thesis using assms(1)
    by (simp add: run_def btrfs_NewManager_def ShellRunner_def isSubvolumeAlreadyExistsError_def)
next
  case (Some e)
  have "contains (run_error b args e out) ''target path already exists'' \<longleftrightarrow> contains out ''target path already exists''"
    using run_error_contains[of "''target path already exists''" b args e out] assms(2) assms(3)[OF Some]
    by (simp add: is_space_def)
  then show ?thesis using assms(1) Some
    by (simp add: run_def btrfs_NewManager_def ShellRunner_def isSubvolumeAlreadyExistsError_def)
qed

definition demo_exec :: exec where
  "demo_exec b args w = ((''ERROR: target path already exists: /p/t/v/data'' @ [newline], Some ''exit status 1''), w)"

lemma already_exists_exact_witness:
  "\<forall>w. isSubvolumeAlreadyExistsError (fst (SubvolumeCreate (btrfs_NewManager demo_exec ''btrfs'') ''/p/t/v/data'' w))"
proof
  fix w
  have c: "\<not> contains (''btrfs'' @ '' '' @ join_with '' '' [''subvolume'', ''create'', ''/p/t/v/data'']) ''target path already exists''"
    "\<not> contains ''exit status 1'' ''target path already exists''"
    "contains (''ERROR: target path already exists: /p/t/v/data'' @ [newline]) ''target path already exists''" by code_simp+
  show "isSubvolumeAlreadyExistsError (fst (SubvolumeCreate (btrfs_NewManager demo_exec ''btrfs'') ''/p/t/v/data'' w))"
    using already_exists_exact[of demo_exec "''btrfs''" "[''subvolume'', ''create'', ''/p/t/v/data'']" w, OF demo_exec_def c(1)] c(2,3)
    by (simp add: SubvolumeCreate_def btrfs_NewManager_def)
qed

end
