(* ===== verification/Servers.thy ===== *)
theory Servers
  imports Metrics Workers Runner Node Api
begin

text \<open>
  The processes: configuration (\<open>config/config.go\<close>), the CSI server (\<open>csiserver/server.go\<close>), the start of the agent
  (\<open>agent/agent.go\<close>), of the controller (\<open>controller/controller.go\<close>) and of the node driver (\<open>driver/driver.go\<close>), the
  metric servers and the request counters of the three. Sockets, URL parsing, the environment parser and the
  Kubernetes clients are arguments. What a start has set going is the list of its actions; the select of a CSI server is
  a step relation.
\<close>

section \<open>Configuration\<close>

text \<open>The fields of \<open>AgentConfig\<close> that the storage does not use, on top of those it does. Durations are nanoseconds.\<close>

record AgentConfig = agent_config +
  ac_ListenAddr :: string
  ac_MetricsAddr :: string
  ac_UsageInterval :: int
  ac_ExportfsBin :: string
  ac_KernelExportOptions :: string
  ac_BtrfsBin :: string
  ac_NFSReconcileInterval :: int
  ac_DeviceIOInterval :: int
  ac_DeviceStatsInterval :: int
  ac_TaskCleanupInterval :: int
  ac_TaskMaxConcurrent :: int
  ac_TaskDefaultTimeout :: int
  ac_TaskScrubTimeout :: int
  ac_TaskPollInterval :: int
  ac_SwaggerEnabled :: bool

definition minute :: int where "minute = 60 * second"
definition hour :: int where "hour = 60 * minute"

text \<open>The defaults of the struct tags. \<open>AGENT_TENANTS\<close> is required and has none.\<close>

definition default_AgentConfig :: "string \<Rightarrow> AgentConfig" where
  "default_AgentConfig tenants =
     \<lparr>cf_BasePath = ''./storage'', cf_Tenants = tenants, cf_TLSCert = [], cf_TLSKey = [], cf_NFSExporter = ''kernel'',
      cf_QuotaEnabled = True, cf_DefaultDirMode = ''0700'', cf_DefaultDataMode = ''2770'', cf_ImmutableLabels = [],
      cf_DefaultPageLimit = 0, cf_PaginationSnapshotTTL = 30 * second, cf_PaginationMaxSnapshots = 100,
      ac_ListenAddr = '':8080'', ac_MetricsAddr = ''127.0.0.1:9090'', ac_UsageInterval = minute, ac_ExportfsBin = ''exportfs'',
      ac_KernelExportOptions = ''rw,nohide,crossmnt,no_root_squash,no_subtree_check'', ac_BtrfsBin = ''btrfs'',
      ac_NFSReconcileInterval = 60 * second, ac_DeviceIOInterval = 5 * second, ac_DeviceStatsInterval = minute,
      ac_TaskCleanupInterval = 24 * hour, ac_TaskMaxConcurrent = 2, ac_TaskDefaultTimeout = 6 * hour,
      ac_TaskScrubTimeout = 24 * hour, ac_TaskPollInterval = 5 * second, ac_SwaggerEnabled = False\<rparr>"

record ControllerConfig =
  cc_Endpoint :: string
  cc_MetricsAddr :: string
  cc_DefaultLabels :: string

definition default_ControllerConfig :: ControllerConfig where
  "default_ControllerConfig = \<lparr>cc_Endpoint = ''unix:///csi/csi.sock'', cc_MetricsAddr = '':9090'', cc_DefaultLabels = []\<rparr>"

record NodeConfig =
  nc_NodeID :: string
  nc_NodeIP :: string
  nc_StorageInterface :: string
  nc_StorageCIDR :: string
  nc_Endpoint :: string
  nc_MetricsAddr :: string

definition default_NodeConfig :: "string \<Rightarrow> NodeConfig" where
  "default_NodeConfig nodeID = \<lparr>nc_NodeID = nodeID, nc_NodeIP = [], nc_StorageInterface = [], nc_StorageCIDR = [],
     nc_Endpoint = ''unix:///csi/csi.sock'', nc_MetricsAddr = '':9090''\<rparr>"

section \<open>The CSI server\<close>

record url =
  u_Scheme :: string
  u_Host :: string
  u_Path :: string

text \<open>Errors of \<open>os.Remove\<close> are shown by their number, others by their text.\<close>

datatype start_error = StartError string | RemoveError errno | Wrapped string start_error

record 'l net =
  nt_Parse :: "string \<Rightarrow> string + url"
  nt_Listen :: "string \<Rightarrow> string \<Rightarrow> world \<Rightarrow> (string + 'l) \<times> world"

definition net_listen :: "'l net \<Rightarrow> string \<Rightarrow> string \<Rightarrow> world \<Rightarrow> (start_error + 'l) \<times> world" where
  "net_listen nt network addr w = (case nt_Listen nt network addr w of
       (Inl e, w1) \<Rightarrow> (Inl (StartError e), w1) | (Inr l, w1) \<Rightarrow> (Inr l, w1))"

definition listen :: "'l net \<Rightarrow> string \<Rightarrow> world \<Rightarrow> (start_error + 'l) \<times> world" where
  "listen nt endpoint w = (case nt_Parse nt endpoint of
       Inl e \<Rightarrow> (Inl (StartError e), w)
     | Inr u \<Rightarrow>
         if u_Scheme u = ''unix'' then
           (case os_remove (u_Path u) w of
              (Some e, w1) \<Rightarrow> if os_IsNotExist e then net_listen nt ''unix'' (u_Path u) w1 else (Inl (RemoveError e), w1)
            | (None, w1) \<Rightarrow> net_listen nt ''unix'' (u_Path u) w1)
         else net_listen nt ''tcp'' (u_Host u) w)"

datatype csi_service = IdentityServer string | ControllerServer | NodeServer string string

record 'l csi_server =
  cs_services :: "csi_service list"
  cs_listener :: 'l

definition csi_New :: "'l net \<Rightarrow> string \<Rightarrow> string \<Rightarrow> string \<Rightarrow> world \<Rightarrow> (start_error + 'l csi_server) \<times> world" where
  "csi_New nt endpoint version commit w = (case listen nt endpoint w of
       (Inl e, w1) \<Rightarrow> (Inl e, w1)
     | (Inr l, w1) \<Rightarrow> (Inr \<lparr>cs_services = [IdentityServer (version @ '' ('' @ commit @ '')'')], cs_listener = l\<rparr>, w1))"

definition RegisterServer :: "csi_service \<Rightarrow> 'l csi_server \<Rightarrow> 'l csi_server" where
  "RegisterServer svc srv = srv\<lparr>cs_services := cs_services srv @ [svc]\<rparr>"

text \<open>The goroutine of \<open>serve\<close> runs the gRPC server and sends what it returned into a channel of capacity one. The server
  runs until it fails or is asked to stop; after \<open>GracefulStop\<close> it returns no error.\<close>

datatype grpc_phase = Accepting | Draining | Sent

record serve_state =
  sv_ctxDone :: bool
  sv_grpc :: grpc_phase
  sv_errCh :: "string option option"
  sv_result :: "string option option"

inductive serve_step :: "serve_state \<Rightarrow> serve_state \<Rightarrow> bool" where
  signal: "serve_step S (S\<lparr>sv_ctxDone := True\<rparr>)"
| failed: "sv_grpc S = Accepting \<Longrightarrow> sv_errCh S = None \<Longrightarrow> serve_step S (S\<lparr>sv_grpc := Sent, sv_errCh := Some (Some e)\<rparr>)"
| drained: "sv_grpc S = Draining \<Longrightarrow> sv_errCh S = None \<Longrightarrow> serve_step S (S\<lparr>sv_grpc := Sent, sv_errCh := Some None\<rparr>)"
| shutdown: "sv_result S = None \<Longrightarrow> sv_ctxDone S \<Longrightarrow>
    serve_step S (S\<lparr>sv_grpc := (if sv_grpc S = Accepting then Draining else sv_grpc S), sv_result := Some None\<rparr>)"
| receive: "sv_result S = None \<Longrightarrow> sv_errCh S = Some r \<Longrightarrow> serve_step S (S\<lparr>sv_errCh := None, sv_result := Some r\<rparr>)"

inductive_cases serve_stepE: "serve_step S S'"

definition serve_init :: serve_state where
  "serve_init = \<lparr>sv_ctxDone = False, sv_grpc = Accepting, sv_errCh = None, sv_result = None\<rparr>"

text \<open>The channel is free whenever the goroutine has something to send, so it never stays behind blocked.\<close>

definition serve_ok :: "serve_state \<Rightarrow> bool" where
  "serve_ok S \<longleftrightarrow> (sv_grpc S \<noteq> Sent \<longrightarrow> sv_errCh S = None) \<and> (sv_grpc S = Draining \<longrightarrow> sv_result S = Some None \<and> sv_ctxDone S) \<and>
     (sv_result S = None \<longrightarrow> sv_grpc S = Accepting \<or> sv_grpc S = Sent \<and> (\<exists>e. sv_errCh S = Some (Some e))) \<and>
     (sv_result S = Some None \<longrightarrow> sv_ctxDone S) \<and> (\<forall>e. sv_result S = Some (Some e) \<longrightarrow> sv_grpc S = Sent)"

lemma serve_step_ok: "serve_step S S' \<Longrightarrow> serve_ok S \<Longrightarrow> serve_ok S'"
  by (induction rule: serve_step.induct) (auto simp: serve_ok_def)

lemma serve_init_ok: "serve_ok serve_init"
  by (simp add: serve_ok_def serve_init_def)

lemma serve_reachable: "serve_step\<^sup>*\<^sup>* serve_init S \<Longrightarrow> serve_ok S"
  by (induction rule: rtranclp_induct) (simp_all add: serve_init_ok serve_step_ok)

section \<open>Actions of a start\<close>

datatype action =
    ServeMetrics string
  | StartPool "(worker \<times> int) list"
  | ServeTLS string string string
  | ServePlain string
  | TrackAgents
  | RecordEvents string

text \<open>The metric servers. The node driver listens at once, the others in the background; a server that fails is only
  logged.\<close>

definition startMetricsServer :: "string \<Rightarrow> action list" where
  "startMetricsServer addr = (if addr = [] then [] else [ServeMetrics addr])"

definition node_startMetricsServer :: "'l net \<Rightarrow> string \<Rightarrow> world \<Rightarrow> action list \<times> world" where
  "node_startMetricsServer nt addr w =
     (if addr = [] then ([], w)
      else (case nt_Listen nt ''tcp'' addr w of (Inl e, w1) \<Rightarrow> ([], w1) | (Inr l, w1) \<Rightarrow> ([ServeMetrics addr], w1)))"

section \<open>The agent\<close>

definition tls_configured :: "AgentConfig \<Rightarrow> bool" where
  "tls_configured cfg = (cf_TLSCert cfg \<noteq> [] \<and> cf_TLSKey cfg \<noteq> [])"

text \<open>\<open>Start\<close> of an agent whose storage is \<open>s\<close>. When the address cannot be bound, the process ends, after the workers
  were started.\<close>

definition agent_Start :: "'l net \<Rightarrow> AgentConfig \<Rightarrow> storage \<Rightarrow> world \<Rightarrow> (start_error option \<times> action list) \<times> world" where
  "agent_Start nt cfg s w =
     (let acts = startMetricsServer (ac_MetricsAddr cfg) @
            [StartPool (StartWorkers s (ac_UsageInterval cfg) (ac_NFSReconcileInterval cfg) (ac_DeviceIOInterval cfg)
               (ac_DeviceStatsInterval cfg) (ac_TaskCleanupInterval cfg))] in
      case nt_Listen nt ''tcp'' (ac_ListenAddr cfg) w of
        (Inl e, w1) \<Rightarrow> ((Some (StartError ''failed to bind listen address''), acts), w1)
      | (Inr l, w1) \<Rightarrow> ((None, acts @
          [if tls_configured cfg then ServeTLS (ac_ListenAddr cfg) (cf_TLSCert cfg) (cf_TLSKey cfg) else ServePlain (ac_ListenAddr cfg)]), w1))"

text \<open>\<open>Run\<close>: the environment parser gives the configuration or an error. The tools of the host get their paths from it.\<close>

definition agent_environ :: "exec \<Rightarrow> AgentConfig \<Rightarrow> environ \<Rightarrow> environ" where
  "agent_environ ex cfg env = env\<lparr>en_btrfs := btrfs_NewManager ex (ac_BtrfsBin cfg),
     en_exporter := Some (kernel_exporter ex (ac_ExportfsBin cfg) (ac_KernelExportOptions cfg))\<rparr>"

definition agent_Run :: "'l net \<Rightarrow> exec \<Rightarrow> environ \<Rightarrow> string + AgentConfig \<Rightarrow> world \<Rightarrow> (start_error option \<times> action list) \<times> world" where
  "agent_Run nt ex env parsed w = (case parsed of
       Inl e \<Rightarrow> ((Some (Wrapped ''parse agent config: '' (StartError e)), []), w)
     | Inr cfg \<Rightarrow>
         (case NewAgent (agent_environ ex cfg env) (agent_config.truncate cfg) w of
            Inl e \<Rightarrow> ((Some (StartError e), []), w)
          | Inr (tenants, st, pages) \<Rightarrow> agent_Start nt cfg (snd st) (fst st)))"

section \<open>The controller and the node driver\<close>

text \<open>The clients that the libraries of Kubernetes make.\<close>

record 'k k8s =
  k8_InClusterConfig :: "string + 'k"
  k8_NewForConfig :: "'k \<Rightarrow> string + kube"
  k8_NewSnapshotClient :: "'k \<Rightarrow> string option"

record 'l controller_process =
  cp_labels :: labels
  cp_tracker :: tracker
  cp_kube :: kube
  cp_server :: "'l csi_server"

definition controller_Start ::
    "'l net \<Rightarrow> 'k k8s \<Rightarrow> string \<Rightarrow> string \<Rightarrow> string + ControllerConfig \<Rightarrow> world \<Rightarrow>
     ((start_error + 'l controller_process) \<times> action list) \<times> world" where
  "controller_Start nt k8 version commit parsed w = (case parsed of
       Inl e \<Rightarrow> ((Inl (Wrapped ''parse controller config: '' (StartError e)), []), w)
     | Inr cfg \<Rightarrow>
         let acts = startMetricsServer (cc_MetricsAddr cfg) in
         (case k8_InClusterConfig k8 of
            Inl e \<Rightarrow> ((Inl (Wrapped ''k8s in-cluster config: '' (StartError e)), acts), w)
          | Inr kc \<Rightarrow>
         (case k8_NewForConfig k8 kc of
            Inl e \<Rightarrow> ((Inl (Wrapped ''k8s client: '' (StartError e)), acts), w)
          | Inr kube \<Rightarrow>
         (case k8_NewSnapshotClient k8 kc of
            Some e \<Rightarrow> ((Inl (Wrapped ''k8s snapshot client: '' (StartError e)), acts), w)
          | None \<Rightarrow>
         (let acts1 = acts @ [TrackAgents, RecordEvents (DriverName @ ''-controller'')] in
          case csi_New nt (cc_Endpoint cfg) version commit w of
            (Inl e, w1) \<Rightarrow> ((Inl e, acts1), w1)
          | (Inr srv, w1) \<Rightarrow>
              ((Inr \<lparr>cp_labels = initDefaultLabels (cc_DefaultLabels cfg), cp_tracker = NewAgentTracker version commit, cp_kube = kube,
                     cp_server = RegisterServer ControllerServer srv\<rparr>, acts1), w1))))))"

definition driver_Start ::
    "'l net \<Rightarrow> (string \<Rightarrow> (string \<Rightarrow> bool) option) \<Rightarrow> net_iface list option \<Rightarrow> string \<Rightarrow> string \<Rightarrow> string + NodeConfig \<Rightarrow> world \<Rightarrow>
     ((start_error + 'l csi_server) \<times> action list) \<times> world" where
  "driver_Start nt parse_cidr ifs version commit parsed w = (case parsed of
       Inl e \<Rightarrow> ((Inl (Wrapped ''parse node config: '' (StartError e)), []), w)
     | Inr cfg \<Rightarrow>
         (case ResolveNodeIP parse_cidr ifs (nc_NodeIP cfg) (nc_StorageInterface cfg) (nc_StorageCIDR cfg) of
            None \<Rightarrow> ((Inl (StartError ''resolve node IP''), []), w)
          | Some nodeIP \<Rightarrow>
         (case node_startMetricsServer nt (nc_MetricsAddr cfg) w of (acts, w1) \<Rightarrow>
         (case csi_New nt (nc_Endpoint cfg) version commit w1 of
            (Inl e, w2) \<Rightarrow> ((Inl (Wrapped (''create CSI server on '' @ nc_Endpoint cfg @ '': '') e), acts), w2)
          | (Inr srv, w2) \<Rightarrow> ((Inr (RegisterServer (NodeServer (nc_NodeID cfg) nodeIP) srv), acts), w2)))))"

section \<open>Request counters\<close>

text \<open>The interceptor of a gRPC server counts every call but the probes, and passes the answer on. \<open>codeName\<close> is the name of
  the status code of an answer.\<close>

definition grpc_intercept :: "metric \<Rightarrow> metric \<Rightarrow> ('r \<Rightarrow> string) \<Rightarrow> string \<Rightarrow> int \<Rightarrow> ('s \<Rightarrow> 'r \<times> 's) \<Rightarrow> 's \<Rightarrow> ('r \<times> 's) \<times> 'f metric_call list" where
  "grpc_intercept tot dur codeName fullMethod elapsed handler s =
     (if suffix ''/Probe'' fullMethod then (handler s, [])
      else (case handler s of (resp, s1) \<Rightarrow>
        ((resp, s1), [MInc tot [fullMethod, codeName resp], MObserve dur [fullMethod] (Elapsed elapsed)])))"

definition controller_metricsInterceptor :: "('r \<Rightarrow> string) \<Rightarrow> string \<Rightarrow> int \<Rightarrow> ('s \<Rightarrow> 'r \<times> 's) \<Rightarrow> 's \<Rightarrow> ('r \<times> 's) \<times> 'f metric_call list" where
  "controller_metricsInterceptor =
     grpc_intercept (ControllerM controller_grpcRequestsTotal) (ControllerM controller_grpcRequestDuration)"

definition node_metricsInterceptor :: "('r \<Rightarrow> string) \<Rightarrow> string \<Rightarrow> int \<Rightarrow> ('s \<Rightarrow> 'r \<times> 's) \<Rightarrow> 's \<Rightarrow> ('r \<times> 's) \<times> 'f metric_call list" where
  "node_metricsInterceptor = grpc_intercept (NodeM node_grpcRequestsTotal) (NodeM node_grpcRequestDuration)"

text \<open>The middleware of the agent labels a request with its method, the pattern of its route and the status that was
  written.\<close>

definition MetricsMiddleware :: "string \<Rightarrow> string \<Rightarrow> int \<Rightarrow> ('a \<Rightarrow> 'f response \<times> 'a) \<Rightarrow> 'a \<Rightarrow> ('f response \<times> 'a) \<times> 'f metric_call list" where
  "MetricsMiddleware meth path elapsed nxt a = (case nxt a of (resp, a1) \<Rightarrow>
     ((resp, a1), [MInc (HttpM httpRequestsTotal) [meth, path, show_base 10 (nat (rs_Status resp))],
                   MObserve (HttpM httpRequestDuration) [meth, path] (Elapsed elapsed)]))"

text \<open>Counting changes nothing of an answer, and no call panics on the number of its label values.\<close>

lemma interceptors_transparent:
  "fst (controller_metricsInterceptor codeName m el h s) = h s" "fst (node_metricsInterceptor codeName m el h s) = h s"
  "fst (MetricsMiddleware meth path el nxt a) = nxt a"
  by (simp_all add: controller_metricsInterceptor_def node_metricsInterceptor_def grpc_intercept_def MetricsMiddleware_def split: prod.splits)

lemma interceptors_arity:
  "list_all arity_ok (snd (controller_metricsInterceptor codeName m el h s))"
  "list_all arity_ok (snd (node_metricsInterceptor codeName m el h s))"
  "list_all arity_ok (snd (MetricsMiddleware meth path el nxt a))"
  by (simp_all add: controller_metricsInterceptor_def node_metricsInterceptor_def grpc_intercept_def MetricsMiddleware_def
      csi_metric_def split: prod.splits)

section \<open>Pages outside the API\<close>

datatype 'f answer = ApiAnswer "'f response" | TextAnswer int string | BlobAnswer int string

definition backslash :: char where "backslash = CHR 0x5C"

definition banner :: "string list" where
  "banner =
     [''  _____ _____ _____ _____      _   _ _____ _____     _____ _____ _____'',
      '' | __  |_   _| __  |   __|   | '' @ [backslash] @ '' | |   __|   __|   |     |   __|     |'',
      '' | __ -| | | |    -|   __|   |  '' @ [backslash] @ ''| |   __|__   |   |   --|__   |-   -|'',
      '' |_____| |_| |__|__|__|      |_|'' @ [backslash] @ ''__|__|  |_____|   |_____|_____|_____|'']"

definition ServeLanding :: "string \<Rightarrow> string \<Rightarrow> bool \<Rightarrow> 'f answer" where
  "ServeLanding version commit swaggerEnabled =
     (let swagger = (if swaggerEnabled then newline # ''  /swagger.json   OpenAPI spec'' else []) in
      TextAnswer 200 (newline # concat (map (\<lambda>l. l @ [newline])
        (banner @
         [[], ''  '' @ version @ '' ('' @ commit @ '')'', [],
          ''  CSI driver for dynamic btrfs volume provisioning'', ''  with NFS export, snapshot, and clone support.'', [],
          ''  https://github.com/erikmagkekse/btrfs-nfs-csi'', [], ''  /healthz          Health check'' @ swagger]))))"

text \<open>The generated specification is read once, when the route is made.\<close>

definition ServeSwaggerJSON :: "string option \<Rightarrow> 'f answer" where
  "ServeSwaggerJSON spec = (case spec of
       None \<Rightarrow> ApiAnswer (json_error 500 ''swagger spec not available'' ErrInternal)
     | Some blob \<Rightarrow> BlobAnswer 200 blob)"

definition root_serve :: "bool \<Rightarrow> string option \<Rightarrow> 'f api_env \<Rightarrow> choices \<Rightarrow> request \<Rightarrow> 'f agent \<Rightarrow> ('f answer \<times> 'f agent) option" where
  "root_serve swaggerEnabled spec env ch rq a =
     (if rq_Path rq = ''/'' \<and> rq_Method rq = GET then Some (ServeLanding (env_version env) (env_commit env) swaggerEnabled, a)
      else if swaggerEnabled \<and> rq_Path rq = ''/swagger.json'' \<and> rq_Method rq = GET then Some (ServeSwaggerJSON spec, a)
      else map_option (\<lambda>(r, a1). (ApiAnswer r, a1)) (serve env ch rq a))"

section \<open>What the starts promise\<close>

text \<open>The workers of an agent with the default configuration have positive intervals, and the default modes are read.\<close>

lemma default_workers_positive:
  assumes "cfg = default_AgentConfig tenants"
  shows "\<forall>(w, interval) \<in> set (StartWorkers s (ac_UsageInterval cfg) (ac_NFSReconcileInterval cfg) (ac_DeviceIOInterval cfg)
    (ac_DeviceStatsInterval cfg) (ac_TaskCleanupInterval cfg)). 0 < interval"
  by (auto simp: assms default_AgentConfig_def StartWorkers_def startUsageUpdater_def startNFSReconciler_def startDeviceIOUpdater_def
      startDeviceStatsUpdater_def StartCleanup_def minute_def hour_def second_def split: if_splits)

lemma default_modes: "parse_uint 8 32 (cf_DefaultDirMode (default_AgentConfig ts)) = Inr 448"
  "parse_uint 8 32 (cf_DefaultDataMode (default_AgentConfig ts)) = Inr 1528"
  by (simp_all add: default_AgentConfig_def, code_simp+)

text \<open>The select of a CSI server: it returns no error only after the signal, an error only when the gRPC server has
  returned it, it can return as soon as the signal came, and the goroutine is never left with a full channel.\<close>

lemma serve_outcome:
  assumes "serve_step\<^sup>*\<^sup>* serve_init S"
  shows "sv_result S = Some None \<Longrightarrow> sv_ctxDone S" "sv_result S = Some (Some e) \<Longrightarrow> sv_grpc S = Sent"
    "sv_grpc S \<noteq> Sent \<Longrightarrow> sv_errCh S = None"
    "sv_ctxDone S \<Longrightarrow> sv_result S = None \<Longrightarrow> \<exists>S'. serve_step S S' \<and> sv_result S' = Some None"
  using serve_reachable[OF assms] serve_step.shutdown[of S] by (auto simp: serve_ok_def)

text \<open>The node announces the address it has resolved: the controller reads it back from the identifier.\<close>

lemma driver_identity:
  assumes "driver_Start nt pc ifs version commit (Inr cfg) w = ((Inr srv, acts), w')" "CHR ''|'' \<notin> set (nc_NodeID cfg)"
  shows "\<exists>ip. ResolveNodeIP pc ifs (nc_NodeIP cfg) (nc_StorageInterface cfg) (nc_StorageCIDR cfg) = Some ip \<and>
    NodeServer (nc_NodeID cfg) ip \<in> set (cs_services srv) \<and>
    (ip \<noteq> [] \<longrightarrow> ParseNodeID (NodeGetInfo (nc_NodeID cfg) ip) = Some (nc_NodeID cfg, ip))"
  using assms ParseNodeID_Make
  by (auto simp: driver_Start_def RegisterServer_def NodeGetInfo_def split: option.splits prod.splits sum.splits)

text \<open>A controller that has started serves identity and controller calls, with an empty table of agents.\<close>

lemma controller_started:
  assumes "controller_Start nt k8 version commit (Inr cfg) w = ((Inr p, acts), w')"
  shows "cs_services (cp_server p) = [IdentityServer (version @ '' ('' @ commit @ '')''), ControllerServer] \<and>
    tracker_ok (cp_tracker p) \<and> TrackAgents \<in> set acts"
  using assms NewAgentTracker_ok
  by (auto simp: controller_Start_def csi_New_def RegisterServer_def Let_def split: option.splits prod.splits sum.splits)

section \<open>Properties\<close>

text \<open>C39: an agent that has started serves plain HTTP only when neither a certificate nor a key is configured. Otherwise both
  are configured and it serves TLS with them and nothing else, on the configured address.\<close>

theorem agent_tls:
  assumes "agent_Run nt ex env (Inr cfg) w = ((None, acts), w')"
  shows "if cf_TLSCert cfg = [] \<and> cf_TLSKey cfg = []
    then ServePlain (ac_ListenAddr cfg) \<in> set acts \<and> (\<forall>a c k. ServeTLS a c k \<notin> set acts)
    else cf_TLSCert cfg \<noteq> [] \<and> cf_TLSKey cfg \<noteq> [] \<and>
      ServeTLS (ac_ListenAddr cfg) (cf_TLSCert cfg) (cf_TLSKey cfg) \<in> set acts \<and> (\<forall>a. ServePlain a \<notin> set acts)"
proof -
  obtain tenants st pages where n: "NewAgent (agent_environ ex cfg env) (agent_config.truncate cfg) w = Inr (tenants, st, pages)"
    and s: "agent_Start nt cfg (snd st) (fst st) = ((None, acts), w')"
    using assms by (auto simp: agent_Run_def split: sum.splits prod.splits)
  have "(cf_TLSCert cfg \<noteq> []) = (cf_TLSKey cfg \<noteq> [])"
    using n by (auto simp: NewAgent_def agent_config.defs split: if_splits)
  then show ?thesis using s
    by (auto simp: agent_Start_def startMetricsServer_def tls_configured_def Let_def split: prod.splits sum.splits if_splits)
qed

definition demo_net :: "unit net" where
  "demo_net = \<lparr>nt_Parse = \<lambda>e. Inr \<lparr>u_Scheme = ''unix'', u_Host = [], u_Path = e\<rparr>, nt_Listen = \<lambda>network addr w. (Inr (), w)\<rparr>"

definition demo_config :: AgentConfig where
  "demo_config = (default_AgentConfig ''t:secret'')\<lparr>cf_BasePath := ''/d'', cf_TLSCert := ''c.pem'', cf_TLSKey := ''k.pem''\<rparr>"

theorem agent_tls_witness:
  "\<exists>acts w'. agent_Run demo_net tree_runner demo_env (Inr demo_config) demo_world = ((None, acts), w') \<and>
     ServeTLS '':8080'' ''c.pem'' ''k.pem'' \<in> set acts \<and> ServePlain '':8080'' \<notin> set acts"
proof -
  have "fst (fst (agent_Run demo_net tree_runner demo_env (Inr demo_config) demo_world)) = None" by code_simp
  then obtain acts w' where r: "agent_Run demo_net tree_runner demo_env (Inr demo_config) demo_world = ((None, acts), w')"
    by (metis prod.collapse)
  then show ?thesis using agent_tls[OF r] by (auto simp: demo_config_def default_AgentConfig_def)
qed

text \<open>An entry of \<open>AGENT_TENANTS\<close> without a token is accepted, and the agent then serves its tenant to everyone: a Basic
  header with an empty password (\<open>Og==\<close> is the encoding of a colon) passes the authentication.\<close>

lemma empty_token_open:
  "parseTenants ''default:'' = Some [([], ''default'')] \<and> AuthMiddleware [([], ''default'')] nxt ''Basic Og=='' a = nxt ''default'' a"
proof -
  have "parseTenants ''default:'' = Some [([], ''default'')]" "provided_token ''Basic Og=='' = Some []" by code_simp+
  then show ?thesis by (simp add: AuthMiddleware_def)
qed

end
