(* ===== verification/CliMain.thy ===== *)
theory CliMain
  imports CliTree Servers
begin

text \<open>
  The program as a whole, \<open>cmd/btrfs-nfs-csi/main.go\<close>: the log level, the server commands beside the client commands of
  \<open>CliTree\<close>, and what the process prints and returns at its end. Parsing the arguments is the work of the library.
\<close>

section \<open>Log level\<close>

datatype log_level = TraceLevel | DebugLevel | InfoLevel | WarnLevel | ErrorLevel | OtherLevel string

text \<open>An unknown \<open>LOG_LEVEL\<close> is ignored; \<open>parse\<close> is \<open>zerolog.ParseLevel\<close>.\<close>

definition main_level :: "(string \<Rightarrow> log_level option) \<Rightarrow> string \<Rightarrow> log_level" where
  "main_level parse l = (if l \<noteq> [] then (case parse l of Some p \<Rightarrow> p | None \<Rightarrow> InfoLevel) else InfoLevel)"

section \<open>Server commands\<close>

datatype server_action = RunAgent | StartController | StartDriver

text \<open>Name, aliases, whether the command is hidden, whether a warning about its name is logged, action, commands below.\<close>

datatype server_command = ServerCommand string "string list" bool bool "server_action option" "server_command list"

definition agentCmd :: server_command where
  "agentCmd = ServerCommand ''agent'' [] False False (Some RunAgent) []"

definition controllerBackwardsCompatibility :: server_command where
  "controllerBackwardsCompatibility = ServerCommand ''controller'' [] True True (Some StartController) []"

definition driverBackwardsCompatibility :: server_command where
  "driverBackwardsCompatibility = ServerCommand ''driver'' [] True True (Some StartDriver) []"

definition kubernetesCmd :: server_command where
  "kubernetesCmd = ServerCommand ''kubernetes'' [''k8s''] False False None
     [ServerCommand ''controller'' [] False False (Some StartController) [],
      ServerCommand ''driver'' [] False False (Some StartDriver) []]"

definition integrationCmd :: server_command where
  "integrationCmd = ServerCommand ''integration'' [''integrations'', ''int''] False False None [kubernetesCmd]"

definition server_commands :: "server_command list" where
  "server_commands = [agentCmd, integrationCmd, controllerBackwardsCompatibility, driverBackwardsCompatibility]"

definition server_spelled :: "server_command \<Rightarrow> string list" where
  "server_spelled x = (case x of ServerCommand n as hid dep act subs \<Rightarrow> n # as)"

fun find_server :: "server_command list \<Rightarrow> string list \<Rightarrow> server_action option" where
  "find_server cmds [] = None"
| "find_server cmds (n # ns) = (case find (\<lambda>x. n \<in> set (server_spelled x)) cmds of
       None \<Rightarrow> None
     | Some (ServerCommand m as hid dep act subs) \<Rightarrow> if subs = [] then act else find_server subs ns)"

text \<open>The end of the process. The action of a server ends it with \<open>log.Fatal\<close> when the start fails. \<open>main\<close> prints an
  error and exits with 1, or prints the timing line of a client command.\<close>

datatype process_end = Exit nat "string list"

definition server_end :: "start_error option \<Rightarrow> process_end" where
  "server_end e = (case e of None \<Rightarrow> Exit 0 [] | Some x \<Rightarrow> Exit 1 [])"

definition main_end :: "string option \<Rightarrow> string \<Rightarrow> process_end" where
  "main_end err timingLine = (case err of
       Some e \<Rightarrow> Exit 1 [''error: '' @ e]
     | None \<Rightarrow> Exit 0 (if timingLine \<noteq> [] then [[], timingLine] else []))"

text \<open>What a server action starts, by the start functions of \<open>Servers\<close>.\<close>

record ('l, 'k) host =
  ho_net :: "'l net"
  ho_exec :: exec
  ho_environ :: environ
  ho_k8s :: "'k k8s"
  ho_parseCIDR :: "string \<Rightarrow> (string \<Rightarrow> bool) option"
  ho_ifaces :: "net_iface list option"
  ho_agentConfig :: "string + AgentConfig"
  ho_controllerConfig :: "string + ControllerConfig"
  ho_nodeConfig :: "string + NodeConfig"

definition failure :: "start_error + 'a \<Rightarrow> start_error option" where
  "failure r = (case r of Inl e \<Rightarrow> Some e | Inr x \<Rightarrow> None)"

fun run_server :: "('l, 'k) host \<Rightarrow> string \<Rightarrow> string \<Rightarrow> server_action \<Rightarrow> world \<Rightarrow> process_end \<times> action list \<times> world" where
  "run_server h version commit RunAgent w =
     (case agent_Run (ho_net h) (ho_exec h) (ho_environ h) (ho_agentConfig h) w of ((e, acts), w1) \<Rightarrow> (server_end e, acts, w1))"
| "run_server h version commit StartController w =
     (case controller_Start (ho_net h) (ho_k8s h) version commit (ho_controllerConfig h) w of
        ((r, acts), w1) \<Rightarrow> (server_end (failure r), acts, w1))"
| "run_server h version commit StartDriver w =
     (case driver_Start (ho_net h) (ho_parseCIDR h) (ho_ifaces h) version commit (ho_nodeConfig h) w of
        ((r, acts), w1) \<Rightarrow> (server_end (failure r), acts, w1))"

section \<open>Lemmas\<close>

text \<open>Client and server commands do not share a name or an alias.\<close>

lemma all_commands_unambiguous: "distinct (concat (map spelled client_commands) @ concat (map server_spelled server_commands))"
  by code_simp

text \<open>The old names start what the new ones do.\<close>

lemma old_names:
  "find_server server_commands [''controller''] = find_server server_commands [''integration'', ''kubernetes'', ''controller'']"
  "find_server server_commands [''driver''] = find_server server_commands [''int'', ''k8s'', ''driver'']"
  "find_server server_commands [''agent''] = Some RunAgent"
  by code_simp+

text \<open>A server that has ended without an error has served: plainly or with TLS, or with a CSI socket.\<close>

lemma run_server_agent:
  assumes "run_server h version commit RunAgent w = (Exit 0 out, acts, w1)" "ho_agentConfig h = Inr cfg"
  shows "agent_Run (ho_net h) (ho_exec h) (ho_environ h) (Inr cfg) w = ((None, acts), w1)"
  using assms by (auto simp: server_end_def split: prod.splits option.splits)

end
