(* ===== verification/Wire.thy ===== *)
theory Wire
  imports ApiModels
begin

text \<open>
  The JSON of the API requests. The client writes the request types of \<open>agent/api/v1/models/models.go\<close>, the agent reads
  the request types of \<open>agent/storage/model.go\<close>; the two packages declare their own structs and tags, and nothing but
  the tags makes them fit. A request is one record here, \<open>Marshal\<close> follows the tags of the client, \<open>Unmarshal\<close> those of
  the agent. The locale \<open>wire_format\<close> states that a request survives the wire.
\<close>

section \<open>Optional members\<close>

text \<open>A pointer with \<open>omitempty\<close> is left out when it is nil only; what it points to may be empty.\<close>

definition enc_ptr :: "string \<Rightarrow> ('a \<Rightarrow> json) \<Rightarrow> 'a option \<Rightarrow> (string \<times> json) list" where
  "enc_ptr k f p = (case p of None \<Rightarrow> [] | Some v \<Rightarrow> [(k, f v)])"

definition dec_ptr :: "(json \<Rightarrow> 'a option) \<Rightarrow> json \<Rightarrow> 'a option option" where
  "dec_ptr d j = (if j = JNull then Some None else map_option Some (d j))"

section \<open>Requests\<close>

definition Marshal_VolumeCreateRequest :: "VolumeCreateRequest \<Rightarrow> json" where
  "Marshal_VolumeCreateRequest r = JObj (
     [(''name'', JStr (vcr_Name r)), (''size_bytes'', enc_u64 (vcr_SizeBytes r)), (''nocow'', JBool (vcr_NoCOW r)),
      (''compression'', JStr (vcr_Compression r)), (''quota_bytes'', enc_u64 (vcr_QuotaBytes r)), (''uid'', JNum (vcr_UID r)),
      (''gid'', JNum (vcr_GID r)), (''mode'', JStr (vcr_Mode r))]
     @ omit (vcr_Labels r = []) ''labels'' (enc_labels (vcr_Labels r)))"

fun Unmarshal_VolumeCreateRequest :: "json \<Rightarrow> VolumeCreateRequest option" where
  "Unmarshal_VolumeCreateRequest (JObj m) = do {
     name \<leftarrow> dec_str (jfield m ''name'');
     sz \<leftarrow> dec_u64 (jfield m ''size_bytes'');
     nocow \<leftarrow> dec_bool (jfield m ''nocow'');
     compression \<leftarrow> dec_str (jfield m ''compression'');
     quota \<leftarrow> dec_u64 (jfield m ''quota_bytes'');
     uid \<leftarrow> dec_int (jfield m ''uid'');
     gid \<leftarrow> dec_int (jfield m ''gid'');
     mode \<leftarrow> dec_str (jfield m ''mode'');
     ls \<leftarrow> dec_labels (jfield m ''labels'');
     Some \<lparr>vcr_Name = name, vcr_SizeBytes = sz, vcr_NoCOW = nocow, vcr_Compression = compression, vcr_QuotaBytes = quota,
       vcr_UID = uid, vcr_GID = gid, vcr_Mode = mode, vcr_Labels = ls\<rparr> }"
| "Unmarshal_VolumeCreateRequest _ = None"

definition Marshal_VolumeUpdateRequest :: "VolumeUpdateRequest \<Rightarrow> json" where
  "Marshal_VolumeUpdateRequest r = JObj (
     enc_ptr ''size_bytes'' enc_u64 (vur_SizeBytes r) @ enc_ptr ''nocow'' JBool (vur_NoCOW r) @
     enc_ptr ''compression'' JStr (vur_Compression r) @ enc_ptr ''uid'' JNum (vur_UID r) @ enc_ptr ''gid'' JNum (vur_GID r) @
     enc_ptr ''mode'' JStr (vur_Mode r) @ enc_ptr ''labels'' enc_labels (vur_Labels r))"

fun Unmarshal_VolumeUpdateRequest :: "json \<Rightarrow> VolumeUpdateRequest option" where
  "Unmarshal_VolumeUpdateRequest (JObj m) = do {
     sz \<leftarrow> dec_ptr dec_u64 (jfield m ''size_bytes'');
     nocow \<leftarrow> dec_ptr dec_bool (jfield m ''nocow'');
     compression \<leftarrow> dec_ptr dec_str (jfield m ''compression'');
     uid \<leftarrow> dec_ptr dec_int (jfield m ''uid'');
     gid \<leftarrow> dec_ptr dec_int (jfield m ''gid'');
     mode \<leftarrow> dec_ptr dec_str (jfield m ''mode'');
     ls \<leftarrow> dec_ptr dec_labels (jfield m ''labels'');
     Some \<lparr>vur_SizeBytes = sz, vur_NoCOW = nocow, vur_Compression = compression, vur_UID = uid, vur_GID = gid,
       vur_Mode = mode, vur_Labels = ls\<rparr> }"
| "Unmarshal_VolumeUpdateRequest _ = None"

text \<open>The three requests that name a source, a new name and labels.\<close>

definition Marshal_SnapshotCreateRequest :: "SnapshotCreateRequest \<Rightarrow> json" where
  "Marshal_SnapshotCreateRequest r = JObj ([(''volume'', JStr (scr_Volume r)), (''name'', JStr (scr_Name r))]
     @ omit (scr_Labels r = []) ''labels'' (enc_labels (scr_Labels r)))"

fun Unmarshal_SnapshotCreateRequest :: "json \<Rightarrow> SnapshotCreateRequest option" where
  "Unmarshal_SnapshotCreateRequest (JObj m) = do {
     vol \<leftarrow> dec_str (jfield m ''volume'');
     name \<leftarrow> dec_str (jfield m ''name'');
     ls \<leftarrow> dec_labels (jfield m ''labels'');
     Some \<lparr>scr_Volume = vol, scr_Name = name, scr_Labels = ls\<rparr> }"
| "Unmarshal_SnapshotCreateRequest _ = None"

definition Marshal_CloneCreateRequest :: "CloneCreateRequest \<Rightarrow> json" where
  "Marshal_CloneCreateRequest r = JObj ([(''snapshot'', JStr (ccr_Snapshot r)), (''name'', JStr (ccr_Name r))]
     @ omit (ccr_Labels r = []) ''labels'' (enc_labels (ccr_Labels r)))"

fun Unmarshal_CloneCreateRequest :: "json \<Rightarrow> CloneCreateRequest option" where
  "Unmarshal_CloneCreateRequest (JObj m) = do {
     snap \<leftarrow> dec_str (jfield m ''snapshot'');
     name \<leftarrow> dec_str (jfield m ''name'');
     ls \<leftarrow> dec_labels (jfield m ''labels'');
     Some \<lparr>ccr_Snapshot = snap, ccr_Name = name, ccr_Labels = ls\<rparr> }"
| "Unmarshal_CloneCreateRequest _ = None"

definition Marshal_VolumeCloneRequest :: "VolumeCloneRequest \<Rightarrow> json" where
  "Marshal_VolumeCloneRequest r = JObj ([(''source'', JStr (vlr_Source r)), (''name'', JStr (vlr_Name r))]
     @ omit (vlr_Labels r = []) ''labels'' (enc_labels (vlr_Labels r)))"

fun Unmarshal_VolumeCloneRequest :: "json \<Rightarrow> VolumeCloneRequest option" where
  "Unmarshal_VolumeCloneRequest (JObj m) = do {
     src \<leftarrow> dec_str (jfield m ''source'');
     name \<leftarrow> dec_str (jfield m ''name'');
     ls \<leftarrow> dec_labels (jfield m ''labels'');
     Some \<lparr>vlr_Source = src, vlr_Name = name, vlr_Labels = ls\<rparr> }"
| "Unmarshal_VolumeCloneRequest _ = None"

text \<open>The export requests; both sides use the type of the models. An empty map is left out like a nil one, and reads as
  nil. The timeout of a task is text, its options and labels are maps that are never told apart from nil.\<close>

definition Marshal_VolumeExportRequest :: "VolumeExportRequest \<Rightarrow> json" where
  "Marshal_VolumeExportRequest r = JObj ([(''client'', JStr (xr_Client r))] @
     (case xr_Labels r of None \<Rightarrow> [] | Some ls \<Rightarrow> omit (ls = []) ''labels'' (enc_labels ls)))"

fun Unmarshal_VolumeExportRequest :: "json \<Rightarrow> VolumeExportRequest option" where
  "Unmarshal_VolumeExportRequest (JObj m) = do {
     c \<leftarrow> dec_str (jfield m ''client'');
     ls \<leftarrow> dec_ptr dec_labels (jfield m ''labels'');
     Some \<lparr>xr_Client = c, xr_Labels = ls\<rparr> }"
| "Unmarshal_VolumeExportRequest _ = None"

definition Marshal_TaskCreateRequest :: "TaskCreateRequest \<Rightarrow> json" where
  "Marshal_TaskCreateRequest r = JObj (omit (tq_Timeout r = []) ''timeout'' (JStr (tq_Timeout r)) @
     omit (tq_Opts r = []) ''opts'' (enc_labels (tq_Opts r)) @ omit (tq_Labels r = []) ''labels'' (enc_labels (tq_Labels r)))"

fun Unmarshal_TaskCreateRequest :: "json \<Rightarrow> TaskCreateRequest option" where
  "Unmarshal_TaskCreateRequest (JObj m) = do {
     tmo \<leftarrow> dec_str (jfield m ''timeout'');
     op \<leftarrow> dec_labels (jfield m ''opts'');
     ls \<leftarrow> dec_labels (jfield m ''labels'');
     Some \<lparr>tq_Timeout = tmo, tq_Opts = op, tq_Labels = ls\<rparr> }"
| "Unmarshal_TaskCreateRequest _ = None"

section \<open>What a wire format promises\<close>

locale wire_format =
  fixes marshal :: "'a \<Rightarrow> json" and unmarshal :: "json \<Rightarrow> 'a option" and valid :: "'a \<Rightarrow> bool"
  assumes roundtrip: "valid r \<Longrightarrow> unmarshal (marshal r) = Some r"
begin

text \<open>Two different requests are never the same text.\<close>

lemma marshal_inj: "valid r \<Longrightarrow> valid r' \<Longrightarrow> marshal r = marshal r' \<Longrightarrow> r = r'"
  using roundtrip by (metis option.inject)

end

text \<open>Go integers fit 64 bits, and the keys of a Go map are distinct.\<close>

definition create_valid :: "VolumeCreateRequest \<Rightarrow> bool" where
  "create_valid r \<longleftrightarrow> int64 (vcr_UID r) \<and> int64 (vcr_GID r) \<and> keys_distinct (vcr_Labels r)"

definition update_valid :: "VolumeUpdateRequest \<Rightarrow> bool" where
  "update_valid r \<longleftrightarrow> pred_option int64 (vur_UID r) \<and> pred_option int64 (vur_GID r) \<and> pred_option keys_distinct (vur_Labels r)"

definition export_valid :: "VolumeExportRequest \<Rightarrow> bool" where
  "export_valid r \<longleftrightarrow> pred_option (\<lambda>ls. keys_distinct ls \<and> ls \<noteq> []) (xr_Labels r)"

lemma keys_enc_ptr: "x \<in> fst ` set (enc_ptr k f p) \<longleftrightarrow> p \<noteq> None \<and> x = k"
  by (auto simp: enc_ptr_def split: option.split)

lemma jfield_enc_ptr: "jfield (enc_ptr k' f p) k = (if k = k' then (case p of None \<Rightarrow> JNull | Some v \<Rightarrow> f v) else JNull)"
  by (simp add: enc_ptr_def jfield_def split: option.split)

lemma nil_ptr: "(if p = None then JNull else case p of None \<Rightarrow> JNull | Some v \<Rightarrow> f v) = (case p of None \<Rightarrow> JNull | Some v \<Rightarrow> f v)"
  "(if p \<noteq> None then case p of None \<Rightarrow> JNull | Some v \<Rightarrow> f v else JNull) = (case p of None \<Rightarrow> JNull | Some v \<Rightarrow> f v)"
  by (simp_all split: option.split)

lemma dec_ptr_simps [simp]:
  "dec_ptr dec_u64 (case p of None \<Rightarrow> JNull | Some v \<Rightarrow> enc_u64 v) = Some p"
  "dec_ptr dec_bool (case b of None \<Rightarrow> JNull | Some v \<Rightarrow> JBool v) = Some b"
  "dec_ptr dec_str (case s of None \<Rightarrow> JNull | Some v \<Rightarrow> JStr v) = Some s"
  "pred_option int64 i \<Longrightarrow> dec_ptr dec_int (case i of None \<Rightarrow> JNull | Some v \<Rightarrow> JNum v) = Some i"
  "pred_option keys_distinct ls \<Longrightarrow> dec_ptr dec_labels (case ls of None \<Rightarrow> JNull | Some v \<Rightarrow> enc_labels v) = Some ls"
proof -
  have u: "enc_u64 v \<noteq> JNull" "enc_labels l \<noteq> JNull" for v l by (simp_all add: enc_u64_def enc_labels_def)
  show "dec_ptr dec_u64 (case p of None \<Rightarrow> JNull | Some v \<Rightarrow> enc_u64 v) = Some p" by (cases p) (simp_all add: dec_ptr_def u)
  show "dec_ptr dec_bool (case b of None \<Rightarrow> JNull | Some v \<Rightarrow> JBool v) = Some b" by (cases b) (simp_all add: dec_ptr_def)
  show "dec_ptr dec_str (case s of None \<Rightarrow> JNull | Some v \<Rightarrow> JStr v) = Some s" by (cases s) (simp_all add: dec_ptr_def)
  show "dec_ptr dec_int (case i of None \<Rightarrow> JNull | Some v \<Rightarrow> JNum v) = Some i" if "pred_option int64 i"
    using that by (cases i) (simp_all add: dec_ptr_def)
  show "dec_ptr dec_labels (case ls of None \<Rightarrow> JNull | Some v \<Rightarrow> enc_labels v) = Some ls" if "pred_option keys_distinct ls"
    using that by (cases ls) (simp_all add: dec_ptr_def u)
qed

lemma jfield_Cons: "jfield ((k', j) # m) k = (if k \<in> fst ` set m then jfield m k else if k = k' then j else JNull)"
  using jfield_append[of "[(k', j)]" m k] by (simp add: jfield_def)

lemmas wire_fields = jfield_append jfield_omit keys_omit omitted_def jfield_enc_ptr keys_enc_ptr nil_ptr jfield_Cons image_Un

lemma create_roundtrip: "create_valid r \<Longrightarrow> Unmarshal_VolumeCreateRequest (Marshal_VolumeCreateRequest r) = Some r"
  by (cases r) (simp add: create_valid_def Marshal_VolumeCreateRequest_def wire_fields)

text \<open>A chain of pointers with different keys: each key finds its own pointer.\<close>

lemma jfield_miss: "k \<notin> fst ` set m \<Longrightarrow> jfield m k = JNull"
  by (simp add: jfield_def map_of_rev_notin)

lemma jfield_chain:
  "x \<noteq> k \<Longrightarrow> jfield (enc_ptr k f p @ m) x = jfield m x"
  "k \<notin> fst ` set m \<Longrightarrow> jfield (enc_ptr k f p @ m) k = (case p of None \<Rightarrow> JNull | Some v \<Rightarrow> f v)"
  using jfield_miss by (simp_all add: jfield_append jfield_enc_ptr)

lemma update_roundtrip: "update_valid r \<Longrightarrow> Unmarshal_VolumeUpdateRequest (Marshal_VolumeUpdateRequest r) = Some r"
  by (cases r) (simp add: update_valid_def Marshal_VolumeUpdateRequest_def jfield_chain jfield_enc_ptr keys_enc_ptr image_Un)

lemma snapshot_request_roundtrip:
  "keys_distinct (scr_Labels r) \<Longrightarrow> Unmarshal_SnapshotCreateRequest (Marshal_SnapshotCreateRequest r) = Some r"
  by (cases r) (simp add: Marshal_SnapshotCreateRequest_def wire_fields)

lemma snapshot_clone_roundtrip:
  "keys_distinct (ccr_Labels r) \<Longrightarrow> Unmarshal_CloneCreateRequest (Marshal_CloneCreateRequest r) = Some r"
  by (cases r) (simp add: Marshal_CloneCreateRequest_def wire_fields)

lemma volume_clone_roundtrip:
  "keys_distinct (vlr_Labels r) \<Longrightarrow> Unmarshal_VolumeCloneRequest (Marshal_VolumeCloneRequest r) = Some r"
  by (cases r) (simp add: Marshal_VolumeCloneRequest_def wire_fields)

lemma export_roundtrip: "export_valid r \<Longrightarrow> Unmarshal_VolumeExportRequest (Marshal_VolumeExportRequest r) = Some r"
  by (cases r) (auto simp: export_valid_def Marshal_VolumeExportRequest_def wire_fields dec_ptr_def enc_labels_def dec_members_enc split: option.split)

lemma task_roundtrip:
  "keys_distinct (tq_Opts r) \<and> keys_distinct (tq_Labels r) \<Longrightarrow> Unmarshal_TaskCreateRequest (Marshal_TaskCreateRequest r) = Some r"
  by (cases r) (simp add: Marshal_TaskCreateRequest_def wire_fields)

text \<open>Labels that are empty, but not nil, do not survive: the agent sees an export request without labels.\<close>

lemma export_empty_labels:
  "Unmarshal_VolumeExportRequest (Marshal_VolumeExportRequest (r\<lparr>xr_Labels := Some []\<rparr>)) = Some (r\<lparr>xr_Labels := None\<rparr>)"
  by (cases r) (simp add: Marshal_VolumeExportRequest_def wire_fields dec_ptr_def)

interpretation create_wire: wire_format Marshal_VolumeCreateRequest Unmarshal_VolumeCreateRequest create_valid
  by unfold_locales (rule create_roundtrip)
interpretation update_wire: wire_format Marshal_VolumeUpdateRequest Unmarshal_VolumeUpdateRequest update_valid
  by unfold_locales (rule update_roundtrip)
interpretation snapshot_wire: wire_format Marshal_SnapshotCreateRequest Unmarshal_SnapshotCreateRequest "\<lambda>r. keys_distinct (scr_Labels r)"
  by unfold_locales (rule snapshot_request_roundtrip)
interpretation snapshot_clone_wire: wire_format Marshal_CloneCreateRequest Unmarshal_CloneCreateRequest "\<lambda>r. keys_distinct (ccr_Labels r)"
  by unfold_locales (rule snapshot_clone_roundtrip)
interpretation volume_clone_wire: wire_format Marshal_VolumeCloneRequest Unmarshal_VolumeCloneRequest "\<lambda>r. keys_distinct (vlr_Labels r)"
  by unfold_locales (rule volume_clone_roundtrip)
interpretation export_wire: wire_format Marshal_VolumeExportRequest Unmarshal_VolumeExportRequest export_valid
  by unfold_locales (rule export_roundtrip)
interpretation task_wire: wire_format Marshal_TaskCreateRequest Unmarshal_TaskCreateRequest "\<lambda>r. keys_distinct (tq_Opts r) \<and> keys_distinct (tq_Labels r)"
  by unfold_locales (rule task_roundtrip)

section \<open>Properties\<close>


text \<open>One request of each kind. The update clears the labels, keeps the mode, and sets the user to 0.\<close>

definition some_labels :: labels where
  "some_labels = [(''created-by'', ''cli''), (''env'', [])]"

definition some_create :: VolumeCreateRequest where
  "some_create = \<lparr>vcr_Name = ''v'', vcr_SizeBytes = 4096, vcr_NoCOW = False, vcr_Compression = ''zstd'', vcr_QuotaBytes = 4096,
     vcr_UID = 1000, vcr_GID = 0, vcr_Mode = ''2770'', vcr_Labels = some_labels\<rparr>"

definition clearing_update :: VolumeUpdateRequest where
  "clearing_update = \<lparr>vur_SizeBytes = Some 4096, vur_NoCOW = Some False, vur_Compression = Some [], vur_UID = Some 0, vur_GID = None,
     vur_Mode = None, vur_Labels = Some []\<rparr>"

definition some_snapshot :: SnapshotCreateRequest where
  "some_snapshot = \<lparr>scr_Volume = ''v'', scr_Name = ''s'', scr_Labels = some_labels\<rparr>"

definition some_clone :: CloneCreateRequest where
  "some_clone = \<lparr>ccr_Snapshot = ''s'', ccr_Name = ''c'', ccr_Labels = []\<rparr>"

definition some_volume_clone :: VolumeCloneRequest where
  "some_volume_clone = \<lparr>vlr_Source = ''v'', vlr_Name = ''c'', vlr_Labels = some_labels\<rparr>"

definition some_export :: VolumeExportRequest where
  "some_export = \<lparr>xr_Client = ''10.0.0.1'', xr_Labels = Some some_labels\<rparr>"


end
