(* ===== verification/Identifiers.thy ===== *)
theory Identifiers
  imports Workers Controller
begin

text \<open>
  Generated identifiers: of tasks (\<open>agent/storage/task/utils.go\<close>) and of page snapshots (\<open>handler.go\<close>), random bytes in
  hexadecimal, and the page tokens of the controller (\<open>controller/utils.go\<close>). The random bytes are arguments, the JSON of
  a page token is a pair of functions. Shown is that the file of a task with a generated identifier is never the file of
  a volume or a snapshot, which the clean-up of tasks relies on.
\<close>

section \<open>Definitions\<close>

definition hex_digits :: string where "hex_digits = ''0123456789abcdef''"

text \<open>\<open>hex.EncodeToString\<close>\<close>

definition hex_encode :: "string \<Rightarrow> string" where
  "hex_encode bs = concat (map (\<lambda>b. [hex_digits ! (of_char b div 16), hex_digits ! (of_char b mod 16)]) bs)"

text \<open>A failure of the random source ends the process; 16 bytes are asked for.\<close>

definition generateID :: "(nat \<Rightarrow> string + string) \<Rightarrow> string + string" where
  "generateID rand_read = (case rand_read 16 of Inl e \<Rightarrow> Inl (''crypto/rand failed: '' @ e) | Inr b \<Rightarrow> Inr (hex_encode b))"

text \<open>Here an error is ignored and the 8 bytes are what the source left in them.\<close>

definition generateSnapID :: "(nat \<Rightarrow> string) \<Rightarrow> string" where
  "generateSnapID rand_bytes = hex_encode (rand_bytes 8)"

definition encodePageToken :: "(string \<times> string \<Rightarrow> string) \<Rightarrow> string \<Rightarrow> string \<Rightarrow> string" where
  "encodePageToken marshal_json sc after = RawURL_encode (marshal_json (sc, after))"

section \<open>Laws\<close>

lemma hex_digits_ok: "distinct hex_digits" "length hex_digits = 16"
  by (simp_all add: hex_digits_def)

lemma hex_encode_length [simp]: "length (hex_encode bs) = 2 * length bs"
  by (induction bs) (simp_all add: hex_encode_def)

lemma of_char_16: "(of_char c :: nat) div 16 < 16" "(of_char c :: nat) mod 16 < 16"
proof -
  have "(of_char c :: nat) < 256" using range_nat_of_char by (metis atLeastLessThan_iff rangeI)
  then show "(of_char c :: nat) div 16 < 16" by (simp add: less_mult_imp_div_less)
qed simp

lemma hex_encode_chars: "set (hex_encode bs) \<subseteq> set hex_digits"
  using nth_mem[of _ hex_digits] of_char_16 by (auto simp: hex_encode_def hex_digits_ok(2))

lemma hex_digit_inject: "i < 16 \<Longrightarrow> j < 16 \<Longrightarrow> hex_digits ! i = hex_digits ! j \<longleftrightarrow> i = j"
  using hex_digits_ok by (simp add: nth_eq_iff_index_eq)

text \<open>Different bytes give different identifiers.\<close>

lemma hex_encode_inject: "hex_encode xs = hex_encode ys \<longleftrightarrow> xs = ys"
proof (induction xs arbitrary: ys)
  case (Cons x xs)
  show ?case
  proof (cases ys)
    case (Cons y zs)
    have "(of_char x :: nat) = of_char y" if "(of_char x :: nat) div 16 = of_char y div 16" "(of_char x :: nat) mod 16 = of_char y mod 16"
      using that by (metis div_mult_mod_eq)
    then have "hex_encode (x # xs) = hex_encode (y # zs) \<longleftrightarrow> x = y \<and> hex_encode xs = hex_encode zs"
      by (auto simp: hex_encode_def hex_digit_inject of_char_16)
    then show ?thesis using Cons.IH Cons by simp
  qed (simp add: hex_encode_def)
qed (auto simp: hex_encode_def)

lemma taskFile_comps: "tm_taskDir tm \<noteq> [] \<Longrightarrow> plain_comp (i @ ''.json'') \<Longrightarrow>
    path_comps (taskFile tm i) = path_comps (tm_taskDir tm) @ [i @ ''.json'']"
  using path_comps_render[OF clean_shape_append[OF path_comps_shape, of "[i @ ''.json'']"]]
  by (simp add: taskFile_def filepath_join_comps)

lemma MetaPath_comps: "store_wf s \<Longrightarrow> ValidName t \<Longrightarrow> ValidName n \<Longrightarrow> path_comps (MetaPath s t n) = entry_comps s t n @ [MetadataFile]"
  using path_comps_render[OF clean_shape_append[of "is_rooted (basePath s)" "entry_comps s t n" "[MetadataFile]"]] entry_comps_shape[of s t n]
  by (simp add: MetaPath_render)

text \<open>The files of tasks with generated identifiers are apart from all metadata, so the clean-up of tasks is in order.\<close>

lemma generated_apart:
  assumes "sys_inv w s" "tm_taskDir tm \<noteq> []" "\<forall>i \<in> fst ` set (tm_tasks tm). \<exists>bs. i = hex_encode bs"
  shows "tasks_apart s tm"
  unfolding tasks_apart_def
proof (intro ballI allI impI)
  fix i t n assume i: "i \<in> fst ` set (tm_tasks tm)" and v: "ValidName t" "ValidName n"
  obtain bs where bs: "i = hex_encode bs" using assms(3) i by blast
  have c: "CHR ''/'' \<notin> set i" "CHR ''m'' \<notin> set i" using hex_encode_chars[of bs] bs by (auto simp: hex_digits_def)
  have p: "plain_comp (i @ ''.json'')" using c(1) by (cases i) (auto simp: plain_comp_def good_comp_def)
  have "i @ ''.json'' \<noteq> MetadataFile"
  proof
    assume "i @ ''.json'' = MetadataFile"
    then have "i = ''metadata''" using append_same_eq[of i "''.json''" "''metadata''"] by (simp add: MetadataFile_def)
    then show False using c(2) by simp
  qed
  then have "path_comps (taskFile tm i) \<noteq> path_comps (MetaPath st t n)" if "store_wf st" for st :: "'x store"
    using taskFile_comps[OF assms(2) p] MetaPath_comps[OF that v] by simp
  then show "taskFile tm i \<noteq> MetaPath (st_volumes s) t n \<and> taskFile tm i \<noteq> MetaPath (st_snapshots s) t n"
    using sys_invD(3,4)[OF assms(1)] by metis
qed

text \<open>A page token is read back.\<close>

lemma page_token_roundtrip:
  assumes "\<And>p. json (marshal_json p) = Some p" "\<And>p. marshal_json p \<noteq> []"
  shows "decodePageToken json (encodePageToken marshal_json sc after) = Inr (sc, after)"
proof -
  have "RawURL_encode (marshal_json (sc, after)) \<noteq> []"
    using RawURL_roundtrip[of "marshal_json (sc, after)"] RawURL_roundtrip[of "[]"] assms(2)
    by (metis (no_types, lifting) RawURL_encode_def option.inject raw_encode.simps(1))
  then show ?thesis using assms(1) by (simp add: decodePageToken_def encodePageToken_def)
qed

end
