(* ===== verification/Spec2Isabelle.thy ===== *)
theory Spec2Isabelle
  imports AgentProps ReconcileProps Usage StartProps SystemProps PathLock TaskProps ClientProps Prefetch ControllerProps Node CliProps
    TaskMetrics CliMain Wire Identifiers
begin

text \<open>
  A verification development of \<open>btrfs-nfs-csi\<close>, a storage system that serves btrfs subvolumes over NFS to
  Kubernetes.

  \<^bold>\<open>The program.\<close> An \<^emph>\<open>agent\<close> runs on the storage host. It keeps one directory per volume below a directory per
  tenant, each with a btrfs subvolume \<open>data\<close> and a file \<open>metadata.json\<close>, a cache of the metadata, snapshots
  below \<open>snapshots\<close>, and the entries of the kernel's NFS export table. Handlers of an HTTP API create, update,
  clone, snapshot, export and delete; workers reconcile exports, measure usage, poll devices and run tasks.
  A \<^emph>\<open>client\<close> library speaks the API. The \<^emph>\<open>controller\<close> of the Kubernetes integration translates CSI calls into
  requests of the client, and the \<^emph>\<open>node\<close> service mounts what was exported. A \<^emph>\<open>command line\<close> manages the agent
  through the same client.

  \<^bold>\<open>Shared theories.\<close> \<open>Prelude\<close> has what the program uses of Go's \<open>strings\<close>, \<open>strconv\<close> and maps.
  \<open>Filesystem\<close> has \<open>path/filepath\<close> and a world of nodes in which every system call may fail, as decided by
  the component \<open>faults\<close> of the world: a theorem about a handler holds for every pattern of failures.
  \<open>Base64\<close> has the encodings the API uses. \<open>Demo\<close> is a small running agent that the witnesses evaluate.

  \<^bold>\<open>The agent's storage\<close> (\<open>agent/storage\<close>, \<open>config\<close>, \<open>utils\<close>).
  \<^item> \<open>Config\<close>, \<open>Sizes\<close>, \<open>Format\<close>: validation rules, size and mode arithmetic, the printing of sizes (\<open>config/config.go\<close>, \<open>utils/\<close>).
  \<^item> \<open>MetaStore\<close>, \<open>Types\<close>: the metadata store of \<open>meta/store.go\<close> and the records of \<open>model.go\<close> with their JSON.
    The locale \<open>metadata_store\<close> states what a store promises for any record with a round trip through JSON;
    it is interpreted for volumes and for snapshots. \<open>PathLock\<close> is the pool of locks of the same file.
  \<^item> \<open>Btrfs\<close>, \<open>BtrfsParse\<close>: the commands of \<open>btrfs/btrfs.go\<close> and the parsers of their output. The programs are a
    runner that the operations take as a parameter.
  \<^item> \<open>Nfs\<close>, \<open>ExportTable\<close>: \<open>nfs/kernel.go\<close>. The locale \<open>exportfs_program\<close> states how \<open>exportfs\<close> behaves,
    \<open>nfs_exporter\<close> what an exporter promises; a sublocale shows that the kernel exporter keeps the promise
    above any such program, and an interpretation instantiates it.
  \<^item> \<open>Provision\<close>, \<open>Volumes\<close>, \<open>Snapshots\<close>, \<open>Exports\<close>, \<open>Usage\<close>, \<open>Stats\<close>: the handlers and workers of
    \<open>volume.go\<close>, \<open>clone.go\<close>, \<open>snapshot.go\<close>, \<open>export.go\<close>, \<open>reconciler.go\<close>, \<open>usage.go\<close> and \<open>stats.go\<close>, whole and in
    the order of their steps, with every early return.
  \<^item> \<open>Mounts\<close>, \<open>Start\<close>: \<open>New\<close>, \<open>loadCache\<close> and the mount point lookup. \<open>Tasks\<close>, \<open>Scrub\<close>: the task manager, its
    goroutines, the scrub and the test task.
  \<^item> \<open>System\<close>, \<open>Tenants\<close>: the agent as a transition system over all handlers and workers. \<open>Workers\<close>: \<open>StartWorkers\<close> and the
    ticker loops as goroutines; the locale \<open>ticker_pool\<close> carries an invariant of the turns to every interleaving and is
    interpreted on the agent's workers.
  \<^item> \<open>Runner\<close>: the process runner of \<open>utils/runner.go\<close>, the mock beside it and the constructors that use them.

  \<^bold>\<open>The HTTP API\<close> (\<open>agent/api/v1\<close>). \<open>Pagination\<close> has filters, cursors and page snapshots with deadlines; the
  locale \<open>page_items\<close> is interpreted for the four kinds of list. \<open>ApiModels\<close> and \<open>Api\<close> have the wire types,
  authentication, handlers and routes. \<open>Client\<close> has every operation of \<open>client/client.go\<close>, over a transport;
  \<open>Prefetch\<close> its prefetching pipeline. \<open>Wire\<close> has the JSON of the requests, written with the tags of one package and read
  with those of another; the locale \<open>wire_format\<close> is interpreted for each of them. \<open>Identifiers\<close> has the identifiers of
  tasks and page snapshots and the page tokens of the controller.

  \<^bold>\<open>The Kubernetes integration\<close> (\<open>integrations/kubernetes\<close>). \<open>Csi\<close>: identifiers, constants and the Kubernetes
  objects that are read. \<open>Tracker\<close>: the table of agents. \<open>Params\<close>: parameters and labels of a claim. \<open>Controller\<close>:
  the CSI controller service. \<open>Node\<close>: the CSI node service.

  \<^bold>\<open>The command line\<close> (\<open>cmd/btrfs-nfs-csi\<close>). \<open>Cli\<close>: flags, tables, output and comparisons. \<open>CliVolume\<close> and \<open>CliOther\<close>: the
  actions. \<open>CliTree\<close>: the tree of commands, the watch loop and the run of an action. \<open>CliSort\<close>: the locale
  \<open>slices_sort\<close> states what the list commands need of Go's sorting routine, and insertion sort, which Go runs on short
  lists, is shown to keep it.

  \<^bold>\<open>Processes and metrics.\<close> \<open>Servers\<close>: configuration with its defaults, the CSI server of \<open>csiserver/server.go\<close>, the starts
  of agent, controller and node driver as lists of actions, the interceptors and the pages outside the API. \<open>CliMain\<close>: the
  server commands and the end of \<open>cmd/btrfs-nfs-csi/main.go\<close>. \<open>MetricDecl\<close>: the collectors of the five \<open>metrics.go\<close> files;
  a gauge is what the calls on it add up to. \<open>Metrics\<close>: the calls of the workers. \<open>TaskMetrics\<close>: those of the task
  manager, made one by one between the steps of the goroutines.

  \<^bold>\<open>What is shown.\<close>
  \<^item> \<open>VolumeProps\<close>, \<open>AgentProps\<close>: a create has all of its effect or, when it fails, none; an update shrinks
    nothing and keeps protected labels; a deleted volume is gone and nothing else is.
  \<^item> \<open>ExportProps\<close>, \<open>ReconcileProps\<close>: references and kernel table stay in step, a refinement of the table by
    the references of the metadata; the exact effect of the reconciler; two cases in which the code does not
    do what its comments say.
  \<^item> \<open>StartProps\<close>, \<open>SystemProps\<close>: restarting loses nothing; an invariant of every reachable state; tenants are
    isolated. \<open>PathLock\<close>: mutual exclusion and progress in every interleaving. \<open>TaskProps\<close>: worker limit, life
    cycle, exclusive scrubs, and a race that leaves a stale file. \<open>Workers\<close>: the agent's invariant under all workers,
    handlers and tasks, shutdown included, and that an interval of zero ends the process.
  \<^item> \<open>Sizes\<close>, \<open>Nfs\<close>, \<open>BtrfsParse\<close>, \<open>Pagination\<close>, \<open>Csi\<close>: parsers are exact or invert the printers. \<open>Stats\<close>: health.
  \<^item> \<open>ApiProps\<close>: nothing without a token, isolation of tenants over HTTP, bounded page snapshots, and a cursor
    that crosses tenants. \<open>Protocol\<close>: requests and answers of client and agent fit together. \<open>ClientProps\<close>: a
    listing ends and is complete whatever happens between its pages; a repeated create is harmless.
    \<open>Prefetch\<close>: the pipeline is equivalent to the sequential loop, ends, and leaves no goroutine behind.
  \<^item> \<open>ControllerProps\<close>, \<open>Node\<close>: publishing exports, unpublishing removes, creating and deleting are idempotent, all
    through client, API and storage down to the kernel's table; labels cannot be forged; a published target is
    mounted; the volume statistics are exact. \<open>Quiet\<close> has the lemmas that carry an operation of the client to the
    operation of the storage.
  \<^item> \<open>CliProps\<close>: a delete without confirmation spares what others have created; expanding is exact and never shrinks.
    \<open>CliTree\<close>, \<open>CliMain\<close>: names, aliases and flags are unambiguous. \<open>Format\<close>: whole units are printed in a form that is read back.
  \<^item> \<open>Wire\<close>: requests survive the wire. \<open>Identifiers\<close>: different random bytes give different identifiers. \<open>Servers\<close>: an agent
    with a certificate never serves plain HTTP; the select of a CSI server; an empty token lets everyone in. \<open>Runner\<close>: the
    text of an error tells exactly what the agent looks for in it.
  \<^item> \<open>MetricDecl\<close>: collectors have different names and are all registered, and no call has a wrong number of labels.
    \<open>Metrics\<close>: the device gauges are exact after a poll, those of volumes are stale and late. \<open>TaskMetrics\<close>: the task
    gauges are exact with a worker limit and leak without one.

  \<^bold>\<open>Bounds.\<close> No definition has a fuel argument. Loops over data are structural recursion or come with a
  measure; the page loops of the client, which may run for ever against an arbitrary transport, are partial
  functions with the value \<open>None\<close> for not returning, and \<open>ClientProps\<close> proves that they return against the agent.
  Concurrency is modelled where the code relies on it (path locks, tasks, workers, prefetching, shutdown) as step relations with
  one step for each operation on shared state; handlers of one entry exclude each other by the path lock and are
  one step each. Machine integers are words or are bounded where they are read.

  \<^bold>\<open>Not modelled.\<close> The text of JSON (values are trees, response bodies are typed), floating-point figures (an
  argument), log output, the document in \<open>swagger/docs.go\<close>, which \<open>swag\<close> generates, the operation counters inside the calls
  of controller and node (they are declared in \<open>MetricDecl\<close> and not followed), terminal control, and the parsing of
  arguments, which \<open>urfave/cli\<close> does. Sockets, the environment parser, the execution of programs, random bytes,
  Kubernetes, SHA-256, mount utilities and network interfaces are arguments of the definitions that call them; TLS and
  the page of metrics are those of the libraries.
\<close>

end
